(* ===== verification/JS_Prelude.thy ===== *)
theory JS_Prelude
  imports Main "HOL-Library.Multiset"
begin

text \<open>
  Shared vocabulary of the development: the JavaScript values, strings, arrays and
  comparators the modelled packages use, with the lemmas the component theories share.

  Strings are lists of 8-bit code units (the Latin-1 part of JavaScript's UTF-16
  strings), so \<open>length\<close> is JavaScript's \<open>length\<close>. Numbers that carry milliseconds,
  sequence numbers and counters are integers; \<open>jsnum\<close> adds the non-finite values that
  a decoder has to reject. An optional property (\<open>x?: T\<close>) is an \<open>option\<close>, and a
  conditional spread \<open>...(x === undefined ? {} : { x })\<close> is the field with value \<open>x\<close>.
\<close>

named_theorems js_simps \<open>evaluation of the string and array helpers\<close>
named_theorems comparator_intros \<open>rules that build consistent comparators\<close>

section \<open>Values, errors and partial results\<close>

datatype js_error = Error string | TypeError string

datatype jsnum = Finite int | Infinity | NegInfinity | NaN

datatype jsval =
    JUndefined
  | JNull
  | JBool bool
  | JNum jsnum
  | JStr string
  | JArr "jsval list"
  | JObj "(string \<times> jsval) list"

text \<open>Reading a property: an absent one is \<open>undefined\<close>.\<close>

fun alist_get :: "(string \<times> jsval) list \<Rightarrow> string \<Rightarrow> jsval" where
  "alist_get [] k = JUndefined"
| "alist_get ((k', v) # kvs) k = (if k' = k then v else alist_get kvs k)"

fun js_get :: "jsval \<Rightarrow> string \<Rightarrow> jsval" where
  "js_get (JObj kvs) k = alist_get kvs k"
| "js_get _ k = JUndefined"

text \<open>An object literal whose \<open>undefined\<close> properties were left out by a conditional spread.\<close>

definition js_object :: "(string \<times> jsval) list \<Rightarrow> jsval" where
  "js_object kvs = JObj (filter (\<lambda>(k, v). v \<noteq> JUndefined) kvs)"

lemma js_get_object_Nil [simp]: "js_get (js_object []) k = JUndefined"
  by (simp add: js_object_def)

lemma alist_get_absent [simp]: "k \<notin> fst ` set kvs \<Longrightarrow> alist_get kvs k = JUndefined"
  by (induction kvs k rule: alist_get.induct) auto

lemma js_get_object_hit [simp]:
  "k \<notin> fst ` set kvs \<Longrightarrow> js_get (js_object ((k, v) # kvs)) k = v"
proof -
  assume "k \<notin> fst ` set kvs"
  then have "k \<notin> fst ` set (filter (\<lambda>(k, v). v \<noteq> JUndefined) kvs)" by auto
  then show ?thesis by (simp add: js_object_def)
qed

lemma js_get_object_miss [simp]:
  "k' \<noteq> k \<Longrightarrow> js_get (js_object ((k', v) # kvs)) k = js_get (js_object kvs) k"
  by (simp add: js_object_def)

fun as_string :: "jsval \<Rightarrow> string option" where
  "as_string (JStr s) = Some s"
| "as_string _ = None"

fun as_finite :: "jsval \<Rightarrow> int option" where
  "as_finite (JNum (Finite n)) = Some n"
| "as_finite _ = None"

fun js_opt :: "('a \<Rightarrow> jsval) \<Rightarrow> 'a option \<Rightarrow> jsval" where
  "js_opt f None = JUndefined"
| "js_opt f (Some x) = f x"

abbreviation js_int :: "int \<Rightarrow> jsval" where
  "js_int n \<equiv> JNum (Finite n)"

lemma as_string_js_opt [simp]: "as_string (js_opt JStr x) = x"
  by (cases x) simp_all

lemma as_finite_js_opt [simp]: "as_finite (js_opt js_int x) = x"
  by (cases x) simp_all

lemma js_opt_eq_undefined [simp]:
  "(\<And>v. f v \<noteq> JUndefined) \<Longrightarrow> js_opt f x = JUndefined \<longleftrightarrow> x = None"
  by (cases x) simp_all

text \<open>The nullish operator \<open>a ?? b\<close>, with an optional and with a definite right side.\<close>

definition nullish :: "'a option \<Rightarrow> 'a option \<Rightarrow> 'a option" where
  "nullish a b = (case a of None \<Rightarrow> b | Some x \<Rightarrow> Some x)"

definition nullish_else :: "'a option \<Rightarrow> 'a \<Rightarrow> 'a" where
  "nullish_else a d = (case a of None \<Rightarrow> d | Some x \<Rightarrow> x)"

lemma nullish_simps [simp]:
  "nullish None b = b" "nullish (Some x) b = Some x"
  "nullish_else None d = d" "nullish_else (Some x) d = x"
  by (simp_all add: nullish_def nullish_else_def)

text \<open>\<open>xs.map(f)\<close> followed by the rejection of the whole array when one entry is null.\<close>

fun map_all :: "('a \<Rightarrow> 'b option) \<Rightarrow> 'a list \<Rightarrow> 'b list option" where
  "map_all f [] = Some []"
| "map_all f (x # xs) =
     (case f x of None \<Rightarrow> None
      | Some y \<Rightarrow> (case map_all f xs of None \<Rightarrow> None | Some ys \<Rightarrow> Some (y # ys)))"

lemma map_all_map: "(\<And>x. x \<in> set xs \<Longrightarrow> f (g x) = Some x) \<Longrightarrow> map_all f (map g xs) = Some xs"
  by (induction xs) auto

lemma map_all_length: "map_all f xs = Some ys \<Longrightarrow> length ys = length xs"
  by (induction xs arbitrary: ys) (auto split: option.splits)

section \<open>Strings\<close>

text \<open>The white space and line terminators of \<open>String.prototype.trim\<close> among the code units.\<close>

definition is_js_space :: "char \<Rightarrow> bool" where
  "is_js_space c = (of_char c \<in> {9, 10, 11, 12, 13, 32, 160 :: nat})"

definition js_trim :: "string \<Rightarrow> string" where
  "js_trim s = rev (dropWhile is_js_space (rev (dropWhile is_js_space s)))"

fun js_split :: "char \<Rightarrow> string \<Rightarrow> string list" where
  "js_split c [] = [[]]"
| "js_split c (x # xs) =
     (if x = c then [] # js_split c xs
      else (case js_split c xs of [] \<Rightarrow> [[x]] | y # ys \<Rightarrow> (x # y) # ys))"

fun js_join :: "string \<Rightarrow> string list \<Rightarrow> string" where
  "js_join sep [] = []"
| "js_join sep [x] = x"
| "js_join sep (x # y # ys) = x @ sep @ js_join sep (y # ys)"

definition starts_with :: "string \<Rightarrow> string \<Rightarrow> bool" where
  "starts_with p s \<longleftrightarrow> take (length p) s = p"

lemma starts_with_append [simp]: "starts_with p (p @ s)"
  by (simp add: starts_with_def)

text \<open>\<open>replace(/[^...]+/g, "_")\<close>: each maximal run of characters outside the kept class becomes
  one underscore. The flag tells whether the scan is inside such a run.\<close>

fun replace_runs :: "(char \<Rightarrow> bool) \<Rightarrow> bool \<Rightarrow> string \<Rightarrow> string" where
  "replace_runs kept inRun [] = []"
| "replace_runs kept inRun (c # cs) =
     (if kept c then c # replace_runs kept False cs
      else if inRun then replace_runs kept True cs
      else CHR ''_'' # replace_runs kept True cs)"

definition ascii_lower :: "char \<Rightarrow> char" where
  "ascii_lower c =
     (let n = (of_char c :: nat) in if 65 \<le> n \<and> n \<le> 90 then char_of (n + 32) else c)"

text \<open>Decimal digits, as a template literal prints an integer.\<close>

fun show_nat :: "nat \<Rightarrow> string" where
  "show_nat n =
     (if n < 10 then [char_of (48 + n)] else show_nat (n div 10) @ [char_of (48 + n mod 10)])"

declare show_nat.simps [simp del]

definition js_show :: "int \<Rightarrow> string" where
  "js_show i = (if i < 0 then CHR ''-'' # show_nat (nat (- i)) else show_nat (nat i))"

lemma digit_inject:
  assumes "m < 10" and "n < (10 :: nat)"
    and eq: "char_of (48 + m) = (char_of (48 + n) :: char)"
  shows "m = n"
proof -
  have "(of_char (char_of (48 + m) :: char) :: nat) = of_char (char_of (48 + n) :: char)"
    using eq by simp
  with assms(1,2) show ?thesis
    by (simp only: of_char_of) simp
qed

lemma show_nat_small: "n < 10 \<Longrightarrow> show_nat n = [char_of (48 + n)]"
  by (subst show_nat.simps) simp

lemma show_nat_large: "\<not> n < 10 \<Longrightarrow> show_nat n = show_nat (n div 10) @ [char_of (48 + n mod 10)]"
  by (subst show_nat.simps) simp

lemma show_nat_not_Nil [simp]: "show_nat n \<noteq> []" "[] \<noteq> show_nat n"
  by (cases "n < 10"; simp add: show_nat_small show_nat_large)+

lemma show_nat_inject: "show_nat m = show_nat n \<Longrightarrow> m = n"
proof (induction m arbitrary: n rule: show_nat.induct)
  case (1 m)
  show ?case
  proof (cases "m < 10")
    case True
    with "1.prems" have n: "n < 10"
      by (cases "n < 10") (auto simp: show_nat_small show_nat_large)
    with True "1.prems" show ?thesis
      by (intro digit_inject) (auto simp: show_nat_small)
  next
    case False
    with "1.prems" have n: "\<not> n < 10"
      by (cases "n < 10") (auto simp: show_nat_small show_nat_large)
    with False "1.prems" have eq: "show_nat (m div 10) = show_nat (n div 10)"
      and last: "char_of (48 + m mod 10) = (char_of (48 + n mod 10) :: char)"
      by (simp_all add: show_nat_large)
    have "m div 10 = n div 10"
      using "1.IH" [OF False eq] .
    moreover have "m mod 10 = n mod 10"
      by (rule digit_inject [OF _ _ last]) simp_all
    ultimately show ?thesis
      by (metis mult_div_mod_eq)
  qed
qed

section \<open>Arrays\<close>

text \<open>\<open>[...new Set(xs)]\<close>: the first occurrence of each value, in order.\<close>

fun js_unique :: "'a list \<Rightarrow> 'a list" where
  "js_unique [] = []"
| "js_unique (x # xs) = x # filter (\<lambda>y. y \<noteq> x) (js_unique xs)"

lemma set_js_unique [simp]: "set (js_unique xs) = set xs"
  by (induction xs) auto

lemma distinct_js_unique [simp]: "distinct (js_unique xs)"
  by (induction xs) auto

lemma js_unique_distinct [simp]: "distinct xs \<Longrightarrow> js_unique xs = xs"
  by (induction xs) (auto simp: filter_id_conv)

lemma js_unique_Nil_iff [simp]: "js_unique xs = [] \<longleftrightarrow> xs = []"
  by (cases xs) auto

text \<open>\<open>left.filter(x => new Set(right).has(x))\<close>.\<close>

definition js_intersect :: "'a list \<Rightarrow> 'a list \<Rightarrow> 'a list" where
  "js_intersect xs ys = filter (\<lambda>x. x \<in> set ys) xs"

lemma js_intersect_Nil_iff: "js_intersect xs ys = [] \<longleftrightarrow> set xs \<inter> set ys = {}"
  by (auto simp: js_intersect_def filter_empty_conv)

lemma js_intersect_empty [simp]: "js_intersect [] ys = []" "js_intersect xs [] = []"
  by (simp_all add: js_intersect_def)

lemma set_js_intersect [simp]: "set (js_intersect xs ys) = set xs \<inter> set ys"
  by (auto simp: js_intersect_def)

text \<open>\<open>Array.prototype.sort\<close> is stable; the insertion sort below is one stable sort, and
  \<open>js_sort_unique\<close> shows that for a consistent comparator every stable sort agrees with it.\<close>

fun js_insert :: "('a \<Rightarrow> 'a \<Rightarrow> int) \<Rightarrow> 'a \<Rightarrow> 'a list \<Rightarrow> 'a list" where
  "js_insert cmp x [] = [x]"
| "js_insert cmp x (y # ys) = (if cmp x y \<le> 0 then x # y # ys else y # js_insert cmp x ys)"

fun js_sort :: "('a \<Rightarrow> 'a \<Rightarrow> int) \<Rightarrow> 'a list \<Rightarrow> 'a list" where
  "js_sort cmp [] = []"
| "js_sort cmp (x # xs) = js_insert cmp x (js_sort cmp xs)"

lemma mset_js_insert [simp]: "mset (js_insert cmp x xs) = add_mset x (mset xs)"
  by (induction xs) auto

lemma mset_js_sort [simp]: "mset (js_sort cmp xs) = mset xs"
  by (induction xs) auto

lemma set_js_insert [simp]: "set (js_insert cmp x xs) = insert x (set xs)"
  by (induction xs) auto

lemma set_js_sort [simp]: "set (js_sort cmp xs) = set xs"
  by (induction xs) auto

lemma length_js_sort [simp]: "length (js_sort cmp xs) = length xs"
  by (metis mset_js_sort size_mset)

lemma distinct_map_js_sort [simp]: "distinct (map f (js_sort cmp xs)) \<longleftrightarrow> distinct (map f xs)"
  by (metis mset_eq_imp_distinct_iff mset_js_sort mset_map)

section \<open>Comparators\<close>

locale consistent_comparator =
  fixes cmp :: "'a \<Rightarrow> 'a \<Rightarrow> int"
  assumes sign: "cmp x y < 0 \<longleftrightarrow> 0 < cmp y x"
    and trans_le: "cmp x y \<le> 0 \<Longrightarrow> cmp y z \<le> 0 \<Longrightarrow> cmp x z \<le> 0"
begin

lemma cmp_self [simp]: "cmp x x = 0"
  using sign [of x x] by linarith

lemma cmp_total: "\<not> cmp x y \<le> 0 \<Longrightarrow> cmp y x \<le> 0"
  using sign [of y x] by linarith

lemma cmp_zero_sym: "cmp x y = 0 \<longleftrightarrow> cmp y x = 0"
  using sign [of x y] sign [of y x] by linarith

lemma insert_ordered:
  "sorted_wrt (\<lambda>u v. cmp u v \<le> 0) ys \<Longrightarrow> sorted_wrt (\<lambda>u v. cmp u v \<le> 0) (js_insert cmp x ys)"
proof (induction ys)
  case Nil
  then show ?case by simp
next
  case (Cons y ys)
  then show ?case
    by (auto intro: trans_le dest: cmp_total)
qed

lemma sort_ordered: "sorted_wrt (\<lambda>u v. cmp u v \<le> 0) (js_sort cmp xs)"
  by (induction xs) (auto simp: insert_ordered)

lemma filter_insert_other:
  "\<not> P x \<Longrightarrow> filter P (js_insert cmp x ys) = filter P ys"
  by (induction ys) auto

lemma filter_insert_class:
  "sorted_wrt (\<lambda>u v. cmp u v \<le> 0) ys \<Longrightarrow> cmp x k = 0 \<Longrightarrow>
     filter (\<lambda>y. cmp y k = 0) (js_insert cmp x ys) = x # filter (\<lambda>y. cmp y k = 0) ys"
proof (induction ys)
  case Nil
  then show ?case by simp
next
  case (Cons y ys)
  show ?case
  proof (cases "cmp x y \<le> 0")
    case True
    with Cons.prems show ?thesis by simp
  next
    case False
    have "cmp y k \<noteq> 0"
    proof
      assume "cmp y k = 0"
      then have "cmp k y \<le> 0" using cmp_zero_sym [of y k] by simp
      with Cons.prems(2) have "cmp x y \<le> 0" using trans_le [of x k y] by simp
      with False show False by simp
    qed
    with False Cons show ?thesis by simp
  qed
qed

lemma sort_stable: "filter (\<lambda>y. cmp y k = 0) (js_sort cmp xs) = filter (\<lambda>y. cmp y k = 0) xs"
proof (induction xs)
  case Nil
  then show ?case by simp
next
  case (Cons x xs)
  then show ?case
    by (cases "cmp x k = 0") (auto simp: filter_insert_class sort_ordered filter_insert_other)
qed

lemma ordered_stable_unique:
  "sorted_wrt (\<lambda>u v. cmp u v \<le> 0) ys \<Longrightarrow> sorted_wrt (\<lambda>u v. cmp u v \<le> 0) zs \<Longrightarrow>
   mset ys = mset zs \<Longrightarrow>
   (\<And>k. filter (\<lambda>y. cmp y k = 0) ys = filter (\<lambda>y. cmp y k = 0) zs) \<Longrightarrow> ys = zs"
proof (induction ys arbitrary: zs)
  case Nil
  then show ?case by simp
next
  case (Cons y ys)
  then obtain z zs' where zs: "zs = z # zs'"
    by (cases zs) auto
  have yz: "cmp y z \<le> 0"
    using Cons.prems(1,3) zs
    by (metis cmp_self order_refl list.set_intros(1) mset_eq_setD set_ConsD sorted_wrt.simps(2))
  have zy: "cmp z y \<le> 0"
    using Cons.prems(2,3) zs
    by (metis cmp_self order_refl list.set_intros(1) mset_eq_setD set_ConsD sorted_wrt.simps(2))
  have "cmp z y = 0"
    using yz zy sign [of z y] sign [of y z] by linarith
  with Cons.prems(4) [of y] zs have yz_eq: "y = z"
    by simp
  have tails: "filter (\<lambda>u. cmp u k = 0) ys = filter (\<lambda>u. cmp u k = 0) zs'" for k
    using Cons.prems(4) [of k] zs yz_eq by (cases "cmp y k = 0") auto
  have "ys = zs'"
    using Cons.prems(1,2,3) zs yz_eq by (intro Cons.IH tails) auto
  with zs yz_eq show ?case by simp
qed

lemma sort_unique:
  "sorted_wrt (\<lambda>u v. cmp u v \<le> 0) ys \<Longrightarrow> mset ys = mset xs \<Longrightarrow>
   (\<And>k. filter (\<lambda>y. cmp y k = 0) ys = filter (\<lambda>y. cmp y k = 0) xs) \<Longrightarrow> ys = js_sort cmp xs"
  by (rule ordered_stable_unique [OF _ sort_ordered]) (auto simp: sort_stable)

end

text \<open>The comparators of the code compare integer keys first and break ties with another comparator.\<close>

lemma comparator_const [comparator_intros]: "consistent_comparator (\<lambda>x y. 0)"
  by unfold_locales auto

lemma comparator_by_key [comparator_intros]:
  assumes "consistent_comparator c"
  shows "consistent_comparator (\<lambda>x y. if f x \<noteq> f y then (f x :: int) - f y else c x y)"
proof -
  have c_sign: "c x y < 0 \<longleftrightarrow> 0 < c y x" for x y
    by (rule consistent_comparator.sign [OF assms])
  have c_trans: "c x y \<le> 0 \<Longrightarrow> c y z \<le> 0 \<Longrightarrow> c x z \<le> 0" for x y z
    by (rule consistent_comparator.trans_le [OF assms])
  show ?thesis
    by unfold_locales (auto simp: c_sign split: if_splits intro: c_trans)
qed

lemma comparator_on:
  assumes "consistent_comparator c"
  shows "consistent_comparator (\<lambda>x y. c (g x) (g y))"
  by unfold_locales
    (use consistent_comparator.sign [OF assms] consistent_comparator.trans_le [OF assms] in blast)+

subsection \<open>\<open>localeCompare\<close>\<close>

text \<open>
  \<open>String.prototype.localeCompare\<close> in the default collation of V8: primary weights first
  (white space, punctuation, symbols, digits, then letters without regard to case), then
  upper case after lower case. The weights are the code units' positions in the collation's
  ASCII order; control characters are ignored. Code units above 127 get the weights after the
  letters, which is not the collation of accented letters: no lemma below depends on the
  weights, only on the two comparisons being lexicographic.
\<close>

definition collation_order :: "nat list" where
  "collation_order =
     [9, 10, 11, 12, 13, 32, 95, 45, 44, 59, 58, 33, 63, 46, 39, 34, 40, 41, 91, 93, 123, 125,
      64, 42, 47, 92, 38, 35, 37, 96, 94, 43, 60, 61, 62, 124, 126, 36,
      48, 49, 50, 51, 52, 53, 54, 55, 56, 57]"

fun index_of :: "nat \<Rightarrow> nat list \<Rightarrow> nat" where
  "index_of n [] = 0"
| "index_of n (m # ms) = (if m = n then 0 else Suc (index_of n ms))"

definition collation_ignored :: "char \<Rightarrow> bool" where
  "collation_ignored c =
     (let n = (of_char c :: nat) in n < 9 \<or> (13 < n \<and> n < 32) \<or> n = 127)"

definition collation_primary :: "char \<Rightarrow> nat" where
  "collation_primary c =
     (let n = (of_char c :: nat) in
      if 65 \<le> n \<and> n \<le> 90 then 100 + (n - 65)
      else if 97 \<le> n \<and> n \<le> 122 then 100 + (n - 97)
      else if 128 \<le> n then n
      else index_of n collation_order)"

definition collation_case :: "char \<Rightarrow> nat" where
  "collation_case c = (if 65 \<le> (of_char c :: nat) \<and> of_char c \<le> (90 :: nat) then 1 else 0)"

fun lex_compare :: "nat list \<Rightarrow> nat list \<Rightarrow> int" where
  "lex_compare [] [] = 0"
| "lex_compare [] (y # ys) = - 1"
| "lex_compare (x # xs) [] = 1"
| "lex_compare (x # xs) (y # ys) =
     (if x < y then - 1 else if y < x then 1 else lex_compare xs ys)"

definition localeCompare :: "string \<Rightarrow> string \<Rightarrow> int" where
  "localeCompare s t =
     (let s' = filter (\<lambda>c. \<not> collation_ignored c) s;
          t' = filter (\<lambda>c. \<not> collation_ignored c) t;
          primary = lex_compare (map collation_primary s') (map collation_primary t')
      in if primary \<noteq> 0 then primary
         else lex_compare (map collation_case s') (map collation_case t'))"

lemma lex_compare_sign: "lex_compare xs ys < 0 \<longleftrightarrow> 0 < lex_compare ys xs"
  by (induction xs ys rule: lex_compare.induct) auto

lemma lex_compare_zero: "lex_compare xs ys = 0 \<longleftrightarrow> xs = ys"
  by (induction xs ys rule: lex_compare.induct) auto

lemma lex_compare_Cons_le:
  "lex_compare (x # xs) (y # ys) \<le> 0 \<longleftrightarrow> x < y \<or> (x = y \<and> lex_compare xs ys \<le> 0)"
  by auto

lemma lex_compare_Nil_le [simp]:
  "lex_compare [] ys \<le> 0" "lex_compare xs [] \<le> 0 \<longleftrightarrow> xs = []"
  by (cases ys; simp) (cases xs; simp)

lemma lex_compare_trans:
  "lex_compare xs ys \<le> 0 \<Longrightarrow> lex_compare ys zs \<le> 0 \<Longrightarrow> lex_compare xs zs \<le> 0"
proof (induction ys arbitrary: xs zs)
  case Nil
  then show ?case by simp
next
  case (Cons y ys)
  show ?case
  proof (cases xs)
    case Nil
    then show ?thesis by simp
  next
    case (Cons x xs')
    note xs = this
    show ?thesis
    proof (cases zs)
      case Nil
      with Cons.prems(2) show ?thesis by simp
    next
      case (Cons z zs')
      with xs Cons.prems Cons.IH [of xs' zs'] show ?thesis
        by (simp only: lex_compare_Cons_le) (metis less_trans)
    qed
  qed
qed

interpretation lex_compare: consistent_comparator lex_compare
  by unfold_locales (auto simp: lex_compare_sign intro: lex_compare_trans)

lemma comparator_then:
  assumes "consistent_comparator c" and "consistent_comparator d"
  shows "consistent_comparator (\<lambda>x y. if c x y \<noteq> 0 then c x y else d x y)"
proof -
  note c = consistent_comparator.sign [OF assms(1)] consistent_comparator.trans_le [OF assms(1)]
  note d = consistent_comparator.sign [OF assms(2)] consistent_comparator.trans_le [OF assms(2)]
  show ?thesis
  proof
    fix x y
    show "(if c x y \<noteq> 0 then c x y else d x y) < 0 \<longleftrightarrow> 0 < (if c y x \<noteq> 0 then c y x else d y x)"
      using c(1) [of x y] c(1) [of y x] d(1) [of x y] by auto
  next
    fix x y z
    assume xy: "(if c x y \<noteq> 0 then c x y else d x y) \<le> 0"
      and yz: "(if c y z \<noteq> 0 then c y z else d y z) \<le> 0"
    have le: "c x y \<le> 0" "c y z \<le> 0"
      using xy yz by (auto split: if_splits)
    have xz: "c x z \<le> 0" using c(2) [OF le] .
    show "(if c x z \<noteq> 0 then c x z else d x z) \<le> 0"
    proof (cases "c x z = 0")
      case False
      with xz show ?thesis by simp
    next
      case True
      then have zx: "c z x \<le> 0" using c(1) [of x z] c(1) [of z x] by linarith
      have "c y x \<le> 0" using c(2) [OF le(2) zx] .
      then have xy0: "c x y = 0" using le(1) c(1) [of x y] c(1) [of y x] by linarith
      have "c z y \<le> 0" using c(2) [OF zx le(1)] .
      then have yz0: "c y z = 0" using le(2) c(1) [of y z] c(1) [of z y] by linarith
      from xy yz xy0 yz0 have "d x y \<le> 0" "d y z \<le> 0" by simp_all
      with d(2) True show ?thesis by simp
    qed
  qed
qed

lemma comparator_localeCompare [comparator_intros]: "consistent_comparator localeCompare"
proof -
  let ?f = "filter (\<lambda>c. \<not> collation_ignored c)"
  have 1: "consistent_comparator (\<lambda>s t. lex_compare (map w (?f s)) (map w (?f t)))"
    for w :: "char \<Rightarrow> nat"
    by (rule comparator_on [OF lex_compare.consistent_comparator_axioms])
  show ?thesis
    unfolding localeCompare_def Let_def by (rule comparator_then [OF 1 1])
qed

interpretation localeCompare: consistent_comparator localeCompare
  by (rule comparator_localeCompare)

end
