(* ===== verification/Json_Values.thy ===== *)
theory Json_Values
  imports JS_Prelude
begin

text \<open>
  The part of JSON the session packages use: what a value becomes when it is written with
  \<open>JSON.stringify\<close> and read back with \<open>JSON.parse\<close>, the text that \<open>JSON.stringify\<close> writes, and
  whether \<open>JSON.parse\<close> accepts a text. A stored column holds the value its text stands for.
\<close>

type_synonym json_object = "(string \<times> jsval) list"

section \<open>Numbers from outside\<close>

fun integer_of :: "jsnum \<Rightarrow> int option" where
  "integer_of (Finite n) = Some n"
| "integer_of _ = None"

fun show_num :: "jsnum \<Rightarrow> string" where
  "show_num (Finite n) = js_show n"
| "show_num Infinity = ''Infinity''"
| "show_num NegInfinity = ''-Infinity''"
| "show_num NaN = ''NaN''"

section \<open>Writing and reading back\<close>

text \<open>
  \<open>JSON.parse(JSON.stringify(v))\<close> for a value inside another one: an \<open>undefined\<close> property is
  left out, an \<open>undefined\<close> array item and a number that is not finite become \<open>null\<close>.
\<close>

fun json_copy :: "jsval \<Rightarrow> jsval"
  and json_items :: "jsval list \<Rightarrow> jsval list"
  and json_fields :: "json_object \<Rightarrow> json_object"
where
  "json_copy (JNum (Finite n)) = JNum (Finite n)"
| "json_copy (JNum Infinity) = JNull"
| "json_copy (JNum NegInfinity) = JNull"
| "json_copy (JNum NaN) = JNull"
| "json_copy JUndefined = JNull"
| "json_copy JNull = JNull"
| "json_copy (JBool b) = JBool b"
| "json_copy (JStr s) = JStr s"
| "json_copy (JArr xs) = JArr (json_items xs)"
| "json_copy (JObj kvs) = JObj (json_fields kvs)"
| "json_items [] = []"
| "json_items (x # xs) = json_copy x # json_items xs"
| "json_fields [] = []"
| "json_fields ((k, v) # kvs) =
     (if v = JUndefined then json_fields kvs else (k, json_copy v) # json_fields kvs)"

text \<open>\<open>JSON.stringify(undefined)\<close> is not a text.\<close>

definition json_column :: "jsval \<Rightarrow> jsval option" where
  "json_column v = (if v = JUndefined then None else Some (json_copy v))"

fun is_json :: "jsval \<Rightarrow> bool"
  and json_items_ok :: "jsval list \<Rightarrow> bool"
  and json_fields_ok :: "json_object \<Rightarrow> bool"
where
  "is_json (JNum n) = (case n of Finite _ \<Rightarrow> True | _ \<Rightarrow> False)"
| "is_json JUndefined = False"
| "is_json JNull = True"
| "is_json (JBool b) = True"
| "is_json (JStr s) = True"
| "is_json (JArr xs) = json_items_ok xs"
| "is_json (JObj kvs) = json_fields_ok kvs"
| "json_items_ok [] = True"
| "json_items_ok (x # xs) = (is_json x \<and> json_items_ok xs)"
| "json_fields_ok [] = True"
| "json_fields_ok ((k, v) # kvs) = (is_json v \<and> json_fields_ok kvs)"

lemma json_copy_ok [simp]: "is_json (json_copy v)"
  and json_items_are_ok [simp]: "json_items_ok (json_items vs)"
  and json_fields_are_ok [simp]: "json_fields_ok (json_fields kvs)"
  by (induction v and vs and kvs rule: json_copy_json_items_json_fields.induct) auto

lemma json_copy_id: "is_json v \<Longrightarrow> json_copy v = v"
  and json_items_id: "json_items_ok vs \<Longrightarrow> json_items vs = vs"
  and json_fields_id: "json_fields_ok kvs \<Longrightarrow> json_fields kvs = kvs"
  by (induction v and vs and kvs rule: json_copy_json_items_json_fields.induct) auto

lemma is_json_defined: "is_json v \<Longrightarrow> v \<noteq> JUndefined"
  by auto

lemma json_column_id: "is_json v \<Longrightarrow> json_column v = Some v"
  by (auto simp: json_column_def json_copy_id)

lemma json_column_ok: "json_column v = Some w \<Longrightarrow> is_json w"
  by (auto simp: json_column_def split: if_splits)

lemma json_items_ok_set: "json_items_ok vs \<longleftrightarrow> (\<forall>v \<in> set vs. is_json v)"
  by (induction vs) auto

lemma json_fields_ok_set: "json_fields_ok kvs \<longleftrightarrow> (\<forall>(k, v) \<in> set kvs. is_json v)"
  by (induction kvs) auto

lemma is_json_object:
  "is_json (js_object kvs) \<longleftrightarrow> (\<forall>(k, v) \<in> set kvs. v = JUndefined \<or> is_json v)"
  by (force simp: js_object_def json_fields_ok_set)

text \<open>Reading a property of an object whose keys are those of a JavaScript object.\<close>

definition has_own :: "json_object \<Rightarrow> string \<Rightarrow> bool" where
  "has_own kvs k \<longleftrightarrow> k \<in> fst ` set kvs"

text \<open>\<open>{ ...fields, k: v }\<close>: a present key keeps its place, a new one goes last. And the rest
  pattern \<open>{ k: _, ...rest }\<close>.\<close>

fun obj_put :: "string \<Rightarrow> jsval \<Rightarrow> json_object \<Rightarrow> json_object" where
  "obj_put k v [] = [(k, v)]"
| "obj_put k v ((k', w) # kvs) = (if k' = k then (k, v) # kvs else (k', w) # obj_put k v kvs)"

definition obj_without :: "string \<Rightarrow> json_object \<Rightarrow> json_object" where
  "obj_without k kvs = filter (\<lambda>(k', v). k' \<noteq> k) kvs"

lemma alist_get_put [simp]:
  "alist_get (obj_put k v kvs) k' = (if k' = k then v else alist_get kvs k')"
  by (induction kvs) auto

lemma json_fields_ok_put [simp]:
  "is_json v \<Longrightarrow> json_fields_ok kvs \<Longrightarrow> json_fields_ok (obj_put k v kvs)"
  by (induction kvs) auto

lemma json_fields_ok_without [simp]: "json_fields_ok kvs \<Longrightarrow> json_fields_ok (obj_without k kvs)"
  by (auto simp: obj_without_def json_fields_ok_set)

lemma alist_get_json_fields:
  "json_fields_ok kvs \<Longrightarrow> has_own kvs k \<Longrightarrow> is_json (alist_get kvs k)"
  unfolding has_own_def by (induction kvs) force+

section \<open>Texts that \<open>JSON.parse\<close> accepts\<close>

text \<open>
  A recognizer of the JSON grammar; each function consumes a prefix and returns the rest. The
  fuel bounds the nesting of the calls, of which there are at most two for each character.
\<close>

definition json_space :: "char \<Rightarrow> bool" where
  "json_space c = (of_char c \<in> {9, 10, 13, 32 :: nat})"

definition is_hex_digit :: "char \<Rightarrow> bool" where
  "is_hex_digit c =
     (let n = (of_char c :: nat) in
      (48 \<le> n \<and> n \<le> 57) \<or> (65 \<le> n \<and> n \<le> 70) \<or> (97 \<le> n \<and> n \<le> 102))"

function json_string :: "string \<Rightarrow> string option" where
  "json_string [] = None"
| "json_string (c # cs) =
     (if c = CHR 0x22 then Some cs
      else if c = CHR 0x5C then
        (case cs of
           [] \<Rightarrow> None
         | d # ds \<Rightarrow>
             (if d \<in> {CHR 0x22, CHR 0x5C} \<union> set ''/bfnrt'' then json_string ds
              else if d = CHR ''u'' \<and> length ds \<ge> 4 \<and> list_all is_hex_digit (take 4 ds)
              then json_string (drop 4 ds) else None))
      else if (of_char c :: nat) < 32 then None
      else json_string cs)"
  by pat_completeness auto
termination by (relation "measure length") auto

definition json_digit :: "char \<Rightarrow> bool" where
  "json_digit c = (let n = (of_char c :: nat) in 48 \<le> n \<and> n \<le> 57)"

text \<open>One or more digits.\<close>

definition json_digits :: "string \<Rightarrow> string option" where
  "json_digits s = (if takeWhile json_digit s = [] then None else Some (dropWhile json_digit s))"

definition json_integer :: "string \<Rightarrow> string option" where
  "json_integer s =
     (case s of
        [] \<Rightarrow> None
      | c # cs \<Rightarrow> (if c = CHR ''0'' then Some cs else json_digits s))"

definition json_fraction :: "string \<Rightarrow> string option" where
  "json_fraction s =
     (case s of [] \<Rightarrow> Some []
      | c # cs \<Rightarrow> (if c = CHR ''.'' then json_digits cs else Some s))"

definition json_exponent :: "string \<Rightarrow> string option" where
  "json_exponent s =
     (case s of [] \<Rightarrow> Some []
      | c # cs \<Rightarrow>
          (if c \<noteq> CHR ''e'' \<and> c \<noteq> CHR ''E'' then Some s
           else json_digits (case cs of d # ds \<Rightarrow> if d = CHR ''+'' \<or> d = CHR ''-'' then ds else cs
                             | [] \<Rightarrow> [])))"

definition json_number :: "string \<Rightarrow> string option" where
  "json_number s =
     Option.bind
       (Option.bind
         (json_integer (case s of c # cs \<Rightarrow> if c = CHR ''-'' then cs else s | [] \<Rightarrow> []))
         json_fraction)
       json_exponent"

fun json_value :: "nat \<Rightarrow> string \<Rightarrow> string option"
  and json_elements :: "nat \<Rightarrow> string \<Rightarrow> string option"
  and json_members :: "nat \<Rightarrow> string \<Rightarrow> string option"
where
  "json_value 0 s = None"
| "json_value (Suc n) s =
     (case dropWhile json_space s of
        [] \<Rightarrow> None
      | c # cs \<Rightarrow>
          (if c = CHR ''{'' then
             (case dropWhile json_space cs of
                d # ds \<Rightarrow> if d = CHR ''}'' then Some ds else json_members n cs
              | [] \<Rightarrow> None)
           else if c = CHR ''['' then
             (case dropWhile json_space cs of
                d # ds \<Rightarrow> if d = CHR '']'' then Some ds else json_elements n cs
              | [] \<Rightarrow> None)
           else if c = CHR 0x22 then json_string cs
           else if starts_with ''true'' (c # cs) then Some (drop 4 (c # cs))
           else if starts_with ''false'' (c # cs) then Some (drop 5 (c # cs))
           else if starts_with ''null'' (c # cs) then Some (drop 4 (c # cs))
           else json_number (c # cs)))"
| "json_elements 0 s = None"
| "json_elements (Suc n) s =
     (case json_value n s of
        None \<Rightarrow> None
      | Some r \<Rightarrow>
          (case dropWhile json_space r of
             [] \<Rightarrow> None
           | c # cs \<Rightarrow>
               (if c = CHR '']'' then Some cs
                else if c = CHR '','' then json_elements n cs else None)))"
| "json_members 0 s = None"
| "json_members (Suc n) s =
     (case dropWhile json_space s of
        [] \<Rightarrow> None
      | q # ks \<Rightarrow>
          (if q \<noteq> CHR 0x22 then None
           else (case json_string ks of
                   None \<Rightarrow> None
                 | Some r \<Rightarrow>
                     (case dropWhile json_space r of
                        [] \<Rightarrow> None
                      | c # vs \<Rightarrow>
                          (if c \<noteq> CHR '':'' then None
                           else (case json_value n vs of
                                   None \<Rightarrow> None
                                 | Some r' \<Rightarrow>
                                     (case dropWhile json_space r' of
                                        [] \<Rightarrow> None
                                      | d # ds \<Rightarrow>
                                          (if d = CHR ''}'' then Some ds
                                           else if d = CHR '','' then json_members n ds
                                           else None))))))))"

definition json_parses :: "string \<Rightarrow> bool" where
  "json_parses s =
     (case json_value (2 * length s + 2) s of
        None \<Rightarrow> False
      | Some rest \<Rightarrow> list_all json_space rest)"

end
