(* ===== verification/Task_Contracts.thy ===== *)
theory Task_Contracts
  imports JS_Prelude
begin

text \<open>
  The data of the task plane: \<open>packages/contracts/src/task.ts\<close> and
  \<open>packages/contracts/src/task-operations.ts\<close>. A union of string literals is a datatype,
  and its \<open>_str\<close> function gives the literal each constructor stands for (the code prints
  it in messages and stores it in events). An interface is a record whose field names carry
  a prefix, because the interfaces share names such as \<open>id\<close> and \<open>status\<close>; an optional
  property is an \<open>option\<close>.
\<close>

section \<open>Todo items\<close>

datatype task_item_status = Todo | Doing | Done

datatype task_priority = Low | Normal | High | Urgent

record task_item =
  ti_id :: string
  ti_content :: string
  ti_status :: task_item_status
  ti_priority :: "task_priority option"

record task_state =
  ts_items :: "task_item list"
  ts_updatedAtMs :: "int option"

section \<open>Status vocabularies\<close>

datatype delegation_status = DQueued | DRunning | DCompleted | DFailed | DCancelled
datatype delegation_specialization = Explore | Plan | Verify | General
datatype write_set_observation = ByPatch | ByDiff | ByArtifact
datatype verification_status = VPending | VPassed | VFailed | VPartial
datatype verification_verdict = PassVerdict | FailVerdict | PartialVerdict
datatype proposal_status = PPending | PAccepted | PRejected | PApplied | PExpired
datatype outbox_event_type = ProposalEnqueued | ProposalStatusChanged
datatype notification_kind = DelegationAssigned | VerificationRequested
datatype recipient_kind = Worker | Verifier
datatype notification_status = NPending | NAcknowledged
datatype lifecycle_status =
  LPending | LDelegated | LRunning | LBlocked | LDone | LFailed | LVerified

fun task_item_status_str :: "task_item_status \<Rightarrow> string" where
  "task_item_status_str Todo = ''todo''"
| "task_item_status_str Doing = ''doing''"
| "task_item_status_str Done = ''done''"

fun task_priority_str :: "task_priority \<Rightarrow> string" where
  "task_priority_str Low = ''low''"
| "task_priority_str Normal = ''normal''"
| "task_priority_str High = ''high''"
| "task_priority_str Urgent = ''urgent''"

fun delegation_status_str :: "delegation_status \<Rightarrow> string" where
  "delegation_status_str DQueued = ''queued''"
| "delegation_status_str DRunning = ''running''"
| "delegation_status_str DCompleted = ''completed''"
| "delegation_status_str DFailed = ''failed''"
| "delegation_status_str DCancelled = ''cancelled''"

fun specialization_str :: "delegation_specialization \<Rightarrow> string" where
  "specialization_str Explore = ''explore''"
| "specialization_str Plan = ''plan''"
| "specialization_str Verify = ''verify''"
| "specialization_str General = ''general''"

fun write_set_observation_str :: "write_set_observation \<Rightarrow> string" where
  "write_set_observation_str ByPatch = ''patch''"
| "write_set_observation_str ByDiff = ''diff''"
| "write_set_observation_str ByArtifact = ''artifact''"

fun verification_status_str :: "verification_status \<Rightarrow> string" where
  "verification_status_str VPending = ''pending''"
| "verification_status_str VPassed = ''passed''"
| "verification_status_str VFailed = ''failed''"
| "verification_status_str VPartial = ''partial''"

fun verdict_str :: "verification_verdict \<Rightarrow> string" where
  "verdict_str PassVerdict = ''pass''"
| "verdict_str FailVerdict = ''fail''"
| "verdict_str PartialVerdict = ''partial''"

fun proposal_status_str :: "proposal_status \<Rightarrow> string" where
  "proposal_status_str PPending = ''pending''"
| "proposal_status_str PAccepted = ''accepted''"
| "proposal_status_str PRejected = ''rejected''"
| "proposal_status_str PApplied = ''applied''"
| "proposal_status_str PExpired = ''expired''"

fun outbox_event_type_str :: "outbox_event_type \<Rightarrow> string" where
  "outbox_event_type_str ProposalEnqueued = ''proposal.enqueued''"
| "outbox_event_type_str ProposalStatusChanged = ''proposal.status_changed''"

fun notification_kind_str :: "notification_kind \<Rightarrow> string" where
  "notification_kind_str DelegationAssigned = ''delegation_assigned''"
| "notification_kind_str VerificationRequested = ''verification_requested''"

fun recipient_kind_str :: "recipient_kind \<Rightarrow> string" where
  "recipient_kind_str Worker = ''worker''"
| "recipient_kind_str Verifier = ''verifier''"

fun notification_status_str :: "notification_status \<Rightarrow> string" where
  "notification_status_str NPending = ''pending''"
| "notification_status_str NAcknowledged = ''acknowledged''"

section \<open>Records\<close>

definition CONTRACTS_SCHEMA_VERSION :: string where
  "CONTRACTS_SCHEMA_VERSION = ''0.1.0''"

record verification_check =
  vc_id :: string
  vc_status :: verification_verdict
  vc_summary :: string
  vc_detail :: "string option"

record verification_request =
  vq_verifierId :: string
  vq_requirement :: string
  vq_verificationId :: "string option"

record delegation_record =
  dr_id :: string
  dr_taskId :: "string option"
  dr_workerId :: string
  dr_instruction :: string
  dr_fromAgent :: "string option"
  dr_contextSnapshot :: "string option"
  dr_specialization :: "delegation_specialization option"
  dr_targetAgent :: "string option"
  dr_verificationRequest :: "verification_request option"
  dr_resultSummary :: "string option"
  dr_observedWriteSet :: "string list option"
  dr_observedWriteSetSource :: "write_set_observation option"
  dr_status :: delegation_status
  dr_createdAtMs :: int
  dr_updatedAtMs :: int
  dr_completedAtMs :: "int option"
  dr_error :: "string option"

record delegation_record_input =
  di_id :: string
  di_taskId :: "string option"
  di_workerId :: string
  di_instruction :: string
  di_fromAgent :: "string option"
  di_contextSnapshot :: "string option"
  di_specialization :: "delegation_specialization option"
  di_targetAgent :: "string option"
  di_verificationRequest :: "verification_request option"
  di_resultSummary :: "string option"
  di_observedWriteSet :: "string list option"
  di_observedWriteSetSource :: "write_set_observation option"
  di_status :: "delegation_status option"
  di_error :: "string option"

record delegation_status_update =
  du_id :: string
  du_status :: delegation_status
  du_error :: "string option"
  du_reason :: "string option"
  du_resultSummary :: "string option"
  du_observedWriteSet :: "string list option"
  du_observedWriteSetSource :: "write_set_observation option"

record verification_record =
  vr_id :: string
  vr_taskId :: "string option"
  vr_verifierId :: string
  vr_verifiedBy :: "string option"
  vr_requirement :: string
  vr_status :: verification_status
  vr_verdict :: "verification_verdict option"
  vr_verdictSummary :: "string option"
  vr_checks :: "verification_check list option"
  vr_createdAtMs :: int
  vr_updatedAtMs :: int

record verification_input =
  vi_id :: string
  vi_taskId :: "string option"
  vi_verifierId :: string
  vi_verifiedBy :: "string option"
  vi_requirement :: string
  vi_status :: "verification_status option"
  vi_verdict :: "verification_verdict option"
  vi_verdictSummary :: "string option"
  vi_checks :: "verification_check list option"

text \<open>A proposal's payload is an object of unknown content: its own properties in order.\<close>

type_synonym js_properties = "(string \<times> jsval) list"

record proposal_record =
  pr_id :: string
  pr_kind :: string
  pr_payload :: js_properties
  pr_status :: proposal_status
  pr_schemaVersion :: string
  pr_sourceSessionId :: string
  pr_sourceTurnId :: string
  pr_provenance :: string
  pr_createdAtMs :: int
  pr_updatedAtMs :: int
  pr_expiresAtMs :: "int option"
  pr_decisionNote :: "string option"

record proposal_input =
  pi_id :: string
  pi_kind :: string
  pi_payload :: js_properties
  pi_sourceSessionId :: string
  pi_sourceTurnId :: string
  pi_provenance :: string
  pi_expiresAtMs :: "int option"

record proposal_transition =
  pt_proposalId :: string
  pt_status :: proposal_status
  pt_decisionNote :: "string option"

record outbox_entry =
  oe_id :: string
  oe_eventType :: outbox_event_type
  oe_proposalId :: string
  oe_status :: proposal_status
  oe_schemaVersion :: string
  oe_createdAtMs :: int

record notification_record =
  nr_id :: string
  nr_kind :: notification_kind
  nr_recipientKind :: recipient_kind
  nr_recipientId :: string
  nr_status :: notification_status
  nr_summary :: string
  nr_taskId :: "string option"
  nr_delegationId :: "string option"
  nr_verificationId :: "string option"
  nr_createdAtMs :: int
  nr_updatedAtMs :: int
  nr_acknowledgedAtMs :: "int option"

record lifecycle_record =
  lr_taskId :: string
  lr_title :: string
  lr_status :: lifecycle_status
  lr_todoStatus :: "task_item_status option"
  lr_assignedAgent :: "string option"
  lr_verificationVerdict :: "verification_verdict option"
  lr_latestDelegationId :: "string option"
  lr_latestVerificationId :: "string option"

record task_operations_state =
  os_schemaVersion :: string
  os_todos :: task_state
  os_delegation :: "delegation_record list"
  os_verification :: "verification_record list"
  os_proposalQueue :: "proposal_record list"
  os_proposalOutbox :: "outbox_entry list"
  os_notifications :: "notification_record list option"
  os_lifecycle :: "lifecycle_record list option"
  os_updatedAtMs :: "int option"

section \<open>Stores of records that are replaced by id\<close>

text \<open>
  \<open>replaceRecordById\<close> of \<open>task-board.ts\<close> (and, word for word, of \<open>task-journal.ts\<close>):
  every record with the new record's id is replaced, and a new id is appended.
  \<open>find_by_id\<close> is \<open>records.find((entry) => entry.id === id)\<close>.
\<close>

definition replaceRecordById :: "('r \<Rightarrow> string) \<Rightarrow> 'r list \<Rightarrow> 'r \<Rightarrow> 'r list" where
  "replaceRecordById ident records nextRecord =
     (if \<not> (\<exists>entry \<in> set records. ident entry = ident nextRecord)
      then records @ [nextRecord]
      else map (\<lambda>entry. if ident entry = ident nextRecord then nextRecord else entry) records)"

definition find_by_id :: "('r \<Rightarrow> string) \<Rightarrow> 'r list \<Rightarrow> string \<Rightarrow> 'r option" where
  "find_by_id ident records k = find (\<lambda>entry. ident entry = k) records"

text \<open>What the board and the journal rely on of such a store.\<close>

locale record_store =
  fixes ident :: "'r \<Rightarrow> string"
    and get :: "'r list \<Rightarrow> string \<Rightarrow> 'r option"
    and put :: "'r list \<Rightarrow> 'r \<Rightarrow> 'r list"
  assumes get_put: "get (put rs r) k = (if k = ident r then Some r else get rs k)"
    and get_Some: "get rs k = Some r \<Longrightarrow> r \<in> set rs \<and> ident r = k"
    and get_None: "get rs k = None \<longleftrightarrow> k \<notin> ident ` set rs"
    and get_member: "distinct (map ident rs) \<Longrightarrow> r \<in> set rs \<Longrightarrow> get rs (ident r) = Some r"
    and put_distinct: "distinct (map ident rs) \<Longrightarrow> distinct (map ident (put rs r))"
    and put_ids: "ident ` set (put rs r) = insert (ident r) (ident ` set rs)"
begin

lemma put_get_same: "get (put rs r) (ident r) = Some r"
  by (simp add: get_put)

lemma member_put:
  assumes "distinct (map ident rs)"
  shows "x \<in> set (put rs r) \<longleftrightarrow> x = r \<or> (x \<in> set rs \<and> ident x \<noteq> ident r)"
proof
  assume "x \<in> set (put rs r)"
  then have "get (put rs r) (ident x) = Some x"
    using assms by (intro get_member put_distinct)
  then show "x = r \<or> (x \<in> set rs \<and> ident x \<noteq> ident r)"
    by (auto simp: get_put split: if_splits dest: get_Some)
next
  assume "x = r \<or> (x \<in> set rs \<and> ident x \<noteq> ident r)"
  then have "get (put rs r) (ident x) = Some x"
    using assms by (auto simp: get_put get_member)
  then show "x \<in> set (put rs r)" by (blast dest: get_Some)
qed

lemma put_all:
  "distinct (map ident rs) \<Longrightarrow> (\<And>x. x \<in> set rs \<Longrightarrow> P x) \<Longrightarrow> P r \<Longrightarrow> x \<in> set (put rs r) \<Longrightarrow> P x"
  by (auto simp: member_put)

end

lemma find_by_id_Nil [simp]: "find_by_id ident [] k = None"
  by (simp add: find_by_id_def)

lemma find_by_id_Cons [simp]:
  "find_by_id ident (r # rs) k = (if ident r = k then Some r else find_by_id ident rs k)"
  by (simp add: find_by_id_def)

lemma find_by_id_append:
  "find_by_id ident (rs @ ss) k =
     (case find_by_id ident rs k of None \<Rightarrow> find_by_id ident ss k | Some r \<Rightarrow> Some r)"
  by (induction rs) auto

lemma find_by_id_overwrite:
  "find_by_id ident (map (\<lambda>e. if ident e = ident r then r else e) rs) k =
     (if k = ident r then (if ident r \<in> ident ` set rs then Some r else None)
      else find_by_id ident rs k)"
  by (induction rs) auto

lemma find_by_id_None: "find_by_id ident rs k = None \<longleftrightarrow> k \<notin> ident ` set rs"
  by (auto simp: find_by_id_def find_None_iff)

lemma bex_ident_image: "(\<exists>e \<in> set rs. ident e = k) \<longleftrightarrow> k \<in> ident ` set rs"
  by auto

lemma find_by_id_replace:
  "find_by_id ident (replaceRecordById ident rs r) k =
     (if k = ident r then Some r else find_by_id ident rs k)"
  using find_by_id_None [of ident rs "ident r"]
  by (auto simp: replaceRecordById_def bex_ident_image find_by_id_overwrite find_by_id_append
      split: option.splits)

lemma map_ident_replace:
  "map ident (replaceRecordById ident rs r) =
     (if ident r \<in> ident ` set rs then map ident rs else map ident rs @ [ident r])"
  by (simp add: replaceRecordById_def bex_ident_image)

lemma record_store_replaceRecordById:
  "record_store ident (find_by_id ident) (replaceRecordById ident)"
proof
  fix rs :: "'a list" and r k
  show "find_by_id ident (replaceRecordById ident rs r) k =
      (if k = ident r then Some r else find_by_id ident rs k)"
    by (rule find_by_id_replace)
  show "find_by_id ident rs k = Some r \<Longrightarrow> r \<in> set rs \<and> ident r = k"
    by (auto simp: find_by_id_def find_Some_iff)
  show "(find_by_id ident rs k = None) = (k \<notin> ident ` set rs)"
    by (auto simp: find_by_id_def find_None_iff)
  show "distinct (map ident rs) \<Longrightarrow> r \<in> set rs \<Longrightarrow> find_by_id ident rs (ident r) = Some r"
    by (induction rs) auto
  show "distinct (map ident rs) \<Longrightarrow> distinct (map ident (replaceRecordById ident rs r))"
    unfolding map_ident_replace by auto
  have "set (map ident (replaceRecordById ident rs r)) = insert (ident r) (ident ` set rs)"
    unfolding map_ident_replace by auto
  then show "ident ` set (replaceRecordById ident rs r) = insert (ident r) (ident ` set rs)"
    by simp
qed

interpretation delegations: record_store dr_id "find_by_id dr_id" "replaceRecordById dr_id"
  by (rule record_store_replaceRecordById)

interpretation verifications: record_store vr_id "find_by_id vr_id" "replaceRecordById vr_id"
  by (rule record_store_replaceRecordById)

interpretation notifications: record_store nr_id "find_by_id nr_id" "replaceRecordById nr_id"
  by (rule record_store_replaceRecordById)

interpretation proposals: record_store pr_id "find_by_id pr_id" "replaceRecordById pr_id"
  by (rule record_store_replaceRecordById)

end
