(* ===== verification/Task_Events.thy ===== *)
theory Task_Events
  imports Task_Contracts "HOL-Library.Monad_Syntax"
begin

text \<open>
  The event codec of the task plane, \<open>packages/contracts/src/task-events.ts\<close>: the payload of
  each event type, the decoders that turn an unknown JavaScript value into a payload or reject
  it, and \<open>createTaskEvent\<close>, which decodes what it is given. A decoder that returns \<open>null\<close> or
  \<open>undefined\<close> returns \<open>None\<close>. The \<open>js_of_\<close> functions give the JavaScript object a typed record
  is; the code has no counterpart of them because there a typed record is that object already.

  \<open>Task_Event_Codec\<close> shows that decoding the object of a well-formed payload gives the payload
  back (\<open>decode_payload_js\<close>) and that only well-formed payloads are ever decoded
  (\<open>decode_payload_wf\<close>).
\<close>

named_theorems codec_simps \<open>decoders applied to the objects of typed values\<close>

section \<open>Payloads\<close>

datatype actor_kind = EngineActor | CliActor | WorkerActor

fun actor_kind_str :: "actor_kind \<Rightarrow> string" where
  "actor_kind_str EngineActor = ''engine''"
| "actor_kind_str CliActor = ''cli''"
| "actor_kind_str WorkerActor = ''worker''"

record task_event_actor =
  ta_kind :: actor_kind
  ta_id :: "string option"

record delegation_upserted_payload =
  dp_record :: delegation_record
  dp_updatedAtMs :: int
  dp_opId :: "string option"
  dp_actor :: "task_event_actor option"

record delegation_status_set_payload = delegation_upserted_payload +
  dp_fromStatus :: "delegation_status option"
  dp_toStatus :: "delegation_status option"
  dp_reason :: "string option"

record verification_upserted_payload =
  vp_record :: verification_record
  vp_updatedAtMs :: int
  vp_opId :: "string option"
  vp_actor :: "task_event_actor option"

record notification_emitted_payload =
  np_record :: notification_record
  np_updatedAtMs :: int
  np_opId :: "string option"
  np_actor :: "task_event_actor option"

record notification_status_set_payload = notification_emitted_payload +
  np_fromStatus :: "notification_status option"
  np_toStatus :: "notification_status option"
  np_reason :: "string option"

record proposal_enqueued_payload =
  pp_proposal :: proposal_record
  pp_outboxEntry :: outbox_entry
  pp_updatedAtMs :: int
  pp_opId :: "string option"
  pp_actor :: "task_event_actor option"

record proposal_transitioned_payload = proposal_enqueued_payload +
  pp_fromStatus :: "proposal_status option"
  pp_toStatus :: "proposal_status option"

record outbox_drained_payload =
  od_drainedIds :: "string list"
  od_drainedAtMs :: int
  od_drained :: "outbox_entry list option"
  od_updatedAtMs :: "int option"
  od_drainBatchId :: "string option"
  od_opId :: "string option"
  od_actor :: "task_event_actor option"

datatype task_event_payload =
    TodoWrite task_state
  | DelegationUpserted delegation_upserted_payload
  | DelegationStatusSet delegation_status_set_payload
  | VerificationUpserted verification_upserted_payload
  | NotificationEmitted notification_emitted_payload
  | NotificationStatusSet notification_status_set_payload
  | ProposalEnqueuedEvent proposal_enqueued_payload
  | ProposalTransitioned proposal_transitioned_payload
  | ProposalOutboxDrained outbox_drained_payload

fun payload_event_type :: "task_event_payload \<Rightarrow> string" where
  "payload_event_type (TodoWrite _) = ''tasks.todo_write''"
| "payload_event_type (DelegationUpserted _) = ''tasks.delegation_upserted''"
| "payload_event_type (DelegationStatusSet _) = ''tasks.delegation_status_set''"
| "payload_event_type (VerificationUpserted _) = ''tasks.verification_upserted''"
| "payload_event_type (NotificationEmitted _) = ''tasks.notification_emitted''"
| "payload_event_type (NotificationStatusSet _) = ''tasks.notification_status_set''"
| "payload_event_type (ProposalEnqueuedEvent _) = ''tasks.proposal_enqueued''"
| "payload_event_type (ProposalTransitioned _) = ''tasks.proposal_transitioned''"
| "payload_event_type (ProposalOutboxDrained _) = ''tasks.proposal_outbox_drained''"

definition TASK_EVENT_TYPE_SET :: "string list" where
  "TASK_EVENT_TYPE_SET =
     [''tasks.todo_write'', ''tasks.delegation_upserted'', ''tasks.delegation_status_set'',
      ''tasks.verification_upserted'', ''tasks.notification_emitted'',
      ''tasks.notification_status_set'', ''tasks.proposal_enqueued'',
      ''tasks.proposal_transitioned'', ''tasks.proposal_outbox_drained'']"

definition isTaskEventType :: "string \<Rightarrow> bool" where
  "isTaskEventType eventType \<longleftrightarrow> eventType \<in> set TASK_EVENT_TYPE_SET"

definition TASK_EVENTS_DOMAIN_VERSION :: string where
  "TASK_EVENTS_DOMAIN_VERSION = ''tasks/v1''"

record task_event_envelope =
  te_payload :: task_event_payload
  te_domainVersion :: string

section \<open>Domain versions\<close>

text \<open>
  \<open>VERSION_PATTERN\<close> is \<^verbatim>\<open>/^(?<namespace>.+?)\/v(?<major>\d+)(?:\.(?<minor>\d+))?$/u\<close>: the shortest
  non-empty namespace without a line terminator whose rest is \<open>/v\<close>, digits and optionally a
  dot and digits. The major number is read as an exact natural number (JavaScript's is a
  double, exact below \<open>2^53\<close>).
\<close>

definition is_digit :: "char \<Rightarrow> bool" where
  "is_digit c = (let n = (of_char c :: nat) in 48 \<le> n \<and> n \<le> 57)"

definition is_line_terminator :: "char \<Rightarrow> bool" where
  "is_line_terminator c = (let n = (of_char c :: nat) in n = 10 \<or> n = 13)"

definition version_tail :: "string \<Rightarrow> string option" where
  "version_tail s =
     (if take 2 s \<noteq> ''/v'' then None
      else
        let major = takeWhile is_digit (drop 2 s); rest = dropWhile is_digit (drop 2 s) in
        if major = [] then None
        else (case rest of
                [] \<Rightarrow> Some major
              | c # minor \<Rightarrow>
                  (if c = CHR ''.'' \<and> minor \<noteq> [] \<and> list_all is_digit minor then Some major
                   else None)))"

definition digits_value :: "string \<Rightarrow> nat" where
  "digits_value s = foldl (\<lambda>n c. 10 * n + (of_char c - 48)) 0 s"

definition parseVersion :: "string \<Rightarrow> (string \<times> nat) option" where
  "parseVersion value =
     (let normalized = js_trim value in
      case find (\<lambda>i. list_all (\<lambda>c. \<not> is_line_terminator c) (take i normalized) \<and>
                     version_tail (drop i normalized) \<noteq> None) [1..<length normalized] of
        None \<Rightarrow> None
      | Some i \<Rightarrow>
          (case version_tail (drop i normalized) of
             None \<Rightarrow> None
           | Some majorText \<Rightarrow> Some (take i normalized, digits_value majorText)))"

definition isTaskEventsDomainVersionCompatible :: "string \<Rightarrow> string \<Rightarrow> bool" where
  "isTaskEventsDomainVersionCompatible value expected =
     (if value = expected then True
      else (case (parseVersion value, parseVersion expected) of
              (Some actualParsed, Some expectedParsed) \<Rightarrow>
                fst actualParsed = fst expectedParsed \<and> snd actualParsed = snd expectedParsed
            | _ \<Rightarrow> False))"

section \<open>Decoders\<close>

fun isRecord :: "jsval \<Rightarrow> bool" where
  "isRecord (JObj _) = True"
| "isRecord _ = False"

abbreviation require_record :: "jsval \<Rightarrow> unit option" where
  "require_record value \<equiv> (if isRecord value then Some () else None)"

text \<open>A property that may be absent but must decode when it is present.\<close>

definition decode_optional :: "(jsval \<Rightarrow> 'a option) \<Rightarrow> jsval \<Rightarrow> 'a option option" where
  "decode_optional f value =
     (if value = JUndefined then Some None
      else (case f value of None \<Rightarrow> None | Some x \<Rightarrow> Some (Some x)))"

definition asTaskItemStatus :: "jsval \<Rightarrow> task_item_status option" where
  "asTaskItemStatus value =
     (if value = JStr ''todo'' then Some Todo
      else if value = JStr ''doing'' then Some Doing
      else if value = JStr ''done'' then Some Done else None)"

definition asTaskPriority :: "jsval \<Rightarrow> task_priority option" where
  "asTaskPriority value =
     (if value = JStr ''low'' then Some Low
      else if value = JStr ''normal'' then Some Normal
      else if value = JStr ''high'' then Some High
      else if value = JStr ''urgent'' then Some Urgent else None)"

definition asTaskItem :: "jsval \<Rightarrow> task_item option" where
  "asTaskItem value =
     do {
       require_record value;
       status \<leftarrow> asTaskItemStatus (js_get value ''status'');
       i \<leftarrow> as_string (js_get value ''id'');
       content \<leftarrow> as_string (js_get value ''content'');
       Some \<lparr>ti_id = i, ti_content = content, ti_status = status,
             ti_priority = asTaskPriority (js_get value ''priority'')\<rparr>
     }"

definition cloneTaskItem :: "task_item \<Rightarrow> task_item" where
  "cloneTaskItem item =
     \<lparr>ti_id = ti_id item, ti_content = ti_content item, ti_status = ti_status item,
      ti_priority = ti_priority item\<rparr>"

fun as_array :: "jsval \<Rightarrow> jsval list option" where
  "as_array (JArr xs) = Some xs"
| "as_array _ = None"

definition asTaskState :: "jsval \<Rightarrow> task_state option" where
  "asTaskState value =
     do {
       require_record value;
       raw \<leftarrow> as_array (js_get value ''items'');
       items \<leftarrow> map_all asTaskItem raw;
       Some \<lparr>ts_items = map cloneTaskItem items,
             ts_updatedAtMs = as_finite (js_get value ''updatedAtMs'')\<rparr>
     }"

definition asTaskTodoWritePayload :: "jsval \<Rightarrow> task_state option" where
  "asTaskTodoWritePayload value =
     (case asTaskState value of
        Some state \<Rightarrow> Some state
      | None \<Rightarrow>
          do {
            require_record value;
            todos \<leftarrow> asTaskState (js_get value ''todos'');
            Some \<lparr>ts_items = map cloneTaskItem (ts_items todos),
                  ts_updatedAtMs =
                    nullish (ts_updatedAtMs todos) (as_finite (js_get value ''updatedAtMs''))\<rparr>
          })"

definition asTaskEventActor :: "jsval \<Rightarrow> task_event_actor option" where
  "asTaskEventActor value =
     do {
       require_record value;
       kind \<leftarrow> (let k = js_get value ''kind'' in
                if k = JStr ''engine'' then Some EngineActor
                else if k = JStr ''cli'' then Some CliActor
                else if k = JStr ''worker'' then Some WorkerActor else None);
       Some \<lparr>ta_kind = kind, ta_id = as_string (js_get value ''id'')\<rparr>
     }"

definition asStringArray :: "jsval \<Rightarrow> string list option" where
  "asStringArray value = do { xs \<leftarrow> as_array value; map_all as_string xs }"

definition asDelegationStatus :: "jsval \<Rightarrow> delegation_status option" where
  "asDelegationStatus value =
     (if value = JStr ''queued'' then Some DQueued
      else if value = JStr ''running'' then Some DRunning
      else if value = JStr ''completed'' then Some DCompleted
      else if value = JStr ''failed'' then Some DFailed
      else if value = JStr ''cancelled'' then Some DCancelled else None)"

definition asDelegationSpecialization :: "jsval \<Rightarrow> delegation_specialization option" where
  "asDelegationSpecialization value =
     (if value = JStr ''explore'' then Some Explore
      else if value = JStr ''plan'' then Some Plan
      else if value = JStr ''verify'' then Some Verify
      else if value = JStr ''general'' then Some General else None)"

definition asDelegationObservedWriteSetSource :: "jsval \<Rightarrow> write_set_observation option" where
  "asDelegationObservedWriteSetSource value =
     (if value = JStr ''patch'' then Some ByPatch
      else if value = JStr ''diff'' then Some ByDiff
      else if value = JStr ''artifact'' then Some ByArtifact else None)"

definition asDelegationVerificationRequest :: "jsval \<Rightarrow> verification_request option" where
  "asDelegationVerificationRequest value =
     do {
       require_record value;
       verifierId \<leftarrow> as_string (js_get value ''verifierId'');
       requirement \<leftarrow> as_string (js_get value ''requirement'');
       Some \<lparr>vq_verifierId = verifierId, vq_requirement = requirement,
             vq_verificationId = as_string (js_get value ''verificationId'')\<rparr>
     }"

definition asDelegationRecord :: "jsval \<Rightarrow> delegation_record option" where
  "asDelegationRecord value =
     do {
       require_record value;
       status \<leftarrow> asDelegationStatus (js_get value ''status'');
       i \<leftarrow> as_string (js_get value ''id'');
       workerId \<leftarrow> as_string (js_get value ''workerId'');
       instruction \<leftarrow> as_string (js_get value ''instruction'');
       createdAtMs \<leftarrow> as_finite (js_get value ''createdAtMs'');
       updatedAtMs \<leftarrow> as_finite (js_get value ''updatedAtMs'');
       specialization \<leftarrow>
         decode_optional asDelegationSpecialization (js_get value ''specialization'');
       targetAgent \<leftarrow>
         decode_optional
           (\<lambda>v. if specialization = None then None else as_string v) (js_get value ''targetAgent'');
       verificationRequest \<leftarrow>
         decode_optional asDelegationVerificationRequest (js_get value ''verificationRequest'');
       observedWriteSet \<leftarrow> decode_optional asStringArray (js_get value ''observedWriteSet'');
       observedWriteSetSource \<leftarrow>
         decode_optional asDelegationObservedWriteSetSource
           (js_get value ''observedWriteSetSource'');
       Some \<lparr>dr_id = i,
             dr_taskId = as_string (js_get value ''taskId''),
             dr_workerId = workerId,
             dr_instruction = instruction,
             dr_fromAgent = as_string (js_get value ''fromAgent''),
             dr_contextSnapshot = as_string (js_get value ''contextSnapshot''),
             dr_specialization = specialization,
             dr_targetAgent = targetAgent,
             dr_verificationRequest = verificationRequest,
             dr_resultSummary = as_string (js_get value ''resultSummary''),
             dr_observedWriteSet = observedWriteSet,
             dr_observedWriteSetSource = observedWriteSetSource,
             dr_status = status,
             dr_createdAtMs = createdAtMs,
             dr_updatedAtMs = updatedAtMs,
             dr_completedAtMs = as_finite (js_get value ''completedAtMs''),
             dr_error = as_string (js_get value ''error'')\<rparr>
     }"

definition asTaskNotificationKind :: "jsval \<Rightarrow> notification_kind option" where
  "asTaskNotificationKind value =
     (if value = JStr ''delegation_assigned'' then Some DelegationAssigned
      else if value = JStr ''verification_requested'' then Some VerificationRequested else None)"

definition asTaskNotificationRecipientKind :: "jsval \<Rightarrow> recipient_kind option" where
  "asTaskNotificationRecipientKind value =
     (if value = JStr ''worker'' then Some Worker
      else if value = JStr ''verifier'' then Some Verifier else None)"

definition asTaskNotificationStatus :: "jsval \<Rightarrow> notification_status option" where
  "asTaskNotificationStatus value =
     (if value = JStr ''pending'' then Some NPending
      else if value = JStr ''acknowledged'' then Some NAcknowledged else None)"

definition asTaskNotificationRecord :: "jsval \<Rightarrow> notification_record option" where
  "asTaskNotificationRecord value =
     do {
       require_record value;
       kind \<leftarrow> asTaskNotificationKind (js_get value ''kind'');
       recipientKind \<leftarrow> asTaskNotificationRecipientKind (js_get value ''recipientKind'');
       status \<leftarrow> asTaskNotificationStatus (js_get value ''status'');
       i \<leftarrow> as_string (js_get value ''id'');
       recipientId \<leftarrow> as_string (js_get value ''recipientId'');
       summary \<leftarrow> as_string (js_get value ''summary'');
       createdAtMs \<leftarrow> as_finite (js_get value ''createdAtMs'');
       updatedAtMs \<leftarrow> as_finite (js_get value ''updatedAtMs'');
       Some \<lparr>nr_id = i,
             nr_kind = kind,
             nr_recipientKind = recipientKind,
             nr_recipientId = recipientId,
             nr_status = status,
             nr_summary = summary,
             nr_taskId = as_string (js_get value ''taskId''),
             nr_delegationId = as_string (js_get value ''delegationId''),
             nr_verificationId = as_string (js_get value ''verificationId''),
             nr_createdAtMs = createdAtMs,
             nr_updatedAtMs = updatedAtMs,
             nr_acknowledgedAtMs = as_finite (js_get value ''acknowledgedAtMs'')\<rparr>
     }"

definition asVerificationStatus :: "jsval \<Rightarrow> verification_status option" where
  "asVerificationStatus value =
     (if value = JStr ''pending'' then Some VPending
      else if value = JStr ''passed'' then Some VPassed
      else if value = JStr ''failed'' then Some VFailed
      else if value = JStr ''partial'' then Some VPartial else None)"

definition asVerificationVerdict :: "jsval \<Rightarrow> verification_verdict option" where
  "asVerificationVerdict value =
     (if value = JStr ''pass'' then Some PassVerdict
      else if value = JStr ''fail'' then Some FailVerdict
      else if value = JStr ''partial'' then Some PartialVerdict else None)"

definition asVerificationCheck :: "jsval \<Rightarrow> verification_check option" where
  "asVerificationCheck value =
     do {
       require_record value;
       status \<leftarrow> asVerificationVerdict (js_get value ''status'');
       i \<leftarrow> as_string (js_get value ''id'');
       summary \<leftarrow> as_string (js_get value ''summary'');
       Some \<lparr>vc_id = i, vc_status = status, vc_summary = summary,
             vc_detail = as_string (js_get value ''detail'')\<rparr>
     }"

definition asVerificationCheckArray :: "jsval \<Rightarrow> verification_check list option" where
  "asVerificationCheckArray value = do { xs \<leftarrow> as_array value; map_all asVerificationCheck xs }"

definition asVerificationGateRecord :: "jsval \<Rightarrow> verification_record option" where
  "asVerificationGateRecord value =
     do {
       require_record value;
       status \<leftarrow> asVerificationStatus (js_get value ''status'');
       i \<leftarrow> as_string (js_get value ''id'');
       verifierId \<leftarrow> as_string (js_get value ''verifierId'');
       requirement \<leftarrow> as_string (js_get value ''requirement'');
       createdAtMs \<leftarrow> as_finite (js_get value ''createdAtMs'');
       updatedAtMs \<leftarrow> as_finite (js_get value ''updatedAtMs'');
       checks \<leftarrow> decode_optional asVerificationCheckArray (js_get value ''checks'');
       Some \<lparr>vr_id = i,
             vr_taskId = as_string (js_get value ''taskId''),
             vr_verifierId = verifierId,
             vr_verifiedBy = as_string (js_get value ''verifiedBy''),
             vr_requirement = requirement,
             vr_status = status,
             vr_verdict = asVerificationVerdict (js_get value ''verdict''),
             vr_verdictSummary = as_string (js_get value ''verdictSummary''),
             vr_checks = checks,
             vr_createdAtMs = createdAtMs,
             vr_updatedAtMs = updatedAtMs\<rparr>
     }"

definition asProposalStatus :: "jsval \<Rightarrow> proposal_status option" where
  "asProposalStatus value =
     (if value = JStr ''pending'' then Some PPending
      else if value = JStr ''accepted'' then Some PAccepted
      else if value = JStr ''rejected'' then Some PRejected
      else if value = JStr ''applied'' then Some PApplied
      else if value = JStr ''expired'' then Some PExpired else None)"

fun as_properties :: "jsval \<Rightarrow> js_properties option" where
  "as_properties (JObj kvs) = Some kvs"
| "as_properties _ = None"

definition asProposalRecord :: "jsval \<Rightarrow> proposal_record option" where
  "asProposalRecord value =
     do {
       require_record value;
       payload \<leftarrow> as_properties (js_get value ''payload'');
       status \<leftarrow> asProposalStatus (js_get value ''status'');
       schemaVersion \<leftarrow> as_string (js_get value ''schemaVersion'');
       i \<leftarrow> as_string (js_get value ''id'');
       kind \<leftarrow> as_string (js_get value ''kind'');
       sourceSessionId \<leftarrow> as_string (js_get value ''sourceSessionId'');
       sourceTurnId \<leftarrow> as_string (js_get value ''sourceTurnId'');
       provenance \<leftarrow> as_string (js_get value ''provenance'');
       createdAtMs \<leftarrow> as_finite (js_get value ''createdAtMs'');
       updatedAtMs \<leftarrow> as_finite (js_get value ''updatedAtMs'');
       Some \<lparr>pr_id = i,
             pr_kind = kind,
             pr_payload = payload,
             pr_status = status,
             pr_schemaVersion = schemaVersion,
             pr_sourceSessionId = sourceSessionId,
             pr_sourceTurnId = sourceTurnId,
             pr_provenance = provenance,
             pr_createdAtMs = createdAtMs,
             pr_updatedAtMs = updatedAtMs,
             pr_expiresAtMs = as_finite (js_get value ''expiresAtMs''),
             pr_decisionNote = as_string (js_get value ''decisionNote'')\<rparr>
     }"

definition asProposalOutboxEventType :: "jsval \<Rightarrow> outbox_event_type option" where
  "asProposalOutboxEventType value =
     (if value = JStr ''proposal.enqueued'' then Some ProposalEnqueued
      else if value = JStr ''proposal.status_changed'' then Some ProposalStatusChanged else None)"

definition asProposalOutboxEntry :: "jsval \<Rightarrow> outbox_entry option" where
  "asProposalOutboxEntry value =
     do {
       require_record value;
       status \<leftarrow> asProposalStatus (js_get value ''status'');
       eventType \<leftarrow> asProposalOutboxEventType (js_get value ''eventType'');
       schemaVersion \<leftarrow> as_string (js_get value ''schemaVersion'');
       i \<leftarrow> as_string (js_get value ''id'');
       proposalId \<leftarrow> as_string (js_get value ''proposalId'');
       createdAtMs \<leftarrow> as_finite (js_get value ''createdAtMs'');
       Some \<lparr>oe_id = i, oe_eventType = eventType, oe_proposalId = proposalId, oe_status = status,
             oe_schemaVersion = schemaVersion, oe_createdAtMs = createdAtMs\<rparr>
     }"

definition cloneOutboxEntry :: "outbox_entry \<Rightarrow> outbox_entry" where
  "cloneOutboxEntry entry =
     \<lparr>oe_id = oe_id entry, oe_eventType = oe_eventType entry, oe_proposalId = oe_proposalId entry,
      oe_status = oe_status entry, oe_schemaVersion = oe_schemaVersion entry,
      oe_createdAtMs = oe_createdAtMs entry\<rparr>"

definition asProposalOutboxEntryArray :: "jsval \<Rightarrow> outbox_entry list option" where
  "asProposalOutboxEntryArray value =
     do { xs \<leftarrow> as_array value; mapped \<leftarrow> map_all asProposalOutboxEntry xs;
          Some (map cloneOutboxEntry mapped) }"

section \<open>Decoding a payload\<close>

definition asTaskDelegationUpsertedPayload :: "jsval \<Rightarrow> delegation_upserted_payload option" where
  "asTaskDelegationUpsertedPayload value =
     do {
       require_record value;
       record \<leftarrow> asDelegationRecord (js_get value ''record'');
       Some \<lparr>dp_record = record,
             dp_updatedAtMs =
               nullish_else (as_finite (js_get value ''updatedAtMs'')) (dr_updatedAtMs record),
             dp_opId = as_string (js_get value ''opId''),
             dp_actor = asTaskEventActor (js_get value ''actor'')\<rparr>
     }"

definition asTaskDelegationStatusSetPayload :: "jsval \<Rightarrow> delegation_status_set_payload option" where
  "asTaskDelegationStatusSetPayload value =
     do {
       base \<leftarrow> asTaskDelegationUpsertedPayload value;
       Some \<lparr>dp_record = dp_record base, dp_updatedAtMs = dp_updatedAtMs base,
             dp_opId = dp_opId base, dp_actor = dp_actor base,
             dp_fromStatus = asDelegationStatus (js_get value ''fromStatus''),
             dp_toStatus = asDelegationStatus (js_get value ''toStatus''),
             dp_reason = as_string (js_get value ''reason'')\<rparr>
     }"

definition asTaskVerificationUpsertedPayload :: "jsval \<Rightarrow> verification_upserted_payload option" where
  "asTaskVerificationUpsertedPayload value =
     do {
       require_record value;
       record \<leftarrow> asVerificationGateRecord (js_get value ''record'');
       Some \<lparr>vp_record = record,
             vp_updatedAtMs =
               nullish_else (as_finite (js_get value ''updatedAtMs'')) (vr_updatedAtMs record),
             vp_opId = as_string (js_get value ''opId''),
             vp_actor = asTaskEventActor (js_get value ''actor'')\<rparr>
     }"

definition asTaskNotificationEmittedPayload :: "jsval \<Rightarrow> notification_emitted_payload option" where
  "asTaskNotificationEmittedPayload value =
     do {
       require_record value;
       record \<leftarrow> asTaskNotificationRecord (js_get value ''record'');
       Some \<lparr>np_record = record,
             np_updatedAtMs =
               nullish_else (as_finite (js_get value ''updatedAtMs'')) (nr_updatedAtMs record),
             np_opId = as_string (js_get value ''opId''),
             np_actor = asTaskEventActor (js_get value ''actor'')\<rparr>
     }"

definition asTaskNotificationStatusSetPayload :: "jsval \<Rightarrow> notification_status_set_payload option" where
  "asTaskNotificationStatusSetPayload value =
     do {
       base \<leftarrow> asTaskNotificationEmittedPayload value;
       Some \<lparr>np_record = np_record base, np_updatedAtMs = np_updatedAtMs base,
             np_opId = np_opId base, np_actor = np_actor base,
             np_fromStatus = asTaskNotificationStatus (js_get value ''fromStatus''),
             np_toStatus = asTaskNotificationStatus (js_get value ''toStatus''),
             np_reason = as_string (js_get value ''reason'')\<rparr>
     }"

definition asTaskProposalEnqueuedPayload :: "jsval \<Rightarrow> proposal_enqueued_payload option" where
  "asTaskProposalEnqueuedPayload value =
     do {
       require_record value;
       proposal \<leftarrow> asProposalRecord (js_get value ''proposal'');
       outboxEntry \<leftarrow> asProposalOutboxEntry (js_get value ''outboxEntry'');
       Some \<lparr>pp_proposal = proposal,
             pp_outboxEntry = outboxEntry,
             pp_updatedAtMs =
               nullish_else (as_finite (js_get value ''updatedAtMs'')) (pr_updatedAtMs proposal),
             pp_opId = as_string (js_get value ''opId''),
             pp_actor = asTaskEventActor (js_get value ''actor'')\<rparr>
     }"

definition asTaskProposalTransitionedPayload :: "jsval \<Rightarrow> proposal_transitioned_payload option" where
  "asTaskProposalTransitionedPayload value =
     do {
       base \<leftarrow> asTaskProposalEnqueuedPayload value;
       Some \<lparr>pp_proposal = pp_proposal base, pp_outboxEntry = pp_outboxEntry base,
             pp_updatedAtMs = pp_updatedAtMs base, pp_opId = pp_opId base,
             pp_actor = pp_actor base,
             pp_fromStatus = asProposalStatus (js_get value ''fromStatus''),
             pp_toStatus = asProposalStatus (js_get value ''toStatus'')\<rparr>
     }"

text \<open>The two accepted shapes: the drained entries themselves with a time, or their ids.\<close>

definition asTaskProposalOutboxDrainedPayload :: "jsval \<Rightarrow> outbox_drained_payload option" where
  "asTaskProposalOutboxDrainedPayload value =
     (if \<not> isRecord value then None
      else
        let actor = asTaskEventActor (js_get value ''actor'');
            opId = as_string (js_get value ''opId'');
            drainBatchId = as_string (js_get value ''drainBatchId'');
            drained = asProposalOutboxEntryArray (js_get value ''drained'');
            updatedAtMs = as_finite (js_get value ''updatedAtMs'')
        in (case (drained, updatedAtMs) of
              (Some entries, Some t) \<Rightarrow>
                Some \<lparr>od_drainedIds = map oe_id entries, od_drainedAtMs = t,
                      od_drained = Some entries, od_updatedAtMs = Some t,
                      od_drainBatchId = drainBatchId, od_opId = opId, od_actor = actor\<rparr>
            | _ \<Rightarrow>
                do {
                  raw \<leftarrow> as_array (js_get value ''drainedIds'');
                  drainedAtMs \<leftarrow> as_finite (js_get value ''drainedAtMs'');
                  drainedIds \<leftarrow> map_all as_string raw;
                  Some \<lparr>od_drainedIds = drainedIds, od_drainedAtMs = drainedAtMs,
                        od_drained = drained, od_updatedAtMs = updatedAtMs,
                        od_drainBatchId = drainBatchId, od_opId = opId, od_actor = actor\<rparr>
                }))"

section \<open>Decoding and creating events\<close>

definition decode_payload :: "string \<Rightarrow> jsval \<Rightarrow> task_event_payload option" where
  "decode_payload eventType payload =
     (if eventType = ''tasks.todo_write'' then
        map_option TodoWrite (asTaskTodoWritePayload payload)
      else if eventType = ''tasks.delegation_upserted'' then
        map_option DelegationUpserted (asTaskDelegationUpsertedPayload payload)
      else if eventType = ''tasks.delegation_status_set'' then
        map_option DelegationStatusSet (asTaskDelegationStatusSetPayload payload)
      else if eventType = ''tasks.verification_upserted'' then
        map_option VerificationUpserted (asTaskVerificationUpsertedPayload payload)
      else if eventType = ''tasks.notification_emitted'' then
        map_option NotificationEmitted (asTaskNotificationEmittedPayload payload)
      else if eventType = ''tasks.notification_status_set'' then
        map_option NotificationStatusSet (asTaskNotificationStatusSetPayload payload)
      else if eventType = ''tasks.proposal_enqueued'' then
        map_option ProposalEnqueuedEvent (asTaskProposalEnqueuedPayload payload)
      else if eventType = ''tasks.proposal_transitioned'' then
        map_option ProposalTransitioned (asTaskProposalTransitionedPayload payload)
      else if eventType = ''tasks.proposal_outbox_drained'' then
        map_option ProposalOutboxDrained (asTaskProposalOutboxDrainedPayload payload)
      else None)"

definition decodeTaskEvent :: "string \<Rightarrow> jsval \<Rightarrow> string option \<Rightarrow> task_event_envelope option" where
  "decodeTaskEvent eventType payload domainVersion =
     (if \<not> isTaskEventType eventType then None
      else if (case domainVersion of
                 None \<Rightarrow> False
               | Some v \<Rightarrow>
                   \<not> isTaskEventsDomainVersionCompatible v TASK_EVENTS_DOMAIN_VERSION) then None
      else
        map_option
          (\<lambda>decoded. \<lparr>te_payload = decoded, te_domainVersion = TASK_EVENTS_DOMAIN_VERSION\<rparr>)
          (decode_payload eventType payload))"

section \<open>The JavaScript objects of typed values\<close>

definition js_strings :: "string list \<Rightarrow> jsval" where
  "js_strings xs = JArr (map JStr xs)"

definition js_of_task_item :: "task_item \<Rightarrow> jsval" where
  "js_of_task_item r = js_object
     [(''id'', JStr (ti_id r)), (''content'', JStr (ti_content r)),
      (''status'', JStr (task_item_status_str (ti_status r))),
      (''priority'', js_opt (\<lambda>p. JStr (task_priority_str p)) (ti_priority r))]"

definition js_of_task_state :: "task_state \<Rightarrow> jsval" where
  "js_of_task_state r = js_object
     [(''items'', JArr (map js_of_task_item (ts_items r))),
      (''updatedAtMs'', js_opt js_int (ts_updatedAtMs r))]"

definition js_of_actor :: "task_event_actor \<Rightarrow> jsval" where
  "js_of_actor r = js_object
     [(''kind'', JStr (actor_kind_str (ta_kind r))), (''id'', js_opt JStr (ta_id r))]"

definition js_of_verification_request :: "verification_request \<Rightarrow> jsval" where
  "js_of_verification_request r = js_object
     [(''verifierId'', JStr (vq_verifierId r)), (''requirement'', JStr (vq_requirement r)),
      (''verificationId'', js_opt JStr (vq_verificationId r))]"

definition js_of_delegation :: "delegation_record \<Rightarrow> jsval" where
  "js_of_delegation r = js_object
     [(''id'', JStr (dr_id r)), (''taskId'', js_opt JStr (dr_taskId r)),
      (''workerId'', JStr (dr_workerId r)), (''instruction'', JStr (dr_instruction r)),
      (''fromAgent'', js_opt JStr (dr_fromAgent r)),
      (''contextSnapshot'', js_opt JStr (dr_contextSnapshot r)),
      (''specialization'', js_opt (\<lambda>s. JStr (specialization_str s)) (dr_specialization r)),
      (''targetAgent'', js_opt JStr (dr_targetAgent r)),
      (''verificationRequest'', js_opt js_of_verification_request (dr_verificationRequest r)),
      (''resultSummary'', js_opt JStr (dr_resultSummary r)),
      (''observedWriteSet'', js_opt js_strings (dr_observedWriteSet r)),
      (''observedWriteSetSource'',
        js_opt (\<lambda>s. JStr (write_set_observation_str s)) (dr_observedWriteSetSource r)),
      (''status'', JStr (delegation_status_str (dr_status r))),
      (''createdAtMs'', js_int (dr_createdAtMs r)), (''updatedAtMs'', js_int (dr_updatedAtMs r)),
      (''completedAtMs'', js_opt js_int (dr_completedAtMs r)),
      (''error'', js_opt JStr (dr_error r))]"

definition js_of_notification :: "notification_record \<Rightarrow> jsval" where
  "js_of_notification r = js_object
     [(''id'', JStr (nr_id r)), (''kind'', JStr (notification_kind_str (nr_kind r))),
      (''recipientKind'', JStr (recipient_kind_str (nr_recipientKind r))),
      (''recipientId'', JStr (nr_recipientId r)),
      (''status'', JStr (notification_status_str (nr_status r))),
      (''summary'', JStr (nr_summary r)), (''taskId'', js_opt JStr (nr_taskId r)),
      (''delegationId'', js_opt JStr (nr_delegationId r)),
      (''verificationId'', js_opt JStr (nr_verificationId r)),
      (''createdAtMs'', js_int (nr_createdAtMs r)), (''updatedAtMs'', js_int (nr_updatedAtMs r)),
      (''acknowledgedAtMs'', js_opt js_int (nr_acknowledgedAtMs r))]"

definition js_of_check :: "verification_check \<Rightarrow> jsval" where
  "js_of_check r = js_object
     [(''id'', JStr (vc_id r)), (''status'', JStr (verdict_str (vc_status r))),
      (''summary'', JStr (vc_summary r)), (''detail'', js_opt JStr (vc_detail r))]"

definition js_of_checks :: "verification_check list \<Rightarrow> jsval" where
  "js_of_checks xs = JArr (map js_of_check xs)"

definition js_of_verification :: "verification_record \<Rightarrow> jsval" where
  "js_of_verification r = js_object
     [(''id'', JStr (vr_id r)), (''taskId'', js_opt JStr (vr_taskId r)),
      (''verifierId'', JStr (vr_verifierId r)), (''verifiedBy'', js_opt JStr (vr_verifiedBy r)),
      (''requirement'', JStr (vr_requirement r)),
      (''status'', JStr (verification_status_str (vr_status r))),
      (''verdict'', js_opt (\<lambda>v. JStr (verdict_str v)) (vr_verdict r)),
      (''verdictSummary'', js_opt JStr (vr_verdictSummary r)),
      (''checks'', js_opt js_of_checks (vr_checks r)),
      (''createdAtMs'', js_int (vr_createdAtMs r)), (''updatedAtMs'', js_int (vr_updatedAtMs r))]"

definition js_of_proposal :: "proposal_record \<Rightarrow> jsval" where
  "js_of_proposal r = js_object
     [(''id'', JStr (pr_id r)), (''kind'', JStr (pr_kind r)), (''payload'', JObj (pr_payload r)),
      (''status'', JStr (proposal_status_str (pr_status r))),
      (''schemaVersion'', JStr (pr_schemaVersion r)),
      (''sourceSessionId'', JStr (pr_sourceSessionId r)),
      (''sourceTurnId'', JStr (pr_sourceTurnId r)), (''provenance'', JStr (pr_provenance r)),
      (''createdAtMs'', js_int (pr_createdAtMs r)), (''updatedAtMs'', js_int (pr_updatedAtMs r)),
      (''expiresAtMs'', js_opt js_int (pr_expiresAtMs r)),
      (''decisionNote'', js_opt JStr (pr_decisionNote r))]"

definition js_of_outbox_entry :: "outbox_entry \<Rightarrow> jsval" where
  "js_of_outbox_entry r = js_object
     [(''id'', JStr (oe_id r)), (''eventType'', JStr (outbox_event_type_str (oe_eventType r))),
      (''proposalId'', JStr (oe_proposalId r)),
      (''status'', JStr (proposal_status_str (oe_status r))),
      (''schemaVersion'', JStr (oe_schemaVersion r)),
      (''createdAtMs'', js_int (oe_createdAtMs r))]"

definition js_of_outbox_entries :: "outbox_entry list \<Rightarrow> jsval" where
  "js_of_outbox_entries xs = JArr (map js_of_outbox_entry xs)"

fun js_of_payload :: "task_event_payload \<Rightarrow> jsval" where
  "js_of_payload (TodoWrite p) = js_of_task_state p"
| "js_of_payload (DelegationUpserted p) = js_object
     [(''record'', js_of_delegation (dp_record p)), (''updatedAtMs'', js_int (dp_updatedAtMs p)),
      (''opId'', js_opt JStr (dp_opId p)), (''actor'', js_opt js_of_actor (dp_actor p))]"
| "js_of_payload (DelegationStatusSet p) = js_object
     [(''record'', js_of_delegation (dp_record p)), (''updatedAtMs'', js_int (dp_updatedAtMs p)),
      (''opId'', js_opt JStr (dp_opId p)), (''actor'', js_opt js_of_actor (dp_actor p)),
      (''fromStatus'', js_opt (\<lambda>s. JStr (delegation_status_str s)) (dp_fromStatus p)),
      (''toStatus'', js_opt (\<lambda>s. JStr (delegation_status_str s)) (dp_toStatus p)),
      (''reason'', js_opt JStr (dp_reason p))]"
| "js_of_payload (VerificationUpserted p) = js_object
     [(''record'', js_of_verification (vp_record p)), (''updatedAtMs'', js_int (vp_updatedAtMs p)),
      (''opId'', js_opt JStr (vp_opId p)), (''actor'', js_opt js_of_actor (vp_actor p))]"
| "js_of_payload (NotificationEmitted p) = js_object
     [(''record'', js_of_notification (np_record p)), (''updatedAtMs'', js_int (np_updatedAtMs p)),
      (''opId'', js_opt JStr (np_opId p)), (''actor'', js_opt js_of_actor (np_actor p))]"
| "js_of_payload (NotificationStatusSet p) = js_object
     [(''record'', js_of_notification (np_record p)), (''updatedAtMs'', js_int (np_updatedAtMs p)),
      (''opId'', js_opt JStr (np_opId p)), (''actor'', js_opt js_of_actor (np_actor p)),
      (''fromStatus'', js_opt (\<lambda>s. JStr (notification_status_str s)) (np_fromStatus p)),
      (''toStatus'', js_opt (\<lambda>s. JStr (notification_status_str s)) (np_toStatus p)),
      (''reason'', js_opt JStr (np_reason p))]"
| "js_of_payload (ProposalEnqueuedEvent p) = js_object
     [(''proposal'', js_of_proposal (pp_proposal p)),
      (''outboxEntry'', js_of_outbox_entry (pp_outboxEntry p)),
      (''updatedAtMs'', js_int (pp_updatedAtMs p)),
      (''opId'', js_opt JStr (pp_opId p)), (''actor'', js_opt js_of_actor (pp_actor p))]"
| "js_of_payload (ProposalTransitioned p) = js_object
     [(''proposal'', js_of_proposal (pp_proposal p)),
      (''outboxEntry'', js_of_outbox_entry (pp_outboxEntry p)),
      (''updatedAtMs'', js_int (pp_updatedAtMs p)),
      (''opId'', js_opt JStr (pp_opId p)), (''actor'', js_opt js_of_actor (pp_actor p)),
      (''fromStatus'', js_opt (\<lambda>s. JStr (proposal_status_str s)) (pp_fromStatus p)),
      (''toStatus'', js_opt (\<lambda>s. JStr (proposal_status_str s)) (pp_toStatus p))]"
| "js_of_payload (ProposalOutboxDrained p) = js_object
     [(''drainedIds'', js_strings (od_drainedIds p)),
      (''drainedAtMs'', js_int (od_drainedAtMs p)),
      (''drained'', js_opt js_of_outbox_entries (od_drained p)),
      (''updatedAtMs'', js_opt js_int (od_updatedAtMs p)),
      (''drainBatchId'', js_opt JStr (od_drainBatchId p)),
      (''opId'', js_opt JStr (od_opId p)), (''actor'', js_opt js_of_actor (od_actor p))]"

text \<open>\<open>createTaskEvent\<close> decodes its typed payload and throws when the decoder rejects it.\<close>

definition createTaskEvent ::
  "task_event_payload \<Rightarrow> string option \<Rightarrow> js_error + task_event_envelope" where
  "createTaskEvent payload domainVersion =
     (case decodeTaskEvent (payload_event_type payload) (js_of_payload payload) domainVersion of
        Some decoded \<Rightarrow> Inr decoded
      | None \<Rightarrow>
          Inl (TypeError (''Invalid payload for task event '' @ payload_event_type payload)))"

end
