(* ===== verification/Session_Types.thy ===== *)
theory Session_Types
  imports Json_Values Task_Events
begin

text \<open>
  The data of the session package: \<open>packages/sessions/src/types.ts\<close>, the errors of \<open>errors.ts\<close>,
  the ids of \<open>keys.ts\<close> and the schema versions of \<open>version.ts\<close>. A number the code checks with
  \<open>Number.isInteger\<close> is a \<open>jsnum\<close> when it comes from outside, where \<open>NaN\<close> also stands for the
  fractions (they take the same branch), and an integer once it is stored.
\<close>

section \<open>Errors\<close>

datatype session_error =
    InvalidSessionIdError string
  | SessionNotFoundError string
  | SessionArchivedError string
  | SchemaVersionMismatchError string string string
  | SessionRecoveryError string
  | RangeError string
  | JsError js_error
  | SqliteError string

fun session_error_message :: "session_error \<Rightarrow> string" where
  "session_error_message (InvalidSessionIdError k) = ''Invalid session id: \"'' @ k @ ''\"''"
| "session_error_message (SessionNotFoundError k) = ''Session not found: \"'' @ k @ ''\"''"
| "session_error_message (SessionArchivedError k) =
     ''Session \"'' @ k @ ''\" is archived and cannot be mutated''"
| "session_error_message (SchemaVersionMismatchError expected actual context) =
     ''Schema version mismatch for '' @ context @ '': expected \"'' @ expected
       @ ''\" but got \"'' @ actual @ ''\"''"
| "session_error_message (SessionRecoveryError m) = m"
| "session_error_message (RangeError m) = m"
| "session_error_message (JsError (Error m)) = m"
| "session_error_message (JsError (TypeError m)) = m"
| "session_error_message (SqliteError m) = m"

abbreviation type_error :: "string \<Rightarrow> session_error" where
  "type_error m \<equiv> JsError (TypeError m)"

abbreviation plain_error :: "string \<Rightarrow> session_error" where
  "plain_error m \<equiv> JsError (Error m)"

section \<open>Records\<close>

datatype session_status = Active | Archived

record session_record =
  ss_id :: string
  ss_metadata :: json_object
  ss_status :: session_status
  ss_schemaVersion :: string
  ss_createdAtMs :: int
  ss_updatedAtMs :: int
  ss_archivedAtMs :: "int option"
  ss_archiveReason :: "string option"

record create_session_input =
  cs_sessionId :: "string option"
  cs_metadata :: "json_object option"
  cs_schemaVersion :: "string option"

record append_input =
  ap_eventType :: string
  ap_payload :: jsval
  ap_turnId :: "string option"
  ap_schemaVersion :: "string option"
  ap_createdAtMs :: "int option"

record journal_entry =
  jn_rowId :: int
  jn_sessionId :: string
  jn_seq :: int
  jn_eventType :: string
  jn_turnId :: "string option"
  jn_payload :: jsval
  jn_schemaVersion :: string
  jn_createdAtMs :: int

record list_options =
  lo_afterSeq :: "jsnum option"
  lo_limit :: "jsnum option"

abbreviation no_options :: list_options where
  "no_options \<equiv> \<lparr>lo_afterSeq = None, lo_limit = None\<rparr>"

record checkpoint_record =
  cp_id :: int
  cp_sessionId :: string
  cp_uptoSeq :: int
  cp_state :: jsval
  cp_schemaVersion :: string
  cp_createdAtMs :: int
  cp_metadata :: json_object

record checkpoint_input =
  ck_state :: jsval
  ck_uptoSeq :: "jsnum option"
  ck_schemaVersion :: "string option"
  ck_createdAtMs :: "int option"
  ck_metadata :: "json_object option"

datatype step_event = ContextBuilt | ModelOutput | ToolsPlanned | ToolResult | FinalOutput

fun step_event_str :: "step_event \<Rightarrow> string" where
  "step_event_str ContextBuilt = ''step.context_built''"
| "step_event_str ModelOutput = ''step.model_output''"
| "step_event_str ToolsPlanned = ''step.tools_planned''"
| "step_event_str ToolResult = ''step.tool_result''"
| "step_event_str FinalOutput = ''step.final_output''"

record step_input =
  sj_turnId :: string
  sj_stepIndex :: jsnum
  sj_eventType :: step_event
  sj_payload :: jsval
  sj_schemaVersion :: "string option"
  sj_createdAtMs :: "int option"

record step_checkpoint_input =
  sc_turnId :: string
  sc_stepIndex :: jsnum
  sc_eventType :: step_event
  sc_state :: jsval
  sc_uptoSeq :: "jsnum option"
  sc_schemaVersion :: "string option"
  sc_createdAtMs :: "int option"

record step_entry =
  sy_eventType :: step_event
  sy_entry :: journal_entry
  sy_stepIndex :: int
  sy_payload :: jsval

record event_envelope =
  en_id :: string
  en_kind :: string
  en_schemaVersion :: string
  en_occurredAtMs :: int
  en_payload :: jsval

record scoped_input =
  sx_event :: jsval
  sx_turnId :: "string option"
  sx_schemaVersion :: "string option"
  sx_createdAtMs :: "int option"

record scoped_entry =
  sz_entry :: journal_entry
  sz_event :: event_envelope

section \<open>Session ids\<close>

definition is_lower_or_digit :: "char \<Rightarrow> bool" where
  "is_lower_or_digit c =
     (let n = (of_char c :: nat) in (97 \<le> n \<and> n \<le> 122) \<or> (48 \<le> n \<and> n \<le> 57))"

definition isSessionId :: "string \<Rightarrow> bool" where
  "isSessionId k \<longleftrightarrow>
     (case k of
        [] \<Rightarrow> False
      | c # cs \<Rightarrow>
          is_lower_or_digit c \<and> 2 \<le> length cs \<and> length cs \<le> 127 \<and>
          list_all (\<lambda>x. is_lower_or_digit x \<or> x \<in> set ''._:-'') cs)"

text \<open>\<open>normalizePrefix\<close>: what is left of the prefix after lower-casing, replacing other
  characters by dashes, collapsing runs of dashes and dropping one dash at each end.\<close>

fun collapse_dashes :: "string \<Rightarrow> string" where
  "collapse_dashes [] = []"
| "collapse_dashes [c] = [c]"
| "collapse_dashes (c # d # cs) =
     (if c = CHR ''-'' \<and> d = CHR ''-'' then collapse_dashes (d # cs)
      else c # collapse_dashes (d # cs))"

definition strip_dash :: "string \<Rightarrow> string" where
  "strip_dash s =
     (let s' = (case s of c # cs \<Rightarrow> if c = CHR ''-'' then cs else s | [] \<Rightarrow> [])
      in if s' \<noteq> [] \<and> last s' = CHR ''-'' then butlast s' else s')"

definition normalizePrefix :: "string \<Rightarrow> string" where
  "normalizePrefix prefix =
     (let normalized = map (\<lambda>c. if is_lower_or_digit c \<or> c = CHR ''-'' then c else CHR ''-'')
                         (map ascii_lower (js_trim prefix));
          collapsed = strip_dash (collapse_dashes normalized)
      in if length collapsed > 0 then collapsed else ''sess'')"

text \<open>\<open>createSessionId\<close>, with the UUID that \<open>randomUUID\<close> returned.\<close>

definition createSessionId :: "string \<Rightarrow> string \<Rightarrow> session_error + string" where
  "createSessionId prefix uuid =
     (let k = normalizePrefix prefix @ ''_'' @ filter (\<lambda>c. c \<noteq> CHR ''-'') uuid
      in if isSessionId k then Inr k else Inl (InvalidSessionIdError k))"

section \<open>Schema versions\<close>

definition SESSIONS_SCHEMA_VERSION :: string where
  "SESSIONS_SCHEMA_VERSION = ''sessions/v1''"

definition resolveSchemaVersion :: "string option \<Rightarrow> string" where
  "resolveSchemaVersion version =
     (case version of
        None \<Rightarrow> SESSIONS_SCHEMA_VERSION
      | Some v \<Rightarrow>
          (if v = [] then SESSIONS_SCHEMA_VERSION
           else let normalized = js_trim v
                in if length normalized = 0 then SESSIONS_SCHEMA_VERSION else normalized))"

definition isSchemaVersionCompatible :: "string \<Rightarrow> string \<Rightarrow> bool" where
  "isSchemaVersionCompatible actual expected =
     (if actual = expected then True
      else (case (parseVersion actual, parseVersion expected) of
              (Some a, Some e) \<Rightarrow> fst a = fst e \<and> snd a = snd e
            | _ \<Rightarrow> False))"

definition assertSchemaVersionCompatible ::
  "string \<Rightarrow> string \<Rightarrow> string \<Rightarrow> session_error + unit" where
  "assertSchemaVersionCompatible actual expected context =
     (if isSchemaVersionCompatible actual expected then Inr ()
      else Inl (SchemaVersionMismatchError expected actual context))"

lemma compatible_refl [simp]: "isSchemaVersionCompatible v v"
  by (simp add: isSchemaVersionCompatible_def)

lemma compatible_trans:
  "isSchemaVersionCompatible u v \<Longrightarrow> isSchemaVersionCompatible v w \<Longrightarrow> isSchemaVersionCompatible u w"
  by (auto simp: isSchemaVersionCompatible_def split: if_splits option.splits)

lemma js_trim_idem [simp]: "js_trim (js_trim s) = js_trim s"
proof -
  let ?d = "dropWhile is_js_space"
  let ?t = "?d s"
  obtain ys where "rev ?t = ys @ ?d (rev ?t)"
    using takeWhile_dropWhile_id [of is_js_space "rev ?t"] by metis
  then have t: "?t = rev (?d (rev ?t)) @ rev ys"
    by (metis rev_append rev_rev_ident)
  have "?d (rev (?d (rev ?t))) = rev (?d (rev ?t))"
  proof (cases "rev (?d (rev ?t))")
    case Nil
    show ?thesis by (simp only: Nil dropWhile.simps)
  next
    case (Cons c cs)
    then have "\<not> is_js_space c"
      using t hd_dropWhile [of is_js_space s] by (metis append_Cons list.sel(1) list.distinct(1))
    then show ?thesis by (simp only: Cons dropWhile.simps if_False)
  qed
  then show ?thesis
    by (simp add: js_trim_def dropWhile_idem)
qed

lemma resolve_idem [simp]:
  "resolveSchemaVersion (Some (resolveSchemaVersion v)) = resolveSchemaVersion v"
proof -
  have "js_trim SESSIONS_SCHEMA_VERSION = SESSIONS_SCHEMA_VERSION"
    by (simp add: js_trim_def SESSIONS_SCHEMA_VERSION_def is_js_space_def)
  then show ?thesis
    by (auto simp: resolveSchemaVersion_def Let_def SESSIONS_SCHEMA_VERSION_def split: option.splits)
qed

end
