(* ===== verification/Session_Storage.thy ===== *)
theory Session_Storage
  imports Session_Types
begin

text \<open>
  The SQLite storage of the session package, \<open>packages/sessions/src/storage.ts\<close>: three tables
  with their constraints, the statements the code runs on them, and transactions. A table is
  the list of its rows in insertion order; a column with JSON text holds the value the text
  stands for; an \<open>AUTOINCREMENT\<close> counter is the last id it handed out.
\<close>

section \<open>Tables and store\<close>

record tables =
  tab_sessions :: "session_record list"
  tab_journal :: "journal_entry list"
  tab_checkpoints :: "checkpoint_record list"
  tab_lastRowId :: int
  tab_lastCheckpointId :: int

text \<open>
  The store around the tables: the option \<open>now\<close> (\<open>st_clock n\<close> is what its n-th call returns,
  \<open>st_ticks\<close> counts the calls), the UUIDs of \<open>randomUUID\<close> in the same way, the hash of
  \<open>node:crypto\<close>, the artifact root and the files, both as the segments of absolute paths, and
  the default schema version. Only the tables are rolled back.
\<close>

record session_store =
  st_db :: tables
  st_clock :: "nat \<Rightarrow> int"
  st_ticks :: nat
  st_uuid :: "nat \<Rightarrow> string"
  st_uuids :: nat
  st_hash :: "string \<Rightarrow> string"
  st_artifactRoot :: "string list"
  st_files :: "(string list \<times> string) list"
  st_schemaVersion :: string

type_synonym 'a result = "(session_error + 'a) \<times> session_store"

definition chain :: "('e + 'a) \<times> 's \<Rightarrow> ('a \<Rightarrow> 's \<Rightarrow> ('e + 'b) \<times> 's) \<Rightarrow> ('e + 'b) \<times> 's" where
  "chain r k = (case r of (Inl e, s) \<Rightarrow> (Inl e, s) | (Inr x, s) \<Rightarrow> k x s)"

lemma chain_simps [simp]:
  "chain (Inl e, s) k = (Inl e, s)" "chain (Inr x, s) k = k x s"
  by (simp_all add: chain_def)

definition store_time :: "session_store \<Rightarrow> int" where
  "store_time s = st_clock s (st_ticks s)"

definition store_tick :: "session_store \<Rightarrow> session_store" where
  "store_tick s = s\<lparr>st_ticks := st_ticks s + 1\<rparr>"

text \<open>\<open>value ?? this.now()\<close>: the clock is only read when the value is missing.\<close>

definition time_or_now :: "int option \<Rightarrow> session_store \<Rightarrow> int \<times> session_store" where
  "time_or_now value s =
     (case value of Some t \<Rightarrow> (t, s) | None \<Rightarrow> (store_time s, store_tick s))"

definition transaction :: "(session_store \<Rightarrow> 'a result) \<Rightarrow> session_store \<Rightarrow> 'a result" where
  "transaction operation s =
     (case operation s of
        (Inr x, s') \<Rightarrow> (Inr x, s')
      | (Inl e, s') \<Rightarrow> (Inl e, s'\<lparr>st_db := st_db s\<rparr>))"

section \<open>Sessions\<close>

definition sqlGetSession :: "string \<Rightarrow> tables \<Rightarrow> session_record option" where
  "sqlGetSession k d = find (\<lambda>r. ss_id r = k) (tab_sessions d)"

text \<open>\<open>UPDATE sessions SET ... WHERE session_id = k\<close>\<close>

definition update_session :: "string \<Rightarrow> (session_record \<Rightarrow> session_record) \<Rightarrow> tables \<Rightarrow> tables" where
  "update_session k f d =
     d\<lparr>tab_sessions := map (\<lambda>r. if ss_id r = k then f r else r) (tab_sessions d)\<rparr>"

definition sqlCreateSession ::
  "string \<Rightarrow> json_object \<Rightarrow> string \<Rightarrow> session_store \<Rightarrow> session_record result" where
  "sqlCreateSession k metadata schemaVersion s =
     (let now = store_time s; s' = store_tick s; d = st_db s
      in if k \<in> ss_id ` set (tab_sessions d)
         then (Inl (SqliteError ''UNIQUE constraint failed: sessions.session_id''), s')
         else
           let row = \<lparr>ss_id = k, ss_metadata = json_fields metadata, ss_status = Active,
                      ss_schemaVersion = schemaVersion, ss_createdAtMs = now,
                      ss_updatedAtMs = now, ss_archivedAtMs = None, ss_archiveReason = None\<rparr>;
               d' = d\<lparr>tab_sessions := tab_sessions d @ [row]\<rparr>;
               s'' = s'\<lparr>st_db := d'\<rparr>
           in (case sqlGetSession k d' of
                 None \<Rightarrow> (Inl (plain_error (''Session insert succeeded but session \"'' @ k
                                @ ''\" cannot be reloaded'')), s'')
               | Some r \<Rightarrow> (Inr r, s'')))"

definition sqlUpdateSessionMetadata ::
  "string \<Rightarrow> json_object \<Rightarrow> int \<Rightarrow> session_store \<Rightarrow> session_record option \<times> session_store" where
  "sqlUpdateSessionMetadata k metadata updatedAtMs s =
     (let d' = update_session k
                 (\<lambda>r. r\<lparr>ss_metadata := json_fields metadata, ss_updatedAtMs := updatedAtMs\<rparr>) (st_db s)
      in (sqlGetSession k d', s\<lparr>st_db := d'\<rparr>))"

definition sqlSetSessionArchived ::
  "string \<Rightarrow> string option \<Rightarrow> int \<Rightarrow> session_store \<Rightarrow> session_record option \<times> session_store" where
  "sqlSetSessionArchived k reason archivedAtMs s =
     (let d' = update_session k
                 (\<lambda>r. r\<lparr>ss_status := Archived,
                        ss_archiveReason := nullish (ss_archiveReason r) reason,
                        ss_archivedAtMs := nullish (ss_archivedAtMs r) (Some archivedAtMs),
                        ss_updatedAtMs := archivedAtMs\<rparr>) (st_db s)
      in (sqlGetSession k d', s\<lparr>st_db := d'\<rparr>))"

text \<open>\<open>DELETE\<close> with \<open>ON DELETE CASCADE\<close>; the result tells whether a row was deleted.\<close>

definition sqlDeleteSession :: "string \<Rightarrow> session_store \<Rightarrow> bool \<times> session_store" where
  "sqlDeleteSession k s =
     (let d = st_db s
      in (k \<in> ss_id ` set (tab_sessions d),
          s\<lparr>st_db := d\<lparr>tab_sessions := filter (\<lambda>r. ss_id r \<noteq> k) (tab_sessions d),
                       tab_journal := filter (\<lambda>e. jn_sessionId e \<noteq> k) (tab_journal d),
                       tab_checkpoints := filter (\<lambda>c. cp_sessionId c \<noteq> k) (tab_checkpoints d)\<rparr>\<rparr>))"

definition touchSessionUpdatedAt :: "string \<Rightarrow> int \<Rightarrow> tables \<Rightarrow> tables" where
  "touchSessionUpdatedAt k updatedAtMs d =
     update_session k
       (\<lambda>r. r\<lparr>ss_updatedAtMs := if ss_updatedAtMs r < updatedAtMs then updatedAtMs
                                else ss_updatedAtMs r\<rparr>) d"

section \<open>Journal entries\<close>

definition entries_of :: "string \<Rightarrow> tables \<Rightarrow> journal_entry list" where
  "entries_of k d = filter (\<lambda>e. jn_sessionId e = k) (tab_journal d)"

fun max_seq :: "journal_entry list \<Rightarrow> int" where
  "max_seq [] = 0"
| "max_seq [e] = jn_seq e"
| "max_seq (e # f # es) = max (jn_seq e) (max_seq (f # es))"

definition sqlGetLatestJournalSeq :: "string \<Rightarrow> tables \<Rightarrow> int" where
  "sqlGetLatestJournalSeq k d = max_seq (entries_of k d)"

definition sqlGetNextJournalSeq :: "string \<Rightarrow> tables \<Rightarrow> int" where
  "sqlGetNextJournalSeq k d = max_seq (entries_of k d) + 1"

definition by_seq :: "journal_entry \<Rightarrow> journal_entry \<Rightarrow> int" where
  "by_seq e f = jn_seq e - jn_seq f"

definition by_latest_entry :: "journal_entry \<Rightarrow> journal_entry \<Rightarrow> int" where
  "by_latest_entry e f =
     (if jn_seq f \<noteq> jn_seq e then jn_seq f - jn_seq e else jn_rowId f - jn_rowId e)"

definition sqlGetLatestTurnId :: "string \<Rightarrow> tables \<Rightarrow> string option" where
  "sqlGetLatestTurnId k d =
     (case js_sort by_latest_entry
             (filter (\<lambda>e. jn_turnId e \<noteq> None \<and> jn_turnId e \<noteq> Some []) (entries_of k d)) of
        [] \<Rightarrow> None
      | e # _ \<Rightarrow> jn_turnId e)"

definition sqlInsertJournalEntry ::
  "string \<Rightarrow> int \<Rightarrow> string \<Rightarrow> string option \<Rightarrow> jsval \<Rightarrow> string \<Rightarrow> int \<Rightarrow> session_store \<Rightarrow>
   journal_entry result" where
  "sqlInsertJournalEntry k seq eventType turnId payload schemaVersion createdAtMs s =
     (let d = st_db s in
      case json_column payload of
        None \<Rightarrow> (Inl (type_error ''Provided value cannot be bound to SQLite parameter 5.''), s)
      | Some payload_json \<Rightarrow>
          (if \<not> seq > 0 then (Inl (SqliteError ''CHECK constraint failed: seq > 0''), s)
           else if \<exists>e \<in> set (tab_journal d). jn_sessionId e = k \<and> jn_seq e = seq
           then (Inl (SqliteError
                   ''UNIQUE constraint failed: journal_entries.session_id, journal_entries.seq''), s)
           else if k \<notin> ss_id ` set (tab_sessions d)
           then (Inl (SqliteError ''FOREIGN KEY constraint failed''), s)
           else
             let row = \<lparr>jn_rowId = tab_lastRowId d + 1, jn_sessionId = k, jn_seq = seq,
                        jn_eventType = eventType, jn_turnId = turnId, jn_payload = payload_json,
                        jn_schemaVersion = schemaVersion, jn_createdAtMs = createdAtMs\<rparr>;
                 d' = d\<lparr>tab_journal := tab_journal d @ [row], tab_lastRowId := tab_lastRowId d + 1\<rparr>
             in (Inr row, s\<lparr>st_db := touchSessionUpdatedAt k createdAtMs d'\<rparr>)))"

text \<open>The checks of \<open>afterSeq\<close> and \<open>limit\<close>, which the transcript repeats.\<close>

definition check_afterSeq :: "jsnum option \<Rightarrow> session_error + int" where
  "check_afterSeq value =
     (let n = nullish_else value (Finite 0);
          complaint = RangeError (''afterSeq must be a non-negative integer; received '' @ show_num n)
      in case integer_of n of
           None \<Rightarrow> Inl complaint
         | Some i \<Rightarrow> (if i < 0 then Inl complaint else Inr i))"

definition check_limit :: "jsnum option \<Rightarrow> session_error + int option" where
  "check_limit value =
     (case value of
        None \<Rightarrow> Inr None
      | Some n \<Rightarrow>
          let complaint = RangeError (''limit must be a positive integer; received '' @ show_num n)
          in case integer_of n of
               None \<Rightarrow> Inl complaint
             | Some i \<Rightarrow> (if i \<le> 0 then Inl complaint else Inr (Some i)))"

definition sql_limit :: "int option \<Rightarrow> 'a list \<Rightarrow> 'a list" where
  "sql_limit limit rows = (case limit of None \<Rightarrow> rows | Some n \<Rightarrow> take (nat n) rows)"

definition sqlListJournalEntries ::
  "string \<Rightarrow> list_options \<Rightarrow> tables \<Rightarrow> session_error + journal_entry list" where
  "sqlListJournalEntries k options d =
     (case check_afterSeq (lo_afterSeq options) of
        Inl e \<Rightarrow> Inl e
      | Inr afterSeq \<Rightarrow>
          (case check_limit (lo_limit options) of
             Inl e \<Rightarrow> Inl e
           | Inr limit \<Rightarrow>
               Inr (sql_limit limit
                 (js_sort by_seq (filter (\<lambda>e. jn_seq e > afterSeq) (entries_of k d))))))"

section \<open>Checkpoints\<close>

definition checkpoints_of :: "string \<Rightarrow> tables \<Rightarrow> checkpoint_record list" where
  "checkpoints_of k d = filter (\<lambda>c. cp_sessionId c = k) (tab_checkpoints d)"

definition by_latest_checkpoint :: "checkpoint_record \<Rightarrow> checkpoint_record \<Rightarrow> int" where
  "by_latest_checkpoint c d =
     (if cp_uptoSeq d \<noteq> cp_uptoSeq c then cp_uptoSeq d - cp_uptoSeq c else cp_id d - cp_id c)"

definition sqlInsertCheckpoint ::
  "string \<Rightarrow> int \<Rightarrow> jsval \<Rightarrow> json_object \<Rightarrow> string \<Rightarrow> int \<Rightarrow> session_store \<Rightarrow>
   checkpoint_record result" where
  "sqlInsertCheckpoint k uptoSeq state metadata schemaVersion createdAtMs s =
     (let d = st_db s in
      case json_column state of
        None \<Rightarrow> (Inl (type_error ''Provided value cannot be bound to SQLite parameter 3.''), s)
      | Some state_json \<Rightarrow>
          (if \<not> uptoSeq \<ge> 0 then (Inl (SqliteError ''CHECK constraint failed: upto_seq >= 0''), s)
           else if \<exists>c \<in> set (tab_checkpoints d). cp_sessionId c = k \<and> cp_uptoSeq c = uptoSeq
           then (Inl (SqliteError
                   ''UNIQUE constraint failed: checkpoints.session_id, checkpoints.upto_seq''), s)
           else if k \<notin> ss_id ` set (tab_sessions d)
           then (Inl (SqliteError ''FOREIGN KEY constraint failed''), s)
           else
             let row = \<lparr>cp_id = tab_lastCheckpointId d + 1, cp_sessionId = k, cp_uptoSeq = uptoSeq,
                        cp_state = state_json, cp_schemaVersion = schemaVersion,
                        cp_createdAtMs = createdAtMs, cp_metadata = json_fields metadata\<rparr>;
                 d' = d\<lparr>tab_checkpoints := tab_checkpoints d @ [row],
                        tab_lastCheckpointId := tab_lastCheckpointId d + 1\<rparr>
             in (Inr row, s\<lparr>st_db := touchSessionUpdatedAt k createdAtMs d'\<rparr>)))"

definition sqlGetCheckpoint ::
  "string \<Rightarrow> jsnum \<Rightarrow> tables \<Rightarrow> session_error + checkpoint_record option" where
  "sqlGetCheckpoint k checkpointId d =
     (let complaint =
            RangeError (''checkpointId must be a positive integer; received '' @ show_num checkpointId)
      in case integer_of checkpointId of
           None \<Rightarrow> Inl complaint
         | Some i \<Rightarrow>
             (if i \<le> 0 then Inl complaint
              else Inr (find (\<lambda>c. cp_sessionId c = k \<and> cp_id c = i) (tab_checkpoints d))))"

definition sqlGetLatestCheckpoint :: "string \<Rightarrow> tables \<Rightarrow> checkpoint_record option" where
  "sqlGetLatestCheckpoint k d =
     (case js_sort by_latest_checkpoint (checkpoints_of k d) of [] \<Rightarrow> None | c # _ \<Rightarrow> Some c)"

definition sqlListCheckpoints ::
  "string \<Rightarrow> jsnum option \<Rightarrow> tables \<Rightarrow> session_error + checkpoint_record list" where
  "sqlListCheckpoints k limit d =
     (case check_limit limit of
        Inl e \<Rightarrow> Inl e
      | Inr n \<Rightarrow> Inr (sql_limit n (js_sort by_latest_checkpoint (checkpoints_of k d))))"

section \<open>Orders\<close>

lemma comparator_by_seq: "consistent_comparator by_seq"
  unfolding by_seq_def by unfold_locales auto

lemma comparator_by_latest_entry: "consistent_comparator by_latest_entry"
  unfolding by_latest_entry_def by unfold_locales (auto split: if_splits)

lemma comparator_by_latest_checkpoint: "consistent_comparator by_latest_checkpoint"
  unfolding by_latest_checkpoint_def by unfold_locales (auto split: if_splits)

interpretation by_seq: consistent_comparator by_seq
  by (rule comparator_by_seq)

interpretation by_latest_entry: consistent_comparator by_latest_entry
  by (rule comparator_by_latest_entry)

interpretation by_latest_checkpoint: consistent_comparator by_latest_checkpoint
  by (rule comparator_by_latest_checkpoint)

end
