(* ===== verification/Session_Journal.thy ===== *)
theory Session_Journal
  imports Session_Storage
begin

text \<open>
  \<open>packages/sessions/src/journal.ts\<close>: appending to a session's journal and reading it, raw, by
  step, and by event envelope. An append takes the session record that its caller read before;
  it checks that record's status and version and takes the next sequence number of the table.
\<close>

section \<open>Payloads\<close>

definition STEP_JOURNAL_EVENT_TYPES :: "string list" where
  "STEP_JOURNAL_EVENT_TYPES =
     map step_event_str [ContextBuilt, ModelOutput, ToolsPlanned, ToolResult, FinalOutput]"

definition STREAM_JOURNAL_EVENT_TYPE :: string where
  "STREAM_JOURNAL_EVENT_TYPE = ''stream.event''"

definition AUDIT_JOURNAL_EVENT_TYPE :: string where
  "AUDIT_JOURNAL_EVENT_TYPE = ''audit.event''"

definition isStepJournalEventType :: "string \<Rightarrow> step_event option" where
  "isStepJournalEventType eventType =
     find (\<lambda>e. step_event_str e = eventType)
       [ContextBuilt, ModelOutput, ToolsPlanned, ToolResult, FinalOutput]"

lemma isStepJournalEventType_str [simp]: "isStepJournalEventType (step_event_str e) = Some e"
  by (cases e) (simp_all add: isStepJournalEventType_def)

lemma isStepJournalEventType_iff: "isStepJournalEventType t = Some e \<longleftrightarrow> t = step_event_str e"
  by (cases e) (auto simp: isStepJournalEventType_def split: if_splits)

lemma isStepJournalEventType_member:
  "isStepJournalEventType t \<noteq> None \<longleftrightarrow> t \<in> set STEP_JOURNAL_EVENT_TYPES"
  by (auto simp: STEP_JOURNAL_EVENT_TYPES_def isStepJournalEventType_def)

text \<open>Both readers return nothing for a payload that is not an object of the expected shape.\<close>

fun asStepJournalPayload :: "jsval \<Rightarrow> (int \<times> jsval) option" where
  "asStepJournalPayload (JObj candidate) =
     (case alist_get candidate ''stepIndex'' of
        JNum (Finite n) \<Rightarrow>
          (if n < 0 then None
           else if \<not> has_own candidate ''data'' then None
           else Some (n, alist_get candidate ''data''))
      | _ \<Rightarrow> None)"
| "asStepJournalPayload _ = None"

definition non_blank :: "jsval \<Rightarrow> string option" where
  "non_blank v =
     (case v of JStr t \<Rightarrow> (if length (js_trim t) = 0 then None else Some t) | _ \<Rightarrow> None)"

fun asJournalEventEnvelope :: "jsval \<Rightarrow> event_envelope option" where
  "asJournalEventEnvelope (JObj candidate) =
     (case non_blank (alist_get candidate ''id'') of
        None \<Rightarrow> None
      | Some k \<Rightarrow>
     (case non_blank (alist_get candidate ''kind'') of
        None \<Rightarrow> None
      | Some kind \<Rightarrow>
     (case non_blank (alist_get candidate ''schemaVersion'') of
        None \<Rightarrow> None
      | Some schemaVersion \<Rightarrow>
     (case as_finite (alist_get candidate ''occurredAtMs'') of
        None \<Rightarrow> None
      | Some occurredAtMs \<Rightarrow>
          (if \<not> has_own candidate ''payload'' then None
           else Some \<lparr>en_id = k, en_kind = kind, en_schemaVersion = schemaVersion,
                      en_occurredAtMs = occurredAtMs,
                      en_payload = alist_get candidate ''payload''\<rparr>)))))"
| "asJournalEventEnvelope _ = None"

text \<open>The object a normalized envelope is, as it goes into a payload.\<close>

definition js_of_envelope :: "event_envelope \<Rightarrow> jsval" where
  "js_of_envelope e =
     JObj [(''id'', JStr (en_id e)), (''kind'', JStr (en_kind e)),
           (''schemaVersion'', JStr (en_schemaVersion e)),
           (''occurredAtMs'', js_int (en_occurredAtMs e)), (''payload'', en_payload e)]"

definition validateJournalEventEnvelope :: "jsval \<Rightarrow> session_error + event_envelope" where
  "validateJournalEventEnvelope event =
     (case asJournalEventEnvelope event of
        None \<Rightarrow> Inl (type_error ''event must be a valid journal event envelope'')
      | Some normalized \<Rightarrow> Inr normalized)"

definition toStepJournalEntry :: "journal_entry \<Rightarrow> step_entry option" where
  "toStepJournalEntry entry =
     (case isStepJournalEventType (jn_eventType entry) of
        None \<Rightarrow> None
      | Some eventType \<Rightarrow>
          (case asStepJournalPayload (jn_payload entry) of
             None \<Rightarrow> None
           | Some (stepIndex, payload) \<Rightarrow>
               Some \<lparr>sy_eventType = eventType, sy_entry = entry, sy_stepIndex = stepIndex,
                     sy_payload = payload\<rparr>))"

section \<open>Appending\<close>

definition journalAppend :: "session_record \<Rightarrow> append_input \<Rightarrow> session_store \<Rightarrow> journal_entry result"
where
  "journalAppend session input s =
     (if ss_status session = Archived then (Inl (SessionArchivedError (ss_id session)), s)
      else let eventType = js_trim (ap_eventType input) in
      if length eventType = 0 then (Inl (type_error ''eventType must be a non-empty string''), s)
      else
        let schemaVersion =
              resolveSchemaVersion (nullish (ap_schemaVersion input) (Some (ss_schemaVersion session)))
        in case assertSchemaVersionCompatible schemaVersion (ss_schemaVersion session)
                  (''journal entry for session '' @ ss_id session) of
             Inl e \<Rightarrow> (Inl e, s)
           | Inr _ \<Rightarrow>
               let seq = sqlGetNextJournalSeq (ss_id session) (st_db s);
                   (createdAtMs, s') = time_or_now (ap_createdAtMs input) s
               in sqlInsertJournalEntry (ss_id session) seq eventType (ap_turnId input)
                    (ap_payload input) schemaVersion createdAtMs s')"

definition step_payload :: "int \<Rightarrow> jsval \<Rightarrow> jsval" where
  "step_payload stepIndex payload = JObj [(''stepIndex'', js_int stepIndex), (''data'', payload)]"

text \<open>The checks that \<open>appendStep\<close> and \<open>createStep\<close> share.\<close>

definition check_step :: "string \<Rightarrow> jsnum \<Rightarrow> session_error + string \<times> int" where
  "check_step turnId stepIndex =
     (let turn = js_trim turnId;
          complaint =
            RangeError (''stepIndex must be a non-negative integer; received '' @ show_num stepIndex)
      in if length turn = 0 then Inl (type_error ''turnId must be a non-empty string'')
         else (case integer_of stepIndex of
                 None \<Rightarrow> Inl complaint
               | Some i \<Rightarrow> (if i < 0 then Inl complaint else Inr (turn, i))))"

definition journalAppendStep :: "session_record \<Rightarrow> step_input \<Rightarrow> session_store \<Rightarrow> journal_entry result"
where
  "journalAppendStep session input s =
     (case check_step (sj_turnId input) (sj_stepIndex input) of
        Inl e \<Rightarrow> (Inl e, s)
      | Inr (turnId, stepIndex) \<Rightarrow>
          journalAppend session
            \<lparr>ap_eventType = step_event_str (sj_eventType input),
             ap_payload = step_payload stepIndex (sj_payload input),
             ap_turnId = Some turnId,
             ap_schemaVersion = sj_schemaVersion input,
             ap_createdAtMs = sj_createdAtMs input\<rparr> s)"

definition appendScopedEvent ::
  "session_record \<Rightarrow> string \<Rightarrow> scoped_input \<Rightarrow> session_store \<Rightarrow> journal_entry result" where
  "appendScopedEvent session eventType input s =
     (case validateJournalEventEnvelope (sx_event input) of
        Inl e \<Rightarrow> (Inl e, s)
      | Inr event \<Rightarrow>
          journalAppend session
            \<lparr>ap_eventType = eventType,
             ap_payload = js_of_envelope event,
             ap_turnId = sx_turnId input,
             ap_schemaVersion = sx_schemaVersion input,
             ap_createdAtMs = sx_createdAtMs input\<rparr> s)"

definition journalAppendStreamEvent ::
  "session_record \<Rightarrow> scoped_input \<Rightarrow> session_store \<Rightarrow> journal_entry result" where
  "journalAppendStreamEvent session input s =
     appendScopedEvent session STREAM_JOURNAL_EVENT_TYPE input s"

definition journalAppendAuditEvent ::
  "session_record \<Rightarrow> scoped_input \<Rightarrow> session_store \<Rightarrow> journal_entry result" where
  "journalAppendAuditEvent session input s =
     appendScopedEvent session AUDIT_JOURNAL_EVENT_TYPE input s"

section \<open>Reading\<close>

definition journalList :: "string \<Rightarrow> list_options \<Rightarrow> tables \<Rightarrow> session_error + journal_entry list" where
  "journalList k options d = sqlListJournalEntries k options d"

definition journalLatestTurnId :: "string \<Rightarrow> tables \<Rightarrow> string option" where
  "journalLatestTurnId k d = sqlGetLatestTurnId k d"

text \<open>The turn filter of the scoped listings: \<open>options.turnId?.trim()\<close>, checked after the
  entries were listed.\<close>

definition turn_filter :: "string option \<Rightarrow> session_error + string option" where
  "turn_filter turnId =
     (case turnId of
        None \<Rightarrow> Inr None
      | Some t \<Rightarrow>
          (if length (js_trim t) = 0
           then Inl (type_error ''turnId must be a non-empty string when provided'')
           else Inr (Some (js_trim t))))"

definition of_turn :: "string option \<Rightarrow> journal_entry \<Rightarrow> bool" where
  "of_turn turnId entry \<longleftrightarrow> (case turnId of None \<Rightarrow> True | Some t \<Rightarrow> jn_turnId entry = Some t)"

definition journalListStep ::
  "string \<Rightarrow> list_options \<Rightarrow> string option \<Rightarrow> tables \<Rightarrow> session_error + step_entry list" where
  "journalListStep k options turnId d =
     (case journalList k options d of
        Inl e \<Rightarrow> Inl e
      | Inr entries \<Rightarrow>
          (case turn_filter turnId of
             Inl e \<Rightarrow> Inl e
           | Inr turn \<Rightarrow> Inr (List.map_filter toStepJournalEntry (filter (of_turn turn) entries))))"

definition scoped_entry_of :: "string \<Rightarrow> string option \<Rightarrow> journal_entry \<Rightarrow> scoped_entry option" where
  "scoped_entry_of eventType turn entry =
     (if jn_eventType entry \<noteq> eventType then None
      else if \<not> of_turn turn entry then None
      else (case asJournalEventEnvelope (jn_payload entry) of
              None \<Rightarrow> None
            | Some event \<Rightarrow> Some \<lparr>sz_entry = entry, sz_event = event\<rparr>))"

definition listScopedEvents ::
  "string \<Rightarrow> string \<Rightarrow> list_options \<Rightarrow> string option \<Rightarrow> tables \<Rightarrow> session_error + scoped_entry list"
where
  "listScopedEvents k eventType options turnId d =
     (case journalList k options d of
        Inl e \<Rightarrow> Inl e
      | Inr entries \<Rightarrow>
          (case turn_filter turnId of
             Inl e \<Rightarrow> Inl e
           | Inr turn \<Rightarrow> Inr (List.map_filter (scoped_entry_of eventType turn) entries)))"

definition journalListStreamEvents ::
  "string \<Rightarrow> list_options \<Rightarrow> string option \<Rightarrow> tables \<Rightarrow> session_error + scoped_entry list" where
  "journalListStreamEvents k options turnId d =
     listScopedEvents k STREAM_JOURNAL_EVENT_TYPE options turnId d"

definition journalListAuditEvents ::
  "string \<Rightarrow> list_options \<Rightarrow> string option \<Rightarrow> tables \<Rightarrow> session_error + scoped_entry list" where
  "journalListAuditEvents k options turnId d =
     listScopedEvents k AUDIT_JOURNAL_EVENT_TYPE options turnId d"

section \<open>What was appended is read back\<close>

lemma step_payload_roundtrip:
  "0 \<le> i \<Longrightarrow> is_json v \<Longrightarrow>
   asStepJournalPayload (json_copy (step_payload i v)) = Some (i, v)"
  by (auto simp: step_payload_def has_own_def json_copy_id)

lemma envelope_wf:
  assumes "asJournalEventEnvelope v = Some e"
  shows "js_trim (en_id e) \<noteq> []" "js_trim (en_kind e) \<noteq> []" "js_trim (en_schemaVersion e) \<noteq> []"
  using assms
  by (cases v; auto simp: non_blank_def split: option.splits jsval.splits if_splits)+

lemma envelope_roundtrip:
  assumes "asJournalEventEnvelope v = Some e" and "is_json v"
  shows "json_copy (js_of_envelope e) = js_of_envelope e"
    and "asJournalEventEnvelope (js_of_envelope e) = Some e"
proof -
  obtain kvs where v: "v = JObj kvs" using assms(1) by (cases v) auto
  have e: "en_payload e = alist_get kvs ''payload''" "has_own kvs ''payload''"
    using assms(1) by (auto simp: v split: option.splits if_splits)
  then have json: "is_json (en_payload e)"
    using assms(2) by (simp add: v alist_get_json_fields)
  then show "json_copy (js_of_envelope e) = js_of_envelope e"
    by (intro json_copy_id) (simp add: js_of_envelope_def)
  show "asJournalEventEnvelope (js_of_envelope e) = Some e"
    using envelope_wf [OF assms(1)] by (simp add: js_of_envelope_def non_blank_def has_own_def)
qed

end
