(* ===== verification/Session_Recovery.thy ===== *)
theory Session_Recovery
  imports Session_Journal
begin

text \<open>
  \<open>packages/sessions/src/recovery.ts\<close>: the state of a session from its latest checkpoint and
  the journal after it, and the same at the granularity of a turn's steps. A reducer is a
  function from a state and an entry to a state.
\<close>

section \<open>Recovering a session\<close>

type_synonym reducer = "jsval \<Rightarrow> journal_entry \<Rightarrow> jsval"

record recover_options =
  ro_expectedSchemaVersion :: "string option"
  ro_reducer :: "reducer option"
  ro_initialState :: "jsval option"

record recovery_result =
  rr_session :: session_record
  rr_checkpoint :: "checkpoint_record option"
  rr_journal :: "journal_entry list"
  rr_state :: jsval
  rr_lastAppliedSeq :: int

definition applyEvents :: "jsval \<Rightarrow> journal_entry list \<Rightarrow> reducer option \<Rightarrow> jsval" where
  "applyEvents initialState events reducer =
     (case reducer of None \<Rightarrow> initialState | Some f \<Rightarrow> foldl f initialState events)"

text \<open>\<open>if (options.expectedSchemaVersion) assertSchemaVersionCompatible(...)\<close>: an empty version is
  not checked.\<close>

definition assert_expected :: "string \<Rightarrow> string option \<Rightarrow> string \<Rightarrow> session_error + unit" where
  "assert_expected actual expected context =
     (case expected of
        None \<Rightarrow> Inr ()
      | Some v \<Rightarrow> (if v = [] then Inr () else assertSchemaVersionCompatible actual v context))"

fun assert_entries :: "string \<Rightarrow> string option \<Rightarrow> journal_entry list \<Rightarrow> session_error + unit" where
  "assert_entries k expected [] = Inr ()"
| "assert_entries k expected (e # es) =
     (case assert_expected (jn_schemaVersion e) expected
             (''journal entry '' @ js_show (jn_rowId e) @ '' for session '' @ k) of
        Inl err \<Rightarrow> Inl err
      | Inr _ \<Rightarrow> assert_entries k expected es)"

text \<open>\<open>checkpoint?.state ?? options.initialState ?? null\<close>: a stored state \<open>null\<close> counts as no state.\<close>

definition js_nullish :: "jsval option \<Rightarrow> jsval option" where
  "js_nullish v = (case v of None \<Rightarrow> None
                   | Some x \<Rightarrow> (if x = JNull \<or> x = JUndefined then None else Some x))"

definition base_state :: "checkpoint_record option \<Rightarrow> jsval option \<Rightarrow> jsval" where
  "base_state checkpoint initialState =
     nullish_else (js_nullish (map_option cp_state checkpoint))
       (nullish_else (js_nullish initialState) JNull)"

definition checkpoint_seq :: "checkpoint_record option \<Rightarrow> int" where
  "checkpoint_seq checkpoint = nullish_else (map_option cp_uptoSeq checkpoint) 0"

definition recoverSessionState ::
  "string \<Rightarrow> recover_options \<Rightarrow> tables \<Rightarrow> session_error + recovery_result" where
  "recoverSessionState k options d =
     (case sqlGetSession k d of
        None \<Rightarrow> Inl (SessionRecoveryError (''Cannot recover missing session \"'' @ k @ ''\"''))
      | Some session \<Rightarrow>
     (case assert_expected (ss_schemaVersion session) (ro_expectedSchemaVersion options)
             (''session '' @ k) of
        Inl e \<Rightarrow> Inl e
      | Inr _ \<Rightarrow>
        let checkpoint = sqlGetLatestCheckpoint k d in
     (case (case checkpoint of
              None \<Rightarrow> Inr ()
            | Some c \<Rightarrow> assert_expected (cp_schemaVersion c) (ro_expectedSchemaVersion options)
                          (''checkpoint for session '' @ k)) of
        Inl e \<Rightarrow> Inl e
      | Inr _ \<Rightarrow>
     (case sqlListJournalEntries k
             \<lparr>lo_afterSeq = Some (Finite (checkpoint_seq checkpoint)), lo_limit = None\<rparr> d of
        Inl e \<Rightarrow> Inl e
      | Inr journal \<Rightarrow>
     (case assert_entries k (ro_expectedSchemaVersion options) journal of
        Inl e \<Rightarrow> Inl e
      | Inr _ \<Rightarrow>
        Inr \<lparr>rr_session = session, rr_checkpoint = checkpoint, rr_journal = journal,
             rr_state = applyEvents (base_state checkpoint (ro_initialState options)) journal
                          (ro_reducer options),
             rr_lastAppliedSeq =
               (if journal = [] then checkpoint_seq checkpoint else jn_seq (last journal))\<rparr>)))))"

section \<open>Steps of a turn\<close>

datatype resume_action = NoProgress | ContinueCurrentStep | StartNextStep | TurnComplete

record step_checkpoint_metadata =
  sm_turnId :: string
  sm_stepIndex :: int
  sm_eventType :: step_event

text \<open>The guard of this file; the one of the store asks for any event type.\<close>

definition isStepCheckpointMetadata :: "json_object \<Rightarrow> step_checkpoint_metadata option" where
  "isStepCheckpointMetadata candidate =
     (if alist_get candidate ''scope'' \<noteq> JStr ''step'' then None
      else (case non_blank (alist_get candidate ''turnId'') of
              None \<Rightarrow> None
            | Some turnId \<Rightarrow>
           (case alist_get candidate ''stepIndex'' of
              JNum (Finite n) \<Rightarrow>
                (if n < 0 then None
                 else (case alist_get candidate ''eventType'' of
                         JStr t \<Rightarrow>
                           map_option (\<lambda>e. \<lparr>sm_turnId = turnId, sm_stepIndex = n, sm_eventType = e\<rparr>)
                             (isStepJournalEventType t)
                       | _ \<Rightarrow> None))
            | _ \<Rightarrow> None)))"

definition nextStepIndexFromProgress :: "int \<Rightarrow> step_event \<Rightarrow> int" where
  "nextStepIndexFromProgress stepIndex eventType =
     (if eventType = ContextBuilt \<or> eventType = ModelOutput \<or> eventType = ToolsPlanned
      then stepIndex else stepIndex + 1)"

fun resumeActionFromProgress :: "step_event \<Rightarrow> resume_action" where
  "resumeActionFromProgress ContextBuilt = ContinueCurrentStep"
| "resumeActionFromProgress ModelOutput = ContinueCurrentStep"
| "resumeActionFromProgress ToolsPlanned = ContinueCurrentStep"
| "resumeActionFromProgress ToolResult = StartNextStep"
| "resumeActionFromProgress FinalOutput = TurnComplete"

record step_replay =
  rp_contextBuilt :: "step_entry list"
  rp_modelOutput :: "step_entry list"
  rp_plannedTools :: "step_entry list"
  rp_toolResults :: "step_entry list"
  rp_finalOutput :: "step_entry list"

definition empty_replay :: step_replay where
  "empty_replay = \<lparr>rp_contextBuilt = [], rp_modelOutput = [], rp_plannedTools = [],
                   rp_toolResults = [], rp_finalOutput = []\<rparr>"

definition replay_push :: "step_replay \<Rightarrow> step_entry \<Rightarrow> step_replay" where
  "replay_push replay e =
     (case sy_eventType e of
        ContextBuilt \<Rightarrow> replay\<lparr>rp_contextBuilt := rp_contextBuilt replay @ [e]\<rparr>
      | ModelOutput \<Rightarrow> replay\<lparr>rp_modelOutput := rp_modelOutput replay @ [e]\<rparr>
      | ToolsPlanned \<Rightarrow> replay\<lparr>rp_plannedTools := rp_plannedTools replay @ [e]\<rparr>
      | ToolResult \<Rightarrow> replay\<lparr>rp_toolResults := rp_toolResults replay @ [e]\<rparr>
      | FinalOutput \<Rightarrow> replay\<lparr>rp_finalOutput := rp_finalOutput replay @ [e]\<rparr>)"

definition buildStepReplay :: "step_entry list \<Rightarrow> step_replay" where
  "buildStepReplay stepJournal = foldl replay_push empty_replay stepJournal"

record step_recovery =
  sv_base :: recovery_result
  sv_turnId :: string
  sv_stepCheckpoint :: "checkpoint_record option"
  sv_stepJournal :: "step_entry list"
  sv_replay :: step_replay
  sv_fromSeqExclusive :: int
  sv_toSeqInclusive :: int
  sv_lastStepEvent :: "step_entry option"
  sv_resumeAction :: resume_action
  sv_nextStepIndex :: int

definition last_opt :: "'a list \<Rightarrow> 'a option" where
  "last_opt xs = (if xs = [] then None else Some (last xs))"

text \<open>The checkpoint of the recovered session when it is a step checkpoint of the asked turn.\<close>

definition step_checkpoint_of ::
  "string \<Rightarrow> checkpoint_record option \<Rightarrow> (checkpoint_record \<times> step_checkpoint_metadata) option" where
  "step_checkpoint_of turnId checkpoint =
     (case checkpoint of
        None \<Rightarrow> None
      | Some c \<Rightarrow>
          (case isStepCheckpointMetadata (cp_metadata c) of
             None \<Rightarrow> None
           | Some m \<Rightarrow> (if sm_turnId m = turnId then Some (c, m) else None)))"

definition recoverStepState ::
  "string \<Rightarrow> string \<Rightarrow> recover_options \<Rightarrow> tables \<Rightarrow> session_error + step_recovery" where
  "recoverStepState k givenTurnId options d =
     (let turnId = js_trim givenTurnId in
      if length turnId = 0 then Inl (type_error ''turnId must be a non-empty string'')
      else (case recoverSessionState k options d of
              Inl e \<Rightarrow> Inl e
            | Inr base \<Rightarrow>
                let stepCheckpoint = step_checkpoint_of turnId (rr_checkpoint base);
                    stepJournal = List.map_filter toStepJournalEntry
                                    (filter (\<lambda>e. jn_turnId e = Some turnId) (rr_journal base));
                    lastStepEvent = last_opt stepJournal;
                    fromCheckpoint =
                      (case stepCheckpoint of
                         None \<Rightarrow> (0, NoProgress)
                       | Some (c, m) \<Rightarrow>
                           (nextStepIndexFromProgress (sm_stepIndex m) (sm_eventType m),
                            resumeActionFromProgress (sm_eventType m)));
                    progress =
                      (case lastStepEvent of
                         None \<Rightarrow> fromCheckpoint
                       | Some e \<Rightarrow> (nextStepIndexFromProgress (sy_stepIndex e) (sy_eventType e),
                                    resumeActionFromProgress (sy_eventType e)))
                in Inr \<lparr>sv_base = base, sv_turnId = turnId,
                        sv_stepCheckpoint = map_option fst stepCheckpoint,
                        sv_stepJournal = stepJournal, sv_replay = buildStepReplay stepJournal,
                        sv_fromSeqExclusive = checkpoint_seq (rr_checkpoint base),
                        sv_toSeqInclusive = rr_lastAppliedSeq base,
                        sv_lastStepEvent = lastStepEvent, sv_resumeAction = snd progress,
                        sv_nextStepIndex = fst progress\<rparr>))"

section \<open>Lemmas\<close>

lemma buildStepReplay_filters:
  "buildStepReplay es =
     \<lparr>rp_contextBuilt = filter (\<lambda>e. sy_eventType e = ContextBuilt) es,
      rp_modelOutput = filter (\<lambda>e. sy_eventType e = ModelOutput) es,
      rp_plannedTools = filter (\<lambda>e. sy_eventType e = ToolsPlanned) es,
      rp_toolResults = filter (\<lambda>e. sy_eventType e = ToolResult) es,
      rp_finalOutput = filter (\<lambda>e. sy_eventType e = FinalOutput) es\<rparr>"
  unfolding buildStepReplay_def empty_replay_def
  by (induction es rule: rev_induct) (auto simp: replay_push_def split: step_event.splits)

lemma js_nullish_simps [simp]:
  "js_nullish None = None" "js_nullish (Some JNull) = None"
  "v \<noteq> JNull \<Longrightarrow> v \<noteq> JUndefined \<Longrightarrow> js_nullish (Some v) = Some v"
  by (simp_all add: js_nullish_def)

lemma assert_entries_ok:
  "(\<And>e. e \<in> set es \<Longrightarrow> isSchemaVersionCompatible (jn_schemaVersion e) v) \<Longrightarrow>
   assert_entries k (Some v) es = Inr ()"
  by (induction es) (auto simp: assert_expected_def assertSchemaVersionCompatible_def)

lemma assert_entries_None [simp]: "assert_entries k None es = Inr ()"
  by (induction es) (auto simp: assert_expected_def)

end
