(* ===== verification/Session_Records.thy ===== *)
theory Session_Records
  imports Session_Journal
begin

text \<open>
  What is derived from a session's journal: the durable transcript of
  \<open>packages/sessions/src/durable-transcript.ts\<close> and the handoff summaries of
  \<open>packages/sessions/src/handoff-summary.ts\<close>. Literal fields (\<open>schemaVersion\<close> of the transcript,
  and \<open>kind\<close>, which always equals \<open>channel\<close>) are left out of the records.
\<close>

section \<open>Durable transcript\<close>

datatype transcript_channel = JournalChannel | StepChannel | StreamChannel | AuditChannel

record transcript_entry =
  te_source :: journal_entry
  te_channel :: transcript_channel
  te_body :: jsval
  te_stepIndex :: "int option"
  te_eventId :: "string option"
  te_envelopeKind :: "string option"
  te_occurredAtMs :: "int option"

record transcript_options =
  tx_afterSeq :: "jsnum option"
  tx_limit :: "jsnum option"
  tx_turnId :: "string option"
  tx_eventTypes :: "string list option"

record durable_transcript =
  dt_session :: session_record
  dt_latestTurnId :: "string option"
  dt_fromSeq :: int
  dt_toSeq :: int
  dt_entryCount :: nat
  dt_entries :: "transcript_entry list"
  dt_lastEventType :: "string option"
  dt_lastCreatedAtMs :: "int option"

text \<open>The reader of envelopes in this file accepts blank strings.\<close>

fun transcriptEventEnvelope :: "jsval \<Rightarrow> event_envelope option" where
  "transcriptEventEnvelope (JObj payload) =
     (case as_string (alist_get payload ''id'') of
        None \<Rightarrow> None
      | Some k \<Rightarrow>
     (case as_string (alist_get payload ''kind'') of
        None \<Rightarrow> None
      | Some kind \<Rightarrow>
     (case as_string (alist_get payload ''schemaVersion'') of
        None \<Rightarrow> None
      | Some schemaVersion \<Rightarrow>
     (case as_finite (alist_get payload ''occurredAtMs'') of
        None \<Rightarrow> None
      | Some occurredAtMs \<Rightarrow>
          (if \<not> has_own payload ''payload'' then None
           else Some \<lparr>en_id = k, en_kind = kind, en_schemaVersion = schemaVersion,
                      en_occurredAtMs = occurredAtMs,
                      en_payload = alist_get payload ''payload''\<rparr>)))))"
| "transcriptEventEnvelope _ = None"

definition plain_transcript_entry :: "journal_entry \<Rightarrow> transcript_entry" where
  "plain_transcript_entry entry =
     \<lparr>te_source = entry, te_channel = JournalChannel, te_body = jn_payload entry,
      te_stepIndex = None, te_eventId = None, te_envelopeKind = None, te_occurredAtMs = None\<rparr>"

definition envelope_transcript_entry :: "journal_entry \<Rightarrow> event_envelope \<Rightarrow> transcript_entry" where
  "envelope_transcript_entry entry envelope =
     \<lparr>te_source = entry,
      te_channel = (if jn_eventType entry = STREAM_JOURNAL_EVENT_TYPE then StreamChannel
                    else AuditChannel),
      te_body = en_payload envelope, te_stepIndex = None, te_eventId = Some (en_id envelope),
      te_envelopeKind = Some (en_kind envelope),
      te_occurredAtMs = Some (en_occurredAtMs envelope)\<rparr>"

definition toDurableTranscriptEntry :: "journal_entry \<Rightarrow> transcript_entry" where
  "toDurableTranscriptEntry entry =
     (case (if isStepJournalEventType (jn_eventType entry) = None then None
            else asStepJournalPayload (jn_payload entry)) of
        Some (stepIndex, payload) \<Rightarrow>
          \<lparr>te_source = entry, te_channel = StepChannel, te_body = payload,
           te_stepIndex = Some stepIndex, te_eventId = None, te_envelopeKind = None,
           te_occurredAtMs = None\<rparr>
      | None \<Rightarrow>
          (if jn_eventType entry = STREAM_JOURNAL_EVENT_TYPE \<or>
              jn_eventType entry = AUDIT_JOURNAL_EVENT_TYPE
           then (case transcriptEventEnvelope (jn_payload entry) of
                   Some envelope \<Rightarrow> envelope_transcript_entry entry envelope
                 | None \<Rightarrow> plain_transcript_entry entry)
           else plain_transcript_entry entry))"

definition normalizeOptionalNonEmptyText ::
  "string option \<Rightarrow> string \<Rightarrow> session_error + string option" where
  "normalizeOptionalNonEmptyText value fieldName =
     (case value of
        None \<Rightarrow> Inr None
      | Some v \<Rightarrow>
          (if length (js_trim v) = 0
           then Inl (type_error (fieldName @ '' must be a non-empty string when provided''))
           else Inr (Some (js_trim v))))"

definition normalizeEventTypes :: "string list option \<Rightarrow> string list" where
  "normalizeEventTypes eventTypes =
     filter (\<lambda>t. length t > 0) (map js_trim (nullish_else eventTypes []))"

text \<open>The loop over the journal; \<open>taken\<close> is the length of \<open>entries\<close> so far, and the loop breaks
  when the limit is reached.\<close>

fun transcript_loop ::
  "int \<Rightarrow> string option \<Rightarrow> string list \<Rightarrow> int option \<Rightarrow> int \<Rightarrow> journal_entry list \<Rightarrow>
   transcript_entry list" where
  "transcript_loop afterSeq turnId eventTypes limit taken [] = []"
| "transcript_loop afterSeq turnId eventTypes limit taken (entry # journal) =
     (if jn_seq entry \<le> afterSeq then transcript_loop afterSeq turnId eventTypes limit taken journal
      else if \<not> of_turn turnId entry
      then transcript_loop afterSeq turnId eventTypes limit taken journal
      else if eventTypes \<noteq> [] \<and> jn_eventType entry \<notin> set eventTypes
      then transcript_loop afterSeq turnId eventTypes limit taken journal
      else toDurableTranscriptEntry entry #
        (case limit of
           None \<Rightarrow> transcript_loop afterSeq turnId eventTypes limit (taken + 1) journal
         | Some n \<Rightarrow>
             (if taken + 1 \<ge> n then []
              else transcript_loop afterSeq turnId eventTypes limit (taken + 1) journal)))"

definition buildDurableTranscript ::
  "session_record \<Rightarrow> journal_entry list \<Rightarrow> string option \<Rightarrow> transcript_options \<Rightarrow>
   session_error + durable_transcript" where
  "buildDurableTranscript session journal latestTurnId options =
     (case check_afterSeq (tx_afterSeq options) of
        Inl e \<Rightarrow> Inl e
      | Inr afterSeq \<Rightarrow>
     (case check_limit (tx_limit options) of
        Inl e \<Rightarrow> Inl e
      | Inr limit \<Rightarrow>
     (case normalizeOptionalNonEmptyText (tx_turnId options) ''turnId'' of
        Inl e \<Rightarrow> Inl e
      | Inr turnId \<Rightarrow>
        let eventTypes = normalizeEventTypes (tx_eventTypes options);
            entries = transcript_loop afterSeq turnId eventTypes limit 0 journal;
            lastEntry = (if entries = [] then None else Some (te_source (last entries)))
        in Inr \<lparr>dt_session = session, dt_latestTurnId = latestTurnId,
                dt_fromSeq = (if entries = [] then afterSeq else jn_seq (te_source (hd entries))),
                dt_toSeq = nullish_else (map_option jn_seq lastEntry) afterSeq,
                dt_entryCount = length entries, dt_entries = entries,
                dt_lastEventType = map_option jn_eventType lastEntry,
                dt_lastCreatedAtMs = map_option jn_createdAtMs lastEntry\<rparr>)))"

section \<open>Handoff summaries\<close>

definition HANDOFF_SUMMARY_EVENT_TYPE :: string where
  "HANDOFF_SUMMARY_EVENT_TYPE = ''session.handoff_summary''"

definition HANDOFF_SUMMARY_SCHEMA_VERSION :: string where
  "HANDOFF_SUMMARY_SCHEMA_VERSION = ''sessions.handoff-summary/v1''"

record handoff_input =
  hi_lastSummarizedSeq :: jsnum
  hi_sourceFromSeq :: jsnum
  hi_sourceToSeq :: jsnum
  hi_latestTurnId :: "string option"
  hi_currentState :: string
  hi_task :: string
  hi_filesAndFunctions :: "string list option"
  hi_workflow :: "string list option"
  hi_errorsAndCorrections :: "string list option"
  hi_keyResults :: "string list option"
  hi_worklog :: "string list option"
  hi_nextActions :: "string list option"
  hi_schemaVersion :: "string option"
  hi_createdAtMs :: "int option"

record handoff_summary =
  hs_sessionId :: string
  hs_lastSummarizedSeq :: int
  hs_sourceFromSeq :: int
  hs_sourceToSeq :: int
  hs_latestTurnId :: "string option"
  hs_currentState :: string
  hs_task :: string
  hs_filesAndFunctions :: "string list"
  hs_workflow :: "string list"
  hs_errorsAndCorrections :: "string list"
  hs_keyResults :: "string list"
  hs_worklog :: "string list"
  hs_nextActions :: "string list"
  hs_createdAtMs :: int

definition normalizeSeq :: "jsnum \<Rightarrow> string \<Rightarrow> session_error + int" where
  "normalizeSeq value fieldName =
     (let complaint =
            RangeError (fieldName @ '' must be a non-negative integer; received '' @ show_num value)
      in case integer_of value of
           None \<Rightarrow> Inl complaint
         | Some i \<Rightarrow> (if i < 0 then Inl complaint else Inr i))"

definition normalizeNonEmptyText :: "string \<Rightarrow> string \<Rightarrow> session_error + string" where
  "normalizeNonEmptyText value fieldName =
     (if length (js_trim value) = 0
      then Inl (type_error (fieldName @ '' must be a non-empty string''))
      else Inr (js_trim value))"

definition normalizeTextList :: "string list option \<Rightarrow> string list" where
  "normalizeTextList value = filter (\<lambda>t. length t > 0) (map js_trim (nullish_else value []))"

definition buildHandoffSummaryPayload ::
  "string \<Rightarrow> int \<Rightarrow> string option \<Rightarrow> handoff_input \<Rightarrow> session_error + handoff_summary" where
  "buildHandoffSummaryPayload k nowMs latestTurnId summary =
     (case normalizeSeq (hi_lastSummarizedSeq summary) ''lastSummarizedSeq'' of
        Inl e \<Rightarrow> Inl e
      | Inr lastSummarizedSeq \<Rightarrow>
     (case normalizeSeq (hi_sourceFromSeq summary) ''sourceFromSeq'' of
        Inl e \<Rightarrow> Inl e
      | Inr sourceFromSeq \<Rightarrow>
     (case normalizeSeq (hi_sourceToSeq summary) ''sourceToSeq'' of
        Inl e \<Rightarrow> Inl e
      | Inr sourceToSeq \<Rightarrow>
        if sourceFromSeq > sourceToSeq
        then Inl (RangeError ''sourceFromSeq must be less than or equal to sourceToSeq'')
        else if lastSummarizedSeq < sourceToSeq
        then Inl (RangeError ''lastSummarizedSeq must be greater than or equal to sourceToSeq'')
        else
     (case normalizeNonEmptyText (hi_currentState summary) ''currentState'' of
        Inl e \<Rightarrow> Inl e
      | Inr currentState \<Rightarrow>
     (case normalizeNonEmptyText (hi_task summary) ''task'' of
        Inl e \<Rightarrow> Inl e
      | Inr task \<Rightarrow>
        Inr \<lparr>hs_sessionId = k, hs_lastSummarizedSeq = lastSummarizedSeq,
             hs_sourceFromSeq = sourceFromSeq, hs_sourceToSeq = sourceToSeq,
             hs_latestTurnId = nullish (hi_latestTurnId summary) latestTurnId,
             hs_currentState = currentState, hs_task = task,
             hs_filesAndFunctions = normalizeTextList (hi_filesAndFunctions summary),
             hs_workflow = normalizeTextList (hi_workflow summary),
             hs_errorsAndCorrections = normalizeTextList (hi_errorsAndCorrections summary),
             hs_keyResults = normalizeTextList (hi_keyResults summary),
             hs_worklog = normalizeTextList (hi_worklog summary),
             hs_nextActions = normalizeTextList (hi_nextActions summary),
             hs_createdAtMs = nullish_else (hi_createdAtMs summary) nowMs\<rparr>)))))"

definition js_texts :: "string list \<Rightarrow> jsval" where
  "js_texts xs = JArr (map JStr xs)"

definition js_or_null :: "string option \<Rightarrow> jsval" where
  "js_or_null v = (case v of None \<Rightarrow> JNull | Some s \<Rightarrow> JStr s)"

definition js_of_handoff :: "handoff_summary \<Rightarrow> jsval" where
  "js_of_handoff h =
     JObj [(''schemaVersion'', JStr HANDOFF_SUMMARY_SCHEMA_VERSION),
           (''sessionId'', JStr (hs_sessionId h)),
           (''lastSummarizedSeq'', js_int (hs_lastSummarizedSeq h)),
           (''sourceFromSeq'', js_int (hs_sourceFromSeq h)),
           (''sourceToSeq'', js_int (hs_sourceToSeq h)),
           (''latestTurnId'', js_or_null (hs_latestTurnId h)),
           (''currentState'', JStr (hs_currentState h)),
           (''task'', JStr (hs_task h)),
           (''filesAndFunctions'', js_texts (hs_filesAndFunctions h)),
           (''workflow'', js_texts (hs_workflow h)),
           (''errorsAndCorrections'', js_texts (hs_errorsAndCorrections h)),
           (''keyResults'', js_texts (hs_keyResults h)),
           (''worklog'', js_texts (hs_worklog h)),
           (''nextActions'', js_texts (hs_nextActions h)),
           (''createdAtMs'', js_int (hs_createdAtMs h))]"

text \<open>The check of a stored payload; it returns the payload itself.\<close>

fun asHandoffSummaryPayload :: "jsval \<Rightarrow> jsval option" where
  "asHandoffSummaryPayload (JObj candidate) =
     (if alist_get candidate ''schemaVersion'' \<noteq> JStr HANDOFF_SUMMARY_SCHEMA_VERSION \<or>
         as_string (alist_get candidate ''sessionId'') = None \<or>
         as_string (alist_get candidate ''currentState'') = None \<or>
         as_string (alist_get candidate ''task'') = None \<or>
         as_finite (alist_get candidate ''lastSummarizedSeq'') = None \<or>
         as_finite (alist_get candidate ''sourceFromSeq'') = None \<or>
         as_finite (alist_get candidate ''sourceToSeq'') = None \<or>
         as_finite (alist_get candidate ''createdAtMs'') = None
      then None else Some (JObj candidate))"
| "asHandoffSummaryPayload _ = None"

definition toHandoffSummaryRecord :: "journal_entry \<Rightarrow> (jsval \<times> journal_entry) option" where
  "toHandoffSummaryRecord entry =
     (if jn_eventType entry \<noteq> HANDOFF_SUMMARY_EVENT_TYPE then None
      else map_option (\<lambda>summary. (summary, entry)) (asHandoffSummaryPayload (jn_payload entry)))"

section \<open>Lemmas\<close>

lemma toDurableTranscriptEntry_source [simp]:
  "te_source (toDurableTranscriptEntry entry) = entry"
  by (simp add: toDurableTranscriptEntry_def plain_transcript_entry_def
      envelope_transcript_entry_def split: option.split prod.split)

definition wanted :: "int \<Rightarrow> string option \<Rightarrow> string list \<Rightarrow> journal_entry \<Rightarrow> bool" where
  "wanted afterSeq turnId eventTypes entry \<longleftrightarrow>
     jn_seq entry > afterSeq \<and> of_turn turnId entry \<and>
     (eventTypes = [] \<or> jn_eventType entry \<in> set eventTypes)"

lemma transcript_loop_all:
  "transcript_loop a t ts None c es = map toDurableTranscriptEntry (filter (wanted a t ts) es)"
  by (induction a t ts "None :: int option" c es rule: transcript_loop.induct)
    (auto simp: wanted_def)

lemma transcript_loop_limit:
  "c < n \<Longrightarrow> transcript_loop a t ts (Some n) c es =
     take (nat (n - c)) (map toDurableTranscriptEntry (filter (wanted a t ts) es))"
proof (induction es arbitrary: c)
  case Nil
  then show ?case by simp
next
  case (Cons e es)
  show ?case
  proof (cases "wanted a t ts e")
    case False
    with Cons show ?thesis by (auto simp: wanted_def)
  next
    case True
    have split: "nat (n - c) = Suc (nat (n - (c + 1)))"
      using Cons.prems by simp
    show ?thesis
    proof (cases "c + 1 \<ge> n")
      case True
      with \<open>wanted a t ts e\<close> split show ?thesis by (auto simp: wanted_def)
    next
      case False
      with \<open>wanted a t ts e\<close> split Cons.IH [of "c + 1"] show ?thesis by (auto simp: wanted_def)
    qed
  qed
qed

lemma is_json_handoff [simp]: "is_json (js_of_handoff h)"
  by (simp add: js_of_handoff_def js_texts_def js_or_null_def json_items_ok_set split: option.splits)

lemma handoff_roundtrip:
  "asHandoffSummaryPayload (js_of_handoff h) = Some (js_of_handoff h)"
  by (simp add: js_of_handoff_def)

end
