(* ===== verification/Session_Artifacts.thy ===== *)
theory Session_Artifacts
  imports Session_Storage "HOL-Library.AList"
begin

text \<open>
  \<open>packages/sessions/src/tool-result-artifacts.ts\<close>: tool results kept as files under an
  artifact root. A path is the list of its segments; \<open>join\<close>, \<open>resolve\<close> and \<open>relative\<close> of
  \<open>node:path\<close> (POSIX) are the functions below, and the files are a list of paths with their
  contents. The hash is the store's \<open>st_hash\<close>.
\<close>

section \<open>Paths\<close>

fun normalize_path :: "string list \<Rightarrow> string list \<Rightarrow> string list" where
  "normalize_path acc [] = rev acc"
| "normalize_path acc (seg # segs) =
     (if seg = [] \<or> seg = ''.'' then normalize_path acc segs
      else if seg = ''..'' then normalize_path (tl acc) segs
      else normalize_path (seg # acc) segs)"

definition join_path :: "string list \<Rightarrow> string list" where
  "join_path segs = normalize_path [] segs"

definition resolve_path :: "string list \<Rightarrow> string list \<Rightarrow> string list" where
  "resolve_path root segs = normalize_path [] (root @ segs)"

fun relative_path :: "string list \<Rightarrow> string list \<Rightarrow> string list" where
  "relative_path (r # root) (t # target) =
     (if r = t then relative_path root target
      else replicate (length (r # root)) ''..'' @ t # target)"
| "relative_path root target = replicate (length root) ''..'' @ target"

definition show_path :: "string list \<Rightarrow> string" where
  "show_path segs = CHR ''/'' # js_join ''/'' segs"

definition assertInsideRoot :: "string list \<Rightarrow> string list \<Rightarrow> session_error + unit" where
  "assertInsideRoot rootDir absolutePath =
     (let root = resolve_path [] rootDir;
          target = resolve_path [] absolutePath;
          rel = relative_path root target
      in if starts_with ''..'' (js_join ''/'' rel) \<or> rel = [] \<or> resolve_path root rel \<noteq> target
         then Inl (plain_error (''Tool result artifact path escapes artifact root: ''
                     @ show_path absolutePath))
         else Inr ())"

section \<open>Texts\<close>

definition is_path_char :: "char \<Rightarrow> bool" where
  "is_path_char c \<longleftrightarrow> c \<in> set ''._-'' \<or> (let n = (of_char c :: nat) in
     (48 \<le> n \<and> n \<le> 57) \<or> (65 \<le> n \<and> n \<le> 90) \<or> (97 \<le> n \<and> n \<le> 122))"

definition is_underscore :: "char \<Rightarrow> bool" where
  "is_underscore c \<longleftrightarrow> c = CHR ''_''"

definition sanitizePathSegment :: "string \<Rightarrow> string" where
  "sanitizePathSegment value =
     take 96
       (rev (dropWhile is_underscore (rev (dropWhile is_underscore
          (replace_runs is_path_char False (js_trim value))))))"

definition required_text :: "string \<Rightarrow> string \<Rightarrow> session_error + string" where
  "required_text value fieldName =
     (if length (js_trim value) = 0
      then Inl (type_error (fieldName @ '' must be a non-empty string''))
      else Inr (js_trim value))"

definition normalizeOptionalText :: "string option \<Rightarrow> string option" where
  "normalizeOptionalText value =
     (case map_option js_trim value of
        None \<Rightarrow> None
      | Some t \<Rightarrow> (if length t > 0 then Some t else None))"

definition DEFAULT_TOOL_RESULT_PREVIEW_MAX_CHARS :: int where
  "DEFAULT_TOOL_RESULT_PREVIEW_MAX_CHARS = 4000"

definition preview_complaint :: "jsnum \<Rightarrow> session_error" where
  "preview_complaint n = RangeError (''previewMaxChars must be a positive integer; received '' @ show_num n)"

definition normalizePreviewMaxChars :: "jsnum option \<Rightarrow> session_error + int" where
  "normalizePreviewMaxChars value =
     (let n = nullish_else value (Finite DEFAULT_TOOL_RESULT_PREVIEW_MAX_CHARS)
      in case integer_of n of
           Some i \<Rightarrow> (if i > 0 then Inr i else Inl (preview_complaint n))
         | None \<Rightarrow> Inl (preview_complaint n))"

definition buildArtifactId :: "string \<Rightarrow> string \<Rightarrow> string" where
  "buildArtifactId toolUseId sha256 = sanitizePathSegment toolUseId @ ''_'' @ take 16 sha256"

definition buildPreview :: "string \<Rightarrow> int \<Rightarrow> string" where
  "buildPreview content previewMaxChars =
     (if int (length content) > previewMaxChars then take (nat previewMaxChars) content else content)"

text \<open>\<open>Buffer.byteLength(content, "utf8")\<close> of code units below 256.\<close>

definition utf8_length :: "string \<Rightarrow> int" where
  "utf8_length s = sum_list (map (\<lambda>c. if (of_char c :: nat) < 128 then 1 else 2) s)"

definition is_word_char :: "char \<Rightarrow> bool" where
  "is_word_char c \<longleftrightarrow> is_path_char c \<and> c \<notin> set ''.-''"

fun mentions_json :: "string \<Rightarrow> bool" where
  "mentions_json [] = False"
| "mentions_json (c # cs) =
     (((c = CHR ''/'' \<or> c = CHR ''+'') \<and> starts_with ''json'' cs \<and>
       (case drop 4 cs of [] \<Rightarrow> True | d # _ \<Rightarrow> \<not> is_word_char d)) \<or> mentions_json cs)"

definition isJsonContent :: "string \<Rightarrow> string \<Rightarrow> bool" where
  "isJsonContent content mimeType = (if mentions_json mimeType then True else json_parses content)"

definition escape_char :: "char \<Rightarrow> string" where
  "escape_char c =
     (if c = CHR ''&'' then ''&amp;'' else if c = CHR 0x22 then ''&quot;''
      else if c = CHR ''<'' then ''&lt;'' else [c])"

definition escapeAttribute :: "string \<Rightarrow> string" where
  "escapeAttribute value = concat (map escape_char value)"

section \<open>The artifact store\<close>

datatype artifact_status = ArtifactSuccess | ArtifactError | ArtifactCancelled

fun artifact_status_str :: "artifact_status \<Rightarrow> string" where
  "artifact_status_str ArtifactSuccess = ''success''"
| "artifact_status_str ArtifactError = ''error''"
| "artifact_status_str ArtifactCancelled = ''cancelled''"

record artifact_input =
  ai_turnId :: string
  ai_stepIndex :: jsnum
  ai_toolUseId :: string
  ai_toolName :: string
  ai_status :: artifact_status
  ai_content :: string
  ai_mimeType :: "string option"
  ai_previewMaxChars :: "jsnum option"
  ai_replacement :: "string option"
  ai_schemaVersion :: "string option"
  ai_createdAtMs :: "int option"

record artifact_record =
  af_sessionId :: string
  af_artifactId :: string
  af_relativePath :: string
  af_absolutePath :: "string list"
  af_sha256 :: string
  af_mimeType :: string
  af_originalSizeBytes :: int

definition artifact_path :: "string \<Rightarrow> string \<Rightarrow> string list" where
  "artifact_path segment artifactId = join_path [''tool-results'', segment, artifactId @ ''.txt'']"

definition artifact_payload ::
  "string \<Rightarrow> string \<Rightarrow> artifact_input \<Rightarrow> int \<Rightarrow> string \<Rightarrow> artifact_record \<Rightarrow> jsval" where
  "artifact_payload toolUseId toolName input previewMaxChars replacement artifact =
     JObj [(''toolUseId'', JStr toolUseId), (''toolName'', JStr toolName),
           (''status'', JStr (artifact_status_str (ai_status input))),
           (''contentProjection'',
              JObj [(''originalSizeBytes'', js_int (af_originalSizeBytes artifact)),
                    (''preview'', JStr (buildPreview (ai_content input) previewMaxChars)),
                    (''hasMore'', JBool (int (length (ai_content input)) > previewMaxChars)),
                    (''isJson'', JBool (isJsonContent (ai_content input) (af_mimeType artifact))),
                    (''replacement'', JStr replacement)]),
           (''artifactRef'',
              JObj [(''artifactId'', JStr (af_artifactId artifact)),
                    (''relativePath'', JStr (af_relativePath artifact)),
                    (''sha256'', JStr (af_sha256 artifact)),
                    (''mimeType'', JStr (af_mimeType artifact)),
                    (''originalSizeBytes'', js_int (af_originalSizeBytes artifact))])]"

definition default_replacement :: "string \<Rightarrow> string \<Rightarrow> string \<Rightarrow> string" where
  "default_replacement toolUseId artifactId preview =
     ''<persisted-output toolUseId='' @ [CHR 0x22] @ escapeAttribute toolUseId @ [CHR 0x22]
       @ '' artifactId='' @ [CHR 0x22] @ escapeAttribute artifactId @ [CHR 0x22] @ ''>''
       @ preview @ ''</persisted-output>''"

definition artifactsCreate ::
  "session_record \<Rightarrow> artifact_input \<Rightarrow> session_store \<Rightarrow> (artifact_record \<times> jsval) result" where
  "artifactsCreate session input s =
     (case required_text (ai_turnId input) ''turnId'' of
        Inl e \<Rightarrow> (Inl e, s)
      | Inr turnId \<Rightarrow>
     (case required_text (ai_toolUseId input) ''toolUseId'' of
        Inl e \<Rightarrow> (Inl e, s)
      | Inr toolUseId \<Rightarrow>
     (case required_text (ai_toolName input) ''toolName'' of
        Inl e \<Rightarrow> (Inl e, s)
      | Inr toolName \<Rightarrow>
     (case normalizePreviewMaxChars (ai_previewMaxChars input) of
        Inl e \<Rightarrow> (Inl e, s)
      | Inr previewMaxChars \<Rightarrow>
        let mimeType = nullish_else (normalizeOptionalText (ai_mimeType input)) ''text/plain'';
            sha256 = st_hash s (ai_content input);
            artifactId = buildArtifactId toolUseId sha256;
            relativePath = artifact_path (sanitizePathSegment (ss_id session)) artifactId;
            absolutePath = resolve_path (st_artifactRoot s) relativePath
        in case assertInsideRoot (st_artifactRoot s) absolutePath of
             Inl e \<Rightarrow> (Inl e, s)
           | Inr _ \<Rightarrow>
               let s' = s\<lparr>st_files := AList.update absolutePath (ai_content input) (st_files s)\<rparr>;
                   preview = buildPreview (ai_content input) previewMaxChars;
                   replacement = nullish_else (ai_replacement input)
                                   (default_replacement toolUseId artifactId preview);
                   artifact = \<lparr>af_sessionId = ss_id session, af_artifactId = artifactId,
                               af_relativePath = js_join ''/'' relativePath,
                               af_absolutePath = absolutePath, af_sha256 = sha256,
                               af_mimeType = mimeType,
                               af_originalSizeBytes = utf8_length (ai_content input)\<rparr>
               in (Inr (artifact, artifact_payload toolUseId toolName input previewMaxChars
                                    replacement artifact), s')))))"

text \<open>The part of an id after its last underscore, all of it when there is none.\<close>

definition hash_suffix :: "string \<Rightarrow> string" where
  "hash_suffix artifactId = rev (takeWhile (\<lambda>c. c \<noteq> CHR ''_'') (rev artifactId))"

definition artifactsRead ::
  "string \<Rightarrow> string \<Rightarrow> session_store \<Rightarrow> session_error + artifact_record \<times> string" where
  "artifactsRead sessionId artifactId s =
     (case required_text sessionId ''sessionId'' of
        Inl e \<Rightarrow> Inl e
      | Inr k \<Rightarrow>
     (case required_text artifactId ''artifactId'' of
        Inl e \<Rightarrow> Inl e
      | Inr a \<Rightarrow>
        let safeSessionId = sanitizePathSegment k;
            safeArtifactId = sanitizePathSegment a;
            relativePath = artifact_path safeSessionId safeArtifactId;
            absolutePath = resolve_path (st_artifactRoot s) relativePath
        in case assertInsideRoot (st_artifactRoot s) absolutePath of
             Inl e \<Rightarrow> Inl e
           | Inr _ \<Rightarrow>
          (case map_of (st_files s) absolutePath of
             None \<Rightarrow> Inl (plain_error (''ENOENT: no such file or directory, open ''
                            @ show_path absolutePath))
           | Some content \<Rightarrow>
               let sha256 = st_hash s content; hashPrefix = hash_suffix safeArtifactId
               in if length hashPrefix > 0 \<and> \<not> starts_with hashPrefix sha256
                  then Inl (plain_error (''Tool result artifact hash mismatch for \"''
                              @ artifactId @ ''\"''))
                  else Inr (\<lparr>af_sessionId = sessionId, af_artifactId = safeArtifactId,
                             af_relativePath = js_join ''/'' relativePath,
                             af_absolutePath = absolutePath, af_sha256 = sha256,
                             af_mimeType = ''text/plain'',
                             af_originalSizeBytes = utf8_length content\<rparr>, content))))"

text \<open>\<open>rmSync(sessionDir, { recursive: true, force: true })\<close>\<close>

definition deleteSessionArtifacts :: "string \<Rightarrow> session_store \<Rightarrow> unit result" where
  "deleteSessionArtifacts sessionId s =
     (case required_text sessionId ''sessionId'' of
        Inl e \<Rightarrow> (Inl e, s)
      | Inr k \<Rightarrow>
        let sessionDir = resolve_path (st_artifactRoot s)
                           (join_path [''tool-results'', sanitizePathSegment k])
        in case assertInsideRoot (st_artifactRoot s) sessionDir of
             Inl e \<Rightarrow> (Inl e, s)
           | Inr _ \<Rightarrow>
               (Inr (), s\<lparr>st_files := filter (\<lambda>(path, content).
                            take (length sessionDir) path \<noteq> sessionDir) (st_files s)\<rparr>))"

end
