(* ===== verification/Session_Store.thy ===== *)
theory Session_Store
  imports Session_Recovery Session_Records Session_Artifacts
begin

text \<open>
  The session store: \<open>packages/sessions/src/lifecycle.ts\<close>, \<open>checkpoints.ts\<close>, \<open>archive.ts\<close> and
  the methods of \<open>SessionStore\<close> in \<open>store.ts\<close>. A method that writes reads the session first,
  outside its transaction, and then runs the storage operations in one transaction.
\<close>

section \<open>Lifecycle\<close>

definition lifecycleCreate :: "create_session_input \<Rightarrow> session_store \<Rightarrow> session_record result" where
  "lifecycleCreate input s =
     (let (k, s') =
            (case cs_sessionId input of
               Some given \<Rightarrow> (Inr given, s)
             | None \<Rightarrow> (createSessionId ''sess'' (st_uuid s (st_uuids s)),
                        s\<lparr>st_uuids := st_uuids s + 1\<rparr>))
      in case k of
           Inl e \<Rightarrow> (Inl e, s')
         | Inr sessionId \<Rightarrow>
             if \<not> isSessionId sessionId then (Inl (InvalidSessionIdError sessionId), s')
             else sqlCreateSession sessionId (nullish_else (cs_metadata input) [])
                    (resolveSchemaVersion
                      (nullish (cs_schemaVersion input) (Some (st_schemaVersion s)))) s')"

definition lifecycleGet :: "string \<Rightarrow> tables \<Rightarrow> session_error + session_record option" where
  "lifecycleGet k d =
     (if \<not> isSessionId k then Inl (InvalidSessionIdError k) else Inr (sqlGetSession k d))"

definition lifecycleRequire :: "string \<Rightarrow> tables \<Rightarrow> session_error + session_record" where
  "lifecycleRequire k d =
     (case lifecycleGet k d of
        Inl e \<Rightarrow> Inl e
      | Inr None \<Rightarrow> Inl (SessionNotFoundError k)
      | Inr (Some session) \<Rightarrow> Inr session)"

definition lifecycleRequireActive :: "string \<Rightarrow> tables \<Rightarrow> session_error + session_record" where
  "lifecycleRequireActive k d =
     (case lifecycleRequire k d of
        Inl e \<Rightarrow> Inl e
      | Inr session \<Rightarrow>
          (if ss_status session = Archived then Inl (SessionArchivedError k) else Inr session))"

definition lifecycleUpdateMetadata ::
  "string \<Rightarrow> json_object \<Rightarrow> session_store \<Rightarrow> session_record result" where
  "lifecycleUpdateMetadata k metadata s =
     (case lifecycleRequireActive k (st_db s) of
        Inl e \<Rightarrow> (Inl e, s)
      | Inr _ \<Rightarrow>
          (case sqlUpdateSessionMetadata k metadata (store_time s) (store_tick s) of
             (None, s') \<Rightarrow> (Inl (SessionNotFoundError k), s')
           | (Some updated, s') \<Rightarrow> (Inr updated, s')))"

section \<open>Checkpoints and archive\<close>

definition checkpointsCreate ::
  "session_record \<Rightarrow> checkpoint_input \<Rightarrow> session_store \<Rightarrow> checkpoint_record result" where
  "checkpointsCreate session input s =
     (if ss_status session = Archived then (Inl (SessionArchivedError (ss_id session)), s)
      else
        let latestSeq = sqlGetLatestJournalSeq (ss_id session) (st_db s);
            given = nullish_else (ck_uptoSeq input) (Finite latestSeq);
            complaint =
              RangeError (''uptoSeq must be a non-negative integer; received '' @ show_num given)
        in case integer_of given of
             None \<Rightarrow> (Inl complaint, s)
           | Some uptoSeq \<Rightarrow>
               if uptoSeq < 0 then (Inl complaint, s)
               else if uptoSeq > latestSeq
               then (Inl (RangeError (''uptoSeq ('' @ js_show uptoSeq
                       @ '') cannot be greater than latest journal seq ('' @ js_show latestSeq
                       @ '')'')), s)
               else
                 let schemaVersion = resolveSchemaVersion
                       (nullish (ck_schemaVersion input) (Some (ss_schemaVersion session)))
                 in case assertSchemaVersionCompatible schemaVersion (ss_schemaVersion session)
                           (''checkpoint for session '' @ ss_id session) of
                      Inl e \<Rightarrow> (Inl e, s)
                    | Inr _ \<Rightarrow>
                        let (createdAtMs, s') = time_or_now (ck_createdAtMs input) s
                        in sqlInsertCheckpoint (ss_id session) uptoSeq (ck_state input)
                             (nullish_else (ck_metadata input) []) schemaVersion createdAtMs s')"

definition step_metadata :: "string \<Rightarrow> int \<Rightarrow> step_event \<Rightarrow> json_object" where
  "step_metadata turnId stepIndex eventType =
     [(''scope'', JStr ''step''), (''turnId'', JStr turnId), (''stepIndex'', js_int stepIndex),
      (''eventType'', JStr (step_event_str eventType))]"

definition checkpointsCreateStep ::
  "session_record \<Rightarrow> step_checkpoint_input \<Rightarrow> session_store \<Rightarrow> checkpoint_record result" where
  "checkpointsCreateStep session input s =
     (case check_step (sc_turnId input) (sc_stepIndex input) of
        Inl e \<Rightarrow> (Inl e, s)
      | Inr (turnId, stepIndex) \<Rightarrow>
          checkpointsCreate session
            \<lparr>ck_state = sc_state input, ck_uptoSeq = sc_uptoSeq input,
             ck_schemaVersion = sc_schemaVersion input,
             ck_createdAtMs = sc_createdAtMs input,
             ck_metadata = Some (step_metadata turnId stepIndex (sc_eventType input))\<rparr> s)"

definition archiveArchive ::
  "session_record \<Rightarrow> string option \<Rightarrow> session_store \<Rightarrow> session_record result" where
  "archiveArchive session reason s =
     (if ss_status session = Archived then (Inr session, s)
      else (case sqlSetSessionArchived (ss_id session) reason (store_time s) (store_tick s) of
              (None, s') \<Rightarrow> (Inl (SessionNotFoundError (ss_id session)), s')
            | (Some archived, s') \<Rightarrow> (Inr archived, s')))"

section \<open>Latest-turn hints of checkpoint metadata\<close>

text \<open>The guard of the store: unlike the one of the recovery it accepts any event type.\<close>

definition storeStepCheckpointMetadata :: "json_object \<Rightarrow> string option" where
  "storeStepCheckpointMetadata value =
     (if alist_get value ''scope'' \<noteq> JStr ''step'' then None
      else (case non_blank (alist_get value ''turnId'') of
              None \<Rightarrow> None
            | Some turnId \<Rightarrow>
                (case alist_get value ''stepIndex'' of
                   JNum (Finite n) \<Rightarrow>
                     (if n < 0 then None
                      else if as_string (alist_get value ''eventType'') = None then None
                      else Some turnId)
                 | _ \<Rightarrow> None)))"

definition isRewindCheckpointMetadata :: "json_object \<Rightarrow> bool" where
  "isRewindCheckpointMetadata value \<longleftrightarrow>
     alist_get value ''scope'' = JStr ''rewind'' \<and>
     (alist_get value ''latestTurnId'' = JNull \<or>
      as_string (alist_get value ''latestTurnId'') \<noteq> None) \<and>
     as_finite (alist_get value ''sourceCheckpointId'') \<noteq> None \<and>
     as_finite (alist_get value ''sourceUptoSeq'') \<noteq> None \<and>
     as_finite (alist_get value ''rewoundAtMs'') \<noteq> None"

text \<open>\<open>None\<close> when the hint is not defined, otherwise its value.\<close>

definition readCheckpointLatestTurnHint :: "json_object option \<Rightarrow> string option option" where
  "readCheckpointLatestTurnHint metadata =
     (case metadata of
        None \<Rightarrow> None
      | Some m \<Rightarrow>
          (case storeStepCheckpointMetadata m of
             Some turnId \<Rightarrow> Some (Some turnId)
           | None \<Rightarrow>
               (if isRewindCheckpointMetadata m then Some (as_string (alist_get m ''latestTurnId''))
                else None)))"

definition buildRewindCheckpointMetadata :: "checkpoint_record \<Rightarrow> int \<Rightarrow> json_object" where
  "buildRewindCheckpointMetadata checkpoint rewoundAtMs =
     (if storeStepCheckpointMetadata (cp_metadata checkpoint) \<noteq> None
      then obj_put ''rewoundAtMs'' (js_int rewoundAtMs)
             (obj_put ''sourceUptoSeq'' (js_int (cp_uptoSeq checkpoint))
               (obj_put ''sourceCheckpointId'' (js_int (cp_id checkpoint)) (cp_metadata checkpoint)))
      else [(''scope'', JStr ''rewind''),
            (''latestTurnId'',
               js_or_null (nullish_else
                 (readCheckpointLatestTurnHint (Some (cp_metadata checkpoint))) None)),
            (''sourceCheckpointId'', js_int (cp_id checkpoint)),
            (''sourceUptoSeq'', js_int (cp_uptoSeq checkpoint)),
            (''rewoundAtMs'', js_int rewoundAtMs)])"

text \<open>The metadata without \<open>runtime.latestTurn\<close>, when it has one.\<close>

definition clearLatestTurnObservationMetadata :: "json_object \<Rightarrow> json_object option" where
  "clearLatestTurnObservationMetadata metadata =
     (case alist_get metadata ''runtime'' of
        JObj runtime \<Rightarrow>
          (if \<not> has_own runtime ''latestTurn'' then None
           else
             let nextRuntime = obj_without ''latestTurn'' runtime;
                 nextMetadata = obj_without ''runtime'' metadata
             in Some (if nextRuntime = [] then nextMetadata
                      else nextMetadata @ [(''runtime'', JObj nextRuntime)]))
      | _ \<Rightarrow> None)"

section \<open>Sessions and their journal\<close>

definition storeCreateSession :: "create_session_input \<Rightarrow> session_store \<Rightarrow> session_record result"
where
  "storeCreateSession input s =
     lifecycleCreate (input\<lparr>cs_schemaVersion :=
       Some (nullish_else (cs_schemaVersion input) (st_schemaVersion s))\<rparr>) s"

definition storeGetSession :: "string \<Rightarrow> session_store \<Rightarrow> session_error + session_record option" where
  "storeGetSession k s = lifecycleGet k (st_db s)"

definition storeUpdateMetadata ::
  "string \<Rightarrow> json_object \<Rightarrow> session_store \<Rightarrow> session_record result" where
  "storeUpdateMetadata k metadata s = lifecycleUpdateMetadata k metadata s"

text \<open>What every writing method starts with.\<close>

definition with_active ::
  "string \<Rightarrow> (session_record \<Rightarrow> session_store \<Rightarrow> 'a result) \<Rightarrow> session_store \<Rightarrow> 'a result" where
  "with_active k operation s =
     (case lifecycleRequireActive k (st_db s) of
        Inl e \<Rightarrow> (Inl e, s)
      | Inr session \<Rightarrow> transaction (operation session) s)"

definition storeAppendJournal :: "string \<Rightarrow> append_input \<Rightarrow> session_store \<Rightarrow> journal_entry result" where
  "storeAppendJournal k input s = with_active k (\<lambda>session. journalAppend session input) s"

definition storeAppendStepJournal :: "string \<Rightarrow> step_input \<Rightarrow> session_store \<Rightarrow> journal_entry result"
where
  "storeAppendStepJournal k input s = with_active k (\<lambda>session. journalAppendStep session input) s"

definition storeAppendStreamEvent ::
  "string \<Rightarrow> scoped_input \<Rightarrow> session_store \<Rightarrow> journal_entry result" where
  "storeAppendStreamEvent k input s =
     with_active k (\<lambda>session. journalAppendStreamEvent session input) s"

definition storeAppendAuditEvent ::
  "string \<Rightarrow> scoped_input \<Rightarrow> session_store \<Rightarrow> journal_entry result" where
  "storeAppendAuditEvent k input s =
     with_active k (\<lambda>session. journalAppendAuditEvent session input) s"

definition artifact_operation ::
  "artifact_input \<Rightarrow> session_record \<Rightarrow> session_store \<Rightarrow> (artifact_record \<times> journal_entry) result"
where
  "artifact_operation input session s =
     chain (artifactsCreate session input s) (\<lambda>(artifact, payload) s'.
       chain (journalAppendStep session
                \<lparr>sj_turnId = ai_turnId input, sj_stepIndex = ai_stepIndex input,
                 sj_eventType = ToolResult, sj_payload = payload,
                 sj_schemaVersion = ai_schemaVersion input,
                 sj_createdAtMs = ai_createdAtMs input\<rparr> s')
         (\<lambda>entry s''. (Inr (artifact, entry), s'')))"

definition storeAppendToolResultArtifact ::
  "string \<Rightarrow> artifact_input \<Rightarrow> session_store \<Rightarrow> (artifact_record \<times> journal_entry) result" where
  "storeAppendToolResultArtifact k input s = with_active k (artifact_operation input) s"

definition storeReadToolResultArtifact ::
  "string \<Rightarrow> string \<Rightarrow> session_store \<Rightarrow> session_error + artifact_record \<times> string" where
  "storeReadToolResultArtifact k artifactId s =
     (case lifecycleRequire k (st_db s) of
        Inl e \<Rightarrow> Inl e
      | Inr _ \<Rightarrow> artifactsRead k artifactId s)"

definition storeGetLatestTurnId :: "string \<Rightarrow> session_store \<Rightarrow> session_error + string option" where
  "storeGetLatestTurnId k s =
     (case lifecycleRequire k (st_db s) of
        Inl e \<Rightarrow> Inl e
      | Inr _ \<Rightarrow>
          (case readCheckpointLatestTurnHint
                  (map_option cp_metadata (sqlGetLatestCheckpoint k (st_db s))) of
             Some value \<Rightarrow> Inr value
           | None \<Rightarrow> Inr (journalLatestTurnId k (st_db s))))"

definition handoff_operation ::
  "string \<Rightarrow> handoff_input \<Rightarrow> session_record \<Rightarrow> session_store \<Rightarrow>
   (handoff_summary \<times> journal_entry) result" where
  "handoff_operation k input session s =
     (let (createdAtMs, s1) = time_or_now (hi_createdAtMs input) s
      in case storeGetLatestTurnId k s1 of
           Inl e \<Rightarrow> (Inl e, s1)
         | Inr latestTurnId \<Rightarrow>
             (case buildHandoffSummaryPayload k createdAtMs latestTurnId input of
                Inl e \<Rightarrow> (Inl e, s1)
              | Inr summary \<Rightarrow>
                  chain (journalAppend session
                           \<lparr>ap_eventType = HANDOFF_SUMMARY_EVENT_TYPE,
                            ap_payload = js_of_handoff summary,
                            ap_turnId = hs_latestTurnId summary,
                            ap_schemaVersion = hi_schemaVersion input,
                            ap_createdAtMs = Some createdAtMs\<rparr> s1)
                    (\<lambda>entry s2. (Inr (summary, entry), s2))))"

definition storeCreateHandoffSummary ::
  "string \<Rightarrow> handoff_input \<Rightarrow> session_store \<Rightarrow> (handoff_summary \<times> journal_entry) result" where
  "storeCreateHandoffSummary k input s = with_active k (handoff_operation k input) s"

definition storeGetLatestHandoffSummary ::
  "string \<Rightarrow> session_store \<Rightarrow> session_error + (jsval \<times> journal_entry) option" where
  "storeGetLatestHandoffSummary k s =
     (case lifecycleRequire k (st_db s) of
        Inl e \<Rightarrow> Inl e
      | Inr _ \<Rightarrow>
          (case journalList k no_options (st_db s) of
             Inl e \<Rightarrow> Inl e
           | Inr entries \<Rightarrow>
               Inr (case List.map_filter toHandoffSummaryRecord (rev entries) of
                      [] \<Rightarrow> None
                    | r # _ \<Rightarrow> Some r)))"

section \<open>Runtime evidence\<close>

datatype evidence_kind =
    RuntimeDegraded | RuntimeFailed | ProviderTransientFailure
  | StreamDegraded | StreamError | StreamAborted

fun evidence_kind_str :: "evidence_kind \<Rightarrow> string" where
  "evidence_kind_str RuntimeDegraded = ''runtime.degraded''"
| "evidence_kind_str RuntimeFailed = ''runtime.failed''"
| "evidence_kind_str ProviderTransientFailure = ''provider.transient_failure''"
| "evidence_kind_str StreamDegraded = ''stream.degraded''"
| "evidence_kind_str StreamError = ''stream.error''"
| "evidence_kind_str StreamAborted = ''stream.aborted''"

definition DEFAULT_RUNTIME_EVIDENCE_KINDS :: "evidence_kind list" where
  "DEFAULT_RUNTIME_EVIDENCE_KINDS =
     [RuntimeDegraded, RuntimeFailed, ProviderTransientFailure, StreamDegraded, StreamError,
      StreamAborted]"

definition isRuntimeEvidenceKind :: "string \<Rightarrow> evidence_kind option" where
  "isRuntimeEvidenceKind value =
     find (\<lambda>kind. evidence_kind_str kind = value) DEFAULT_RUNTIME_EVIDENCE_KINDS"

datatype evidence_channel = AuditEvidence | StreamEvidence | BothEvidence

record evidence_input =
  ei_kind :: evidence_kind
  ei_payload :: jsval
  ei_turnId :: "string option"
  ei_channel :: "evidence_channel option"
  ei_schemaVersion :: "string option"
  ei_occurredAtMs :: "int option"
  ei_eventId :: "string option"

record evidence_entry =
  ev_channel :: evidence_channel
  ev_kind :: evidence_kind
  ev_turnId :: "string option"
  ev_occurredAtMs :: int
  ev_eventId :: string
  ev_payload :: jsval
  ev_entry :: journal_entry

definition evidence_event :: "evidence_input \<Rightarrow> int \<Rightarrow> session_store \<Rightarrow> jsval" where
  "evidence_event input occurredAtMs s =
     JObj [(''id'', JStr (nullish_else (ei_eventId input)
              (''runtime_evidence_'' @ js_show occurredAtMs @ ''_''
                @ evidence_kind_str (ei_kind input)))),
           (''kind'', JStr (evidence_kind_str (ei_kind input))),
           (''schemaVersion'', JStr (nullish_else (ei_schemaVersion input) (st_schemaVersion s))),
           (''occurredAtMs'', js_int occurredAtMs), (''payload'', ei_payload input)]"

text \<open>The two writes are two transactions: the second may fail after the first succeeded.\<close>

definition storeRecordRuntimeEvidence :: "string \<Rightarrow> evidence_input \<Rightarrow> session_store \<Rightarrow> unit result"
where
  "storeRecordRuntimeEvidence k input s =
     (let (occurredAtMs, s0) = time_or_now (ei_occurredAtMs input) s;
          scoped = \<lparr>sx_event = evidence_event input occurredAtMs s0, sx_turnId = ei_turnId input,
                    sx_schemaVersion = None, sx_createdAtMs = Some occurredAtMs\<rparr>;
          channel = nullish_else (ei_channel input) AuditEvidence
      in chain
           (if channel = AuditEvidence \<or> channel = BothEvidence
            then chain (storeAppendAuditEvent k scoped s0) (\<lambda>_ s1. (Inr (), s1))
            else (Inr (), s0))
           (\<lambda>_ s2.
              if channel = StreamEvidence \<or> channel = BothEvidence
              then chain (storeAppendStreamEvent k scoped s2) (\<lambda>_ s3. (Inr (), s3))
              else (Inr (), s2)))"

definition evidence_of ::
  "evidence_channel \<Rightarrow> evidence_kind list \<Rightarrow> scoped_entry \<Rightarrow> evidence_entry option" where
  "evidence_of channel kinds e =
     (case isRuntimeEvidenceKind (en_kind (sz_event e)) of
        None \<Rightarrow> None
      | Some kind \<Rightarrow>
          (if kind \<notin> set kinds then None
           else Some \<lparr>ev_channel = channel, ev_kind = kind, ev_turnId = jn_turnId (sz_entry e),
                      ev_occurredAtMs = en_occurredAtMs (sz_event e),
                      ev_eventId = en_id (sz_event e), ev_payload = en_payload (sz_event e),
                      ev_entry = sz_entry e\<rparr>))"

definition by_evidence_time :: "evidence_entry \<Rightarrow> evidence_entry \<Rightarrow> int" where
  "by_evidence_time x y =
     (if ev_occurredAtMs x \<noteq> ev_occurredAtMs y then ev_occurredAtMs x - ev_occurredAtMs y
      else jn_rowId (ev_entry x) - jn_rowId (ev_entry y))"

definition storeListRuntimeEvidence ::
  "string \<Rightarrow> list_options \<Rightarrow> string option \<Rightarrow> evidence_kind list option \<Rightarrow> bool option \<Rightarrow>
   bool option \<Rightarrow> session_store \<Rightarrow> session_error + evidence_entry list" where
  "storeListRuntimeEvidence k options turnId kinds includeAudit includeStream s =
     (case lifecycleRequire k (st_db s) of
        Inl e \<Rightarrow> Inl e
      | Inr _ \<Rightarrow>
        let wantedKinds = nullish_else kinds DEFAULT_RUNTIME_EVIDENCE_KINDS in
     (case (if nullish_else includeAudit True
            then journalListAuditEvents k options turnId (st_db s) else Inr []) of
        Inl e \<Rightarrow> Inl e
      | Inr audit \<Rightarrow>
     (case (if nullish_else includeStream True
            then journalListStreamEvents k options turnId (st_db s) else Inr []) of
        Inl e \<Rightarrow> Inl e
      | Inr stream \<Rightarrow>
        Inr (js_sort by_evidence_time
               (List.map_filter (evidence_of AuditEvidence wantedKinds) audit
                @ List.map_filter (evidence_of StreamEvidence wantedKinds) stream)))))"

section \<open>Checkpoints, rewind, archive, deletion\<close>

definition storeCreateCheckpoint ::
  "string \<Rightarrow> checkpoint_input \<Rightarrow> session_store \<Rightarrow> checkpoint_record result" where
  "storeCreateCheckpoint k input s = with_active k (\<lambda>session. checkpointsCreate session input) s"

definition storeGetCheckpoint ::
  "string \<Rightarrow> jsnum \<Rightarrow> session_store \<Rightarrow> session_error + checkpoint_record option" where
  "storeGetCheckpoint k checkpointId s =
     (case lifecycleRequire k (st_db s) of
        Inl e \<Rightarrow> Inl e
      | Inr _ \<Rightarrow> sqlGetCheckpoint k checkpointId (st_db s))"

definition storeListCheckpoints ::
  "string \<Rightarrow> jsnum option \<Rightarrow> session_store \<Rightarrow> session_error + checkpoint_record list" where
  "storeListCheckpoints k limit s =
     (case lifecycleRequire k (st_db s) of
        Inl e \<Rightarrow> Inl e
      | Inr _ \<Rightarrow> sqlListCheckpoints k limit (st_db s))"

definition storeCreateStepCheckpoint ::
  "string \<Rightarrow> step_checkpoint_input \<Rightarrow> session_store \<Rightarrow> checkpoint_record result" where
  "storeCreateStepCheckpoint k input s =
     with_active k (\<lambda>session. checkpointsCreateStep session input) s"

record rewind_result =
  rw_requestedCheckpointId :: "jsnum option"
  rw_targetCheckpointId :: int
  rw_targetUptoSeq :: int
  rw_currentCheckpointId :: int
  rw_currentUptoSeq :: int
  rw_latestTurnId :: "string option"
  rw_clearedLatestTurn :: bool

definition rewind_selection :: "jsnum option \<Rightarrow> string" where
  "rewind_selection checkpointId = (case checkpointId of None \<Rightarrow> ''previous'' | Some _ \<Rightarrow> ''explicit'')"

definition rewind_target ::
  "string \<Rightarrow> jsnum option \<Rightarrow> tables \<Rightarrow> session_error + checkpoint_record option" where
  "rewind_target k checkpointId d =
     (case checkpointId of
        Some given \<Rightarrow> sqlGetCheckpoint k given d
      | None \<Rightarrow>
          (case sqlListCheckpoints k (Some (Finite 2)) d of
             Inl e \<Rightarrow> Inl e
           | Inr (_ # c # _) \<Rightarrow> Inr (Some c)
           | Inr _ \<Rightarrow> Inr None))"

definition rewind_payload :: "jsnum option \<Rightarrow> checkpoint_record \<Rightarrow> jsval" where
  "rewind_payload checkpointId target =
     JObj [(''selection'', JStr (rewind_selection checkpointId)),
           (''requestedCheckpointId'',
              (case checkpointId of None \<Rightarrow> JNull | Some n \<Rightarrow> JNum n)),
           (''targetCheckpointId'', js_int (cp_id target)),
           (''targetUptoSeq'', js_int (cp_uptoSeq target))]"

text \<open>The transaction of \<open>rewind\<close>, once the target is known.\<close>

definition rewind_to ::
  "string \<Rightarrow> session_record \<Rightarrow> jsnum option \<Rightarrow> int \<Rightarrow> checkpoint_record \<Rightarrow> session_store \<Rightarrow>
   rewind_result result" where
  "rewind_to k session checkpointId occurredAtMs target s =
     chain (journalAppend session
              \<lparr>ap_eventType = ''control.rewind'', ap_payload = rewind_payload checkpointId target,
               ap_turnId = None, ap_schemaVersion = None, ap_createdAtMs = Some occurredAtMs\<rparr> s)
       (\<lambda>_ s1.
          chain (checkpointsCreate session
                   \<lparr>ck_state = cp_state target, ck_uptoSeq = None, ck_schemaVersion = None,
                    ck_createdAtMs = Some occurredAtMs,
                    ck_metadata = Some (buildRewindCheckpointMetadata target occurredAtMs)\<rparr> s1)
            (\<lambda>current s2.
               let cleared = clearLatestTurnObservationMetadata (ss_metadata session);
                   s3 = (case cleared of
                           None \<Rightarrow> s2
                         | Some metadata \<Rightarrow>
                             snd (sqlUpdateSessionMetadata k metadata occurredAtMs s2))
               in (Inr \<lparr>rw_requestedCheckpointId = checkpointId,
                        rw_targetCheckpointId = cp_id target,
                        rw_targetUptoSeq = cp_uptoSeq target,
                        rw_currentCheckpointId = cp_id current,
                        rw_currentUptoSeq = cp_uptoSeq current,
                        rw_latestTurnId = nullish_else
                          (readCheckpointLatestTurnHint (Some (cp_metadata current))) None,
                        rw_clearedLatestTurn = (cleared \<noteq> None)\<rparr>, s3)))"

definition rewind_operation ::
  "string \<Rightarrow> jsnum option \<Rightarrow> int option \<Rightarrow> session_record \<Rightarrow> session_store \<Rightarrow> rewind_result result"
where
  "rewind_operation k checkpointId createdAtMs session s =
     (let (occurredAtMs, s1) = time_or_now createdAtMs s
      in case sqlGetLatestCheckpoint k (st_db s1) of
           None \<Rightarrow>
             (Inl (plain_error (''Cannot rewind session \"'' @ k @ ''\" without checkpoints.'')), s1)
         | Some latest \<Rightarrow>
             (case rewind_target k checkpointId (st_db s1) of
                Inl e \<Rightarrow> (Inl e, s1)
              | Inr None \<Rightarrow>
                  (Inl (plain_error (case checkpointId of
                     None \<Rightarrow> ''Cannot rewind session \"'' @ k
                               @ ''\" because no earlier checkpoint exists.''
                   | Some given \<Rightarrow> ''Cannot rewind session \"'' @ k
                               @ ''\" to missing checkpoint \"'' @ show_num given @ ''\".'')), s1)
              | Inr (Some target) \<Rightarrow>
                  (if cp_id target = cp_id latest
                   then (Inl (plain_error (''Checkpoint \"'' @ js_show (cp_id target)
                           @ ''\" is already current for session \"'' @ k @ ''\".'')), s1)
                   else rewind_to k session checkpointId occurredAtMs target s1)))"

definition storeRewind ::
  "string \<Rightarrow> jsnum option \<Rightarrow> int option \<Rightarrow> session_store \<Rightarrow> rewind_result result" where
  "storeRewind k checkpointId createdAtMs s =
     with_active k (rewind_operation k checkpointId createdAtMs) s"

definition storeArchiveSession ::
  "string \<Rightarrow> string option \<Rightarrow> session_store \<Rightarrow> session_record result" where
  "storeArchiveSession k reason s =
     (case lifecycleRequire k (st_db s) of
        Inl e \<Rightarrow> (Inl e, s)
      | Inr session \<Rightarrow> transaction (archiveArchive session reason) s)"

definition storeBuildDurableTranscript ::
  "string \<Rightarrow> transcript_options \<Rightarrow> session_store \<Rightarrow> session_error + durable_transcript" where
  "storeBuildDurableTranscript k options s =
     (case lifecycleRequire k (st_db s) of
        Inl e \<Rightarrow> Inl e
      | Inr session \<Rightarrow>
     (case journalList k \<lparr>lo_afterSeq = tx_afterSeq options, lo_limit = None\<rparr> (st_db s) of
        Inl e \<Rightarrow> Inl e
      | Inr journal \<Rightarrow>
     (case storeGetLatestTurnId k s of
        Inl e \<Rightarrow> Inl e
      | Inr latestTurnId \<Rightarrow> buildDurableTranscript session journal latestTurnId options)))"

abbreviation whole_transcript :: transcript_options where
  "whole_transcript \<equiv>
     \<lparr>tx_afterSeq = None, tx_limit = None, tx_turnId = None, tx_eventTypes = None\<rparr>"

definition delete_operation ::
  "string \<Rightarrow> string option \<Rightarrow> session_record \<Rightarrow> session_store \<Rightarrow>
   (session_record \<times> durable_transcript) result" where
  "delete_operation k reason session s =
     (case storeBuildDurableTranscript k whole_transcript s of
        Inl e \<Rightarrow> (Inl e, s)
      | Inr transcript \<Rightarrow>
          chain (archiveArchive session reason s) (\<lambda>archivedSession s1.
            chain (deleteSessionArtifacts k s1) (\<lambda>_ s2.
              case sqlDeleteSession k s2 of
                (deleted, s3) \<Rightarrow>
                  (if \<not> deleted
                   then (Inl (plain_error (''Session \"'' @ k @ ''\" was not deleted.'')), s3)
                   else (Inr (archivedSession, transcript), s3)))))"

definition storeDeleteSession ::
  "string \<Rightarrow> string option \<Rightarrow> session_store \<Rightarrow> (session_record \<times> durable_transcript) result" where
  "storeDeleteSession k reason s =
     (case lifecycleRequire k (st_db s) of
        Inl e \<Rightarrow> (Inl e, s)
      | Inr session \<Rightarrow> transaction (delete_operation k reason session) s)"

section \<open>Recovery\<close>

definition storeRecover :: "string \<Rightarrow> recover_options \<Rightarrow> session_store \<Rightarrow> session_error + recovery_result"
where
  "storeRecover k options s = recoverSessionState k options (st_db s)"

definition storeRecoverStep ::
  "string \<Rightarrow> string \<Rightarrow> recover_options \<Rightarrow> session_store \<Rightarrow> session_error + step_recovery" where
  "storeRecoverStep k turnId options s = recoverStepState k turnId options (st_db s)"

text \<open>The copies in \<open>store.ts\<close> of the two functions of the recovery.\<close>

definition nextStepIndexFromStepEvent :: "step_entry \<Rightarrow> int" where
  "nextStepIndexFromStepEvent entry =
     (if sy_eventType entry = ContextBuilt \<or> sy_eventType entry = ModelOutput \<or>
         sy_eventType entry = ToolsPlanned
      then sy_stepIndex entry else sy_stepIndex entry + 1)"

definition resumeActionFromStepEvent :: "step_entry \<Rightarrow> resume_action" where
  "resumeActionFromStepEvent entry =
     (case sy_eventType entry of
        ContextBuilt \<Rightarrow> ContinueCurrentStep
      | ModelOutput \<Rightarrow> ContinueCurrentStep
      | ToolsPlanned \<Rightarrow> ContinueCurrentStep
      | ToolResult \<Rightarrow> StartNextStep
      | FinalOutput \<Rightarrow> TurnComplete)"

text \<open>The fallback to the whole step journal of the turn, when nothing after the checkpoint shows
  its progress.\<close>

definition full_step_recovery :: "step_recovery \<Rightarrow> step_entry list \<Rightarrow> step_recovery" where
  "full_step_recovery stepRecovery fullStepJournal =
     (let firstStepEvent = hd fullStepJournal; lastStepEvent = last fullStepJournal
      in stepRecovery\<lparr>sv_stepJournal := fullStepJournal,
                      sv_replay := buildStepReplay fullStepJournal,
                      sv_fromSeqExclusive := max 0 (jn_seq (sy_entry firstStepEvent) - 1),
                      sv_toSeqInclusive := jn_seq (sy_entry lastStepEvent),
                      sv_lastStepEvent := Some lastStepEvent,
                      sv_resumeAction := resumeActionFromStepEvent lastStepEvent,
                      sv_nextStepIndex := nextStepIndexFromStepEvent lastStepEvent\<rparr>)"

definition storeRecoverLatestStep ::
  "string \<Rightarrow> string option \<Rightarrow> recover_options \<Rightarrow> session_store \<Rightarrow>
   session_error + (string option \<times> step_recovery option)" where
  "storeRecoverLatestStep k givenTurnId options s =
     (case lifecycleRequire k (st_db s) of
        Inl e \<Rightarrow> Inl e
      | Inr _ \<Rightarrow>
        let hint = readCheckpointLatestTurnHint
                     (map_option cp_metadata (sqlGetLatestCheckpoint k (st_db s)));
            latestTurnId =
              (case givenTurnId of
                 Some t \<Rightarrow> Some t
               | None \<Rightarrow> (case hint of Some value \<Rightarrow> value
                          | None \<Rightarrow> journalLatestTurnId k (st_db s)))
        in case latestTurnId of
             None \<Rightarrow> Inr (None, None)
           | Some turnId \<Rightarrow>
               if turnId = [] then Inr (None, None)
               else (case recoverStepState k turnId options (st_db s) of
                 Inl e \<Rightarrow> Inl e
               | Inr stepRecovery \<Rightarrow>
                   if givenTurnId = None \<and> hint = None \<and>
                      sv_resumeAction stepRecovery = NoProgress \<and>
                      sv_stepCheckpoint stepRecovery = None \<and> sv_stepJournal stepRecovery = []
                   then (case journalListStep k no_options (Some turnId) (st_db s) of
                           Inl e \<Rightarrow> Inl e
                         | Inr fullStepJournal \<Rightarrow>
                             if fullStepJournal = [] then Inr (Some turnId, Some stepRecovery)
                             else Inr (Some turnId,
                                       Some (full_step_recovery stepRecovery fullStepJournal)))
                   else Inr (Some turnId, Some stepRecovery)))"

end
