(* ===== verification/Session_Steps.thy ===== *)
theory Session_Steps
  imports Session_Store
begin

text \<open>
  What the session store does to its tables, as a step relation: each statement that changes a
  table under the guards the code checks before it. Every method of the store takes such steps
  (or none, when it throws), so the invariant of the tables is proved once per kind of step.
\<close>

named_theorems store_simps \<open>how the statements change the tables\<close>

section \<open>Statements\<close>

definition insert_session :: "string \<Rightarrow> json_object \<Rightarrow> string \<Rightarrow> int \<Rightarrow> tables \<Rightarrow> tables" where
  "insert_session k m v t d =
     d\<lparr>tab_sessions := tab_sessions d @
         [\<lparr>ss_id = k, ss_metadata = json_fields m, ss_status = Active, ss_schemaVersion = v,
           ss_createdAtMs = t, ss_updatedAtMs = t, ss_archivedAtMs = None,
           ss_archiveReason = None\<rparr>]\<rparr>"

definition next_entry ::
  "string \<Rightarrow> string \<Rightarrow> string option \<Rightarrow> jsval \<Rightarrow> string \<Rightarrow> int \<Rightarrow> tables \<Rightarrow> journal_entry" where
  "next_entry k eventType turnId p v t d =
     \<lparr>jn_rowId = tab_lastRowId d + 1, jn_sessionId = k, jn_seq = sqlGetNextJournalSeq k d,
      jn_eventType = eventType, jn_turnId = turnId, jn_payload = p, jn_schemaVersion = v,
      jn_createdAtMs = t\<rparr>"

definition insert_entry :: "journal_entry \<Rightarrow> tables \<Rightarrow> tables" where
  "insert_entry e d =
     touchSessionUpdatedAt (jn_sessionId e) (jn_createdAtMs e)
       (d\<lparr>tab_journal := tab_journal d @ [e], tab_lastRowId := tab_lastRowId d + 1\<rparr>)"

definition next_checkpoint ::
  "string \<Rightarrow> int \<Rightarrow> jsval \<Rightarrow> json_object \<Rightarrow> string \<Rightarrow> int \<Rightarrow> tables \<Rightarrow> checkpoint_record" where
  "next_checkpoint k uptoSeq state m v t d =
     \<lparr>cp_id = tab_lastCheckpointId d + 1, cp_sessionId = k, cp_uptoSeq = uptoSeq,
      cp_state = state, cp_schemaVersion = v, cp_createdAtMs = t, cp_metadata = json_fields m\<rparr>"

definition insert_checkpoint :: "checkpoint_record \<Rightarrow> tables \<Rightarrow> tables" where
  "insert_checkpoint c d =
     touchSessionUpdatedAt (cp_sessionId c) (cp_createdAtMs c)
       (d\<lparr>tab_checkpoints := tab_checkpoints d @ [c],
          tab_lastCheckpointId := tab_lastCheckpointId d + 1\<rparr>)"

definition set_metadata :: "string \<Rightarrow> json_object \<Rightarrow> int \<Rightarrow> tables \<Rightarrow> tables" where
  "set_metadata k m t d =
     update_session k (\<lambda>r. r\<lparr>ss_metadata := json_fields m, ss_updatedAtMs := t\<rparr>) d"

definition set_archived :: "string \<Rightarrow> string option \<Rightarrow> int \<Rightarrow> tables \<Rightarrow> tables" where
  "set_archived k reason t d =
     update_session k
       (\<lambda>r. r\<lparr>ss_status := Archived, ss_archiveReason := nullish (ss_archiveReason r) reason,
              ss_archivedAtMs := nullish (ss_archivedAtMs r) (Some t), ss_updatedAtMs := t\<rparr>) d"

definition remove_session :: "string \<Rightarrow> tables \<Rightarrow> tables" where
  "remove_session k d =
     d\<lparr>tab_sessions := filter (\<lambda>r. ss_id r \<noteq> k) (tab_sessions d),
       tab_journal := filter (\<lambda>e. jn_sessionId e \<noteq> k) (tab_journal d),
       tab_checkpoints := filter (\<lambda>c. cp_sessionId c \<noteq> k) (tab_checkpoints d)\<rparr>"

definition active_in :: "string \<Rightarrow> string \<Rightarrow> tables \<Rightarrow> bool" where
  "active_in k v d \<longleftrightarrow>
     (\<exists>r. sqlGetSession k d = Some r \<and> ss_status r = Active \<and> ss_schemaVersion r = v)"

inductive table_step :: "string option \<Rightarrow> tables \<Rightarrow> tables \<Rightarrow> bool" where
  created: "isSessionId k \<Longrightarrow> k \<notin> ss_id ` set (tab_sessions d) \<Longrightarrow>
    resolveSchemaVersion (Some v) = v \<Longrightarrow> table_step None d (insert_session k m v t d)"
| appended: "active_in k w d \<Longrightarrow> isSchemaVersionCompatible v w \<Longrightarrow> is_json p \<Longrightarrow>
    table_step None d (insert_entry (next_entry k eventType turnId p v t d) d)"
| checkpointed: "active_in k w d \<Longrightarrow> isSchemaVersionCompatible v w \<Longrightarrow> is_json state \<Longrightarrow>
    0 \<le> uptoSeq \<Longrightarrow> uptoSeq \<le> sqlGetLatestJournalSeq k d \<Longrightarrow>
    uptoSeq \<notin> cp_uptoSeq ` set (checkpoints_of k d) \<Longrightarrow>
    table_step None d (insert_checkpoint (next_checkpoint k uptoSeq state m v t d) d)"
| described: "active_in k w d \<Longrightarrow> table_step None d (set_metadata k m t d)"
| archived: "active_in k w d \<Longrightarrow> table_step None d (set_archived k reason t d)"
| deleted: "table_step (Some k) d (remove_session k d)"

inductive_cases table_step_cases: "table_step l d d'"

text \<open>Runs of steps that delete at most the sessions in a given set.\<close>

inductive table_steps :: "string set \<Rightarrow> tables \<Rightarrow> tables \<Rightarrow> bool" where
  none: "table_steps D d d"
| more: "table_steps D d d' \<Longrightarrow> table_step l d' d'' \<Longrightarrow> set_option l \<subseteq> D \<Longrightarrow> table_steps D d d''"

declare table_steps.none [simp, intro]

lemma table_steps_one: "table_step l d d' \<Longrightarrow> set_option l \<subseteq> D \<Longrightarrow> table_steps D d d'"
  by (rule table_steps.more [OF table_steps.none])

lemma table_steps_None: "table_step None d d' \<Longrightarrow> table_steps D d d'"
  using table_steps_one [of None d d' D] by simp

lemma table_steps_trans:
  assumes "table_steps D d d'" and "table_steps D d' d''"
  shows "table_steps D d d''"
  using assms(2,1) by (induction rule: table_steps.induct) (auto intro: table_steps.more)

lemma table_steps_mono: "table_steps D d d' \<Longrightarrow> D \<subseteq> E \<Longrightarrow> table_steps E d d'"
  by (induction rule: table_steps.induct) (auto intro: table_steps.more)

text \<open>The steps that only write one active session: its journal, its checkpoints and its record.\<close>

inductive session_step :: "string \<Rightarrow> tables \<Rightarrow> tables \<Rightarrow> bool" for k where
  appended: "active_in k w d \<Longrightarrow> isSchemaVersionCompatible v w \<Longrightarrow> is_json p \<Longrightarrow>
    session_step k d (insert_entry (next_entry k eventType turnId p v t d) d)"
| checkpointed: "active_in k w d \<Longrightarrow> isSchemaVersionCompatible v w \<Longrightarrow> is_json state \<Longrightarrow>
    0 \<le> uptoSeq \<Longrightarrow> uptoSeq \<le> sqlGetLatestJournalSeq k d \<Longrightarrow>
    uptoSeq \<notin> cp_uptoSeq ` set (checkpoints_of k d) \<Longrightarrow>
    session_step k d (insert_checkpoint (next_checkpoint k uptoSeq state m v t d) d)"
| described: "active_in k w d \<Longrightarrow> session_step k d (set_metadata k m t d)"

abbreviation session_steps :: "string \<Rightarrow> tables \<Rightarrow> tables \<Rightarrow> bool" where
  "session_steps k \<equiv> (session_step k)\<^sup>*\<^sup>*"

lemma session_step_table: "session_step k d d' \<Longrightarrow> table_step None d d'"
  by (cases rule: session_step.cases) (auto intro: table_step.intros)

lemma session_steps_table: "session_steps k d d' \<Longrightarrow> table_steps D d d'"
  by (induction rule: rtranclp_induct) (auto intro: table_steps.more dest: session_step_table)

section \<open>How the statements change what is read\<close>

lemma sqlGetSession_Some:
  "sqlGetSession k d = Some r \<Longrightarrow> r \<in> set (tab_sessions d) \<and> ss_id r = k"
  by (auto simp: sqlGetSession_def find_Some_iff)

lemma sqlGetSession_None: "sqlGetSession k d = None \<longleftrightarrow> k \<notin> ss_id ` set (tab_sessions d)"
  by (auto simp: sqlGetSession_def find_None_iff)

lemma sqlGetSession_update:
  assumes "\<And>r. ss_id (f r) = ss_id r"
  shows "sqlGetSession k (update_session k' f d) =
           (if k = k' then map_option f (sqlGetSession k d) else sqlGetSession k d)"
proof -
  have "find (\<lambda>r. ss_id r = k) (map (\<lambda>r. if ss_id r = k' then f r else r) rs) =
      (if k = k' then map_option f (find (\<lambda>r. ss_id r = k) rs)
       else find (\<lambda>r. ss_id r = k) rs)" for rs
    using assms by (induction rs) auto
  then show ?thesis by (simp add: sqlGetSession_def update_session_def)
qed

lemma update_session_frame [store_simps]:
  "tab_journal (update_session k f d) = tab_journal d"
  "tab_checkpoints (update_session k f d) = tab_checkpoints d"
  "tab_lastRowId (update_session k f d) = tab_lastRowId d"
  "tab_lastCheckpointId (update_session k f d) = tab_lastCheckpointId d"
  by (simp_all add: update_session_def)

lemma statement_sessions [store_simps]:
  "sqlGetSession k' (insert_entry e d) =
     (if k' = jn_sessionId e
      then map_option (\<lambda>r. r\<lparr>ss_updatedAtMs := max (ss_updatedAtMs r) (jn_createdAtMs e)\<rparr>)
             (sqlGetSession k' d)
      else sqlGetSession k' d)"
  "sqlGetSession k' (insert_checkpoint c d) =
     (if k' = cp_sessionId c
      then map_option (\<lambda>r. r\<lparr>ss_updatedAtMs := max (ss_updatedAtMs r) (cp_createdAtMs c)\<rparr>)
             (sqlGetSession k' d)
      else sqlGetSession k' d)"
  "sqlGetSession k' (set_metadata k m t d) =
     (if k' = k
      then map_option (\<lambda>r. r\<lparr>ss_metadata := json_fields m, ss_updatedAtMs := t\<rparr>) (sqlGetSession k' d)
      else sqlGetSession k' d)"
  "sqlGetSession k' (set_archived k reason t d) =
     (if k' = k
      then map_option
             (\<lambda>r. r\<lparr>ss_status := Archived, ss_archiveReason := nullish (ss_archiveReason r) reason,
                    ss_archivedAtMs := nullish (ss_archivedAtMs r) (Some t), ss_updatedAtMs := t\<rparr>)
             (sqlGetSession k' d)
      else sqlGetSession k' d)"
proof -
  have touch: "(\<lambda>r. r\<lparr>ss_updatedAtMs := if ss_updatedAtMs r < t then t else ss_updatedAtMs r\<rparr>) =
      (\<lambda>r. r\<lparr>ss_updatedAtMs := max (ss_updatedAtMs r) t\<rparr>)" for t
    by (auto simp: max_def)
  have same: "sqlGetSession k (d\<lparr>tab_journal := j, tab_lastRowId := i\<rparr>) = sqlGetSession k d"
    "sqlGetSession k (d\<lparr>tab_checkpoints := c, tab_lastCheckpointId := i\<rparr>) = sqlGetSession k d"
    for k d j c i by (simp_all add: sqlGetSession_def)
  show "sqlGetSession k' (insert_entry e d) =
     (if k' = jn_sessionId e
      then map_option (\<lambda>r. r\<lparr>ss_updatedAtMs := max (ss_updatedAtMs r) (jn_createdAtMs e)\<rparr>)
             (sqlGetSession k' d)
      else sqlGetSession k' d)"
    by (simp add: insert_entry_def touchSessionUpdatedAt_def touch sqlGetSession_update same)
  show "sqlGetSession k' (insert_checkpoint c d) =
     (if k' = cp_sessionId c
      then map_option (\<lambda>r. r\<lparr>ss_updatedAtMs := max (ss_updatedAtMs r) (cp_createdAtMs c)\<rparr>)
             (sqlGetSession k' d)
      else sqlGetSession k' d)"
    by (simp add: insert_checkpoint_def touchSessionUpdatedAt_def touch sqlGetSession_update same)
  show "sqlGetSession k' (set_metadata k m t d) =
     (if k' = k
      then map_option (\<lambda>r. r\<lparr>ss_metadata := json_fields m, ss_updatedAtMs := t\<rparr>) (sqlGetSession k' d)
      else sqlGetSession k' d)"
    by (simp add: set_metadata_def sqlGetSession_update)
  show "sqlGetSession k' (set_archived k reason t d) =
     (if k' = k
      then map_option
             (\<lambda>r. r\<lparr>ss_status := Archived, ss_archiveReason := nullish (ss_archiveReason r) reason,
                    ss_archivedAtMs := nullish (ss_archivedAtMs r) (Some t), ss_updatedAtMs := t\<rparr>)
             (sqlGetSession k' d)
      else sqlGetSession k' d)"
    by (simp add: set_archived_def sqlGetSession_update)
qed

lemma statement_entries [store_simps]:
  "entries_of k' (insert_session k m v t d) = entries_of k' d"
  "entries_of k' (insert_entry e d) = entries_of k' d @ (if jn_sessionId e = k' then [e] else [])"
  "entries_of k' (insert_checkpoint c d) = entries_of k' d"
  "entries_of k' (set_metadata k m t d) = entries_of k' d"
  "entries_of k' (set_archived k reason t d) = entries_of k' d"
  "entries_of k' (remove_session k d) = (if k' = k then [] else entries_of k' d)"
  by (auto simp: entries_of_def insert_session_def insert_entry_def insert_checkpoint_def
      set_metadata_def set_archived_def remove_session_def touchSessionUpdatedAt_def
      update_session_frame filter_empty_conv intro: filter_cong)

lemma statement_checkpoints [store_simps]:
  "checkpoints_of k' (insert_session k m v t d) = checkpoints_of k' d"
  "checkpoints_of k' (insert_entry e d) = checkpoints_of k' d"
  "checkpoints_of k' (insert_checkpoint c d) =
     checkpoints_of k' d @ (if cp_sessionId c = k' then [c] else [])"
  "checkpoints_of k' (set_metadata k m t d) = checkpoints_of k' d"
  "checkpoints_of k' (set_archived k reason t d) = checkpoints_of k' d"
  "checkpoints_of k' (remove_session k d) = (if k' = k then [] else checkpoints_of k' d)"
  by (auto simp: checkpoints_of_def insert_session_def insert_entry_def insert_checkpoint_def
      set_metadata_def set_archived_def remove_session_def touchSessionUpdatedAt_def
      update_session_frame filter_empty_conv intro: filter_cong)

lemma find_snoc:
  "find P (xs @ [x]) =
     (case find P xs of None \<Rightarrow> if P x then Some x else None | Some y \<Rightarrow> Some y)"
  by (induction xs) auto

lemma find_filter_other:
  "find (\<lambda>r. f r = k') (filter (\<lambda>r. f r \<noteq> k) rs) =
     (if k' = k then None else find (\<lambda>r. f r = k') rs)"
  by (induction rs) auto

lemma sqlGetSession_insert [store_simps]:
  assumes "k \<notin> ss_id ` set (tab_sessions d)"
  shows "sqlGetSession k' (insert_session k m v t d) =
     (if k' = k
      then Some \<lparr>ss_id = k, ss_metadata = json_fields m, ss_status = Active, ss_schemaVersion = v,
                 ss_createdAtMs = t, ss_updatedAtMs = t, ss_archivedAtMs = None,
                 ss_archiveReason = None\<rparr>
      else sqlGetSession k' d)"
  using assms sqlGetSession_None [of k d]
  by (cases "sqlGetSession k' d")
    (auto simp: sqlGetSession_def insert_session_def find_snoc)

lemma sqlGetSession_remove [store_simps]:
  "sqlGetSession k' (remove_session k d) = (if k' = k then None else sqlGetSession k' d)"
  unfolding sqlGetSession_def remove_session_def by (simp add: find_filter_other)

section \<open>Invariant of the tables\<close>

definition session_ok :: "session_record \<Rightarrow> bool" where
  "session_ok r \<longleftrightarrow>
     isSessionId (ss_id r) \<and> resolveSchemaVersion (Some (ss_schemaVersion r)) = ss_schemaVersion r \<and>
     json_fields_ok (ss_metadata r) \<and> (ss_status r = Archived \<longleftrightarrow> ss_archivedAtMs r \<noteq> None)"

definition entry_ok :: "tables \<Rightarrow> journal_entry \<Rightarrow> bool" where
  "entry_ok d e \<longleftrightarrow> is_json (jn_payload e) \<and> jn_rowId e \<le> tab_lastRowId d \<and>
     (\<exists>r. sqlGetSession (jn_sessionId e) d = Some r \<and>
          isSchemaVersionCompatible (jn_schemaVersion e) (ss_schemaVersion r))"

definition checkpoint_ok :: "tables \<Rightarrow> checkpoint_record \<Rightarrow> bool" where
  "checkpoint_ok d c \<longleftrightarrow> is_json (cp_state c) \<and> json_fields_ok (cp_metadata c) \<and>
     cp_id c \<le> tab_lastCheckpointId d \<and>
     0 \<le> cp_uptoSeq c \<and> cp_uptoSeq c \<le> int (length (entries_of (cp_sessionId c) d)) \<and>
     (\<exists>r. sqlGetSession (cp_sessionId c) d = Some r \<and>
          isSchemaVersionCompatible (cp_schemaVersion c) (ss_schemaVersion r))"

definition tables_inv :: "tables \<Rightarrow> bool" where
  "tables_inv d \<longleftrightarrow>
     distinct (map ss_id (tab_sessions d)) \<and>
     (\<forall>r \<in> set (tab_sessions d). session_ok r) \<and>
     (\<forall>k. map jn_seq (entries_of k d) = [1..int (length (entries_of k d))]) \<and>
     sorted_wrt (<) (map jn_rowId (tab_journal d)) \<and>
     (\<forall>e \<in> set (tab_journal d). entry_ok d e) \<and>
     (\<forall>k. distinct (map cp_uptoSeq (checkpoints_of k d))) \<and>
     sorted_wrt (<) (map cp_id (tab_checkpoints d)) \<and>
     (\<forall>c \<in> set (tab_checkpoints d). checkpoint_ok d c)"

lemma max_seq_upper: "e \<in> set es \<Longrightarrow> jn_seq e \<le> max_seq es"
  by (induction es rule: max_seq.induct) auto

lemma max_seq_member: "es \<noteq> [] \<Longrightarrow> max_seq es \<in> jn_seq ` set es"
  by (induction es rule: max_seq.induct) (auto simp: max_def)

lemma max_seq_contiguous:
  assumes "map jn_seq es = [1..int (length es)]"
  shows "max_seq es = int (length es)"
proof (cases "es = []")
  case True
  then show ?thesis by simp
next
  case False
  have set: "jn_seq ` set es = {1..int (length es)}"
    using arg_cong [OF assms, of set] by simp
  have "int (length es) \<in> jn_seq ` set es"
    using False unfolding set by (cases es) auto
  then have "int (length es) \<le> max_seq es"
    using max_seq_upper by auto
  moreover have "max_seq es \<in> jn_seq ` set es"
    using False by (rule max_seq_member)
  then have "max_seq es \<le> int (length es)"
    unfolding set by simp
  ultimately show ?thesis by simp
qed

lemma latest_seq: "tables_inv d \<Longrightarrow> sqlGetLatestJournalSeq k d = int (length (entries_of k d))"
  by (simp add: sqlGetLatestJournalSeq_def max_seq_contiguous tables_inv_def)

lemma next_seq: "tables_inv d \<Longrightarrow> sqlGetNextJournalSeq k d = int (length (entries_of k d)) + 1"
  by (simp add: sqlGetNextJournalSeq_def max_seq_contiguous tables_inv_def)

end
