(* ===== verification/Machines.thy ===== *)
theory Machines
  imports JS_Prelude
begin

text \<open>
  Two interfaces the stateful components are proved against. A \<open>command_machine\<close> is a state
  changed by commands that may hand items out (drained journal entries, appended events); its
  contract is an invariant that every command keeps. A \<open>journaled_machine\<close> also writes a
  journal, and promises that what one command adds to the journal replays to the state that
  the command leaves.
\<close>

fun run_log :: "('c \<Rightarrow> 'm \<Rightarrow> 'm \<times> 'e list) \<Rightarrow> 'c list \<Rightarrow> 'm \<Rightarrow> 'm \<times> 'e list" where
  "run_log step [] m = (m, [])"
| "run_log step (c # cs) m =
     (case step c m of (m', out) \<Rightarrow>
        (case run_log step cs m' of (m'', out') \<Rightarrow> (m'', out @ out')))"

lemma run_log_Cons:
  "run_log step (c # cs) m =
     (fst (run_log step cs (fst (step c m))),
      snd (step c m) @ snd (run_log step cs (fst (step c m))))"
  by (simp add: case_prod_beta)

lemma run_log_append:
  "run_log step (cs @ ds) m =
     (fst (run_log step ds (fst (run_log step cs m))),
      snd (run_log step cs m) @ snd (run_log step ds (fst (run_log step cs m))))"
proof (induction cs arbitrary: m)
  case Nil
  then show ?case by simp
next
  case (Cons c cs)
  then show ?case by (simp add: run_log_Cons del: run_log.simps(2))
qed

locale command_machine =
  fixes step :: "'c \<Rightarrow> 'm \<Rightarrow> 'm \<times> 'e list"
    and inv :: "'m \<Rightarrow> bool"
  assumes inv_step: "inv m \<Longrightarrow> inv (fst (step c m))"
begin

lemma inv_run: "inv m \<Longrightarrow> inv (fst (run_log step cs m))"
proof (induction cs arbitrary: m)
  case Nil
  then show ?case by simp
next
  case (Cons c cs)
  then show ?case by (simp add: run_log_Cons inv_step del: run_log.simps(2))
qed

end

locale journaled_machine = command_machine step inv
  for step :: "'c \<Rightarrow> 'm \<Rightarrow> 'm \<times> 'e list" and inv :: "'m \<Rightarrow> bool" +
  fixes pending :: "'m \<Rightarrow> 'e list"
    and replay :: "'s \<Rightarrow> 'e list \<Rightarrow> 'err + 's"
    and view :: "'s \<Rightarrow> 'm \<Rightarrow> bool"
  assumes replay_Nil: "replay s [] = Inr s"
    and replay_append:
      "replay s (es @ fs) = (case replay s es of Inl e \<Rightarrow> Inl e | Inr s' \<Rightarrow> replay s' fs)"
    and step_replay: "inv m \<Longrightarrow> view s m \<Longrightarrow>
      \<exists>new s'. pending m @ new = snd (step c m) @ pending (fst (step c m)) \<and>
               replay s new = Inr s' \<and> view s' (fst (step c m))"
begin

lemma run_replay:
  "inv m \<Longrightarrow> view s m \<Longrightarrow>
   \<exists>new s'. pending m @ new = snd (run_log step cs m) @ pending (fst (run_log step cs m)) \<and>
            replay s new = Inr s' \<and> view s' (fst (run_log step cs m))"
proof (induction cs arbitrary: m s)
  case Nil
  then show ?case using replay_Nil by auto
next
  case (Cons c cs)
  obtain new1 s1 where one: "pending m @ new1 = snd (step c m) @ pending (fst (step c m))"
    "replay s new1 = Inr s1" "view s1 (fst (step c m))"
    using step_replay [OF Cons.prems, of c] by blast
  obtain new2 s2 where two:
    "pending (fst (step c m)) @ new2 =
       snd (run_log step cs (fst (step c m))) @ pending (fst (run_log step cs (fst (step c m))))"
    "replay s1 new2 = Inr s2" "view s2 (fst (run_log step cs (fst (step c m))))"
    using Cons.IH [OF inv_step [OF Cons.prems(1)] one(3)] by blast
  let ?m = "fst (step c m)"
  have "pending m @ (new1 @ new2) = (pending m @ new1) @ new2"
    by (rule append.assoc [symmetric])
  also have "\<dots> = snd (step c m) @ (pending ?m @ new2)"
    unfolding one(1) by (rule append.assoc)
  also have "\<dots> = snd (step c m) @ (snd (run_log step cs ?m) @ pending (fst (run_log step cs ?m)))"
    unfolding two(1) by (rule refl)
  also have "\<dots> = snd (run_log step (c # cs) m) @ pending (fst (run_log step (c # cs) m))"
    unfolding run_log_Cons by simp
  finally have "pending m @ (new1 @ new2) =
      snd (run_log step (c # cs) m) @ pending (fst (run_log step (c # cs) m))" .
  moreover have "replay s (new1 @ new2) = Inr s2"
    using one(2) two(2) by (simp add: replay_append)
  ultimately show ?case
    using two(3) unfolding run_log_Cons fst_conv snd_conv by blast
qed

text \<open>From an empty journal, everything written replays to the final state.\<close>

lemma history_replay:
  assumes "inv m" "view s m" "pending m = []"
  shows "\<exists>s'. replay s (snd (run_log step cs m) @ pending (fst (run_log step cs m))) = Inr s' \<and>
              view s' (fst (run_log step cs m))"
  using run_replay [OF assms(1,2), of cs] assms(3) by auto

end

end
