(* ===== verification/Session_Invariant.thy ===== *)
theory Session_Invariant
  imports Session_Steps Machines
begin

text \<open>
  Every step keeps the invariant of the tables; every method of the store takes steps; so any
  run of methods keeps the invariant. Also what a method does when it succeeds: the exact row an
  append or a checkpoint adds, and the exact conditions under which it throws.
\<close>

section \<open>Steps keep the invariant\<close>

lemma tables_invI:
  assumes "distinct (map ss_id (tab_sessions d))" and "\<forall>r \<in> set (tab_sessions d). session_ok r"
    and "\<And>k. map jn_seq (entries_of k d) = [1..int (length (entries_of k d))]"
    and "sorted_wrt (<) (map jn_rowId (tab_journal d))"
    and "\<And>e. e \<in> set (tab_journal d) \<Longrightarrow> entry_ok d e"
    and "\<And>k. distinct (map cp_uptoSeq (checkpoints_of k d))"
    and "sorted_wrt (<) (map cp_id (tab_checkpoints d))"
    and "\<And>c. c \<in> set (tab_checkpoints d) \<Longrightarrow> checkpoint_ok d c"
  shows "tables_inv d"
  using assms by (simp add: tables_inv_def)

lemma tables_invD:
  assumes "tables_inv d"
  shows "distinct (map ss_id (tab_sessions d))" and "r \<in> set (tab_sessions d) \<Longrightarrow> session_ok r"
    and "map jn_seq (entries_of k d) = [1..int (length (entries_of k d))]"
    and "sorted_wrt (<) (map jn_rowId (tab_journal d))"
    and "e \<in> set (tab_journal d) \<Longrightarrow> entry_ok d e"
    and "distinct (map cp_uptoSeq (checkpoints_of k d))"
    and "sorted_wrt (<) (map cp_id (tab_checkpoints d))"
    and "c \<in> set (tab_checkpoints d) \<Longrightarrow> checkpoint_ok d c"
  using assms by (simp_all add: tables_inv_def)

lemma entry_ok_kept:
  assumes "entry_ok d e" and "tab_lastRowId d \<le> tab_lastRowId d'"
    and "\<And>r. sqlGetSession (jn_sessionId e) d = Some r \<Longrightarrow>
           \<exists>r'. sqlGetSession (jn_sessionId e) d' = Some r' \<and> ss_schemaVersion r' = ss_schemaVersion r"
  shows "entry_ok d' e"
  using assms unfolding entry_ok_def by force

lemma checkpoint_ok_kept:
  assumes "checkpoint_ok d c" and "tab_lastCheckpointId d \<le> tab_lastCheckpointId d'"
    and "length (entries_of (cp_sessionId c) d) \<le> length (entries_of (cp_sessionId c) d')"
    and "\<And>r. sqlGetSession (cp_sessionId c) d = Some r \<Longrightarrow>
           \<exists>r'. sqlGetSession (cp_sessionId c) d' = Some r' \<and> ss_schemaVersion r' = ss_schemaVersion r"
  shows "checkpoint_ok d' c"
  using assms unfolding checkpoint_ok_def by force

lemma update_session_ids:
  "(\<And>r. ss_id (f r) = ss_id r) \<Longrightarrow>
   map ss_id (tab_sessions (update_session k f d)) = map ss_id (tab_sessions d)"
  by (simp add: update_session_def)

lemma update_session_ok:
  assumes "\<forall>r \<in> set (tab_sessions d). session_ok r"
    and "\<And>r. session_ok r \<Longrightarrow> session_ok (f r)"
  shows "\<forall>r \<in> set (tab_sessions (update_session k f d)). session_ok r"
  using assms by (auto simp: update_session_def)

lemma sessions_kept:
  assumes "tables_inv d"
  shows "distinct (map ss_id (tab_sessions (insert_entry e d)))"
    and "distinct (map ss_id (tab_sessions (insert_checkpoint c d)))"
    and "distinct (map ss_id (tab_sessions (set_metadata k m t d)))"
    and "distinct (map ss_id (tab_sessions (set_archived k reason t d)))"
    and "\<forall>r \<in> set (tab_sessions (insert_entry e d)). session_ok r"
    and "\<forall>r \<in> set (tab_sessions (insert_checkpoint c d)). session_ok r"
    and "\<forall>r \<in> set (tab_sessions (set_metadata k m t d)). session_ok r"
    and "\<forall>r \<in> set (tab_sessions (set_archived k reason t d)). session_ok r"
proof -
  note ok = update_session_ok
  from assms have d: "distinct (map ss_id (tab_sessions d))"
    "\<forall>r \<in> set (tab_sessions d). session_ok r"
    by (simp_all add: tables_inv_def)
  show "distinct (map ss_id (tab_sessions (insert_entry e d)))"
    "distinct (map ss_id (tab_sessions (insert_checkpoint c d)))"
    "distinct (map ss_id (tab_sessions (set_metadata k m t d)))"
    "distinct (map ss_id (tab_sessions (set_archived k reason t d)))"
    using d(1)
    by (simp_all add: insert_entry_def insert_checkpoint_def set_metadata_def set_archived_def
        touchSessionUpdatedAt_def update_session_ids)
  show "\<forall>r \<in> set (tab_sessions (insert_entry e d)). session_ok r"
    "\<forall>r \<in> set (tab_sessions (insert_checkpoint c d)). session_ok r"
    "\<forall>r \<in> set (tab_sessions (set_metadata k m t d)). session_ok r"
    "\<forall>r \<in> set (tab_sessions (set_archived k reason t d)). session_ok r"
    unfolding insert_entry_def insert_checkpoint_def set_metadata_def set_archived_def
      touchSessionUpdatedAt_def
    by (rule ok; use d(2) in \<open>simp add: session_ok_def nullish_def split: option.split\<close>)+
qed

lemma statement_columns [store_simps]:
  "tab_journal (insert_entry e d) = tab_journal d @ [e]"
  "tab_checkpoints (insert_entry e d) = tab_checkpoints d"
  "tab_lastRowId (insert_entry e d) = tab_lastRowId d + 1"
  "tab_lastCheckpointId (insert_entry e d) = tab_lastCheckpointId d"
  "tab_journal (insert_checkpoint c d) = tab_journal d"
  "tab_checkpoints (insert_checkpoint c d) = tab_checkpoints d @ [c]"
  "tab_lastRowId (insert_checkpoint c d) = tab_lastRowId d"
  "tab_lastCheckpointId (insert_checkpoint c d) = tab_lastCheckpointId d + 1"
  "tab_journal (set_metadata k m t d) = tab_journal d"
  "tab_checkpoints (set_metadata k m t d) = tab_checkpoints d"
  "tab_lastRowId (set_metadata k m t d) = tab_lastRowId d"
  "tab_lastCheckpointId (set_metadata k m t d) = tab_lastCheckpointId d"
  "tab_journal (set_archived k reason t d) = tab_journal d"
  "tab_checkpoints (set_archived k reason t d) = tab_checkpoints d"
  "tab_lastRowId (set_archived k reason t d) = tab_lastRowId d"
  "tab_lastCheckpointId (set_archived k reason t d) = tab_lastCheckpointId d"
  "tab_journal (insert_session k m v t d) = tab_journal d"
  "tab_checkpoints (insert_session k m v t d) = tab_checkpoints d"
  "tab_lastRowId (insert_session k m v t d) = tab_lastRowId d"
  "tab_lastCheckpointId (insert_session k m v t d) = tab_lastCheckpointId d"
  by (simp_all add: insert_entry_def insert_checkpoint_def set_metadata_def set_archived_def
      insert_session_def touchSessionUpdatedAt_def update_session_frame)

lemma versions_kept:
  assumes "sqlGetSession k' d = Some r"
  shows "\<exists>r'. sqlGetSession k' (set_metadata k m t d) = Some r' \<and>
           ss_schemaVersion r' = ss_schemaVersion r"
    and "\<exists>r'. sqlGetSession k' (set_archived k reason t d) = Some r' \<and>
           ss_schemaVersion r' = ss_schemaVersion r"
  using assms by (cases "k' = k"; simp add: store_simps)+

text \<open>A step that leaves journal and checkpoints as they are and keeps the version of sessions.\<close>

lemma tables_inv_sessions:
  assumes inv: "tables_inv d"
    and same: "tab_journal d' = tab_journal d" "tab_checkpoints d' = tab_checkpoints d"
      "tab_lastRowId d' = tab_lastRowId d" "tab_lastCheckpointId d' = tab_lastCheckpointId d"
    and ids: "distinct (map ss_id (tab_sessions d'))" "\<forall>r \<in> set (tab_sessions d'). session_ok r"
    and kept: "\<And>k r. sqlGetSession k d = Some r \<Longrightarrow>
                 \<exists>r'. sqlGetSession k d' = Some r' \<and> ss_schemaVersion r' = ss_schemaVersion r"
  shows "tables_inv d'"
proof -
  have rows: "entries_of k d' = entries_of k d" "checkpoints_of k d' = checkpoints_of k d" for k
    using same by (simp_all add: entries_of_def checkpoints_of_def)
  show ?thesis
  proof (rule tables_invI)
    show "entry_ok d' e" if "e \<in> set (tab_journal d')" for e
      using that same kept by (intro entry_ok_kept [OF tables_invD(5) [OF inv]]) simp_all
    show "checkpoint_ok d' c" if "c \<in> set (tab_checkpoints d')" for c
      using that same kept rows by (intro checkpoint_ok_kept [OF tables_invD(8) [OF inv]]) simp_all
  qed (use tables_invD [OF inv] ids rows same in simp_all)
qed

lemma insert_entry_inv:
  assumes inv: "tables_inv d" and act: "active_in k w d" and v: "isSchemaVersionCompatible v w"
    and p: "is_json p"
  shows "tables_inv (insert_entry (next_entry k ty turn p v t d) d)" (is "tables_inv ?d")
proof -
  let ?e = "next_entry k ty turn p v t d"
  have e: "jn_sessionId ?e = k" "jn_seq ?e = int (length (entries_of k d)) + 1"
    "jn_rowId ?e = tab_lastRowId d + 1" "jn_payload ?e = p" "jn_schemaVersion ?e = v"
    by (simp_all add: next_entry_def next_seq [OF inv])
  have kept: "\<exists>r'. sqlGetSession k' ?d = Some r' \<and> ss_schemaVersion r' = ss_schemaVersion r"
    if "sqlGetSession k' d = Some r" for k' r
    using that by (auto simp: store_simps e)
  show ?thesis
  proof (rule tables_invI)
    show "map jn_seq (entries_of k' ?d) = [1..int (length (entries_of k' ?d))]" for k'
    proof (cases "k' = k")
      case True
      have "[1..int (length (entries_of k d)) + 1] =
          [1..int (length (entries_of k d))] @ [int (length (entries_of k d)) + 1]"
        using upto_rec2 [of 1 "int (length (entries_of k d)) + 1"] by simp
      then show ?thesis
        using tables_invD(3) [OF inv, of k] True by (simp add: store_simps e add.commute)
    next
      case False
      then show ?thesis using tables_invD(3) [OF inv, of k'] by (simp add: store_simps e)
    qed
    show "entry_ok ?d x" if "x \<in> set (tab_journal ?d)" for x
    proof (cases "x = ?e")
      case True
      then show ?thesis using act v p by (auto simp: entry_ok_def e active_in_def store_simps)
    next
      case False
      with that have "entry_ok d x" using tables_invD(5) [OF inv] by (simp add: store_simps)
      then show ?thesis by (rule entry_ok_kept) (use kept in \<open>simp_all add: store_simps\<close>)
    qed
    show "sorted_wrt (<) (map jn_rowId (tab_journal ?d))"
      using tables_invD(4) [OF inv] tables_invD(5) [OF inv]
      by (fastforce simp: store_simps sorted_wrt_append e entry_ok_def)
    show "checkpoint_ok ?d c" if "c \<in> set (tab_checkpoints ?d)" for c
    proof (rule checkpoint_ok_kept [of d])
      show "checkpoint_ok d c" using that tables_invD(8) [OF inv] by (simp add: store_simps)
    qed (use kept in \<open>simp_all add: store_simps\<close>)
    show "distinct (map cp_uptoSeq (checkpoints_of k' ?d))" for k'
      using tables_invD(6) [OF inv] by (simp add: store_simps)
    show "sorted_wrt (<) (map cp_id (tab_checkpoints ?d))"
      using tables_invD(7) [OF inv] by (simp add: store_simps)
  qed (use sessions_kept [OF inv] in simp_all)
qed

lemma insert_checkpoint_inv:
  assumes inv: "tables_inv d" and act: "active_in k w d" and v: "isSchemaVersionCompatible v w"
    and state: "is_json state" and upto: "0 \<le> u" "u \<le> sqlGetLatestJournalSeq k d"
    and fresh: "u \<notin> cp_uptoSeq ` set (checkpoints_of k d)"
  shows "tables_inv (insert_checkpoint (next_checkpoint k u state m v t d) d)" (is "tables_inv ?d")
proof -
  let ?c = "next_checkpoint k u state m v t d"
  have c: "cp_sessionId ?c = k" "cp_uptoSeq ?c = u" "cp_id ?c = tab_lastCheckpointId d + 1"
    "cp_state ?c = state" "cp_schemaVersion ?c = v" "cp_metadata ?c = json_fields m"
    by (simp_all add: next_checkpoint_def)
  have kept: "\<exists>r'. sqlGetSession k' ?d = Some r' \<and> ss_schemaVersion r' = ss_schemaVersion r"
    if "sqlGetSession k' d = Some r" for k' r
    using that by (auto simp: store_simps c)
  show ?thesis
  proof (rule tables_invI)
    show "map jn_seq (entries_of k' ?d) = [1..int (length (entries_of k' ?d))]" for k'
      using tables_invD(3) [OF inv] by (simp add: store_simps)
    show "entry_ok ?d x" if "x \<in> set (tab_journal ?d)" for x
    proof (rule entry_ok_kept [of d])
      show "entry_ok d x" using that tables_invD(5) [OF inv] by (simp add: store_simps)
    qed (use kept in \<open>simp_all add: store_simps\<close>)
    show "sorted_wrt (<) (map jn_rowId (tab_journal ?d))"
      using tables_invD(4) [OF inv] by (simp add: store_simps)
    show "checkpoint_ok ?d x" if "x \<in> set (tab_checkpoints ?d)" for x
    proof (cases "x = ?c")
      case True
      then show ?thesis
        using act v state upto latest_seq [OF inv, of k]
        by (auto simp: checkpoint_ok_def c active_in_def store_simps)
    next
      case False
      with that have "checkpoint_ok d x" using tables_invD(8) [OF inv] by (simp add: store_simps)
      then show ?thesis by (rule checkpoint_ok_kept) (use kept in \<open>simp_all add: store_simps\<close>)
    qed
    show "sorted_wrt (<) (map cp_id (tab_checkpoints ?d))"
      using tables_invD(7) [OF inv] tables_invD(8) [OF inv]
      by (fastforce simp: store_simps sorted_wrt_append c checkpoint_ok_def)
    show "distinct (map cp_uptoSeq (checkpoints_of k' ?d))" for k'
      using tables_invD(6) [OF inv] fresh by (cases "k' = k") (simp_all add: store_simps c)
  qed (use sessions_kept [OF inv] in simp_all)
qed

lemma remove_session_inv:
  assumes inv: "tables_inv d"
  shows "tables_inv (remove_session k d)"
proof (rule tables_invI)
  let ?d = "remove_session k d"
  show "map jn_seq (entries_of k' ?d) = [1..int (length (entries_of k' ?d))]" for k'
    using tables_invD(3) [OF inv] by (simp add: store_simps)
  show "entry_ok ?d x" if "x \<in> set (tab_journal ?d)" for x
  proof (rule entry_ok_kept [of d])
    show "entry_ok d x" using that tables_invD(5) [OF inv] by (simp add: remove_session_def)
  qed (use that in \<open>auto simp: store_simps, simp_all add: remove_session_def\<close>)
  show "checkpoint_ok ?d x" if "x \<in> set (tab_checkpoints ?d)" for x
  proof (rule checkpoint_ok_kept [of d])
    show "checkpoint_ok d x" using that tables_invD(8) [OF inv] by (simp add: remove_session_def)
  qed (use that in \<open>auto simp: store_simps, simp_all add: remove_session_def\<close>)
  show "distinct (map cp_uptoSeq (checkpoints_of k' ?d))" for k'
    using tables_invD(6) [OF inv] by (simp add: store_simps)
  show "sorted_wrt (<) (map jn_rowId (tab_journal ?d))" "sorted_wrt (<) (map cp_id (tab_checkpoints ?d))"
    using tables_invD(4,7) [OF inv]
    by (simp_all add: remove_session_def sorted_wrt_map sorted_wrt_filter)
  show "distinct (map ss_id (tab_sessions ?d))" "\<forall>r \<in> set (tab_sessions ?d). session_ok r"
    using tables_invD(1,2) [OF inv] by (simp_all add: remove_session_def distinct_map_filter)
qed

lemma insert_session_inv:
  assumes inv: "tables_inv d" and k: "isSessionId k" "k \<notin> ss_id ` set (tab_sessions d)"
    and v: "resolveSchemaVersion (Some v) = v"
  shows "tables_inv (insert_session k m v t d)"
proof (rule tables_inv_sessions [OF inv])
  fix k' r assume "sqlGetSession k' d = Some r"
  moreover from this have "k' \<noteq> k" using k(2) sqlGetSession_Some by fastforce
  ultimately show "\<exists>r'. sqlGetSession k' (insert_session k m v t d) = Some r' \<and>
      ss_schemaVersion r' = ss_schemaVersion r"
    using k(2) by (simp add: store_simps)
next
  show "distinct (map ss_id (tab_sessions (insert_session k m v t d)))"
    using tables_invD(1) [OF inv] k(2) by (simp add: insert_session_def)
  show "\<forall>r \<in> set (tab_sessions (insert_session k m v t d)). session_ok r"
    using tables_invD(2) [OF inv] k(1) v by (auto simp: insert_session_def session_ok_def)
qed (simp_all add: store_simps)

lemma table_step_inv: "table_step l d d' \<Longrightarrow> tables_inv d \<Longrightarrow> tables_inv d'"
proof (induction rule: table_step.induct)
  case (created k d v m t)
  then show ?case by (simp add: insert_session_inv)
next
  case (appended k w d v p ty turn t)
  then show ?case by (simp add: insert_entry_inv)
next
  case (checkpointed k w d v state u m t)
  then show ?case by (simp add: insert_checkpoint_inv)
next
  case (described k w d m t)
  show ?case
    by (rule tables_inv_sessions [OF described(2) _ _ _ _ _ _ versions_kept(1)])
      (use sessions_kept(3,7) [OF described(2)] in \<open>simp_all add: store_simps\<close>)
next
  case (archived k w d reason t)
  show ?case
    by (rule tables_inv_sessions [OF archived(2) _ _ _ _ _ _ versions_kept(2)])
      (use sessions_kept(4,8) [OF archived(2)] in \<open>simp_all add: store_simps\<close>)
next
  case (deleted k d)
  then show ?case by (simp add: remove_session_inv)
qed

lemma table_steps_inv: "table_steps D d d' \<Longrightarrow> tables_inv d \<Longrightarrow> tables_inv d'"
  by (induction rule: table_steps.induct) (auto dest: table_step_inv)

end
