(* ===== verification/Session_Machine.thy ===== *)
theory Session_Machine
  imports Session_Invariant
begin

text \<open>
  The methods of the session store as commands of a machine. For each method: what it answers
  and the steps it takes on the tables; when it throws, the tables are what they were.
\<close>

section \<open>Reading the session first\<close>

lemma time_or_now_eq:
  "time_or_now v s = (nullish_else v (store_time s), if v = None then store_tick s else s)"
  by (cases v) (simp_all add: time_or_now_def)

lemma store_tick_db [simp]: "st_db (store_tick s) = st_db s"
  by (simp add: store_tick_def)

lemma lifecycleRequire_Inr:
  "lifecycleRequire k d = Inr r \<longleftrightarrow> isSessionId k \<and> sqlGetSession k d = Some r"
  by (simp add: lifecycleRequire_def lifecycleGet_def split: option.splits)

lemma not_archived: "st \<noteq> Archived \<longleftrightarrow> st = Active"
  by (cases st) simp_all

lemma lifecycleRequireActive_Inr:
  "lifecycleRequireActive k d = Inr r \<longleftrightarrow>
     isSessionId k \<and> sqlGetSession k d = Some r \<and> ss_status r = Active"
  by (auto simp: lifecycleRequireActive_def lifecycleRequire_def lifecycleGet_def not_archived
      split: option.splits if_splits)

text \<open>A session record that was read from the tables and is still active there.\<close>

definition current :: "session_record \<Rightarrow> tables \<Rightarrow> bool" where
  "current r d \<longleftrightarrow> ss_status r = Active \<and> active_in (ss_id r) (ss_schemaVersion r) d"

lemma currentI: "sqlGetSession k d = Some r \<Longrightarrow> ss_status r = Active \<Longrightarrow> current r d"
  using sqlGetSession_Some [of k d r] by (simp add: current_def active_in_def)

lemma current_insert_entry [simp]: "current r d \<Longrightarrow> current r (insert_entry e d)"
  by (auto simp: current_def active_in_def store_simps)

lemma current_insert_checkpoint [simp]: "current r d \<Longrightarrow> current r (insert_checkpoint c d)"
  by (auto simp: current_def active_in_def store_simps)

lemma current_member: "current r d \<Longrightarrow> ss_id r \<in> ss_id ` set (tab_sessions d)"
  using sqlGetSession_None [of "ss_id r" d] by (auto simp: current_def active_in_def)

lemma transaction_db:
  "st_db (snd (transaction f s)) =
     (case fst (f s) of Inl e \<Rightarrow> st_db s | Inr x \<Rightarrow> st_db (snd (f s)))"
  by (simp add: transaction_def split: prod.split sum.split)

lemma transaction_result: "fst (transaction f s) = fst (f s)"
  by (simp add: transaction_def split: prod.split sum.split)

lemma with_active_thrown:
  "fst (with_active k f s) = Inl e \<Longrightarrow> st_db (snd (with_active k f s)) = st_db s"
  by (auto simp: with_active_def transaction_db transaction_result split: sum.splits)

lemma with_active_steps:
  assumes "\<And>r x. current r (st_db s) \<Longrightarrow> sqlGetSession k (st_db s) = Some r \<Longrightarrow> ss_id r = k \<Longrightarrow>
             fst (f r s) = Inr x \<Longrightarrow> session_steps (ss_id r) (st_db s) (st_db (snd (f r s)))"
  shows "session_steps k (st_db s) (st_db (snd (with_active k f s)))"
proof (cases "lifecycleRequireActive k (st_db s)")
  case (Inl e)
  then show ?thesis by (simp add: with_active_def)
next
  case (Inr r)
  then have r: "sqlGetSession k (st_db s) = Some r" "current r (st_db s)" "ss_id r = k"
    by (auto simp: lifecycleRequireActive_Inr intro: currentI dest: sqlGetSession_Some)
  show ?thesis
  proof (cases "fst (f r s)")
    case (Inl e)
    with Inr show ?thesis by (simp add: with_active_def transaction_db)
  next
    case x: (Inr x)
    from assms [OF r(2,1,3) x] Inr x r(3) show ?thesis
      by (simp add: with_active_def transaction_db)
  qed
qed

section \<open>Appending\<close>

definition append_version :: "session_record \<Rightarrow> append_input \<Rightarrow> string" where
  "append_version r input =
     resolveSchemaVersion (nullish (ap_schemaVersion input) (Some (ss_schemaVersion r)))"

definition appended_entry :: "session_record \<Rightarrow> append_input \<Rightarrow> session_store \<Rightarrow> journal_entry" where
  "appended_entry r input s =
     next_entry (ss_id r) (js_trim (ap_eventType input)) (ap_turnId input)
       (json_copy (ap_payload input)) (append_version r input)
       (nullish_else (ap_createdAtMs input) (store_time s)) (st_db s)"

lemma appended_entry_fields [simp]:
  "jn_sessionId (appended_entry r input s) = ss_id r"
  "jn_eventType (appended_entry r input s) = js_trim (ap_eventType input)"
  "jn_turnId (appended_entry r input s) = ap_turnId input"
  "jn_payload (appended_entry r input s) = json_copy (ap_payload input)"
  "jn_schemaVersion (appended_entry r input s) = append_version r input"
  "jn_createdAtMs (appended_entry r input s) = nullish_else (ap_createdAtMs input) (store_time s)"
  by (simp_all add: appended_entry_def next_entry_def)

lemma next_seq_fresh:
  assumes "tables_inv d"
  shows "\<not> (\<exists>e \<in> set (tab_journal d). jn_sessionId e = k \<and> jn_seq e = sqlGetNextJournalSeq k d)"
    and "0 < sqlGetNextJournalSeq k d"
proof -
  show "0 < sqlGetNextJournalSeq k d" by (simp add: next_seq [OF assms])
  have "jn_seq e \<le> sqlGetLatestJournalSeq k d"
    if "e \<in> set (tab_journal d)" "jn_sessionId e = k" for e
    using that max_seq_upper [of e "entries_of k d"]
    by (simp add: sqlGetLatestJournalSeq_def entries_of_def)
  then show "\<not> (\<exists>e \<in> set (tab_journal d). jn_sessionId e = k \<and> jn_seq e = sqlGetNextJournalSeq k d)"
    by (force simp: sqlGetNextJournalSeq_def sqlGetLatestJournalSeq_def)
qed

text \<open>An append on an active session: the three ways to throw, and the row it adds otherwise.\<close>

lemma journalAppend_eq:
  assumes cur: "current r (st_db s)" and inv: "tables_inv (st_db s)"
  shows "journalAppend r input s =
    (if js_trim (ap_eventType input) = []
     then (Inl (type_error ''eventType must be a non-empty string''), s)
     else if \<not> isSchemaVersionCompatible (append_version r input) (ss_schemaVersion r)
     then (Inl (SchemaVersionMismatchError (ss_schemaVersion r) (append_version r input)
             (''journal entry for session '' @ ss_id r)), s)
     else
       let s1 = (if ap_createdAtMs input = None then store_tick s else s)
       in if ap_payload input = JUndefined
          then (Inl (type_error ''Provided value cannot be bound to SQLite parameter 5.''), s1)
          else (Inr (appended_entry r input s),
                s1\<lparr>st_db := insert_entry (appended_entry r input s) (st_db s)\<rparr>))"
proof -
  have fresh: "(\<exists>e \<in> set (tab_journal (st_db s)). jn_sessionId e = ss_id r \<and>
      jn_seq e = sqlGetNextJournalSeq (ss_id r) (st_db s)) \<longleftrightarrow> False"
    using next_seq_fresh(1) [OF inv, of "ss_id r"] by blast
  have "ss_status r \<noteq> Archived" using cur by (simp add: current_def)
  then show ?thesis
    using next_seq_fresh(2) [OF inv, of "ss_id r"] current_member [OF cur]
    by (simp add: fresh journalAppend_def append_version_def assertSchemaVersionCompatible_def Let_def
        time_or_now_eq sqlInsertJournalEntry_def json_column_def appended_entry_def next_entry_def
        insert_entry_def)
qed

lemma journalAppend_steps:
  assumes "current r (st_db s)" and "tables_inv (st_db s)"
  shows "session_steps (ss_id r) (st_db s) (st_db (snd (journalAppend r input s)))"
proof -
  have "session_step (ss_id r) (st_db s) (insert_entry (appended_entry r input s) (st_db s))"
    if "isSchemaVersionCompatible (append_version r input) (ss_schemaVersion r)"
    using that assms(1) unfolding appended_entry_def
    by (intro session_step.appended) (simp_all add: current_def)
  then show ?thesis
    by (auto simp: journalAppend_eq [OF assms] Let_def)
qed

lemma journalAppend_Inr:
  assumes "current r (st_db s)" and "tables_inv (st_db s)" and "journalAppend r input s = (Inr e, s')"
  shows "e = appended_entry r input s" and "st_db s' = insert_entry e (st_db s)"
    and "isSchemaVersionCompatible (append_version r input) (ss_schemaVersion r)"
    and "ap_payload input \<noteq> JUndefined"
  using assms(3) by (auto simp: journalAppend_eq [OF assms(1,2)] Let_def split: if_splits)

lemma journalAppendStep_steps:
  assumes "current r (st_db s)" and "tables_inv (st_db s)"
  shows "session_steps (ss_id r) (st_db s) (st_db (snd (journalAppendStep r input s)))"
  using journalAppend_steps [OF assms]
  by (simp add: journalAppendStep_def split: sum.split)

lemma appendScopedEvent_steps:
  assumes "current r (st_db s)" and "tables_inv (st_db s)"
  shows "session_steps (ss_id r) (st_db s) (st_db (snd (appendScopedEvent r ty input s)))"
  using journalAppend_steps [OF assms]
  by (simp add: appendScopedEvent_def split: sum.split)

section \<open>Checkpoints\<close>

lemma checkpointsCreate_cases:
  assumes cur: "current r (st_db s)" and inv: "tables_inv (st_db s)"
  obtains (thrown) e s' where "checkpointsCreate r input s = (Inl e, s')" "st_db s' = st_db s"
  | (created) u c s' where "checkpointsCreate r input s = (Inr c, s')"
      "integer_of (nullish_else (ck_uptoSeq input)
         (Finite (sqlGetLatestJournalSeq (ss_id r) (st_db s)))) = Some u"
      "c = next_checkpoint (ss_id r) u (json_copy (ck_state input)) (nullish_else (ck_metadata input) [])
             (resolveSchemaVersion (nullish (ck_schemaVersion input) (Some (ss_schemaVersion r))))
             (nullish_else (ck_createdAtMs input) (store_time s)) (st_db s)"
      "st_db s' = insert_checkpoint c (st_db s)" "0 \<le> u"
      "u \<le> sqlGetLatestJournalSeq (ss_id r) (st_db s)"
      "u \<notin> cp_uptoSeq ` set (checkpoints_of (ss_id r) (st_db s))" "ck_state input \<noteq> JUndefined"
      "isSchemaVersionCompatible
         (resolveSchemaVersion (nullish (ck_schemaVersion input) (Some (ss_schemaVersion r))))
         (ss_schemaVersion r)"
proof (cases "checkpointsCreate r input s")
  case (Pair res s')
  have act: "ss_status r \<noteq> Archived" using cur by (simp add: current_def)
  show thesis
  proof (cases res)
    case (Inl e)
    have "st_db s' = st_db s"
      using Pair Inl act
      by (auto simp: checkpointsCreate_def Let_def time_or_now_eq sqlInsertCheckpoint_def
          split: option.splits if_splits sum.splits)
    with Pair Inl show thesis using thrown by simp
  next
    case (Inr c)
    have unique: "(\<exists>c \<in> set (tab_checkpoints d). cp_sessionId c = k \<and> cp_uptoSeq c = u) \<longleftrightarrow>
        u \<in> cp_uptoSeq ` set (checkpoints_of k d)" for d k u
      by (auto simp: checkpoints_of_def)
    have "\<exists>u. integer_of (nullish_else (ck_uptoSeq input)
         (Finite (sqlGetLatestJournalSeq (ss_id r) (st_db s)))) = Some u \<and>
      c = next_checkpoint (ss_id r) u (json_copy (ck_state input)) (nullish_else (ck_metadata input) [])
             (resolveSchemaVersion (nullish (ck_schemaVersion input) (Some (ss_schemaVersion r))))
             (nullish_else (ck_createdAtMs input) (store_time s)) (st_db s) \<and>
      st_db s' = insert_checkpoint c (st_db s) \<and> 0 \<le> u \<and>
      u \<le> sqlGetLatestJournalSeq (ss_id r) (st_db s) \<and>
      u \<notin> cp_uptoSeq ` set (checkpoints_of (ss_id r) (st_db s)) \<and> ck_state input \<noteq> JUndefined \<and>
      isSchemaVersionCompatible
         (resolveSchemaVersion (nullish (ck_schemaVersion input) (Some (ss_schemaVersion r))))
         (ss_schemaVersion r)"
      using Pair Inr act current_member [OF cur]
      unfolding checkpointsCreate_def
      by (simp add: Let_def time_or_now_eq sqlInsertCheckpoint_def unique json_column_def
          assertSchemaVersionCompatible_def next_checkpoint_def insert_checkpoint_def
          split: option.splits if_splits) auto
    with Pair Inr show thesis using created by blast
  qed
qed

lemma checkpointsCreate_steps:
  assumes "current r (st_db s)" and "tables_inv (st_db s)"
  shows "session_steps (ss_id r) (st_db s) (st_db (snd (checkpointsCreate r input s)))"
  using assms
proof (cases rule: checkpointsCreate_cases [where input = input])
  case (thrown e s')
  then show ?thesis by simp
next
  case (created u c s')
  have "session_step (ss_id r) (st_db s) (insert_checkpoint c (st_db s))"
    unfolding created(3)
    using assms(1) created by (intro session_step.checkpointed) (simp_all add: current_def)
  then show ?thesis using created by simp
qed

lemma checkpointsCreateStep_steps:
  assumes "current r (st_db s)" and "tables_inv (st_db s)"
  shows "session_steps (ss_id r) (st_db s) (st_db (snd (checkpointsCreateStep r input s)))"
  using checkpointsCreate_steps [OF assms]
  by (simp add: checkpointsCreateStep_def split: sum.split)

section \<open>The other methods\<close>

lemma sqlCreateSession_db:
  "sqlCreateSession k m v s =
     (if k \<in> ss_id ` set (tab_sessions (st_db s))
      then (Inl (SqliteError ''UNIQUE constraint failed: sessions.session_id''), store_tick s)
      else (Inr \<lparr>ss_id = k, ss_metadata = json_fields m, ss_status = Active, ss_schemaVersion = v,
                 ss_createdAtMs = store_time s, ss_updatedAtMs = store_time s,
                 ss_archivedAtMs = None, ss_archiveReason = None\<rparr>,
            (store_tick s)\<lparr>st_db := insert_session k m v (store_time s) (st_db s)\<rparr>))"
proof (cases "k \<in> ss_id ` set (tab_sessions (st_db s))")
  case True
  then show ?thesis by (simp add: sqlCreateSession_def Let_def)
next
  case False
  from sqlGetSession_insert [OF False, of k m v "store_time s"]
  have "sqlGetSession k ((st_db s)\<lparr>tab_sessions := tab_sessions (st_db s) @
      [\<lparr>ss_id = k, ss_metadata = json_fields m, ss_status = Active, ss_schemaVersion = v,
        ss_createdAtMs = store_time s, ss_updatedAtMs = store_time s,
        ss_archivedAtMs = None, ss_archiveReason = None\<rparr>]\<rparr>) =
      Some \<lparr>ss_id = k, ss_metadata = json_fields m, ss_status = Active, ss_schemaVersion = v,
        ss_createdAtMs = store_time s, ss_updatedAtMs = store_time s,
        ss_archivedAtMs = None, ss_archiveReason = None\<rparr>"
    by (simp add: insert_session_def)
  with False show ?thesis by (simp add: sqlCreateSession_def Let_def insert_session_def)
qed

lemma storeCreateSession_cases:
  obtains (thrown) e s' where "storeCreateSession input s = (Inl e, s')" "st_db s' = st_db s"
  | (created) k v t s' where "storeCreateSession input s =
        (Inr \<lparr>ss_id = k, ss_metadata = json_fields (nullish_else (cs_metadata input) []),
              ss_status = Active, ss_schemaVersion = v, ss_createdAtMs = t, ss_updatedAtMs = t,
              ss_archivedAtMs = None, ss_archiveReason = None\<rparr>, s')"
      "st_db s' = insert_session k (nullish_else (cs_metadata input) []) v t (st_db s)"
      "isSessionId k" "k \<notin> ss_id ` set (tab_sessions (st_db s))"
      "resolveSchemaVersion (Some v) = v" "\<And>given. cs_sessionId input = Some given \<Longrightarrow> k = given"
proof -
  define v where
    "v = resolveSchemaVersion (Some (nullish_else (cs_schemaVersion input) (st_schemaVersion s)))"
  have v: "resolveSchemaVersion (Some v) = v" by (simp add: v_def)
  obtain res s0 where k: "(case cs_sessionId input of
      Some given \<Rightarrow> (Inr given, s)
    | None \<Rightarrow> (createSessionId ''sess'' (st_uuid s (st_uuids s)), s\<lparr>st_uuids := st_uuids s + 1\<rparr>)) =
      (res, s0)"
    by (metis prod.exhaust)
  have s0: "st_db s0 = st_db s" using k by (auto split: option.splits)
  have given: "res = Inr given" if "cs_sessionId input = Some given" for given
    using k that by simp
  have eq: "storeCreateSession input s =
      (case res of
         Inl e \<Rightarrow> (Inl e, s0)
       | Inr sessionId \<Rightarrow>
           if \<not> isSessionId sessionId then (Inl (InvalidSessionIdError sessionId), s0)
           else sqlCreateSession sessionId (nullish_else (cs_metadata input) []) v s0)"
    using k by (simp add: storeCreateSession_def lifecycleCreate_def v_def Let_def split: sum.split)
  show thesis
  proof (cases res)
    case (Inl e)
    with eq s0 show thesis using thrown by simp
  next
    case (Inr sessionId)
    consider "\<not> isSessionId sessionId"
      | "isSessionId sessionId" "sessionId \<in> ss_id ` set (tab_sessions (st_db s))"
      | "isSessionId sessionId" "sessionId \<notin> ss_id ` set (tab_sessions (st_db s))" by blast
    then show thesis
    proof cases
      case 3
      with eq s0 Inr v given show thesis
        by (intro created [of sessionId v "store_time s0" "(store_tick s0)\<lparr>st_db :=
              insert_session sessionId (nullish_else (cs_metadata input) []) v (store_time s0)
                (st_db s)\<rparr>"]) (simp_all add: sqlCreateSession_db)
    qed (use eq s0 Inr in \<open>auto simp: sqlCreateSession_db intro: thrown\<close>)
  qed
qed

lemma storeCreateSession_steps:
  "table_steps D (st_db s) (st_db (snd (storeCreateSession input s)))"
proof (cases rule: storeCreateSession_cases [of input s])
  case (thrown e s')
  then show ?thesis by simp
next
  case (created k v t s')
  then have "table_step None (st_db s) (st_db s')" by (simp add: table_step.created)
  with created show ?thesis by (simp add: table_steps_None)
qed

lemma active_inI: "sqlGetSession k d = Some r \<Longrightarrow> ss_status r = Active \<Longrightarrow> active_in k (ss_schemaVersion r) d"
  by (simp add: active_in_def)

lemma storeUpdateMetadata_eq:
  "storeUpdateMetadata k m s =
     (case lifecycleRequireActive k (st_db s) of
        Inl e \<Rightarrow> (Inl e, s)
      | Inr r \<Rightarrow>
          (Inr (r\<lparr>ss_metadata := json_fields m, ss_updatedAtMs := store_time s\<rparr>),
           (store_tick s)\<lparr>st_db := set_metadata k m (store_time s) (st_db s)\<rparr>))"
proof (cases "lifecycleRequireActive k (st_db s)")
  case (Inl e)
  then show ?thesis by (simp add: storeUpdateMetadata_def lifecycleUpdateMetadata_def)
next
  case (Inr r)
  then have "sqlGetSession k (st_db s) = Some r" by (simp add: lifecycleRequireActive_Inr)
  with Inr show ?thesis
    by (simp add: storeUpdateMetadata_def lifecycleUpdateMetadata_def sqlUpdateSessionMetadata_def
        Let_def sqlGetSession_update set_metadata_def)
qed

lemma storeUpdateMetadata_steps:
  "session_steps k (st_db s) (st_db (snd (storeUpdateMetadata k m s)))"
proof (cases "lifecycleRequireActive k (st_db s)")
  case (Inl e)
  then show ?thesis by (simp add: storeUpdateMetadata_eq)
next
  case (Inr r)
  then have "active_in k (ss_schemaVersion r) (st_db s)"
    by (simp add: lifecycleRequireActive_Inr active_inI)
  from session_step.described [OF this] Inr show ?thesis
    by (simp add: storeUpdateMetadata_eq r_into_rtranclp)
qed

lemma artifactsCreate_db [simp]: "st_db (snd (artifactsCreate r input s)) = st_db s"
  by (simp add: artifactsCreate_def Let_def split: sum.split)

lemma chain_eq:
  "chain r k = (case fst r of Inl e \<Rightarrow> (Inl e, snd r) | Inr x \<Rightarrow> k x (snd r))"
  by (cases r) (simp add: chain_def split: sum.split)

lemma session_steps_inv: "session_steps k d d' \<Longrightarrow> tables_inv d \<Longrightarrow> tables_inv d'"
  using table_steps_inv [OF session_steps_table] .

lemma storeAppendToolResultArtifact_steps:
  assumes "tables_inv (st_db s)"
  shows "session_steps k (st_db s) (st_db (snd (storeAppendToolResultArtifact k input s)))"
  unfolding storeAppendToolResultArtifact_def
proof (rule with_active_steps)
  fix r x
  assume cur: "current r (st_db s)"
  have step: "session_steps (ss_id r) (st_db s) (st_db (snd (journalAppendStep r i (snd (artifactsCreate r input s)))))"
    for i
    using journalAppendStep_steps [of r "snd (artifactsCreate r input s)" i] cur assms by simp
  then show "session_steps (ss_id r) (st_db s) (st_db (snd (artifact_operation input r s)))"
    by (simp add: artifact_operation_def chain_eq split: sum.split prod.split)
qed

lemma storeCreateHandoffSummary_steps:
  assumes "tables_inv (st_db s)"
  shows "session_steps k (st_db s) (st_db (snd (storeCreateHandoffSummary k input s)))"
  unfolding storeCreateHandoffSummary_def
proof (rule with_active_steps)
  fix r x
  assume cur: "current r (st_db s)"
  define s1 where "s1 = (if hi_createdAtMs input = None then store_tick s else s)"
  have s1: "st_db s1 = st_db s" by (simp add: s1_def)
  have steps: "session_steps (ss_id r) (st_db s) (st_db (snd (journalAppend r i s1)))" for i
    using journalAppend_steps [of r s1 i] cur assms s1 by simp
  then show "session_steps (ss_id r) (st_db s) (st_db (snd (handoff_operation k input r s)))"
    by (simp add: handoff_operation_def time_or_now_eq s1_def [symmetric] s1 chain_eq
        split: sum.split)
qed

lemma storeAppendAuditEvent_steps:
  "tables_inv (st_db s) \<Longrightarrow> session_steps k (st_db s) (st_db (snd (storeAppendAuditEvent k input s)))"
  unfolding storeAppendAuditEvent_def journalAppendAuditEvent_def
  by (rule with_active_steps) (rule appendScopedEvent_steps)

lemma storeAppendStreamEvent_steps:
  "tables_inv (st_db s) \<Longrightarrow> session_steps k (st_db s) (st_db (snd (storeAppendStreamEvent k input s)))"
  unfolding storeAppendStreamEvent_def journalAppendStreamEvent_def
  by (rule with_active_steps) (rule appendScopedEvent_steps)

lemma storeRecordRuntimeEvidence_steps:
  assumes "tables_inv (st_db s)"
  shows "session_steps k (st_db s) (st_db (snd (storeRecordRuntimeEvidence k input s)))"
proof -
  define s0 where "s0 = (if ei_occurredAtMs input = None then store_tick s else s)"
  have s0: "st_db s0 = st_db s" by (simp add: s0_def)
  have audit: "session_steps k (st_db s) (st_db (snd (storeAppendAuditEvent k i s0)))" for i
    using storeAppendAuditEvent_steps [of s0] assms s0 by simp
  have stream: "session_steps k (st_db s) (st_db (snd (storeAppendStreamEvent k i s2)))"
    if "session_steps k (st_db s) (st_db s2)" for i s2
    using rtranclp_trans [OF that storeAppendStreamEvent_steps] session_steps_inv [OF that assms]
    by simp
  show ?thesis
    unfolding storeRecordRuntimeEvidence_def time_or_now_eq s0_def [symmetric]
    by (auto simp: chain_eq Let_def s0 audit stream split: sum.split)
qed

lemma rewind_to_steps:
  assumes cur: "current r (st_db s)" and inv: "tables_inv (st_db s)" and k: "ss_id r = k"
    and x: "fst (rewind_to k r ci t target s) = Inr x"
  shows "session_steps k (st_db s) (st_db (snd (rewind_to k r ci t target s)))"
proof -
  define app where "app = journalAppend r
    \<lparr>ap_eventType = ''control.rewind'', ap_payload = rewind_payload ci target, ap_turnId = None,
     ap_schemaVersion = None, ap_createdAtMs = Some t\<rparr> s"
  obtain e s1 where app_eq: "app = (Inr e, s1)"
    using x by (cases app; cases "fst app") (auto simp: rewind_to_def app_def chain_eq)
  have s1: "st_db s1 = insert_entry e (st_db s)"
    using journalAppend_Inr(2) [OF cur inv] app_eq by (simp add: app_def)
  have one: "session_steps k (st_db s) (st_db s1)"
    using journalAppend_steps [OF cur inv] app_eq k unfolding app_def by (metis snd_conv)
  have cur1: "current r (st_db s1)" and inv1: "tables_inv (st_db s1)"
    using cur session_steps_inv [OF one inv] by (simp_all add: s1)
  define chk where "chk = checkpointsCreate r
    \<lparr>ck_state = cp_state target, ck_uptoSeq = None, ck_schemaVersion = None,
     ck_createdAtMs = Some t, ck_metadata = Some (buildRewindCheckpointMetadata target t)\<rparr> s1"
  obtain c s2 where chk_eq: "chk = (Inr c, s2)"
    using x app_eq by (cases chk; cases "fst chk")
      (auto simp: rewind_to_def app_def [symmetric] chk_def chain_eq)
  have two: "session_steps k (st_db s1) (st_db s2)"
    using checkpointsCreate_steps [OF cur1 inv1] chk_eq k unfolding chk_def by (metis snd_conv)
  have cur2: "current r (st_db s2)"
    using cur1 chk_eq unfolding chk_def
    by (cases rule: checkpointsCreate_cases [OF cur1 inv1, where input =
        "\<lparr>ck_state = cp_state target, ck_uptoSeq = None, ck_schemaVersion = None,
     ck_createdAtMs = Some t, ck_metadata = Some (buildRewindCheckpointMetadata target t)\<rparr>"])
      simp_all
  note steps = rtranclp_trans [OF one two]
  have "session_steps k (st_db s2) (st_db (snd (sqlUpdateSessionMetadata k m t s2)))" for m
    using session_step.described [of k "ss_schemaVersion r" "st_db s2" m t] cur2 k
    by (simp add: sqlUpdateSessionMetadata_def Let_def set_metadata_def current_def r_into_rtranclp)
  from rtranclp_trans [OF steps this] steps show ?thesis
    by (simp add: rewind_to_def app_def [symmetric] app_eq chk_def [symmetric] chk_eq Let_def
        split: option.split)
qed

lemma storeRewind_steps:
  assumes "tables_inv (st_db s)"
  shows "session_steps k (st_db s) (st_db (snd (storeRewind k ci createdAt s)))"
  unfolding storeRewind_def
proof (rule with_active_steps)
  fix r x
  assume cur: "current r (st_db s)" and k: "ss_id r = k"
    and x: "fst (rewind_operation k ci createdAt r s) = Inr x"
  define s1 where "s1 = (if createdAt = None then store_tick s else s)"
  have s1: "st_db s1 = st_db s" by (simp add: s1_def)
  show "session_steps (ss_id r) (st_db s) (st_db (snd (rewind_operation k ci createdAt r s)))"
    using x rewind_to_steps [of r s1 k ci _ _ x] cur assms k s1
    unfolding rewind_operation_def time_or_now_eq s1_def [symmetric]
    by (auto split: option.splits sum.splits if_splits)
qed

end
