(* ===== verification/Session_Commands.thy ===== *)
theory Session_Commands
  imports Session_Machine "HOL-Library.Sublist"
begin

text \<open>
  Runs of the session store. A command is a call of a writing method; \<open>exec_store\<close> runs it and
  reports the error it threw, if any. The machine keeps the invariant of the tables, a command
  that throws leaves the tables alone, a journal only grows, and an archived session is frozen.
\<close>

section \<open>Archive and deletion\<close>

lemma archiveArchive_eq:
  assumes "sqlGetSession k (st_db s) = Some r"
  shows "archiveArchive r reason s =
    (if ss_status r = Archived then (Inr r, s)
     else (Inr (r\<lparr>ss_status := Archived, ss_archiveReason := nullish (ss_archiveReason r) reason,
                 ss_archivedAtMs := nullish (ss_archivedAtMs r) (Some (store_time s)),
                 ss_updatedAtMs := store_time s\<rparr>),
           (store_tick s)\<lparr>st_db := set_archived k reason (store_time s) (st_db s)\<rparr>))"
  using assms sqlGetSession_Some [OF assms]
  by (simp add: archiveArchive_def sqlSetSessionArchived_def Let_def sqlGetSession_update
      set_archived_def)

lemma archiveArchive_steps:
  assumes "sqlGetSession k (st_db s) = Some r"
  shows "table_steps D (st_db s) (st_db (snd (archiveArchive r reason s)))"
proof (cases "ss_status r = Archived")
  case True
  then show ?thesis by (simp add: archiveArchive_eq [OF assms])
next
  case False
  then have "active_in k (ss_schemaVersion r) (st_db s)"
    using assms by (intro active_inI) (simp_all add: not_archived)
  from table_step.archived [OF this] False show ?thesis
    by (simp add: archiveArchive_eq [OF assms] table_steps_None)
qed

lemma storeArchiveSession_steps:
  "table_steps D (st_db s) (st_db (snd (storeArchiveSession k reason s)))"
  by (auto simp: storeArchiveSession_def transaction_db lifecycleRequire_Inr archiveArchive_steps
      split: sum.split)

lemma deleteSessionArtifacts_db [simp]: "st_db (snd (deleteSessionArtifacts k s)) = st_db s"
  by (simp add: deleteSessionArtifacts_def Let_def split: sum.split)

lemma sqlDeleteSession_eq:
  "sqlDeleteSession k s =
     (k \<in> ss_id ` set (tab_sessions (st_db s)), s\<lparr>st_db := remove_session k (st_db s)\<rparr>)"
  by (simp add: sqlDeleteSession_def Let_def remove_session_def)

lemma delete_operation_steps:
  assumes "sqlGetSession k (st_db s) = Some r"
  shows "table_steps {k} (st_db s) (st_db (snd (delete_operation k reason r s)))"
proof -
  have removed: "table_steps {k} (st_db s) (remove_session k d)"
    if "table_steps {k} (st_db s) d" for d
    using table_steps.more [OF that table_step.deleted [of k d]] by simp
  show ?thesis
    using archiveArchive_steps [OF assms, of "{k}" reason]
    by (auto simp: delete_operation_def chain_eq sqlDeleteSession_eq removed split: sum.split)
qed

lemma storeDeleteSession_steps:
  "table_steps {k} (st_db s) (st_db (snd (storeDeleteSession k reason s)))"
  by (auto simp: storeDeleteSession_def transaction_db lifecycleRequire_Inr delete_operation_steps
      split: sum.split)

section \<open>Commands\<close>

datatype store_command =
    CmdCreate create_session_input
  | CmdUpdateMetadata string json_object
  | CmdAppend string append_input
  | CmdAppendStep string step_input
  | CmdAppendStream string scoped_input
  | CmdAppendAudit string scoped_input
  | CmdArtifact string artifact_input
  | CmdHandoff string handoff_input
  | CmdEvidence string evidence_input
  | CmdCheckpoint string checkpoint_input
  | CmdStepCheckpoint string step_checkpoint_input
  | CmdRewind string "jsnum option" "int option"
  | CmdArchive string "string option"
  | CmdDelete string "string option"

definition report :: "'a result \<Rightarrow> session_store \<times> session_error list" where
  "report r = (snd r, case fst r of Inl e \<Rightarrow> [e] | Inr _ \<Rightarrow> [])"

fun exec_store :: "store_command \<Rightarrow> session_store \<Rightarrow> session_store \<times> session_error list" where
  "exec_store (CmdCreate input) s = report (storeCreateSession input s)"
| "exec_store (CmdUpdateMetadata k m) s = report (storeUpdateMetadata k m s)"
| "exec_store (CmdAppend k input) s = report (storeAppendJournal k input s)"
| "exec_store (CmdAppendStep k input) s = report (storeAppendStepJournal k input s)"
| "exec_store (CmdAppendStream k input) s = report (storeAppendStreamEvent k input s)"
| "exec_store (CmdAppendAudit k input) s = report (storeAppendAuditEvent k input s)"
| "exec_store (CmdArtifact k input) s = report (storeAppendToolResultArtifact k input s)"
| "exec_store (CmdHandoff k input) s = report (storeCreateHandoffSummary k input s)"
| "exec_store (CmdEvidence k input) s = report (storeRecordRuntimeEvidence k input s)"
| "exec_store (CmdCheckpoint k input) s = report (storeCreateCheckpoint k input s)"
| "exec_store (CmdStepCheckpoint k input) s = report (storeCreateStepCheckpoint k input s)"
| "exec_store (CmdRewind k ci t) s = report (storeRewind k ci t s)"
| "exec_store (CmdArchive k reason) s = report (storeArchiveSession k reason s)"
| "exec_store (CmdDelete k reason) s = report (storeDeleteSession k reason s)"

fun deletes :: "store_command \<Rightarrow> string set" where
  "deletes (CmdDelete k _) = {k}"
| "deletes _ = {}"

definition store_inv :: "session_store \<Rightarrow> bool" where
  "store_inv s \<longleftrightarrow> tables_inv (st_db s)"

lemma report_fst [simp]: "fst (report r) = snd r"
  by (simp add: report_def)

lemma exec_store_steps:
  assumes "store_inv s"
  shows "table_steps (deletes c) (st_db s) (st_db (fst (exec_store c s)))"
proof (cases c)
  case (CmdAppend k input)
  then show ?thesis
    using assms unfolding CmdAppend exec_store.simps report_fst storeAppendJournal_def
    by (intro session_steps_table [OF with_active_steps] journalAppend_steps) (simp_all add: store_inv_def)
next
  case (CmdAppendStep k input)
  then show ?thesis
    using assms unfolding CmdAppendStep exec_store.simps report_fst storeAppendStepJournal_def
    by (intro session_steps_table [OF with_active_steps] journalAppendStep_steps) (simp_all add: store_inv_def)
next
  case (CmdCheckpoint k input)
  then show ?thesis
    using assms unfolding CmdCheckpoint exec_store.simps report_fst storeCreateCheckpoint_def
    by (intro session_steps_table [OF with_active_steps] checkpointsCreate_steps) (simp_all add: store_inv_def)
next
  case (CmdStepCheckpoint k input)
  then show ?thesis
    using assms unfolding CmdStepCheckpoint exec_store.simps report_fst storeCreateStepCheckpoint_def
    by (intro session_steps_table [OF with_active_steps] checkpointsCreateStep_steps) (simp_all add: store_inv_def)
qed (use assms in \<open>simp_all add: store_inv_def storeCreateSession_steps
      session_steps_table [OF storeUpdateMetadata_steps]
      session_steps_table [OF storeAppendToolResultArtifact_steps]
      session_steps_table [OF storeCreateHandoffSummary_steps]
      session_steps_table [OF storeAppendAuditEvent_steps]
      session_steps_table [OF storeAppendStreamEvent_steps]
      session_steps_table [OF storeRecordRuntimeEvidence_steps]
      session_steps_table [OF storeRewind_steps] storeArchiveSession_steps storeDeleteSession_steps\<close>)

lemma exec_store_inv: "store_inv s \<Longrightarrow> store_inv (fst (exec_store c s))"
  using table_steps_inv [OF exec_store_steps, of s c] by (simp add: store_inv_def)

interpretation session_machine: command_machine exec_store store_inv
  by unfold_locales (rule exec_store_inv)

lemma run_steps:
  "store_inv s \<Longrightarrow>
   table_steps (\<Union> (deletes ` set cs)) (st_db s) (st_db (fst (run_log exec_store cs s)))"
proof (induction cs arbitrary: s)
  case Nil
  then show ?case by simp
next
  case (Cons c cs)
  have "table_steps (\<Union> (deletes ` set (c # cs))) (st_db s) (st_db (fst (exec_store c s)))"
    by (rule table_steps_mono [OF exec_store_steps [OF Cons.prems]]) simp
  moreover have "table_steps (\<Union> (deletes ` set (c # cs))) (st_db (fst (exec_store c s)))
      (st_db (fst (run_log exec_store cs (fst (exec_store c s)))))"
    by (rule table_steps_mono [OF Cons.IH [OF exec_store_inv [OF Cons.prems]]]) auto
  ultimately show ?case
    unfolding run_log_Cons fst_conv by (rule table_steps_trans)
qed

section \<open>A new store\<close>

definition empty_tables :: tables where
  "empty_tables = \<lparr>tab_sessions = [], tab_journal = [], tab_checkpoints = [], tab_lastRowId = 0,
                   tab_lastCheckpointId = 0\<rparr>"

text \<open>The constructor of \<open>SessionStore\<close> on a database that does not exist yet.\<close>

definition newSessionStore ::
  "string option \<Rightarrow> (nat \<Rightarrow> int) \<Rightarrow> (nat \<Rightarrow> string) \<Rightarrow> (string \<Rightarrow> string) \<Rightarrow> string list \<Rightarrow> session_store"
where
  "newSessionStore schemaVersion now uuids hash artifactRootDir =
     \<lparr>st_db = empty_tables, st_clock = now, st_ticks = 0, st_uuid = uuids, st_uuids = 0,
      st_hash = hash, st_artifactRoot = resolve_path [] artifactRootDir, st_files = [],
      st_schemaVersion = resolveSchemaVersion schemaVersion\<rparr>"

lemma empty_tables_inv [simp]: "tables_inv empty_tables"
  by (simp add: tables_inv_def empty_tables_def entries_of_def checkpoints_of_def)

lemma new_store_inv [simp]: "store_inv (newSessionStore v now uuids h root)"
  by (simp add: store_inv_def newSessionStore_def)

section \<open>Frozen and growing\<close>

definition frozen :: "string \<Rightarrow> tables \<Rightarrow> tables \<Rightarrow> bool" where
  "frozen k d d' \<longleftrightarrow>
     sqlGetSession k d' = sqlGetSession k d \<and> entries_of k d' = entries_of k d \<and>
     checkpoints_of k d' = checkpoints_of k d"

lemma table_step_frozen:
  assumes "table_step l d d'" and "sqlGetSession k d = Some r" and "ss_status r = Archived"
    and "l \<noteq> Some k"
  shows "frozen k d d'"
  using assms
proof cases
  case (created k' v m t)
  then show ?thesis
    using assms(2) sqlGetSession_Some [OF assms(2)] by (auto simp: frozen_def store_simps)
next
  case (appended k' w v p ty turn t)
  then have "k' \<noteq> k" using assms(2,3) by (auto simp: active_in_def)
  with appended show ?thesis by (simp add: frozen_def store_simps next_entry_def)
next
  case (checkpointed k' w v state u m t)
  then have "k' \<noteq> k" using assms(2,3) by (auto simp: active_in_def)
  with checkpointed show ?thesis by (simp add: frozen_def store_simps next_checkpoint_def)
next
  case (described k' w m t)
  then have "k' \<noteq> k" using assms(2,3) by (auto simp: active_in_def)
  with described show ?thesis by (simp add: frozen_def store_simps)
next
  case (archived k' w reason t)
  then have "k' \<noteq> k" using assms(2,3) by (auto simp: active_in_def)
  with archived show ?thesis by (simp add: frozen_def store_simps)
next
  case (deleted k')
  then show ?thesis using assms(4) by (auto simp: frozen_def store_simps)
qed

lemma table_steps_frozen:
  assumes "table_steps D d d'" and "sqlGetSession k d = Some r" and "ss_status r = Archived"
    and "k \<notin> D"
  shows "frozen k d d'"
  using assms
proof (induction rule: table_steps.induct)
  case (none D d)
  then show ?case by (simp add: frozen_def)
next
  case (more D d d' l d'')
  then have "frozen k d d'" by simp
  moreover from this have "frozen k d' d''"
    using more by (intro table_step_frozen [of l _ _ k r]) (auto simp: frozen_def)
  ultimately show ?case by (simp add: frozen_def)
qed

lemma table_step_grows:
  assumes "table_step l d d'" and "l \<noteq> Some k"
  shows "prefix (entries_of k d) (entries_of k d') \<and>
         prefix (checkpoints_of k d) (checkpoints_of k d')"
  using assms by cases (auto simp: store_simps)

lemma table_steps_grow:
  "table_steps D d d' \<Longrightarrow> k \<notin> D \<Longrightarrow>
   prefix (entries_of k d) (entries_of k d') \<and> prefix (checkpoints_of k d) (checkpoints_of k d')"
proof (induction rule: table_steps.induct)
  case (none D d)
  then show ?case by simp
next
  case (more D d d' l d'')
  then have "l \<noteq> Some k" by auto
  with more table_step_grows show ?case by (meson prefix_order.trans)
qed

text \<open>What only writes one session leaves every other as it is.\<close>

lemma session_steps_frozen: "session_steps k d d' \<Longrightarrow> k' \<noteq> k \<Longrightarrow> frozen k' d d'"
proof (induction rule: rtranclp_induct)
  case base
  then show ?case by (simp add: frozen_def)
next
  case (step d' d'')
  from step(2) have "frozen k' d' d''"
    using step.prems
    by cases (simp_all add: frozen_def store_simps next_entry_def next_checkpoint_def)
  with step show ?case by (simp add: frozen_def)
qed

lemma session_steps_grow:
  "session_steps k d d' \<Longrightarrow>
   prefix (entries_of k' d) (entries_of k' d') \<and> prefix (checkpoints_of k' d) (checkpoints_of k' d')"
  using table_steps_grow [OF session_steps_table [where D = "{}"]] by simp

section \<open>Listing a journal\<close>

lemma entries_sorted:
  assumes "tables_inv d"
  shows "sorted_wrt (<) (map jn_seq (entries_of k d))"
  by (simp add: tables_invD(3) [OF assms] strict_sorted_iff)

lemma filter_after:
  "map jn_seq es = [i..i + int (length es) - 1] \<Longrightarrow>
   filter (\<lambda>e. a < jn_seq e) es = drop (nat (a - i + 1)) es"
proof (induction es arbitrary: i)
  case Nil
  then show ?case by simp
next
  case (Cons e es)
  have "[i..i + int (length (e # es)) - 1] = i # [i + 1..i + int (length (e # es)) - 1]"
    by (rule upto_rec1) simp
  then have hd: "jn_seq e = i" and tl: "map jn_seq es = [i + 1..(i + 1) + int (length es) - 1]"
    using Cons.prems by (simp_all add: add.commute)
  show ?case
  proof (cases "a < i")
    case True
    then have "nat (a - (i + 1) + 1) = 0" and "nat (a - i + 1) = 0" by simp_all
    with Cons.IH [OF tl] hd True show ?thesis by simp
  next
    case False
    then have "nat (a - i + 1) = Suc (nat (a - (i + 1) + 1))" by simp
    with Cons.IH [OF tl] hd False show ?thesis by simp
  qed
qed

lemma entries_after:
  assumes "tables_inv d"
  shows "filter (\<lambda>e. a < jn_seq e) (entries_of k d) = drop (nat a) (entries_of k d)"
  using filter_after [of "entries_of k d" 1 a] tables_invD(3) [OF assms, of k] by simp

lemma sort_entries:
  assumes "tables_inv d"
  shows "js_sort by_seq (drop n (entries_of k d)) = drop n (entries_of k d)"
proof (rule by_seq.sort_unique [symmetric])
  have "sorted_wrt (\<lambda>u v. jn_seq u < jn_seq v) (drop n (entries_of k d))"
    using entries_sorted [OF assms, of k] by (simp add: sorted_wrt_map sorted_wrt_drop)
  then show "sorted_wrt (\<lambda>u v. by_seq u v \<le> 0) (drop n (entries_of k d))"
    by (rule sorted_wrt_mono_rel [rotated]) (simp add: by_seq_def)
qed simp_all

lemma list_entries:
  assumes "tables_inv d"
  shows "sqlListJournalEntries k \<lparr>lo_afterSeq = Some (Finite a), lo_limit = None\<rparr> d =
           (if a < 0 then Inl (RangeError (''afterSeq must be a non-negative integer; received '' @ js_show a))
            else Inr (drop (nat a) (entries_of k d)))"
    and "sqlListJournalEntries k no_options d = Inr (entries_of k d)"
  using entries_after [OF assms, of _ k] sort_entries [OF assms, of _ k] sort_entries [OF assms, of 0 k]
  by (simp_all add: sqlListJournalEntries_def check_afterSeq_def check_limit_def sql_limit_def)

end
