(* ===== verification/Task_Lifecycle.thy ===== *)
theory Task_Lifecycle
  imports Task_Contracts
begin

text \<open>
  The derived view of a task, \<open>packages/tasks-core/src/tasks.ts\<close>: one lifecycle record per
  task id, whose status comes from the latest verification, else the latest delegation, else
  the todo item, with recency deciding between verification and delegation.
\<close>

section \<open>Recency\<close>

record recency =
  rc_id :: string
  rc_createdAtMs :: int
  rc_updatedAtMs :: int

definition delegation_recency :: "delegation_record \<Rightarrow> recency" where
  "delegation_recency r =
     \<lparr>rc_id = dr_id r, rc_createdAtMs = dr_createdAtMs r, rc_updatedAtMs = dr_updatedAtMs r\<rparr>"

definition verification_recency :: "verification_record \<Rightarrow> recency" where
  "verification_recency r =
     \<lparr>rc_id = vr_id r, rc_createdAtMs = vr_createdAtMs r, rc_updatedAtMs = vr_updatedAtMs r\<rparr>"

definition compareRecordRecency :: "recency \<Rightarrow> recency \<Rightarrow> int" where
  "compareRecordRecency left right =
     (if rc_updatedAtMs left \<noteq> rc_updatedAtMs right
      then rc_updatedAtMs left - rc_updatedAtMs right
      else if rc_createdAtMs left \<noteq> rc_createdAtMs right
      then rc_createdAtMs left - rc_createdAtMs right
      else localeCompare (rc_id left) (rc_id right))"

interpretation record_recency: consistent_comparator compareRecordRecency
  unfolding compareRecordRecency_def
  by (intro comparator_by_key comparator_on [OF comparator_localeCompare])

definition findLatestRecord :: "('r \<Rightarrow> recency) \<Rightarrow> 'r list \<Rightarrow> 'r option" where
  "findLatestRecord key records =
     foldl (\<lambda>latest record.
        case latest of
          None \<Rightarrow> Some record
        | Some l \<Rightarrow> if compareRecordRecency (key record) (key l) > 0 then Some record else latest)
       None records"

section \<open>Task ids, titles and statuses\<close>

definition addTaskId :: "string list \<Rightarrow> string option \<Rightarrow> string list" where
  "addTaskId ordered taskId =
     (case taskId of
        None \<Rightarrow> ordered
      | Some t \<Rightarrow> if t = [] \<or> t \<in> set ordered then ordered else ordered @ [t])"

definition collectTaskIds :: "task_operations_state \<Rightarrow> string list" where
  "collectTaskIds state =
     (let fromTodos = foldl addTaskId [] (map (\<lambda>i. Some (ti_id i)) (ts_items (os_todos state)));
          fromDelegation = foldl addTaskId fromTodos (map dr_taskId (os_delegation state))
      in foldl addTaskId fromDelegation (map vr_taskId (os_verification state)))"

definition resolveDelegationAssignedAgent :: "delegation_record \<Rightarrow> string" where
  "resolveDelegationAssignedAgent delegation =
     nullish_else (dr_targetAgent delegation)
       (nullish_else (map_option specialization_str (dr_specialization delegation))
         (dr_workerId delegation))"

definition deriveTaskTitle ::
  "string \<Rightarrow> task_item option \<Rightarrow> delegation_record option \<Rightarrow> verification_record option \<Rightarrow> string" where
  "deriveTaskTitle taskId todo latestDelegation latestVerification =
     (let todoTitle = (case todo of None \<Rightarrow> [] | Some t \<Rightarrow> js_trim (ti_content t));
          delegationTitle =
            (case latestDelegation of None \<Rightarrow> [] | Some d \<Rightarrow> js_trim (dr_instruction d));
          verificationTitle =
            (case latestVerification of None \<Rightarrow> [] | Some v \<Rightarrow> js_trim (vr_requirement v))
      in if todoTitle \<noteq> [] then todoTitle
         else if delegationTitle \<noteq> [] then delegationTitle
         else if verificationTitle \<noteq> [] then verificationTitle
         else taskId)"

fun mapVerificationStatus :: "verification_status \<Rightarrow> lifecycle_status" where
  "mapVerificationStatus status =
     (if status = VPassed then LVerified
      else if status = VPartial then LBlocked
      else LFailed)"

fun mapDelegationStatus :: "delegation_status \<Rightarrow> lifecycle_status" where
  "mapDelegationStatus status =
     (if status = DQueued then LDelegated
      else if status = DRunning then LRunning
      else if status = DCompleted then LDone
      else LFailed)"

fun mapTodoStatus :: "task_item_status option \<Rightarrow> lifecycle_status" where
  "mapTodoStatus status =
     (if status = Some Doing then LRunning
      else if status = Some Done then LDone
      else LPending)"

definition deriveTaskLifecycleStatus ::
  "task_item option \<Rightarrow> delegation_record option \<Rightarrow> verification_record option \<Rightarrow> bool \<Rightarrow>
   lifecycle_status" where
  "deriveTaskLifecycleStatus todo latestDelegation latestVerification verificationOwnsStatus =
     (case (verificationOwnsStatus, latestVerification, latestDelegation) of
        (True, Some v, _) \<Rightarrow> mapVerificationStatus (vr_status v)
      | (_, _, Some d) \<Rightarrow> mapDelegationStatus (dr_status d)
      | _ \<Rightarrow> mapTodoStatus (map_option ti_status todo))"

definition latest_delegation :: "task_operations_state \<Rightarrow> string \<Rightarrow> delegation_record option" where
  "latest_delegation state taskId =
     findLatestRecord delegation_recency
       (filter (\<lambda>entry. dr_taskId entry = Some taskId) (os_delegation state))"

definition latest_verification :: "task_operations_state \<Rightarrow> string \<Rightarrow> verification_record option" where
  "latest_verification state taskId =
     findLatestRecord verification_recency
       (filter (\<lambda>entry. vr_taskId entry = Some taskId) (os_verification state))"

definition verification_owns_status ::
  "delegation_record option \<Rightarrow> verification_record option \<Rightarrow> bool" where
  "verification_owns_status latestDelegation latestVerification =
     (case latestVerification of
        None \<Rightarrow> False
      | Some v \<Rightarrow>
          vr_status v \<noteq> VPending \<and>
          (case latestDelegation of
             None \<Rightarrow> True
           | Some d \<Rightarrow>
               compareRecordRecency (verification_recency v) (delegation_recency d) \<ge> 0))"

definition derive_task :: "task_operations_state \<Rightarrow> string \<Rightarrow> lifecycle_record" where
  "derive_task state taskId =
     (let todo = find (\<lambda>item. ti_id item = taskId) (ts_items (os_todos state));
          latestDelegation = latest_delegation state taskId;
          latestVerification = latest_verification state taskId
      in \<lparr>lr_taskId = taskId,
          lr_title = deriveTaskTitle taskId todo latestDelegation latestVerification,
          lr_status =
            deriveTaskLifecycleStatus todo latestDelegation latestVerification
              (verification_owns_status latestDelegation latestVerification),
          lr_todoStatus = map_option ti_status todo,
          lr_assignedAgent = map_option resolveDelegationAssignedAgent latestDelegation,
          lr_verificationVerdict = Option.bind latestVerification vr_verdict,
          lr_latestDelegationId = map_option dr_id latestDelegation,
          lr_latestVerificationId = map_option vr_id latestVerification\<rparr>)"

definition deriveTaskLifecycle :: "task_operations_state \<Rightarrow> lifecycle_record list" where
  "deriveTaskLifecycle state = map (derive_task state) (collectTaskIds state)"

section \<open>Summary\<close>

definition TASK_LIFECYCLE_STATUS_ORDER :: "lifecycle_status list" where
  "TASK_LIFECYCLE_STATUS_ORDER =
     [LPending, LDelegated, LRunning, LBlocked, LDone, LFailed, LVerified]"

text \<open>The statuses are ordered as the summary lists them.\<close>

fun status_rank :: "lifecycle_status \<Rightarrow> nat" where
  "status_rank LPending = 0"
| "status_rank LDelegated = 1"
| "status_rank LRunning = 2"
| "status_rank LBlocked = 3"
| "status_rank LDone = 4"
| "status_rank LFailed = 5"
| "status_rank LVerified = 6"

lemma status_rank_inj: "status_rank s = status_rank t \<Longrightarrow> s = t"
  by (cases s; cases t) simp_all

instantiation lifecycle_status :: linorder
begin

definition less_eq_lifecycle_status :: "lifecycle_status \<Rightarrow> lifecycle_status \<Rightarrow> bool" where
  "less_eq_lifecycle_status s t \<longleftrightarrow> status_rank s \<le> status_rank t"

definition less_lifecycle_status :: "lifecycle_status \<Rightarrow> lifecycle_status \<Rightarrow> bool" where
  "less_lifecycle_status s t \<longleftrightarrow> status_rank s < status_rank t"

instance
  by standard
    (auto simp: less_eq_lifecycle_status_def less_lifecycle_status_def intro: status_rank_inj)

end

record lifecycle_summary =
  ls_total :: nat
  ls_byStatus :: "lifecycle_status \<Rightarrow> nat"

definition summarizeTaskLifecycle :: "lifecycle_record list \<Rightarrow> lifecycle_summary" where
  "summarizeTaskLifecycle lifecycle =
     (let initial = foldl (\<lambda>counts status. counts(status := 0)) (\<lambda>_. 0) TASK_LIFECYCLE_STATUS_ORDER
      in \<lparr>ls_total = length lifecycle,
          ls_byStatus =
            foldl (\<lambda>counts entry. counts(lr_status entry := counts (lr_status entry) + 1))
              initial lifecycle\<rparr>)"

section \<open>Lemmas\<close>

lemma findLatest_step:
  "foldl (\<lambda>latest record.
        case latest of
          None \<Rightarrow> Some record
        | Some l \<Rightarrow> if compareRecordRecency (key record) (key l) > 0 then Some record else latest)
     (Some a) rs = Some b \<Longrightarrow>
   b \<in> insert a (set rs) \<and> (\<forall>x \<in> insert a (set rs). compareRecordRecency (key x) (key b) \<le> 0)"
proof (induction rs arbitrary: a)
  case Nil
  then show ?case by simp
next
  case (Cons r rs)
  show ?case
  proof (cases "compareRecordRecency (key r) (key a) > 0")
    case True
    with Cons.prems have b: "b \<in> insert r (set rs)"
      and max: "\<forall>x \<in> insert r (set rs). compareRecordRecency (key x) (key b) \<le> 0"
      using Cons.IH [of r] by simp_all
    have "compareRecordRecency (key a) (key r) \<le> 0"
      using True record_recency.sign [of "key a" "key r"] by linarith
    then have "compareRecordRecency (key a) (key b) \<le> 0"
      using max record_recency.trans_le by blast
    with b max show ?thesis by simp
  next
    case False
    with Cons.prems have b: "b \<in> insert a (set rs)"
      and max: "\<forall>x \<in> insert a (set rs). compareRecordRecency (key x) (key b) \<le> 0"
      using Cons.IH [of a] by simp_all
    have "compareRecordRecency (key r) (key b) \<le> 0"
      using False max record_recency.trans_le [of "key r" "key a" "key b"] by simp
    with b max show ?thesis by auto
  qed
qed

lemma findLatestRecord_Some:
  assumes "findLatestRecord key rs = Some b"
  shows "b \<in> set rs \<and> (\<forall>x \<in> set rs. compareRecordRecency (key x) (key b) \<le> 0)"
proof (cases rs)
  case Nil
  with assms show ?thesis by (simp add: findLatestRecord_def)
next
  case (Cons r rs')
  with assms findLatest_step [of key r rs' b] show ?thesis
    by (simp add: findLatestRecord_def)
qed

lemma findLatest_not_None:
  "foldl (\<lambda>latest record.
        case latest of
          None \<Rightarrow> Some record
        | Some l \<Rightarrow> if compareRecordRecency (key record) (key l) > 0 then Some record else latest)
     (Some a) rs \<noteq> None"
  by (induction rs arbitrary: a) auto

lemma findLatestRecord_None [simp]: "findLatestRecord key rs = None \<longleftrightarrow> rs = []"
proof (cases rs)
  case Nil
  then show ?thesis by (simp add: findLatestRecord_def)
next
  case (Cons r rs')
  then show ?thesis using findLatest_not_None [of key r rs'] by (simp add: findLatestRecord_def)
qed

text \<open>Collecting ids keeps the order of first appearance, without duplicates or empty ids.\<close>

lemma addTaskId_step:
  "distinct acc \<Longrightarrow> distinct (addTaskId acc x)"
  "set (addTaskId acc x) = set acc \<union> {t. x = Some t \<and> t \<noteq> []}"
  by (auto simp: addTaskId_def split: option.splits)

lemma distinct_addTaskIds: "distinct acc \<Longrightarrow> distinct (foldl addTaskId acc ids)"
  by (induction ids arbitrary: acc) (simp_all add: addTaskId_step)

lemma set_addTaskIds:
  "set (foldl addTaskId acc ids) = set acc \<union> {t. Some t \<in> set ids \<and> t \<noteq> []}"
  by (induction ids arbitrary: acc) (auto simp: addTaskId_step)

lemma collectTaskIds_distinct: "distinct (collectTaskIds state)"
  by (simp add: collectTaskIds_def Let_def distinct_addTaskIds)

lemma Some_in_map: "Some t \<in> set (map f xs) \<longleftrightarrow> (\<exists>x \<in> set xs. f x = Some t)"
  by (auto simp: image_iff) metis

lemma set_collectTaskIds:
  "set (collectTaskIds state) =
     {t. t \<noteq> [] \<and> ((\<exists>i \<in> set (ts_items (os_todos state)). ti_id i = t) \<or>
                   (\<exists>d \<in> set (os_delegation state). dr_taskId d = Some t) \<or>
                   (\<exists>v \<in> set (os_verification state). vr_taskId v = Some t))}"
  unfolding collectTaskIds_def Let_def set_addTaskIds Some_in_map by auto

lemma lifecycle_task_ids: "map lr_taskId (deriveTaskLifecycle state) = collectTaskIds state"
  by (simp add: deriveTaskLifecycle_def derive_task_def Let_def comp_def)

lemma summary_counts:
  "foldl (\<lambda>counts entry. counts(lr_status entry := Suc (counts (lr_status entry)))) c es s =
     c s + length (filter (\<lambda>e. lr_status e = s) es)"
  by (induction es arbitrary: c) auto

lemma summary_byStatus:
  "ls_byStatus (summarizeTaskLifecycle es) s = length (filter (\<lambda>e. lr_status e = s) es)"
proof -
  have zero: "(\<lambda>_. 0 :: nat)(x := 0) = (\<lambda>_. 0)" for x :: lifecycle_status
    by auto
  have "foldl (\<lambda>counts status. counts(status := 0)) (\<lambda>_. 0 :: nat) ss = (\<lambda>_. 0)"
    for ss :: "lifecycle_status list"
    by (induction ss) (simp_all add: zero)
  then show ?thesis
    by (simp add: summarizeTaskLifecycle_def Let_def summary_counts)
qed

lemma status_order_complete:
  "sorted TASK_LIFECYCLE_STATUS_ORDER" "distinct TASK_LIFECYCLE_STATUS_ORDER"
  "set TASK_LIFECYCLE_STATUS_ORDER = UNIV"
  using lifecycle_status.exhaust
  by (auto simp: TASK_LIFECYCLE_STATUS_ORDER_def less_eq_lifecycle_status_def)

lemma filter_partition_length:
  assumes "distinct ks" and "set (map f xs) \<subseteq> set ks"
  shows "(\<Sum>k\<leftarrow>ks. length (filter (\<lambda>x. f x = k) xs)) = length xs"
proof -
  have "(\<Sum>k\<leftarrow>ks. length (filter (\<lambda>x. f x = k) xs)) =
      (\<Sum>k\<in>set ks. length (filter (\<lambda>x. f x = k) xs))"
    using assms(1) by (simp add: sum_list_distinct_conv_sum_set)
  also have "\<dots> = length xs"
    using assms(2)
  proof (induction xs)
    case Nil
    then show ?case by simp
  next
    case (Cons x xs)
    have "(\<Sum>k\<in>set ks. length (filter (\<lambda>y. f y = k) (x # xs))) =
        (\<Sum>k\<in>set ks. (if f x = k then 1 else 0) + length (filter (\<lambda>y. f y = k) xs))"
      by (intro sum.cong) simp_all
    with Cons show ?case by (simp add: sum.distrib)
  qed
  finally show ?thesis .
qed

lemma summary_total:
  "(\<Sum>s\<leftarrow>TASK_LIFECYCLE_STATUS_ORDER. ls_byStatus (summarizeTaskLifecycle es) s) =
   ls_total (summarizeTaskLifecycle es)"
  unfolding summary_byStatus
  by (subst filter_partition_length) (simp_all add: status_order_complete summarizeTaskLifecycle_def Let_def)

end
