(* ===== verification/Task_State.thy ===== *)
theory Task_State
  imports Task_Lifecycle Task_Events
begin

text \<open>
  The state of the task plane, \<open>packages/tasks-core/src/task-operations.ts\<close>: the copies the
  code makes of every record, \<open>materializeTaskOperationsState\<close>, which copies a state and
  recomputes its lifecycle view, and the proposal status table. The copies build a new record
  property by property, so each is defined that way and proved to be the identity.
\<close>

section \<open>Copies\<close>

definition cloneTaskItems :: "task_item list \<Rightarrow> task_item list" where
  "cloneTaskItems items = map cloneTaskItem items"

definition cloneTaskState :: "task_state \<Rightarrow> task_state" where
  "cloneTaskState state =
     \<lparr>ts_items = cloneTaskItems (ts_items state), ts_updatedAtMs = ts_updatedAtMs state\<rparr>"

definition cloneDelegationVerificationRequest :: "verification_request \<Rightarrow> verification_request" where
  "cloneDelegationVerificationRequest request =
     \<lparr>vq_verifierId = vq_verifierId request, vq_requirement = vq_requirement request,
      vq_verificationId = vq_verificationId request\<rparr>"

definition cloneDelegationRecord :: "delegation_record \<Rightarrow> delegation_record" where
  "cloneDelegationRecord record =
     \<lparr>dr_id = dr_id record,
      dr_taskId = dr_taskId record,
      dr_workerId = dr_workerId record,
      dr_instruction = dr_instruction record,
      dr_fromAgent = dr_fromAgent record,
      dr_contextSnapshot = dr_contextSnapshot record,
      dr_specialization = dr_specialization record,
      dr_targetAgent = dr_targetAgent record,
      dr_verificationRequest =
        map_option cloneDelegationVerificationRequest (dr_verificationRequest record),
      dr_resultSummary = dr_resultSummary record,
      dr_observedWriteSet = dr_observedWriteSet record,
      dr_observedWriteSetSource = dr_observedWriteSetSource record,
      dr_status = dr_status record,
      dr_createdAtMs = dr_createdAtMs record,
      dr_updatedAtMs = dr_updatedAtMs record,
      dr_completedAtMs = dr_completedAtMs record,
      dr_error = dr_error record\<rparr>"

definition cloneVerificationCheck :: "verification_check \<Rightarrow> verification_check" where
  "cloneVerificationCheck check =
     \<lparr>vc_id = vc_id check, vc_status = vc_status check, vc_summary = vc_summary check,
      vc_detail = vc_detail check\<rparr>"

definition cloneVerificationChecks :: "verification_check list \<Rightarrow> verification_check list" where
  "cloneVerificationChecks checks = map cloneVerificationCheck checks"

definition cloneVerificationGateRecord :: "verification_record \<Rightarrow> verification_record" where
  "cloneVerificationGateRecord record =
     \<lparr>vr_id = vr_id record,
      vr_taskId = vr_taskId record,
      vr_verifierId = vr_verifierId record,
      vr_verifiedBy = vr_verifiedBy record,
      vr_requirement = vr_requirement record,
      vr_status = vr_status record,
      vr_verdict = vr_verdict record,
      vr_verdictSummary = vr_verdictSummary record,
      vr_checks = map_option cloneVerificationChecks (vr_checks record),
      vr_createdAtMs = vr_createdAtMs record,
      vr_updatedAtMs = vr_updatedAtMs record\<rparr>"

definition cloneProposalRecord :: "proposal_record \<Rightarrow> proposal_record" where
  "cloneProposalRecord record =
     \<lparr>pr_id = pr_id record,
      pr_kind = pr_kind record,
      pr_payload = pr_payload record,
      pr_status = pr_status record,
      pr_schemaVersion = pr_schemaVersion record,
      pr_sourceSessionId = pr_sourceSessionId record,
      pr_sourceTurnId = pr_sourceTurnId record,
      pr_provenance = pr_provenance record,
      pr_createdAtMs = pr_createdAtMs record,
      pr_updatedAtMs = pr_updatedAtMs record,
      pr_expiresAtMs = pr_expiresAtMs record,
      pr_decisionNote = pr_decisionNote record\<rparr>"

definition cloneProposalOutboxEntry :: "outbox_entry \<Rightarrow> outbox_entry" where
  "cloneProposalOutboxEntry entry =
     \<lparr>oe_id = oe_id entry, oe_eventType = oe_eventType entry, oe_proposalId = oe_proposalId entry,
      oe_status = oe_status entry, oe_schemaVersion = oe_schemaVersion entry,
      oe_createdAtMs = oe_createdAtMs entry\<rparr>"

definition cloneTaskNotificationRecord :: "notification_record \<Rightarrow> notification_record" where
  "cloneTaskNotificationRecord record =
     \<lparr>nr_id = nr_id record,
      nr_kind = nr_kind record,
      nr_recipientKind = nr_recipientKind record,
      nr_recipientId = nr_recipientId record,
      nr_status = nr_status record,
      nr_summary = nr_summary record,
      nr_taskId = nr_taskId record,
      nr_delegationId = nr_delegationId record,
      nr_verificationId = nr_verificationId record,
      nr_createdAtMs = nr_createdAtMs record,
      nr_updatedAtMs = nr_updatedAtMs record,
      nr_acknowledgedAtMs = nr_acknowledgedAtMs record\<rparr>"

section \<open>States\<close>

definition materializeTaskOperationsState :: "task_operations_state \<Rightarrow> task_operations_state" where
  "materializeTaskOperationsState input =
     (let next = \<lparr>os_schemaVersion = os_schemaVersion input,
                  os_todos = cloneTaskState (os_todos input),
                  os_delegation = map cloneDelegationRecord (os_delegation input),
                  os_verification = map cloneVerificationGateRecord (os_verification input),
                  os_proposalQueue = map cloneProposalRecord (os_proposalQueue input),
                  os_proposalOutbox = map cloneProposalOutboxEntry (os_proposalOutbox input),
                  os_notifications =
                    Some (map cloneTaskNotificationRecord
                            (nullish_else (os_notifications input) [])),
                  os_lifecycle = Some [],
                  os_updatedAtMs = os_updatedAtMs input\<rparr>
      in next\<lparr>os_lifecycle := Some (deriveTaskLifecycle next)\<rparr>)"

definition cloneTaskOperationsState :: "task_operations_state \<Rightarrow> task_operations_state" where
  "cloneTaskOperationsState state = materializeTaskOperationsState state"

text \<open>What a board or a replay starts from: nothing, a todo list, or a whole state.\<close>

datatype task_seed =
    NoSeed
  | TodoSeed task_state
  | OperationsSeed task_operations_state

definition empty_operations :: "task_state \<Rightarrow> int option \<Rightarrow> task_operations_state" where
  "empty_operations todos updatedAtMs =
     \<lparr>os_schemaVersion = CONTRACTS_SCHEMA_VERSION, os_todos = todos, os_delegation = [],
      os_verification = [], os_proposalQueue = [], os_proposalOutbox = [],
      os_notifications = Some [], os_lifecycle = None, os_updatedAtMs = updatedAtMs\<rparr>"

fun createInitialTaskOperationsState :: "task_seed \<Rightarrow> task_operations_state" where
  "createInitialTaskOperationsState NoSeed =
     materializeTaskOperationsState
       (empty_operations \<lparr>ts_items = [], ts_updatedAtMs = None\<rparr> None)"
| "createInitialTaskOperationsState (OperationsSeed state) = cloneTaskOperationsState state"
| "createInitialTaskOperationsState (TodoSeed state) =
     materializeTaskOperationsState
       (empty_operations (cloneTaskState state) (ts_updatedAtMs state))"

section \<open>Proposal statuses\<close>

fun ALLOWED_PROPOSAL_TRANSITIONS :: "proposal_status \<Rightarrow> proposal_status list" where
  "ALLOWED_PROPOSAL_TRANSITIONS PPending = [PAccepted, PRejected, PExpired]"
| "ALLOWED_PROPOSAL_TRANSITIONS PAccepted = [PApplied, PExpired]"
| "ALLOWED_PROPOSAL_TRANSITIONS PRejected = []"
| "ALLOWED_PROPOSAL_TRANSITIONS PApplied = []"
| "ALLOWED_PROPOSAL_TRANSITIONS PExpired = []"

definition canTransitionProposalStatus :: "proposal_status \<Rightarrow> proposal_status \<Rightarrow> bool" where
  "canTransitionProposalStatus from to =
     (if from = to then True else to \<in> set (ALLOWED_PROPOSAL_TRANSITIONS from))"

section \<open>Lemmas\<close>

named_theorems clone_simps \<open>every copy is the identity\<close>

lemma clone_identities [clone_simps]:
  "cloneTaskItems items = items"
  "cloneTaskState todos = todos"
  "cloneDelegationVerificationRequest request = request"
  "cloneVerificationCheck check = check"
  "cloneProposalRecord proposal = proposal"
  "cloneProposalOutboxEntry outbox = outbox"
  "cloneTaskNotificationRecord notification = notification"
  by (simp_all add: cloneTaskItems_def cloneTaskState_def cloneTaskItem_def map_idI
      cloneDelegationVerificationRequest_def cloneVerificationCheck_def cloneProposalRecord_def
      cloneProposalOutboxEntry_def cloneTaskNotificationRecord_def)

lemma cloneVerificationChecks_id [clone_simps]: "cloneVerificationChecks checks = checks"
  by (simp add: cloneVerificationChecks_def clone_identities map_idI)

lemma cloneDelegationRecord_id [clone_simps]: "cloneDelegationRecord record = record"
  by (cases "dr_verificationRequest record")
    (simp_all add: cloneDelegationRecord_def clone_identities)

lemma cloneVerificationGateRecord_id [clone_simps]: "cloneVerificationGateRecord record = record"
  by (cases "vr_checks record")
    (simp_all add: cloneVerificationGateRecord_def cloneVerificationChecks_id)

lemma map_clones [clone_simps]:
  "map cloneDelegationRecord ds = ds"
  "map cloneVerificationGateRecord vs = vs"
  "map cloneProposalRecord ps = ps"
  "map cloneProposalOutboxEntry es = es"
  "map cloneTaskNotificationRecord ns = ns"
  by (simp_all add: map_idI clone_simps)

lemma deriveTaskLifecycle_cong:
  assumes "os_todos s = os_todos t" "os_delegation s = os_delegation t"
    and "os_verification s = os_verification t"
  shows "deriveTaskLifecycle s = deriveTaskLifecycle t"
proof -
  have "collectTaskIds s = collectTaskIds t"
    using assms by (simp add: collectTaskIds_def)
  moreover have "derive_task s = derive_task t"
    using assms
    by (simp add: fun_eq_iff derive_task_def latest_delegation_def latest_verification_def)
  ultimately show ?thesis by (simp add: deriveTaskLifecycle_def)
qed

text \<open>What materializing does: it fills in the notifications and recomputes the lifecycle.\<close>

lemma materialize_eq:
  "materializeTaskOperationsState s =
     s\<lparr>os_notifications := Some (nullish_else (os_notifications s) []),
       os_lifecycle := Some (deriveTaskLifecycle s)\<rparr>"
proof -
  have "deriveTaskLifecycle (s\<lparr>os_notifications := n, os_lifecycle := l\<rparr>) = deriveTaskLifecycle s"
    for n l
    by (rule deriveTaskLifecycle_cong) simp_all
  then show ?thesis
    by (cases s) (simp add: materializeTaskOperationsState_def clone_simps Let_def)
qed

lemma materialize_fields [simp]:
  "os_schemaVersion (materializeTaskOperationsState s) = os_schemaVersion s"
  "os_todos (materializeTaskOperationsState s) = os_todos s"
  "os_delegation (materializeTaskOperationsState s) = os_delegation s"
  "os_verification (materializeTaskOperationsState s) = os_verification s"
  "os_proposalQueue (materializeTaskOperationsState s) = os_proposalQueue s"
  "os_proposalOutbox (materializeTaskOperationsState s) = os_proposalOutbox s"
  "os_notifications (materializeTaskOperationsState s) =
     Some (nullish_else (os_notifications s) [])"
  "os_lifecycle (materializeTaskOperationsState s) = Some (deriveTaskLifecycle s)"
  "os_updatedAtMs (materializeTaskOperationsState s) = os_updatedAtMs s"
  by (simp_all add: materialize_eq)

definition materialized :: "task_operations_state \<Rightarrow> bool" where
  "materialized s \<longleftrightarrow> os_notifications s \<noteq> None \<and> os_lifecycle s = Some (deriveTaskLifecycle s)"

lemma materialize_materialized [simp]: "materialized (materializeTaskOperationsState s)"
  by (auto simp: materialized_def intro: deriveTaskLifecycle_cong)

lemma materialized_clone [simp]: "materialized s \<Longrightarrow> materializeTaskOperationsState s = s"
  by (cases s) (auto simp: materialize_eq materialized_def)

lemma materialize_idem [simp]:
  "materializeTaskOperationsState (materializeTaskOperationsState s) =
     materializeTaskOperationsState s"
  by simp

lemma create_initial_materialized [simp]: "materialized (createInitialTaskOperationsState seed)"
  by (cases seed) (simp_all add: cloneTaskOperationsState_def)

lemma create_initial_materialized_seed [simp]:
  "materialized s \<Longrightarrow> createInitialTaskOperationsState (OperationsSeed s) = s"
  by (simp add: cloneTaskOperationsState_def)

text \<open>A materialized state is determined by its stored parts.\<close>

lemma materialized_eqI:
  assumes "materialized s" "materialized t"
    and "os_schemaVersion s = os_schemaVersion t" "os_todos s = os_todos t"
    and "os_delegation s = os_delegation t" "os_verification s = os_verification t"
    and "os_proposalQueue s = os_proposalQueue t" "os_proposalOutbox s = os_proposalOutbox t"
    and "os_notifications s = os_notifications t" "os_updatedAtMs s = os_updatedAtMs t"
  shows "s = t"
proof -
  have "os_lifecycle s = os_lifecycle t"
    using assms deriveTaskLifecycle_cong [of s t] by (simp add: materialized_def)
  with assms show ?thesis by (cases s; cases t) simp
qed

text \<open>The closure of the status table: which statuses a proposal can still reach.\<close>

inductive proposal_reaches :: "proposal_status \<Rightarrow> proposal_status \<Rightarrow> bool" where
  here: "proposal_reaches s s"
| onward: "proposal_reaches s t \<Longrightarrow> canTransitionProposalStatus t u \<Longrightarrow> proposal_reaches s u"

inductive_cases reaches_cases: "proposal_reaches s t"

definition terminal_proposal_status :: "proposal_status \<Rightarrow> bool" where
  "terminal_proposal_status s \<longleftrightarrow> s = PRejected \<or> s = PApplied \<or> s = PExpired"

lemma terminal_stays:
  "proposal_reaches s t \<Longrightarrow> terminal_proposal_status s \<Longrightarrow> t = s"
proof (induction rule: proposal_reaches.induct)
  case (here s)
  then show ?case by simp
next
  case (onward s t u)
  then show ?case
    by (auto simp: terminal_proposal_status_def canTransitionProposalStatus_def
        split: if_splits)
qed

fun proposal_rank :: "proposal_status \<Rightarrow> nat" where
  "proposal_rank PPending = 0"
| "proposal_rank PAccepted = 1"
| "proposal_rank _ = 2"

lemma transition_rank:
  "canTransitionProposalStatus s t \<Longrightarrow> s \<noteq> t \<Longrightarrow> proposal_rank s < proposal_rank t"
  by (cases s) (auto simp: canTransitionProposalStatus_def)

lemma applied_only_from_accepted:
  "canTransitionProposalStatus s PApplied \<Longrightarrow> s = PAccepted \<or> s = PApplied"
  by (cases s) (auto simp: canTransitionProposalStatus_def)

end
