(* ===== verification/Task_Event_Codec.thy ===== *)
theory Task_Event_Codec
  imports Task_Events
begin

text \<open>
  The laws of the event codec: decoding the object of a typed payload gives the payload back
  when it is well formed, every payload a decoder accepts is well formed, and so an event that
  was decoded once passes every later decode unchanged.
\<close>

section \<open>Enumerations\<close>

lemma isRecord_js_object [simp]: "isRecord (js_object kvs)"
  by (simp add: js_object_def)

lemma js_object_neq_undefined [simp]: "js_object kvs \<noteq> JUndefined"
  by (simp add: js_object_def)

lemma as_string_undefined [simp]: "as_string JUndefined = None" by simp

lemma decode_optional_js_opt [codec_simps]:
  assumes "\<And>y. x = Some y \<Longrightarrow> dec (enc y) = Some y" and "\<And>y. enc y \<noteq> JUndefined"
  shows "decode_optional dec (js_opt enc x) = Some x"
  using assms by (cases x) (auto simp: decode_optional_def)

lemma plain_js_opt [codec_simps]:
  assumes "\<And>y. x = Some y \<Longrightarrow> dec (enc y) = Some y" and "dec JUndefined = None"
  shows "dec (js_opt enc x) = x"
  using assms by (cases x) auto

lemma asTaskItemStatus_str [codec_simps]:
  "asTaskItemStatus (JStr (task_item_status_str s)) = Some s"
  by (cases s) (simp_all add: asTaskItemStatus_def)

lemma asTaskPriority_str [codec_simps]: "asTaskPriority (JStr (task_priority_str s)) = Some s"
  by (cases s) (simp_all add: asTaskPriority_def)

lemma asDelegationStatus_str [codec_simps]:
  "asDelegationStatus (JStr (delegation_status_str s)) = Some s"
  by (cases s) (simp_all add: asDelegationStatus_def)

lemma asDelegationSpecialization_str [codec_simps]:
  "asDelegationSpecialization (JStr (specialization_str s)) = Some s"
  by (cases s) (simp_all add: asDelegationSpecialization_def)

lemma asDelegationObservedWriteSetSource_str [codec_simps]:
  "asDelegationObservedWriteSetSource (JStr (write_set_observation_str s)) = Some s"
  by (cases s) (simp_all add: asDelegationObservedWriteSetSource_def)

lemma asTaskNotificationKind_str [codec_simps]:
  "asTaskNotificationKind (JStr (notification_kind_str s)) = Some s"
  by (cases s) (simp_all add: asTaskNotificationKind_def)

lemma asTaskNotificationRecipientKind_str [codec_simps]:
  "asTaskNotificationRecipientKind (JStr (recipient_kind_str s)) = Some s"
  by (cases s) (simp_all add: asTaskNotificationRecipientKind_def)

lemma asTaskNotificationStatus_str [codec_simps]:
  "asTaskNotificationStatus (JStr (notification_status_str s)) = Some s"
  by (cases s) (simp_all add: asTaskNotificationStatus_def)

lemma asVerificationStatus_str [codec_simps]:
  "asVerificationStatus (JStr (verification_status_str s)) = Some s"
  by (cases s) (simp_all add: asVerificationStatus_def)

lemma asVerificationVerdict_str [codec_simps]:
  "asVerificationVerdict (JStr (verdict_str s)) = Some s"
  by (cases s) (simp_all add: asVerificationVerdict_def)

lemma asProposalStatus_str [codec_simps]:
  "asProposalStatus (JStr (proposal_status_str s)) = Some s"
  by (cases s) (simp_all add: asProposalStatus_def)

lemma asProposalOutboxEventType_str [codec_simps]:
  "asProposalOutboxEventType (JStr (outbox_event_type_str s)) = Some s"
  by (cases s) (simp_all add: asProposalOutboxEventType_def)

text \<open>Optional enumerations: an absent property decodes to no value.\<close>

lemma enum_js_opt [codec_simps]:
  "asTaskPriority (js_opt (\<lambda>p. JStr (task_priority_str p)) a) = a"
  "asDelegationStatus (js_opt (\<lambda>p. JStr (delegation_status_str p)) b) = b"
  "asTaskNotificationStatus (js_opt (\<lambda>p. JStr (notification_status_str p)) c) = c"
  "asProposalStatus (js_opt (\<lambda>p. JStr (proposal_status_str p)) d) = d"
  "asVerificationVerdict (js_opt (\<lambda>p. JStr (verdict_str p)) e) = e"
proof -
  show "asTaskPriority (js_opt (\<lambda>p. JStr (task_priority_str p)) a) = a"
    by (rule plain_js_opt) (simp_all only: asTaskPriority_str, simp add: asTaskPriority_def)
  show "asDelegationStatus (js_opt (\<lambda>p. JStr (delegation_status_str p)) b) = b"
    by (rule plain_js_opt) (simp_all only: asDelegationStatus_str, simp add: asDelegationStatus_def)
  show "asTaskNotificationStatus (js_opt (\<lambda>p. JStr (notification_status_str p)) c) = c"
    by (rule plain_js_opt) (simp_all only: asTaskNotificationStatus_str, simp add: asTaskNotificationStatus_def)
  show "asProposalStatus (js_opt (\<lambda>p. JStr (proposal_status_str p)) d) = d"
    by (rule plain_js_opt) (simp_all only: asProposalStatus_str, simp add: asProposalStatus_def)
  show "asVerificationVerdict (js_opt (\<lambda>p. JStr (verdict_str p)) e) = e"
    by (rule plain_js_opt) (simp_all only: asVerificationVerdict_str, simp add: asVerificationVerdict_def)
qed

section \<open>Records\<close>

lemma asTaskItem_js [codec_simps]: "asTaskItem (js_of_task_item r) = Some r"
  by (simp add: asTaskItem_def js_of_task_item_def codec_simps)

lemma cloneTaskItem_id [simp]: "cloneTaskItem r = r"
  by (simp add: cloneTaskItem_def)

lemma map_cloneTaskItem [simp]: "map cloneTaskItem rs = rs"
  by (simp add: map_idI)

lemma cloneOutboxEntry_id [simp]: "cloneOutboxEntry r = r"
  by (simp add: cloneOutboxEntry_def)

lemma map_cloneOutboxEntry [simp]: "map cloneOutboxEntry rs = rs"
  by (simp add: map_idI)

lemma map_all_map_id: "(\<And>x. f (g x) = Some x) \<Longrightarrow> map_all f (map g xs) = Some xs"
  by (rule map_all_map)

lemma asTaskState_js [codec_simps]: "asTaskState (js_of_task_state r) = Some r"
  by (simp add: asTaskState_def js_of_task_state_def map_all_map_id codec_simps)

lemma asTaskTodoWritePayload_js [codec_simps]:
  "asTaskTodoWritePayload (js_of_task_state r) = Some r"
  by (simp add: asTaskTodoWritePayload_def codec_simps)

lemma asTaskEventActor_js [codec_simps]: "asTaskEventActor (js_of_actor r) = Some r"
  by (cases "ta_kind r") (simp_all add: asTaskEventActor_def js_of_actor_def Let_def)

lemma asTaskEventActor_js_opt [codec_simps]: "asTaskEventActor (js_opt js_of_actor a) = a"
  by (cases a) (simp_all add: codec_simps, simp add: asTaskEventActor_def)

lemma js_of_actor_neq [simp]: "js_of_actor r \<noteq> JUndefined"
  by (simp add: js_of_actor_def)

lemma asStringArray_js [codec_simps]: "asStringArray (js_strings xs) = Some xs"
  by (simp add: asStringArray_def js_strings_def map_all_map_id)

lemma js_strings_neq [simp]: "js_strings xs \<noteq> JUndefined"
  by (simp add: js_strings_def)

lemma asDelegationVerificationRequest_js [codec_simps]:
  "asDelegationVerificationRequest (js_of_verification_request r) = Some r"
  by (simp add: asDelegationVerificationRequest_def js_of_verification_request_def)

lemma js_of_verification_request_neq [simp]: "js_of_verification_request r \<noteq> JUndefined"
  by (simp add: js_of_verification_request_def)

text \<open>The one relation between properties a delegation record must satisfy to be decoded.\<close>

definition wf_delegation :: "delegation_record \<Rightarrow> bool" where
  "wf_delegation r \<longleftrightarrow> (dr_targetAgent r \<noteq> None \<longrightarrow> dr_specialization r \<noteq> None)"

lemma decode_targetAgent:
  "(t \<noteq> None \<longrightarrow> s \<noteq> None) \<Longrightarrow>
   decode_optional (\<lambda>v. if s = None then None else as_string v) (js_opt JStr t) = Some t"
  by (cases t) (auto simp: decode_optional_def)

lemma asDelegationRecord_js [codec_simps]:
  assumes "wf_delegation r"
  shows "asDelegationRecord (js_of_delegation r) = Some r"
proof -
  have spec: "decode_optional asDelegationSpecialization
      (js_opt (\<lambda>s. JStr (specialization_str s)) x) = Some x" for x
    by (rule decode_optional_js_opt) (simp_all add: codec_simps)
  have req: "decode_optional asDelegationVerificationRequest
      (js_opt js_of_verification_request x) = Some x" for x
    by (rule decode_optional_js_opt) (simp_all add: codec_simps)
  have obs: "decode_optional asStringArray (js_opt js_strings x) = Some x" for x
    by (rule decode_optional_js_opt) (simp_all add: codec_simps)
  have src: "decode_optional asDelegationObservedWriteSetSource
      (js_opt (\<lambda>s. JStr (write_set_observation_str s)) x) = Some x" for x
    by (rule decode_optional_js_opt) (simp_all add: codec_simps)
  have tgt: "decode_optional (\<lambda>v. if dr_specialization r = None then None else as_string v)
      (js_opt JStr (dr_targetAgent r)) = Some (dr_targetAgent r)"
    by (rule decode_targetAgent) (use assms in \<open>simp add: wf_delegation_def\<close>)
  show ?thesis
    by (simp add: asDelegationRecord_def js_of_delegation_def asDelegationStatus_str
        spec req obs src tgt)
qed

lemma asTaskNotificationRecord_js [codec_simps]:
  "asTaskNotificationRecord (js_of_notification r) = Some r"
  by (simp add: asTaskNotificationRecord_def js_of_notification_def asTaskNotificationKind_str
      asTaskNotificationRecipientKind_str asTaskNotificationStatus_str)

lemma asVerificationCheck_js [codec_simps]: "asVerificationCheck (js_of_check r) = Some r"
  by (simp add: asVerificationCheck_def js_of_check_def asVerificationVerdict_str)

lemma asVerificationCheckArray_js [codec_simps]:
  "asVerificationCheckArray (js_of_checks xs) = Some xs"
  by (simp add: asVerificationCheckArray_def js_of_checks_def map_all_map_id asVerificationCheck_js)

lemma js_of_checks_neq [simp]: "js_of_checks xs \<noteq> JUndefined"
  by (simp add: js_of_checks_def)

lemma asVerificationGateRecord_js [codec_simps]:
  "asVerificationGateRecord (js_of_verification r) = Some r"
proof -
  have checks: "decode_optional asVerificationCheckArray (js_opt js_of_checks x) = Some x" for x
    by (rule decode_optional_js_opt) (simp_all add: codec_simps)
  show ?thesis
    by (simp add: asVerificationGateRecord_def js_of_verification_def asVerificationStatus_str
        enum_js_opt checks)
qed

lemma asProposalRecord_js [codec_simps]: "asProposalRecord (js_of_proposal r) = Some r"
  by (simp add: asProposalRecord_def js_of_proposal_def asProposalStatus_str)

lemma asProposalOutboxEntry_js [codec_simps]:
  "asProposalOutboxEntry (js_of_outbox_entry r) = Some r"
  by (simp add: asProposalOutboxEntry_def js_of_outbox_entry_def asProposalStatus_str
      asProposalOutboxEventType_str)

lemma asProposalOutboxEntryArray_js [codec_simps]:
  "asProposalOutboxEntryArray (js_opt js_of_outbox_entries x) = x"
  by (cases x) (simp_all add: asProposalOutboxEntryArray_def js_of_outbox_entries_def
      map_all_map_id asProposalOutboxEntry_js)

section \<open>Payloads\<close>

text \<open>
  A payload is well formed when its delegation record is, and when a drained-outbox payload
  that carries both the entries and a time agrees with itself: the decoder then takes ids and
  time from them.
\<close>

fun wf_payload :: "task_event_payload \<Rightarrow> bool" where
  "wf_payload (DelegationUpserted p) = wf_delegation (dp_record p)"
| "wf_payload (DelegationStatusSet p) = wf_delegation (dp_record p)"
| "wf_payload (ProposalOutboxDrained p) =
     (case (od_drained p, od_updatedAtMs p) of
        (Some entries, Some t) \<Rightarrow> od_drainedIds p = map oe_id entries \<and> od_drainedAtMs p = t
      | _ \<Rightarrow> True)"
| "wf_payload _ = True"

lemma asTaskProposalOutboxDrainedPayload_js:
  assumes "wf_payload (ProposalOutboxDrained p)"
  shows "asTaskProposalOutboxDrainedPayload (js_of_payload (ProposalOutboxDrained p)) = Some p"
proof -
  have absent: "asProposalOutboxEntryArray JUndefined = None"
    by (simp add: asProposalOutboxEntryArray_def)
  have present: "asProposalOutboxEntryArray (js_of_outbox_entries xs) = Some xs" for xs
    using asProposalOutboxEntryArray_js [of "Some xs"] by simp
  have strings: "as_array (js_strings xs) = Some (map JStr xs)" for xs
    by (simp add: js_strings_def)
  show ?thesis
    using assms
    by (cases "od_drained p"; cases "od_updatedAtMs p")
      (simp_all add: asTaskProposalOutboxDrainedPayload_def Let_def codec_simps strings
        map_all_map_id absent present)
qed

lemma decode_payload_js:
  assumes "wf_payload p"
  shows "decode_payload (payload_event_type p) (js_of_payload p) = Some p"
proof (cases p)
  case (ProposalOutboxDrained q)
  have type: "payload_event_type p = ''tasks.proposal_outbox_drained''"
    using ProposalOutboxDrained by simp
  show ?thesis
    using assms unfolding type ProposalOutboxDrained
    by (simp add: decode_payload_def asTaskProposalOutboxDrainedPayload_js
        del: js_of_payload.simps)
qed (use assms in \<open>simp_all add: decode_payload_def codec_simps
    asTaskDelegationUpsertedPayload_def asTaskDelegationStatusSetPayload_def
    asTaskVerificationUpsertedPayload_def asTaskNotificationEmittedPayload_def
    asTaskNotificationStatusSetPayload_def asTaskProposalEnqueuedPayload_def
    asTaskProposalTransitionedPayload_def\<close>)

lemma isTaskEventType_payload [simp]: "isTaskEventType (payload_event_type p)"
  by (cases p) (simp_all add: isTaskEventType_def TASK_EVENT_TYPE_SET_def)

definition compatible_version :: "string option \<Rightarrow> bool" where
  "compatible_version v \<longleftrightarrow>
     (case v of None \<Rightarrow> True
      | Some w \<Rightarrow> isTaskEventsDomainVersionCompatible w TASK_EVENTS_DOMAIN_VERSION)"

lemma compatible_version_None [simp]: "compatible_version None"
  by (simp add: compatible_version_def)

lemma compatible_version_current [simp]: "compatible_version (Some TASK_EVENTS_DOMAIN_VERSION)"
  by (simp add: compatible_version_def isTaskEventsDomainVersionCompatible_def)

lemma createTaskEvent_wf:
  "wf_payload p \<Longrightarrow> compatible_version v \<Longrightarrow>
   createTaskEvent p v =
     Inr \<lparr>te_payload = p, te_domainVersion = TASK_EVENTS_DOMAIN_VERSION\<rparr>"
  by (simp add: createTaskEvent_def decodeTaskEvent_def decode_payload_js compatible_version_def
      split: option.splits)

section \<open>Decoded payloads are well formed\<close>

lemma decode_optional_Some:
  "decode_optional f v = Some (Some x) \<Longrightarrow> f v = Some x"
  by (auto simp: decode_optional_def split: if_splits option.splits)

lemma asDelegationRecord_wf: "asDelegationRecord v = Some r \<Longrightarrow> wf_delegation r"
  by (auto simp: asDelegationRecord_def wf_delegation_def bind_eq_Some_conv
      dest!: decode_optional_Some split: if_splits)

lemma asTaskDelegationUpsertedPayload_wf:
  "asTaskDelegationUpsertedPayload v = Some p \<Longrightarrow> wf_delegation (dp_record p)"
  by (auto simp: asTaskDelegationUpsertedPayload_def bind_eq_Some_conv
      intro: asDelegationRecord_wf split: if_splits)

lemma asTaskDelegationStatusSetPayload_wf:
  "asTaskDelegationStatusSetPayload v = Some p \<Longrightarrow> wf_delegation (dp_record p)"
  by (auto simp: asTaskDelegationStatusSetPayload_def bind_eq_Some_conv
      dest: asTaskDelegationUpsertedPayload_wf)

lemma asTaskProposalOutboxDrainedPayload_wf:
  "asTaskProposalOutboxDrainedPayload v = Some p \<Longrightarrow> wf_payload (ProposalOutboxDrained p)"
  by (auto simp: asTaskProposalOutboxDrainedPayload_def Let_def bind_eq_Some_conv
      split: if_splits option.splits)

lemma decode_payload_wf: "decode_payload eventType v = Some p \<Longrightarrow> wf_payload p"
  by (auto simp: decode_payload_def split: if_splits
      dest: asTaskDelegationUpsertedPayload_wf asTaskDelegationStatusSetPayload_wf
      dest!: asTaskProposalOutboxDrainedPayload_wf)

lemma decode_payload_type:
  "decode_payload eventType v = Some p \<Longrightarrow> payload_event_type p = eventType"
  by (auto simp: decode_payload_def split: if_splits)

lemma decodeTaskEvent_Some:
  "decodeTaskEvent eventType v d = Some e \<Longrightarrow>
     decode_payload eventType v = Some (te_payload e) \<and>
     te_domainVersion e = TASK_EVENTS_DOMAIN_VERSION \<and> compatible_version d"
  by (auto simp: decodeTaskEvent_def compatible_version_def split: if_splits option.splits)

end
