(* ===== verification/Task_Journal.thy ===== *)
theory Task_Journal
  imports Task_State Task_Event_Codec
begin

text \<open>
  The journal of the task plane, \<open>packages/tasks-core/src/task-journal.ts\<close>: entries, which
  are decoded events with a time, and the projection of a list of entries to a state. The
  projection throws on an entry that cannot apply, so its result is a sum.
\<close>

section \<open>Entries\<close>

record task_journal_entry =
  je_event :: task_event_envelope
  je_createdAtMs :: int
  je_schemaVersion :: "string option"

definition je_payload :: "task_journal_entry \<Rightarrow> task_event_payload" where
  "je_payload entry = te_payload (je_event entry)"

definition createTaskJournalEntry ::
  "task_event_payload \<Rightarrow> int \<Rightarrow> string option \<Rightarrow> string option \<Rightarrow> js_error + task_journal_entry"
where
  "createTaskJournalEntry payload createdAtMs schemaVersion domainVersion =
     (case createTaskEvent payload domainVersion of
        Inl e \<Rightarrow> Inl e
      | Inr envelope \<Rightarrow>
          Inr \<lparr>je_event = envelope, je_createdAtMs = createdAtMs,
               je_schemaVersion = schemaVersion\<rparr>)"

definition cloneTaskJournalEntry :: "task_journal_entry \<Rightarrow> js_error + task_journal_entry" where
  "cloneTaskJournalEntry entry =
     createTaskJournalEntry (je_payload entry) (je_createdAtMs entry) (je_schemaVersion entry)
       (Some (te_domainVersion (je_event entry)))"

definition toTaskJournalEntry ::
  "string \<Rightarrow> jsval \<Rightarrow> int \<Rightarrow> string option \<Rightarrow> string option \<Rightarrow> task_journal_entry option" where
  "toTaskJournalEntry eventType payload createdAtMs schemaVersion domainVersion =
     (case decodeTaskEvent eventType payload domainVersion of
        None \<Rightarrow> None
      | Some envelope \<Rightarrow>
          Some \<lparr>je_event = envelope, je_createdAtMs = createdAtMs,
                je_schemaVersion = schemaVersion\<rparr>)"

section \<open>Projection\<close>

definition notifications_of :: "task_operations_state \<Rightarrow> notification_record list" where
  "notifications_of s = nullish_else (os_notifications s) []"

definition applyTaskJournalEntry ::
  "task_seed \<Rightarrow> task_journal_entry \<Rightarrow> js_error + task_operations_state" where
  "applyTaskJournalEntry state entry =
     (let current = createInitialTaskOperationsState state;
          copy = cloneTaskOperationsState current
      in case je_payload entry of
        TodoWrite payload \<Rightarrow>
          Inr (materializeTaskOperationsState
            (copy\<lparr>os_todos := cloneTaskState payload,
                  os_updatedAtMs :=
                    Some (nullish_else (ts_updatedAtMs payload) (je_createdAtMs entry))\<rparr>))
      | DelegationUpserted payload \<Rightarrow>
          Inr (materializeTaskOperationsState
            (copy\<lparr>os_delegation :=
                    replaceRecordById dr_id (os_delegation current)
                      (cloneDelegationRecord (dp_record payload)),
                  os_updatedAtMs := Some (dp_updatedAtMs payload)\<rparr>))
      | DelegationStatusSet payload \<Rightarrow>
          Inr (materializeTaskOperationsState
            (copy\<lparr>os_delegation :=
                    replaceRecordById dr_id (os_delegation current)
                      (cloneDelegationRecord (dp_record payload)),
                  os_updatedAtMs := Some (dp_updatedAtMs payload)\<rparr>))
      | VerificationUpserted payload \<Rightarrow>
          Inr (materializeTaskOperationsState
            (copy\<lparr>os_verification :=
                    replaceRecordById vr_id (os_verification current)
                      (cloneVerificationGateRecord (vp_record payload)),
                  os_updatedAtMs := Some (vp_updatedAtMs payload)\<rparr>))
      | NotificationEmitted payload \<Rightarrow>
          Inr (materializeTaskOperationsState
            (copy\<lparr>os_notifications :=
                    Some (replaceRecordById nr_id (notifications_of current)
                      (cloneTaskNotificationRecord (np_record payload))),
                  os_updatedAtMs := Some (np_updatedAtMs payload)\<rparr>))
      | NotificationStatusSet payload \<Rightarrow>
          Inr (materializeTaskOperationsState
            (copy\<lparr>os_notifications :=
                    Some (replaceRecordById nr_id (notifications_of current)
                      (cloneTaskNotificationRecord (np_record payload))),
                  os_updatedAtMs := Some (np_updatedAtMs payload)\<rparr>))
      | ProposalEnqueuedEvent payload \<Rightarrow>
          (if \<exists>proposal \<in> set (os_proposalQueue current).
                pr_id proposal = pr_id (pp_proposal payload)
           then Inl (Error (''Duplicate proposal id: '' @ pr_id (pp_proposal payload)))
           else Inr (materializeTaskOperationsState
             (copy\<lparr>os_proposalQueue :=
                     os_proposalQueue current @ [cloneProposalRecord (pp_proposal payload)],
                   os_proposalOutbox :=
                     os_proposalOutbox current @ [cloneProposalOutboxEntry (pp_outboxEntry payload)],
                   os_updatedAtMs := Some (pp_updatedAtMs payload)\<rparr>)))
      | ProposalTransitioned payload \<Rightarrow>
          (case find_by_id pr_id (os_proposalQueue current) (pr_id (pp_proposal payload)) of
             None \<Rightarrow> Inl (Error (''Unknown proposal: '' @ pr_id (pp_proposal payload)))
           | Some currentProposal \<Rightarrow>
               (if \<not> canTransitionProposalStatus (pr_status currentProposal)
                      (pr_status (pp_proposal payload))
                then Inl (Error (''Invalid proposal transition: ''
                       @ proposal_status_str (pr_status currentProposal) @ '' -> ''
                       @ proposal_status_str (pr_status (pp_proposal payload))))
                else Inr (materializeTaskOperationsState
                  (copy\<lparr>os_proposalQueue :=
                          replaceRecordById pr_id (os_proposalQueue current)
                            (cloneProposalRecord (pp_proposal payload)),
                        os_proposalOutbox :=
                          os_proposalOutbox current
                            @ [cloneProposalOutboxEntry (pp_outboxEntry payload)],
                        os_updatedAtMs := Some (pp_updatedAtMs payload)\<rparr>))))
      | ProposalOutboxDrained payload \<Rightarrow>
          Inr (materializeTaskOperationsState
            (copy\<lparr>os_proposalOutbox :=
                    map cloneProposalOutboxEntry
                      (filter (\<lambda>item. oe_id item \<notin> set (od_drainedIds payload))
                        (os_proposalOutbox current)),
                  os_updatedAtMs :=
                    Some (nullish_else (od_updatedAtMs payload) (od_drainedAtMs payload))\<rparr>)))"

fun project_from :: "task_operations_state \<Rightarrow> task_journal_entry list \<Rightarrow> js_error + task_operations_state"
where
  "project_from state [] = Inr state"
| "project_from state (entry # entries) =
     (case applyTaskJournalEntry (OperationsSeed state) entry of
        Inl e \<Rightarrow> Inl e
      | Inr state' \<Rightarrow> project_from state' entries)"

definition projectTaskOperationsFromJournal ::
  "task_journal_entry list \<Rightarrow> task_seed \<Rightarrow> js_error + task_operations_state" where
  "projectTaskOperationsFromJournal entries initialState =
     project_from (createInitialTaskOperationsState initialState) entries"

section \<open>Lemmas\<close>

definition mk_entry :: "task_event_payload \<Rightarrow> int \<Rightarrow> task_journal_entry" where
  "mk_entry payload createdAtMs =
     \<lparr>je_event = \<lparr>te_payload = payload, te_domainVersion = TASK_EVENTS_DOMAIN_VERSION\<rparr>,
      je_createdAtMs = createdAtMs, je_schemaVersion = None\<rparr>"

lemma je_payload_mk_entry [simp]: "je_payload (mk_entry p t) = p"
  by (simp add: je_payload_def mk_entry_def)

lemma createTaskJournalEntry_wf [simp]:
  "wf_payload p \<Longrightarrow> createTaskJournalEntry p t None None = Inr (mk_entry p t)"
  by (simp add: createTaskJournalEntry_def createTaskEvent_wf mk_entry_def)

definition wf_entry :: "task_journal_entry \<Rightarrow> bool" where
  "wf_entry entry \<longleftrightarrow>
     wf_payload (je_payload entry) \<and> te_domainVersion (je_event entry) = TASK_EVENTS_DOMAIN_VERSION"

lemma wf_mk_entry [simp]: "wf_entry (mk_entry p t) \<longleftrightarrow> wf_payload p"
  by (simp add: wf_entry_def je_payload_def mk_entry_def)

lemma cloneTaskJournalEntry_wf: "wf_entry entry \<Longrightarrow> cloneTaskJournalEntry entry = Inr entry"
  by (cases entry)
    (auto simp: cloneTaskJournalEntry_def createTaskJournalEntry_def createTaskEvent_wf
      wf_entry_def je_payload_def)

lemma project_from_append:
  "project_from s (xs @ ys) =
     (case project_from s xs of Inl e \<Rightarrow> Inl e | Inr s' \<Rightarrow> project_from s' ys)"
  by (induction xs arbitrary: s) (auto split: sum.splits)

lemma apply_materialized:
  "applyTaskJournalEntry seed entry = Inr s \<Longrightarrow> materialized s"
  by (auto simp: applyTaskJournalEntry_def Let_def split: task_event_payload.splits if_splits
      option.splits)

lemma project_from_materialized:
  "materialized s \<Longrightarrow> project_from s entries = Inr t \<Longrightarrow> materialized t"
proof (induction entries arbitrary: s)
  case Nil
  then show ?case by simp
next
  case (Cons entry entries)
  then show ?case by (auto split: sum.splits dest: apply_materialized)
qed

lemma create_initial_None [simp]:
  "notifications_of (materializeTaskOperationsState s) = notifications_of s"
  by (simp add: notifications_of_def)

end
