(* ===== verification/Task_Board.thy ===== *)
theory Task_Board
  imports Task_Journal
begin

text \<open>
  The task board, \<open>packages/tasks-core/src/task-board.ts\<close>: the object that owns the state of
  the task plane. Each method is a function from a board to a result and a board; the result is
  \<open>Inl\<close> when the method throws, and the board is the one left behind by then, because several
  methods assign the state before they build the journal entry that may throw. The options
  \<open>now\<close> and \<open>outboxEntryIdFactory\<close> are fields of the board: \<open>tb_clock n\<close> is what the n-th
  call of \<open>now\<close> returns and \<open>tb_ticks\<close> counts the calls made.
\<close>

section \<open>The board\<close>

record outbox_id_request =
  oq_eventType :: outbox_event_type
  oq_proposalId :: string
  oq_status :: proposal_status
  oq_createdAtMs :: int
  oq_existingEntryIds :: "string list"

record board =
  tb_state :: task_operations_state
  tb_journal :: "task_journal_entry list"
  tb_clock :: "nat \<Rightarrow> int"
  tb_ticks :: nat
  tb_outboxId :: "outbox_id_request \<Rightarrow> string"

type_synonym 'a outcome = "(js_error + 'a) \<times> board"

definition and_then :: "'a outcome \<Rightarrow> ('a \<Rightarrow> board \<Rightarrow> 'b outcome) \<Rightarrow> 'b outcome" where
  "and_then r k = (case r of (Inl e, b) \<Rightarrow> (Inl e, b) | (Inr x, b) \<Rightarrow> k x b)"

lemma and_then_simps [simp]:
  "and_then (Inl e, b) k = (Inl e, b)" "and_then (Inr x, b) k = k x b"
  by (simp_all add: and_then_def)

definition board_now :: "board \<Rightarrow> int" where
  "board_now b = tb_clock b (tb_ticks b)"

definition tick :: "board \<Rightarrow> board" where
  "tick b = b\<lparr>tb_ticks := tb_ticks b + 1\<rparr>"

section \<open>Identifiers\<close>

definition is_id_char :: "char \<Rightarrow> bool" where
  "is_id_char c \<longleftrightarrow>
     c = CHR ''_'' \<or> (let n = (of_char c :: nat) in
       (48 \<le> n \<and> n \<le> 57) \<or> (65 \<le> n \<and> n \<le> 90) \<or> (97 \<le> n \<and> n \<le> 122))"

definition defaultOutboxEntryIdFactory :: "outbox_id_request \<Rightarrow> string" where
  "defaultOutboxEntryIdFactory input =
     ''outbox_'' @ replace_runs is_id_char False (outbox_event_type_str (oq_eventType input)) @ ''_''
       @ replace_runs is_id_char False (oq_proposalId input) @ ''_''
       @ replace_runs is_id_char False (proposal_status_str (oq_status input)) @ ''_''
       @ js_show (oq_createdAtMs input)"

definition buildStableOutboxEntryId :: "string \<Rightarrow> outbox_entry list \<Rightarrow> string" where
  "buildStableOutboxEntryId preferredId existing =
     (if \<not> (\<exists>entry \<in> set existing. oe_id entry = preferredId) then preferredId
      else let duplicates =
                 filter (\<lambda>entry. oe_id entry = preferredId \<or>
                                 starts_with (preferredId @ ''_dup_'') (oe_id entry)) existing;
               nextSuffix = length duplicates + 1
           in preferredId @ ''_dup_'' @ show_nat nextSuffix)"

definition buildDelegationNotificationId :: "string \<Rightarrow> string" where
  "buildDelegationNotificationId delegationId = ''notification_delegation_'' @ delegationId"

definition buildVerificationNotificationId :: "string \<Rightarrow> string" where
  "buildVerificationNotificationId verificationId =
     ''notification_verification_'' @ verificationId"

section \<open>Records built from inputs\<close>

definition cloneItems :: "task_item list \<Rightarrow> task_item list" where
  "cloneItems items = map cloneTaskItem items"

definition normalizeWriteSet :: "string list \<Rightarrow> string list" where
  "normalizeWriteSet values = js_unique (filter (\<lambda>v. v \<noteq> []) (map js_trim values))"

fun inferVerificationVerdict :: "verification_status \<Rightarrow> verification_verdict option" where
  "inferVerificationVerdict VPassed = Some PassVerdict"
| "inferVerificationVerdict VFailed = Some FailVerdict"
| "inferVerificationVerdict VPartial = Some PartialVerdict"
| "inferVerificationVerdict VPending = None"

definition terminal_delegation :: "delegation_status \<Rightarrow> bool" where
  "terminal_delegation s \<longleftrightarrow> s = DCompleted \<or> s = DFailed \<or> s = DCancelled"

text \<open>\<open>current?.field\<close>\<close>

definition optional_field :: "'r option \<Rightarrow> ('r \<Rightarrow> 'a option) \<Rightarrow> 'a option" where
  "optional_field current field = Option.bind current field"

lemma optional_field_simps [simp]:
  "optional_field None f = None" "optional_field (Some r) f = f r"
  by (simp_all add: optional_field_def)

definition buildDelegationRecord ::
  "delegation_record_input \<Rightarrow> delegation_record option \<Rightarrow> int \<Rightarrow> js_error + delegation_record" where
  "buildDelegationRecord input current timestamp =
     (let status = nullish_else (di_status input)
                     (nullish_else (map_option dr_status current) DQueued);
          specialization = nullish (di_specialization input)
                             (optional_field current dr_specialization);
          targetAgent = nullish (di_targetAgent input) (optional_field current dr_targetAgent);
          verificationRequest = nullish (di_verificationRequest input)
                                  (optional_field current dr_verificationRequest)
      in if targetAgent \<noteq> None \<and> specialization = None
         then Inl (Error ''Delegation targetAgent requires specialization.'')
         else Inr
           \<lparr>dr_id = di_id input,
            dr_taskId = di_taskId input,
            dr_workerId = di_workerId input,
            dr_instruction = di_instruction input,
            dr_fromAgent = nullish (di_fromAgent input) (optional_field current dr_fromAgent),
            dr_contextSnapshot =
              nullish (di_contextSnapshot input) (optional_field current dr_contextSnapshot),
            dr_specialization = specialization,
            dr_targetAgent = targetAgent,
            dr_verificationRequest =
              map_option cloneDelegationVerificationRequest verificationRequest,
            dr_resultSummary =
              nullish (di_resultSummary input) (optional_field current dr_resultSummary),
            dr_observedWriteSet =
              (case di_observedWriteSet input of
                 None \<Rightarrow> optional_field current dr_observedWriteSet
               | Some values \<Rightarrow> Some (normalizeWriteSet values)),
            dr_observedWriteSetSource =
              nullish (di_observedWriteSetSource input)
                (optional_field current dr_observedWriteSetSource),
            dr_status = status,
            dr_createdAtMs = nullish_else (map_option dr_createdAtMs current) timestamp,
            dr_updatedAtMs = timestamp,
            dr_completedAtMs = (if terminal_delegation status then Some timestamp else None),
            dr_error = di_error input\<rparr>)"

text \<open>The record \<open>setDelegationStatus\<close> builds: the spread of the current one, with every property
  that the update defines.\<close>

definition delegation_with_status ::
  "delegation_status_update \<Rightarrow> delegation_record \<Rightarrow> int \<Rightarrow> delegation_record" where
  "delegation_with_status input current timestamp =
     current\<lparr>dr_status := du_status input,
             dr_updatedAtMs := timestamp,
             dr_resultSummary := nullish (du_resultSummary input) (dr_resultSummary current),
             dr_observedWriteSet :=
               (case du_observedWriteSet input of
                  None \<Rightarrow> dr_observedWriteSet current
                | Some values \<Rightarrow> Some (normalizeWriteSet values)),
             dr_observedWriteSetSource :=
               nullish (du_observedWriteSetSource input) (dr_observedWriteSetSource current),
             dr_completedAtMs :=
               (if terminal_delegation (du_status input) then Some timestamp
                else dr_completedAtMs current),
             dr_error := nullish (du_error input) (dr_error current)\<rparr>"

definition buildVerificationRecord ::
  "verification_input \<Rightarrow> verification_record option \<Rightarrow> int \<Rightarrow> verification_record" where
  "buildVerificationRecord input current timestamp =
     (let status = nullish_else (vi_status input)
                     (nullish_else (map_option vr_status current) VPending)
      in \<lparr>vr_id = vi_id input,
          vr_taskId = nullish (vi_taskId input) (optional_field current vr_taskId),
          vr_verifierId = vi_verifierId input,
          vr_verifiedBy =
            nullish (vi_verifiedBy input)
              (nullish (optional_field current vr_verifiedBy)
                (if status = VPending then None else Some (vi_verifierId input))),
          vr_requirement = vi_requirement input,
          vr_status = status,
          vr_verdict =
            nullish (vi_verdict input)
              (nullish (optional_field current vr_verdict) (inferVerificationVerdict status)),
          vr_verdictSummary =
            nullish (vi_verdictSummary input) (optional_field current vr_verdictSummary),
          vr_checks =
            (case vi_checks input of
               None \<Rightarrow> optional_field current vr_checks
             | Some checks \<Rightarrow> Some (cloneVerificationChecks checks)),
          vr_createdAtMs = nullish_else (map_option vr_createdAtMs current) timestamp,
          vr_updatedAtMs = timestamp\<rparr>)"

definition buildProposalRecord :: "proposal_input \<Rightarrow> int \<Rightarrow> proposal_record" where
  "buildProposalRecord input timestamp =
     \<lparr>pr_id = pi_id input, pr_kind = pi_kind input, pr_payload = pi_payload input,
      pr_status = PPending, pr_schemaVersion = CONTRACTS_SCHEMA_VERSION,
      pr_sourceSessionId = pi_sourceSessionId input, pr_sourceTurnId = pi_sourceTurnId input,
      pr_provenance = pi_provenance input, pr_createdAtMs = timestamp,
      pr_updatedAtMs = timestamp, pr_expiresAtMs = pi_expiresAtMs input,
      pr_decisionNote = None\<rparr>"

section \<open>Notifications\<close>

type_synonym notification_update =
  "notification_record list \<times> task_journal_entry list"

definition same_pending_notice :: "notification_record option \<Rightarrow> notification_record \<Rightarrow> bool" where
  "same_pending_notice existing record =
     (case existing of
        None \<Rightarrow> False
      | Some e \<Rightarrow> nr_status e = NPending \<and> nr_recipientId e = nr_recipientId record \<and>
                  nr_summary e = nr_summary record)"

text \<open>The two branches that \<open>updateDelegationNotifications\<close> and \<open>updateVerificationNotifications\<close>
  share: storing a pending record, and acknowledging the existing one for a reason.\<close>

definition notify_pending ::
  "notification_record list \<Rightarrow> notification_record option \<Rightarrow> notification_record \<Rightarrow> int \<Rightarrow>
   js_error + notification_update" where
  "notify_pending notifications existing record timestamp =
     (case createTaskJournalEntry
             (NotificationEmitted
               \<lparr>np_record = record, np_updatedAtMs = timestamp, np_opId = None, np_actor = None\<rparr>)
             timestamp None None of
        Inl e \<Rightarrow> Inl e
      | Inr emitted \<Rightarrow>
          Inr (replaceRecordById nr_id notifications record,
               if same_pending_notice existing record then [] else [emitted]))"

definition notify_acknowledged ::
  "notification_record list \<Rightarrow> notification_record option \<Rightarrow> string \<Rightarrow> int \<Rightarrow>
   js_error + notification_update" where
  "notify_acknowledged notifications existing reason timestamp =
     (case existing of
        None \<Rightarrow> Inr (notifications, [])
      | Some e \<Rightarrow>
          (if nr_status e = NAcknowledged then Inr (notifications, [])
           else let acknowledged =
                      e\<lparr>nr_status := NAcknowledged, nr_updatedAtMs := timestamp,
                        nr_acknowledgedAtMs := Some timestamp\<rparr>
                in case createTaskJournalEntry
                          (NotificationStatusSet
                            \<lparr>np_record = acknowledged, np_updatedAtMs = timestamp, np_opId = None,
                             np_actor = None, np_fromStatus = Some (nr_status e),
                             np_toStatus = Some NAcknowledged, np_reason = Some reason\<rparr>)
                          timestamp None None of
                     Inl err \<Rightarrow> Inl err
                   | Inr entry \<Rightarrow>
                       Inr (replaceRecordById nr_id notifications acknowledged, [entry])))"

definition delegation_notice ::
  "notification_record option \<Rightarrow> delegation_record \<Rightarrow> int \<Rightarrow> notification_record" where
  "delegation_notice existing record timestamp =
     \<lparr>nr_id = buildDelegationNotificationId (dr_id record),
      nr_kind = DelegationAssigned,
      nr_recipientKind = Worker,
      nr_recipientId = dr_workerId record,
      nr_status = NPending,
      nr_summary = ''Delegation '' @ dr_id record @ '' is queued for worker ''
                     @ dr_workerId record @ ''.'',
      nr_taskId = dr_taskId record,
      nr_delegationId = Some (dr_id record),
      nr_verificationId = None,
      nr_createdAtMs = nullish_else (map_option nr_createdAtMs existing) timestamp,
      nr_updatedAtMs = timestamp,
      nr_acknowledgedAtMs = None\<rparr>"

definition verification_notice ::
  "notification_record option \<Rightarrow> verification_record \<Rightarrow> int \<Rightarrow> notification_record" where
  "verification_notice existing record timestamp =
     \<lparr>nr_id = buildVerificationNotificationId (vr_id record),
      nr_kind = VerificationRequested,
      nr_recipientKind = Verifier,
      nr_recipientId = vr_verifierId record,
      nr_status = NPending,
      nr_summary = ''Verification '' @ vr_id record @ '' is pending for verifier ''
                     @ vr_verifierId record @ ''.'',
      nr_taskId = vr_taskId record,
      nr_delegationId = None,
      nr_verificationId = Some (vr_id record),
      nr_createdAtMs = nullish_else (map_option nr_createdAtMs existing) timestamp,
      nr_updatedAtMs = timestamp,
      nr_acknowledgedAtMs = None\<rparr>"

definition updateDelegationNotifications ::
  "notification_record list \<Rightarrow> delegation_record \<Rightarrow> int \<Rightarrow> string option \<Rightarrow>
   js_error + notification_update" where
  "updateDelegationNotifications notifications record timestamp reason =
     (let notificationId = buildDelegationNotificationId (dr_id record);
          existing = find_by_id nr_id notifications notificationId
      in if dr_status record = DQueued
         then notify_pending notifications existing
                (delegation_notice existing record timestamp) timestamp
         else notify_acknowledged notifications existing
                (nullish_else reason
                  (if dr_status record = DRunning then ''delegation_claimed''
                   else ''delegation_status_'' @ delegation_status_str (dr_status record)))
                timestamp)"

definition updateVerificationNotifications ::
  "notification_record list \<Rightarrow> verification_record \<Rightarrow> int \<Rightarrow> js_error + notification_update" where
  "updateVerificationNotifications notifications record timestamp =
     (let notificationId = buildVerificationNotificationId (vr_id record);
          existing = find_by_id nr_id notifications notificationId
      in if vr_status record = VPending
         then notify_pending notifications existing
                (verification_notice existing record timestamp) timestamp
         else notify_acknowledged notifications existing
                (''verification_status_'' @ verification_status_str (vr_status record)) timestamp)"

section \<open>Journal of the board\<close>

definition recordJournalEntry :: "task_journal_entry \<Rightarrow> board \<Rightarrow> unit outcome" where
  "recordJournalEntry entry b =
     (case cloneTaskJournalEntry entry of
        Inl e \<Rightarrow> (Inl e, b)
      | Inr copy \<Rightarrow> (Inr (), b\<lparr>tb_journal := tb_journal b @ [copy]\<rparr>))"

fun recordNotificationEvents :: "task_journal_entry list \<Rightarrow> board \<Rightarrow> unit outcome" where
  "recordNotificationEvents [] b = (Inr (), b)"
| "recordNotificationEvents (event # events) b =
     and_then (recordJournalEntry event b) (\<lambda>_ b'. recordNotificationEvents events b')"

text \<open>\<open>this.recordJournalEntry(createTaskJournalEntry({ ... }))\<close>\<close>

definition record_event :: "task_event_payload \<Rightarrow> int \<Rightarrow> board \<Rightarrow> unit outcome" where
  "record_event payload timestamp b =
     (case createTaskJournalEntry payload timestamp None None of
        Inl e \<Rightarrow> (Inl e, b)
      | Inr entry \<Rightarrow> recordJournalEntry entry b)"

fun clone_entries :: "task_journal_entry list \<Rightarrow> js_error + task_journal_entry list" where
  "clone_entries [] = Inr []"
| "clone_entries (entry # entries) =
     (case cloneTaskJournalEntry entry of
        Inl e \<Rightarrow> Inl e
      | Inr copy \<Rightarrow>
          (case clone_entries entries of Inl e \<Rightarrow> Inl e | Inr copies \<Rightarrow> Inr (copy # copies)))"

definition snapshotJournal :: "board \<Rightarrow> js_error + task_journal_entry list" where
  "snapshotJournal b = clone_entries (tb_journal b)"

definition drainJournal :: "int option \<Rightarrow> board \<Rightarrow> task_journal_entry list outcome" where
  "drainJournal limit b =
     (let max = nullish_else limit (int (length (tb_journal b)))
      in if max \<le> 0 \<or> tb_journal b = [] then (Inr [], b)
         else let drained = take (nat max) (tb_journal b)
              in (clone_entries drained,
                  b\<lparr>tb_journal := drop (length drained) (tb_journal b)\<rparr>))"

section \<open>Operations\<close>

definition newTaskBoard ::
  "task_seed \<Rightarrow> (nat \<Rightarrow> int) \<Rightarrow> (outbox_id_request \<Rightarrow> string) option \<Rightarrow> board" where
  "newTaskBoard seed clock factory =
     \<lparr>tb_state = createInitialTaskOperationsState seed, tb_journal = [], tb_clock = clock,
      tb_ticks = 0, tb_outboxId = nullish_else factory defaultOutboxEntryIdFactory\<rparr>"

definition snapshot :: "board \<Rightarrow> task_state" where
  "snapshot b = cloneTaskState (os_todos (tb_state b))"

definition snapshotOperations :: "board \<Rightarrow> task_operations_state" where
  "snapshotOperations b = cloneTaskOperationsState (tb_state b)"

definition set_board_state :: "task_operations_state \<Rightarrow> board \<Rightarrow> board" where
  "set_board_state s b = b\<lparr>tb_state := materializeTaskOperationsState s\<rparr>"

definition writeTodos :: "task_item list \<Rightarrow> board \<Rightarrow> task_state outcome" where
  "writeTodos items b =
     (let timestamp = board_now b;
          todos = \<lparr>ts_items = cloneItems items, ts_updatedAtMs = Some timestamp\<rparr>;
          b = set_board_state
                ((tb_state b)\<lparr>os_todos := todos, os_updatedAtMs := Some timestamp\<rparr>) (tick b)
      in and_then (record_event (TodoWrite todos) timestamp b) (\<lambda>_ b. (Inr (snapshot b), b)))"

definition upsertDelegation ::
  "delegation_record_input \<Rightarrow> board \<Rightarrow> task_operations_state outcome" where
  "upsertDelegation input b =
     (let timestamp = board_now b;
          current = find_by_id dr_id (os_delegation (tb_state b)) (di_id input);
          b = tick b
      in case buildDelegationRecord input current timestamp of
           Inl e \<Rightarrow> (Inl e, b)
         | Inr next \<Rightarrow>
       (case updateDelegationNotifications (notifications_of (tb_state b)) next timestamp None of
           Inl e \<Rightarrow> (Inl e, b)
         | Inr (notes, events) \<Rightarrow>
             (let b = set_board_state
                        ((tb_state b)\<lparr>os_delegation :=
                                        replaceRecordById dr_id (os_delegation (tb_state b)) next,
                                      os_notifications := Some notes,
                                      os_updatedAtMs := Some timestamp\<rparr>) b
              in and_then
                   (record_event
                     (DelegationUpserted \<lparr>dp_record = next, dp_updatedAtMs = timestamp,
                                          dp_opId = None, dp_actor = None\<rparr>) timestamp b)
                   (\<lambda>_ b. and_then (recordNotificationEvents events b)
                     (\<lambda>_ b. (Inr (snapshotOperations b), b))))))"

definition setDelegationStatus ::
  "delegation_status_update \<Rightarrow> board \<Rightarrow> task_operations_state outcome" where
  "setDelegationStatus input b =
     (case find_by_id dr_id (os_delegation (tb_state b)) (du_id input) of
        None \<Rightarrow> (Inl (Error (''Unknown delegation record: '' @ du_id input)), b)
      | Some current \<Rightarrow>
          (let timestamp = board_now b;
               b = tick b;
               next = delegation_with_status input current timestamp
           in case updateDelegationNotifications (notifications_of (tb_state b)) next timestamp
                     (du_reason input) of
                Inl e \<Rightarrow> (Inl e, b)
              | Inr (notes, events) \<Rightarrow>
                  (let b = set_board_state
                             ((tb_state b)\<lparr>os_delegation :=
                                replaceRecordById dr_id (os_delegation (tb_state b)) next,
                                           os_notifications := Some notes,
                                           os_updatedAtMs := Some timestamp\<rparr>) b
                   in and_then
                        (record_event
                          (DelegationStatusSet
                            \<lparr>dp_record = next, dp_updatedAtMs = timestamp, dp_opId = None,
                             dp_actor = None, dp_fromStatus = Some (dr_status current),
                             dp_toStatus = Some (du_status input),
                             dp_reason = du_reason input\<rparr>) timestamp b)
                        (\<lambda>_ b. and_then (recordNotificationEvents events b)
                          (\<lambda>_ b. (Inr (snapshotOperations b), b))))))"

definition upsertVerification ::
  "verification_input \<Rightarrow> board \<Rightarrow> task_operations_state outcome" where
  "upsertVerification input b =
     (let timestamp = board_now b;
          current = find_by_id vr_id (os_verification (tb_state b)) (vi_id input);
          b = tick b;
          next = buildVerificationRecord input current timestamp
      in case updateVerificationNotifications (notifications_of (tb_state b)) next timestamp of
           Inl e \<Rightarrow> (Inl e, b)
         | Inr (notes, events) \<Rightarrow>
             (let b = set_board_state
                        ((tb_state b)\<lparr>os_verification :=
                                        replaceRecordById vr_id (os_verification (tb_state b)) next,
                                      os_notifications := Some notes,
                                      os_updatedAtMs := Some timestamp\<rparr>) b
              in and_then
                   (record_event
                     (VerificationUpserted \<lparr>vp_record = next, vp_updatedAtMs = timestamp,
                                            vp_opId = None, vp_actor = None\<rparr>) timestamp b)
                   (\<lambda>_ b. and_then (recordNotificationEvents events b)
                     (\<lambda>_ b. (Inr (snapshotOperations b), b)))))"

definition createOutboxEntry ::
  "outbox_event_type \<Rightarrow> string \<Rightarrow> proposal_status \<Rightarrow> int \<Rightarrow> board \<Rightarrow> outbox_entry" where
  "createOutboxEntry eventType proposalId status timestamp b =
     \<lparr>oe_id =
        buildStableOutboxEntryId
          (tb_outboxId b
            \<lparr>oq_eventType = eventType, oq_proposalId = proposalId, oq_status = status,
             oq_createdAtMs = timestamp,
             oq_existingEntryIds = map oe_id (os_proposalOutbox (tb_state b))\<rparr>)
          (os_proposalOutbox (tb_state b)),
      oe_eventType = eventType, oe_proposalId = proposalId, oe_status = status,
      oe_schemaVersion = CONTRACTS_SCHEMA_VERSION, oe_createdAtMs = timestamp\<rparr>"

definition enqueueProposal :: "proposal_input \<Rightarrow> board \<Rightarrow> task_operations_state outcome" where
  "enqueueProposal input b =
     (if \<exists>proposal \<in> set (os_proposalQueue (tb_state b)). pr_id proposal = pi_id input
      then (Inl (Error (''Duplicate proposal id: '' @ pi_id input)), b)
      else
        (let timestamp = board_now b;
             b = tick b;
             next = buildProposalRecord input timestamp;
             outboxEntry = createOutboxEntry ProposalEnqueued (pi_id input) PPending timestamp b;
             b = set_board_state
                   ((tb_state b)\<lparr>os_proposalQueue := os_proposalQueue (tb_state b) @ [next],
                                 os_proposalOutbox :=
                                   os_proposalOutbox (tb_state b) @ [outboxEntry],
                                 os_updatedAtMs := Some timestamp\<rparr>) b
         in and_then
              (record_event
                (ProposalEnqueuedEvent
                  \<lparr>pp_proposal = next, pp_outboxEntry = outboxEntry, pp_updatedAtMs = timestamp,
                   pp_opId = None, pp_actor = None\<rparr>) timestamp b)
              (\<lambda>_ b. (Inr (snapshotOperations b), b))))"

definition transitionProposal ::
  "proposal_transition \<Rightarrow> board \<Rightarrow> task_operations_state outcome" where
  "transitionProposal input b =
     (case find_by_id pr_id (os_proposalQueue (tb_state b)) (pt_proposalId input) of
        None \<Rightarrow> (Inl (Error (''Unknown proposal: '' @ pt_proposalId input)), b)
      | Some current \<Rightarrow>
          (if \<not> canTransitionProposalStatus (pr_status current) (pt_status input)
           then (Inl (Error (''Invalid proposal transition: ''
                   @ proposal_status_str (pr_status current) @ '' -> ''
                   @ proposal_status_str (pt_status input))), b)
           else if pr_status current = pt_status input then (Inr (snapshotOperations b), b)
           else
             (let timestamp = board_now b;
                  b = tick b;
                  next = current\<lparr>pr_status := pt_status input, pr_updatedAtMs := timestamp,
                                 pr_decisionNote :=
                                   nullish (pt_decisionNote input) (pr_decisionNote current)\<rparr>;
                  outboxEntry =
                    createOutboxEntry ProposalStatusChanged (pt_proposalId input)
                      (pt_status input) timestamp b;
                  b = set_board_state
                        ((tb_state b)\<lparr>os_proposalQueue :=
                           replaceRecordById pr_id (os_proposalQueue (tb_state b)) next,
                                      os_proposalOutbox :=
                                        os_proposalOutbox (tb_state b) @ [outboxEntry],
                                      os_updatedAtMs := Some timestamp\<rparr>) b
              in and_then
                   (record_event
                     (ProposalTransitioned
                       \<lparr>pp_proposal = next, pp_outboxEntry = outboxEntry,
                        pp_updatedAtMs = timestamp, pp_opId = None, pp_actor = None,
                        pp_fromStatus = Some (pr_status current),
                        pp_toStatus = Some (pt_status input)\<rparr>) timestamp b)
                   (\<lambda>_ b. (Inr (snapshotOperations b), b)))))"

definition getProposal :: "string \<Rightarrow> board \<Rightarrow> proposal_record option" where
  "getProposal proposalId b =
     find_by_id pr_id (os_proposalQueue (snapshotOperations b)) proposalId"

definition applyProposal :: "string \<Rightarrow> board \<Rightarrow> task_operations_state outcome" where
  "applyProposal proposalId b =
     (case find_by_id pr_id (os_proposalQueue (tb_state b)) proposalId of
        None \<Rightarrow> (Inl (Error (''Unknown proposal: '' @ proposalId)), b)
      | Some proposal \<Rightarrow>
          (if pr_status proposal \<noteq> PAccepted
           then (Inl (Error (''Proposal must be accepted before apply: '' @ proposalId)), b)
           else if pr_kind proposal \<noteq> ''tasks.todo_write''
           then (Inl (Error (''Unsupported proposal kind for safe apply: '' @ pr_kind proposal)), b)
           else
             (case map_option te_payload
                     (decodeTaskEvent ''tasks.todo_write'' (JObj (pr_payload proposal)) None) of
                Some (TodoWrite payload) \<Rightarrow>
                  and_then (writeTodos (ts_items payload) b)
                    (\<lambda>_ b. transitionProposal
                       \<lparr>pt_proposalId = proposalId, pt_status = PApplied,
                        pt_decisionNote = None\<rparr> b)
              | _ \<Rightarrow>
                  (Inl (Error (''Invalid tasks.todo_write proposal payload: '' @ proposalId)), b))))"

definition drainProposalOutbox :: "int option \<Rightarrow> board \<Rightarrow> outbox_entry list outcome" where
  "drainProposalOutbox limit b =
     (let max = nullish_else limit (int (length (os_proposalOutbox (tb_state b))))
      in if max \<le> 0 \<or> os_proposalOutbox (tb_state b) = [] then (Inr [], b)
         else
           (let drained = take (nat max) (os_proposalOutbox (tb_state b));
                timestamp = board_now b;
                b = set_board_state
                      ((tb_state b)\<lparr>os_proposalOutbox :=
                         drop (length drained) (os_proposalOutbox (tb_state b)),
                                    os_updatedAtMs := Some timestamp\<rparr>) (tick b)
            in and_then
                 (record_event
                   (ProposalOutboxDrained
                     \<lparr>od_drainedIds = map oe_id drained, od_drainedAtMs = timestamp,
                      od_drained = None, od_updatedAtMs = Some timestamp, od_drainBatchId = None,
                      od_opId = None, od_actor = None\<rparr>) timestamp b)
                 (\<lambda>_ b. (Inr (map cloneProposalOutboxEntry drained), b))))"

definition answerFirstStep :: "board \<Rightarrow> string option" where
  "answerFirstStep b =
     (case ts_items (os_todos (tb_state b)) of [] \<Rightarrow> None | item # _ \<Rightarrow> Some (ti_content item))"

end
