(* ===== verification/Task_Board_Laws.thy ===== *)
theory Task_Board_Laws
  imports Task_Board
begin

text \<open>
  What the operations of \<open>task-board.ts\<close> do: the closed form of each (one commit of a new
  state, the journal entries it appends, one reading of the clock), the notifications that an
  upsert leaves behind, and the invariant that every operation keeps.
\<close>

section \<open>Committing\<close>

definition commit :: "task_operations_state \<Rightarrow> task_journal_entry list \<Rightarrow> board \<Rightarrow> board" where
  "commit s entries b =
     b\<lparr>tb_state := materializeTaskOperationsState s, tb_journal := tb_journal b @ entries,
       tb_ticks := tb_ticks b + 1\<rparr>"

lemma commit_fields [simp]:
  "tb_state (commit s es b) = materializeTaskOperationsState s"
  "tb_journal (commit s es b) = tb_journal b @ es"
  "tb_clock (commit s es b) = tb_clock b"
  "tb_ticks (commit s es b) = Suc (tb_ticks b)"
  "tb_outboxId (commit s es b) = tb_outboxId b"
  by (simp_all add: commit_def)

lemma snapshotOperations_commit [simp]:
  "snapshotOperations (commit s es b) = materializeTaskOperationsState s"
  by (simp add: snapshotOperations_def cloneTaskOperationsState_def)

lemma record_event_wf [simp]:
  "wf_payload p \<Longrightarrow> record_event p t b = (Inr (), b\<lparr>tb_journal := tb_journal b @ [mk_entry p t]\<rparr>)"
  by (simp add: record_event_def recordJournalEntry_def cloneTaskJournalEntry_wf)

lemma recordNotificationEvents_wf [simp]:
  "(\<And>e. e \<in> set es \<Longrightarrow> wf_entry e) \<Longrightarrow>
   recordNotificationEvents es b = (Inr (), b\<lparr>tb_journal := tb_journal b @ es\<rparr>)"
proof (induction es arbitrary: b)
  case Nil
  then show ?case by simp
next
  case (Cons e es)
  then show ?case by (simp add: recordJournalEntry_def cloneTaskJournalEntry_wf)
qed

lemma clone_entries_wf: "(\<And>e. e \<in> set es \<Longrightarrow> wf_entry e) \<Longrightarrow> clone_entries es = Inr es"
  by (induction es) (auto simp: cloneTaskJournalEntry_wf)

section \<open>Notification updates\<close>

text \<open>The two branches never throw, because their payloads are well formed.\<close>

definition acknowledged_notice :: "int \<Rightarrow> notification_record \<Rightarrow> notification_record" where
  "acknowledged_notice timestamp e =
     (if nr_status e = NAcknowledged then e
      else e\<lparr>nr_status := NAcknowledged, nr_updatedAtMs := timestamp,
             nr_acknowledgedAtMs := Some timestamp\<rparr>)"

lemma acknowledged_notice_id [simp]: "nr_id (acknowledged_notice t e) = nr_id e"
  by (simp add: acknowledged_notice_def)

definition emitted_entry :: "notification_record \<Rightarrow> int \<Rightarrow> task_journal_entry" where
  "emitted_entry record t =
     mk_entry (NotificationEmitted
       \<lparr>np_record = record, np_updatedAtMs = t, np_opId = None, np_actor = None\<rparr>) t"

definition status_entry :: "notification_record \<Rightarrow> string \<Rightarrow> int \<Rightarrow> task_journal_entry" where
  "status_entry e reason t =
     mk_entry (NotificationStatusSet
       \<lparr>np_record = acknowledged_notice t e, np_updatedAtMs = t, np_opId = None, np_actor = None,
        np_fromStatus = Some (nr_status e), np_toStatus = Some NAcknowledged,
        np_reason = Some reason\<rparr>) t"

lemma wf_notification_entries [simp]:
  "wf_entry (emitted_entry n t)" "wf_entry (status_entry n r t)"
  by (simp_all add: emitted_entry_def status_entry_def)

lemma notify_pending_eq:
  "notify_pending ns existing record t =
     Inr (replaceRecordById nr_id ns record,
          if same_pending_notice existing record then [] else [emitted_entry record t])"
  by (simp add: notify_pending_def emitted_entry_def)

lemma notify_acknowledged_eq:
  "notify_acknowledged ns existing reason t =
     Inr (case existing of
            None \<Rightarrow> (ns, [])
          | Some e \<Rightarrow>
              if nr_status e = NAcknowledged then (ns, [])
              else (replaceRecordById nr_id ns (acknowledged_notice t e), [status_entry e reason t]))"
  by (simp add: notify_acknowledged_def status_entry_def acknowledged_notice_def Let_def
      split: option.splits)

text \<open>Both update functions have one shape: a notice with a fixed id is stored while the record
  is open, and the stored one is acknowledged when it is not.\<close>

definition update_notice ::
  "bool \<Rightarrow> (notification_record option \<Rightarrow> notification_record) \<Rightarrow> string \<Rightarrow> string \<Rightarrow>
   notification_record list \<Rightarrow> int \<Rightarrow> notification_update" where
  "update_notice open_record notice k reason ns t =
     (let existing = find_by_id nr_id ns k
      in if open_record
         then (replaceRecordById nr_id ns (notice existing),
               if same_pending_notice existing (notice existing) then []
               else [emitted_entry (notice existing) t])
         else (case existing of
                 None \<Rightarrow> (ns, [])
               | Some e \<Rightarrow>
                   if nr_status e = NAcknowledged then (ns, [])
                   else (replaceRecordById nr_id ns (acknowledged_notice t e),
                         [status_entry e reason t])))"

abbreviation delegation_reason :: "delegation_record \<Rightarrow> string option \<Rightarrow> string" where
  "delegation_reason d reason \<equiv>
     nullish_else reason
       (if dr_status d = DRunning then ''delegation_claimed''
        else ''delegation_status_'' @ delegation_status_str (dr_status d))"

lemma updateDelegationNotifications_eq:
  "updateDelegationNotifications ns d t reason =
     Inr (update_notice (dr_status d = DQueued) (\<lambda>existing. delegation_notice existing d t)
            (buildDelegationNotificationId (dr_id d)) (delegation_reason d reason) ns t)"
  by (simp add: updateDelegationNotifications_def update_notice_def Let_def notify_pending_eq
      notify_acknowledged_eq)

lemma updateVerificationNotifications_eq:
  "updateVerificationNotifications ns v t =
     Inr (update_notice (vr_status v = VPending) (\<lambda>existing. verification_notice existing v t)
            (buildVerificationNotificationId (vr_id v))
            (''verification_status_'' @ verification_status_str (vr_status v)) ns t)"
  by (simp add: updateVerificationNotifications_def update_notice_def Let_def notify_pending_eq
      notify_acknowledged_eq)

lemma update_notice_wf: "e \<in> set (snd (update_notice op f k r ns t)) \<Longrightarrow> wf_entry e"
  by (auto simp: update_notice_def Let_def split: if_splits option.splits)

lemma update_notice_distinct:
  "distinct (map nr_id ns) \<Longrightarrow> distinct (map nr_id (fst (update_notice op f k r ns t)))"
  by (auto simp: update_notice_def Let_def notifications.put_distinct split: option.splits)

lemma update_notice_find:
  assumes "\<And>existing. nr_id (f existing) = k"
  shows "find_by_id nr_id (fst (update_notice op f k r ns t)) j =
     (if j \<noteq> k then find_by_id nr_id ns j
      else if op then Some (f (find_by_id nr_id ns k))
      else map_option (acknowledged_notice t) (find_by_id nr_id ns k))"
proof -
  have "find_by_id nr_id ns k = Some e \<Longrightarrow> nr_id e = k" for e
    using notifications.get_Some by blast
  with assms show ?thesis
    by (auto simp: update_notice_def Let_def notifications.get_put acknowledged_notice_def
        split: option.splits)
qed

section \<open>The operations in closed form\<close>

lemma set_board_state_tick:
  "set_board_state s (tick b) = commit s [] b"
  by (simp add: set_board_state_def tick_def commit_def)

lemma commit_journal:
  "(commit s es b)\<lparr>tb_journal := tb_journal b @ fs\<rparr> = commit s fs b"
  by (simp add: commit_def)

lemma tick_fields [simp]:
  "tb_state (tick b) = tb_state b" "tb_journal (tick b) = tb_journal b"
  "tb_clock (tick b) = tb_clock b" "tb_outboxId (tick b) = tb_outboxId b"
  "tb_ticks (tick b) = Suc (tb_ticks b)"
  by (simp_all add: tick_def)

lemma createOutboxEntry_tick [simp]: "createOutboxEntry e p s t (tick b) = createOutboxEntry e p s t b"
  by (simp add: createOutboxEntry_def)

definition written_todos :: "task_item list \<Rightarrow> board \<Rightarrow> task_state" where
  "written_todos items b = \<lparr>ts_items = items, ts_updatedAtMs = Some (board_now b)\<rparr>"

lemma cloneItems_id [simp]: "cloneItems items = items"
  by (simp add: cloneItems_def)

lemma writeTodos_eq:
  "writeTodos items b =
     (Inr (written_todos items b),
      commit ((tb_state b)\<lparr>os_todos := written_todos items b,
                           os_updatedAtMs := Some (board_now b)\<rparr>)
        [mk_entry (TodoWrite (written_todos items b)) (board_now b)] b)"
  by (simp add: writeTodos_def Let_def written_todos_def set_board_state_tick commit_journal
      snapshot_def clone_simps)

definition store_delegation ::
  "delegation_record \<Rightarrow> notification_record list \<Rightarrow> int \<Rightarrow> task_operations_state \<Rightarrow>
   task_operations_state" where
  "store_delegation d notes t s =
     s\<lparr>os_delegation := replaceRecordById dr_id (os_delegation s) d,
       os_notifications := Some notes, os_updatedAtMs := Some t\<rparr>"

lemma store_delegation_fields [simp]:
  "os_delegation (store_delegation d notes t s) = replaceRecordById dr_id (os_delegation s) d"
  "os_notifications (store_delegation d notes t s) = Some notes"
  "notifications_of (store_delegation d notes t s) = notes"
  "os_verification (store_delegation d notes t s) = os_verification s"
  "os_proposalQueue (store_delegation d notes t s) = os_proposalQueue s"
  "os_proposalOutbox (store_delegation d notes t s) = os_proposalOutbox s"
  "os_todos (store_delegation d notes t s) = os_todos s"
  "os_schemaVersion (store_delegation d notes t s) = os_schemaVersion s"
  "os_updatedAtMs (store_delegation d notes t s) = Some t"
  by (simp_all add: store_delegation_def notifications_of_def)

definition delegation_update ::
  "delegation_record \<Rightarrow> string option \<Rightarrow> board \<Rightarrow> notification_update" where
  "delegation_update d reason b =
     update_notice (dr_status d = DQueued) (\<lambda>existing. delegation_notice existing d (board_now b))
       (buildDelegationNotificationId (dr_id d)) (delegation_reason d reason)
       (notifications_of (tb_state b)) (board_now b)"

lemma updateDelegationNotifications_board:
  "updateDelegationNotifications (notifications_of (tb_state b)) d (board_now b) reason =
     Inr (delegation_update d reason b)"
  by (simp only: updateDelegationNotifications_eq delegation_update_def)

lemma delegation_update_wf [simp]: "e \<in> set (snd (delegation_update d r b)) \<Longrightarrow> wf_entry e"
  unfolding delegation_update_def by (rule update_notice_wf)

lemma buildDelegationRecord_wf:
  "buildDelegationRecord input current t = Inr d \<Longrightarrow> wf_delegation d"
  by (auto simp: buildDelegationRecord_def wf_delegation_def Let_def split: if_splits)

lemma buildDelegationRecord_id:
  "buildDelegationRecord input current t = Inr d \<Longrightarrow> dr_id d = di_id input"
  by (auto simp: buildDelegationRecord_def Let_def split: if_splits)

lemma wf_payload_delegation [simp]:
  "wf_payload (DelegationUpserted \<lparr>dp_record = d, dp_updatedAtMs = t, dp_opId = o1, dp_actor = a\<rparr>)
     \<longleftrightarrow> wf_delegation d"
  "wf_payload (DelegationStatusSet \<lparr>dp_record = d, dp_updatedAtMs = t, dp_opId = o1, dp_actor = a,
       dp_fromStatus = f, dp_toStatus = u, dp_reason = r\<rparr>) \<longleftrightarrow> wf_delegation d"
  by simp_all

lemma upsertDelegation_ok:
  assumes "buildDelegationRecord input
             (find_by_id dr_id (os_delegation (tb_state b)) (di_id input)) (board_now b) = Inr d"
  defines "s \<equiv> store_delegation d (fst (delegation_update d None b)) (board_now b) (tb_state b)"
  shows "upsertDelegation input b =
     (Inr (materializeTaskOperationsState s),
      commit s
        (mk_entry (DelegationUpserted \<lparr>dp_record = d, dp_updatedAtMs = board_now b,
                     dp_opId = None, dp_actor = None\<rparr>) (board_now b)
           # snd (delegation_update d None b)) b)"
  using assms(1) buildDelegationRecord_wf [OF assms(1)]
  by (simp add: upsertDelegation_def Let_def updateDelegationNotifications_board s_def
      store_delegation_def set_board_state_tick commit_journal case_prod_beta)

lemma upsertDelegation_throws:
  assumes "buildDelegationRecord input
             (find_by_id dr_id (os_delegation (tb_state b)) (di_id input)) (board_now b) = Inl e"
  shows "upsertDelegation input b = (Inl e, tick b)"
  using assms by (simp add: upsertDelegation_def Let_def)

lemma delegation_with_status_fields [simp]:
  "dr_id (delegation_with_status input d t) = dr_id d"
  "dr_status (delegation_with_status input d t) = du_status input"
  "dr_workerId (delegation_with_status input d t) = dr_workerId d"
  "dr_taskId (delegation_with_status input d t) = dr_taskId d"
  "dr_createdAtMs (delegation_with_status input d t) = dr_createdAtMs d"
  "wf_delegation (delegation_with_status input d t) = wf_delegation d"
  by (simp_all add: delegation_with_status_def wf_delegation_def)

lemma setDelegationStatus_ok:
  assumes "find_by_id dr_id (os_delegation (tb_state b)) (du_id input) = Some current"
    and "wf_delegation current"
  defines "d \<equiv> delegation_with_status input current (board_now b)"
  defines "s \<equiv> store_delegation d (fst (delegation_update d (du_reason input) b)) (board_now b)
                 (tb_state b)"
  shows "setDelegationStatus input b =
     (Inr (materializeTaskOperationsState s),
      commit s
        (mk_entry (DelegationStatusSet \<lparr>dp_record = d, dp_updatedAtMs = board_now b,
                     dp_opId = None, dp_actor = None, dp_fromStatus = Some (dr_status current),
                     dp_toStatus = Some (du_status input), dp_reason = du_reason input\<rparr>)
                  (board_now b)
           # snd (delegation_update d (du_reason input) b)) b)"
  using assms(1,2)
  by (simp add: setDelegationStatus_def Let_def updateDelegationNotifications_board
      s_def d_def store_delegation_def set_board_state_tick commit_journal case_prod_beta)

definition store_verification ::
  "verification_record \<Rightarrow> notification_record list \<Rightarrow> int \<Rightarrow> task_operations_state \<Rightarrow>
   task_operations_state" where
  "store_verification v notes t s =
     s\<lparr>os_verification := replaceRecordById vr_id (os_verification s) v,
       os_notifications := Some notes, os_updatedAtMs := Some t\<rparr>"

lemma store_verification_fields [simp]:
  "os_verification (store_verification v notes t s) = replaceRecordById vr_id (os_verification s) v"
  "os_notifications (store_verification v notes t s) = Some notes"
  "notifications_of (store_verification v notes t s) = notes"
  "os_delegation (store_verification v notes t s) = os_delegation s"
  "os_proposalQueue (store_verification v notes t s) = os_proposalQueue s"
  "os_proposalOutbox (store_verification v notes t s) = os_proposalOutbox s"
  "os_todos (store_verification v notes t s) = os_todos s"
  "os_schemaVersion (store_verification v notes t s) = os_schemaVersion s"
  "os_updatedAtMs (store_verification v notes t s) = Some t"
  by (simp_all add: store_verification_def notifications_of_def)

definition verification_update :: "verification_record \<Rightarrow> board \<Rightarrow> notification_update" where
  "verification_update v b =
     update_notice (vr_status v = VPending) (\<lambda>existing. verification_notice existing v (board_now b))
       (buildVerificationNotificationId (vr_id v))
       (''verification_status_'' @ verification_status_str (vr_status v))
       (notifications_of (tb_state b)) (board_now b)"

lemma updateVerificationNotifications_board:
  "updateVerificationNotifications (notifications_of (tb_state b)) v (board_now b) =
     Inr (verification_update v b)"
  by (simp only: updateVerificationNotifications_eq verification_update_def)

lemma verification_update_wf [simp]: "e \<in> set (snd (verification_update v b)) \<Longrightarrow> wf_entry e"
  unfolding verification_update_def by (rule update_notice_wf)

definition next_verification :: "verification_input \<Rightarrow> board \<Rightarrow> verification_record" where
  "next_verification input b =
     buildVerificationRecord input
       (find_by_id vr_id (os_verification (tb_state b)) (vi_id input)) (board_now b)"

lemma upsertVerification_eq:
  fixes input b
  defines "v \<equiv> next_verification input b"
  defines "s \<equiv> store_verification v (fst (verification_update v b)) (board_now b) (tb_state b)"
  shows "upsertVerification input b =
     (Inr (materializeTaskOperationsState s),
      commit s
        (mk_entry (VerificationUpserted \<lparr>vp_record = v, vp_updatedAtMs = board_now b,
                     vp_opId = None, vp_actor = None\<rparr>) (board_now b)
           # snd (verification_update v b)) b)"
  by (simp add: upsertVerification_def Let_def next_verification_def [symmetric]
      updateVerificationNotifications_board s_def v_def store_verification_def
      set_board_state_tick commit_journal case_prod_beta)

definition store_proposal ::
  "proposal_record list \<Rightarrow> outbox_entry \<Rightarrow> int \<Rightarrow> task_operations_state \<Rightarrow> task_operations_state"
where
  "store_proposal queue entry t s =
     s\<lparr>os_proposalQueue := queue, os_proposalOutbox := os_proposalOutbox s @ [entry],
       os_updatedAtMs := Some t\<rparr>"

lemma store_proposal_fields [simp]:
  "os_delegation (store_proposal queue entry t s) = os_delegation s"
  "os_verification (store_proposal queue entry t s) = os_verification s"
  "os_notifications (store_proposal queue entry t s) = os_notifications s"
  "notifications_of (store_proposal queue entry t s) = notifications_of s"
  "os_proposalQueue (store_proposal queue entry t s) = queue"
  "os_proposalOutbox (store_proposal queue entry t s) = os_proposalOutbox s @ [entry]"
  "os_todos (store_proposal queue entry t s) = os_todos s"
  "os_schemaVersion (store_proposal queue entry t s) = os_schemaVersion s"
  "os_updatedAtMs (store_proposal queue entry t s) = Some t"
  by (simp_all add: store_proposal_def notifications_of_def)

definition enqueued_entry :: "proposal_input \<Rightarrow> board \<Rightarrow> outbox_entry" where
  "enqueued_entry input b = createOutboxEntry ProposalEnqueued (pi_id input) PPending (board_now b) b"

lemma enqueueProposal_duplicate:
  "pi_id input \<in> pr_id ` set (os_proposalQueue (tb_state b)) \<Longrightarrow>
   enqueueProposal input b = (Inl (Error (''Duplicate proposal id: '' @ pi_id input)), b)"
  by (auto simp: enqueueProposal_def bex_ident_image)

lemma enqueueProposal_ok:
  assumes "pi_id input \<notin> pr_id ` set (os_proposalQueue (tb_state b))"
  defines "p \<equiv> buildProposalRecord input (board_now b)"
  defines "s \<equiv> store_proposal (os_proposalQueue (tb_state b) @ [p]) (enqueued_entry input b)
                 (board_now b) (tb_state b)"
  shows "enqueueProposal input b =
     (Inr (materializeTaskOperationsState s),
      commit s
        [mk_entry (ProposalEnqueuedEvent
           \<lparr>pp_proposal = p, pp_outboxEntry = enqueued_entry input b,
            pp_updatedAtMs = board_now b, pp_opId = None, pp_actor = None\<rparr>) (board_now b)] b)"
  using assms(1)
  by (simp add: enqueueProposal_def bex_ident_image Let_def s_def p_def enqueued_entry_def
      store_proposal_def set_board_state_tick commit_journal)

definition transitioned :: "proposal_transition \<Rightarrow> proposal_record \<Rightarrow> int \<Rightarrow> proposal_record" where
  "transitioned input current t =
     current\<lparr>pr_status := pt_status input, pr_updatedAtMs := t,
             pr_decisionNote := nullish (pt_decisionNote input) (pr_decisionNote current)\<rparr>"

lemma transitioned_fields [simp]:
  "pr_id (transitioned input p t) = pr_id p"
  "pr_status (transitioned input p t) = pt_status input"
  "pr_kind (transitioned input p t) = pr_kind p"
  "pr_payload (transitioned input p t) = pr_payload p"
  by (simp_all add: transitioned_def)

definition transition_entry :: "proposal_transition \<Rightarrow> board \<Rightarrow> outbox_entry" where
  "transition_entry input b =
     createOutboxEntry ProposalStatusChanged (pt_proposalId input) (pt_status input) (board_now b) b"

lemma transitionProposal_unknown:
  "pt_proposalId input \<notin> pr_id ` set (os_proposalQueue (tb_state b)) \<Longrightarrow>
   transitionProposal input b = (Inl (Error (''Unknown proposal: '' @ pt_proposalId input)), b)"
  by (simp add: transitionProposal_def proposals.get_None [symmetric])

lemma transitionProposal_invalid:
  "find_by_id pr_id (os_proposalQueue (tb_state b)) (pt_proposalId input) = Some p \<Longrightarrow>
   \<not> canTransitionProposalStatus (pr_status p) (pt_status input) \<Longrightarrow>
   transitionProposal input b =
     (Inl (Error (''Invalid proposal transition: '' @ proposal_status_str (pr_status p)
             @ '' -> '' @ proposal_status_str (pt_status input))), b)"
  by (simp add: transitionProposal_def)

lemma transitionProposal_same:
  "find_by_id pr_id (os_proposalQueue (tb_state b)) (pt_proposalId input) = Some p \<Longrightarrow>
   pr_status p = pt_status input \<Longrightarrow>
   transitionProposal input b = (Inr (snapshotOperations b), b)"
  by (simp add: transitionProposal_def canTransitionProposalStatus_def)

lemma transitionProposal_ok:
  assumes "find_by_id pr_id (os_proposalQueue (tb_state b)) (pt_proposalId input) = Some current"
    and "canTransitionProposalStatus (pr_status current) (pt_status input)"
    and "pr_status current \<noteq> pt_status input"
  defines "p \<equiv> transitioned input current (board_now b)"
  defines "s \<equiv> store_proposal (replaceRecordById pr_id (os_proposalQueue (tb_state b)) p)
                 (transition_entry input b) (board_now b) (tb_state b)"
  shows "transitionProposal input b =
     (Inr (materializeTaskOperationsState s),
      commit s
        [mk_entry (ProposalTransitioned
           \<lparr>pp_proposal = p, pp_outboxEntry = transition_entry input b,
            pp_updatedAtMs = board_now b, pp_opId = None, pp_actor = None,
            pp_fromStatus = Some (pr_status current), pp_toStatus = Some (pt_status input)\<rparr>)
          (board_now b)] b)"
  using assms(1-3)
  by (simp add: transitionProposal_def Let_def s_def p_def transition_entry_def transitioned_def
      store_proposal_def set_board_state_tick commit_journal)

definition drained_outbox :: "int \<Rightarrow> board \<Rightarrow> outbox_entry list" where
  "drained_outbox n b = take (nat n) (os_proposalOutbox (tb_state b))"

lemma drainProposalOutbox_none:
  assumes "n = nullish_else limit (int (length (os_proposalOutbox (tb_state b))))"
    and "n \<le> 0 \<or> os_proposalOutbox (tb_state b) = []"
  shows "drainProposalOutbox limit b = (Inr [], b)"
  using assms by (auto simp: drainProposalOutbox_def Let_def)

lemma drainProposalOutbox_ok:
  assumes "n = nullish_else limit (int (length (os_proposalOutbox (tb_state b))))"
    and "0 < n" and "os_proposalOutbox (tb_state b) \<noteq> []"
  shows "drainProposalOutbox limit b =
     (Inr (drained_outbox n b),
      commit ((tb_state b)\<lparr>os_proposalOutbox := drop (nat n) (os_proposalOutbox (tb_state b)),
                           os_updatedAtMs := Some (board_now b)\<rparr>)
        [mk_entry (ProposalOutboxDrained
           \<lparr>od_drainedIds = map oe_id (drained_outbox n b), od_drainedAtMs = board_now b,
            od_drained = None, od_updatedAtMs = Some (board_now b), od_drainBatchId = None,
            od_opId = None, od_actor = None\<rparr>) (board_now b)] b)"
proof -
  have drop: "drop (length (drained_outbox n b)) xs = drop (nat n) xs"
    if "xs = os_proposalOutbox (tb_state b)" for xs
    using that by (simp add: drained_outbox_def min_def)
  show ?thesis
    using assms drop [OF refl]
    by (simp add: drainProposalOutbox_def Let_def drained_outbox_def [symmetric]
        set_board_state_tick commit_journal clone_simps)
qed

text \<open>Applying a proposal is a todo write followed by the transition to applied.\<close>

definition apply_transition :: "string \<Rightarrow> proposal_transition" where
  "apply_transition proposalId =
     \<lparr>pt_proposalId = proposalId, pt_status = PApplied, pt_decisionNote = None\<rparr>"

definition proposal_todos :: "proposal_record \<Rightarrow> task_state option" where
  "proposal_todos p = asTaskTodoWritePayload (JObj (pr_payload p))"

lemma decode_todo_write:
  "map_option te_payload (decodeTaskEvent ''tasks.todo_write'' v None) =
     map_option TodoWrite (asTaskTodoWritePayload v)"
proof -
  have "isTaskEventType ''tasks.todo_write''"
    by (simp add: isTaskEventType_def TASK_EVENT_TYPE_SET_def)
  then show ?thesis
    by (simp add: decodeTaskEvent_def decode_payload_def option.map_comp comp_def)
qed

lemma applyProposal_ok:
  assumes "find_by_id pr_id (os_proposalQueue (tb_state b)) k = Some p"
    and "pr_status p = PAccepted" and "pr_kind p = ''tasks.todo_write''"
    and "proposal_todos p = Some todos"
  shows "applyProposal k b =
     transitionProposal (apply_transition k) (snd (writeTodos (ts_items todos) b))"
  using assms
  by (simp add: applyProposal_def proposal_todos_def apply_transition_def writeTodos_eq
      decode_todo_write)

lemma applyProposal_rejects:
  assumes "find_by_id pr_id (os_proposalQueue (tb_state b)) k = p"
    and "\<forall>q. p = Some q \<longrightarrow>
           \<not> (pr_status q = PAccepted \<and> pr_kind q = ''tasks.todo_write'' \<and> proposal_todos q \<noteq> None)"
  shows "snd (applyProposal k b) = b \<and> (\<exists>message. fst (applyProposal k b) = Inl (Error message))"
  using assms
  by (auto simp: applyProposal_def proposal_todos_def decode_todo_write split: option.splits)

lemma applyProposal_cases:
  obtains (applied) items where "applyProposal k b =
      transitionProposal (apply_transition k) (snd (writeTodos items b))"
  | (rejected) "snd (applyProposal k b) = b"
proof (cases "\<exists>p todos. find_by_id pr_id (os_proposalQueue (tb_state b)) k = Some p \<and>
    pr_status p = PAccepted \<and> pr_kind p = ''tasks.todo_write'' \<and> proposal_todos p = Some todos")
  case True
  then obtain p todos where "find_by_id pr_id (os_proposalQueue (tb_state b)) k = Some p"
    "pr_status p = PAccepted" "pr_kind p = ''tasks.todo_write''" "proposal_todos p = Some todos"
    by blast
  from applyProposal_ok [OF this] show ?thesis by (rule applied)
next
  case False
  then have "snd (applyProposal k b) = b"
    using applyProposal_rejects [OF refl, of b k] by auto
  then show ?thesis by (rule rejected)
qed

end
