(* ===== verification/Task_Board_Invariant.thy ===== *)
theory Task_Board_Invariant
  imports Task_Board_Laws Machines
begin

text \<open>
  The commands a client gives to a task board, and the invariant of the board's state: unique
  ids, decodable delegations, well-shaped notifications, and a notification for every record
  that waits for somebody: the notice of a delegation is pending exactly while the delegation
  is queued, and the notice of a verification exactly while it is pending.
\<close>

section \<open>The invariant\<close>

definition notice_ok :: "notification_record \<Rightarrow> bool" where
  "notice_ok n \<longleftrightarrow>
     (nr_status n = NPending \<longrightarrow> nr_acknowledgedAtMs n = None) \<and>
     (case (nr_delegationId n, nr_verificationId n) of
        (Some d, None) \<Rightarrow>
          nr_id n = buildDelegationNotificationId d \<and> nr_kind n = DelegationAssigned \<and>
          nr_recipientKind n = Worker \<and>
          nr_summary n = ''Delegation '' @ d @ '' is queued for worker '' @ nr_recipientId n @ ''.''
      | (None, Some v) \<Rightarrow>
          nr_id n = buildVerificationNotificationId v \<and> nr_kind n = VerificationRequested \<and>
          nr_recipientKind n = Verifier \<and>
          nr_summary n = ''Verification '' @ v @ '' is pending for verifier ''
                           @ nr_recipientId n @ ''.''
      | _ \<Rightarrow> False)"

definition noticed :: "notification_record list \<Rightarrow> string \<Rightarrow> string \<Rightarrow> bool \<Rightarrow> bool" where
  "noticed ns k recipient open_record \<longleftrightarrow>
     (case find_by_id nr_id ns k of
        None \<Rightarrow> \<not> open_record
      | Some n \<Rightarrow> (nr_status n = NPending \<longleftrightarrow> open_record) \<and>
                  (open_record \<longrightarrow> nr_recipientId n = recipient))"

definition backed :: "task_operations_state \<Rightarrow> notification_record \<Rightarrow> bool" where
  "backed s n \<longleftrightarrow>
     (\<forall>k. nr_delegationId n = Some k \<longrightarrow> k \<in> dr_id ` set (os_delegation s)) \<and>
     (\<forall>k. nr_verificationId n = Some k \<longrightarrow> k \<in> vr_id ` set (os_verification s))"

definition delegation_noticed :: "notification_record list \<Rightarrow> delegation_record \<Rightarrow> bool" where
  "delegation_noticed ns d \<longleftrightarrow>
     noticed ns (buildDelegationNotificationId (dr_id d)) (dr_workerId d) (dr_status d = DQueued)"

definition verification_noticed :: "notification_record list \<Rightarrow> verification_record \<Rightarrow> bool" where
  "verification_noticed ns v \<longleftrightarrow>
     noticed ns (buildVerificationNotificationId (vr_id v)) (vr_verifierId v)
       (vr_status v = VPending)"

definition unique_ids :: "task_operations_state \<Rightarrow> bool" where
  "unique_ids s \<longleftrightarrow>
     distinct (map dr_id (os_delegation s)) \<and> distinct (map vr_id (os_verification s)) \<and>
     distinct (map pr_id (os_proposalQueue s)) \<and> distinct (map nr_id (notifications_of s))"

definition state_inv :: "task_operations_state \<Rightarrow> bool" where
  "state_inv s \<longleftrightarrow>
     materialized s \<and> unique_ids s \<and>
     (\<forall>d \<in> set (os_delegation s). wf_delegation d \<and> delegation_noticed (notifications_of s) d) \<and>
     (\<forall>v \<in> set (os_verification s). verification_noticed (notifications_of s) v) \<and>
     (\<forall>n \<in> set (notifications_of s). notice_ok n \<and> backed s n)"

definition board_inv :: "board \<Rightarrow> bool" where
  "board_inv b \<longleftrightarrow> state_inv (tb_state b) \<and> (\<forall>e \<in> set (tb_journal b). wf_entry e)"

section \<open>Notifications\<close>

lemma notification_ids_disjoint [simp]:
  "buildDelegationNotificationId d \<noteq> buildVerificationNotificationId v"
  "buildVerificationNotificationId v \<noteq> buildDelegationNotificationId d"
  by (simp_all add: buildDelegationNotificationId_def buildVerificationNotificationId_def)

lemma notification_ids_inject [simp]:
  "buildDelegationNotificationId d = buildDelegationNotificationId d' \<longleftrightarrow> d = d'"
  "buildVerificationNotificationId v = buildVerificationNotificationId v' \<longleftrightarrow> v = v'"
  by (simp_all add: buildDelegationNotificationId_def buildVerificationNotificationId_def)

lemma noticed_update_same:
  assumes "\<And>e. nr_id (f e) = k" "\<And>e. nr_status (f e) = NPending" "\<And>e. nr_recipientId (f e) = r"
  shows "noticed (fst (update_notice op f k reason ns t)) k r op"
  using assms(2,3)
  by (auto simp: noticed_def update_notice_find [OF assms(1)] acknowledged_notice_def
      split: option.splits)

lemma noticed_update_other:
  assumes "\<And>e. nr_id (f e) = k" and "j \<noteq> k"
  shows "noticed (fst (update_notice op f k reason ns t)) j r op' = noticed ns j r op'"
  using assms(2) by (simp add: noticed_def update_notice_find [OF assms(1)])

lemma update_notice_member:
  assumes "\<And>e. nr_id (f e) = k" and "distinct (map nr_id ns)"
    and "n \<in> set (fst (update_notice op f k reason ns t))"
  shows "n \<in> set ns \<or> (op \<and> n = f (find_by_id nr_id ns k)) \<or>
         (\<exists>e. find_by_id nr_id ns k = Some e \<and> n = acknowledged_notice t e)"
  using assms
  by (auto simp: update_notice_def Let_def notifications.member_put split: option.splits if_splits)

lemma acknowledged_notice_ok: "notice_ok e \<Longrightarrow> notice_ok (acknowledged_notice t e)"
  by (auto simp: notice_ok_def acknowledged_notice_def split: option.splits)

lemma acknowledged_notice_backed: "backed s (acknowledged_notice t e) = backed s e"
  by (simp add: backed_def acknowledged_notice_def)

lemma delegation_notice_ok [simp]:
  "notice_ok (delegation_notice e d t)" "nr_id (delegation_notice e d t) = buildDelegationNotificationId (dr_id d)"
  "nr_status (delegation_notice e d t) = NPending" "nr_recipientId (delegation_notice e d t) = dr_workerId d"
  "backed s (delegation_notice e d t) \<longleftrightarrow> dr_id d \<in> dr_id ` set (os_delegation s)"
  by (auto simp: notice_ok_def delegation_notice_def backed_def)

lemma verification_notice_ok [simp]:
  "notice_ok (verification_notice e v t)"
  "nr_id (verification_notice e v t) = buildVerificationNotificationId (vr_id v)"
  "nr_status (verification_notice e v t) = NPending" "nr_recipientId (verification_notice e v t) = vr_verifierId v"
  "backed s (verification_notice e v t) \<longleftrightarrow> vr_id v \<in> vr_id ` set (os_verification s)"
  by (auto simp: notice_ok_def verification_notice_def backed_def)

section \<open>Storing keeps the invariant\<close>

lemma unique_ids_delegation:
  "unique_ids s \<Longrightarrow>
   unique_ids (materializeTaskOperationsState
     (store_delegation d (fst (update_notice op f k r (notifications_of s) t)) u s))"
  by (simp add: unique_ids_def store_delegation_def notifications_of_def
      delegations.put_distinct update_notice_distinct)

lemma unique_ids_verification:
  "unique_ids s \<Longrightarrow>
   unique_ids (materializeTaskOperationsState
     (store_verification v (fst (update_notice op f k r (notifications_of s) t)) u s))"
  by (simp add: unique_ids_def store_verification_def notifications_of_def
      verifications.put_distinct update_notice_distinct)

lemma state_inv_store_delegation:
  fixes s d t u reason
  assumes inv: "state_inv s" and wf: "wf_delegation d"
  defines "notes \<equiv> fst (update_notice (dr_status d = DQueued)
      (\<lambda>existing. delegation_notice existing d t) (buildDelegationNotificationId (dr_id d))
      reason (notifications_of s) t)"
  shows "state_inv (materializeTaskOperationsState (store_delegation d notes u s))"
    (is "state_inv ?s")
proof -
  have fields: "os_delegation ?s = replaceRecordById dr_id (os_delegation s) d"
    "os_verification ?s = os_verification s" "notifications_of ?s = notes"
    by (simp_all add: store_delegation_def notifications_of_def)
  have u: "unique_ids s" and ds: "distinct (map dr_id (os_delegation s))"
    and ns: "distinct (map nr_id (notifications_of s))"
    using inv by (simp_all add: state_inv_def unique_ids_def)
  have unique: "unique_ids ?s"
    unfolding notes_def by (rule unique_ids_delegation [OF u])
  have "wf_delegation x \<and> delegation_noticed notes x" if "x \<in> set (os_delegation ?s)" for x
  proof (cases "dr_id x = dr_id d")
    case True
    with that have "x = d" unfolding fields delegations.member_put [OF ds] by blast
    then show ?thesis
      using wf by (simp add: delegation_noticed_def notes_def noticed_update_same)
  next
    case False
    with that have "x \<in> set (os_delegation s)"
      unfolding fields delegations.member_put [OF ds] by blast
    with inv False show ?thesis
      by (simp add: state_inv_def delegation_noticed_def notes_def noticed_update_other)
  qed
  moreover have "verification_noticed notes v" if "v \<in> set (os_verification ?s)" for v
    using inv that
    by (simp add: fields state_inv_def verification_noticed_def notes_def noticed_update_other)
  moreover have "notice_ok n \<and> backed ?s n" if n: "n \<in> set notes" for n
  proof -
    have grow: "backed s m \<Longrightarrow> backed ?s m" for m
      by (auto simp: backed_def fields delegations.put_ids)
    have own: "backed ?s (delegation_notice e d t)" for e
      by (simp add: fields delegations.put_ids)
    have old: "notice_ok m \<and> backed ?s m" if "m \<in> set (notifications_of s)" for m
      using inv that grow by (simp add: state_inv_def)
    from update_notice_member [OF _ ns n [unfolded notes_def]] consider
        "n \<in> set (notifications_of s)"
      | e where "n = delegation_notice e d t"
      | e where "e \<in> set (notifications_of s)" "n = acknowledged_notice t e"
      by (auto dest: notifications.get_Some)
    then show ?thesis
      using own old by cases (simp_all add: acknowledged_notice_ok acknowledged_notice_backed)
  qed
  ultimately show ?thesis
    using unique by (simp add: state_inv_def fields)
qed

lemma state_inv_store_verification:
  fixes s v t u reason
  assumes inv: "state_inv s"
  defines "notes \<equiv> fst (update_notice (vr_status v = VPending)
      (\<lambda>existing. verification_notice existing v t) (buildVerificationNotificationId (vr_id v))
      reason (notifications_of s) t)"
  shows "state_inv (materializeTaskOperationsState (store_verification v notes u s))"
    (is "state_inv ?s")
proof -
  have fields: "os_delegation ?s = os_delegation s"
    "os_verification ?s = replaceRecordById vr_id (os_verification s) v" "notifications_of ?s = notes"
    by (simp_all add: store_verification_def notifications_of_def)
  have u: "unique_ids s" and vs: "distinct (map vr_id (os_verification s))"
    and ns: "distinct (map nr_id (notifications_of s))"
    using inv by (simp_all add: state_inv_def unique_ids_def)
  have unique: "unique_ids ?s"
    unfolding notes_def by (rule unique_ids_verification [OF u])
  have "verification_noticed notes x" if "x \<in> set (os_verification ?s)" for x
  proof (cases "vr_id x = vr_id v")
    case True
    with that have "x = v" unfolding fields verifications.member_put [OF vs] by blast
    then show ?thesis
      by (simp add: verification_noticed_def notes_def noticed_update_same)
  next
    case False
    with that have "x \<in> set (os_verification s)"
      unfolding fields verifications.member_put [OF vs] by blast
    with inv False show ?thesis
      by (simp add: state_inv_def verification_noticed_def notes_def noticed_update_other)
  qed
  moreover have "wf_delegation x \<and> delegation_noticed notes x" if "x \<in> set (os_delegation ?s)" for x
    using inv that
    by (simp add: fields state_inv_def delegation_noticed_def notes_def noticed_update_other)
  moreover have "notice_ok n \<and> backed ?s n" if n: "n \<in> set notes" for n
  proof -
    have grow: "backed s m \<Longrightarrow> backed ?s m" for m
      by (auto simp: backed_def fields verifications.put_ids)
    have own: "backed ?s (verification_notice e v t)" for e
      by (simp add: fields verifications.put_ids)
    have old: "notice_ok m \<and> backed ?s m" if "m \<in> set (notifications_of s)" for m
      using inv that grow by (simp add: state_inv_def)
    from update_notice_member [OF _ ns n [unfolded notes_def]] consider
        "n \<in> set (notifications_of s)"
      | e where "n = verification_notice e v t"
      | e where "e \<in> set (notifications_of s)" "n = acknowledged_notice t e"
      by (auto dest: notifications.get_Some)
    then show ?thesis
      using own old by cases (simp_all add: acknowledged_notice_ok acknowledged_notice_backed)
  qed
  ultimately show ?thesis
    using unique by (simp add: state_inv_def fields)
qed

text \<open>Changes that leave delegations, verifications and notifications alone.\<close>

lemma state_inv_frame:
  assumes "state_inv s" and "os_delegation s' = os_delegation s"
    and "os_verification s' = os_verification s" and "notifications_of s' = notifications_of s"
    and "distinct (map pr_id (os_proposalQueue s'))"
  shows "state_inv (materializeTaskOperationsState s')"
  using assms by (simp add: state_inv_def unique_ids_def backed_def)

section \<open>Commands\<close>

datatype task_command =
    CWriteTodos "task_item list"
  | CUpsertDelegation delegation_record_input
  | CSetDelegationStatus delegation_status_update
  | CUpsertVerification verification_input
  | CEnqueueProposal proposal_input
  | CTransitionProposal proposal_transition
  | CApplyProposal string
  | CDrainOutbox "int option"
  | CDrainJournal "int option"

text \<open>The board after a command, whether it returned or threw, and the journal entries that a
  drain handed to the caller.\<close>

fun exec :: "task_command \<Rightarrow> board \<Rightarrow> board \<times> task_journal_entry list" where
  "exec (CWriteTodos items) b = (snd (writeTodos items b), [])"
| "exec (CUpsertDelegation input) b = (snd (upsertDelegation input b), [])"
| "exec (CSetDelegationStatus input) b = (snd (setDelegationStatus input b), [])"
| "exec (CUpsertVerification input) b = (snd (upsertVerification input b), [])"
| "exec (CEnqueueProposal input) b = (snd (enqueueProposal input b), [])"
| "exec (CTransitionProposal input) b = (snd (transitionProposal input b), [])"
| "exec (CApplyProposal k) b = (snd (applyProposal k b), [])"
| "exec (CDrainOutbox limit) b = (snd (drainProposalOutbox limit b), [])"
| "exec (CDrainJournal limit) b =
     (case drainJournal limit b of
        (Inr entries, b') \<Rightarrow> (b', entries)
      | (Inl e, b') \<Rightarrow> (b', []))"

section \<open>Every command keeps the invariant\<close>

lemma board_inv_commit:
  "board_inv b \<Longrightarrow> state_inv (materializeTaskOperationsState s) \<Longrightarrow> (\<And>e. e \<in> set es \<Longrightarrow> wf_entry e) \<Longrightarrow>
   board_inv (commit s es b)"
  by (auto simp: board_inv_def)

lemma board_inv_tick [simp]: "board_inv (tick b) = board_inv b"
  by (simp add: board_inv_def)

lemma board_inv_stateD: "board_inv b \<Longrightarrow> state_inv (tb_state b)"
  by (simp add: board_inv_def)

lemma board_inv_queue: "board_inv b \<Longrightarrow> distinct (map pr_id (os_proposalQueue (tb_state b)))"
  by (simp add: board_inv_def state_inv_def unique_ids_def)

lemma board_inv_wf_delegation:
  "board_inv b \<Longrightarrow> find_by_id dr_id (os_delegation (tb_state b)) k = Some d \<Longrightarrow> wf_delegation d"
  by (auto simp: board_inv_def state_inv_def dest: delegations.get_Some)

lemma writeTodos_inv: "board_inv b \<Longrightarrow> board_inv (snd (writeTodos items b))"
  by (auto simp: writeTodos_eq board_inv_queue notifications_of_def dest: board_inv_stateD
      intro!: board_inv_commit intro: state_inv_frame [where s = "tb_state b"])

lemma upsertDelegation_inv:
  assumes "board_inv b"
  shows "board_inv (snd (upsertDelegation input b))"
proof (cases "buildDelegationRecord input
    (find_by_id dr_id (os_delegation (tb_state b)) (di_id input)) (board_now b)")
  case (Inl e)
  with assms show ?thesis by (simp add: upsertDelegation_throws)
next
  case (Inr d)
  then have wf: "wf_delegation d" by (rule buildDelegationRecord_wf)
  have "state_inv (materializeTaskOperationsState
      (store_delegation d (fst (delegation_update d None b)) (board_now b) (tb_state b)))"
    unfolding delegation_update_def
    using board_inv_stateD [OF assms] wf by (rule state_inv_store_delegation)
  with assms wf show ?thesis
    by (auto simp: upsertDelegation_ok [OF Inr] intro!: board_inv_commit)
qed

lemma setDelegationStatus_inv:
  assumes "board_inv b"
  shows "board_inv (snd (setDelegationStatus input b))"
proof (cases "find_by_id dr_id (os_delegation (tb_state b)) (du_id input)")
  case None
  with assms show ?thesis by (simp add: setDelegationStatus_def)
next
  case (Some current)
  let ?d = "delegation_with_status input current (board_now b)"
  have wf: "wf_delegation current"
    using assms Some by (rule board_inv_wf_delegation)
  then have "state_inv (materializeTaskOperationsState
      (store_delegation ?d (fst (delegation_update ?d (du_reason input) b)) (board_now b)
        (tb_state b)))"
    unfolding delegation_update_def
    by (intro state_inv_store_delegation board_inv_stateD [OF assms]) simp
  with assms wf show ?thesis
    by (auto simp: setDelegationStatus_ok [OF Some wf] intro!: board_inv_commit)
qed

lemma upsertVerification_inv:
  assumes "board_inv b"
  shows "board_inv (snd (upsertVerification input b))"
proof -
  let ?v = "next_verification input b"
  have "state_inv (materializeTaskOperationsState
      (store_verification ?v (fst (verification_update ?v b)) (board_now b) (tb_state b)))"
    unfolding verification_update_def
    using board_inv_stateD [OF assms] by (rule state_inv_store_verification)
  with assms show ?thesis
    by (auto simp: upsertVerification_eq intro!: board_inv_commit)
qed

lemma state_inv_store_proposal:
  "board_inv b \<Longrightarrow> distinct (map pr_id queue) \<Longrightarrow>
   state_inv (materializeTaskOperationsState (store_proposal queue entry t (tb_state b)))"
  by (rule state_inv_frame [OF board_inv_stateD]) simp_all

lemma enqueueProposal_inv:
  assumes "board_inv b"
  shows "board_inv (snd (enqueueProposal input b))"
proof (cases "pi_id input \<in> pr_id ` set (os_proposalQueue (tb_state b))")
  case True
  with assms show ?thesis by (simp add: enqueueProposal_duplicate)
next
  case False
  then have "distinct (map pr_id (os_proposalQueue (tb_state b)
      @ [buildProposalRecord input (board_now b)]))"
    using board_inv_queue [OF assms] by (auto simp: buildProposalRecord_def)
  then show ?thesis
    using assms by (auto simp: enqueueProposal_ok [OF False]
        intro!: board_inv_commit state_inv_store_proposal simp del: map_append)
qed

lemma transitionProposal_inv:
  assumes "board_inv b"
  shows "board_inv (snd (transitionProposal input b))"
proof (cases "find_by_id pr_id (os_proposalQueue (tb_state b)) (pt_proposalId input)")
  case None
  with assms show ?thesis by (simp add: transitionProposal_def)
next
  case (Some p)
  consider "\<not> canTransitionProposalStatus (pr_status p) (pt_status input)"
    | "pr_status p = pt_status input"
    | "canTransitionProposalStatus (pr_status p) (pt_status input)" "pr_status p \<noteq> pt_status input"
    by blast
  then show ?thesis
  proof cases
    case 3
    have "distinct (map pr_id (replaceRecordById pr_id (os_proposalQueue (tb_state b)) q))" for q
      using board_inv_queue [OF assms] by (rule proposals.put_distinct)
    then show ?thesis
      using assms by (auto simp: transitionProposal_ok [OF Some 3]
          intro!: board_inv_commit state_inv_store_proposal)
  qed (use assms Some in \<open>simp_all add: transitionProposal_invalid transitionProposal_same\<close>)
qed

lemma applyProposal_inv:
  assumes "board_inv b"
  shows "board_inv (snd (applyProposal k b))"
  using assms by (cases k b rule: applyProposal_cases)
    (simp_all add: transitionProposal_inv writeTodos_inv)

lemma drainProposalOutbox_inv:
  assumes "board_inv b"
  shows "board_inv (snd (drainProposalOutbox limit b))"
proof -
  define n where "n = nullish_else limit (int (length (os_proposalOutbox (tb_state b))))"
  show ?thesis
  proof (cases "n \<le> 0 \<or> os_proposalOutbox (tb_state b) = []")
    case True
    with assms show ?thesis by (simp add: drainProposalOutbox_none [OF n_def])
  next
    case False
    then have "0 < n" "os_proposalOutbox (tb_state b) \<noteq> []" by simp_all
    from drainProposalOutbox_ok [OF n_def this] show ?thesis
      using assms board_inv_queue [OF assms]
      by (auto simp: notifications_of_def dest: board_inv_stateD
          intro!: board_inv_commit intro: state_inv_frame [where s = "tb_state b"])
  qed
qed

lemma drainJournal_prefix:
  assumes "\<And>e. e \<in> set (tb_journal b) \<Longrightarrow> wf_entry e"
  shows "drainJournal limit b =
     (Inr (take (nat (nullish_else limit (int (length (tb_journal b))))) (tb_journal b)),
      b\<lparr>tb_journal :=
          drop (nat (nullish_else limit (int (length (tb_journal b))))) (tb_journal b)\<rparr>)"
proof -
  define n where "n = nullish_else limit (int (length (tb_journal b)))"
  have "clone_entries (take (nat n) (tb_journal b)) = Inr (take (nat n) (tb_journal b))"
    using assms by (intro clone_entries_wf) (auto dest: in_set_takeD)
  moreover have "drop (min (length (tb_journal b)) (nat n)) (tb_journal b) =
      drop (nat n) (tb_journal b)"
    by (simp add: min_def)
  ultimately show ?thesis
    unfolding n_def [symmetric]
    by (auto simp: drainJournal_def n_def [symmetric] Let_def)
qed

lemma drainJournal_wf:
  assumes "\<And>e. e \<in> set (tb_journal b) \<Longrightarrow> wf_entry e"
  shows "\<exists>n. drainJournal limit b =
     (Inr (take n (tb_journal b)), b\<lparr>tb_journal := drop n (tb_journal b)\<rparr>)"
  using drainJournal_prefix [OF assms] by blast

lemma drainJournal_exec:
  assumes "board_inv b"
  shows "\<exists>n. exec (CDrainJournal limit) b =
     (b\<lparr>tb_journal := drop n (tb_journal b)\<rparr>, take n (tb_journal b))"
  using drainJournal_wf [of b limit] assms by (auto simp: board_inv_def)

lemma exec_inv: "board_inv b \<Longrightarrow> board_inv (fst (exec c b))"
proof (cases c)
  case (CDrainJournal limit)
  assume b: "board_inv b"
  obtain n where "fst (exec c b) = b\<lparr>tb_journal := drop n (tb_journal b)\<rparr>"
    using drainJournal_exec [OF b, of limit] CDrainJournal by auto
  moreover have "set (drop n (tb_journal b)) \<subseteq> set (tb_journal b)"
    by (rule set_drop_subset)
  ultimately show ?thesis
    using b by (auto simp: board_inv_def)
qed (simp_all add: writeTodos_inv upsertDelegation_inv setDelegationStatus_inv
    upsertVerification_inv enqueueProposal_inv transitionProposal_inv applyProposal_inv
    drainProposalOutbox_inv)

interpretation board: command_machine exec board_inv
  by unfold_locales (rule exec_inv)

lemma new_board_inv:
  "state_inv (createInitialTaskOperationsState seed) \<Longrightarrow> board_inv (newTaskBoard seed clock factory)"
  by (simp add: board_inv_def newTaskBoard_def)

lemma empty_state_inv [simp]: "state_inv (createInitialTaskOperationsState NoSeed)"
  by (simp add: state_inv_def unique_ids_def empty_operations_def notifications_of_def)

lemma todo_state_inv [simp]: "state_inv (createInitialTaskOperationsState (TodoSeed todos))"
  by (simp add: state_inv_def unique_ids_def empty_operations_def notifications_of_def)

end
