(* ===== verification/Subagent_Scheduling.thy ===== *)
theory Subagent_Scheduling
  imports Task_Lifecycle "HOL-Library.AList" "HOL-Library.While_Combinator"
begin

text \<open>
  The scheduling half of \<open>packages/tasks-core/src/subagent-runtime.ts\<close>: the write sets that
  delegations declare in their context snapshots, the diagnostics of observed write sets, and
  \<open>createSubagentSchedulingByDelegationId\<close>, which assigns every active delegation to the first
  parallel batch that holds no delegation with an overlapping write set.

  A JavaScript \<open>Map\<close> is an association list: \<open>set\<close> is \<open>AList.update\<close>, which overwrites in
  place or appends, as \<open>Map.prototype.set\<close> does, and \<open>get\<close> is \<open>map_of\<close>.
\<close>

section \<open>Maps\<close>

definition js_map_of :: "('k \<times> 'v) list \<Rightarrow> ('k \<times> 'v) list" where
  "js_map_of entries = foldl (\<lambda>m (k, v). AList.update k v m) [] entries"

text \<open>What the scheduler relies on of a map.\<close>

locale dictionary =
  fixes get :: "'m \<Rightarrow> 'k \<Rightarrow> 'v option" and set_entry :: "'k \<Rightarrow> 'v \<Rightarrow> 'm \<Rightarrow> 'm"
  assumes get_set: "get (set_entry k v m) k' = (if k' = k then Some v else get m k')"
begin

definition set_all :: "('k \<times> 'v) list \<Rightarrow> 'm \<Rightarrow> 'm" where
  "set_all entries m = foldl (\<lambda>m (k, v). set_entry k v m) m entries"

lemma get_set_all_absent: "k \<notin> fst ` set entries \<Longrightarrow> get (set_all entries m) k = get m k"
  by (induction entries arbitrary: m) (auto simp: set_all_def get_set)

lemma get_set_all:
  "distinct (map fst entries) \<Longrightarrow> (k, v) \<in> set entries \<Longrightarrow> get (set_all entries m) k = Some v"
proof (induction entries arbitrary: m)
  case Nil
  then show ?case by simp
next
  case (Cons e entries)
  obtain k' v' where e: "e = (k', v')" by (cases e)
  have step: "set_all (e # entries) m = set_all entries (set_entry k' v' m)"
    by (simp add: set_all_def e)
  show ?case
  proof (cases "e = (k, v)")
    case True
    with Cons.prems have "k \<notin> fst ` set entries" by auto
    then have "get (set_all (e # entries) m) k = get (set_entry k' v' m) k"
      unfolding step by (rule get_set_all_absent)
    with True e show ?thesis by (simp add: get_set)
  next
    case False
    with Cons show ?thesis by (simp add: step)
  qed
qed

end

interpretation js_map: dictionary map_of AList.update
  by unfold_locales (simp add: update_conv')

lemma js_map_of_eq: "js_map_of entries = js_map.set_all entries []"
  by (simp add: js_map_of_def js_map.set_all_def)

lemma js_map_of_get:
  "distinct (map fst entries) \<Longrightarrow> (k, v) \<in> set entries \<Longrightarrow> map_of (js_map_of entries) k = Some v"
  by (simp add: js_map_of_eq js_map.get_set_all)

lemma js_map_of_absent: "k \<notin> fst ` set entries \<Longrightarrow> map_of (js_map_of entries) k = None"
  by (simp add: js_map_of_eq js_map.get_set_all_absent)

section \<open>Context snapshots and write sets\<close>

fun context_value :: "string \<Rightarrow> string list \<Rightarrow> string option" where
  "context_value key [] = None"
| "context_value key (part # parts) =
     (case js_split (CHR ''='') part of
        [] \<Rightarrow> context_value key parts
      | rawKey # rawValue \<Rightarrow>
          (if js_trim rawKey = key
           then (let value = js_trim (js_join ''='' rawValue)
                 in if value = [] then None else Some value)
           else context_value key parts))"

definition extractContextField :: "string option \<Rightarrow> string \<Rightarrow> string option" where
  "extractContextField snapshot key =
     (case snapshot of
        None \<Rightarrow> None
      | Some s \<Rightarrow> context_value key (js_split (CHR '';'') s))"

definition normalizeWriteSetField :: "string option \<Rightarrow> string list" where
  "normalizeWriteSetField field =
     (case field of
        None \<Rightarrow> []
      | Some s \<Rightarrow> js_unique (filter (\<lambda>entry. entry \<noteq> []) (map js_trim (js_split (CHR '','') s))))"

datatype write_set_source = ExplicitSource | InferredSource

record resolved_write_set =
  ws_writeSet :: "string list"
  ws_writeSetSource :: "write_set_source option"

definition resolveSchedulingWriteSet :: "string option \<Rightarrow> resolved_write_set" where
  "resolveSchedulingWriteSet snapshot =
     (let explicitWriteSet = normalizeWriteSetField (extractContextField snapshot ''writeSet'');
          inferredWriteSet = normalizeWriteSetField (extractContextField snapshot ''writableRoots'')
      in if explicitWriteSet \<noteq> []
         then \<lparr>ws_writeSet = explicitWriteSet, ws_writeSetSource = Some ExplicitSource\<rparr>
         else if inferredWriteSet \<noteq> []
         then \<lparr>ws_writeSet = inferredWriteSet, ws_writeSetSource = Some InferredSource\<rparr>
         else \<lparr>ws_writeSet = [], ws_writeSetSource = None\<rparr>)"

definition no_write_set :: resolved_write_set where
  "no_write_set = \<lparr>ws_writeSet = [], ws_writeSetSource = None\<rparr>"

type_synonym write_set_map = "(string \<times> resolved_write_set) list"

definition writeSetByDelegationId :: "delegation_record list \<Rightarrow> write_set_map" where
  "writeSetByDelegationId delegations =
     js_map_of (map (\<lambda>r. (dr_id r, resolveSchedulingWriteSet (dr_contextSnapshot r))) delegations)"

definition declared_write_set :: "write_set_map \<Rightarrow> string \<Rightarrow> string list" where
  "declared_write_set m k = (case map_of m k of None \<Rightarrow> [] | Some w \<Rightarrow> ws_writeSet w)"

definition active_delegation :: "delegation_record \<Rightarrow> bool" where
  "active_delegation r \<longleftrightarrow> dr_status r = DQueued \<or> dr_status r = DRunning"

section \<open>Observed write sets\<close>

record observed_diagnostics =
  ob_observedWriteSet :: "string list"
  ob_observedWriteSetSource :: "write_set_observation option"
  ob_undeclaredObservedWriteSet :: "string list"
  ob_observedConflictWith :: "string list"
  ob_observedConflictPaths :: "string list"

definition overlaps :: "(delegation_record \<Rightarrow> string list) \<Rightarrow> delegation_record list \<Rightarrow>
    (string \<times> string list) list" where
  "overlaps overlap records =
     filter (\<lambda>(_, shared). shared \<noteq> []) (map (\<lambda>entry. (dr_id entry, overlap entry)) records)"

definition observed_write_set :: "delegation_record \<Rightarrow> string list" where
  "observed_write_set r = nullish_else (dr_observedWriteSet r) []"

definition delegation_diagnostics ::
  "delegation_record list \<Rightarrow> write_set_map \<Rightarrow> delegation_record \<Rightarrow> observed_diagnostics option"
where
  "delegation_diagnostics delegations writeSets record =
     (let observedRecords = filter (\<lambda>r. observed_write_set r \<noteq> []) delegations;
          activeConflictRecords = filter active_delegation delegations;
          declaredWriteSet = declared_write_set writeSets (dr_id record);
          ownObservedWriteSet = observed_write_set record;
          relevantObservedRecords =
            filter (\<lambda>entry. dr_id entry = dr_id record \<or>
                            js_intersect (observed_write_set entry) declaredWriteSet \<noteq> [])
              observedRecords;
          observedConflicts =
            overlaps (\<lambda>entry. js_intersect (observed_write_set entry) declaredWriteSet)
              (filter (\<lambda>entry. dr_id entry \<noteq> dr_id record) relevantObservedRecords);
          ownObservedConflicts =
            overlaps (\<lambda>entry. js_intersect ownObservedWriteSet
                                (declared_write_set writeSets (dr_id entry)))
              (filter (\<lambda>entry. dr_id entry \<noteq> dr_id record) activeConflictRecords)
      in if ownObservedWriteSet = [] \<and> relevantObservedRecords = [] then None
         else Some
           \<lparr>ob_observedWriteSet = ownObservedWriteSet,
            ob_observedWriteSetSource = dr_observedWriteSetSource record,
            ob_undeclaredObservedWriteSet =
              js_unique (filter (\<lambda>entry. entry \<notin> set declaredWriteSet) ownObservedWriteSet),
            ob_observedConflictWith =
              js_unique (map fst observedConflicts @ map fst ownObservedConflicts),
            ob_observedConflictPaths =
              js_unique (concat (map snd observedConflicts)
                @ concat (map snd ownObservedConflicts))\<rparr>)"

definition createObservedWriteSetDiagnosticsByDelegationId ::
  "delegation_record list \<Rightarrow> write_set_map \<Rightarrow> (string \<times> observed_diagnostics) list" where
  "createObservedWriteSetDiagnosticsByDelegationId delegations writeSets =
     foldl (\<lambda>diagnostics record.
              case delegation_diagnostics delegations writeSets record of
                None \<Rightarrow> diagnostics
              | Some d \<Rightarrow> AList.update (dr_id record) d diagnostics)
       [] (filter (\<lambda>entry. dr_status entry \<noteq> DCancelled) delegations)"

section \<open>Candidates\<close>

record scheduling_candidate =
  cd_record :: delegation_record
  cd_parallelGroup :: "string option"
  cd_writeSet :: "string list"
  cd_writeSetSource :: "write_set_source option"
  cd_scheduleOrder :: int

definition running_rank :: "delegation_record \<Rightarrow> int" where
  "running_rank r = (if dr_status r = DRunning then 0 else 1)"

definition compareSubagentSchedulingCandidates ::
  "scheduling_candidate \<Rightarrow> scheduling_candidate \<Rightarrow> int" where
  "compareSubagentSchedulingCandidates left right =
     (if running_rank (cd_record left) \<noteq> running_rank (cd_record right)
      then running_rank (cd_record left) - running_rank (cd_record right)
      else if dr_createdAtMs (cd_record left) \<noteq> dr_createdAtMs (cd_record right)
      then dr_createdAtMs (cd_record left) - dr_createdAtMs (cd_record right)
      else localeCompare (dr_id (cd_record left)) (dr_id (cd_record right)))"

interpretation scheduling_order: consistent_comparator compareSubagentSchedulingCandidates
  unfolding compareSubagentSchedulingCandidates_def
  by (intro comparator_by_key comparator_on [OF comparator_localeCompare])

definition make_candidate :: "write_set_map \<Rightarrow> delegation_record \<Rightarrow> scheduling_candidate" where
  "make_candidate writeSets r =
     (let w = nullish_else (map_of writeSets (dr_id r)) no_write_set
      in \<lparr>cd_record = r,
          cd_parallelGroup = extractContextField (dr_contextSnapshot r) ''parallelGroup'',
          cd_writeSet = ws_writeSet w, cd_writeSetSource = ws_writeSetSource w,
          cd_scheduleOrder = 0\<rparr>)"

definition schedulable :: "scheduling_candidate \<Rightarrow> bool" where
  "schedulable c \<longleftrightarrow> cd_parallelGroup c \<noteq> None \<or> cd_writeSet c \<noteq> []"

fun number_candidates :: "int \<Rightarrow> scheduling_candidate list \<Rightarrow> scheduling_candidate list" where
  "number_candidates i [] = []"
| "number_candidates i (c # cs) = c\<lparr>cd_scheduleOrder := i\<rparr> # number_candidates (i + 1) cs"

definition scheduling_candidates :: "delegation_record list \<Rightarrow> scheduling_candidate list" where
  "scheduling_candidates delegations =
     number_candidates 0
       (js_sort compareSubagentSchedulingCandidates
         (filter schedulable
           (map (make_candidate (writeSetByDelegationId delegations))
             (filter active_delegation delegations))))"

section \<open>Batches\<close>

text \<open>\<open>while (blockedBatches.has(batch)) batch += 1\<close>, from a given batch.\<close>

function first_available_from :: "int list \<Rightarrow> int \<Rightarrow> int" where
  "first_available_from blocked batch =
     (if batch \<in> set blocked then first_available_from blocked (batch + 1) else batch)"
  by pat_completeness auto
termination
proof (relation "measure (\<lambda>(blocked, batch). card {x \<in> set blocked. batch \<le> x})")
  show "wf (measure (\<lambda>(blocked, batch). card {x \<in> set blocked. batch \<le> x}))"
    by simp
next
  fix blocked :: "int list" and batch :: int
  assume "batch \<in> set blocked"
  then have "batch \<in> {x \<in> set blocked. batch \<le> x} - {x \<in> set blocked. batch + 1 \<le> x}"
    by simp
  moreover have "{x \<in> set blocked. batch + 1 \<le> x} \<subseteq> {x \<in> set blocked. batch \<le> x}"
    by auto
  ultimately have "{x \<in> set blocked. batch + 1 \<le> x} \<subset> {x \<in> set blocked. batch \<le> x}"
    by blast
  then show "((blocked, batch + 1), (blocked, batch))
      \<in> measure (\<lambda>(blocked, batch). card {x \<in> set blocked. batch \<le> x})"
    by (simp add: psubset_card_mono)
qed

declare first_available_from.simps [simp del]

lemma while_occupied:
  "while_option (\<lambda>batch. batch \<in> set blocked) (\<lambda>batch. batch + 1) batch =
   Some (first_available_from blocked batch)"
proof (induction blocked batch rule: first_available_from.induct)
  case (1 blocked batch)
  then show ?case
    by (subst while_option_unfold) (simp add: first_available_from.simps [of blocked batch])
qed

definition selectFirstAvailableParallelBatch :: "int list \<Rightarrow> int" where
  "selectFirstAvailableParallelBatch blockedBatches = first_available_from blockedBatches 0"

record subagent_scheduling =
  sg_parallelGroup :: "string option"
  sg_writeSet :: "string list"
  sg_writeSetSource :: "write_set_source option"
  sg_observedWriteSet :: "string list option"
  sg_observedWriteSetSource :: "write_set_observation option"
  sg_undeclaredObservedWriteSet :: "string list option"
  sg_observedConflictWith :: "string list option"
  sg_canRunInParallel :: bool
  sg_conflictsWith :: "string list"
  sg_conflictReason :: "string option"
  sg_parallelBatch :: int
  sg_scheduleOrder :: int
  sg_readyToStart :: bool
  sg_blockedBy :: "string list"

definition resolveConflictReason ::
  "string list list \<Rightarrow> observed_diagnostics option \<Rightarrow> string option" where
  "resolveConflictReason declaredOverlaps observedDiagnostics =
     (let observedPaths =
            (case observedDiagnostics of None \<Rightarrow> [] | Some d \<Rightarrow> ob_observedConflictPaths d)
      in if observedPaths \<noteq> []
         then Some (''observed-write-set-overlap: '' @ js_join '', '' observedPaths)
         else if declaredOverlaps \<noteq> []
         then Some (''write-set-overlap: '' @ js_join '', '' (js_unique (concat declaredOverlaps)))
         else None)"

definition non_empty :: "'a list \<Rightarrow> 'a list option" where
  "non_empty xs = (if xs = [] then None else Some xs)"

definition optionalObservedSchedulingDiagnostics ::
  "observed_diagnostics option \<Rightarrow> subagent_scheduling \<Rightarrow> subagent_scheduling" where
  "optionalObservedSchedulingDiagnostics diagnostics scheduling =
     (case diagnostics of
        None \<Rightarrow> scheduling
      | Some d \<Rightarrow>
          scheduling\<lparr>sg_observedWriteSet := non_empty (ob_observedWriteSet d),
                     sg_observedWriteSetSource := ob_observedWriteSetSource d,
                     sg_undeclaredObservedWriteSet := non_empty (ob_undeclaredObservedWriteSet d),
                     sg_observedConflictWith := non_empty (ob_observedConflictWith d)\<rparr>)"

record assigned_batch =
  ab_id :: string
  ab_writeSet :: "string list"
  ab_batch :: int

type_synonym diagnostics_map = "(string \<times> observed_diagnostics) list"
type_synonym scheduling_map = "(string \<times> subagent_scheduling) list"

definition candidate_id :: "scheduling_candidate \<Rightarrow> string" where
  "candidate_id c = dr_id (cd_record c)"

definition overlapping_assigned :: "assigned_batch list \<Rightarrow> scheduling_candidate \<Rightarrow> assigned_batch list"
where
  "overlapping_assigned assigned candidate =
     filter (\<lambda>entry. js_intersect (cd_writeSet candidate) (ab_writeSet entry) \<noteq> []) assigned"

definition candidate_batch :: "assigned_batch list \<Rightarrow> scheduling_candidate \<Rightarrow> int" where
  "candidate_batch assigned candidate =
     selectFirstAvailableParallelBatch (map ab_batch (overlapping_assigned assigned candidate))"

definition candidate_scheduling ::
  "scheduling_candidate list \<Rightarrow> diagnostics_map \<Rightarrow> assigned_batch list \<Rightarrow> scheduling_candidate \<Rightarrow>
   subagent_scheduling" where
  "candidate_scheduling candidates diagnostics assigned candidate =
     (let conflicts =
            filter (\<lambda>(_, overlap). overlap \<noteq> [])
              (map (\<lambda>entry. (candidate_id entry,
                             js_intersect (cd_writeSet candidate) (cd_writeSet entry)))
                (filter (\<lambda>entry. candidate_id entry \<noteq> candidate_id candidate) candidates));
          blockedBy = map ab_id (overlapping_assigned assigned candidate);
          parallelBatch = candidate_batch assigned candidate;
          observedDiagnostics = map_of diagnostics (candidate_id candidate)
      in optionalObservedSchedulingDiagnostics observedDiagnostics
           \<lparr>sg_parallelGroup = cd_parallelGroup candidate,
            sg_writeSet = cd_writeSet candidate,
            sg_writeSetSource = cd_writeSetSource candidate,
            sg_observedWriteSet = None, sg_observedWriteSetSource = None,
            sg_undeclaredObservedWriteSet = None, sg_observedConflictWith = None,
            sg_canRunInParallel = (conflicts = []),
            sg_conflictsWith = map fst conflicts,
            sg_conflictReason = resolveConflictReason (map snd conflicts) observedDiagnostics,
            sg_parallelBatch = parallelBatch,
            sg_scheduleOrder = cd_scheduleOrder candidate,
            sg_readyToStart = (parallelBatch = 0),
            sg_blockedBy = blockedBy\<rparr>)"

fun schedule_candidates ::
  "scheduling_candidate list \<Rightarrow> diagnostics_map \<Rightarrow> scheduling_candidate list \<Rightarrow>
   assigned_batch list \<Rightarrow> scheduling_map \<Rightarrow> assigned_batch list \<times> scheduling_map" where
  "schedule_candidates candidates diagnostics [] assigned scheduling = (assigned, scheduling)"
| "schedule_candidates candidates diagnostics (c # cs) assigned scheduling =
     schedule_candidates candidates diagnostics cs
       (assigned @ [\<lparr>ab_id = candidate_id c, ab_writeSet = cd_writeSet c,
                     ab_batch = candidate_batch assigned c\<rparr>])
       (AList.update (candidate_id c)
         (candidate_scheduling candidates diagnostics assigned c) scheduling)"

definition observed_only_scheduling ::
  "write_set_map \<Rightarrow> delegation_record \<Rightarrow> observed_diagnostics \<Rightarrow> subagent_scheduling" where
  "observed_only_scheduling writeSets r diagnostics =
     (let resolvedWriteSet = nullish_else (map_of writeSets (dr_id r)) no_write_set
      in optionalObservedSchedulingDiagnostics (Some diagnostics)
           \<lparr>sg_parallelGroup = extractContextField (dr_contextSnapshot r) ''parallelGroup'',
            sg_writeSet = ws_writeSet resolvedWriteSet,
            sg_writeSetSource = ws_writeSetSource resolvedWriteSet,
            sg_observedWriteSet = None, sg_observedWriteSetSource = None,
            sg_undeclaredObservedWriteSet = None, sg_observedConflictWith = None,
            sg_canRunInParallel = (ob_observedConflictWith diagnostics = []),
            sg_conflictsWith = [],
            sg_conflictReason = resolveConflictReason [] (Some diagnostics),
            sg_parallelBatch = 0, sg_scheduleOrder = -1, sg_readyToStart = True,
            sg_blockedBy = []\<rparr>)"

fun schedule_observed ::
  "delegation_record list \<Rightarrow> write_set_map \<Rightarrow> diagnostics_map \<Rightarrow> scheduling_map \<Rightarrow> scheduling_map"
where
  "schedule_observed delegations writeSets [] scheduling = scheduling"
| "schedule_observed delegations writeSets ((k, diagnostics) # rest) scheduling =
     schedule_observed delegations writeSets rest
       (if map_of scheduling k \<noteq> None then scheduling
        else (case find_by_id dr_id delegations k of
                None \<Rightarrow> scheduling
              | Some r \<Rightarrow>
                  AList.update k (observed_only_scheduling writeSets r diagnostics) scheduling))"

definition createSubagentSchedulingByDelegationId :: "delegation_record list \<Rightarrow> scheduling_map" where
  "createSubagentSchedulingByDelegationId delegations =
     (let writeSets = writeSetByDelegationId delegations;
          diagnostics = createObservedWriteSetDiagnosticsByDelegationId delegations writeSets;
          candidates = scheduling_candidates delegations;
          scheduling = snd (schedule_candidates candidates diagnostics candidates [] [])
      in schedule_observed delegations writeSets diagnostics scheduling)"

end
