(* ===== verification/Subagent_Safety.thy ===== *)
theory Subagent_Safety
  imports Subagent_Scheduling
begin

text \<open>
  What the batches of \<open>createSubagentSchedulingByDelegationId\<close> guarantee: a batch is the least
  number free of overlapping work, so two candidates of one batch never write the same path,
  a batch past the first is always justified by earlier ones, and work of batch 0 overlaps
  nothing that was scheduled in batch 0 before it.
\<close>

section \<open>The first free batch\<close>

lemma first_available_from_free: "first_available_from blocked batch \<notin> set blocked"
  by (induction blocked batch rule: first_available_from.induct)
    (subst first_available_from.simps, auto)

lemma first_available_from_ge: "batch \<le> first_available_from blocked batch"
  by (induction blocked batch rule: first_available_from.induct)
    (subst first_available_from.simps, force)

lemma first_available_from_least:
  "batch \<le> k \<Longrightarrow> k < first_available_from blocked batch \<Longrightarrow> k \<in> set blocked"
proof (induction blocked batch rule: first_available_from.induct)
  case (1 blocked batch)
  have unfold: "first_available_from blocked batch =
      (if batch \<in> set blocked then first_available_from blocked (batch + 1) else batch)"
    by (rule first_available_from.simps)
  show ?case
  proof (cases "batch \<in> set blocked")
    case True
    with 1 unfold show ?thesis by (cases "k = batch") auto
  next
    case False
    with 1 unfold show ?thesis by simp
  qed
qed

lemma selectFirstAvailable_spec:
  "selectFirstAvailableParallelBatch blocked \<notin> set blocked"
  "0 \<le> selectFirstAvailableParallelBatch blocked"
  "0 \<le> k \<Longrightarrow> k < selectFirstAvailableParallelBatch blocked \<Longrightarrow> k \<in> set blocked"
  by (simp_all add: selectFirstAvailableParallelBatch_def first_available_from_free
      first_available_from_ge first_available_from_least)

lemma selectFirstAvailable_le:
  "selectFirstAvailableParallelBatch blocked \<le> int (length blocked)"
proof -
  let ?n = "selectFirstAvailableParallelBatch blocked"
  have "{0..<?n} \<subseteq> set blocked"
    using selectFirstAvailable_spec(3) [of _ blocked] by auto
  then have "card {0..<?n} \<le> card (set blocked)"
    by (intro card_mono) simp_all
  also have "\<dots> \<le> length blocked" by (rule card_length)
  finally show ?thesis by simp
qed

lemma selectFirstAvailable_zero [simp]:
  "selectFirstAvailableParallelBatch blocked = 0 \<longleftrightarrow> 0 \<notin> set blocked"
  using selectFirstAvailable_spec [where blocked = blocked] by (metis order_le_less)

section \<open>Assignments\<close>

lemma js_intersect_commute_Nil: "js_intersect xs ys = [] \<longleftrightarrow> js_intersect ys xs = []"
  by (auto simp: js_intersect_Nil_iff)

definition first_fit :: "assigned_batch list \<Rightarrow> bool" where
  "first_fit assigned \<longleftrightarrow>
     sorted_wrt (\<lambda>a b. ab_batch a = ab_batch b \<longrightarrow> js_intersect (ab_writeSet b) (ab_writeSet a) = [])
       assigned \<and>
     (\<forall>a \<in> set assigned. 0 \<le> ab_batch a)"

definition assign :: "assigned_batch list \<Rightarrow> scheduling_candidate \<Rightarrow> assigned_batch" where
  "assign assigned c =
     \<lparr>ab_id = candidate_id c, ab_writeSet = cd_writeSet c, ab_batch = candidate_batch assigned c\<rparr>"

text \<open>The assignments made before each candidate is reached.\<close>

fun assign_all :: "assigned_batch list \<Rightarrow> scheduling_candidate list \<Rightarrow> assigned_batch list" where
  "assign_all assigned [] = assigned"
| "assign_all assigned (c # cs) = assign_all (assigned @ [assign assigned c]) cs"

lemma schedule_candidates_assigned:
  "fst (schedule_candidates cs0 diagnostics cs assigned m) = assign_all assigned cs"
  by (induction cs arbitrary: assigned m) (simp_all add: assign_def)

lemma first_fit_assign:
  assumes "first_fit assigned"
  shows "first_fit (assigned @ [assign assigned c])"
proof -
  have "js_intersect (cd_writeSet c) (ab_writeSet a) = []"
    if "a \<in> set assigned" "ab_batch a = candidate_batch assigned c" for a
  proof (rule ccontr)
    assume "js_intersect (cd_writeSet c) (ab_writeSet a) \<noteq> []"
    with that(1) have "ab_batch a \<in> set (map ab_batch (overlapping_assigned assigned c))"
      by (auto simp: overlapping_assigned_def)
    with that(2) show False
      using selectFirstAvailable_spec(1) by (metis candidate_batch_def)
  qed
  with assms show ?thesis
    by (auto simp: first_fit_def assign_def sorted_wrt_append candidate_batch_def
        selectFirstAvailable_spec(2))
qed

lemma first_fit_assign_all: "first_fit assigned \<Longrightarrow> first_fit (assign_all assigned cs)"
  by (induction cs arbitrary: assigned) (simp_all add: first_fit_assign)

lemma assign_all_append: "assign_all assigned (cs @ ds) = assign_all (assign_all assigned cs) ds"
  by (induction cs arbitrary: assigned) simp_all

lemma assign_all_prefix: "\<exists>more. assign_all assigned cs = assigned @ more \<and> length more = length cs"
proof (induction cs arbitrary: assigned)
  case Nil
  then show ?case by simp
next
  case (Cons c cs)
  then obtain more where "assign_all (assigned @ [assign assigned c]) cs =
      (assigned @ [assign assigned c]) @ more" "length more = length cs" by blast
  then show ?case by (intro exI [of _ "assign assigned c # more"]) simp
qed

lemma assign_all_members:
  "a \<in> set (assign_all assigned cs) \<Longrightarrow>
   a \<in> set assigned \<or> (\<exists>c \<in> set cs. ab_id a = candidate_id c \<and> ab_writeSet a = cd_writeSet c)"
proof (induction cs arbitrary: assigned)
  case Nil
  then show ?case by simp
next
  case (Cons c cs)
  from Cons.IH [OF Cons.prems [unfolded assign_all.simps]] show ?case
    by (auto simp: assign_def)
qed

lemma assign_all_covers:
  "c \<in> set cs \<Longrightarrow>
   \<exists>a \<in> set (assign_all assigned cs). ab_id a = candidate_id c \<and> ab_writeSet a = cd_writeSet c"
proof (induction cs arbitrary: assigned)
  case Nil
  then show ?case by simp
next
  case (Cons d cs)
  show ?case
  proof (cases "c = d")
    case True
    then have "assign assigned c \<in> set (assign_all (assigned @ [assign assigned d]) cs)"
      using assign_all_prefix [of "assigned @ [assign assigned d]" cs] by auto
    then show ?thesis by (intro bexI [of _ "assign assigned c"]) (simp_all add: assign_def)
  next
    case False
    with Cons show ?thesis by simp
  qed
qed

text \<open>Pairwise disjoint work all fits into batch 0.\<close>

definition disjoint_work :: "scheduling_candidate list \<Rightarrow> bool" where
  "disjoint_work cs \<longleftrightarrow>
     sorted_wrt (\<lambda>c d. js_intersect (cd_writeSet d) (cd_writeSet c) = []) cs"

lemma assign_all_disjoint:
  assumes "disjoint_work cs" and "\<forall>a \<in> set assigned. ab_batch a = 0"
    and "\<forall>a \<in> set assigned. \<forall>c \<in> set cs. js_intersect (cd_writeSet c) (ab_writeSet a) = []"
  shows "\<forall>a \<in> set (assign_all assigned cs). ab_batch a = 0"
  using assms
proof (induction cs arbitrary: assigned)
  case Nil
  then show ?case by simp
next
  case (Cons c cs)
  have "overlapping_assigned assigned c = []"
    using Cons.prems(3) by (simp add: overlapping_assigned_def filter_empty_conv)
  then have "candidate_batch assigned c = 0" by (simp add: candidate_batch_def)
  moreover have "disjoint_work cs"
    "\<forall>d \<in> set cs. js_intersect (cd_writeSet d) (cd_writeSet c) = []"
    using Cons.prems(1) by (simp_all add: disjoint_work_def)
  ultimately show ?case
    using Cons.IH [of "assigned @ [assign assigned c]"] Cons.prems(2,3) by (auto simp: assign_def)
qed

section \<open>The scheduling map\<close>

lemma schedule_candidates_absent:
  "k \<notin> candidate_id ` set cs \<Longrightarrow>
   map_of (snd (schedule_candidates cs0 diagnostics cs assigned m)) k = map_of m k"
  by (induction cs arbitrary: assigned m) (auto simp: update_conv')

lemma schedule_candidates_lookup:
  assumes "distinct (map candidate_id (before @ c # after))"
  shows "map_of (snd (schedule_candidates cs0 diagnostics (before @ c # after) assigned m))
           (candidate_id c) =
         Some (candidate_scheduling cs0 diagnostics (assign_all assigned before) c)"
  using assms
proof (induction before arbitrary: assigned m)
  case Nil
  then have "candidate_id c \<notin> candidate_id ` set after" by simp
  then show ?case by (simp add: schedule_candidates_absent update_conv')
next
  case (Cons b before)
  then show ?case by (simp add: assign_def)
qed

lemma schedule_observed_present:
  "map_of m k = Some g \<Longrightarrow> map_of (schedule_observed ds w diagnostics m) k = Some g"
proof (induction diagnostics arbitrary: m)
  case Nil
  then show ?case by simp
next
  case (Cons e rest)
  obtain k' d where e: "e = (k', d)" by (cases e)
  let ?m = "if map_of m k' \<noteq> None then m
     else (case find_by_id dr_id ds k' of
             None \<Rightarrow> m
           | Some r \<Rightarrow> AList.update k' (observed_only_scheduling w r d) m)"
  have "map_of ?m k = Some g"
    using Cons.prems by (auto simp: update_conv' split: option.splits)
  from Cons.IH [OF this] show ?case by (simp add: e)
qed

lemma optionalObserved_fields [simp]:
  "sg_parallelBatch (optionalObservedSchedulingDiagnostics d g) = sg_parallelBatch g"
  "sg_readyToStart (optionalObservedSchedulingDiagnostics d g) = sg_readyToStart g"
  "sg_blockedBy (optionalObservedSchedulingDiagnostics d g) = sg_blockedBy g"
  "sg_writeSet (optionalObservedSchedulingDiagnostics d g) = sg_writeSet g"
  "sg_scheduleOrder (optionalObservedSchedulingDiagnostics d g) = sg_scheduleOrder g"
  "sg_conflictsWith (optionalObservedSchedulingDiagnostics d g) = sg_conflictsWith g"
  "sg_canRunInParallel (optionalObservedSchedulingDiagnostics d g) = sg_canRunInParallel g"
  "sg_parallelGroup (optionalObservedSchedulingDiagnostics d g) = sg_parallelGroup g"
  "sg_conflictReason (optionalObservedSchedulingDiagnostics d g) = sg_conflictReason g"
  by (simp_all add: optionalObservedSchedulingDiagnostics_def split: option.splits)

lemma candidate_scheduling_fields [simp]:
  "sg_parallelBatch (candidate_scheduling cs ds a c) = candidate_batch a c"
  "sg_readyToStart (candidate_scheduling cs ds a c) \<longleftrightarrow> candidate_batch a c = 0"
  "sg_blockedBy (candidate_scheduling cs ds a c) = map ab_id (overlapping_assigned a c)"
  "sg_writeSet (candidate_scheduling cs ds a c) = cd_writeSet c"
  by (simp_all add: candidate_scheduling_def Let_def)

lemma numbered_core:
  "map (\<lambda>c. (cd_record c, cd_writeSet c)) (number_candidates i cs) =
   map (\<lambda>c. (cd_record c, cd_writeSet c)) cs"
  by (induction cs arbitrary: i) simp_all

lemma numbered_ids: "map candidate_id (number_candidates i cs) = map candidate_id cs"
  by (induction cs arbitrary: i) (simp_all add: candidate_id_def)

lemma numbered_member:
  "c \<in> set (number_candidates i cs) \<Longrightarrow> \<exists>d \<in> set cs. \<exists>j. c = d\<lparr>cd_scheduleOrder := j\<rparr>"
  by (induction cs arbitrary: i) auto

lemma writeSet_lookup:
  assumes "distinct (map dr_id ds)" and "d \<in> set ds"
  shows "map_of (writeSetByDelegationId ds) (dr_id d) =
           Some (resolveSchedulingWriteSet (dr_contextSnapshot d))"
  unfolding writeSetByDelegationId_def
  using assms by (intro js_map_of_get) (auto simp: comp_def)

definition write_set_of :: "delegation_record \<Rightarrow> string list" where
  "write_set_of d = ws_writeSet (resolveSchedulingWriteSet (dr_contextSnapshot d))"

definition in_schedule :: "delegation_record \<Rightarrow> bool" where
  "in_schedule d \<longleftrightarrow> active_delegation d \<and>
     (extractContextField (dr_contextSnapshot d) ''parallelGroup'' \<noteq> None \<or> write_set_of d \<noteq> [])"

lemma candidate_of_delegation:
  assumes "distinct (map dr_id ds)" and "d \<in> set ds"
  shows "cd_writeSet (make_candidate (writeSetByDelegationId ds) d) = write_set_of d"
    and "cd_record (make_candidate (writeSetByDelegationId ds) d) = d"
    and "schedulable (make_candidate (writeSetByDelegationId ds) d) \<longleftrightarrow>
           extractContextField (dr_contextSnapshot d) ''parallelGroup'' \<noteq> None \<or> write_set_of d \<noteq> []"
  using writeSet_lookup [OF assms]
  by (simp_all add: make_candidate_def Let_def write_set_of_def schedulable_def)

lemma scheduling_candidates_members:
  assumes "distinct (map dr_id ds)"
  shows "(\<lambda>c. (cd_record c, cd_writeSet c)) ` set (scheduling_candidates ds) =
         {(d, write_set_of d) | d. d \<in> set ds \<and> in_schedule d}"
proof -
  have "set (map (\<lambda>c. (cd_record c, cd_writeSet c)) (scheduling_candidates ds)) =
      {(d, write_set_of d) | d. d \<in> set ds \<and> in_schedule d}"
    unfolding scheduling_candidates_def numbered_core
    by (force simp: candidate_of_delegation [OF assms] in_schedule_def image_iff)
  then show ?thesis by simp
qed

lemma scheduling_candidates_distinct:
  assumes "distinct (map dr_id ds)"
  shows "distinct (map candidate_id (scheduling_candidates ds))"
proof -
  have "map candidate_id (map (make_candidate w) rs) = map dr_id rs" for w rs
    by (simp add: candidate_id_def make_candidate_def Let_def)
  moreover have "distinct (map dr_id (filter active_delegation ds))"
    using assms by (rule distinct_map_filter)
  ultimately have "distinct (map candidate_id (filter schedulable
      (map (make_candidate (writeSetByDelegationId ds)) (filter active_delegation ds))))"
    by (intro distinct_map_filter) metis
  then show ?thesis
    by (simp add: scheduling_candidates_def numbered_ids)
qed

section \<open>Running work\<close>

text \<open>Two delegations contend when they are different and may write a common path.\<close>

definition contend :: "delegation_record \<Rightarrow> delegation_record \<Rightarrow> bool" where
  "contend d e \<longleftrightarrow> dr_id d \<noteq> dr_id e \<and> set (write_set_of d) \<inter> set (write_set_of e) \<noteq> {}"

definition running_disjoint :: "delegation_record list \<Rightarrow> bool" where
  "running_disjoint ds \<longleftrightarrow>
     (\<forall>d \<in> set ds. \<forall>e \<in> set ds. dr_status d = DRunning \<longrightarrow> dr_status e = DRunning \<longrightarrow> \<not> contend d e)"

definition scheduling_of :: "delegation_record list \<Rightarrow> string \<Rightarrow> subagent_scheduling option" where
  "scheduling_of ds k = map_of (createSubagentSchedulingByDelegationId ds) k"

lemma scheduling_of_candidate:
  assumes "distinct (map dr_id ds)"
    and "scheduling_candidates ds = before @ c # after"
  shows "scheduling_of ds (candidate_id c) =
     Some (candidate_scheduling (scheduling_candidates ds)
       (createObservedWriteSetDiagnosticsByDelegationId ds (writeSetByDelegationId ds))
       (assign_all [] before) c)"
proof -
  have "distinct (map candidate_id (before @ c # after))"
    using scheduling_candidates_distinct [OF assms(1)] assms(2) by simp
  from schedule_candidates_lookup [OF this] show ?thesis
    unfolding scheduling_of_def createSubagentSchedulingByDelegationId_def Let_def
    by (intro schedule_observed_present) (simp add: assms(2))
qed

lemma split_candidate:
  assumes "distinct (map dr_id ds)" and "d \<in> set ds" and "in_schedule d"
  obtains before c after where "scheduling_candidates ds = before @ c # after"
    "cd_record c = d" "cd_writeSet c = write_set_of d" "candidate_id c = dr_id d"
proof -
  have "(d, write_set_of d) \<in> (\<lambda>c. (cd_record c, cd_writeSet c)) ` set (scheduling_candidates ds)"
    using assms by (auto simp: scheduling_candidates_members [OF assms(1)])
  then obtain c where c: "c \<in> set (scheduling_candidates ds)" "cd_record c = d"
    "cd_writeSet c = write_set_of d" by auto
  from c(1) obtain before after where "scheduling_candidates ds = before @ c # after"
    by (meson split_list)
  with c show ?thesis using that by (simp add: candidate_id_def)
qed

lemma candidate_delegation:
  assumes "distinct (map dr_id ds)" and "c \<in> set (scheduling_candidates ds)"
  shows "cd_record c \<in> set ds \<and> in_schedule (cd_record c) \<and>
         cd_writeSet c = write_set_of (cd_record c)"
proof -
  have "(cd_record c, cd_writeSet c) \<in> {(d, write_set_of d) | d. d \<in> set ds \<and> in_schedule d}"
    using assms(2) by (simp add: scheduling_candidates_members [OF assms(1), symmetric])
  then show ?thesis by auto
qed

text \<open>Running candidates come first.\<close>

lemma number_candidates_map_record:
  "map cd_record (number_candidates i cs) = map cd_record cs"
  by (induction cs arbitrary: i) simp_all

lemma sorted_wrt_map: "sorted_wrt P (map f xs) = sorted_wrt (\<lambda>x y. P (f x) (f y)) xs"
  by (induction xs) auto

lemma scheduling_candidates_ranked:
  "sorted_wrt (\<lambda>c d. running_rank (cd_record c) \<le> running_rank (cd_record d))
     (scheduling_candidates ds)"
proof -
  let ?cs = "js_sort compareSubagentSchedulingCandidates (filter schedulable
      (map (make_candidate (writeSetByDelegationId ds)) (filter active_delegation ds)))"
  have "sorted_wrt (\<lambda>c d. compareSubagentSchedulingCandidates c d \<le> 0) ?cs"
    by (rule scheduling_order.sort_ordered)
  then have "sorted_wrt (\<lambda>c d. running_rank (cd_record c) \<le> running_rank (cd_record d)) ?cs"
    by (rule sorted_wrt_mono_rel [rotated])
      (auto simp: compareSubagentSchedulingCandidates_def split: if_splits)
  then have "sorted_wrt (\<lambda>r s. running_rank r \<le> running_rank s) (map cd_record ?cs)"
    by (simp add: sorted_wrt_map)
  then have "sorted_wrt (\<lambda>r s. running_rank r \<le> running_rank s)
      (map cd_record (scheduling_candidates ds))"
    by (simp only: scheduling_candidates_def number_candidates_map_record)
  then show ?thesis by (simp add: sorted_wrt_map)
qed

lemma candidate_ids_inject:
  assumes "distinct (map dr_id ds)" and "c \<in> set (scheduling_candidates ds)"
    and "d \<in> set (scheduling_candidates ds)" and "dr_id (cd_record c) = dr_id (cd_record d)"
  shows "c = d"
  using scheduling_candidates_distinct [OF assms(1)] assms(2-4)
  by (auto simp: distinct_map inj_on_def candidate_id_def)

text \<open>While running work is disjoint, a queued delegation that may start overlaps none of it.\<close>

lemma running_assigned_zero:
  assumes dist: "distinct (map dr_id ds)" and disj: "running_disjoint ds"
    and split: "scheduling_candidates ds = before @ after"
    and run: "\<forall>c \<in> set before. dr_status (cd_record c) = DRunning"
  shows "\<forall>a \<in> set (assign_all [] before). ab_batch a = 0"
proof (rule assign_all_disjoint)
  have mem: "set before \<subseteq> set (scheduling_candidates ds)" using split by auto
  have dd: "distinct (map candidate_id before)"
    using scheduling_candidates_distinct [OF dist] split by simp
  have "js_intersect (cd_writeSet d) (cd_writeSet c) = []"
    if "c \<in> set before" "d \<in> set before" "candidate_id c \<noteq> candidate_id d" for c d
  proof -
    have c: "c \<in> set (scheduling_candidates ds)" and d: "d \<in> set (scheduling_candidates ds)"
      using that mem by auto
    have "\<not> contend (cd_record d) (cd_record c)"
      using that run disj candidate_delegation [OF dist c] candidate_delegation [OF dist d]
      by (simp add: running_disjoint_def)
    then show ?thesis
      using that candidate_delegation [OF dist c] candidate_delegation [OF dist d]
      by (auto simp: contend_def candidate_id_def js_intersect_Nil_iff)
  qed
  with dd show "disjoint_work before"
    unfolding disjoint_work_def distinct_map sorted_wrt_iff_nth_less
    by (metis (no_types, lifting) dd distinct_conv_nth length_map nth_map nth_mem
        order_less_imp_not_eq order_less_trans)
qed simp_all

lemma contend_in_schedule:
  "contend d e \<Longrightarrow> active_delegation d \<Longrightarrow> active_delegation e \<Longrightarrow> in_schedule d \<and> in_schedule e"
  by (auto simp: contend_def in_schedule_def)

lemma ready_not_contending:
  assumes dist: "distinct (map dr_id ds)" and disj: "running_disjoint ds"
    and d: "d \<in> set ds" "dr_status d = DQueued"
    and e: "e \<in> set ds" "dr_status e = DRunning"
    and ready: "\<And>g. scheduling_of ds (dr_id d) = Some g \<Longrightarrow> sg_readyToStart g"
  shows "\<not> contend d e"
proof
  assume contend: "contend d e"
  then have sched: "in_schedule d" "in_schedule e"
    using contend_in_schedule [OF contend] d e by (auto simp: active_delegation_def)
  obtain before c after where split: "scheduling_candidates ds = before @ c # after"
    and c: "cd_record c = d" "cd_writeSet c = write_set_of d" "candidate_id c = dr_id d"
    using split_candidate [OF dist d(1) sched(1)] .
  obtain b2 ce a2 where split2: "scheduling_candidates ds = b2 @ ce # a2"
    and ce: "cd_record ce = e" "cd_writeSet ce = write_set_of e" "candidate_id ce = dr_id e"
    using split_candidate [OF dist e(1) sched(2)] .
  have ranked: "sorted_wrt (\<lambda>c d. running_rank (cd_record c) \<le> running_rank (cd_record d))
      (before @ c # after)"
    using scheduling_candidates_ranked [of ds] split by simp
  have "ce \<in> set (before @ c # after)" using split split2 by (metis in_set_conv_decomp)
  moreover have "ce \<noteq> c" using c ce contend by (auto simp: contend_def)
  moreover have "ce \<notin> set after"
    using ranked c(1) ce(1) d(2) e(2) by (auto simp: sorted_wrt_append running_rank_def)
  ultimately obtain b1 b3 where before: "before = b1 @ ce # b3"
    by (auto dest: split_list)
  have "\<forall>x \<in> set (b1 @ [ce]). dr_status (cd_record x) = DRunning"
    using ranked ce(1) e(2)
    by (auto simp: before sorted_wrt_append running_rank_def split: if_splits)
  then have zero: "\<forall>a \<in> set (assign_all [] (b1 @ [ce])). ab_batch a = 0"
    using running_assigned_zero [OF dist disj, of "b1 @ [ce]" "b3 @ c # after"] split
    by (simp add: before)
  obtain a where a: "a \<in> set (assign_all [] (b1 @ [ce]))" "ab_writeSet a = cd_writeSet ce"
    using assign_all_covers [of ce "b1 @ [ce]" "[]"] by auto
  have "assign_all [] before = assign_all (assign_all [] (b1 @ [ce])) b3"
    by (simp add: before assign_all_append)
  then have "a \<in> set (assign_all [] before)"
    using a(1) assign_all_prefix [of "assign_all [] (b1 @ [ce])" b3] by auto
  moreover have "js_intersect (cd_writeSet c) (ab_writeSet a) \<noteq> []"
    using contend c(2) ce(2) a(2) by (auto simp: contend_def js_intersect_Nil_iff)
  ultimately have "0 \<in> set (map ab_batch (overlapping_assigned (assign_all [] before) c))"
    using zero a(1) by (force simp: overlapping_assigned_def)
  then have "candidate_batch (assign_all [] before) c \<noteq> 0"
    by (simp add: candidate_batch_def)
  with ready [unfolded c(3) [symmetric], OF scheduling_of_candidate [OF dist split]] show False
    by simp
qed

text \<open>Starting such a delegation keeps the running work disjoint.\<close>

lemma running_disjoint_start:
  assumes dist: "distinct (map dr_id ds)" and disj: "running_disjoint ds"
    and d: "d \<in> set ds" "dr_status d = DQueued"
    and ready: "\<And>g. scheduling_of ds (dr_id d) = Some g \<Longrightarrow> sg_readyToStart g"
    and d': "dr_id d' = dr_id d" "dr_contextSnapshot d' = dr_contextSnapshot d"
  shows "running_disjoint (replaceRecordById dr_id ds d')"
proof -
  have sets: "write_set_of d' = write_set_of d" using d'(2) by (simp add: write_set_of_def)
  have free: "\<not> contend d' e" "\<not> contend e d'" if "e \<in> set ds" "dr_status e = DRunning" for e
    using ready_not_contending [OF dist disj d that ready] d'(1) sets
    by (auto simp: contend_def)
  have self: "\<not> contend d' d'" by (simp add: contend_def)
  show ?thesis
    unfolding running_disjoint_def
    using free self disj by (auto simp: delegations.member_put [OF dist] running_disjoint_def)
qed

text \<open>The first candidate always gets batch 0, so queued work can always start once nothing runs.\<close>

lemma first_candidate_ready:
  assumes "distinct (map dr_id ds)" and "scheduling_candidates ds = c # cs"
  shows "\<exists>g. scheduling_of ds (candidate_id c) = Some g \<and> sg_readyToStart g \<and> sg_blockedBy g = []"
  using scheduling_of_candidate [OF assms(1), of "[]" c cs] assms(2)
  by (simp add: candidate_batch_def overlapping_assigned_def)

end
