(* ===== verification/Subagent_Runtime.thy ===== *)
theory Subagent_Runtime
  imports Subagent_Safety
begin

text \<open>
  The projections of \<open>packages/tasks-core/src/subagent-runtime.ts\<close> over the scheduling: the
  subagent runs of a task state, the scheduler heartbeat, the dispatch plan with its batches and
  the intents of a scheduler tick. Counters and ids are what the code computes; the constant
  \<open>schemaId\<close>, \<open>command\<close> and \<open>claimDryRun\<close> fields, which hold one literal, are left out.
\<close>

section \<open>Subagent runs\<close>

record subagent_verification =
  sv_verificationId :: string
  sv_verifierId :: string
  sv_status :: verification_status
  sv_verdict :: "verification_verdict option"
  sv_verdictSummary :: "string option"
  sv_requirement :: string
  sv_checks :: "verification_check list option"

record parent_visible_result =
  pv_status :: delegation_status
  pv_summary :: "string option"
  pv_verificationVerdict :: "verification_verdict option"
  pv_observedWriteSet :: "string list option"
  pv_observedWriteSetSource :: "write_set_observation option"

record subagent_run =
  sr_subagentId :: string
  sr_parentTurnId :: string
  sr_profileId :: string
  sr_workerId :: string
  sr_taskId :: "string option"
  sr_status :: delegation_status
  sr_role :: delegation_specialization
  sr_targetAgent :: "string option"
  sr_isolatedContext :: bool
  sr_instruction :: string
  sr_contextSnapshot :: "string option"
  sr_resultSummary :: "string option"
  sr_observedWriteSet :: "string list option"
  sr_observedWriteSetSource :: "write_set_observation option"
  sr_createdAtMs :: int
  sr_updatedAtMs :: int
  sr_completedAtMs :: "int option"
  sr_error :: "string option"
  sr_verification :: "subagent_verification option"
  sr_parentVisibleResult :: parent_visible_result
  sr_scheduling :: "subagent_scheduling option"

type_synonym verification_map = "(string \<times> verification_record) list"

definition verificationById :: "verification_record list \<Rightarrow> verification_map" where
  "verificationById records = js_map_of (map (\<lambda>r. (vr_id r, r)) records)"

definition verificationByTaskId :: "verification_record list \<Rightarrow> verification_map" where
  "verificationByTaskId records =
     js_map_of (concat (map (\<lambda>r. case vr_taskId r of None \<Rightarrow> [] | Some t \<Rightarrow> [(t, r)]) records))"

definition resolveDelegationVerification ::
  "delegation_record \<Rightarrow> verification_map \<Rightarrow> verification_map \<Rightarrow> subagent_verification option" where
  "resolveDelegationVerification r byId byTaskId =
     map_option
       (\<lambda>v. \<lparr>sv_verificationId = vr_id v, sv_verifierId = vr_verifierId v,
             sv_status = vr_status v, sv_verdict = vr_verdict v,
             sv_verdictSummary = vr_verdictSummary v, sv_requirement = vr_requirement v,
             sv_checks = vr_checks v\<rparr>)
       (nullish
         (case Option.bind (dr_verificationRequest r) vq_verificationId of
            None \<Rightarrow> None
          | Some k \<Rightarrow> map_of byId k)
         (case dr_taskId r of None \<Rightarrow> None | Some t \<Rightarrow> map_of byTaskId t))"

definition delegation_run ::
  "string option \<Rightarrow> verification_map \<Rightarrow> verification_map \<Rightarrow> scheduling_map \<Rightarrow> delegation_record \<Rightarrow>
   subagent_run" where
  "delegation_run parentTurn byId byTaskId scheduling r =
     (let verification = resolveDelegationVerification r byId byTaskId
      in \<lparr>sr_subagentId = dr_id r,
          sr_parentTurnId =
            nullish_else parentTurn
              (nullish_else (extractContextField (dr_contextSnapshot r) ''parentTurnId'')
                ''unknown''),
          sr_profileId =
            nullish_else (dr_targetAgent r)
              (nullish_else (map_option specialization_str (dr_specialization r))
                (dr_workerId r)),
          sr_workerId = dr_workerId r,
          sr_taskId = dr_taskId r,
          sr_status = dr_status r,
          sr_role = nullish_else (dr_specialization r) General,
          sr_targetAgent = dr_targetAgent r,
          sr_isolatedContext =
            (extractContextField (dr_contextSnapshot r) ''isolatedContext'' \<noteq> Some ''false''),
          sr_instruction = dr_instruction r,
          sr_contextSnapshot = dr_contextSnapshot r,
          sr_resultSummary = dr_resultSummary r,
          sr_observedWriteSet = dr_observedWriteSet r,
          sr_observedWriteSetSource = dr_observedWriteSetSource r,
          sr_createdAtMs = dr_createdAtMs r,
          sr_updatedAtMs = dr_updatedAtMs r,
          sr_completedAtMs = dr_completedAtMs r,
          sr_error = dr_error r,
          sr_verification = verification,
          sr_parentVisibleResult =
            \<lparr>pv_status = dr_status r,
             pv_summary = nullish (dr_resultSummary r) (dr_error r),
             pv_verificationVerdict = Option.bind verification sv_verdict,
             pv_observedWriteSet = dr_observedWriteSet r,
             pv_observedWriteSetSource = dr_observedWriteSetSource r\<rparr>,
          sr_scheduling = map_of scheduling (dr_id r)\<rparr>)"

definition projectSubagentRunsFromTaskState ::
  "task_operations_state \<Rightarrow> string option \<Rightarrow> subagent_run list" where
  "projectSubagentRunsFromTaskState state parentTurn =
     (let byId = verificationById (os_verification state);
          byTaskId = verificationByTaskId (os_verification state);
          scheduling = createSubagentSchedulingByDelegationId (os_delegation state)
      in map (delegation_run parentTurn byId byTaskId scheduling) (os_delegation state))"

section \<open>Heartbeat\<close>

datatype dispatch_reason = ReadyReason | SchedulerBlocked | MailboxEmpty

record scheduler_heartbeat =
  hb_parentTurnId :: "string option"
  hb_totalSubagentRuns :: nat
  hb_queuedCount :: nat
  hb_runningCount :: nat
  hb_completedCount :: nat
  hb_failedCount :: nat
  hb_cancelledCount :: nat
  hb_schedulerTrackedCount :: nat
  hb_readyCount :: nat
  hb_blockedCount :: nat
  hb_unscheduledQueuedCount :: nat
  hb_nextReadySubagentIds :: "string list"
  hb_blockedSubagentIds :: "string list"
  hb_runningSubagentIds :: "string list"
  hb_nextParallelBatch :: "int option"
  hb_canContinue :: bool
  hb_stoppedReason :: dispatch_reason
  hb_heartbeatOrdinal :: int
  hb_latestUpdatedAtMs :: "int option"

definition with_status :: "delegation_status \<Rightarrow> subagent_run list \<Rightarrow> subagent_run list" where
  "with_status s runs = filter (\<lambda>run. sr_status run = s) runs"

text \<open>\<open>run.scheduling?.readyToStart !== false\<close>\<close>

definition may_start :: "subagent_run \<Rightarrow> bool" where
  "may_start run = (case sr_scheduling run of None \<Rightarrow> True | Some g \<Rightarrow> sg_readyToStart g)"

fun list_minimum :: "int list \<Rightarrow> int option" where
  "list_minimum [] = None"
| "list_minimum (x # xs) = Some (foldl min x xs)"

fun list_maximum :: "int list \<Rightarrow> int option" where
  "list_maximum [] = None"
| "list_maximum (x # xs) = Some (foldl max x xs)"

definition resolveNextParallelBatch :: "subagent_run list \<Rightarrow> int option" where
  "resolveNextParallelBatch runs =
     list_minimum
       (concat (map (\<lambda>run. case sr_scheduling run of None \<Rightarrow> [] | Some g \<Rightarrow> [sg_parallelBatch g])
                 runs))"

definition resolveLatestUpdatedAtMs :: "subagent_run list \<Rightarrow> int option" where
  "resolveLatestUpdatedAtMs runs = list_maximum (map sr_updatedAtMs runs)"

definition deriveSchedulerHeartbeatOrdinal :: "int option \<Rightarrow> int" where
  "deriveSchedulerHeartbeatOrdinal latestUpdatedAtMs = nullish_else latestUpdatedAtMs 0"

definition projectSubagentSchedulerHeartbeatFromSubagentRuns ::
  "subagent_run list \<Rightarrow> string option \<Rightarrow> scheduler_heartbeat" where
  "projectSubagentSchedulerHeartbeatFromSubagentRuns runs parentTurn =
     (let queuedRuns = with_status DQueued runs;
          runningRuns = with_status DRunning runs;
          scheduledRuns = filter (\<lambda>run. sr_scheduling run \<noteq> None) runs;
          readyQueuedRuns = filter may_start queuedRuns;
          blockedQueuedRuns = filter (\<lambda>run. \<not> may_start run) queuedRuns;
          unscheduledQueuedRuns = filter (\<lambda>run. sr_scheduling run = None) queuedRuns;
          latestUpdatedAtMs = resolveLatestUpdatedAtMs runs;
          canContinue = (length readyQueuedRuns > 0)
      in \<lparr>hb_parentTurnId = parentTurn,
          hb_totalSubagentRuns = length runs,
          hb_queuedCount = length queuedRuns,
          hb_runningCount = length runningRuns,
          hb_completedCount = length (with_status DCompleted runs),
          hb_failedCount = length (with_status DFailed runs),
          hb_cancelledCount = length (with_status DCancelled runs),
          hb_schedulerTrackedCount = length scheduledRuns,
          hb_readyCount = length readyQueuedRuns,
          hb_blockedCount = length blockedQueuedRuns,
          hb_unscheduledQueuedCount = length unscheduledQueuedRuns,
          hb_nextReadySubagentIds = map sr_subagentId readyQueuedRuns,
          hb_blockedSubagentIds = map sr_subagentId blockedQueuedRuns,
          hb_runningSubagentIds = map sr_subagentId runningRuns,
          hb_nextParallelBatch = resolveNextParallelBatch readyQueuedRuns,
          hb_canContinue = canContinue,
          hb_stoppedReason =
            (if canContinue then ReadyReason
             else if length blockedQueuedRuns > 0 then SchedulerBlocked else MailboxEmpty),
          hb_heartbeatOrdinal = deriveSchedulerHeartbeatOrdinal latestUpdatedAtMs,
          hb_latestUpdatedAtMs = latestUpdatedAtMs\<rparr>)"

definition projectSubagentSchedulerHeartbeatFromTaskState ::
  "task_operations_state \<Rightarrow> string option \<Rightarrow> scheduler_heartbeat" where
  "projectSubagentSchedulerHeartbeatFromTaskState state parentTurn =
     projectSubagentSchedulerHeartbeatFromSubagentRuns
       (projectSubagentRunsFromTaskState state parentTurn) parentTurn"

section \<open>Dispatch plan\<close>

record dispatch_write_set =
  dw_subagentId :: string
  dw_writeSet :: "string list"
  dw_writeSetSource :: "write_set_source option"

record dispatch_batch =
  db_parallelBatch :: int
  db_subagentIds :: "string list"
  db_workerIds :: "string list"
  db_writeSets :: "dispatch_write_set list"

record dispatch_plan =
  pl_parentTurnId :: "string option"
  pl_planOrdinal :: int
  pl_heartbeatOrdinal :: int
  pl_canDispatch :: bool
  pl_dispatchReason :: dispatch_reason
  pl_maxDispatchableCount :: nat
  pl_dispatchableSubagentIds :: "string list"
  pl_dispatchBatches :: "dispatch_batch list"
  pl_blockedSubagentIds :: "string list"
  pl_runningSubagentIds :: "string list"

definition MAX_SAFE_INTEGER :: int where
  "MAX_SAFE_INTEGER = 9007199254740991"

definition run_batch :: "subagent_run \<Rightarrow> int" where
  "run_batch run = (case sr_scheduling run of None \<Rightarrow> 0 | Some g \<Rightarrow> sg_parallelBatch g)"

definition run_order :: "subagent_run \<Rightarrow> int" where
  "run_order run =
     (case sr_scheduling run of None \<Rightarrow> MAX_SAFE_INTEGER | Some g \<Rightarrow> sg_scheduleOrder g)"

definition compareSubagentDispatchRuns :: "subagent_run \<Rightarrow> subagent_run \<Rightarrow> int" where
  "compareSubagentDispatchRuns left right =
     (if run_batch left \<noteq> run_batch right then run_batch left - run_batch right
      else if run_order left \<noteq> run_order right then run_order left - run_order right
      else if sr_createdAtMs left \<noteq> sr_createdAtMs right
      then sr_createdAtMs left - sr_createdAtMs right
      else localeCompare (sr_subagentId left) (sr_subagentId right))"

interpretation dispatch_order: consistent_comparator compareSubagentDispatchRuns
  unfolding compareSubagentDispatchRuns_def
  by (intro comparator_by_key comparator_on [OF comparator_localeCompare])

definition uniqueNumbers :: "int list \<Rightarrow> int list" where
  "uniqueNumbers values = js_sort (\<lambda>left right. left - right) (js_unique values)"

definition run_write_set :: "subagent_run \<Rightarrow> string list" where
  "run_write_set run = (case sr_scheduling run of None \<Rightarrow> [] | Some g \<Rightarrow> sg_writeSet g)"

definition run_write_set_source :: "subagent_run \<Rightarrow> write_set_source option" where
  "run_write_set_source run = Option.bind (sr_scheduling run) sg_writeSetSource"

definition createSubagentDispatchBatches :: "subagent_run list \<Rightarrow> dispatch_batch list" where
  "createSubagentDispatchBatches runs =
     map (\<lambda>parallelBatch.
            let batchRuns = filter (\<lambda>run. run_batch run = parallelBatch) runs
            in \<lparr>db_parallelBatch = parallelBatch,
                db_subagentIds = map sr_subagentId batchRuns,
                db_workerIds = js_unique (map sr_workerId batchRuns),
                db_writeSets =
                  map (\<lambda>run. \<lparr>dw_subagentId = sr_subagentId run, dw_writeSet = run_write_set run,
                              dw_writeSetSource = run_write_set_source run\<rparr>) batchRuns\<rparr>)
       (uniqueNumbers (map run_batch runs))"

definition dispatchable_runs :: "subagent_run list \<Rightarrow> subagent_run list" where
  "dispatchable_runs runs =
     js_sort compareSubagentDispatchRuns
       (filter (\<lambda>run. sr_status run = DQueued \<and> may_start run) runs)"

definition projectSubagentSchedulerDispatchPlanFromSubagentRuns ::
  "subagent_run list \<Rightarrow> string option \<Rightarrow> dispatch_plan" where
  "projectSubagentSchedulerDispatchPlanFromSubagentRuns runs parentTurn =
     (let heartbeat = projectSubagentSchedulerHeartbeatFromSubagentRuns runs parentTurn;
          dispatchableRuns = dispatchable_runs runs
      in \<lparr>pl_parentTurnId = parentTurn,
          pl_planOrdinal = hb_heartbeatOrdinal heartbeat,
          pl_heartbeatOrdinal = hb_heartbeatOrdinal heartbeat,
          pl_canDispatch = (length dispatchableRuns > 0),
          pl_dispatchReason = hb_stoppedReason heartbeat,
          pl_maxDispatchableCount = length dispatchableRuns,
          pl_dispatchableSubagentIds = map sr_subagentId dispatchableRuns,
          pl_dispatchBatches = createSubagentDispatchBatches dispatchableRuns,
          pl_blockedSubagentIds = hb_blockedSubagentIds heartbeat,
          pl_runningSubagentIds = hb_runningSubagentIds heartbeat\<rparr>)"

definition projectSubagentSchedulerDispatchPlanFromTaskState ::
  "task_operations_state \<Rightarrow> string option \<Rightarrow> dispatch_plan" where
  "projectSubagentSchedulerDispatchPlanFromTaskState state parentTurn =
     projectSubagentSchedulerDispatchPlanFromSubagentRuns
       (projectSubagentRunsFromTaskState state parentTurn) parentTurn"

section \<open>Scheduler tick\<close>

record tick_intent =
  tn_intentId :: string
  tn_delegationId :: string
  tn_workerId :: string
  tn_argv :: "string list"
  tn_parallelBatch :: int
  tn_writeSet :: "string list"
  tn_writeSetSource :: "write_set_source option"

record scheduler_tick =
  tk_sessionId :: string
  tk_latestTurnId :: "string option"
  tk_dispatchPlan :: dispatch_plan
  tk_dispatchIntents :: "tick_intent list"

definition dispatch_intent ::
  "string \<Rightarrow> subagent_run list \<Rightarrow> dispatch_batch \<Rightarrow> string \<Rightarrow> tick_intent" where
  "dispatch_intent sessionId runs batch subagentId =
     (let run = find (\<lambda>entry. sr_subagentId entry = subagentId) runs;
          writeSet = find (\<lambda>entry. dw_subagentId entry = subagentId) (db_writeSets batch);
          workerId = nullish_else (map_option sr_workerId run) ''unknown-worker'';
          scheduling = Option.bind run sr_scheduling
      in \<lparr>tn_intentId = ''dispatch_'' @ subagentId,
          tn_delegationId = subagentId,
          tn_workerId = workerId,
          tn_argv = [''run-delegation'', ''--session-id'', sessionId, ''--worker-id'', workerId,
                     ''--delegation-id'', subagentId],
          tn_parallelBatch = db_parallelBatch batch,
          tn_writeSet =
            nullish_else (map_option dw_writeSet writeSet)
              (nullish_else (map_option sg_writeSet scheduling) []),
          tn_writeSetSource =
            nullish (Option.bind writeSet dw_writeSetSource)
              (Option.bind scheduling sg_writeSetSource)\<rparr>)"

definition createSubagentSchedulerTickDispatchIntents ::
  "string \<Rightarrow> dispatch_plan \<Rightarrow> subagent_run list \<Rightarrow> tick_intent list" where
  "createSubagentSchedulerTickDispatchIntents sessionId dispatchPlan runs =
     concat (map (\<lambda>batch. map (dispatch_intent sessionId runs batch) (db_subagentIds batch))
              (pl_dispatchBatches dispatchPlan))"

definition projectSubagentSchedulerTickFromSubagentRuns ::
  "subagent_run list \<Rightarrow> string \<Rightarrow> string option \<Rightarrow> string option \<Rightarrow> scheduler_tick" where
  "projectSubagentSchedulerTickFromSubagentRuns runs sessionId latestTurnId parentTurn =
     (let dispatchPlan = projectSubagentSchedulerDispatchPlanFromSubagentRuns runs parentTurn
      in \<lparr>tk_sessionId = sessionId,
          tk_latestTurnId = latestTurnId,
          tk_dispatchPlan = dispatchPlan,
          tk_dispatchIntents =
            createSubagentSchedulerTickDispatchIntents sessionId dispatchPlan runs\<rparr>)"

definition projectSubagentSchedulerTickFromTaskState ::
  "task_operations_state \<Rightarrow> string \<Rightarrow> string option \<Rightarrow> string option \<Rightarrow> scheduler_tick" where
  "projectSubagentSchedulerTickFromTaskState state sessionId latestTurnId parentTurn =
     projectSubagentSchedulerTickFromSubagentRuns
       (projectSubagentRunsFromTaskState state parentTurn) sessionId latestTurnId parentTurn"

section \<open>Lemmas\<close>

lemma run_ids [simp]:
  "map sr_subagentId (projectSubagentRunsFromTaskState s p) = map dr_id (os_delegation s)"
  by (simp add: projectSubagentRunsFromTaskState_def delegation_run_def Let_def)

lemma delegation_run_fields [simp]:
  "sr_subagentId (delegation_run p bi bt m d) = dr_id d"
  "sr_status (delegation_run p bi bt m d) = dr_status d"
  "sr_workerId (delegation_run p bi bt m d) = dr_workerId d"
  "sr_scheduling (delegation_run p bi bt m d) = map_of m (dr_id d)"
  by (simp_all add: delegation_run_def Let_def)

lemma with_status_partition:
  "length (with_status DQueued runs) + length (with_status DRunning runs) +
   length (with_status DCompleted runs) + length (with_status DFailed runs) +
   length (with_status DCancelled runs) = length runs"
proof (induction runs)
  case Nil
  then show ?case by (simp add: with_status_def)
next
  case (Cons run runs)
  then show ?case by (cases "sr_status run") (simp_all add: with_status_def)
qed

lemma comparator_difference [comparator_intros]: "consistent_comparator (\<lambda>x y. x - y :: int)"
  by unfold_locales auto

interpretation numeric_order: consistent_comparator "\<lambda>x y. x - y :: int"
  by (rule comparator_difference)

lemma set_uniqueNumbers [simp]: "set (uniqueNumbers ns) = set ns"
  by (simp add: uniqueNumbers_def)

lemma distinct_uniqueNumbers [simp]: "distinct (uniqueNumbers ns)"
  using distinct_map_js_sort [of id "\<lambda>x y. x - y" "js_unique ns"] by (simp add: uniqueNumbers_def)

lemma uniqueNumbers_sorted: "sorted_wrt (<) (uniqueNumbers ns)"
proof -
  have "sorted_wrt (\<lambda>x y. x - y \<le> 0) (uniqueNumbers ns)"
    unfolding uniqueNumbers_def by (rule numeric_order.sort_ordered)
  then have "sorted (uniqueNumbers ns)"
    by (rule sorted_wrt_mono_rel [rotated]) simp
  then show ?thesis using strict_sorted_iff distinct_uniqueNumbers by blast
qed

text \<open>The batches of a plan split the dispatchable runs.\<close>

lemma mset_split_by:
  "distinct ns \<Longrightarrow> f ` set xs \<subseteq> set ns \<Longrightarrow>
   mset (concat (map (\<lambda>n. filter (\<lambda>x. f x = n) xs) ns)) = mset xs"
proof (induction ns arbitrary: xs)
  case Nil
  then show ?case by simp
next
  case (Cons n ns)
  have same: "filter (\<lambda>x. f x = k) (filter (\<lambda>x. f x \<noteq> n) xs) = filter (\<lambda>x. f x = k) xs"
    if "k \<in> set ns" for k
    using that Cons.prems(1) by (auto simp: filter_filter intro: filter_cong)
  have eq: "map (\<lambda>k. filter (\<lambda>x. f x = k) (filter (\<lambda>x. f x \<noteq> n) xs)) ns =
      map (\<lambda>k. filter (\<lambda>x. f x = k) xs) ns"
    by (rule map_cong [OF refl same])
  have "mset (concat (map (\<lambda>k. filter (\<lambda>x. f x = k) (filter (\<lambda>x. f x \<noteq> n) xs)) ns)) =
      mset (filter (\<lambda>x. f x \<noteq> n) xs)"
    using Cons.prems by (intro Cons.IH) auto
  then have rest: "mset (concat (map (\<lambda>k. filter (\<lambda>x. f x = k) xs) ns)) =
      mset (filter (\<lambda>x. f x \<noteq> n) xs)"
    by (simp only: eq)
  have "mset (concat (map (\<lambda>k. filter (\<lambda>x. f x = k) xs) (n # ns))) =
      mset (filter (\<lambda>x. f x = n) xs) + mset (filter (\<lambda>x. f x \<noteq> n) xs)"
    by (simp only: list.map concat.simps mset_append rest)
  also have "\<dots> = mset xs"
    by (simp only: mset_filter multiset_partition [symmetric])
  finally show ?case .
qed

lemma batches_partition:
  "mset (concat (map db_subagentIds (createSubagentDispatchBatches runs))) =
   mset (map sr_subagentId runs)"
proof -
  let ?ns = "uniqueNumbers (map run_batch runs)"
  have "concat (map db_subagentIds (createSubagentDispatchBatches runs)) =
      map sr_subagentId (concat (map (\<lambda>n. filter (\<lambda>r. run_batch r = n) runs) ?ns))"
    by (simp add: createSubagentDispatchBatches_def Let_def map_concat comp_def)
  moreover have "mset (concat (map (\<lambda>n. filter (\<lambda>r. run_batch r = n) runs) ?ns)) = mset runs"
    by (rule mset_split_by) simp_all
  ultimately show ?thesis by (simp add: mset_map)
qed

end
