(* ===== verification/Task_Mailbox.thy ===== *)
theory Task_Mailbox
  imports Task_Board_Invariant Subagent_Runtime
begin

text \<open>
  The mailbox queries of \<open>packages/tasks-core/src/mailbox.ts\<close>: ordered, filtered and limited
  views of a task state, the claim of a queued delegation with all its error branches, and the
  worker and verifier snapshots that match waiting records with pending notifications.

  The mailbox has its own copy functions. Its copy of a delegation leaves out
  \<open>observedWriteSet\<close> and \<open>observedWriteSetSource\<close>, unlike the one of \<open>task-operations.ts\<close>.
\<close>

section \<open>Orders and copies\<close>

definition compareDelegationMailboxOrder :: "delegation_record \<Rightarrow> delegation_record \<Rightarrow> int" where
  "compareDelegationMailboxOrder left right =
     (if dr_createdAtMs left \<noteq> dr_createdAtMs right then dr_createdAtMs left - dr_createdAtMs right
      else if dr_updatedAtMs left \<noteq> dr_updatedAtMs right
      then dr_updatedAtMs left - dr_updatedAtMs right
      else localeCompare (dr_id left) (dr_id right))"

definition compareVerificationMailboxOrder :: "verification_record \<Rightarrow> verification_record \<Rightarrow> int"
where
  "compareVerificationMailboxOrder left right =
     (if vr_createdAtMs left \<noteq> vr_createdAtMs right then vr_createdAtMs left - vr_createdAtMs right
      else if vr_updatedAtMs left \<noteq> vr_updatedAtMs right
      then vr_updatedAtMs left - vr_updatedAtMs right
      else localeCompare (vr_id left) (vr_id right))"

definition compareProposalMailboxOrder :: "proposal_record \<Rightarrow> proposal_record \<Rightarrow> int" where
  "compareProposalMailboxOrder left right =
     (if pr_createdAtMs left \<noteq> pr_createdAtMs right then pr_createdAtMs left - pr_createdAtMs right
      else if pr_updatedAtMs left \<noteq> pr_updatedAtMs right
      then pr_updatedAtMs left - pr_updatedAtMs right
      else localeCompare (pr_id left) (pr_id right))"

definition compareNotificationMailboxOrder :: "notification_record \<Rightarrow> notification_record \<Rightarrow> int"
where
  "compareNotificationMailboxOrder left right =
     (if nr_createdAtMs left \<noteq> nr_createdAtMs right then nr_createdAtMs left - nr_createdAtMs right
      else if nr_updatedAtMs left \<noteq> nr_updatedAtMs right
      then nr_updatedAtMs left - nr_updatedAtMs right
      else localeCompare (nr_id left) (nr_id right))"

definition mailboxCloneDelegationRecord :: "delegation_record \<Rightarrow> delegation_record" where
  "mailboxCloneDelegationRecord record =
     \<lparr>dr_id = dr_id record,
      dr_taskId = dr_taskId record,
      dr_workerId = dr_workerId record,
      dr_instruction = dr_instruction record,
      dr_fromAgent = dr_fromAgent record,
      dr_contextSnapshot = dr_contextSnapshot record,
      dr_specialization = dr_specialization record,
      dr_targetAgent = dr_targetAgent record,
      dr_verificationRequest =
        map_option cloneDelegationVerificationRequest (dr_verificationRequest record),
      dr_resultSummary = dr_resultSummary record,
      dr_observedWriteSet = None,
      dr_observedWriteSetSource = None,
      dr_status = dr_status record,
      dr_createdAtMs = dr_createdAtMs record,
      dr_updatedAtMs = dr_updatedAtMs record,
      dr_completedAtMs = dr_completedAtMs record,
      dr_error = dr_error record\<rparr>"

section \<open>Lists\<close>

text \<open>The body all four list functions share: filter, sort, slice. \<open>limit ?? Infinity\<close> keeps
  everything, and a limit of zero or less returns at once.\<close>

definition mailbox_page ::
  "('r \<Rightarrow> bool) \<Rightarrow> ('r \<Rightarrow> 'r \<Rightarrow> int) \<Rightarrow> int option \<Rightarrow> 'r list \<Rightarrow> 'r list" where
  "mailbox_page wanted order limit records =
     (case limit of
        None \<Rightarrow> js_sort order (filter wanted records)
      | Some n \<Rightarrow>
          if n \<le> 0 then [] else take (nat n) (js_sort order (filter wanted records)))"

definition matches_query :: "'a option \<Rightarrow> 'a \<Rightarrow> bool" where
  "matches_query wanted actual = (case wanted of None \<Rightarrow> True | Some w \<Rightarrow> actual = w)"

lemma matches_query_simps [simp]:
  "matches_query None a" "matches_query (Some w) a \<longleftrightarrow> a = w"
  by (simp_all add: matches_query_def)

definition listDelegationMailbox ::
  "task_operations_state \<Rightarrow> string option \<Rightarrow> delegation_status list option \<Rightarrow> int option \<Rightarrow>
   delegation_record list" where
  "listDelegationMailbox state workerId statuses limit =
     map mailboxCloneDelegationRecord
       (mailbox_page
         (\<lambda>r. matches_query workerId (dr_workerId r) \<and>
              dr_status r \<in> set (nullish_else statuses [DQueued]))
         compareDelegationMailboxOrder limit (os_delegation state))"

definition listVerificationMailbox ::
  "task_operations_state \<Rightarrow> string option \<Rightarrow> verification_status list option \<Rightarrow> int option \<Rightarrow>
   verification_record list" where
  "listVerificationMailbox state verifierId statuses limit =
     map cloneVerificationGateRecord
       (mailbox_page
         (\<lambda>r. matches_query verifierId (vr_verifierId r) \<and>
              vr_status r \<in> set (nullish_else statuses [VPending]))
         compareVerificationMailboxOrder limit (os_verification state))"

definition listProposalMailbox ::
  "task_operations_state \<Rightarrow> proposal_status list option \<Rightarrow> int option \<Rightarrow> proposal_record list" where
  "listProposalMailbox state statuses limit =
     map cloneProposalRecord
       (mailbox_page (\<lambda>r. pr_status r \<in> set (nullish_else statuses [PPending]))
         compareProposalMailboxOrder limit (os_proposalQueue state))"

definition listNotificationMailbox ::
  "task_operations_state \<Rightarrow> recipient_kind option \<Rightarrow> string option \<Rightarrow>
   notification_status list option \<Rightarrow> int option \<Rightarrow> notification_record list" where
  "listNotificationMailbox state recipientKind recipientId statuses limit =
     map cloneTaskNotificationRecord
       (mailbox_page
         (\<lambda>r. matches_query recipientKind (nr_recipientKind r) \<and>
              matches_query recipientId (nr_recipientId r) \<and>
              nr_status r \<in> set (nullish_else statuses [NPending]))
         compareNotificationMailboxOrder limit (notifications_of state))"

section \<open>Claims\<close>

record delegation_claim_input =
  ci_id :: string
  ci_workerId :: "string option"
  ci_respectScheduler :: bool

definition scheduler_block_message :: "string \<Rightarrow> subagent_scheduling \<Rightarrow> string" where
  "scheduler_block_message delegationId scheduling =
     ''Delegation '' @ delegationId @ '' is blocked by subagent scheduler: parallelBatch=''
       @ js_show (sg_parallelBatch scheduling)
       @ (if sg_blockedBy scheduling \<noteq> []
          then '' blockedBy='' @ js_join '','' (sg_blockedBy scheduling) else [])"

definition selectDelegationForClaim ::
  "task_operations_state \<Rightarrow> delegation_claim_input \<Rightarrow> js_error + delegation_record" where
  "selectDelegationForClaim state input =
     (case find_by_id dr_id (os_delegation state) (ci_id input) of
        None \<Rightarrow> Inl (Error (''Unknown delegation record: '' @ ci_id input))
      | Some record \<Rightarrow>
          (if \<not> matches_query (ci_workerId input) (dr_workerId record)
           then Inl (Error (''Delegation '' @ ci_id input @ '' belongs to worker ''
                  @ dr_workerId record @ '', not '' @ nullish_else (ci_workerId input) [] @ ''.''))
           else if dr_status record \<noteq> DQueued
           then Inl (Error (''Delegation '' @ ci_id input @ '' is not claimable from status ''
                  @ delegation_status_str (dr_status record) @ ''.''))
           else
             (let scheduling =
                    (if ci_respectScheduler input
                     then Option.bind
                            (find (\<lambda>run. sr_subagentId run = ci_id input)
                              (projectSubagentRunsFromTaskState state None))
                            sr_scheduling
                     else None)
              in case scheduling of
                   None \<Rightarrow> Inr (mailboxCloneDelegationRecord record)
                 | Some g \<Rightarrow>
                     (if \<not> sg_readyToStart g
                      then Inl (Error (scheduler_block_message (ci_id input) g))
                      else Inr (mailboxCloneDelegationRecord record)))))"

section \<open>Worker and verifier mailboxes\<close>

datatype mailbox_coverage = Aligned | MissingNotifications | OrphanNotifications | Mixed

definition resolveWorkerMailboxCoverage :: "string list \<Rightarrow> string list \<Rightarrow> mailbox_coverage" where
  "resolveWorkerMailboxCoverage unnotified orphans =
     (if unnotified \<noteq> [] \<and> orphans \<noteq> [] then Mixed
      else if unnotified \<noteq> [] then MissingNotifications
      else if orphans \<noteq> [] then OrphanNotifications
      else Aligned)"

text \<open>The loop both snapshots run over their notifications: one without a waiting record is an
  orphan, the others are kept under the id of their record.\<close>

definition collect_notification ::
  "string list \<Rightarrow> (notification_record \<Rightarrow> string option) \<Rightarrow>
   (string \<times> notification_record) list \<times> string list \<Rightarrow> notification_record \<Rightarrow>
   (string \<times> notification_record) list \<times> string list" where
  "collect_notification mailboxIds target acc notification =
     (case acc of (byId, orphans) \<Rightarrow>
        (case target notification of
           None \<Rightarrow> (byId, orphans @ [nr_id notification])
         | Some k \<Rightarrow>
             (if k \<notin> set mailboxIds then (byId, orphans @ [nr_id notification])
              else (AList.update k notification byId, orphans))))"

definition match_notifications ::
  "string list \<Rightarrow> (notification_record \<Rightarrow> string option) \<Rightarrow> notification_record list \<Rightarrow>
   (string \<times> notification_record) list \<times> string list" where
  "match_notifications mailboxIds target notifications =
     foldl (collect_notification mailboxIds target) ([], []) notifications"

record worker_mailbox_item =
  wi_id :: string
  wi_workerId :: string
  wi_instruction :: string
  wi_status :: delegation_status
  wi_taskId :: "string option"
  wi_specialization :: "delegation_specialization option"
  wi_targetAgent :: "string option"
  wi_verificationRequest :: "verification_request option"
  wi_notificationId :: "string option"
  wi_notificationStatus :: "notification_status option"
  wi_notificationSummary :: "string option"

record worker_mailbox =
  wm_workerId :: "string option"
  wm_mailboxSize :: nat
  wm_notificationCount :: nat
  wm_coverage :: mailbox_coverage
  wm_delegationIds :: "string list"
  wm_notificationIds :: "string list"
  wm_unnotifiedDelegationIds :: "string list"
  wm_orphanNotificationIds :: "string list"
  wm_items :: "worker_mailbox_item list"
  wm_notifications :: "notification_record list"

definition worker_item ::
  "(string \<times> notification_record) list \<Rightarrow> delegation_record \<Rightarrow> worker_mailbox_item" where
  "worker_item byId record =
     (let notification = map_of byId (dr_id record)
      in \<lparr>wi_id = dr_id record,
          wi_workerId = dr_workerId record,
          wi_instruction = dr_instruction record,
          wi_status = dr_status record,
          wi_taskId = dr_taskId record,
          wi_specialization = dr_specialization record,
          wi_targetAgent = dr_targetAgent record,
          wi_verificationRequest =
            map_option cloneDelegationVerificationRequest (dr_verificationRequest record),
          wi_notificationId = map_option nr_id notification,
          wi_notificationStatus = map_option nr_status notification,
          wi_notificationSummary = map_option nr_summary notification\<rparr>)"

definition readWorkerMailbox :: "task_operations_state \<Rightarrow> string option \<Rightarrow> worker_mailbox" where
  "readWorkerMailbox state workerId =
     (let delegation = listDelegationMailbox state workerId (Some [DQueued]) None;
          notifications = listNotificationMailbox state (Some Worker) workerId (Some [NPending]) None;
          (byId, orphans) =
            match_notifications (map dr_id delegation) nr_delegationId notifications;
          unnotified = map dr_id (filter (\<lambda>r. map_of byId (dr_id r) = None) delegation)
      in \<lparr>wm_workerId = workerId,
          wm_mailboxSize = length delegation,
          wm_notificationCount = length notifications,
          wm_coverage = resolveWorkerMailboxCoverage unnotified orphans,
          wm_delegationIds = map dr_id delegation,
          wm_notificationIds = map nr_id notifications,
          wm_unnotifiedDelegationIds = unnotified,
          wm_orphanNotificationIds = orphans,
          wm_items = map (worker_item byId) delegation,
          wm_notifications = notifications\<rparr>)"

record verifier_mailbox_item =
  fi_id :: string
  fi_verifierId :: string
  fi_requirement :: string
  fi_status :: verification_status
  fi_taskId :: "string option"
  fi_notificationId :: "string option"
  fi_notificationStatus :: "notification_status option"
  fi_notificationSummary :: "string option"

record verifier_mailbox =
  fm_verifierId :: "string option"
  fm_mailboxSize :: nat
  fm_notificationCount :: nat
  fm_coverage :: mailbox_coverage
  fm_verificationIds :: "string list"
  fm_notificationIds :: "string list"
  fm_unnotifiedVerificationIds :: "string list"
  fm_orphanNotificationIds :: "string list"
  fm_items :: "verifier_mailbox_item list"
  fm_notifications :: "notification_record list"

definition verifier_item ::
  "(string \<times> notification_record) list \<Rightarrow> verification_record \<Rightarrow> verifier_mailbox_item" where
  "verifier_item byId record =
     (let notification = map_of byId (vr_id record)
      in \<lparr>fi_id = vr_id record,
          fi_verifierId = vr_verifierId record,
          fi_requirement = vr_requirement record,
          fi_status = vr_status record,
          fi_taskId = vr_taskId record,
          fi_notificationId = map_option nr_id notification,
          fi_notificationStatus = map_option nr_status notification,
          fi_notificationSummary = map_option nr_summary notification\<rparr>)"

definition readVerifierMailbox :: "task_operations_state \<Rightarrow> string option \<Rightarrow> verifier_mailbox" where
  "readVerifierMailbox state verifierId =
     (let verification = listVerificationMailbox state verifierId (Some [VPending]) None;
          notifications =
            listNotificationMailbox state (Some Verifier) verifierId (Some [NPending]) None;
          (byId, orphans) =
            match_notifications (map vr_id verification) nr_verificationId notifications;
          unnotified = map vr_id (filter (\<lambda>r. map_of byId (vr_id r) = None) verification)
      in \<lparr>fm_verifierId = verifierId,
          fm_mailboxSize = length verification,
          fm_notificationCount = length notifications,
          fm_coverage = resolveWorkerMailboxCoverage unnotified orphans,
          fm_verificationIds = map vr_id verification,
          fm_notificationIds = map nr_id notifications,
          fm_unnotifiedVerificationIds = unnotified,
          fm_orphanNotificationIds = orphans,
          fm_items = map (verifier_item byId) verification,
          fm_notifications = notifications\<rparr>)"

section \<open>Pages\<close>

interpretation delegation_order: consistent_comparator compareDelegationMailboxOrder
  unfolding compareDelegationMailboxOrder_def
  by (intro comparator_by_key comparator_on [OF comparator_localeCompare])

interpretation verification_order: consistent_comparator compareVerificationMailboxOrder
  unfolding compareVerificationMailboxOrder_def
  by (intro comparator_by_key comparator_on [OF comparator_localeCompare])

interpretation proposal_order: consistent_comparator compareProposalMailboxOrder
  unfolding compareProposalMailboxOrder_def
  by (intro comparator_by_key comparator_on [OF comparator_localeCompare])

interpretation notification_order: consistent_comparator compareNotificationMailboxOrder
  unfolding compareNotificationMailboxOrder_def
  by (intro comparator_by_key comparator_on [OF comparator_localeCompare])

lemma mailbox_page_all: "mailbox_page P cmp None rs = js_sort cmp (filter P rs)"
  by (simp add: mailbox_page_def)

lemma mailbox_page_prefix:
  "mailbox_page P cmp (Some n) rs = take (nat n) (mailbox_page P cmp None rs)"
  by (simp add: mailbox_page_def)

text \<open>A page holds only records that satisfy the filter, in order, and every record it leaves out
  comes after the ones it holds.\<close>

lemma mailbox_page_set: "set (mailbox_page P cmp limit rs) \<subseteq> {r \<in> set rs. P r}"
  by (auto simp: mailbox_page_def dest: in_set_takeD split: option.splits if_splits)

lemma mailbox_page_sorted:
  assumes "consistent_comparator cmp"
  shows "sorted_wrt (\<lambda>x y. cmp x y \<le> 0) (mailbox_page P cmp limit rs)"
proof -
  have "sorted_wrt (\<lambda>x y. cmp x y \<le> 0) (js_sort cmp (filter P rs))"
    by (rule consistent_comparator.sort_ordered [OF assms])
  then show ?thesis
    by (auto simp: mailbox_page_def sorted_wrt_take split: option.splits)
qed

lemma mailbox_page_best:
  assumes "consistent_comparator cmp" and "r \<in> set rs" and "P r"
    and "r \<notin> set (mailbox_page P cmp limit rs)" and "q \<in> set (mailbox_page P cmp limit rs)"
  shows "cmp q r \<le> 0"
proof -
  obtain n where n: "limit = Some n" "0 < n"
    using assms(2-5) by (cases limit) (auto simp: mailbox_page_def split: if_splits)
  let ?all = "js_sort cmp (filter P rs)"
  have q: "q \<in> set (take (nat n) ?all)"
    using assms(5) n by (simp add: mailbox_page_def)
  have "r \<in> set ?all" using assms(2,3) by simp
  moreover have "r \<notin> set (take (nat n) ?all)" using assms(4) n by (simp add: mailbox_page_def)
  ultimately have r: "r \<in> set (drop (nat n) ?all)"
    by (metis append_take_drop_id set_append UnE)
  have "sorted_wrt (\<lambda>x y. cmp x y \<le> 0) (take (nat n) ?all @ drop (nat n) ?all)"
    using consistent_comparator.sort_ordered [OF assms(1)] by simp
  with q r show ?thesis by (simp only: sorted_wrt_append)
qed

section \<open>Matching\<close>

lemma match_notifications_step:
  assumes "foldl (collect_notification ids target) (m, os) ns = (m', os')"
    and "\<And>n. n \<in> set ns \<Longrightarrow> \<exists>k \<in> set ids. target n = Some k"
  shows "os' = os \<and> (\<forall>k. map_of m' k = None \<longleftrightarrow>
           map_of m k = None \<and> (\<forall>n \<in> set ns. target n \<noteq> Some k))"
  using assms
proof (induction ns arbitrary: m os)
  case Nil
  then show ?case by simp
next
  case (Cons n ns)
  obtain k where k: "k \<in> set ids" "target n = Some k" using Cons.prems(2) by auto
  then have "collect_notification ids target (m, os) n = (AList.update k n m, os)"
    by (simp add: collect_notification_def)
  then have "foldl (collect_notification ids target) (AList.update k n m, os) ns = (m', os')"
    using Cons.prems(1) by simp
  from Cons.IH [OF this] Cons.prems(2) k(2) show ?case
    by (auto simp: update_conv')
qed

lemma match_notifications_aligned:
  assumes "\<And>n. n \<in> set ns \<Longrightarrow> \<exists>k \<in> set ids. target n = Some k"
    and "\<And>k. k \<in> set ids \<Longrightarrow> \<exists>n \<in> set ns. target n = Some k"
  shows "snd (match_notifications ids target ns) = []"
    and "k \<in> set ids \<Longrightarrow> map_of (fst (match_notifications ids target ns)) k \<noteq> None"
proof -
  obtain m os where eq: "match_notifications ids target ns = (m, os)"
    by (cases "match_notifications ids target ns")
  then have "foldl (collect_notification ids target) ([], []) ns = (m, os)"
    by (simp add: match_notifications_def)
  from match_notifications_step [OF this assms(1)]
  have step: "os = []" "\<And>k. map_of m k = None \<longleftrightarrow> (\<forall>n \<in> set ns. target n \<noteq> Some k)"
    by simp_all
  show "snd (match_notifications ids target ns) = []" using step(1) eq by simp
  show "map_of (fst (match_notifications ids target ns)) k \<noteq> None" if "k \<in> set ids"
    using step(2) assms(2) [OF that] eq by auto
qed

section \<open>Coverage\<close>

lemma notice_of_delegation:
  assumes inv: "state_inv s" and d: "d \<in> set (os_delegation s)" "dr_status d = DQueued"
  obtains n where "n \<in> set (notifications_of s)" "nr_status n = NPending"
    "nr_recipientKind n = Worker" "nr_recipientId n = dr_workerId d"
    "nr_delegationId n = Some (dr_id d)" "nr_id n = buildDelegationNotificationId (dr_id d)"
proof -
  have "delegation_noticed (notifications_of s) d" using inv d(1) by (simp add: state_inv_def)
  then obtain n where n: "find_by_id nr_id (notifications_of s)
      (buildDelegationNotificationId (dr_id d)) = Some n" "nr_status n = NPending"
    "nr_recipientId n = dr_workerId d"
    using d(2) by (auto simp: delegation_noticed_def noticed_def split: option.splits)
  have mem: "n \<in> set (notifications_of s)" "nr_id n = buildDelegationNotificationId (dr_id d)"
    using notifications.get_Some [OF n(1)] by simp_all
  moreover have "notice_ok n" using inv mem(1) by (simp add: state_inv_def)
  ultimately have "nr_recipientKind n = Worker" "nr_delegationId n = Some (dr_id d)"
    by (auto simp: notice_ok_def split: option.splits)
  with mem n show ?thesis using that by blast
qed

lemma delegation_of_notice:
  assumes inv: "state_inv s" and n: "n \<in> set (notifications_of s)" "nr_status n = NPending"
    "nr_recipientKind n = Worker"
  obtains d where "d \<in> set (os_delegation s)" "dr_status d = DQueued"
    "nr_delegationId n = Some (dr_id d)" "dr_workerId d = nr_recipientId n"
proof -
  have "notice_ok n" "backed s n" using inv n(1) by (simp_all add: state_inv_def)
  then obtain d where d: "nr_delegationId n = Some (dr_id d)" "d \<in> set (os_delegation s)"
    "nr_id n = buildDelegationNotificationId (dr_id d)"
    using n(3) by (auto simp: notice_ok_def backed_def split: option.splits)
  have "find_by_id nr_id (notifications_of s) (nr_id n) = Some n"
    using inv n(1) by (intro notifications.get_member) (simp_all add: state_inv_def unique_ids_def)
  moreover have "delegation_noticed (notifications_of s) d"
    using inv d(2) by (simp add: state_inv_def)
  ultimately have "dr_status d = DQueued" "dr_workerId d = nr_recipientId n"
    using n(2) d(3) by (auto simp: delegation_noticed_def noticed_def)
  with d show ?thesis using that by blast
qed

lemma notice_of_verification:
  assumes inv: "state_inv s" and v: "v \<in> set (os_verification s)" "vr_status v = VPending"
  obtains n where "n \<in> set (notifications_of s)" "nr_status n = NPending"
    "nr_recipientKind n = Verifier" "nr_recipientId n = vr_verifierId v"
    "nr_verificationId n = Some (vr_id v)" "nr_id n = buildVerificationNotificationId (vr_id v)"
proof -
  have "verification_noticed (notifications_of s) v" using inv v(1) by (simp add: state_inv_def)
  then obtain n where n: "find_by_id nr_id (notifications_of s)
      (buildVerificationNotificationId (vr_id v)) = Some n" "nr_status n = NPending"
    "nr_recipientId n = vr_verifierId v"
    using v(2) by (auto simp: verification_noticed_def noticed_def split: option.splits)
  have mem: "n \<in> set (notifications_of s)" "nr_id n = buildVerificationNotificationId (vr_id v)"
    using notifications.get_Some [OF n(1)] by simp_all
  moreover have "notice_ok n" using inv mem(1) by (simp add: state_inv_def)
  ultimately have "nr_recipientKind n = Verifier" "nr_verificationId n = Some (vr_id v)"
    by (auto simp: notice_ok_def split: option.splits)
  with mem n show ?thesis using that by blast
qed

lemma verification_of_notice:
  assumes inv: "state_inv s" and n: "n \<in> set (notifications_of s)" "nr_status n = NPending"
    "nr_recipientKind n = Verifier"
  obtains v where "v \<in> set (os_verification s)" "vr_status v = VPending"
    "nr_verificationId n = Some (vr_id v)" "vr_verifierId v = nr_recipientId n"
proof -
  have "notice_ok n" "backed s n" using inv n(1) by (simp_all add: state_inv_def)
  then obtain v where v: "nr_verificationId n = Some (vr_id v)" "v \<in> set (os_verification s)"
    "nr_id n = buildVerificationNotificationId (vr_id v)"
    using n(3) by (auto simp: notice_ok_def backed_def split: option.splits)
  have "find_by_id nr_id (notifications_of s) (nr_id n) = Some n"
    using inv n(1) by (intro notifications.get_member) (simp_all add: state_inv_def unique_ids_def)
  moreover have "verification_noticed (notifications_of s) v"
    using inv v(2) by (simp add: state_inv_def)
  ultimately have "vr_status v = VPending" "vr_verifierId v = nr_recipientId n"
    using n(2) v(3) by (auto simp: verification_noticed_def noticed_def)
  with v show ?thesis using that by blast
qed

lemma mailboxClone_id [simp]: "dr_id (mailboxCloneDelegationRecord r) = dr_id r"
  by (simp add: mailboxCloneDelegationRecord_def)

lemma set_listDelegationMailbox:
  "set (map dr_id (listDelegationMailbox s w (Some [DQueued]) None)) =
     {dr_id d | d. d \<in> set (os_delegation s) \<and> matches_query w (dr_workerId d) \<and> dr_status d = DQueued}"
  by (auto simp: listDelegationMailbox_def mailbox_page_all)

lemma set_listVerificationMailbox:
  "set (map vr_id (listVerificationMailbox s w (Some [VPending]) None)) =
     {vr_id v | v. v \<in> set (os_verification s) \<and> matches_query w (vr_verifierId v) \<and>
                    vr_status v = VPending}"
  by (auto simp: listVerificationMailbox_def mailbox_page_all clone_simps)

lemma set_listNotificationMailbox:
  "set (listNotificationMailbox s (Some kind) w (Some [NPending]) None) =
     {n \<in> set (notifications_of s). nr_recipientKind n = kind \<and> matches_query w (nr_recipientId n) \<and>
                                   nr_status n = NPending}"
  by (auto simp: listNotificationMailbox_def mailbox_page_all clone_simps)

lemma worker_notifications_match:
  fixes s w
  assumes inv: "state_inv s"
  defines "ids \<equiv> map dr_id (listDelegationMailbox s w (Some [DQueued]) None)"
  defines "ns \<equiv> listNotificationMailbox s (Some Worker) w (Some [NPending]) None"
  shows "n \<in> set ns \<Longrightarrow> \<exists>k \<in> set ids. nr_delegationId n = Some k"
    and "k \<in> set ids \<Longrightarrow> \<exists>n \<in> set ns. nr_delegationId n = Some k"
proof -
  show "\<exists>k \<in> set ids. nr_delegationId n = Some k" if "n \<in> set ns"
  proof -
    have n: "n \<in> set (notifications_of s)" "nr_status n = NPending" "nr_recipientKind n = Worker"
      "matches_query w (nr_recipientId n)"
      using that unfolding ns_def set_listNotificationMailbox by simp_all
    from delegation_of_notice [OF inv n(1-3)] obtain d where d: "d \<in> set (os_delegation s)"
      "dr_status d = DQueued" "nr_delegationId n = Some (dr_id d)" "dr_workerId d = nr_recipientId n" .
    then have "dr_id d \<in> set ids"
      using n(4) unfolding ids_def set_listDelegationMailbox by auto
    with d(3) show ?thesis by blast
  qed
  show "\<exists>n \<in> set ns. nr_delegationId n = Some k" if k: "k \<in> set ids"
  proof -
    obtain d where d: "d \<in> set (os_delegation s)" "matches_query w (dr_workerId d)"
      "dr_status d = DQueued" "k = dr_id d"
      using k unfolding ids_def set_listDelegationMailbox by blast
    from notice_of_delegation [OF inv d(1,3)] obtain n where "n \<in> set (notifications_of s)"
      "nr_status n = NPending" "nr_recipientKind n = Worker" "nr_recipientId n = dr_workerId d"
      "nr_delegationId n = Some (dr_id d)" .
    with d(2,4) show ?thesis
      unfolding ns_def set_listNotificationMailbox by (intro bexI [of _ n]) simp_all
  qed
qed

lemma verifier_notifications_match:
  fixes s w
  assumes inv: "state_inv s"
  defines "ids \<equiv> map vr_id (listVerificationMailbox s w (Some [VPending]) None)"
  defines "ns \<equiv> listNotificationMailbox s (Some Verifier) w (Some [NPending]) None"
  shows "n \<in> set ns \<Longrightarrow> \<exists>k \<in> set ids. nr_verificationId n = Some k"
    and "k \<in> set ids \<Longrightarrow> \<exists>n \<in> set ns. nr_verificationId n = Some k"
proof -
  show "\<exists>k \<in> set ids. nr_verificationId n = Some k" if "n \<in> set ns"
  proof -
    have n: "n \<in> set (notifications_of s)" "nr_status n = NPending" "nr_recipientKind n = Verifier"
      "matches_query w (nr_recipientId n)"
      using that unfolding ns_def set_listNotificationMailbox by simp_all
    from verification_of_notice [OF inv n(1-3)] obtain v where v: "v \<in> set (os_verification s)"
      "vr_status v = VPending" "nr_verificationId n = Some (vr_id v)"
      "vr_verifierId v = nr_recipientId n" .
    then have "vr_id v \<in> set ids"
      using n(4) unfolding ids_def set_listVerificationMailbox by auto
    with v(3) show ?thesis by blast
  qed
  show "\<exists>n \<in> set ns. nr_verificationId n = Some k" if k: "k \<in> set ids"
  proof -
    obtain v where v: "v \<in> set (os_verification s)" "matches_query w (vr_verifierId v)"
      "vr_status v = VPending" "k = vr_id v"
      using k unfolding ids_def set_listVerificationMailbox by blast
    from notice_of_verification [OF inv v(1,3)] obtain n where "n \<in> set (notifications_of s)"
      "nr_status n = NPending" "nr_recipientKind n = Verifier" "nr_recipientId n = vr_verifierId v"
      "nr_verificationId n = Some (vr_id v)" .
    with v(2,4) show ?thesis
      unfolding ns_def set_listNotificationMailbox by (intro bexI [of _ n]) simp_all
  qed
qed

lemma readWorkerMailbox_aligned:
  assumes "state_inv s"
  shows "wm_coverage (readWorkerMailbox s w) = Aligned \<and>
         wm_unnotifiedDelegationIds (readWorkerMailbox s w) = [] \<and>
         wm_orphanNotificationIds (readWorkerMailbox s w) = []"
proof -
  let ?ds = "listDelegationMailbox s w (Some [DQueued]) None"
  let ?match = "match_notifications (map dr_id ?ds) nr_delegationId
      (listNotificationMailbox s (Some Worker) w (Some [NPending]) None)"
  note match = match_notifications_aligned [OF worker_notifications_match [OF assms, of _ w]]
  have "snd ?match = []" by (rule match(1)) assumption+
  moreover have "filter (\<lambda>r. map_of (fst ?match) (dr_id r) = None) ?ds = []"
    unfolding filter_empty_conv by (intro ballI match(2)) simp_all
  ultimately show ?thesis
    by (simp add: readWorkerMailbox_def Let_def case_prod_beta resolveWorkerMailboxCoverage_def)
qed

lemma readVerifierMailbox_aligned:
  assumes "state_inv s"
  shows "fm_coverage (readVerifierMailbox s w) = Aligned \<and>
         fm_unnotifiedVerificationIds (readVerifierMailbox s w) = [] \<and>
         fm_orphanNotificationIds (readVerifierMailbox s w) = []"
proof -
  let ?vs = "listVerificationMailbox s w (Some [VPending]) None"
  let ?match = "match_notifications (map vr_id ?vs) nr_verificationId
      (listNotificationMailbox s (Some Verifier) w (Some [NPending]) None)"
  note match = match_notifications_aligned [OF verifier_notifications_match [OF assms, of _ w]]
  have "snd ?match = []" by (rule match(1)) assumption+
  moreover have "filter (\<lambda>r. map_of (fst ?match) (vr_id r) = None) ?vs = []"
    unfolding filter_empty_conv by (intro ballI match(2)) simp_all
  ultimately show ?thesis
    by (simp add: readVerifierMailbox_def Let_def case_prod_beta resolveWorkerMailboxCoverage_def)
qed

end
