(* ===== verification/Task_Plane.thy ===== *)
theory Task_Plane
  imports Task_Mailbox
begin

text \<open>
  The ports over a task board: the claim of \<open>packages/tasks-core/src/task-plane-port.ts\<close> and
  \<open>packages/tasks-core/src/startup-reconciliation.ts\<close>, which requeues or fails what was running
  when the process stopped. The other methods of the port call one board method or one
  mailbox query and return its result.

  Then the discipline of a scheduler: as long as delegations are started only by claims that
  respect the scheduler, running delegations never write a common path.
\<close>

section \<open>The port\<close>

definition claimDelegation :: "delegation_claim_input \<Rightarrow> board \<Rightarrow> task_operations_state outcome" where
  "claimDelegation input b =
     (case selectDelegationForClaim (snapshotOperations b) input of
        Inl e \<Rightarrow> (Inl e, b)
      | Inr _ \<Rightarrow>
          setDelegationStatus
            \<lparr>du_id = ci_id input, du_status = DRunning, du_error = None, du_reason = None,
             du_resultSummary = None, du_observedWriteSet = None,
             du_observedWriteSetSource = None\<rparr> b)"

text \<open>The queries of the port, over a snapshot of the board.\<close>

definition portStatus :: "board \<Rightarrow> task_operations_state" where
  "portStatus b = snapshotOperations b"

definition portListDelegationMailbox ::
  "string option \<Rightarrow> delegation_status list option \<Rightarrow> int option \<Rightarrow> board \<Rightarrow> delegation_record list"
where
  "portListDelegationMailbox workerId statuses limit b =
     listDelegationMailbox (snapshotOperations b) workerId statuses limit"

definition portReadWorkerMailbox :: "string option \<Rightarrow> board \<Rightarrow> worker_mailbox" where
  "portReadWorkerMailbox workerId b = readWorkerMailbox (snapshotOperations b) workerId"

definition portReadVerifierMailbox :: "string option \<Rightarrow> board \<Rightarrow> verifier_mailbox" where
  "portReadVerifierMailbox verifierId b = readVerifierMailbox (snapshotOperations b) verifierId"

definition portListNotifications ::
  "recipient_kind option \<Rightarrow> string option \<Rightarrow> notification_status list option \<Rightarrow> int option \<Rightarrow>
   board \<Rightarrow> notification_record list" where
  "portListNotifications kind recipient statuses limit b =
     listNotificationMailbox (snapshotOperations b) kind recipient statuses limit"

definition portListProposals ::
  "proposal_status list option \<Rightarrow> int option \<Rightarrow> board \<Rightarrow> proposal_record list" where
  "portListProposals statuses limit b = listProposalMailbox (snapshotOperations b) statuses limit"

section \<open>Startup reconciliation\<close>

definition STARTUP_RECONCILIATION_REASON :: string where
  "STARTUP_RECONCILIATION_REASON = ''startup_reconciliation''"

definition DEFAULT_FAILURE_REASON :: string where
  "DEFAULT_FAILURE_REASON =
     ''Recovered orphaned running delegation during startup reconciliation.''"

datatype reconciliation_target = Requeue | Fail

fun target_status :: "reconciliation_target \<Rightarrow> delegation_status" where
  "target_status Requeue = DQueued"
| "target_status Fail = DFailed"

record reconciliation_options =
  ro_target :: "reconciliation_target option"
  ro_failureReason :: "string option"

definition reconciliation_update :: "reconciliation_options \<Rightarrow> string \<Rightarrow> delegation_status_update"
where
  "reconciliation_update options k =
     (let target = nullish_else (ro_target options) Requeue
      in \<lparr>du_id = k, du_status = target_status target,
          du_error =
            (if target = Fail
             then Some (nullish_else (ro_failureReason options) DEFAULT_FAILURE_REASON) else None),
          du_reason = Some STARTUP_RECONCILIATION_REASON, du_resultSummary = None,
          du_observedWriteSet = None, du_observedWriteSetSource = None\<rparr>)"

fun set_statuses :: "delegation_status_update list \<Rightarrow> board \<Rightarrow> unit outcome" where
  "set_statuses [] b = (Inr (), b)"
| "set_statuses (update # updates) b =
     and_then (setDelegationStatus update b) (\<lambda>_ b'. set_statuses updates b')"

definition running_ids :: "board \<Rightarrow> string list" where
  "running_ids b =
     map dr_id (filter (\<lambda>r. dr_status r = DRunning) (os_delegation (snapshotOperations b)))"

definition reconcileTaskBoardStartup ::
  "reconciliation_options \<Rightarrow> board \<Rightarrow> (task_operations_state \<times> string list) outcome" where
  "reconcileTaskBoardStartup options b =
     (let runningDelegations = running_ids b
      in if length runningDelegations = 0 then (Inr (snapshotOperations b, []), b)
         else and_then (set_statuses (map (reconciliation_update options) runningDelegations) b)
                (\<lambda>_ b'. (Inr (snapshotOperations b', runningDelegations), b')))"

section \<open>Status changes on an invariant board\<close>

lemma snapshotOperations_inv [simp]:
  "board_inv b \<Longrightarrow> snapshotOperations b = tb_state b"
  by (simp add: snapshotOperations_def cloneTaskOperationsState_def board_inv_def state_inv_def)

lemma board_inv_delegations: "board_inv b \<Longrightarrow> distinct (map dr_id (os_delegation (tb_state b)))"
  by (simp add: board_inv_def state_inv_def unique_ids_def)

lemma setDelegationStatus_known:
  assumes "board_inv b" and "find_by_id dr_id (os_delegation (tb_state b)) (du_id input) = Some d"
  shows "fst (setDelegationStatus input b) = Inr (tb_state (snd (setDelegationStatus input b)))"
    and "os_delegation (tb_state (snd (setDelegationStatus input b))) =
           replaceRecordById dr_id (os_delegation (tb_state b))
             (delegation_with_status input d (board_now b))"
  using setDelegationStatus_ok [OF assms(2) board_inv_wf_delegation [OF assms]] by simp_all

lemma find_member:
  "board_inv b \<Longrightarrow> k \<in> dr_id ` set (os_delegation (tb_state b)) \<Longrightarrow>
   \<exists>d. find_by_id dr_id (os_delegation (tb_state b)) k = Some d"
  using delegations.get_None by (metis option.exhaust)

lemma set_statuses_ok:
  "board_inv b \<Longrightarrow> du_id ` set updates \<subseteq> dr_id ` set (os_delegation (tb_state b)) \<Longrightarrow>
   distinct (map du_id updates) \<Longrightarrow>
   \<exists>b'. set_statuses updates b = (Inr (), b') \<and> board_inv b' \<and>
        (\<forall>k. find_by_id dr_id (os_delegation (tb_state b')) k =
             (case find_by_id dr_id (os_delegation (tb_state b)) k of
                None \<Rightarrow> None
              | Some d \<Rightarrow>
                  (case find (\<lambda>u. du_id u = k) updates of
                     None \<Rightarrow> Some d
                   | Some u \<Rightarrow> Some (delegation_with_status u d
                       (dr_updatedAtMs (the (find_by_id dr_id (os_delegation (tb_state b')) k)))))))"
proof (induction updates arbitrary: b)
  case Nil
  then show ?case by (auto split: option.splits)
next
  case (Cons u updates)
  obtain d where d: "find_by_id dr_id (os_delegation (tb_state b)) (du_id u) = Some d"
  proof -
    have "du_id u \<in> dr_id ` set (os_delegation (tb_state b))" using Cons.prems(2) by simp
    from find_member [OF Cons.prems(1) this] show ?thesis using that by blast
  qed
  let ?b = "snd (setDelegationStatus u b)"
  note known = setDelegationStatus_known [OF Cons.prems(1) d]
  have inv: "board_inv ?b" using Cons.prems(1) by (rule setDelegationStatus_inv)
  have id: "dr_id d = du_id u" using delegations.get_Some [OF d] by simp
  have find: "find_by_id dr_id (os_delegation (tb_state ?b)) k =
      (if k = du_id u then Some (delegation_with_status u d (board_now b))
       else find_by_id dr_id (os_delegation (tb_state b)) k)" for k
    by (simp add: known(2) delegations.get_put id)
  have ids: "dr_id ` set (os_delegation (tb_state ?b)) =
      insert (du_id u) (dr_id ` set (os_delegation (tb_state b)))"
    by (simp add: known(2) delegations.put_ids id)
  obtain b' where b': "set_statuses updates ?b = (Inr (), b')" "board_inv b'"
    and step: "\<forall>k. find_by_id dr_id (os_delegation (tb_state b')) k =
             (case find_by_id dr_id (os_delegation (tb_state ?b)) k of
                None \<Rightarrow> None
              | Some d \<Rightarrow>
                  (case find (\<lambda>u. du_id u = k) updates of
                     None \<Rightarrow> Some d
                   | Some u \<Rightarrow> Some (delegation_with_status u d
                       (dr_updatedAtMs (the (find_by_id dr_id (os_delegation (tb_state b')) k))))))"
    using Cons.IH [OF inv] Cons.prems(2,3) ids by auto
  obtain s1 b1 where "setDelegationStatus u b = (Inr s1, b1)"
    using known(1) by (metis prod.exhaust_sel)
  then have run: "set_statuses (u # updates) b = (Inr (), b')"
    using b'(1) by simp
  have own: "find (\<lambda>v. du_id v = du_id u) updates = None"
    using Cons.prems(3) by (simp add: find_None_iff) (metis imageI)
  have "find_by_id dr_id (os_delegation (tb_state b')) (du_id u) =
      Some (delegation_with_status u d (board_now b))"
    using step [rule_format, of "du_id u"] own find by simp
  then have stamped: "find_by_id dr_id (os_delegation (tb_state b')) (du_id u) =
      Some (delegation_with_status u d
        (dr_updatedAtMs (the (find_by_id dr_id (os_delegation (tb_state b')) (du_id u)))))"
    by (simp add: delegation_with_status_def)
  show ?case
  proof (intro exI [of _ b'] conjI allI)
    show "set_statuses (u # updates) b = (Inr (), b')" by (rule run)
    show "board_inv b'" by (rule b'(2))
    show "find_by_id dr_id (os_delegation (tb_state b')) k =
             (case find_by_id dr_id (os_delegation (tb_state b)) k of
                None \<Rightarrow> None
              | Some d \<Rightarrow>
                  (case find (\<lambda>v. du_id v = k) (u # updates) of
                     None \<Rightarrow> Some d
                   | Some u \<Rightarrow> Some (delegation_with_status u d
                       (dr_updatedAtMs (the (find_by_id dr_id (os_delegation (tb_state b')) k))))))"
      for k
    proof (cases "k = du_id u")
      case True
      then show ?thesis using stamped d by simp
    next
      case False
      then have skip: "find (\<lambda>v. du_id v = k) (u # updates) = find (\<lambda>v. du_id v = k) updates"
        by simp
      show ?thesis
        unfolding skip using step [rule_format, of k] by (simp only: find False if_False)
    qed
  qed
qed

lemma reconciliation_update_fields [simp]:
  "du_id (reconciliation_update options k) = k"
  "du_status (reconciliation_update options k) = target_status (nullish_else (ro_target options) Requeue)"
  by (simp_all add: reconciliation_update_def Let_def)

lemma target_not_running [simp]: "target_status t \<noteq> DRunning"
  by (cases t) simp_all

lemma find_reconciliation:
  "find (\<lambda>u. du_id u = k) (map (reconciliation_update options) ks) =
     (if k \<in> set ks then Some (reconciliation_update options k) else None)"
  by (induction ks) auto

text \<open>Reconciliation never throws; it moves exactly the running delegations to the target status.\<close>

lemma reconcile_effect:
  assumes inv: "board_inv b"
  shows "\<exists>b'. reconcileTaskBoardStartup options b = (Inr (tb_state b', running_ids b), b') \<and>
    board_inv b' \<and>
    (\<forall>k. find_by_id dr_id (os_delegation (tb_state b')) k =
       (case find_by_id dr_id (os_delegation (tb_state b)) k of
          None \<Rightarrow> None
        | Some d \<Rightarrow>
            if dr_status d = DRunning
            then Some (delegation_with_status (reconciliation_update options k) d
                   (dr_updatedAtMs (the (find_by_id dr_id (os_delegation (tb_state b')) k))))
            else Some d))"
proof -
  let ?ds = "os_delegation (tb_state b)"
  have ids: "set (running_ids b) = {dr_id d | d. d \<in> set ?ds \<and> dr_status d = DRunning}"
    using inv by (auto simp: running_ids_def)
  have running: "k \<in> set (running_ids b) \<longleftrightarrow> dr_status d = DRunning"
    if "find_by_id dr_id ?ds k = Some d" for k d
  proof -
    have d: "d \<in> set ?ds" "dr_id d = k" using delegations.get_Some [OF that] by simp_all
    have "e = d" if "e \<in> set ?ds" "dr_id e = k" for e
      using delegations.get_member [OF board_inv_delegations [OF inv] that(1)] that(2)
        \<open>find_by_id dr_id ?ds k = Some d\<close> by simp
    with d show ?thesis unfolding ids by blast
  qed
  have dist: "distinct (running_ids b)"
    using board_inv_delegations [OF inv] inv by (simp add: running_ids_def distinct_map_filter)
  have "du_id ` set (map (reconciliation_update options) (running_ids b)) \<subseteq> dr_id ` set ?ds"
    using ids by auto
  moreover have "distinct (map du_id (map (reconciliation_update options) (running_ids b)))"
    using dist by (simp add: comp_def)
  ultimately obtain b' where b': "set_statuses (map (reconciliation_update options) (running_ids b)) b
        = (Inr (), b')" "board_inv b'"
    and step: "\<And>k. find_by_id dr_id (os_delegation (tb_state b')) k =
             (case find_by_id dr_id ?ds k of
                None \<Rightarrow> None
              | Some d \<Rightarrow>
                  (case find (\<lambda>u. du_id u = k) (map (reconciliation_update options) (running_ids b)) of
                     None \<Rightarrow> Some d
                   | Some u \<Rightarrow> Some (delegation_with_status u d
                       (dr_updatedAtMs (the (find_by_id dr_id (os_delegation (tb_state b')) k))))))"
    using set_statuses_ok [OF inv, of "map (reconciliation_update options) (running_ids b)"] by blast
  have "reconcileTaskBoardStartup options b = (Inr (tb_state b', running_ids b), b')"
    using b' inv by (cases "running_ids b") (simp_all add: reconcileTaskBoardStartup_def)
  moreover have "find_by_id dr_id (os_delegation (tb_state b')) k =
       (case find_by_id dr_id ?ds k of
          None \<Rightarrow> None
        | Some d \<Rightarrow>
            if dr_status d = DRunning
            then Some (delegation_with_status (reconciliation_update options k) d
                   (dr_updatedAtMs (the (find_by_id dr_id (os_delegation (tb_state b')) k))))
            else Some d)" for k
    using step [of k] running [of k] by (auto simp: find_reconciliation split: option.splits)
  ultimately show ?thesis using b'(2) by blast
qed

lemma reconcile_none_running:
  assumes "board_inv b" and "reconcileTaskBoardStartup options b = (Inr (s, ks), b')"
  shows "\<forall>d \<in> set (os_delegation s). dr_status d \<noteq> DRunning"
proof
  obtain b2 where b2: "reconcileTaskBoardStartup options b = (Inr (tb_state b2, running_ids b), b2)"
    "board_inv b2" and step: "\<And>k. find_by_id dr_id (os_delegation (tb_state b2)) k =
       (case find_by_id dr_id (os_delegation (tb_state b)) k of
          None \<Rightarrow> None
        | Some d \<Rightarrow>
            if dr_status d = DRunning
            then Some (delegation_with_status (reconciliation_update options k) d
                   (dr_updatedAtMs (the (find_by_id dr_id (os_delegation (tb_state b2)) k))))
            else Some d)"
    using reconcile_effect [OF assms(1), of options] by blast
  fix d assume "d \<in> set (os_delegation s)"
  then have "find_by_id dr_id (os_delegation (tb_state b2)) (dr_id d) = Some d"
    using assms(2) b2(1) by (intro delegations.get_member board_inv_delegations [OF b2(2)]) auto
  note found = this step [of "dr_id d", unfolded this option.sel]
  show "dr_status d \<noteq> DRunning"
  proof (cases "find_by_id dr_id (os_delegation (tb_state b)) (dr_id d)")
    case None
    with found show ?thesis by simp
  next
    case (Some x)
    show ?thesis
    proof (cases "dr_status x = DRunning")
      case True
      with found Some have "d = delegation_with_status
          (reconciliation_update options (dr_id d)) x (dr_updatedAtMs d)" by simp
      then have "dr_status d = target_status (nullish_else (ro_target options) Requeue)"
        by (metis delegation_with_status_fields(2) reconciliation_update_fields(2))
      then show ?thesis by simp
    next
      case False
      with found Some show ?thesis by simp
    qed
  qed
qed

section \<open>Claims and the scheduler\<close>

lemma selectDelegationForClaim_ok:
  assumes "selectDelegationForClaim s input = Inr r"
  shows "\<exists>d. find_by_id dr_id (os_delegation s) (ci_id input) = Some d \<and> dr_status d = DQueued \<and>
             matches_query (ci_workerId input) (dr_workerId d) \<and>
             r = mailboxCloneDelegationRecord d"
  using assms by (auto simp: selectDelegationForClaim_def Let_def split: option.splits if_splits)

lemma find_map_id:
  "find (\<lambda>x. f (g x) = k) xs = None \<longleftrightarrow> k \<notin> (f \<circ> g) ` set xs"
  by (auto simp: find_None_iff)

lemma find_run:
  assumes "find_by_id dr_id (os_delegation s) k = Some d"
  shows "\<exists>run. find (\<lambda>run. sr_subagentId run = k) (projectSubagentRunsFromTaskState s p) = Some run \<and>
               sr_scheduling run = scheduling_of (os_delegation s) k"
proof -
  have find: "find (\<lambda>run. sr_subagentId run = k) (map (delegation_run p bi bt m) ds) =
      map_option (delegation_run p bi bt m) (find_by_id dr_id ds k)" for bi bt m ds
    by (induction ds) auto
  have "dr_id d = k" using delegations.get_Some [OF assms] by simp
  with assms show ?thesis
    by (simp add: projectSubagentRunsFromTaskState_def Let_def find scheduling_of_def)
qed

lemma claim_ready:
  assumes "selectDelegationForClaim s input = Inr r" and "ci_respectScheduler input"
    and "scheduling_of (os_delegation s) (ci_id input) = Some g"
  shows "sg_readyToStart g"
proof -
  obtain d where d: "find_by_id dr_id (os_delegation s) (ci_id input) = Some d"
    "dr_status d = DQueued" "matches_query (ci_workerId input) (dr_workerId d)"
    using selectDelegationForClaim_ok [OF assms(1)] by blast
  obtain run where "find (\<lambda>run. sr_subagentId run = ci_id input)
      (projectSubagentRunsFromTaskState s None) = Some run"
    "sr_scheduling run = scheduling_of (os_delegation s) (ci_id input)"
    using find_run [OF d(1)] by blast
  with assms d show ?thesis
    by (auto simp: selectDelegationForClaim_def Let_def split: if_splits)
qed

lemma claimDelegation_cases:
  assumes inv: "board_inv b"
  shows "(\<exists>e. claimDelegation input b = (Inl e, b)) \<or>
    (\<exists>d r. selectDelegationForClaim (tb_state b) input = Inr r \<and>
       find_by_id dr_id (os_delegation (tb_state b)) (ci_id input) = Some d \<and> dr_status d = DQueued \<and>
       fst (claimDelegation input b) = Inr (tb_state (snd (claimDelegation input b))) \<and>
       os_delegation (tb_state (snd (claimDelegation input b))) =
         replaceRecordById dr_id (os_delegation (tb_state b))
           (d\<lparr>dr_status := DRunning, dr_updatedAtMs := board_now b\<rparr>))"
proof (cases "selectDelegationForClaim (tb_state b) input")
  case (Inl e)
  then show ?thesis using inv by (simp add: claimDelegation_def)
next
  case (Inr r)
  let ?u = "\<lparr>du_id = ci_id input, du_status = DRunning, du_error = None, du_reason = None,
             du_resultSummary = None, du_observedWriteSet = None,
             du_observedWriteSetSource = None\<rparr>"
  obtain d where d: "find_by_id dr_id (os_delegation (tb_state b)) (ci_id input) = Some d"
    "dr_status d = DQueued"
    using selectDelegationForClaim_ok [OF Inr] by blast
  have eq: "claimDelegation input b = setDelegationStatus ?u b"
    using Inr inv by (simp add: claimDelegation_def)
  have "delegation_with_status ?u d (board_now b) =
      d\<lparr>dr_status := DRunning, dr_updatedAtMs := board_now b\<rparr>"
    by (simp add: delegation_with_status_def terminal_delegation_def)
  with setDelegationStatus_known [OF inv, of ?u d] d Inr show ?thesis
    unfolding eq by auto
qed

lemma claimDelegation_inv: "board_inv b \<Longrightarrow> board_inv (snd (claimDelegation input b))"
  by (auto simp: claimDelegation_def setDelegationStatus_inv split: sum.splits)

lemma claim_running_disjoint:
  assumes inv: "board_inv b" and disj: "running_disjoint (os_delegation (tb_state b))"
    and respect: "ci_respectScheduler input"
  shows "running_disjoint (os_delegation (tb_state (snd (claimDelegation input b))))"
  using claimDelegation_cases [OF inv, of input]
proof (elim disjE exE conjE)
  fix e assume "claimDelegation input b = (Inl e, b)"
  then show ?thesis using disj by simp
next
  fix d r
  assume sel: "selectDelegationForClaim (tb_state b) input = Inr r"
    and d: "find_by_id dr_id (os_delegation (tb_state b)) (ci_id input) = Some d" "dr_status d = DQueued"
    and after: "os_delegation (tb_state (snd (claimDelegation input b))) =
         replaceRecordById dr_id (os_delegation (tb_state b))
           (d\<lparr>dr_status := DRunning, dr_updatedAtMs := board_now b\<rparr>)"
  have mem: "d \<in> set (os_delegation (tb_state b))" "dr_id d = ci_id input"
    using delegations.get_Some [OF d(1)] by simp_all
  show ?thesis
    unfolding after
  proof (rule running_disjoint_start [OF board_inv_delegations [OF inv] disj mem(1) d(2)])
    show "sg_readyToStart g" if "scheduling_of (os_delegation (tb_state b)) (dr_id d) = Some g" for g
      using claim_ready [OF sel respect] that mem(2) by simp
  qed simp_all
qed

section \<open>A disciplined scheduler\<close>

text \<open>
  The steps of a task plane in which delegations only start through claims that respect the
  scheduler: new or rewritten delegations are queued, status updates never set \<open>running\<close>, and
  everything else is free. \<open>reachable\<close> is what such a plane can become.
\<close>

definition leaves_delegations :: "task_command \<Rightarrow> bool" where
  "leaves_delegations c \<longleftrightarrow>
     (case c of CUpsertDelegation _ \<Rightarrow> False | CSetDelegationStatus _ \<Rightarrow> False | _ \<Rightarrow> True)"

inductive plane_step :: "board \<Rightarrow> board \<Rightarrow> bool" where
  enqueue: "di_status input = Some DQueued \<Longrightarrow> plane_step b (snd (upsertDelegation input b))"
| settle: "du_status input \<noteq> DRunning \<Longrightarrow> plane_step b (snd (setDelegationStatus input b))"
| claim: "ci_respectScheduler input \<Longrightarrow> plane_step b (snd (claimDelegation input b))"
| other: "leaves_delegations c \<Longrightarrow> plane_step b (fst (exec c b))"

inductive_cases plane_step_cases: "plane_step b b'"

inductive reachable :: "board \<Rightarrow> board \<Rightarrow> bool" where
  start: "reachable b b"
| step: "reachable b b' \<Longrightarrow> plane_step b' b'' \<Longrightarrow> reachable b b''"

lemma running_disjoint_weaken:
  assumes "distinct (map dr_id ds)" and "running_disjoint ds" and "dr_status d \<noteq> DRunning"
  shows "running_disjoint (replaceRecordById dr_id ds d)"
  using assms(2,3) by (auto simp: running_disjoint_def delegations.member_put [OF assms(1)])

lemma writeTodos_delegation [simp]:
  "os_delegation (tb_state (snd (writeTodos items b))) = os_delegation (tb_state b)"
  by (simp add: writeTodos_eq)

lemma transitionProposal_delegation [simp]:
  "os_delegation (tb_state (snd (transitionProposal input b))) = os_delegation (tb_state b)"
proof (cases "find_by_id pr_id (os_proposalQueue (tb_state b)) (pt_proposalId input)")
  case None
  then show ?thesis by (simp add: transitionProposal_def)
next
  case (Some p)
  consider "\<not> canTransitionProposalStatus (pr_status p) (pt_status input)"
    | "pr_status p = pt_status input"
    | "canTransitionProposalStatus (pr_status p) (pt_status input)" "pr_status p \<noteq> pt_status input"
    by blast
  then show ?thesis
    by cases (simp_all add: transitionProposal_invalid [OF Some] transitionProposal_same [OF Some]
        transitionProposal_ok [OF Some])
qed

lemma applyProposal_delegation [simp]:
  "os_delegation (tb_state (snd (applyProposal k b))) = os_delegation (tb_state b)"
  by (cases k b rule: applyProposal_cases) simp_all

lemma enqueueProposal_delegation [simp]:
  "os_delegation (tb_state (snd (enqueueProposal input b))) = os_delegation (tb_state b)"
  by (cases "pi_id input \<in> pr_id ` set (os_proposalQueue (tb_state b))")
    (simp_all add: enqueueProposal_duplicate enqueueProposal_ok)

lemma upsertVerification_delegation [simp]:
  "os_delegation (tb_state (snd (upsertVerification input b))) = os_delegation (tb_state b)"
  by (simp add: upsertVerification_eq)

lemma drainProposalOutbox_delegation [simp]:
  "os_delegation (tb_state (snd (drainProposalOutbox limit b))) = os_delegation (tb_state b)"
proof -
  define n where "n = nullish_else limit (int (length (os_proposalOutbox (tb_state b))))"
  show ?thesis
    by (cases "n \<le> 0 \<or> os_proposalOutbox (tb_state b) = []")
      (auto simp: drainProposalOutbox_none [OF n_def] drainProposalOutbox_ok [OF n_def])
qed

lemma drainJournal_state: "tb_state (snd (drainJournal limit b)) = tb_state b"
  by (simp add: drainJournal_def Let_def)

lemma exec_delegation:
  "leaves_delegations c \<Longrightarrow> os_delegation (tb_state (fst (exec c b))) = os_delegation (tb_state b)"
proof (cases c)
  case (CDrainJournal limit)
  have "tb_state (fst (exec c b)) = tb_state (snd (drainJournal limit b))"
    unfolding CDrainJournal by (simp split: prod.splits sum.splits)
  then show ?thesis by (simp add: drainJournal_state)
qed (simp_all add: leaves_delegations_def)

lemma buildDelegationRecord_status:
  "buildDelegationRecord input current t = Inr d \<Longrightarrow> di_status input = Some s \<Longrightarrow> dr_status d = s"
  by (auto simp: buildDelegationRecord_def Let_def split: if_splits)

lemma upsertDelegation_disjoint:
  assumes inv: "board_inv b" and disj: "running_disjoint (os_delegation (tb_state b))"
    and queued: "di_status input = Some DQueued"
  shows "running_disjoint (os_delegation (tb_state (snd (upsertDelegation input b))))"
proof (cases "buildDelegationRecord input
    (find_by_id dr_id (os_delegation (tb_state b)) (di_id input)) (board_now b)")
  case (Inl e)
  with disj show ?thesis by (simp add: upsertDelegation_throws)
next
  case (Inr d)
  have "dr_status d \<noteq> DRunning" using buildDelegationRecord_status [OF Inr queued] by simp
  with disj show ?thesis
    by (simp add: upsertDelegation_ok [OF Inr]
        running_disjoint_weaken [OF board_inv_delegations [OF inv]])
qed

lemma setDelegationStatus_disjoint:
  assumes inv: "board_inv b" and disj: "running_disjoint (os_delegation (tb_state b))"
    and status: "du_status input \<noteq> DRunning"
  shows "running_disjoint (os_delegation (tb_state (snd (setDelegationStatus input b))))"
proof (cases "find_by_id dr_id (os_delegation (tb_state b)) (du_id input)")
  case None
  with disj show ?thesis by (simp add: setDelegationStatus_def)
next
  case (Some d)
  with disj status show ?thesis
    by (simp add: setDelegationStatus_known(2) [OF inv Some]
        running_disjoint_weaken [OF board_inv_delegations [OF inv]])
qed

lemma plane_step_keeps:
  assumes "plane_step b b'" and "board_inv b" and "running_disjoint (os_delegation (tb_state b))"
  shows "board_inv b' \<and> running_disjoint (os_delegation (tb_state b'))"
  using assms
proof cases
  case (enqueue input)
  with assms show ?thesis by (simp add: upsertDelegation_inv upsertDelegation_disjoint)
next
  case (settle input)
  with assms show ?thesis by (simp add: setDelegationStatus_inv setDelegationStatus_disjoint)
next
  case (claim input)
  with assms show ?thesis by (simp add: claimDelegation_inv claim_running_disjoint)
next
  case (other c)
  with assms show ?thesis by (simp add: exec_inv exec_delegation)
qed

lemma reachable_disjoint:
  "reachable b b' \<Longrightarrow> board_inv b \<Longrightarrow> running_disjoint (os_delegation (tb_state b)) \<Longrightarrow>
   board_inv b' \<and> running_disjoint (os_delegation (tb_state b'))"
  by (induction rule: reachable.induct) (auto dest: plane_step_keeps)

section \<open>Progress\<close>

lemma schedule_observed_ready:
  "(\<And>g. map_of m k = Some g \<Longrightarrow> sg_readyToStart g) \<Longrightarrow>
   map_of (schedule_observed ds w diagnostics m) k = Some g \<Longrightarrow> sg_readyToStart g"
proof (induction diagnostics arbitrary: m)
  case Nil
  then show ?case by simp
next
  case (Cons e rest)
  obtain k' d where e: "e = (k', d)" by (cases e)
  let ?m = "if map_of m k' \<noteq> None then m
     else (case find_by_id dr_id ds k' of
             None \<Rightarrow> m
           | Some r \<Rightarrow> AList.update k' (observed_only_scheduling w r d) m)"
  have "sg_readyToStart (observed_only_scheduling w r d)" for r
    by (simp add: observed_only_scheduling_def Let_def)
  then have ready: "\<And>g. map_of ?m k = Some g \<Longrightarrow> sg_readyToStart g"
    using Cons.prems(1) by (auto simp: update_conv' split: option.splits if_splits)
  have "map_of (schedule_observed ds w rest ?m) k = Some g"
    using Cons.prems(2) by (simp only: e schedule_observed.simps)
  from Cons.IH [OF ready this] show ?case .
qed

text \<open>While nothing runs, some queued delegation can always be claimed.\<close>

lemma idle_has_ready:
  assumes dist: "distinct (map dr_id ds)" and queued: "d \<in> set ds" "dr_status d = DQueued"
    and idle: "\<forall>e \<in> set ds. dr_status e \<noteq> DRunning"
  shows "\<exists>e \<in> set ds. dr_status e = DQueued \<and>
           (\<forall>g. scheduling_of ds (dr_id e) = Some g \<longrightarrow> sg_readyToStart g)"
proof (cases "scheduling_candidates ds")
  case Nil
  have "sg_readyToStart g" if "scheduling_of ds (dr_id d) = Some g" for g
    using that schedule_observed_ready [of "[]" "dr_id d"]
    by (simp add: scheduling_of_def createSubagentSchedulingByDelegationId_def Let_def Nil)
  with queued show ?thesis by blast
next
  case (Cons c cs)
  have c: "cd_record c \<in> set ds" "in_schedule (cd_record c)"
    using candidate_delegation [OF dist, of c] Cons by simp_all
  then have "dr_status (cd_record c) = DQueued"
    using idle by (auto simp: in_schedule_def active_delegation_def)
  moreover obtain g where "scheduling_of ds (candidate_id c) = Some g" "sg_readyToStart g"
    using first_candidate_ready [OF dist Cons] by blast
  ultimately show ?thesis
    using c(1) by (intro bexI [of _ "cd_record c"]) (auto simp: candidate_id_def)
qed

lemma run_of_delegation:
  "d \<in> set (os_delegation s) \<Longrightarrow>
   \<exists>run \<in> set (projectSubagentRunsFromTaskState s p).
      sr_subagentId run = dr_id d \<and> sr_status run = dr_status d \<and>
      sr_scheduling run = scheduling_of (os_delegation s) (dr_id d)"
  by (force simp: projectSubagentRunsFromTaskState_def Let_def scheduling_of_def)

lemma idle_can_dispatch:
  assumes "distinct (map dr_id (os_delegation s))"
    and "d \<in> set (os_delegation s)" "dr_status d = DQueued"
    and "\<forall>e \<in> set (os_delegation s). dr_status e \<noteq> DRunning"
  shows "pl_canDispatch (projectSubagentSchedulerDispatchPlanFromTaskState s p)"
proof -
  obtain e where e: "e \<in> set (os_delegation s)" "dr_status e = DQueued"
    "\<forall>g. scheduling_of (os_delegation s) (dr_id e) = Some g \<longrightarrow> sg_readyToStart g"
    using idle_has_ready [OF assms] by blast
  obtain run where "run \<in> set (projectSubagentRunsFromTaskState s p)" "sr_status run = DQueued"
    "may_start run"
    using run_of_delegation [OF e(1), of p] e(2,3)
    by (auto simp: may_start_def split: option.splits)
  then have "run \<in> set (dispatchable_runs (projectSubagentRunsFromTaskState s p))"
    by (simp add: dispatchable_runs_def)
  then show ?thesis
    by (auto simp: projectSubagentSchedulerDispatchPlanFromTaskState_def
        projectSubagentSchedulerDispatchPlanFromSubagentRuns_def Let_def
        intro: length_pos_if_in_set)
qed

end
