(* ===== verification/Session_Task_Plane.thy ===== *)
theory Session_Task_Plane
  imports Session_Commands Task_Plane
begin

text \<open>
  The task plane over the session store, \<open>packages/tasks-core/src/session-task-plane-port.ts\<close>,
  and \<open>reconcileSessionTaskStartup\<close> of \<open>startup-reconciliation.ts\<close>. The task state is not stored:
  each call projects it from the session's journal; a call that changes it builds a board on the
  projection, runs one board method, and appends what the board journaled to the session. Such a
  board reads \<open>Date.now\<close>, which is not the store's clock: the plane keeps its readings.
\<close>

section \<open>The plane\<close>

record session_plane =
  sp_store :: session_store
  sp_now :: "nat \<Rightarrow> int"
  sp_nows :: nat

type_synonym 'a plane_result = "(session_error + 'a) \<times> session_plane"

definition lift_js :: "js_error + 'a \<Rightarrow> session_error + 'a" where
  "lift_js r = (case r of Inl e \<Rightarrow> Inl (JsError e) | Inr x \<Rightarrow> Inr x)"

lemma lift_js_simps [simp]: "lift_js (Inl e) = Inl (JsError e)" "lift_js (Inr x) = Inr x"
  by (simp_all add: lift_js_def)

definition on_store :: "(session_store \<Rightarrow> 'a result) \<Rightarrow> session_plane \<Rightarrow> 'a plane_result" where
  "on_store f p = (case f (sp_store p) of (r, s) \<Rightarrow> (r, p\<lparr>sp_store := s\<rparr>))"

text \<open>The options: \<open>createIfMissing\<close>, which defaults to true.\<close>

definition ensureSession :: "string \<Rightarrow> bool option \<Rightarrow> session_store \<Rightarrow> session_record result" where
  "ensureSession sessionId createIfMissing s =
     (case storeGetSession sessionId s of
        Inl e \<Rightarrow> (Inl e, s)
      | Inr (Some session) \<Rightarrow> (Inr session, s)
      | Inr None \<Rightarrow>
          (if nullish_else createIfMissing True
           then storeCreateSession
                  \<lparr>cs_sessionId = Some sessionId, cs_metadata = None, cs_schemaVersion = None\<rparr> s
           else (Inl (plain_error (''Unknown session: '' @ sessionId)), s)))"

definition normalizeTaskEventPayload :: "string \<Rightarrow> jsval \<Rightarrow> jsval" where
  "normalizeTaskEventPayload eventType payload =
     (if \<not> isTaskEventType eventType then payload
      else (case decodeTaskEvent eventType payload None of
              None \<Rightarrow> payload
            | Some event \<Rightarrow> js_of_payload (te_payload event)))"

text \<open>The task journal entry that a stored entry decodes to, if it is one.\<close>

definition stored_task_entry :: "journal_entry \<Rightarrow> task_journal_entry option" where
  "stored_task_entry entry =
     toTaskJournalEntry (jn_eventType entry)
       (normalizeTaskEventPayload (jn_eventType entry) (jn_payload entry))
       (jn_createdAtMs entry) (Some (jn_schemaVersion entry)) None"

definition readSessionTaskJournal ::
  "string \<Rightarrow> bool option \<Rightarrow> session_store \<Rightarrow> task_journal_entry list result" where
  "readSessionTaskJournal sessionId createIfMissing s =
     chain (ensureSession sessionId createIfMissing s) (\<lambda>session s'.
       (case journalList (ss_id session) no_options (st_db s') of
          Inl e \<Rightarrow> (Inl e, s')
        | Inr entries \<Rightarrow> (Inr (List.map_filter stored_task_entry entries), s')))"

definition projectSessionTaskState ::
  "string \<Rightarrow> bool option \<Rightarrow> session_store \<Rightarrow> task_operations_state result" where
  "projectSessionTaskState sessionId createIfMissing s =
     chain (readSessionTaskJournal sessionId createIfMissing s) (\<lambda>entries s'.
       (lift_js (projectTaskOperationsFromJournal entries NoSeed), s'))"

section \<open>Mutations\<close>

definition task_append_input :: "task_journal_entry \<Rightarrow> append_input" where
  "task_append_input entry =
     (let eventType = payload_event_type (je_payload entry)
      in \<lparr>ap_eventType = eventType,
          ap_payload = normalizeTaskEventPayload eventType (js_of_payload (je_payload entry)),
          ap_turnId = None, ap_schemaVersion = None,
          ap_createdAtMs = Some (je_createdAtMs entry)\<rparr>)"

text \<open>\<open>for (const input of inputs) sessionStore.appendJournal(sessionId, input)\<close>, for any store.\<close>

fun append_all ::
  "('i \<Rightarrow> 's \<Rightarrow> ('e + 'r) \<times> 's) \<Rightarrow> 'i list \<Rightarrow> 's \<Rightarrow> ('e + unit) \<times> 's" where
  "append_all write [] s = (Inr (), s)"
| "append_all write (input # inputs) s =
     chain (write input s) (\<lambda>_ s'. append_all write inputs s')"

definition mutateSessionTaskState ::
  "string \<Rightarrow> (board \<Rightarrow> 'a outcome) \<Rightarrow> bool option \<Rightarrow> session_plane \<Rightarrow>
   (task_operations_state \<times> 'a) plane_result" where
  "mutateSessionTaskState sessionId mutation createIfMissing p =
     chain (on_store (ensureSession sessionId createIfMissing) p) (\<lambda>session p1.
     chain (on_store (projectSessionTaskState (ss_id session) (Some False)) p1) (\<lambda>current p2.
       let board = newTaskBoard (OperationsSeed current) (\<lambda>n. sp_now p2 (sp_nows p2 + n)) None
       in case mutation board of
            (outcome, b1) \<Rightarrow>
              let p3 = p2\<lparr>sp_nows := sp_nows p2 + tb_ticks b1\<rparr>
              in (case outcome of
                    Inl e \<Rightarrow> (Inl (JsError e), p3)
                  | Inr x \<Rightarrow>
                      (case drainJournal None b1 of
                         (Inl e, b2) \<Rightarrow> (Inl (JsError e), p3)
                       | (Inr entries, b2) \<Rightarrow>
                           chain (on_store (append_all (storeAppendJournal (ss_id session))
                                     (map task_append_input entries)) p3)
                             (\<lambda>_ p4. (Inr (snapshotOperations b2, x), p4))))))"

section \<open>Queries\<close>

definition session_query ::
  "string \<Rightarrow> bool option \<Rightarrow> (task_operations_state \<Rightarrow> 'a) \<Rightarrow> session_plane \<Rightarrow> 'a plane_result" where
  "session_query sessionId createIfMissing query p =
     chain (on_store (projectSessionTaskState sessionId createIfMissing) p)
       (\<lambda>state p'. (Inr (query state), p'))"

definition sessionStatus ::
  "string \<Rightarrow> bool option \<Rightarrow> session_plane \<Rightarrow> task_operations_state plane_result" where
  "sessionStatus k create p = session_query k create (\<lambda>state. state) p"

definition readSessionDelegationMailbox ::
  "string \<Rightarrow> string option \<Rightarrow> delegation_status list option \<Rightarrow> int option \<Rightarrow> bool option \<Rightarrow>
   session_plane \<Rightarrow> delegation_record list plane_result" where
  "readSessionDelegationMailbox k workerId statuses limit create p =
     session_query k create (\<lambda>state. listDelegationMailbox state workerId statuses limit) p"

definition readSessionVerificationMailbox ::
  "string \<Rightarrow> string option \<Rightarrow> verification_status list option \<Rightarrow> int option \<Rightarrow> bool option \<Rightarrow>
   session_plane \<Rightarrow> verification_record list plane_result" where
  "readSessionVerificationMailbox k verifierId statuses limit create p =
     session_query k create (\<lambda>state. listVerificationMailbox state verifierId statuses limit) p"

definition readSessionProposalMailbox ::
  "string \<Rightarrow> proposal_status list option \<Rightarrow> int option \<Rightarrow> bool option \<Rightarrow> session_plane \<Rightarrow>
   proposal_record list plane_result" where
  "readSessionProposalMailbox k statuses limit create p =
     session_query k create (\<lambda>state. listProposalMailbox state statuses limit) p"

definition readSessionNotificationMailbox ::
  "string \<Rightarrow> recipient_kind option \<Rightarrow> string option \<Rightarrow> notification_status list option \<Rightarrow>
   int option \<Rightarrow> bool option \<Rightarrow> session_plane \<Rightarrow> notification_record list plane_result" where
  "readSessionNotificationMailbox k kind recipientId statuses limit create p =
     session_query k create
       (\<lambda>state. listNotificationMailbox state kind recipientId statuses limit) p"

definition readSessionWorkerMailbox ::
  "string \<Rightarrow> string option \<Rightarrow> bool option \<Rightarrow> session_plane \<Rightarrow> worker_mailbox plane_result" where
  "readSessionWorkerMailbox k workerId create p =
     session_query k create (\<lambda>state. readWorkerMailbox state workerId) p"

definition readSessionVerifierMailbox ::
  "string \<Rightarrow> string option \<Rightarrow> bool option \<Rightarrow> session_plane \<Rightarrow> verifier_mailbox plane_result" where
  "readSessionVerifierMailbox k verifierId create p =
     session_query k create (\<lambda>state. readVerifierMailbox state verifierId) p"

definition sessionGetProposal ::
  "string \<Rightarrow> string \<Rightarrow> bool option \<Rightarrow> session_plane \<Rightarrow> proposal_record option plane_result" where
  "sessionGetProposal k proposalId create p =
     session_query k create (\<lambda>state. find (\<lambda>r. pr_id r = proposalId) (os_proposalQueue state)) p"

record committed_snapshot =
  cm_session :: session_record
  cm_checkpoint :: "checkpoint_record option"
  cm_latestTurnId :: "string option"
  cm_journal :: "journal_entry list"
  cm_taskJournal :: "task_journal_entry list"
  cm_taskState :: task_operations_state

definition readCommittedSessionTaskSnapshot ::
  "string \<Rightarrow> session_store \<Rightarrow> committed_snapshot result" where
  "readCommittedSessionTaskSnapshot sessionId s =
     chain (ensureSession sessionId (Some False) s) (\<lambda>session s'.
       (case journalList (ss_id session) no_options (st_db s') of
          Inl e \<Rightarrow> (Inl e, s')
        | Inr journal \<Rightarrow>
            let taskJournal = List.map_filter stored_task_entry journal in
            (case storeGetLatestTurnId (ss_id session) s' of
               Inl e \<Rightarrow> (Inl e, s')
             | Inr latestTurnId \<Rightarrow>
                 (case lift_js (projectTaskOperationsFromJournal taskJournal NoSeed) of
                    Inl e \<Rightarrow> (Inl e, s')
                  | Inr taskState \<Rightarrow>
                      (Inr \<lparr>cm_session = session,
                            cm_checkpoint = sqlGetLatestCheckpoint (ss_id session) (st_db s'),
                            cm_latestTurnId = latestTurnId, cm_journal = journal,
                            cm_taskJournal = taskJournal, cm_taskState = taskState\<rparr>, s')))))"

section \<open>The methods that change the state\<close>

text \<open>What each method's callback does to the board; its value is discarded.\<close>

definition discard :: "'a outcome \<Rightarrow> unit outcome" where
  "discard r = and_then r (\<lambda>_ b. (Inr (), b))"

datatype plane_command =
    PlaneEnqueueDelegation delegation_record_input
  | PlaneSetDelegationStatus delegation_status_update
  | PlaneClaimDelegation delegation_claim_input
  | PlaneUpsertVerification verification_input
  | PlaneEnqueueProposal proposal_input
  | PlaneTransitionProposal proposal_transition
  | PlaneApplyProposal string
  | PlaneDrainProposalOutbox "int option"
  | PlaneReconcileStartup reconciliation_options

fun plane_mutation :: "plane_command \<Rightarrow> board \<Rightarrow> unit outcome" where
  "plane_mutation (PlaneEnqueueDelegation input) b = discard (upsertDelegation input b)"
| "plane_mutation (PlaneSetDelegationStatus input) b = discard (setDelegationStatus input b)"
| "plane_mutation (PlaneClaimDelegation input) b = discard (claimDelegation input b)"
| "plane_mutation (PlaneUpsertVerification input) b = discard (upsertVerification input b)"
| "plane_mutation (PlaneEnqueueProposal input) b = discard (enqueueProposal input b)"
| "plane_mutation (PlaneTransitionProposal input) b = discard (transitionProposal input b)"
| "plane_mutation (PlaneApplyProposal k) b = discard (applyProposal k b)"
| "plane_mutation (PlaneDrainProposalOutbox limit) b = discard (drainProposalOutbox limit b)"
| "plane_mutation (PlaneReconcileStartup options) b = discard (reconcileTaskBoardStartup options b)"

definition run_plane ::
  "string \<Rightarrow> bool option \<Rightarrow> plane_command \<Rightarrow> session_plane \<Rightarrow> task_operations_state plane_result" where
  "run_plane k create c p =
     chain (mutateSessionTaskState k (plane_mutation c) create p) (\<lambda>(state, _) p'. (Inr state, p'))"

definition sessionEnqueueDelegation ::
  "string \<Rightarrow> bool option \<Rightarrow> delegation_record_input \<Rightarrow> session_plane \<Rightarrow>
   task_operations_state plane_result" where
  "sessionEnqueueDelegation k create input p =
     chain (mutateSessionTaskState k (upsertDelegation input) create p)
       (\<lambda>(state, _) p'. (Inr state, p'))"

definition sessionSetDelegationStatus ::
  "string \<Rightarrow> bool option \<Rightarrow> delegation_status_update \<Rightarrow> session_plane \<Rightarrow>
   task_operations_state plane_result" where
  "sessionSetDelegationStatus k create input p =
     chain (mutateSessionTaskState k (setDelegationStatus input) create p)
       (\<lambda>(state, _) p'. (Inr state, p'))"

definition sessionClaimDelegation ::
  "string \<Rightarrow> bool option \<Rightarrow> delegation_claim_input \<Rightarrow> session_plane \<Rightarrow>
   task_operations_state plane_result" where
  "sessionClaimDelegation k create input p =
     chain (mutateSessionTaskState k (claimDelegation input) create p)
       (\<lambda>(state, _) p'. (Inr state, p'))"

definition sessionUpsertVerification ::
  "string \<Rightarrow> bool option \<Rightarrow> verification_input \<Rightarrow> session_plane \<Rightarrow>
   task_operations_state plane_result" where
  "sessionUpsertVerification k create input p =
     chain (mutateSessionTaskState k (upsertVerification input) create p)
       (\<lambda>(state, _) p'. (Inr state, p'))"

definition sessionEnqueueProposal ::
  "string \<Rightarrow> bool option \<Rightarrow> proposal_input \<Rightarrow> session_plane \<Rightarrow> task_operations_state plane_result"
where
  "sessionEnqueueProposal k create input p =
     chain (mutateSessionTaskState k (enqueueProposal input) create p)
       (\<lambda>(state, _) p'. (Inr state, p'))"

definition sessionTransitionProposal ::
  "string \<Rightarrow> bool option \<Rightarrow> proposal_transition \<Rightarrow> session_plane \<Rightarrow>
   task_operations_state plane_result" where
  "sessionTransitionProposal k create input p =
     chain (mutateSessionTaskState k (transitionProposal input) create p)
       (\<lambda>(state, _) p'. (Inr state, p'))"

definition sessionApplyProposal ::
  "string \<Rightarrow> bool option \<Rightarrow> string \<Rightarrow> session_plane \<Rightarrow> task_operations_state plane_result" where
  "sessionApplyProposal k create proposalId p =
     chain (mutateSessionTaskState k (applyProposal proposalId) create p)
       (\<lambda>(state, _) p'. (Inr state, p'))"

definition sessionDrainProposalOutbox ::
  "string \<Rightarrow> bool option \<Rightarrow> int option \<Rightarrow> session_plane \<Rightarrow> outbox_entry list plane_result" where
  "sessionDrainProposalOutbox k create limit p =
     chain (mutateSessionTaskState k (drainProposalOutbox limit) create p)
       (\<lambda>(_, drained) p'. (Inr drained, p'))"

definition reconcileSessionTaskStartup ::
  "string \<Rightarrow> bool option \<Rightarrow> reconciliation_options \<Rightarrow> session_plane \<Rightarrow>
   (task_operations_state \<times> string list) plane_result" where
  "reconcileSessionTaskStartup k create options p =
     chain (mutateSessionTaskState k (reconcileTaskBoardStartup options) create p)
       (\<lambda>(state, _, reconciledIds) p'. (Inr (state, reconciledIds), p'))"

end
