(* ===== verification/Session_Plane_Json.thy ===== *)
theory Session_Plane_Json
  imports Session_Task_Plane
begin

text \<open>
  What survives the session's journal: the payload of a task event is a JSON value when the
  proposal it may carry is, and a board whose proposals are JSON values journals only such
  events. The stored entry then decodes to the entry the board wrote.
\<close>

section \<open>Task events are JSON values\<close>

lemma is_json_opt [simp]:
  "is_json (js_opt f x) \<longleftrightarrow> (case x of None \<Rightarrow> False | Some y \<Rightarrow> is_json (f y))"
  by (cases x) simp_all

lemma is_json_task_parts [simp]:
  "is_json (js_of_task_item item)" "is_json (js_of_task_state todos)" "is_json (js_of_actor actor)"
  "is_json (js_of_verification_request request)" "is_json (js_of_delegation d)"
  "is_json (js_of_notification n)" "is_json (js_of_check c)" "is_json (js_of_checks cs)"
  "is_json (js_of_verification v)" "is_json (js_of_outbox_entry e)"
  "is_json (js_of_outbox_entries es)" "is_json (js_strings xs)"
proof -
  show strings: "is_json (js_strings xs)" for xs
    by (simp add: js_strings_def json_items_ok_set)
  show item: "is_json (js_of_task_item item)" for item
    by (simp add: js_of_task_item_def is_json_object split: option.split)
  show "is_json (js_of_task_state todos)"
    by (simp add: js_of_task_state_def is_json_object json_items_ok_set item split: option.split)
  show "is_json (js_of_actor actor)"
    by (simp add: js_of_actor_def is_json_object split: option.split)
  show request: "is_json (js_of_verification_request request)" for request
    by (simp add: js_of_verification_request_def is_json_object strings split: option.split)
  show "is_json (js_of_delegation d)"
    by (simp add: js_of_delegation_def is_json_object strings request split: option.split)
  show "is_json (js_of_notification n)"
    by (simp add: js_of_notification_def is_json_object split: option.split)
  show check: "is_json (js_of_check c)" for c
    by (simp add: js_of_check_def is_json_object split: option.split)
  show checks: "is_json (js_of_checks cs)" for cs
    by (simp add: js_of_checks_def json_items_ok_set check)
  show "is_json (js_of_verification v)"
    by (simp add: js_of_verification_def is_json_object checks split: option.split)
  show entry: "is_json (js_of_outbox_entry e)" for e
    by (simp add: js_of_outbox_entry_def is_json_object split: option.split)
  show "is_json (js_of_outbox_entries es)"
    by (simp add: js_of_outbox_entries_def json_items_ok_set entry)
qed

lemma is_json_proposal: "json_fields_ok (pr_payload p) \<Longrightarrow> is_json (js_of_proposal p)"
  by (simp add: js_of_proposal_def is_json_object split: option.split)

fun json_event :: "task_event_payload \<Rightarrow> bool" where
  "json_event (ProposalEnqueuedEvent p) = json_fields_ok (pr_payload (pp_proposal p))"
| "json_event (ProposalTransitioned p) = json_fields_ok (pr_payload (pp_proposal p))"
| "json_event _ = True"

lemma json_event_ok: "json_event p \<Longrightarrow> is_json (js_of_payload p)"
  by (cases p) (simp_all add: is_json_object is_json_proposal split: option.split)

section \<open>Boards of JSON values\<close>

definition json_state :: "task_operations_state \<Rightarrow> bool" where
  "json_state s \<longleftrightarrow> (\<forall>p \<in> set (os_proposalQueue s). json_fields_ok (pr_payload p))"

definition json_board :: "board \<Rightarrow> bool" where
  "json_board b \<longleftrightarrow>
     json_state (tb_state b) \<and> (\<forall>e \<in> set (tb_journal b). json_event (je_payload e))"

fun json_command :: "task_command \<Rightarrow> bool" where
  "json_command (CEnqueueProposal input) = json_fields_ok (pi_payload input)"
| "json_command _ = True"

lemma update_notice_json:
  "e \<in> set (snd (update_notice op f k r ns t)) \<Longrightarrow> json_event (je_payload e)"
  by (auto simp: update_notice_def Let_def emitted_entry_def status_entry_def
      split: if_splits option.splits)

lemma json_board_commit:
  "json_board b \<Longrightarrow> os_proposalQueue s = os_proposalQueue (tb_state b) \<Longrightarrow>
   (\<And>e. e \<in> set es \<Longrightarrow> json_event (je_payload e)) \<Longrightarrow> json_board (commit s es b)"
  by (auto simp: json_board_def json_state_def)

lemma json_board_tick [simp]: "json_board (tick b) = json_board b"
  by (simp add: json_board_def)

lemma json_board_proposal:
  assumes "json_board b" and "json_fields_ok (pr_payload p)"
    and "\<And>q. q \<in> set queue \<Longrightarrow> q = p \<or> q \<in> set (os_proposalQueue (tb_state b))"
    and "\<And>e. e \<in> set es \<Longrightarrow> json_event (je_payload e)"
  shows "json_board (commit (store_proposal queue entry t (tb_state b)) es b)"
  using assms unfolding json_board_def json_state_def by auto

lemma writeTodos_json: "json_board b \<Longrightarrow> json_board (snd (writeTodos items b))"
  by (auto simp: writeTodos_eq intro!: json_board_commit)

lemma upsertDelegation_json:
  assumes "json_board b"
  shows "json_board (snd (upsertDelegation input b))"
proof (cases "buildDelegationRecord input
    (find_by_id dr_id (os_delegation (tb_state b)) (di_id input)) (board_now b)")
  case (Inl e)
  with assms show ?thesis by (simp add: upsertDelegation_throws)
next
  case (Inr d)
  with assms show ?thesis
    by (auto simp: upsertDelegation_ok [OF Inr] delegation_update_def
        intro!: json_board_commit dest: update_notice_json)
qed

lemma setDelegationStatus_json:
  assumes "json_board b" and "board_inv b"
  shows "json_board (snd (setDelegationStatus input b))"
proof (cases "find_by_id dr_id (os_delegation (tb_state b)) (du_id input)")
  case None
  with assms show ?thesis by (simp add: setDelegationStatus_def)
next
  case (Some current)
  then have "wf_delegation current" using assms(2) by (intro board_inv_wf_delegation)
  with assms show ?thesis
    by (auto simp: setDelegationStatus_ok [OF Some] delegation_update_def
        intro!: json_board_commit dest: update_notice_json)
qed

lemma upsertVerification_json:
  assumes "json_board b"
  shows "json_board (snd (upsertVerification input b))"
  using assms
  by (auto simp: upsertVerification_eq verification_update_def
      intro!: json_board_commit dest: update_notice_json)

lemma enqueueProposal_json:
  assumes "json_board b" and "json_fields_ok (pi_payload input)"
  shows "json_board (snd (enqueueProposal input b))"
proof (cases "pi_id input \<in> pr_id ` set (os_proposalQueue (tb_state b))")
  case True
  with assms show ?thesis by (simp add: enqueueProposal_duplicate)
next
  case False
  have "json_fields_ok (pr_payload (buildProposalRecord input (board_now b)))"
    using assms(2) by (simp add: buildProposalRecord_def)
  with assms(1) show ?thesis
    unfolding enqueueProposal_ok [OF False] snd_conv
    by (intro json_board_proposal [where p = "buildProposalRecord input (board_now b)"]) auto
qed

lemma transitionProposal_json:
  assumes "json_board b" and "board_inv b"
  shows "json_board (snd (transitionProposal input b))"
proof (cases "find_by_id pr_id (os_proposalQueue (tb_state b)) (pt_proposalId input)")
  case None
  with assms show ?thesis by (simp add: transitionProposal_def)
next
  case (Some p)
  consider "\<not> canTransitionProposalStatus (pr_status p) (pt_status input)"
    | "pr_status p = pt_status input"
    | "canTransitionProposalStatus (pr_status p) (pt_status input)" "pr_status p \<noteq> pt_status input"
    by blast
  then show ?thesis
  proof cases
    case 3
    have p: "json_fields_ok (pr_payload (transitioned input p (board_now b)))"
      using assms proposals.get_Some [OF Some]
      by (simp add: transitioned_def json_board_def json_state_def)
    then show ?thesis
      unfolding transitionProposal_ok [OF Some 3] snd_conv using assms
      by (intro json_board_proposal [where p = "transitioned input p (board_now b)"])
        (auto simp: proposals.member_put [OF board_inv_queue [OF assms(2)]])
  qed (use assms Some in \<open>simp_all add: transitionProposal_invalid transitionProposal_same\<close>)
qed

lemma applyProposal_json:
  assumes "json_board b" and "board_inv b"
  shows "json_board (snd (applyProposal k b))"
  using assms by (cases k b rule: applyProposal_cases)
    (simp_all add: transitionProposal_json writeTodos_json writeTodos_inv)

lemma drainProposalOutbox_json:
  assumes "json_board b"
  shows "json_board (snd (drainProposalOutbox limit b))"
proof -
  define n where "n = nullish_else limit (int (length (os_proposalOutbox (tb_state b))))"
  show ?thesis
  proof (cases "n \<le> 0 \<or> os_proposalOutbox (tb_state b) = []")
    case True
    with assms show ?thesis by (simp add: drainProposalOutbox_none [OF n_def])
  next
    case False
    then have "0 < n" "os_proposalOutbox (tb_state b) \<noteq> []" by simp_all
    from drainProposalOutbox_ok [OF n_def this] show ?thesis
      using assms by (auto intro!: json_board_commit)
  qed
qed

lemma exec_json:
  assumes "json_board b" and "board_inv b" and "json_command c"
  shows "json_board (fst (exec c b))"
proof (cases c)
  case (CDrainJournal limit)
  obtain n where "fst (exec c b) = b\<lparr>tb_journal := drop n (tb_journal b)\<rparr>"
    using drainJournal_exec [OF assms(2), of limit] CDrainJournal by auto
  with assms(1) show ?thesis by (auto simp: json_board_def dest: in_set_dropD)
qed (use assms in \<open>simp_all add: writeTodos_json upsertDelegation_json setDelegationStatus_json
    upsertVerification_json enqueueProposal_json transitionProposal_json applyProposal_json
    drainProposalOutbox_json\<close>)

lemma run_json:
  "json_board b \<Longrightarrow> board_inv b \<Longrightarrow> (\<And>c. c \<in> set cs \<Longrightarrow> json_command c) \<Longrightarrow>
   json_board (fst (run_log exec cs b))"
proof (induction cs arbitrary: b)
  case Nil
  then show ?case by simp
next
  case (Cons c cs)
  then show ?case by (simp add: run_log_Cons exec_json exec_inv del: run_log.simps(2))
qed

section \<open>Stored entries\<close>

lemma event_type_trimmed [simp]: "js_trim (payload_event_type p) = payload_event_type p"
  by (cases p) (simp_all add: js_trim_def is_js_space_def)

lemma event_type_nonempty [simp]: "payload_event_type p \<noteq> []"
  by (cases p) simp_all

lemma decode_own: "wf_payload p \<Longrightarrow> decodeTaskEvent (payload_event_type p) (js_of_payload p) None =
    Some \<lparr>te_payload = p, te_domainVersion = TASK_EVENTS_DOMAIN_VERSION\<rparr>"
  by (simp add: decodeTaskEvent_def decode_payload_js)

lemma normalize_own:
  "wf_payload p \<Longrightarrow> normalizeTaskEventPayload (payload_event_type p) (js_of_payload p) = js_of_payload p"
  by (simp add: normalizeTaskEventPayload_def decode_own)

lemma stored_own:
  assumes "wf_payload p" and "jn_eventType e = payload_event_type p"
    and "jn_payload e = js_of_payload p"
  shows "stored_task_entry e =
    Some \<lparr>je_event = \<lparr>te_payload = p, te_domainVersion = TASK_EVENTS_DOMAIN_VERSION\<rparr>,
          je_createdAtMs = jn_createdAtMs e, je_schemaVersion = Some (jn_schemaVersion e)\<rparr>"
  using assms by (simp add: stored_task_entry_def normalize_own toTaskJournalEntry_def decode_own)

text \<open>Entries of other types are not part of the task journal.\<close>

lemma stored_other: "\<not> isTaskEventType (jn_eventType e) \<Longrightarrow> stored_task_entry e = None"
  by (simp add: stored_task_entry_def toTaskJournalEntry_def decodeTaskEvent_def)

text \<open>The projection reads the payload and the time of an entry, nothing else.\<close>

definition same_event :: "task_journal_entry \<Rightarrow> task_journal_entry \<Rightarrow> bool" where
  "same_event e f \<longleftrightarrow> je_payload e = je_payload f \<and> je_createdAtMs e = je_createdAtMs f"

lemma project_same:
  "list_all2 same_event es fs \<Longrightarrow> project_from s es = project_from s fs"
proof (induction es fs arbitrary: s rule: list_all2_induct)
  case Nil
  then show ?case by simp
next
  case (Cons e es f fs)
  have "applyTaskJournalEntry seed e = applyTaskJournalEntry seed f" for seed
    unfolding applyTaskJournalEntry_def
    using Cons.hyps(1) by (simp only: same_event_def)
  with Cons.IH show ?case by (simp split: sum.split)
qed

end
