(* ===== verification/Session_Artifact_Laws.thy ===== *)
theory Session_Artifact_Laws
  imports Session_Commands
begin

text \<open>
  Laws of the artifact files: a path below the artifact root is never refused, a session's files
  lie in one directory named by its id, what \<open>create\<close> wrote \<open>read\<close> finds under the id it gave, and
  no method of the store touches a file outside the directory of the session it names.
\<close>

section \<open>Paths\<close>

definition clean_segment :: "string \<Rightarrow> bool" where
  "clean_segment seg \<longleftrightarrow> seg \<noteq> [] \<and> seg \<noteq> ''.'' \<and> seg \<noteq> ''..''"

lemma normalize_clean:
  "list_all clean_segment segs \<Longrightarrow> normalize_path acc segs = rev acc @ segs"
  by (induction acc segs rule: normalize_path.induct) (auto simp: clean_segment_def)

lemma normalize_is_clean:
  "list_all clean_segment acc \<Longrightarrow> list_all clean_segment (normalize_path acc segs)"
proof (induction acc segs rule: normalize_path.induct)
  case (1 acc)
  then show ?case by simp
next
  case (2 acc seg segs)
  then show ?case by (cases acc) (auto simp: clean_segment_def)
qed

lemma relative_below [simp]: "relative_path root (root @ segs) = segs"
  by (induction root) (cases segs; simp)+

lemma inside_root:
  assumes "list_all clean_segment root" and "list_all clean_segment segs"
  shows "assertInsideRoot root (root @ ''tool-results'' # segs) = Inr ()"
proof -
  have "clean_segment ''tool-results''" by (simp add: clean_segment_def)
  then have target: "list_all clean_segment (root @ ''tool-results'' # segs)"
    using assms by simp
  have "\<not> starts_with ''..'' (js_join ''/'' (''tool-results'' # segs))"
    by (cases segs) (simp_all add: starts_with_def)
  with assms target show ?thesis
    by (simp add: assertInsideRoot_def resolve_path_def normalize_clean Let_def)
qed

section \<open>Sanitized segments\<close>

lemma replace_runs_chars:
  "c \<in> set (replace_runs kept b cs) \<Longrightarrow> kept c \<or> c = CHR ''_''"
  by (induction kept b cs rule: replace_runs.induct) (auto split: if_splits)

lemma replace_runs_id: "list_all kept cs \<Longrightarrow> replace_runs kept b cs = cs"
  by (induction cs arbitrary: b) auto

lemma underscore_path_char [simp]: "is_path_char CHR ''_''"
  by (simp add: is_path_char_def)

lemma path_char_not_space: "is_path_char c \<Longrightarrow> \<not> is_js_space c"
  by (auto simp: is_path_char_def is_js_space_def Let_def)

lemma dropWhile_last: "xs \<noteq> [] \<Longrightarrow> \<not> P (last xs) \<Longrightarrow> dropWhile P (rev xs) = rev xs"
  by (cases xs rule: rev_cases) auto

lemma trim_id:
  assumes "cs \<noteq> []" and "\<not> is_js_space (hd cs)" and "\<not> is_js_space (last cs)"
  shows "js_trim cs = cs"
proof -
  have "dropWhile is_js_space cs = cs" using assms(1,2) by (cases cs) auto
  then show ?thesis using dropWhile_last [of cs is_js_space] assms(1,3) by (simp add: js_trim_def)
qed

text \<open>A text that needs no cleaning, as long as it is not too long.\<close>

definition tidy :: "string \<Rightarrow> bool" where
  "tidy cs \<longleftrightarrow> list_all is_path_char cs \<and> (cs \<noteq> [] \<longrightarrow> \<not> is_underscore (hd cs))"

lemma sanitize_tidy: "tidy (sanitizePathSegment value)"
proof -
  define cs where "cs = dropWhile is_underscore (replace_runs is_path_char False (js_trim value))"
  define ds where "ds = rev (dropWhile is_underscore (rev cs))"
  have pre: "\<exists>us. cs = ds @ us"
    unfolding ds_def by (metis rev_append rev_rev_ident takeWhile_dropWhile_id)
  have chars: "c \<in> set cs \<Longrightarrow> is_path_char c" for c
    using replace_runs_chars unfolding cs_def by (metis set_dropWhileD underscore_path_char)
  have hd: "cs \<noteq> [] \<Longrightarrow> \<not> is_underscore (hd cs)"
    unfolding cs_def by (rule hd_dropWhile)
  from pre obtain us where us: "cs = ds @ us" by blast
  then have "c \<in> set ds \<Longrightarrow> is_path_char c" for c using chars by simp
  moreover have "ds \<noteq> [] \<Longrightarrow> \<not> is_underscore (hd ds)" using hd us by simp
  ultimately have "tidy (take 96 ds)"
    by (auto simp: tidy_def list_all_iff dest: in_set_takeD)
  then show ?thesis
    by (simp add: sanitizePathSegment_def ds_def cs_def)
qed

lemma sanitize_id:
  assumes "tidy cs" and "cs \<noteq> [] \<Longrightarrow> \<not> is_underscore (last cs)" and "length cs \<le> 96"
  shows "sanitizePathSegment cs = cs"
proof (cases "cs = []")
  case True
  then show ?thesis by (simp add: sanitizePathSegment_def js_trim_def)
next
  case False
  then have "is_path_char (hd cs)" "is_path_char (last cs)"
    using assms(1) by (simp_all add: tidy_def list_all_iff)
  then have "js_trim cs = cs" using False by (intro trim_id) (simp_all add: path_char_not_space)
  moreover have "dropWhile is_underscore cs = cs"
    using assms(1) False by (cases cs) (auto simp: tidy_def)
  ultimately show ?thesis
    using assms False dropWhile_last [of cs is_underscore]
    by (simp add: sanitizePathSegment_def replace_runs_id tidy_def)
qed

lemma sanitize_keeps_head:
  assumes "\<not> is_js_space c" and "is_path_char c" and "\<not> is_underscore c"
  shows "\<exists>ds. sanitizePathSegment (c # cs) = c # ds"
proof -
  have keep: "\<exists>ds. rev (dropWhile P (rev (c # xs))) = c # ds" if "\<not> P c" for P and xs :: string
  proof (cases "\<exists>x\<in>set xs. \<not> P x")
    case True
    then show ?thesis by (simp add: dropWhile_append) (metis rev_rev_ident)
  next
    case False
    with that show ?thesis by (simp add: dropWhile_append)
  qed
  obtain ds where "js_trim (c # cs) = c # ds"
    using keep [of is_js_space cs] assms(1) by (auto simp: js_trim_def)
  moreover obtain es where
    "rev (dropWhile is_underscore (rev (c # replace_runs is_path_char False ds))) = c # es"
    using keep [of is_underscore] assms(3) by blast
  ultimately show ?thesis using assms(2,3) by (simp add: sanitizePathSegment_def)
qed

lemma lower_or_digit_path:
  "is_lower_or_digit c \<Longrightarrow> is_path_char c \<and> \<not> is_underscore c \<and> c \<noteq> CHR ''.''"
  by (auto simp: is_lower_or_digit_def is_path_char_def is_underscore_def Let_def)

lemma session_segment_clean:
  assumes "isSessionId k"
  shows "clean_segment (sanitizePathSegment k)"
proof -
  from assms obtain c cs where k: "k = c # cs" and c: "is_lower_or_digit c"
    by (auto simp: isSessionId_def split: list.splits)
  from lower_or_digit_path [OF c] obtain ds where "sanitizePathSegment k = c # ds"
    unfolding k using sanitize_keeps_head [of c cs] path_char_not_space by blast
  with lower_or_digit_path [OF c] show ?thesis by (auto simp: clean_segment_def)
qed

lemma session_id_trimmed:
  assumes "isSessionId k"
  shows "js_trim k = k" and "k \<noteq> []"
proof -
  from assms obtain c cs where k: "k = c # cs" and c: "is_lower_or_digit c"
    and cs: "list_all (\<lambda>x. is_lower_or_digit x \<or> x \<in> set ''._:-'') cs"
    by (auto simp: isSessionId_def split: list.splits)
  have no_space: "is_lower_or_digit x \<or> x \<in> set ''._:-'' \<Longrightarrow> \<not> is_js_space x" for x
    by (auto simp: is_lower_or_digit_def is_js_space_def Let_def)
  have "last k \<in> set k" using k by simp
  then have "\<not> is_js_space (last k)" using no_space c cs unfolding k list_all_iff by auto
  then show "js_trim k = k" using no_space c by (intro trim_id) (auto simp: k)
  show "k \<noteq> []" by (simp add: k)
qed

section \<open>What touches the files\<close>

definition disk :: "session_store \<Rightarrow> string list \<times> (string \<Rightarrow> string) \<times> (string list \<times> string) list" where
  "disk s = (st_artifactRoot s, st_hash s, st_files s)"

named_theorems disk_simps \<open>operations that leave the files alone\<close>

lemma disk_tick [simp]: "disk (store_tick s) = disk s"
  by (simp add: disk_def store_tick_def)

lemma disk_ticks [simp]: "disk (s\<lparr>st_uuids := n\<rparr>) = disk s" "disk (s\<lparr>st_db := d\<rparr>) = disk s"
  by (simp_all add: disk_def)

lemma disk_time_or_now: "time_or_now v s = (t, s') \<Longrightarrow> disk s' = disk s"
  by (auto simp: time_or_now_eq split: if_splits)

lemma disk_transaction: "disk (snd (transaction f s)) = disk (snd (f s))"
  by (simp add: transaction_def split: prod.split sum.split)

lemma disk_with_active:
  assumes "\<And>r. lifecycleRequireActive k (st_db s) = Inr r \<Longrightarrow> disk (snd (f r s)) = disk s"
  shows "disk (snd (with_active k f s)) = disk s"
  using assms by (simp add: with_active_def disk_transaction split: sum.split)

lemma disk_chain:
  assumes "disk (snd r) = disk s" and "\<And>x. disk (snd (f x (snd r))) = disk (snd r)"
  shows "disk (snd (chain r f)) = disk s"
  using assms by (simp add: chain_eq split: sum.split)

lemma disk_insert [disk_simps]:
  "disk (snd (sqlInsertJournalEntry k seq ty turn p v t s)) = disk s"
  "disk (snd (sqlInsertCheckpoint k u st m v t s)) = disk s"
  "disk (snd (sqlUpdateSessionMetadata k m t s)) = disk s"
  "disk (snd (sqlSetSessionArchived k reason t s)) = disk s"
  "disk (snd (sqlCreateSession k m v s)) = disk s"
  by (simp_all add: sqlInsertJournalEntry_def sqlInsertCheckpoint_def sqlUpdateSessionMetadata_def
      sqlSetSessionArchived_def sqlCreateSession_def Let_def split: option.split)

lemma disk_append [disk_simps]: "disk (snd (journalAppend r input s)) = disk s"
  using disk_time_or_now [of "ap_createdAtMs input" s]
  by (auto simp: journalAppend_def Let_def disk_simps split: sum.split prod.split)

lemma disk_append_step [disk_simps]: "disk (snd (journalAppendStep r input s)) = disk s"
  by (simp add: journalAppendStep_def disk_simps split: sum.split)

lemma disk_append_scoped [disk_simps]: "disk (snd (appendScopedEvent r ty input s)) = disk s"
  by (simp add: appendScopedEvent_def disk_simps split: sum.split)

lemma disk_checkpoint [disk_simps]: "disk (snd (checkpointsCreate r input s)) = disk s"
  using disk_time_or_now [of "ck_createdAtMs input" s]
  by (auto simp: checkpointsCreate_def Let_def disk_simps split: sum.split prod.split option.split)

lemma disk_checkpoint_step [disk_simps]: "disk (snd (checkpointsCreateStep r input s)) = disk s"
  by (simp add: checkpointsCreateStep_def disk_simps split: sum.split)

lemma disk_archive [disk_simps]: "disk (snd (archiveArchive r reason s)) = disk s"
  using disk_insert(4) [of "ss_id r" reason "store_time s" "store_tick s"]
  by (auto simp: archiveArchive_def split: prod.split option.split)

lemma disk_handoff [disk_simps]: "disk (snd (handoff_operation k input r s)) = disk s"
  using disk_time_or_now [of "hi_createdAtMs input" s]
  by (auto simp: handoff_operation_def Let_def chain_eq disk_simps split: sum.split prod.split)

lemma disk_rewind_to [disk_simps]: "disk (snd (rewind_to k r ci t target s)) = disk s"
  by (auto simp: rewind_to_def Let_def chain_eq disk_simps split: sum.split option.split)

lemma disk_rewind [disk_simps]: "disk (snd (rewind_operation k ci t r s)) = disk s"
  using disk_time_or_now [of t s]
  by (auto simp: rewind_operation_def Let_def disk_simps split: sum.split prod.split option.split)

lemma disk_create [disk_simps]: "disk (snd (storeCreateSession input s)) = disk s"
proof -
  have "disk (snd (sqlCreateSession k m v s')) = disk s" if "disk s' = disk s" for k m v s'
    using that by (simp add: disk_simps)
  then show ?thesis
    by (auto simp: storeCreateSession_def lifecycleCreate_def Let_def split: option.split sum.split)
qed

lemma disk_metadata [disk_simps]: "disk (snd (storeUpdateMetadata k m s)) = disk s"
  using disk_insert(3) [of k m "store_time s" "store_tick s"]
  by (auto simp: storeUpdateMetadata_def lifecycleUpdateMetadata_def
      split: sum.split prod.split option.split)

lemma disk_appends [disk_simps]:
  "disk (snd (storeAppendJournal k a s)) = disk s"
  "disk (snd (storeAppendStepJournal k b s)) = disk s"
  "disk (snd (storeAppendStreamEvent k c s)) = disk s"
  "disk (snd (storeAppendAuditEvent k c s)) = disk s"
  "disk (snd (storeCreateCheckpoint k e s)) = disk s"
  "disk (snd (storeCreateStepCheckpoint k f s)) = disk s"
  "disk (snd (storeCreateHandoffSummary k g s)) = disk s"
  "disk (snd (storeRewind k ci t s)) = disk s"
  unfolding storeAppendJournal_def storeAppendStepJournal_def storeAppendStreamEvent_def
    storeAppendAuditEvent_def storeCreateCheckpoint_def storeCreateStepCheckpoint_def
    storeCreateHandoffSummary_def storeRewind_def journalAppendStreamEvent_def
    journalAppendAuditEvent_def
  by (intro disk_with_active, simp add: disk_simps)+

lemma disk_archive_session [disk_simps]: "disk (snd (storeArchiveSession k reason s)) = disk s"
  by (simp add: storeArchiveSession_def disk_transaction disk_simps split: sum.split)

lemma disk_evidence [disk_simps]: "disk (snd (storeRecordRuntimeEvidence k input s)) = disk s"
  using disk_time_or_now [of "ei_occurredAtMs input" s]
  by (auto simp: storeRecordRuntimeEvidence_def Let_def chain_eq disk_simps
      split: sum.split prod.split)

section \<open>Writing, reading and deleting artifacts\<close>

definition artifact_dir :: "string \<Rightarrow> session_store \<Rightarrow> string list" where
  "artifact_dir k s = st_artifactRoot s @ [''tool-results'', sanitizePathSegment k]"

definition clean_root :: "session_store \<Rightarrow> bool" where
  "clean_root s \<longleftrightarrow> list_all clean_segment (st_artifactRoot s)"

lemma new_store_clean_root: "clean_root (newSessionStore v now uuids h root)"
  by (simp add: clean_root_def newSessionStore_def resolve_path_def normalize_is_clean)

lemma txt_segment [simp]: "clean_segment (name @ ''.txt'')"
  by (auto simp: clean_segment_def append_eq_Cons_conv)

lemma tool_results_segment [simp]: "clean_segment ''tool-results''"
  by (simp add: clean_segment_def)

lemma artifact_location:
  assumes "clean_root s" and "isSessionId k"
  shows "artifact_path (sanitizePathSegment k) name =
           [''tool-results'', sanitizePathSegment k, name @ ''.txt'']"
    and "resolve_path (st_artifactRoot s) [''tool-results'', sanitizePathSegment k, name @ ''.txt''] =
           artifact_dir k s @ [name @ ''.txt'']"
    and "assertInsideRoot (st_artifactRoot s) (artifact_dir k s @ [name @ ''.txt'']) = Inr ()"
    and "resolve_path (st_artifactRoot s) (join_path [''tool-results'', sanitizePathSegment k]) =
           artifact_dir k s"
    and "assertInsideRoot (st_artifactRoot s) (artifact_dir k s) = Inr ()"
  using assms session_segment_clean [OF assms(2)]
    session_segment_clean [OF assms(2), unfolded clean_segment_def]
    inside_root [of "st_artifactRoot s" "[sanitizePathSegment k, name @ ''.txt'']"]
    inside_root [of "st_artifactRoot s" "[sanitizePathSegment k]"]
  by (simp_all add: artifact_path_def join_path_def resolve_path_def normalize_clean clean_root_def
      artifact_dir_def)

text \<open>The path and the record of the artifact that \<open>create\<close> writes.\<close>

definition created_artifact :: "session_record \<Rightarrow> artifact_input \<Rightarrow> session_store \<Rightarrow> artifact_record" where
  "created_artifact r input s =
     (let sha256 = st_hash s (ai_content input);
          name = buildArtifactId (js_trim (ai_toolUseId input)) sha256
      in \<lparr>af_sessionId = ss_id r, af_artifactId = name,
          af_relativePath = js_join ''/'' [''tool-results'', sanitizePathSegment (ss_id r), name @ ''.txt''],
          af_absolutePath = artifact_dir (ss_id r) s @ [name @ ''.txt''], af_sha256 = sha256,
          af_mimeType = nullish_else (normalizeOptionalText (ai_mimeType input)) ''text/plain'',
          af_originalSizeBytes = utf8_length (ai_content input)\<rparr>)"

lemma artifactsCreate_cases:
  assumes "clean_root s" and "isSessionId (ss_id r)"
  obtains (refused) e where "artifactsCreate r input s = (Inl e, s)"
  | (written) payload where
    "artifactsCreate r input s =
       (Inr (created_artifact r input s, payload),
        s\<lparr>st_files := AList.update (af_absolutePath (created_artifact r input s))
                        (ai_content input) (st_files s)\<rparr>)"
proof (cases "fst (artifactsCreate r input s)")
  case (Inl e)
  then have "artifactsCreate r input s = (Inl e, s)"
    by (auto simp: artifactsCreate_def Let_def artifact_location [OF assms] split: sum.splits)
  then show ?thesis by (rule refused)
next
  case (Inr x)
  then obtain payload where "artifactsCreate r input s =
      (Inr (created_artifact r input s, payload),
        s\<lparr>st_files := AList.update (af_absolutePath (created_artifact r input s))
                        (ai_content input) (st_files s)\<rparr>)"
    by (auto simp: artifactsCreate_def Let_def artifact_location [OF assms] created_artifact_def
        required_text_def split: sum.splits if_splits)
  then show ?thesis by (rule written)
qed

lemma deleteSessionArtifacts_eq:
  assumes "clean_root s" and "isSessionId k"
  shows "deleteSessionArtifacts k s =
    (Inr (), s\<lparr>st_files := filter (\<lambda>(path, content). \<not> prefix (artifact_dir k s) path) (st_files s)\<rparr>)"
proof -
  have "(take (length dir) path \<noteq> dir) = (\<not> prefix dir path)" for dir path :: "string list"
    by (metis append_eq_conv_conj prefix_def take_is_prefix)
  then show ?thesis
    using session_id_trimmed [OF assms(2)]
    by (simp add: deleteSessionArtifacts_def required_text_def Let_def artifact_location [OF assms])
qed

lemma map_of_filter_keys:
  "map_of (filter (\<lambda>(x, y). P x) xs) z = (if P z then map_of xs z else None)"
  by (induction xs) auto

lemma storeAppendToolResultArtifact_files:
  assumes "clean_root s"
  shows "st_files (snd (storeAppendToolResultArtifact k input s)) = st_files s \<or>
    (\<exists>r. sqlGetSession k (st_db s) = Some r \<and>
       st_files (snd (storeAppendToolResultArtifact k input s)) =
         AList.update (af_absolutePath (created_artifact r input s)) (ai_content input) (st_files s))"
proof (cases "lifecycleRequireActive k (st_db s)")
  case (Inl e)
  then show ?thesis by (simp add: storeAppendToolResultArtifact_def with_active_def)
next
  case (Inr r)
  then have r: "isSessionId k" "sqlGetSession k (st_db s) = Some r" "ss_id r = k"
    using sqlGetSession_Some by (auto simp: lifecycleRequireActive_Inr)
  have files: "st_files (snd (storeAppendToolResultArtifact k input s)) =
      st_files (snd (artifact_operation input r s))"
    using disk_transaction [of "artifact_operation input r" s] Inr
    by (simp add: storeAppendToolResultArtifact_def with_active_def disk_def)
  have frame: "st_files (snd (journalAppendStep r' i s')) = st_files s'" for r' i s'
    using disk_append_step [of r' i s'] by (simp add: disk_def)
  from r have "isSessionId (ss_id r)" by simp
  then show ?thesis
    by (rule artifactsCreate_cases [OF assms, of r input])
      (use r in \<open>auto simp: files artifact_operation_def chain_eq frame split: sum.split\<close>)
qed

lemma disk_delete:
  assumes "clean_root s"
  shows "storeDeleteSession k reason s = (res, s') \<Longrightarrow> st_files s' = st_files s \<or>
    (isSessionId k \<and> sqlGetSession k (st_db s) \<noteq> None \<and>
     st_files s' = filter (\<lambda>(path, content). \<not> prefix (artifact_dir k s) path) (st_files s))"
proof (cases "lifecycleRequire k (st_db s)")
  case (Inl e)
  then show "storeDeleteSession k reason s = (res, s') \<Longrightarrow> ?thesis"
    by (simp add: storeDeleteSession_def)
next
  case (Inr r)
  then have r: "isSessionId k" "sqlGetSession k (st_db s) = Some r"
    by (simp_all add: lifecycleRequire_Inr)
  have same: "artifact_dir k s'' = artifact_dir k s \<and> clean_root s'' \<and> st_files s'' = st_files s"
    if "disk s'' = disk s" for s''
    using that assms by (simp add: disk_def artifact_dir_def clean_root_def)
  note arch = same [OF disk_archive, of r reason]
  assume "storeDeleteSession k reason s = (res, s')"
  then have "disk s' = disk (snd (delete_operation k reason r s))"
    using disk_transaction [of "delete_operation k reason r" s] Inr
    by (simp add: storeDeleteSession_def)
  then have "st_files s' = st_files (snd (delete_operation k reason r s))" by (simp add: disk_def)
  with r arch show ?thesis
    by (auto simp: delete_operation_def chain_eq deleteSessionArtifacts_eq sqlDeleteSession_eq
        split: sum.split)
qed

text \<open>Only the directory of the session a command names is touched.\<close>

lemma exec_store_files:
  assumes "clean_root s"
    and "map_of (st_files (fst (exec_store c s))) path \<noteq> map_of (st_files s) path"
  shows "\<exists>k. ((\<exists>input. c = CmdArtifact k input) \<or> (\<exists>reason. c = CmdDelete k reason)) \<and>
             sqlGetSession k (st_db s) \<noteq> None \<and> prefix (artifact_dir k s) path"
proof (cases c)
  case (CmdArtifact k input)
  with assms storeAppendToolResultArtifact_files [OF assms(1), of k input] show ?thesis
    by (auto simp: update_conv' created_artifact_def Let_def artifact_dir_def
        dest: sqlGetSession_Some split: if_splits)
next
  case (CmdDelete k reason)
  obtain res s' where del: "storeDeleteSession k reason s = (res, s')"
    by (cases "storeDeleteSession k reason s")
  from assms(2) disk_delete [OF assms(1) del] show ?thesis
    by (auto simp: CmdDelete del map_of_filter_keys split: if_splits)
qed (use assms(2) disk_simps in \<open>auto simp: disk_def\<close>)

lemma exec_store_root:
  assumes "clean_root s"
  shows "st_artifactRoot (fst (exec_store c s)) = st_artifactRoot s \<and>
         st_hash (fst (exec_store c s)) = st_hash s"
proof -
  have create: "st_artifactRoot (snd (artifactsCreate r input s)) = st_artifactRoot s \<and>
      st_hash (snd (artifactsCreate r input s)) = st_hash s" for r input
    by (simp add: artifactsCreate_def Let_def split: sum.split)
  have step: "st_artifactRoot (snd (journalAppendStep r input s')) = st_artifactRoot s' \<and>
      st_hash (snd (journalAppendStep r input s')) = st_hash s'" for r input s'
    using disk_append_step [of r input s'] by (simp add: disk_def)
  have delete: "st_artifactRoot (snd (deleteSessionArtifacts k s')) = st_artifactRoot s' \<and>
      st_hash (snd (deleteSessionArtifacts k s')) = st_hash s'" for k s'
    by (simp add: deleteSessionArtifacts_def Let_def split: sum.split)
  have archive: "st_artifactRoot (snd (archiveArchive r reason s)) = st_artifactRoot s \<and>
      st_hash (snd (archiveArchive r reason s)) = st_hash s" for r reason
    using disk_archive [of r reason s] by (simp add: disk_def)
  have trans: "st_artifactRoot (snd (transaction f s)) = st_artifactRoot (snd (f s)) \<and>
      st_hash (snd (transaction f s)) = st_hash (snd (f s))" for f :: "session_store \<Rightarrow> 'a result"
    using disk_transaction [of f s] by (simp add: disk_def)
  show ?thesis
  proof (cases c)
    case (CmdArtifact k input)
    then show ?thesis
      by (simp add: storeAppendToolResultArtifact_def with_active_def trans artifact_operation_def
          chain_eq create step split: sum.split)
  next
    case (CmdDelete k reason)
    then show ?thesis
      by (simp add: storeDeleteSession_def trans delete_operation_def chain_eq archive delete
          sqlDeleteSession_eq split: sum.split)
  qed (use disk_simps in \<open>auto simp: disk_def\<close>)
qed

interpretation artifact_machine: command_machine exec_store "\<lambda>s. store_inv s \<and> clean_root s"
  by unfold_locales (simp add: exec_store_inv clean_root_def exec_store_root)

section \<open>Reading back\<close>

definition hex_hash :: "string \<Rightarrow> bool" where
  "hex_hash h \<longleftrightarrow> 16 \<le> length h \<and> list_all is_lower_or_digit h"

lemma tidy_id:
  assumes "tidy seg" and "seg \<noteq> []" and "length seg \<le> 79" and "hex_hash h"
  shows "sanitizePathSegment (seg @ ''_'' @ take 16 h) = seg @ ''_'' @ take 16 h"
    and "js_trim (seg @ ''_'' @ take 16 h) = seg @ ''_'' @ take 16 h"
    and "hash_suffix (seg @ ''_'' @ take 16 h) = take 16 h"
proof -
  define u where "u = take 16 h"
  have u: "u \<noteq> []" "length u = 16" "\<And>c. c \<in> set u \<Longrightarrow> is_lower_or_digit c"
    using assms(4) by (auto simp: u_def hex_hash_def list_all_iff dest: in_set_takeD)
  have last: "is_lower_or_digit (last u)" using u by simp
  have tidy: "tidy (seg @ ''_'' @ u)"
    using assms(1,2) u(3) lower_or_digit_path by (auto simp: tidy_def list_all_iff)
  show "sanitizePathSegment (seg @ ''_'' @ take 16 h) = seg @ ''_'' @ take 16 h"
    unfolding u_def [symmetric]
    by (rule sanitize_id) (use tidy u last lower_or_digit_path assms(3) in auto)
  have "list_all is_path_char (seg @ ''_'' @ u)" using tidy by (simp add: tidy_def)
  then have "\<not> is_js_space (hd (seg @ ''_'' @ u))" "\<not> is_js_space (last (seg @ ''_'' @ u))"
    using path_char_not_space assms(2) u(1) by (auto simp: list_all_iff)
  then show "js_trim (seg @ ''_'' @ take 16 h) = seg @ ''_'' @ take 16 h"
    unfolding u_def [symmetric] by (intro trim_id) (auto simp: assms(2))
  have "c \<noteq> CHR ''_''" if "c \<in> set u" for c
    using lower_or_digit_path [OF u(3) [OF that]] by (simp add: is_underscore_def)
  then have "takeWhile (\<lambda>c. c \<noteq> CHR ''_'') (rev u @ CHR ''_'' # rev seg) = rev u"
    by (subst takeWhile_append2) auto
  then show "hash_suffix (seg @ ''_'' @ take 16 h) = take 16 h"
    unfolding u_def [symmetric] by (simp add: hash_suffix_def)
qed

lemma artifactsRead_found:
  assumes "clean_root s" and "isSessionId k"
    and "sanitizePathSegment name = name" and "js_trim name = name" and "name \<noteq> []"
    and "map_of (st_files s) (artifact_dir k s @ [name @ ''.txt'']) = Some content"
    and "starts_with (hash_suffix name) (st_hash s content)"
  shows "artifactsRead k name s =
      Inr (\<lparr>af_sessionId = k, af_artifactId = name,
            af_relativePath = js_join ''/'' [''tool-results'', sanitizePathSegment k, name @ ''.txt''],
            af_absolutePath = artifact_dir k s @ [name @ ''.txt''],
            af_sha256 = st_hash s content, af_mimeType = ''text/plain'',
            af_originalSizeBytes = utf8_length content\<rparr>, content)"
  using session_id_trimmed [OF assms(2)] assms(3-)
  by (simp add: artifactsRead_def required_text_def Let_def artifact_location [OF assms(1,2)])

lemma read_created:
  assumes root: "clean_root s" and k: "isSessionId (ss_id r)"
    and seg: "seg = sanitizePathSegment (js_trim (ai_toolUseId input))" "seg \<noteq> []" "length seg \<le> 79"
    and hash: "hex_hash (st_hash s (ai_content input))"
    and stored: "map_of (st_files s') (af_absolutePath (created_artifact r input s)) = Some (ai_content input)"
    and same: "st_artifactRoot s' = st_artifactRoot s" "st_hash s' = st_hash s"
  shows "artifactsRead (ss_id r) (af_artifactId (created_artifact r input s)) s' =
    Inr ((created_artifact r input s)\<lparr>af_mimeType := ''text/plain''\<rparr>, ai_content input)"
proof -
  have root': "clean_root s'" using root same by (simp add: clean_root_def)
  have "tidy seg" using seg(1) sanitize_tidy by simp
  note name = tidy_id [OF this seg(2,3) hash]
  define name where "name = seg @ ''_'' @ take 16 (st_hash s (ai_content input))"
  have created: "created_artifact r input s =
      \<lparr>af_sessionId = ss_id r, af_artifactId = name,
       af_relativePath = js_join ''/'' [''tool-results'', sanitizePathSegment (ss_id r), name @ ''.txt''],
       af_absolutePath = artifact_dir (ss_id r) s @ [name @ ''.txt''],
       af_sha256 = st_hash s (ai_content input),
       af_mimeType = nullish_else (normalizeOptionalText (ai_mimeType input)) ''text/plain'',
       af_originalSizeBytes = utf8_length (ai_content input)\<rparr>"
    by (simp add: created_artifact_def buildArtifactId_def seg(1) name_def Let_def)
  have read: "artifactsRead (ss_id r) name s' =
      Inr (\<lparr>af_sessionId = ss_id r, af_artifactId = name,
            af_relativePath = js_join ''/'' [''tool-results'', sanitizePathSegment (ss_id r), name @ ''.txt''],
            af_absolutePath = artifact_dir (ss_id r) s' @ [name @ ''.txt''],
            af_sha256 = st_hash s' (ai_content input), af_mimeType = ''text/plain'',
            af_originalSizeBytes = utf8_length (ai_content input)\<rparr>, ai_content input)"
  proof (rule artifactsRead_found [OF root' k])
    show "sanitizePathSegment name = name" "js_trim name = name" unfolding name_def by (rule name)+
    show "name \<noteq> []" by (simp add: name_def)
    show "map_of (st_files s') (artifact_dir (ss_id r) s' @ [name @ ''.txt'']) = Some (ai_content input)"
      using stored by (simp add: created artifact_dir_def same)
    show "starts_with (hash_suffix name) (st_hash s' (ai_content input))"
      using name(3) hash by (simp add: name_def same starts_with_def hex_hash_def min_absorb2)
  qed
  show ?thesis unfolding created by (simp add: read artifact_dir_def same)
qed

lemma artifact_read_back:
  assumes inv: "store_inv s" and root: "clean_root s"
    and app: "storeAppendToolResultArtifact k input s = (Inr (artifact, entry), s')"
    and seg: "sanitizePathSegment (js_trim (ai_toolUseId input)) \<noteq> []"
      "length (sanitizePathSegment (js_trim (ai_toolUseId input))) \<le> 79"
    and hash: "hex_hash (st_hash s (ai_content input))"
  shows "storeReadToolResultArtifact k (af_artifactId artifact) s' =
           Inr (artifact\<lparr>af_mimeType := ''text/plain''\<rparr>, ai_content input)"
    and "af_absolutePath artifact = artifact_dir k s @ [af_artifactId artifact @ ''.txt'']"
    and "entries_of k (st_db s') = entries_of k (st_db s) @ [entry]"
    and "jn_eventType entry = ''step.tool_result''"
proof -
  obtain r where act: "lifecycleRequireActive k (st_db s) = Inr r"
    using app by (auto simp: storeAppendToolResultArtifact_def with_active_def split: sum.splits)
  then have r: "isSessionId k" "sqlGetSession k (st_db s) = Some r" "ss_id r = k"
    "current r (st_db s)"
    using sqlGetSession_Some currentI by (auto simp: lifecycleRequireActive_Inr)
  then have k: "isSessionId (ss_id r)" by simp
  have op: "artifact_operation input r s = (Inr (artifact, entry), s')"
    using app act
    by (auto simp: storeAppendToolResultArtifact_def with_active_def transaction_def
        split: prod.splits sum.splits)
  define s1 where "s1 = s\<lparr>st_files := AList.update (af_absolutePath (created_artifact r input s))
                        (ai_content input) (st_files s)\<rparr>"
  obtain payload where made: "artifactsCreate r input s = (Inr (created_artifact r input s, payload), s1)"
    by (rule artifactsCreate_cases [OF root k, of input])
      (use op in \<open>auto simp: artifact_operation_def s1_def\<close>)
  define step where "step = \<lparr>sj_turnId = ai_turnId input, sj_stepIndex = ai_stepIndex input,
                 sj_eventType = ToolResult, sj_payload = payload,
                 sj_schemaVersion = ai_schemaVersion input,
                 sj_createdAtMs = ai_createdAtMs input\<rparr>"
  from op made have art: "artifact = created_artifact r input s"
    and step: "journalAppendStep r step s1 = (Inr entry, s')" "sj_eventType step = ToolResult"
    by (auto simp: artifact_operation_def chain_eq step_def prod_eq_iff split: sum.splits)
  have "current r (st_db s1)" "tables_inv (st_db s1)"
    using r(4) inv by (simp_all add: s1_def store_inv_def)
  note appended = journalAppend_Inr [OF this]
  from step obtain a where "journalAppend r a s1 = (Inr entry, s')"
    "ap_eventType a = ''step.tool_result''"
    by (auto simp: journalAppendStep_def split: sum.splits prod.splits)
  note e = appended(1,2) [OF this(1)] this(2)
  have db: "st_db s' = insert_entry entry (st_db s)" "jn_sessionId entry = k"
    using e r(3) by (simp_all add: s1_def)
  then show "entries_of k (st_db s') = entries_of k (st_db s) @ [entry]"
    by (simp add: store_simps)
  show "jn_eventType entry = ''step.tool_result''"
    by (simp add: e js_trim_def is_js_space_def)
  show "af_absolutePath artifact = artifact_dir k s @ [af_artifactId artifact @ ''.txt'']"
    by (simp add: art created_artifact_def Let_def r(3))
  have disk: "disk s' = disk s1" using disk_append_step [of r step s1] step(1) by simp
  have require: "lifecycleRequire k (st_db s') \<noteq> Inl x" for x
    using r by (simp add: lifecycleRequire_def lifecycleGet_def db store_simps)
  have "artifactsRead (ss_id r) (af_artifactId (created_artifact r input s)) s' =
      Inr ((created_artifact r input s)\<lparr>af_mimeType := ''text/plain''\<rparr>, ai_content input)"
    by (rule read_created [OF root k refl seg hash]) (use disk in \<open>simp_all add: disk_def s1_def update_conv'\<close>)
  then show "storeReadToolResultArtifact k (af_artifactId artifact) s' =
      Inr (artifact\<lparr>af_mimeType := ''text/plain''\<rparr>, ai_content input)"
    using require by (auto simp: storeReadToolResultArtifact_def art r(3) split: sum.split)
qed

end
