(* ===== verification/Session_Laws.thy ===== *)
theory Session_Laws
  imports Session_Artifact_Laws
begin

text \<open>
  What the methods of the store do in a state that keeps the invariant: when they throw and what
  they leave behind, what an append adds and what is listed afterwards, how a checkpoint and a
  rewind change what recovery computes, where a turn resumes, and what deletion returns.
\<close>

section \<open>Errors\<close>

lemma transaction_plain:
  "(\<And>e s'. f s = (Inl e, s') \<Longrightarrow> st_db s' = st_db s) \<Longrightarrow> transaction f s = f s"
  unfolding transaction_def by (cases "f s"; cases "fst (f s)") auto

lemma storeAppendJournal_eq:
  assumes "store_inv s"
  shows "storeAppendJournal k input s =
    (case lifecycleRequireActive k (st_db s) of
       Inl e \<Rightarrow> (Inl e, s) | Inr r \<Rightarrow> journalAppend r input s)"
proof -
  have "transaction (journalAppend r input) s = journalAppend r input s"
    if "lifecycleRequireActive k (st_db s) = Inr r" for r
  proof (rule transaction_plain)
    fix e s'
    have "current r (st_db s)" using that by (auto simp: lifecycleRequireActive_Inr intro: currentI)
    moreover assume "journalAppend r input s = (Inl e, s')"
    ultimately show "st_db s' = st_db s"
      using assms by (auto simp: store_inv_def journalAppend_eq Let_def split: if_splits)
  qed
  then show ?thesis by (simp add: storeAppendJournal_def with_active_def split: sum.split)
qed

text \<open>The second write of runtime evidence succeeds when the first did.\<close>

lemma evidence_second_write:
  assumes "store_inv s" and "storeAppendAuditEvent k x s = (Inr e, s1)"
  shows "\<exists>f s2. storeAppendStreamEvent k x s1 = (Inr f, s2)"
proof -
  obtain r where act: "lifecycleRequireActive k (st_db s) = Inr r"
    using assms(2) by (auto simp: storeAppendAuditEvent_def with_active_def split: sum.splits)
  then have r: "isSessionId k" "sqlGetSession k (st_db s) = Some r" "ss_id r = k"
    "ss_status r = Active" "current r (st_db s)"
    using sqlGetSession_Some currentI by (auto simp: lifecycleRequireActive_Inr)
  have "journalAppendAuditEvent r x s = (Inr e, s1)"
    using assms(2) act
    by (auto simp: storeAppendAuditEvent_def with_active_def transaction_def
        split: prod.splits sum.splits)
  then obtain event where event: "validateJournalEventEnvelope (sx_event x) = Inr event"
    and app: "journalAppend r \<lparr>ap_eventType = AUDIT_JOURNAL_EVENT_TYPE,
      ap_payload = js_of_envelope event, ap_turnId = sx_turnId x,
      ap_schemaVersion = sx_schemaVersion x, ap_createdAtMs = sx_createdAtMs x\<rparr> s = (Inr e, s1)"
    by (auto simp: journalAppendAuditEvent_def appendScopedEvent_def split: sum.splits)
  note ok = journalAppend_Inr [OF r(5) _ app]
  have inv: "tables_inv (st_db s)" using assms(1) by (simp add: store_inv_def)
  define r1 where "r1 = r\<lparr>ss_updatedAtMs := max (ss_updatedAtMs r) (jn_createdAtMs e)\<rparr>"
  have db: "st_db s1 = insert_entry e (st_db s)" and e: "jn_sessionId e = k"
    using ok(1,2) [OF inv] r(3) by simp_all
  then have r1: "sqlGetSession k (st_db s1) = Some r1"
    using r(2) by (simp add: store_simps r1_def)
  then have act1: "lifecycleRequireActive k (st_db s1) = Inr r1"
    using r by (simp add: lifecycleRequireActive_Inr r1_def)
  have inv1: "tables_inv (st_db s1)"
    using session_steps_inv [OF storeAppendAuditEvent_steps [OF inv, of k x] inv] assms(2) by simp
  have "current r1 (st_db s1)" by (rule currentI [OF r1]) (simp add: r1_def r(4))
  moreover have "js_trim STREAM_JOURNAL_EVENT_TYPE \<noteq> []"
    by (simp add: STREAM_JOURNAL_EVENT_TYPE_def js_trim_def is_js_space_def)
  ultimately have "\<exists>f s2. journalAppendStreamEvent r1 x s1 = (Inr f, s2)"
    using ok(3) [OF inv] inv1 event
    by (simp add: journalAppendStreamEvent_def appendScopedEvent_def journalAppend_eq
        append_version_def r1_def js_of_envelope_def Let_def)
  then show ?thesis
    using act1 by (auto simp: storeAppendStreamEvent_def with_active_def transaction_def)
qed

lemma storeRecordRuntimeEvidence_thrown:
  assumes "store_inv s" and "fst (storeRecordRuntimeEvidence k input s) = Inl e"
  shows "st_db (snd (storeRecordRuntimeEvidence k input s)) = st_db s"
proof -
  define s0 where "s0 = snd (time_or_now (ei_occurredAtMs input) s)"
  have s0: "st_db s0 = st_db s" "store_inv s0"
    using assms(1) by (simp_all add: s0_def time_or_now_eq store_inv_def)
  have audit: "fst (storeAppendAuditEvent k x s0) = Inl e' \<Longrightarrow>
      st_db (snd (storeAppendAuditEvent k x s0)) = st_db s0" for x e'
    unfolding storeAppendAuditEvent_def by (rule with_active_thrown)
  have stream: "fst (storeAppendStreamEvent k x s0) = Inl e' \<Longrightarrow>
      st_db (snd (storeAppendStreamEvent k x s0)) = st_db s0" for x e'
    unfolding storeAppendStreamEvent_def by (rule with_active_thrown)
  have both: "fst (storeAppendStreamEvent k x (snd (storeAppendAuditEvent k x s0))) \<noteq> Inl e''"
    if "fst (storeAppendAuditEvent k x s0) = Inr e'" for x e' e''
    using evidence_second_write [OF s0(2), of k x e' "snd (storeAppendAuditEvent k x s0)"] that
    by (metis Inl_Inr_False fst_conv prod.collapse)
  show ?thesis
    using assms(2) s0(1)
    unfolding storeRecordRuntimeEvidence_def
    by (auto simp: Let_def case_prod_unfold s0_def [symmetric] chain_eq audit stream
        dest: both split: sum.splits if_splits)
qed

lemma store_thrown:
  "fst (storeCreateSession ci s) = Inl e \<Longrightarrow> st_db (snd (storeCreateSession ci s)) = st_db s"
  "fst (storeUpdateMetadata k m s) = Inl e \<Longrightarrow> st_db (snd (storeUpdateMetadata k m s)) = st_db s"
  "fst (storeArchiveSession k r s) = Inl e \<Longrightarrow> st_db (snd (storeArchiveSession k r s)) = st_db s"
  "fst (storeDeleteSession k r s) = Inl e \<Longrightarrow> st_db (snd (storeDeleteSession k r s)) = st_db s"
proof -
  show "fst (storeCreateSession ci s) = Inl e \<Longrightarrow> st_db (snd (storeCreateSession ci s)) = st_db s"
    by (cases rule: storeCreateSession_cases [of ci s]) simp_all
  show "fst (storeUpdateMetadata k m s) = Inl e \<Longrightarrow> st_db (snd (storeUpdateMetadata k m s)) = st_db s"
    by (simp add: storeUpdateMetadata_eq split: sum.splits)
  show "fst (storeArchiveSession k r s) = Inl e \<Longrightarrow> st_db (snd (storeArchiveSession k r s)) = st_db s"
    by (auto simp: storeArchiveSession_def transaction_db transaction_result split: sum.splits)
  show "fst (storeDeleteSession k r s) = Inl e \<Longrightarrow> st_db (snd (storeDeleteSession k r s)) = st_db s"
    by (auto simp: storeDeleteSession_def transaction_db transaction_result split: sum.splits)
qed

lemma exec_store_thrown:
  assumes inv: "store_inv s" and thrown: "snd (exec_store c s) \<noteq> []"
  shows "st_db (fst (exec_store c s)) = st_db s"
proof -
  have report: "st_db (fst (report r)) = st_db s"
    if "snd (report r) \<noteq> []" and "\<And>e. fst r = Inl e \<Longrightarrow> st_db (snd r) = st_db s"
    for r :: "'a result"
    using that by (auto simp: report_def split: sum.splits)
  show ?thesis
    using thrown
    by (cases c)
      (auto intro!: report store_thrown storeRecordRuntimeEvidence_thrown [OF inv]
        with_active_thrown
        simp: storeAppendJournal_def storeAppendStepJournal_def storeAppendStreamEvent_def
          storeAppendAuditEvent_def storeAppendToolResultArtifact_def storeCreateHandoffSummary_def
          storeCreateCheckpoint_def storeCreateStepCheckpoint_def storeRewind_def
        simp del: report_fst)
qed

section \<open>The latest checkpoint\<close>

lemma checkpoints_sorted:
  "sorted_wrt (\<lambda>c c'. by_latest_checkpoint c c' \<le> 0) (js_sort by_latest_checkpoint cs)"
  by (rule by_latest_checkpoint.sort_ordered)

lemma sort_latest_checkpoint:
  assumes "\<And>c'. c' \<in> set cs \<Longrightarrow> cp_uptoSeq c' < cp_uptoSeq c"
  shows "js_sort by_latest_checkpoint (cs @ [c]) = c # js_sort by_latest_checkpoint cs"
proof (rule by_latest_checkpoint.sort_unique [symmetric])
  show "sorted_wrt (\<lambda>u v. by_latest_checkpoint u v \<le> 0) (c # js_sort by_latest_checkpoint cs)"
    using assms checkpoints_sorted by (auto simp: by_latest_checkpoint_def dest!: assms)
  show "mset (c # js_sort by_latest_checkpoint cs) = mset (cs @ [c])" by simp
  fix x
  have "filter (\<lambda>y. by_latest_checkpoint y x = 0) (js_sort by_latest_checkpoint cs) =
      filter (\<lambda>y. by_latest_checkpoint y x = 0) cs"
    by (rule by_latest_checkpoint.sort_stable)
  moreover have "filter (\<lambda>y. by_latest_checkpoint y x = 0) cs = []"
    if "by_latest_checkpoint c x = 0"
    using that assms by (fastforce simp: filter_empty_conv by_latest_checkpoint_def split: if_splits)
  ultimately show "filter (\<lambda>y. by_latest_checkpoint y x = 0) (c # js_sort by_latest_checkpoint cs) =
      filter (\<lambda>y. by_latest_checkpoint y x = 0) (cs @ [c])" by simp
qed

lemma latest_checkpoint_insert:
  assumes "\<And>c'. c' \<in> set (checkpoints_of (cp_sessionId c) d) \<Longrightarrow> cp_uptoSeq c' < cp_uptoSeq c"
  shows "sqlGetLatestCheckpoint (cp_sessionId c) (insert_checkpoint c d) = Some c"
  using sort_latest_checkpoint [OF assms] by (simp add: sqlGetLatestCheckpoint_def store_simps)

lemma latest_checkpoint_member:
  "sqlGetLatestCheckpoint k d = Some c \<Longrightarrow> c \<in> set (checkpoints_of k d)"
  by (metis (no_types, lifting) list.set_intros(1) list.simps(5) option.discI option.inject
      set_js_sort sqlGetLatestCheckpoint_def list.case_eq_if neq_Nil_conv)

lemma latest_checkpoint_None:
  "sqlGetLatestCheckpoint k d = None \<longleftrightarrow> checkpoints_of k d = []"
  by (cases "js_sort by_latest_checkpoint (checkpoints_of k d)")
    (auto simp: sqlGetLatestCheckpoint_def dest: arg_cong [of _ _ set])

lemma checkpoint_bounds:
  assumes "tables_inv d" and "c \<in> set (checkpoints_of k d)"
  shows "0 \<le> cp_uptoSeq c" and "cp_uptoSeq c \<le> int (length (entries_of k d))"
    and "is_json (cp_state c)" and "cp_state c \<noteq> JUndefined"
proof -
  have c: "c \<in> set (tab_checkpoints d)" "cp_sessionId c = k"
    using assms(2) by (simp_all add: checkpoints_of_def)
  have ok: "checkpoint_ok d c" using tables_invD(8) [OF assms(1) c(1)] .
  then show "0 \<le> cp_uptoSeq c" "cp_uptoSeq c \<le> int (length (entries_of k d))"
    "is_json (cp_state c)"
    using c(2) by (simp_all add: checkpoint_ok_def)
  show "cp_state c \<noteq> JUndefined" using ok by (auto simp: checkpoint_ok_def)
qed

section \<open>Recovery\<close>

definition plain_recovery :: "reducer \<Rightarrow> jsval \<Rightarrow> string option \<Rightarrow> recover_options" where
  "plain_recovery f initial expected =
     \<lparr>ro_expectedSchemaVersion = expected, ro_reducer = Some f, ro_initialState = Some initial\<rparr>"

lemma session_entry_versions:
  assumes "tables_inv d" and "sqlGetSession k d = Some r"
  shows "e \<in> set (entries_of k d) \<Longrightarrow>
           isSchemaVersionCompatible (jn_schemaVersion e) (ss_schemaVersion r)"
    and "c \<in> set (checkpoints_of k d) \<Longrightarrow>
           isSchemaVersionCompatible (cp_schemaVersion c) (ss_schemaVersion r)"
proof -
  show "isSchemaVersionCompatible (jn_schemaVersion e) (ss_schemaVersion r)"
    if "e \<in> set (entries_of k d)"
    using that assms(2) tables_invD(5) [OF assms(1), of e] by (auto simp: entries_of_def entry_ok_def)
  show "isSchemaVersionCompatible (cp_schemaVersion c) (ss_schemaVersion r)"
    if "c \<in> set (checkpoints_of k d)"
    using that assms(2) tables_invD(8) [OF assms(1), of c]
    by (auto simp: checkpoints_of_def checkpoint_ok_def)
qed

text \<open>With no expected version, or with the session's own, recovery always succeeds.\<close>

lemma recover_eq:
  assumes inv: "tables_inv d" and r: "sqlGetSession k d = Some r"
    and version: "expected = None \<or> expected = Some (ss_schemaVersion r)"
  shows "recoverSessionState k (plain_recovery f initial expected) d =
    (let checkpoint = sqlGetLatestCheckpoint k d;
         journal = drop (nat (checkpoint_seq checkpoint)) (entries_of k d)
     in Inr \<lparr>rr_session = r, rr_checkpoint = checkpoint, rr_journal = journal,
             rr_state = foldl f (base_state checkpoint (Some initial)) journal,
             rr_lastAppliedSeq = int (length (entries_of k d))\<rparr>)"
proof -
  define checkpoint where "checkpoint = sqlGetLatestCheckpoint k d"
  define journal where "journal = drop (nat (checkpoint_seq checkpoint)) (entries_of k d)"
  have seq: "0 \<le> checkpoint_seq checkpoint" "checkpoint_seq checkpoint \<le> int (length (entries_of k d))"
    using checkpoint_bounds [OF inv latest_checkpoint_member]
    by (auto simp: checkpoint_def checkpoint_seq_def nullish_else_def split: option.split)
  have self: "isSchemaVersionCompatible (ss_schemaVersion r) (ss_schemaVersion r)"
    by (simp add: isSchemaVersionCompatible_def)
  have own: "assert_expected (ss_schemaVersion r) expected what = Inr ()" for what
    using version self by (auto simp: assert_expected_def assertSchemaVersionCompatible_def)
  have cp: "(case checkpoint of None \<Rightarrow> Inr ()
      | Some c \<Rightarrow> assert_expected (cp_schemaVersion c) expected (''checkpoint for session '' @ k)) =
      Inr ()"
    using version session_entry_versions(2) [OF inv r] latest_checkpoint_member [of k d]
    by (auto simp: assert_expected_def assertSchemaVersionCompatible_def checkpoint_def
        split: option.split)
  have list: "sqlListJournalEntries k
      \<lparr>lo_afterSeq = Some (Finite (checkpoint_seq checkpoint)), lo_limit = None\<rparr> d = Inr journal"
    using seq(1) by (simp add: list_entries [OF inv] journal_def)
  have es: "assert_entries k expected journal = Inr ()"
    using version session_entry_versions(1) [OF inv r]
    by (auto simp: journal_def intro!: assert_entries_ok dest: in_set_dropD)
  have last: "(if journal = [] then checkpoint_seq checkpoint else jn_seq (last journal)) =
      int (length (entries_of k d))"
  proof (cases "journal = []")
    case True
    with seq show ?thesis by (simp add: journal_def)
  next
    case False
    then have ne: "entries_of k d \<noteq> []" by (auto simp: journal_def)
    have "last journal = last (entries_of k d)" using False by (simp add: journal_def last_drop)
    moreover have "jn_seq (last (entries_of k d)) = last (map jn_seq (entries_of k d))"
      using ne by (simp add: last_map)
    moreover have "last [1..int (length (entries_of k d))] = int (length (entries_of k d))"
      using ne by (subst upto_rec2) (simp_all add: Suc_le_eq flip: of_nat_Suc)
    ultimately show ?thesis using False tables_invD(3) [OF inv, of k] by simp
  qed
  show ?thesis
    unfolding recoverSessionState_def plain_recovery_def recover_options.simps r option.case
      checkpoint_def [symmetric] Let_def
    by (simp add: own cp list es last journal_def [symmetric] applyEvents_def)
qed

text \<open>
  The checkpoints of a session replay when each holds what the reducer gives for the entries it
  covers. The reference is the fold over the whole journal; a stored \<open>null\<close> would count as no
  state at all.
\<close>

definition replayed :: "reducer \<Rightarrow> jsval \<Rightarrow> string \<Rightarrow> tables \<Rightarrow> jsval" where
  "replayed f initial k d = foldl f initial (entries_of k d)"

definition checkpoints_replay :: "reducer \<Rightarrow> jsval \<Rightarrow> string \<Rightarrow> tables \<Rightarrow> bool" where
  "checkpoints_replay f initial k d \<longleftrightarrow>
     (\<forall>c \<in> set (checkpoints_of k d).
        cp_state c = foldl f initial (take (nat (cp_uptoSeq c)) (entries_of k d)) \<and>
        cp_state c \<noteq> JNull)"

lemma recover_replays:
  assumes "tables_inv d" and "sqlGetSession k d = Some r"
    and "expected = None \<or> expected = Some (ss_schemaVersion r)"
    and "checkpoints_replay f initial k d" and "initial \<noteq> JUndefined"
  shows "\<exists>res. recoverSessionState k (plain_recovery f initial expected) d = Inr res \<and>
               rr_state res = replayed f initial k d \<and>
               rr_lastAppliedSeq res = int (length (entries_of k d))"
proof (cases "sqlGetLatestCheckpoint k d")
  case None
  have "initial = JNull \<or> js_nullish (Some initial) = Some initial"
    using assms(5) by (simp add: js_nullish_def)
  then have "base_state None (Some initial) = initial" by (auto simp: base_state_def)
  with None show ?thesis
    by (simp add: recover_eq [OF assms(1,2,3)] Let_def replayed_def checkpoint_seq_def)
next
  case (Some c)
  then have c: "c \<in> set (checkpoints_of k d)" by (rule latest_checkpoint_member)
  note ok = checkpoint_bounds [OF assms(1) c]
  let ?n = "nat (cp_uptoSeq c)"
  have state: "cp_state c = foldl f initial (take ?n (entries_of k d))" "cp_state c \<noteq> JNull"
    using assms(4) c unfolding checkpoints_replay_def by blast+
  then have "base_state (Some c) (Some initial) = foldl f initial (take ?n (entries_of k d))"
    using ok(4) by (simp add: base_state_def)
  moreover have "foldl f (foldl f initial (take ?n (entries_of k d))) (drop ?n (entries_of k d)) =
      replayed f initial k d"
    unfolding replayed_def by (simp flip: foldl_append)
  ultimately show ?thesis
    using Some by (simp add: recover_eq [OF assms(1,2,3)] Let_def checkpoint_seq_def)
qed

text \<open>Appends keep the checkpoints replaying; so does a checkpoint of the replayed state.\<close>

lemma replay_grows:
  assumes "tables_inv d" and "checkpoints_replay f initial k d"
    and "prefix (entries_of k d) (entries_of k d')" and "checkpoints_of k d' = checkpoints_of k d"
  shows "checkpoints_replay f initial k d'"
proof -
  from assms(3) obtain es where es: "entries_of k d' = entries_of k d @ es" by (auto simp: prefix_def)
  show ?thesis
    using assms(2,4) checkpoint_bounds(1,2) [OF assms(1), of _ k]
    by (auto simp: checkpoints_replay_def es nat_le_iff)
qed

lemma replay_checkpoint:
  assumes "checkpoints_replay f initial k d" and "cp_sessionId c = k"
    and "cp_uptoSeq c = int (length (entries_of k d))" and "cp_state c = replayed f initial k d"
    and "replayed f initial k d \<noteq> JNull"
  shows "checkpoints_replay f initial k (insert_checkpoint c d)"
  using assms by (auto simp: checkpoints_replay_def store_simps replayed_def)

section \<open>Checkpoints at the end of the journal\<close>

lemma checkpoint_at_end:
  assumes cur: "current r (st_db s)" and inv: "tables_inv (st_db s)"
    and made: "checkpointsCreate r input s = (Inr c, s')"
    and upto: "ck_uptoSeq input = None"
  shows "cp_sessionId c = ss_id r" and "cp_state c = json_copy (ck_state input)"
    and "cp_uptoSeq c = int (length (entries_of (ss_id r) (st_db s)))"
    and "cp_metadata c = json_fields (nullish_else (ck_metadata input) [])"
    and "st_db s' = insert_checkpoint c (st_db s)"
    and "sqlGetLatestCheckpoint (ss_id r) (st_db s') = Some c"
    and "cp_uptoSeq c \<notin> cp_uptoSeq ` set (checkpoints_of (ss_id r) (st_db s))"
proof -
  from cur inv obtain u where u: "u = int (length (entries_of (ss_id r) (st_db s)))"
    and c: "c = next_checkpoint (ss_id r) u (json_copy (ck_state input))
      (nullish_else (ck_metadata input) [])
      (resolveSchemaVersion (nullish (ck_schemaVersion input) (Some (ss_schemaVersion r))))
      (nullish_else (ck_createdAtMs input) (store_time s)) (st_db s)"
    and db: "st_db s' = insert_checkpoint c (st_db s)"
    and new: "u \<notin> cp_uptoSeq ` set (checkpoints_of (ss_id r) (st_db s))"
    by (cases rule: checkpointsCreate_cases [where input = input])
      (auto simp: made upto latest_seq [OF inv])
  show "cp_sessionId c = ss_id r" "cp_state c = json_copy (ck_state input)"
    "cp_metadata c = json_fields (nullish_else (ck_metadata input) [])"
    and seq: "cp_uptoSeq c = int (length (entries_of (ss_id r) (st_db s)))"
    by (simp_all add: c u next_checkpoint_def)
  show "st_db s' = insert_checkpoint c (st_db s)" by (rule db)
  show "cp_uptoSeq c \<notin> cp_uptoSeq ` set (checkpoints_of (ss_id r) (st_db s))"
    using new by (simp add: seq u)
  have "cp_uptoSeq c' < cp_uptoSeq c" if "c' \<in> set (checkpoints_of (cp_sessionId c) (st_db s))" for c'
  proof -
    have "c' \<in> set (checkpoints_of (ss_id r) (st_db s))" using that by (simp add: c next_checkpoint_def)
    then show ?thesis
      using checkpoint_bounds(2) [OF inv, of c' "ss_id r"] new by (force simp: seq u)
  qed
  from latest_checkpoint_insert [OF this] show "sqlGetLatestCheckpoint (ss_id r) (st_db s') = Some c"
    by (simp add: db) (simp add: c next_checkpoint_def)
qed

lemma own_version:
  assumes "current r d" and "tables_inv d"
  shows "resolveSchemaVersion (Some (ss_schemaVersion r)) = ss_schemaVersion r"
proof -
  obtain r' where "sqlGetSession (ss_id r) d = Some r'" "ss_schemaVersion r' = ss_schemaVersion r"
    using assms(1) by (auto simp: current_def active_in_def)
  with sqlGetSession_Some tables_invD(2) [OF assms(2), of r'] show ?thesis
    by (metis session_ok_def)
qed

lemma self_compatible [simp]: "isSchemaVersionCompatible v v"
  by (simp add: isSchemaVersionCompatible_def)

lemma append_succeeds:
  assumes "current r (st_db s)" and "tables_inv (st_db s)" and "js_trim (ap_eventType input) \<noteq> []"
    and "ap_schemaVersion input = None" and "ap_payload input \<noteq> JUndefined"
  shows "journalAppend r input s =
    (Inr (appended_entry r input s),
     (if ap_createdAtMs input = None then store_tick s else s)
       \<lparr>st_db := insert_entry (appended_entry r input s) (st_db s)\<rparr>)"
  using assms own_version [OF assms(1,2)]
  by (simp add: journalAppend_eq append_version_def nullish_def Let_def)

lemma checkpoint_succeeds:
  assumes cur: "current r (st_db s)" and inv: "tables_inv (st_db s)"
    and input: "ck_uptoSeq input = None" "ck_schemaVersion input = None"
      "ck_state input \<noteq> JUndefined"
    and new: "int (length (entries_of (ss_id r) (st_db s))) \<notin>
      cp_uptoSeq ` set (checkpoints_of (ss_id r) (st_db s))"
  shows "\<exists>c s'. checkpointsCreate r input s = (Inr c, s')"
proof -
  have act: "ss_status r \<noteq> Archived" using cur by (simp add: current_def)
  have unique: "\<not> (\<exists>c \<in> set (tab_checkpoints (st_db s)). cp_sessionId c = ss_id r \<and>
      cp_uptoSeq c = int (length (entries_of (ss_id r) (st_db s))))"
    using new by (force simp: checkpoints_of_def)
  show ?thesis
    using act input unique current_member [OF cur] own_version [OF cur inv]
    by (simp add: checkpointsCreate_def latest_seq [OF inv] Let_def time_or_now_eq nullish_def
        assertSchemaVersionCompatible_def sqlInsertCheckpoint_def json_column_def)
qed

section \<open>Rewind\<close>

lemma rewind_target_member:
  assumes "rewind_target k ci d = Inr (Some t)"
  shows "t \<in> set (checkpoints_of k d)"
proof (cases ci)
  case None
  then obtain l ts where "take 2 (js_sort by_latest_checkpoint (checkpoints_of k d)) = l # t # ts"
    using assms
    by (auto simp: rewind_target_def sqlListCheckpoints_def check_limit_def sql_limit_def
        split: list.splits)
  then have "t \<in> set (take 2 (js_sort by_latest_checkpoint (checkpoints_of k d)))" by simp
  then have "t \<in> set (js_sort by_latest_checkpoint (checkpoints_of k d))" by (rule in_set_takeD)
  then show ?thesis by simp
next
  case (Some n)
  then show ?thesis
    using assms
    by (auto simp: rewind_target_def sqlGetCheckpoint_def Let_def find_Some_iff checkpoints_of_def
        split: option.splits if_splits)
qed

lemma rewind_to_outcome:
  assumes cur: "current r (st_db s)" and inv: "tables_inv (st_db s)" and k: "ss_id r = k"
    and t: "t \<in> set (checkpoints_of k (st_db s))"
  shows "\<exists>rw e c s'. rewind_to k r ci time t s = (Inr rw, s') \<and>
    rw_targetCheckpointId rw = cp_id t \<and> rw_currentCheckpointId rw = cp_id c \<and>
    jn_eventType e = ''control.rewind'' \<and> jn_turnId e = None \<and>
    entries_of k (st_db s') = entries_of k (st_db s) @ [e] \<and>
    checkpoints_of k (st_db s') = checkpoints_of k (st_db s) @ [c] \<and>
    cp_state c = cp_state t \<and> cp_uptoSeq c = int (length (entries_of k (st_db s))) + 1 \<and>
    sqlGetLatestCheckpoint k (st_db s') = Some c \<and>
    (\<exists>r'. sqlGetSession k (st_db s') = Some r' \<and> ss_status r' = Active)"
proof -
  define input where "input = \<lparr>ap_eventType = ''control.rewind'', ap_payload = rewind_payload ci t,
    ap_turnId = None, ap_schemaVersion = None, ap_createdAtMs = Some time\<rparr>"
  define e where "e = appended_entry r input s"
  define s1 where "s1 = s\<lparr>st_db := insert_entry e (st_db s)\<rparr>"
  define point where "point = \<lparr>ck_state = cp_state t, ck_uptoSeq = None, ck_schemaVersion = None,
    ck_createdAtMs = Some time, ck_metadata = Some (buildRewindCheckpointMetadata t time)\<rparr>"
  have trim: "js_trim ''control.rewind'' = ''control.rewind''" by (simp add: js_trim_def is_js_space_def)
  have app: "journalAppend r input s = (Inr e, s1)"
    unfolding e_def s1_def
    by (subst append_succeeds [OF cur inv]) (simp_all add: input_def trim rewind_payload_def)
  have e: "jn_sessionId e = k" "jn_eventType e = ''control.rewind''" "jn_turnId e = None"
    by (simp_all add: e_def input_def trim k)
  have inv1: "tables_inv (st_db s1)"
    using session_steps_inv [OF journalAppend_steps [OF cur inv, of input] inv] app by simp
  have cur1: "current r (st_db s1)" using cur by (simp add: s1_def)
  have entries: "entries_of k (st_db s1) = entries_of k (st_db s) @ [e]"
    and points: "checkpoints_of k (st_db s1) = checkpoints_of k (st_db s)"
    by (simp_all add: s1_def store_simps e)
  have new: "int (length (entries_of (ss_id r) (st_db s1))) \<notin>
      cp_uptoSeq ` set (checkpoints_of (ss_id r) (st_db s1))"
    using checkpoint_bounds(2) [OF inv, of _ k] by (force simp: k entries points)
  have json: "cp_state t \<noteq> JUndefined" "json_copy (cp_state t) = cp_state t"
    using checkpoint_bounds(3,4) [OF inv t] by (simp_all add: json_copy_id)
  obtain c s2 where made: "checkpointsCreate r point s1 = (Inr c, s2)"
    using checkpoint_succeeds [OF cur1 inv1 _ _ _ new, of point] json by (auto simp: point_def)
  have "ck_uptoSeq point = None" by (simp add: point_def)
  note made_c = checkpoint_at_end [OF cur1 inv1 made this, unfolded k]
  define s3 where "s3 = (case clearLatestTurnObservationMetadata (ss_metadata r) of
      None \<Rightarrow> s2 | Some metadata \<Rightarrow> snd (sqlUpdateSessionMetadata k metadata time s2))"
  have same: "entries_of k (st_db s3) = entries_of k (st_db s2)"
    "checkpoints_of k (st_db s3) = checkpoints_of k (st_db s2)"
    by (simp_all add: s3_def sqlUpdateSessionMetadata_def entries_of_def checkpoints_of_def Let_def
        store_simps split: option.split)
  have result: "rewind_to k r ci time t s =
      (Inr \<lparr>rw_requestedCheckpointId = ci, rw_targetCheckpointId = cp_id t,
            rw_targetUptoSeq = cp_uptoSeq t, rw_currentCheckpointId = cp_id c,
            rw_currentUptoSeq = cp_uptoSeq c,
            rw_latestTurnId = nullish_else (readCheckpointLatestTurnHint (Some (cp_metadata c))) None,
            rw_clearedLatestTurn = (clearLatestTurnObservationMetadata (ss_metadata r) \<noteq> None)\<rparr>, s3)"
    using app made
    by (simp add: rewind_to_def input_def [symmetric] point_def [symmetric] s3_def Let_def)
  have final: "entries_of k (st_db s3) = entries_of k (st_db s) @ [e]"
    "checkpoints_of k (st_db s3) = checkpoints_of k (st_db s) @ [c]"
    "sqlGetLatestCheckpoint k (st_db s3) = Some c"
    using made_c(1,5,6) same
    by (simp_all add: store_simps entries points sqlGetLatestCheckpoint_def)
  have c: "cp_state c = cp_state t" "cp_uptoSeq c = int (length (entries_of k (st_db s))) + 1"
    using made_c(2,3) json by (simp_all add: point_def entries)
  obtain r0 where "sqlGetSession k (st_db s) = Some r0" "ss_status r0 = Active"
    using cur by (auto simp: current_def active_in_def k)
  then have "\<exists>r'. sqlGetSession k (st_db s3) = Some r' \<and> ss_status r' = Active"
    by (auto simp: s3_def made_c(5) s1_def store_simps sqlUpdateSessionMetadata_def Let_def
        sqlGetSession_update split: option.split)
  with result final e c show ?thesis by auto
qed

lemma storeRewind_outcome:
  assumes "store_inv s" and r: "lifecycleRequireActive k (st_db s) = Inr r"
    and t: "rewind_target k ci (st_db s) = Inr (Some t)"
    and l: "sqlGetLatestCheckpoint k (st_db s) = Some l" "cp_id t \<noteq> cp_id l"
  shows "\<exists>rw e c s'. storeRewind k ci createdAt s = (Inr rw, s') \<and>
    rw_targetCheckpointId rw = cp_id t \<and> rw_currentCheckpointId rw = cp_id c \<and>
    jn_eventType e = ''control.rewind'' \<and> jn_turnId e = None \<and>
    entries_of k (st_db s') = entries_of k (st_db s) @ [e] \<and>
    checkpoints_of k (st_db s') = checkpoints_of k (st_db s) @ [c] \<and>
    cp_state c = cp_state t \<and> cp_uptoSeq c = int (length (entries_of k (st_db s))) + 1 \<and>
    sqlGetLatestCheckpoint k (st_db s') = Some c \<and>
    (\<exists>r'. lifecycleRequireActive k (st_db s') = Inr r')"
proof -
  define time where "time = fst (time_or_now createdAt s)"
  define s1 where "s1 = snd (time_or_now createdAt s)"
  have s1: "st_db s1 = st_db s" by (simp add: s1_def time_or_now_eq)
  have k: "ss_id r = k" "current r (st_db s1)"
    using r sqlGetSession_Some by (auto simp: lifecycleRequireActive_Inr s1 intro: currentI)
  have inv: "tables_inv (st_db s1)" using assms(1) by (simp add: s1 store_inv_def)
  have tm: "t \<in> set (checkpoints_of k (st_db s1))"
    using rewind_target_member [OF t] by (simp add: s1)
  obtain rw e c s' where to: "rewind_to k r ci time t s1 = (Inr rw, s')"
    and rest: "rw_targetCheckpointId rw = cp_id t" "rw_currentCheckpointId rw = cp_id c"
      "jn_eventType e = ''control.rewind''" "jn_turnId e = None"
      "entries_of k (st_db s') = entries_of k (st_db s1) @ [e]"
      "checkpoints_of k (st_db s') = checkpoints_of k (st_db s1) @ [c]"
      "cp_state c = cp_state t" "cp_uptoSeq c = int (length (entries_of k (st_db s1))) + 1"
      "sqlGetLatestCheckpoint k (st_db s') = Some c"
      "\<exists>r'. sqlGetSession k (st_db s') = Some r' \<and> ss_status r' = Active"
    using rewind_to_outcome [OF k(2) inv k(1) tm] by blast
  have "storeRewind k ci createdAt s = (Inr rw, s')"
    using r l t to
    by (simp add: storeRewind_def with_active_def transaction_def rewind_operation_def
        case_prod_unfold time_def [symmetric] s1_def [symmetric] s1)
  moreover have "\<exists>r'. lifecycleRequireActive k (st_db s') = Inr r'"
    using rest(10) r by (auto simp: lifecycleRequireActive_Inr)
  ultimately show ?thesis using rest s1 by auto
qed

text \<open>The default target is the checkpoint before the latest, so a second default rewind comes back.\<close>

lemma default_target:
  assumes "js_sort by_latest_checkpoint (checkpoints_of k d) = l # t # cs"
  shows "rewind_target k None d = Inr (Some t)" and "sqlGetLatestCheckpoint k d = Some l"
  using assms
  by (simp_all add: rewind_target_def sqlListCheckpoints_def check_limit_def sql_limit_def
      sqlGetLatestCheckpoint_def Let_def)

lemma checkpoint_ids:
  assumes "tables_inv d"
  shows "distinct (map cp_id (checkpoints_of k d))"
proof -
  have "distinct (map cp_id (tab_checkpoints d))"
    using tables_invD(7) [OF assms] by (simp add: strict_sorted_iff)
  then show ?thesis unfolding checkpoints_of_def by (rule distinct_map_filter)
qed

lemma storeRewind_twice:
  assumes inv: "store_inv s" and act: "lifecycleRequireActive k (st_db s) = Inr r"
    and two: "js_sort by_latest_checkpoint (checkpoints_of k (st_db s)) = l # t # cs"
  shows "\<exists>rw s1 rw' s2. storeRewind k None a s = (Inr rw, s1) \<and> storeRewind k None b s1 = (Inr rw', s2) \<and>
    rw_targetCheckpointId rw = cp_id t \<and> rw_targetCheckpointId rw' = cp_id l \<and>
    map_option cp_state (sqlGetLatestCheckpoint k (st_db s1)) = Some (cp_state t) \<and>
    map_option cp_state (sqlGetLatestCheckpoint k (st_db s2)) = Some (cp_state l)"
proof -
  have tab: "tables_inv (st_db s)" using inv by (simp add: store_inv_def)
  have "distinct (map cp_id (js_sort by_latest_checkpoint (checkpoints_of k (st_db s))))"
    using checkpoint_ids [OF tab, of k] by simp
  then have "cp_id t \<noteq> cp_id l" by (auto simp: two)
  from storeRewind_outcome [OF inv act default_target [OF two] this, of a]
  obtain rw e c s1 r1 where one: "storeRewind k None a s = (Inr rw, s1)"
    "rw_targetCheckpointId rw = cp_id t"
    "checkpoints_of k (st_db s1) = checkpoints_of k (st_db s) @ [c]" "cp_state c = cp_state t"
    "cp_uptoSeq c = int (length (entries_of k (st_db s))) + 1"
    "sqlGetLatestCheckpoint k (st_db s1) = Some c" "lifecycleRequireActive k (st_db s1) = Inr r1"
    by blast
  have inv1: "store_inv s1" using exec_store_inv [OF inv, of "CmdRewind k None a"] one(1) by simp
  have "cp_uptoSeq c' < cp_uptoSeq c" if "c' \<in> set (checkpoints_of k (st_db s))" for c'
    using checkpoint_bounds(2) [OF tab that] one(5) by simp
  from sort_latest_checkpoint [OF this] have
    two1: "js_sort by_latest_checkpoint (checkpoints_of k (st_db s1)) = c # l # t # cs"
    by (simp add: one(3) two)
  have "distinct (map cp_id (js_sort by_latest_checkpoint (checkpoints_of k (st_db s1))))"
    using checkpoint_ids [of "st_db s1" k] inv1 by (simp add: store_inv_def)
  then have "cp_id l \<noteq> cp_id c" by (auto simp: two1)
  from storeRewind_outcome [OF inv1 one(7) default_target [OF two1] this, of b] one show ?thesis
    by auto
qed

end
