(* ===== verification/Session_Turn_Laws.thy ===== *)
theory Session_Turn_Laws
  imports Session_Laws
begin

text \<open>
  Laws of turns and of deletion: where a turn resumes after a step was journaled, which turn the
  store calls the latest, what deletion returns and removes, and the shape of stored values.
\<close>

section \<open>Resuming a turn\<close>

lemma appendStep_Inr:
  assumes cur: "current r (st_db s)" and inv: "tables_inv (st_db s)"
    and app: "journalAppendStep r input s = (Inr e, s')" and json: "is_json (sj_payload input)"
  shows "\<exists>i. integer_of (sj_stepIndex input) = Some i \<and> js_trim (sj_turnId input) \<noteq> [] \<and>
    jn_turnId e = Some (js_trim (sj_turnId input)) \<and> jn_sessionId e = ss_id r \<and>
    toStepJournalEntry e =
      Some \<lparr>sy_eventType = sj_eventType input, sy_entry = e, sy_stepIndex = i,
            sy_payload = sj_payload input\<rparr> \<and>
    st_db s' = insert_entry e (st_db s)"
proof -
  obtain i where i: "check_step (sj_turnId input) (sj_stepIndex input) =
      Inr (js_trim (sj_turnId input), i)" "integer_of (sj_stepIndex input) = Some i" "0 \<le> i"
      "js_trim (sj_turnId input) \<noteq> []"
    using app by (auto simp: journalAppendStep_def check_step_def Let_def
        split: sum.splits option.splits if_splits)
  define a where "a = \<lparr>ap_eventType = step_event_str (sj_eventType input),
             ap_payload = step_payload i (sj_payload input),
             ap_turnId = Some (js_trim (sj_turnId input)),
             ap_schemaVersion = sj_schemaVersion input, ap_createdAtMs = sj_createdAtMs input\<rparr>"
  have "journalAppend r a s = (Inr e, s')"
    using app i(1) by (simp add: journalAppendStep_def a_def)
  note ok = journalAppend_Inr [OF cur inv this]
  have trim: "js_trim (step_event_str ev) = step_event_str ev" for ev
    by (cases ev) (simp_all add: js_trim_def is_js_space_def)
  have "toStepJournalEntry e = Some \<lparr>sy_eventType = sj_eventType input, sy_entry = e,
      sy_stepIndex = i, sy_payload = sj_payload input\<rparr>"
    using step_payload_roundtrip [OF i(3) json]
    by (simp add: toStepJournalEntry_def ok(1) a_def trim)
  with i ok show ?thesis by (simp add: a_def)
qed

lemma recoverStep_eq:
  assumes "tables_inv d" and "sqlGetSession k d = Some r"
    and "expected = None \<or> expected = Some (ss_schemaVersion r)"
    and "js_trim turnId \<noteq> []"
    and "stepJournal = List.map_filter toStepJournalEntry
      (filter (\<lambda>e. jn_turnId e = Some (js_trim turnId))
        (drop (nat (checkpoint_seq (sqlGetLatestCheckpoint k d))) (entries_of k d)))"
    and "stepJournal \<noteq> []"
  shows "\<exists>v. recoverStepState k turnId (plain_recovery f initial expected) d = Inr v \<and>
    sv_turnId v = js_trim turnId \<and> sv_stepJournal v = stepJournal \<and>
    sv_lastStepEvent v = Some (last stepJournal) \<and>
    sv_nextStepIndex v = nextStepIndexFromProgress (sy_stepIndex (last stepJournal))
      (sy_eventType (last stepJournal)) \<and>
    sv_resumeAction v = resumeActionFromProgress (sy_eventType (last stepJournal)) \<and>
    sv_replay v = buildStepReplay stepJournal"
  using assms(4,6)
  by (simp add: recoverStepState_def recover_eq [OF assms(1-3)] Let_def last_opt_def
      assms(5) [symmetric])

lemma map_filter_snoc:
  "List.map_filter f (xs @ [x]) = List.map_filter f xs @ (case f x of None \<Rightarrow> [] | Some y \<Rightarrow> [y])"
  by (induction xs) (auto simp: map_filter_simps split: option.split)

lemma step_resumes:
  assumes inv: "store_inv s" and app: "storeAppendStepJournal k input s = (Inr e, s')"
    and json: "is_json (sj_payload input)"
    and r: "sqlGetSession k (st_db s) = Some r"
    and version: "expected = None \<or> expected = Some (ss_schemaVersion r)"
  shows "\<exists>v i. storeRecoverStep k (sj_turnId input) (plain_recovery f initial expected) s' = Inr v \<and>
    integer_of (sj_stepIndex input) = Some i \<and>
    sv_lastStepEvent v = Some \<lparr>sy_eventType = sj_eventType input, sy_entry = e, sy_stepIndex = i,
                               sy_payload = sj_payload input\<rparr> \<and>
    sv_resumeAction v = resumeActionFromProgress (sj_eventType input) \<and>
    sv_nextStepIndex v = nextStepIndexFromProgress i (sj_eventType input) \<and>
    last (sv_stepJournal v) = the (sv_lastStepEvent v)"
proof -
  have tab: "tables_inv (st_db s)" using inv by (simp add: store_inv_def)
  have act: "lifecycleRequireActive k (st_db s) = Inr r"
    using app r by (auto simp: storeAppendStepJournal_def with_active_def lifecycleRequireActive_Inr
        split: sum.splits)
  have k: "ss_id r = k" "current r (st_db s)"
    using act sqlGetSession_Some currentI by (auto simp: lifecycleRequireActive_Inr)
  have "journalAppendStep r input s = (Inr e, s')"
    using app act by (auto simp: storeAppendStepJournal_def with_active_def transaction_def
        split: prod.splits sum.splits)
  from appendStep_Inr [OF k(2) tab this json] obtain i where
    i: "integer_of (sj_stepIndex input) = Some i" "js_trim (sj_turnId input) \<noteq> []"
      "jn_turnId e = Some (js_trim (sj_turnId input))" "jn_sessionId e = k"
    and step: "toStepJournalEntry e = Some \<lparr>sy_eventType = sj_eventType input, sy_entry = e,
      sy_stepIndex = i, sy_payload = sj_payload input\<rparr>"
    and db: "st_db s' = insert_entry e (st_db s)"
    using k by auto
  define n where "n = nat (checkpoint_seq (sqlGetLatestCheckpoint k (st_db s)))"
  have same: "sqlGetLatestCheckpoint k (st_db s') = sqlGetLatestCheckpoint k (st_db s)"
    by (simp add: sqlGetLatestCheckpoint_def db store_simps)
  have "n \<le> length (entries_of k (st_db s))"
    using checkpoint_bounds(2) [OF tab latest_checkpoint_member, of k]
    by (auto simp: n_def checkpoint_seq_def nullish_else_def nat_le_iff split: option.split)
  then have "drop n (entries_of k (st_db s')) = drop n (entries_of k (st_db s)) @ [e]"
    by (simp add: db store_simps i(4))
  then have steps: "List.map_filter toStepJournalEntry
      (filter (\<lambda>e. jn_turnId e = Some (js_trim (sj_turnId input)))
        (drop (nat (checkpoint_seq (sqlGetLatestCheckpoint k (st_db s')))) (entries_of k (st_db s')))) =
     List.map_filter toStepJournalEntry
      (filter (\<lambda>e. jn_turnId e = Some (js_trim (sj_turnId input))) (drop n (entries_of k (st_db s)))) @
     [\<lparr>sy_eventType = sj_eventType input, sy_entry = e, sy_stepIndex = i,
       sy_payload = sj_payload input\<rparr>]"
    by (simp add: same n_def [symmetric] map_filter_snoc step i(3))
  have inv': "tables_inv (st_db s')"
    using exec_store_inv [OF inv, of "CmdAppendStep k input"] app by (simp add: store_inv_def)
  have r': "sqlGetSession k (st_db s') =
      Some (r\<lparr>ss_updatedAtMs := max (ss_updatedAtMs r) (jn_createdAtMs e)\<rparr>)"
    by (simp add: db store_simps i(4) r)
  have "expected = None \<or> expected =
      Some (ss_schemaVersion (r\<lparr>ss_updatedAtMs := max (ss_updatedAtMs r) (jn_createdAtMs e)\<rparr>))"
    using version by simp
  from recoverStep_eq [OF inv' r' this i(2) steps [symmetric], of f initial]
  obtain v where "recoverStepState k (sj_turnId input) (plain_recovery f initial expected) (st_db s') =
      Inr v"
    "sv_lastStepEvent v = Some \<lparr>sy_eventType = sj_eventType input, sy_entry = e, sy_stepIndex = i,
                                sy_payload = sj_payload input\<rparr>"
    "sv_resumeAction v = resumeActionFromProgress (sj_eventType input)"
    "sv_nextStepIndex v = nextStepIndexFromProgress i (sj_eventType input)"
    "last (sv_stepJournal v) = \<lparr>sy_eventType = sj_eventType input, sy_entry = e, sy_stepIndex = i,
                                sy_payload = sj_payload input\<rparr>"
    by auto
  then show ?thesis
    by (intro exI [of _ v] exI [of _ i]) (simp add: storeRecoverStep_def i(1))
qed

section \<open>The latest turn\<close>

lemma hint_of_step_checkpoint:
  assumes "js_trim turnId \<noteq> []" and "0 \<le> stepIndex"
  shows "readCheckpointLatestTurnHint (Some (json_fields (step_metadata turnId stepIndex ev))) =
           Some (Some turnId)"
  using assms
  by (cases ev) (simp_all add: readCheckpointLatestTurnHint_def storeStepCheckpointMetadata_def
      step_metadata_def non_blank_def)

text \<open>The hint of the latest checkpoint wins over whatever was journaled after it.\<close>

lemma latest_turn_of_hint:
  assumes "lifecycleRequire k (st_db s) = Inr r" and "sqlGetLatestCheckpoint k (st_db s) = Some c"
    and "readCheckpointLatestTurnHint (Some (cp_metadata c)) = Some hint"
  shows "storeGetLatestTurnId k s = Inr hint"
  using assms by (simp add: storeGetLatestTurnId_def)

lemma append_keeps_hint:
  assumes inv: "store_inv s" and app: "storeAppendJournal k input s = (Inr e, s')"
    and c: "sqlGetLatestCheckpoint k (st_db s) = Some c"
    and hint: "readCheckpointLatestTurnHint (Some (cp_metadata c)) = Some hint"
  shows "storeGetLatestTurnId k s' = Inr hint" and "jn_turnId e = ap_turnId input"
proof -
  obtain r where r: "lifecycleRequireActive k (st_db s) = Inr r" "journalAppend r input s = (Inr e, s')"
    using app by (auto simp: storeAppendJournal_eq [OF inv] split: sum.splits)
  then have k: "isSessionId k" "sqlGetSession k (st_db s) = Some r" "ss_id r = k"
      "current r (st_db s)"
    using sqlGetSession_Some currentI by (auto simp: lifecycleRequireActive_Inr)
  note ok = journalAppend_Inr [OF k(4) _ r(2)]
  have inv': "tables_inv (st_db s)" using inv by (simp add: store_inv_def)
  have "lifecycleRequire k (st_db s') =
      Inr (r\<lparr>ss_updatedAtMs := max (ss_updatedAtMs r) (jn_createdAtMs e)\<rparr>)"
    using k by (simp add: lifecycleRequire_Inr ok [OF inv'] store_simps)
  moreover have "sqlGetLatestCheckpoint k (st_db s') = Some c"
    using c by (simp add: sqlGetLatestCheckpoint_def ok [OF inv'] store_simps)
  ultimately show "storeGetLatestTurnId k s' = Inr hint"
    using hint by (rule latest_turn_of_hint)
  show "jn_turnId e = ap_turnId input" using ok(1) [OF inv'] by simp
qed

section \<open>Deletion\<close>

lemma whole_transcript_of:
  assumes inv: "tables_inv (st_db s)" and r: "lifecycleRequire k (st_db s) = Inr r"
  shows "\<exists>transcript. storeBuildDurableTranscript k whole_transcript s = Inr transcript \<and>
    dt_entries transcript = map toDurableTranscriptEntry (entries_of k (st_db s)) \<and>
    dt_session transcript = r"
proof -
  obtain turn where "storeGetLatestTurnId k s = Inr turn"
    using r that
    by (cases "readCheckpointLatestTurnHint (map_option cp_metadata (sqlGetLatestCheckpoint k (st_db s)))")
      (auto simp: storeGetLatestTurnId_def)
  moreover have "filter (wanted 0 None []) (entries_of k (st_db s)) = entries_of k (st_db s)"
  proof (rule filter_True, rule ballI)
    fix e assume "e \<in> set (entries_of k (st_db s))"
    then have "jn_seq e \<in> set (map jn_seq (entries_of k (st_db s)))" by simp
    then show "wanted 0 None [] e"
      unfolding tables_invD(3) [OF inv] by (simp add: wanted_def of_turn_def)
  qed
  ultimately show ?thesis
    using r list_entries(2) [OF inv, of k]
    by (simp add: storeBuildDurableTranscript_def journalList_def buildDurableTranscript_def
        check_afterSeq_def check_limit_def normalizeOptionalNonEmptyText_def normalizeEventTypes_def
        transcript_loop_all Let_def)
qed

lemma filter_updated:
  "(\<And>r. ss_id (f r) = ss_id r) \<Longrightarrow>
   filter (\<lambda>r. ss_id r \<noteq> k) (map (\<lambda>r. if ss_id r = k then f r else r) rs) =
     filter (\<lambda>r. ss_id r \<noteq> k) rs"
  by (induction rs) auto

lemma remove_updated:
  "(\<And>r. ss_id (f r) = ss_id r) \<Longrightarrow> remove_session k (update_session k f d) = remove_session k d"
  unfolding remove_session_def update_session_def by (simp add: filter_updated [of f])

lemma remove_archived:
  "remove_session k (set_archived k reason t d) = remove_session k d"
  unfolding set_archived_def by (rule remove_updated) simp

lemma remove_other:
  assumes "k' \<noteq> k"
  shows "sqlGetSession k' (remove_session k d) = sqlGetSession k' d \<and>
         entries_of k' (remove_session k d) = entries_of k' d \<and>
         checkpoints_of k' (remove_session k d) = checkpoints_of k' d"
  using assms by (simp add: store_simps)

lemma delete_outcome:
  assumes inv: "store_inv s" and root: "clean_root s" and r: "lifecycleRequire k (st_db s) = Inr r"
  shows "\<exists>archived transcript s'. storeDeleteSession k reason s = (Inr (archived, transcript), s') \<and>
    ss_id archived = k \<and> ss_status archived = Archived \<and>
    dt_entries transcript = map toDurableTranscriptEntry (entries_of k (st_db s)) \<and>
    st_db s' = remove_session k (st_db s) \<and>
    st_files s' = filter (\<lambda>(path, content). \<not> prefix (artifact_dir k s) path) (st_files s)"
proof -
  have k: "isSessionId k" "sqlGetSession k (st_db s) = Some r" "ss_id r = k"
    using r sqlGetSession_Some by (auto simp: lifecycleRequire_Inr)
  obtain transcript where script: "storeBuildDurableTranscript k whole_transcript s = Inr transcript"
    "dt_entries transcript = map toDurableTranscriptEntry (entries_of k (st_db s))"
    using whole_transcript_of [OF _ r] inv by (auto simp: store_inv_def)
  obtain archived s1 where arch: "archiveArchive r reason s = (Inr archived, s1)"
    "ss_id archived = k" "ss_status archived = Archived"
    "remove_session k (st_db s1) = remove_session k (st_db s)"
    "sqlGetSession k (st_db s1) \<noteq> None"
    using k(2,3)
    by (cases "ss_status r = Archived")
      (auto simp: archiveArchive_eq [OF k(2)] remove_archived store_simps)
  have disk: "artifact_dir k s1 = artifact_dir k s" "clean_root s1" "st_files s1 = st_files s"
    using disk_archive [of r reason s] arch(1) root
    by (simp_all add: disk_def artifact_dir_def clean_root_def)
  have "storeDeleteSession k reason s = (Inr (archived, transcript),
      s1\<lparr>st_files := filter (\<lambda>(path, content). \<not> prefix (artifact_dir k s) path) (st_files s),
         st_db := remove_session k (st_db s1)\<rparr>)"
    using r script(1) arch(1) sqlGetSession_None [of k "st_db s1"] arch(5)
    by (simp add: storeDeleteSession_def transaction_def delete_operation_def
        deleteSessionArtifacts_eq [OF disk(2) k(1)] sqlDeleteSession_eq disk)
  with script(2) arch show ?thesis by simp
qed

section \<open>What a frozen session answers\<close>

lemma frozen_reads:
  assumes "frozen k d d'"
  shows "sqlGetSession k d' = sqlGetSession k d"
    and "sqlListJournalEntries k options d' = sqlListJournalEntries k options d"
    and "sqlListCheckpoints k limit d' = sqlListCheckpoints k limit d"
    and "sqlGetLatestCheckpoint k d' = sqlGetLatestCheckpoint k d"
proof -
  from assms have same: "sqlGetSession k d' = sqlGetSession k d" "entries_of k d' = entries_of k d"
    "checkpoints_of k d' = checkpoints_of k d"
    by (simp_all add: frozen_def)
  show "sqlGetSession k d' = sqlGetSession k d" by (rule same)
  show "sqlListJournalEntries k options d' = sqlListJournalEntries k options d"
    unfolding sqlListJournalEntries_def same by (rule refl)
  show "sqlListCheckpoints k limit d' = sqlListCheckpoints k limit d"
    unfolding sqlListCheckpoints_def same by (rule refl)
  show "sqlGetLatestCheckpoint k d' = sqlGetLatestCheckpoint k d"
    unfolding sqlGetLatestCheckpoint_def same by (rule refl)
qed

lemma frozen_answers:
  assumes "frozen k (st_db s) (st_db s')"
  shows "storeGetSession k s' = storeGetSession k s \<and>
    journalList k options (st_db s') = journalList k options (st_db s) \<and>
    storeListCheckpoints k limit s' = storeListCheckpoints k limit s \<and>
    storeRecover k recovery s' = storeRecover k recovery s"
  unfolding storeGetSession_def lifecycleGet_def journalList_def storeListCheckpoints_def
    lifecycleRequire_def storeRecover_def recoverSessionState_def frozen_reads [OF assms]
  by simp

section \<open>The types of the rows\<close>

definition row_of_session :: "tables \<Rightarrow> string \<Rightarrow> string \<Rightarrow> bool" where
  "row_of_session d k v \<longleftrightarrow>
     (case sqlGetSession k d of
        None \<Rightarrow> False | Some r \<Rightarrow> isSchemaVersionCompatible v (ss_schemaVersion r))"

lemma rows_typed:
  assumes "tables_inv d"
  shows "list_all (\<lambda>r. isSessionId (ss_id r) \<and> json_fields (ss_metadata r) = ss_metadata r \<and>
           (ss_status r = Archived \<longleftrightarrow> ss_archivedAtMs r \<noteq> None)) (tab_sessions d) \<and>
         list_all (\<lambda>e. json_column (jn_payload e) = Some (jn_payload e) \<and>
           row_of_session d (jn_sessionId e) (jn_schemaVersion e)) (tab_journal d) \<and>
         list_all (\<lambda>c. json_column (cp_state c) = Some (cp_state c) \<and>
           json_fields (cp_metadata c) = cp_metadata c \<and>
           row_of_session d (cp_sessionId c) (cp_schemaVersion c)) (tab_checkpoints d)"
proof -
  have "isSessionId (ss_id r) \<and> json_fields (ss_metadata r) = ss_metadata r \<and>
      (ss_status r = Archived \<longleftrightarrow> ss_archivedAtMs r \<noteq> None)" if "r \<in> set (tab_sessions d)" for r
    using tables_invD(2) [OF assms that] by (simp add: session_ok_def json_fields_id)
  moreover have "json_column (jn_payload e) = Some (jn_payload e) \<and>
      row_of_session d (jn_sessionId e) (jn_schemaVersion e)" if "e \<in> set (tab_journal d)" for e
    using tables_invD(5) [OF assms that]
    by (auto simp: entry_ok_def row_of_session_def json_column_id)
  moreover have "json_column (cp_state c) = Some (cp_state c) \<and>
      json_fields (cp_metadata c) = cp_metadata c \<and>
      row_of_session d (cp_sessionId c) (cp_schemaVersion c)" if "c \<in> set (tab_checkpoints d)" for c
    using tables_invD(8) [OF assms that]
    by (auto simp: checkpoint_ok_def row_of_session_def json_column_id json_fields_id)
  ultimately show ?thesis unfolding list_all_iff by blast
qed

section \<open>Appending\<close>

lemma list_same_entries:
  "entries_of k d' = entries_of k d \<Longrightarrow>
   sqlListJournalEntries k options d' = sqlListJournalEntries k options d"
  unfolding sqlListJournalEntries_def by (erule ssubst) (rule refl)

lemma append_effect:
  assumes inv: "store_inv s" and act: "lifecycleRequireActive k (st_db s) = Inr r"
    and es: "journalList k no_options (st_db s) = Inr es"
  shows "case storeAppendJournal k input s of
      (Inl _, s') \<Rightarrow>
        (js_trim (ap_eventType input) = [] \<or>
         \<not> isSchemaVersionCompatible (append_version r input) (ss_schemaVersion r) \<or>
         ap_payload input = JUndefined) \<and> st_db s' = st_db s
    | (Inr e, s') \<Rightarrow>
        \<not> (js_trim (ap_eventType input) = [] \<or>
          \<not> isSchemaVersionCompatible (append_version r input) (ss_schemaVersion r) \<or>
          ap_payload input = JUndefined) \<and>
        journalList k no_options (st_db s') = Inr (es @ [e]) \<and>
        jn_seq e = int (length es) + 1 \<and> jn_eventType e = js_trim (ap_eventType input) \<and>
        jn_turnId e = ap_turnId input \<and> jn_payload e = json_copy (ap_payload input) \<and>
        (k' \<noteq> k \<longrightarrow> journalList k' options (st_db s') = journalList k' options (st_db s))"
proof -
  have tab: "tables_inv (st_db s)" using inv by (simp add: store_inv_def)
  have r: "ss_id r = k" "current r (st_db s)"
    using act sqlGetSession_Some currentI by (auto simp: lifecycleRequireActive_Inr)
  have eq: "storeAppendJournal k input s = journalAppend r input s"
    using act by (simp add: storeAppendJournal_eq [OF inv])
  define e where "e = appended_entry r input s"
  have entries: "entries_of k (st_db s) = es"
    using es by (simp add: journalList_def list_entries [OF tab])
  have e: "jn_sessionId e = k" "jn_seq e = int (length es) + 1"
    by (simp_all add: e_def r appended_entry_def next_entry_def next_seq [OF tab] entries)
  have list: "journalList k no_options (st_db s') = Inr (es @ [e])"
    if "tables_inv (st_db s')" "st_db s' = insert_entry e (st_db s)" for s'
    unfolding journalList_def list_entries(2) [OF that(1)] by (simp add: that(2) store_simps e entries)
  have other: "journalList k' options (insert_entry e (st_db s)) = journalList k' options (st_db s)"
    if "k' \<noteq> k"
    unfolding journalList_def using that e(1) by (intro list_same_entries) (simp add: store_simps)
  show ?thesis
  proof (cases "storeAppendJournal k input s")
    case (Pair res s')
    have inv': "tables_inv (st_db s')"
      using exec_store_inv [OF inv, of "CmdAppend k input"] Pair by (simp add: store_inv_def)
    show ?thesis
      using Pair list [OF inv'] other e(2)
      by (auto simp: eq journalAppend_eq [OF r(2) tab] Let_def e_def [symmetric] split: if_splits)
        (simp_all add: e_def)
  qed
qed

end
