(* ===== verification/Task_Replay.thy ===== *)
theory Task_Replay
  imports Task_Board_Invariant
begin

text \<open>
  The journal of a board against its state. Replaying what the board wrote
  (\<open>projectTaskOperationsFromJournal\<close>) gives the state the board has, up to the time and task
  of notifications: a board refreshes a pending notification without journaling it when
  recipient and summary did not change. The outbox needs ids that do not repeat, which the
  default id factory gives when the clock never returns the same reading twice.
\<close>

section \<open>Agreement of a replayed and a live state\<close>

definition same_notice :: "notification_record \<Rightarrow> notification_record \<Rightarrow> bool" where
  "same_notice n m \<longleftrightarrow> m = n\<lparr>nr_taskId := nr_taskId m, nr_updatedAtMs := nr_updatedAtMs m\<rparr>"

lemma same_notice_refl [simp]: "same_notice n n"
  by (simp add: same_notice_def)

lemma same_notice_iff:
  "same_notice n m \<longleftrightarrow>
     nr_id m = nr_id n \<and> nr_kind m = nr_kind n \<and> nr_recipientKind m = nr_recipientKind n \<and>
     nr_recipientId m = nr_recipientId n \<and> nr_status m = nr_status n \<and>
     nr_summary m = nr_summary n \<and> nr_delegationId m = nr_delegationId n \<and>
     nr_verificationId m = nr_verificationId n \<and> nr_createdAtMs m = nr_createdAtMs n \<and>
     nr_acknowledgedAtMs m = nr_acknowledgedAtMs n"
  by (cases n; cases m) (auto simp: same_notice_def)

definition agrees :: "task_operations_state \<Rightarrow> task_operations_state \<Rightarrow> bool" where
  "agrees s t \<longleftrightarrow>
     materialized s \<and> materialized t \<and>
     os_schemaVersion s = os_schemaVersion t \<and> os_todos s = os_todos t \<and>
     os_delegation s = os_delegation t \<and> os_verification s = os_verification t \<and>
     os_proposalQueue s = os_proposalQueue t \<and> os_proposalOutbox s = os_proposalOutbox t \<and>
     os_lifecycle s = os_lifecycle t \<and> os_updatedAtMs s = os_updatedAtMs t \<and>
     list_all2 same_notice (notifications_of s) (notifications_of t)"

lemma agrees_refl [simp]: "materialized s \<Longrightarrow> agrees s s"
  by (simp add: agrees_def list.rel_refl)

lemma agrees_materializeI:
  assumes "os_schemaVersion s = os_schemaVersion t" "os_todos s = os_todos t"
    and "os_delegation s = os_delegation t" "os_verification s = os_verification t"
    and "os_proposalQueue s = os_proposalQueue t" "os_proposalOutbox s = os_proposalOutbox t"
    and "os_updatedAtMs s = os_updatedAtMs t"
    and "list_all2 same_notice (notifications_of s) (notifications_of t)"
  shows "agrees (materializeTaskOperationsState s) (materializeTaskOperationsState t)"
  using assms deriveTaskLifecycle_cong [of s t] by (simp add: agrees_def)

section \<open>Replaying one entry\<close>

lemma apply_todo_write:
  "materialized s \<Longrightarrow>
   applyTaskJournalEntry (OperationsSeed s) (mk_entry (TodoWrite todos) t) =
     Inr (materializeTaskOperationsState
       (s\<lparr>os_todos := todos,
          os_updatedAtMs := Some (nullish_else (ts_updatedAtMs todos) t)\<rparr>))"
  by (simp add: applyTaskJournalEntry_def clone_simps cloneTaskOperationsState_def mk_entry_def
      je_payload_def)

lemma apply_delegation:
  "materialized s \<Longrightarrow>
   applyTaskJournalEntry (OperationsSeed s) (mk_entry (DelegationUpserted p) t) =
     Inr (materializeTaskOperationsState
       (s\<lparr>os_delegation := replaceRecordById dr_id (os_delegation s) (dp_record p),
          os_updatedAtMs := Some (dp_updatedAtMs p)\<rparr>))"
  "materialized s \<Longrightarrow>
   applyTaskJournalEntry (OperationsSeed s) (mk_entry (DelegationStatusSet q) t) =
     Inr (materializeTaskOperationsState
       (s\<lparr>os_delegation := replaceRecordById dr_id (os_delegation s) (dp_record q),
          os_updatedAtMs := Some (dp_updatedAtMs q)\<rparr>))"
  by (simp_all add: applyTaskJournalEntry_def clone_simps cloneTaskOperationsState_def)

lemma apply_verification:
  "materialized s \<Longrightarrow>
   applyTaskJournalEntry (OperationsSeed s) (mk_entry (VerificationUpserted p) t) =
     Inr (materializeTaskOperationsState
       (s\<lparr>os_verification := replaceRecordById vr_id (os_verification s) (vp_record p),
          os_updatedAtMs := Some (vp_updatedAtMs p)\<rparr>))"
  by (simp add: applyTaskJournalEntry_def clone_simps cloneTaskOperationsState_def)

lemma apply_notification:
  "materialized s \<Longrightarrow>
   applyTaskJournalEntry (OperationsSeed s) (emitted_entry n t) =
     Inr (materializeTaskOperationsState
       (s\<lparr>os_notifications := Some (replaceRecordById nr_id (notifications_of s) n),
          os_updatedAtMs := Some t\<rparr>))"
  "materialized s \<Longrightarrow>
   applyTaskJournalEntry (OperationsSeed s) (status_entry e r t) =
     Inr (materializeTaskOperationsState
       (s\<lparr>os_notifications :=
            Some (replaceRecordById nr_id (notifications_of s) (acknowledged_notice t e)),
          os_updatedAtMs := Some t\<rparr>))"
  by (simp_all add: applyTaskJournalEntry_def clone_simps cloneTaskOperationsState_def
      emitted_entry_def status_entry_def)

lemma apply_enqueued:
  "materialized s \<Longrightarrow> pr_id (pp_proposal p) \<notin> pr_id ` set (os_proposalQueue s) \<Longrightarrow>
   applyTaskJournalEntry (OperationsSeed s) (mk_entry (ProposalEnqueuedEvent p) t) =
     Inr (materializeTaskOperationsState
       (store_proposal (os_proposalQueue s @ [pp_proposal p]) (pp_outboxEntry p)
         (pp_updatedAtMs p) s))"
  by (simp add: applyTaskJournalEntry_def clone_simps cloneTaskOperationsState_def
      bex_ident_image store_proposal_def)

lemma apply_transitioned:
  "materialized s \<Longrightarrow>
   find_by_id pr_id (os_proposalQueue s) (pr_id (pp_proposal p)) = Some current \<Longrightarrow>
   canTransitionProposalStatus (pr_status current) (pr_status (pp_proposal p)) \<Longrightarrow>
   applyTaskJournalEntry (OperationsSeed s) (mk_entry (ProposalTransitioned p) t) =
     Inr (materializeTaskOperationsState
       (store_proposal (replaceRecordById pr_id (os_proposalQueue s) (pp_proposal p))
         (pp_outboxEntry p) (pp_updatedAtMs p) s))"
  by (simp add: applyTaskJournalEntry_def clone_simps cloneTaskOperationsState_def
      store_proposal_def)

lemma apply_drained:
  "materialized s \<Longrightarrow>
   applyTaskJournalEntry (OperationsSeed s) (mk_entry (ProposalOutboxDrained p) t) =
     Inr (materializeTaskOperationsState
       (s\<lparr>os_proposalOutbox :=
            filter (\<lambda>item. oe_id item \<notin> set (od_drainedIds p)) (os_proposalOutbox s),
          os_updatedAtMs := Some (nullish_else (od_updatedAtMs p) (od_drainedAtMs p))\<rparr>))"
  by (simp add: applyTaskJournalEntry_def clone_simps cloneTaskOperationsState_def)

section \<open>Replaying notification updates\<close>

definition replayed_notes ::
  "bool \<Rightarrow> (notification_record option \<Rightarrow> notification_record) \<Rightarrow> string \<Rightarrow>
   notification_record list \<Rightarrow> int \<Rightarrow> notification_record list \<Rightarrow> notification_record list" where
  "replayed_notes op notice k ns t ns' =
     (let existing = find_by_id nr_id ns k
      in if op
         then (if same_pending_notice existing (notice existing) then ns'
               else replaceRecordById nr_id ns' (notice existing))
         else (case existing of
                 None \<Rightarrow> ns'
               | Some e \<Rightarrow>
                   if nr_status e = NAcknowledged then ns'
                   else replaceRecordById nr_id ns' (acknowledged_notice t e)))"

lemma project_notice_events:
  assumes "os_updatedAtMs s = Some t"
  shows "project_from (materializeTaskOperationsState s) (snd (update_notice op f k r ns t)) =
     Inr (materializeTaskOperationsState
       (s\<lparr>os_notifications := Some (replayed_notes op f k ns t (notifications_of s))\<rparr>))"
proof -
  have "s\<lparr>os_updatedAtMs := Some t\<rparr> = s" using assms by (cases s) simp
  moreover have "materializeTaskOperationsState ((materializeTaskOperationsState s)
        \<lparr>os_notifications := Some x, os_updatedAtMs := Some t\<rparr>) =
      materializeTaskOperationsState (s\<lparr>os_notifications := Some x\<rparr>)" for x
    by (rule materialized_eqI) (simp_all add: assms)
  moreover have "materializeTaskOperationsState (s\<lparr>os_notifications := Some (notifications_of s)\<rparr>) =
      materializeTaskOperationsState s"
    by (rule materialized_eqI) (simp_all add: notifications_of_def)
  ultimately show ?thesis
    by (auto simp: update_notice_def replayed_notes_def Let_def apply_notification
        split: option.splits)
qed

lemma same_notice_ids: "list_all2 same_notice ns' ns \<Longrightarrow> map nr_id ns' = map nr_id ns"
  by (induction rule: list_all2_induct) (auto simp: same_notice_iff)

lemma replace_same:
  assumes "list_all2 same_notice ns' ns" and "same_notice n' n"
  shows "list_all2 same_notice (replaceRecordById nr_id ns' n') (replaceRecordById nr_id ns n)"
proof -
  have id: "nr_id n' = nr_id n" using assms(2) by (simp add: same_notice_iff)
  have eq: "nr_id ` set ns' = nr_id ` set ns"
    using same_notice_ids [OF assms(1)] by (metis list.set_map)
  have "list_all2 same_notice
      (map (\<lambda>e. if nr_id e = nr_id n then n' else e) ns')
      (map (\<lambda>e. if nr_id e = nr_id n then n else e) ns)"
    using assms by (induction rule: list_all2_induct) (auto simp: same_notice_iff)
  with assms id eq show ?thesis
    by (simp add: replaceRecordById_def bex_ident_image list_all2_appendI)
qed

lemma refresh_same:
  assumes "list_all2 same_notice ns' ns" and "find_by_id nr_id ns (nr_id n) = Some e"
    and "same_notice e n" and "distinct (map nr_id ns)"
  shows "list_all2 same_notice ns' (replaceRecordById nr_id ns n)"
proof -
  have e: "e \<in> set ns" "nr_id e = nr_id n"
    using assms(2) notifications.get_Some by blast+
  have "list_all2 same_notice ns' (map (\<lambda>x. if nr_id x = nr_id n then n else x) ns)"
    unfolding list_all2_conv_all_nth
  proof (intro conjI allI impI)
    show "length ns' = length (map (\<lambda>x. if nr_id x = nr_id n then n else x) ns)"
      using assms(1) by (simp add: list_all2_lengthD)
  next
    fix i assume "i < length ns'"
    then have i: "i < length ns" "same_notice (ns' ! i) (ns ! i)"
      using assms(1) by (auto simp: list_all2_conv_all_nth)
    have "ns ! i = e" if "nr_id (ns ! i) = nr_id n"
    proof -
      have "find_by_id nr_id ns (nr_id (ns ! i)) = Some (ns ! i)"
        using assms(4) i(1) by (intro notifications.get_member) simp_all
      with that assms(2) show ?thesis by simp
    qed
    with i assms(3) show "same_notice (ns' ! i)
        (map (\<lambda>x. if nr_id x = nr_id n then n else x) ns ! i)"
      by (auto simp: same_notice_iff)
  qed
  moreover have "replaceRecordById nr_id ns n = map (\<lambda>x. if nr_id x = nr_id n then n else x) ns"
    using e by (auto simp: replaceRecordById_def)
  ultimately show ?thesis by simp
qed

lemma replayed_notes_same:
  assumes same: "list_all2 same_notice ns' ns" and dist: "distinct (map nr_id ns)"
    and ok: "\<And>n. n \<in> set ns \<Longrightarrow> notice_ok n"
    and f: "\<And>e. nr_id (f e) = k"
    and refresh: "\<And>e. notice_ok e \<Longrightarrow> nr_id e = k \<Longrightarrow> same_pending_notice (Some e) (f (Some e)) \<Longrightarrow>
                    same_notice e (f (Some e))"
  shows "list_all2 same_notice (replayed_notes op f k ns t ns') (fst (update_notice op f k r ns t))"
proof (cases "op \<and> same_pending_notice (find_by_id nr_id ns k) (f (find_by_id nr_id ns k))")
  case True
  then obtain e where e: "find_by_id nr_id ns k = Some e"
    by (auto simp: same_pending_notice_def split: option.splits)
  have "same_notice e (f (Some e))"
    using notifications.get_Some [OF e] True e by (intro refresh ok) auto
  with refresh_same [OF same, of "f (Some e)" e] e f dist True show ?thesis
    by (simp add: replayed_notes_def update_notice_def)
next
  case False
  with same replace_same [OF same same_notice_refl] show ?thesis
    by (auto simp: replayed_notes_def update_notice_def Let_def split: option.splits)
qed

lemma delegation_refresh:
  "notice_ok e \<Longrightarrow> nr_id e = buildDelegationNotificationId (dr_id d) \<Longrightarrow>
   same_pending_notice (Some e) (delegation_notice (Some e) d t) \<Longrightarrow>
   same_notice e (delegation_notice (Some e) d t)"
  by (auto simp: notice_ok_def same_notice_iff delegation_notice_def same_pending_notice_def
      split: option.splits)

lemma verification_refresh:
  "notice_ok e \<Longrightarrow> nr_id e = buildVerificationNotificationId (vr_id v) \<Longrightarrow>
   same_pending_notice (Some e) (verification_notice (Some e) v t) \<Longrightarrow>
   same_notice e (verification_notice (Some e) v t)"
  by (auto simp: notice_ok_def same_notice_iff verification_notice_def same_pending_notice_def
      split: option.splits)

section \<open>Outbox ids\<close>

text \<open>An id of the default factory ends in the time it was made at, which it therefore determines.\<close>

lemma suffix_after_unique:
  assumes "xs @ c # us = ys @ c # vs" and "c \<notin> set us" and "c \<notin> set vs"
  shows "us = vs"
proof -
  have cut: "takeWhile (\<lambda>z. z \<noteq> c) (rev (as @ c # bs)) = rev bs" if "c \<notin> set bs" for as bs
    using that by (simp add: takeWhile_append)
  have "rev us = rev vs"
    using cut [OF assms(2), of xs] cut [OF assms(3), of ys] assms(1) by simp
  then show ?thesis by simp
qed

lemma show_nat_no_underscore: "CHR ''_'' \<notin> set (show_nat n)"
proof (induction n rule: show_nat.induct)
  case (1 n)
  have digit: "m < 10 \<Longrightarrow> CHR ''_'' \<noteq> char_of (48 + m :: nat)" for m
  proof
    assume "m < 10" "CHR ''_'' = char_of (48 + m)"
    then have "(of_char (CHR ''_'') :: nat) = 48 + m" by simp
    with \<open>m < 10\<close> show False by simp
  qed
  show ?case
  proof (cases "n < 10")
    case True
    then show ?thesis using digit by (simp add: show_nat_small)
  next
    case False
    then show ?thesis using 1 digit [of "n mod 10"] by (simp add: show_nat_large)
  qed
qed

lemma show_nat_no_minus: "CHR ''-'' \<notin> set (show_nat n)"
proof (induction n rule: show_nat.induct)
  case (1 n)
  have digit: "m < 10 \<Longrightarrow> CHR ''-'' \<noteq> char_of (48 + m :: nat)" for m
  proof
    assume "m < 10" "CHR ''-'' = char_of (48 + m)"
    then have "(of_char (CHR ''-'') :: nat) = 48 + m" by simp
    with \<open>m < 10\<close> show False by simp
  qed
  show ?case
  proof (cases "n < 10")
    case True
    then show ?thesis using digit by (simp add: show_nat_small)
  next
    case False
    then show ?thesis using 1 digit [of "n mod 10"] by (simp add: show_nat_large)
  qed
qed

lemma js_show_no_underscore: "CHR ''_'' \<notin> set (js_show i)"
  by (simp add: js_show_def show_nat_no_underscore)

lemma js_show_inject: "js_show i = js_show j \<Longrightarrow> i = j"
proof -
  assume eq: "js_show i = js_show j"
  have "i < 0 \<longleftrightarrow> j < 0"
  proof (rule ccontr)
    assume "\<not> (i < 0 \<longleftrightarrow> j < 0)"
    with eq have "\<exists>k l. CHR ''-'' # show_nat k = show_nat l"
      by (auto simp: js_show_def split: if_splits) metis+
    then show False using show_nat_no_minus by (metis list.set_intros(1))
  qed
  with eq show "i = j"
    by (auto simp: js_show_def split: if_splits dest!: show_nat_inject)
qed

lemma stamped_unique: "p @ ''_'' @ js_show i = q @ ''_'' @ js_show j \<Longrightarrow> i = j"
  by (rule js_show_inject, rule suffix_after_unique [of p "CHR ''_''" _ q])
    (simp_all add: js_show_no_underscore)

lemma default_id_stamped:
  "\<exists>p. defaultOutboxEntryIdFactory request = p @ ''_'' @ js_show (oq_createdAtMs request)"
  unfolding defaultOutboxEntryIdFactory_def
  by (rule exI [where x = "''outbox_''
      @ replace_runs is_id_char False (outbox_event_type_str (oq_eventType request)) @ ''_''
      @ replace_runs is_id_char False (oq_proposalId request) @ ''_''
      @ replace_runs is_id_char False (proposal_status_str (oq_status request))"]) simp

text \<open>No outbox id is stamped with a reading that the clock can still give.\<close>

definition fresh_outbox :: "board \<Rightarrow> bool" where
  "fresh_outbox b \<longleftrightarrow>
     distinct (map oe_id (os_proposalOutbox (tb_state b))) \<and>
     (\<forall>e \<in> set (os_proposalOutbox (tb_state b)). \<forall>n \<ge> tb_ticks b. \<forall>p.
        oe_id e \<noteq> p @ ''_'' @ js_show (tb_clock b n))"

definition journal_inv :: "board \<Rightarrow> bool" where
  "journal_inv b \<longleftrightarrow>
     board_inv b \<and> tb_outboxId b = defaultOutboxEntryIdFactory \<and> inj (tb_clock b) \<and>
     fresh_outbox b"

lemma fresh_outbox_frame:
  "fresh_outbox b \<Longrightarrow> os_proposalOutbox (tb_state b') = os_proposalOutbox (tb_state b) \<Longrightarrow>
   tb_clock b' = tb_clock b \<Longrightarrow> tb_ticks b \<le> tb_ticks b' \<Longrightarrow> fresh_outbox b'"
  by (auto simp: fresh_outbox_def)

lemma fresh_outbox_drop:
  "fresh_outbox b \<Longrightarrow> os_proposalOutbox (tb_state b') = drop n (os_proposalOutbox (tb_state b)) \<Longrightarrow>
   tb_clock b' = tb_clock b \<Longrightarrow> tb_ticks b \<le> tb_ticks b' \<Longrightarrow> fresh_outbox b'"
  by (auto simp: fresh_outbox_def drop_map [symmetric] dest: in_set_dropD)

lemma createOutboxEntry_stamped:
  assumes "journal_inv b"
  shows "oe_id (createOutboxEntry e k s (board_now b) b)
           \<notin> oe_id ` set (os_proposalOutbox (tb_state b)) \<and>
         (\<exists>p. oe_id (createOutboxEntry e k s (board_now b) b) = p @ ''_'' @ js_show (board_now b))"
proof -
  let ?request = "\<lparr>oq_eventType = e, oq_proposalId = k, oq_status = s,
      oq_createdAtMs = board_now b,
      oq_existingEntryIds = map oe_id (os_proposalOutbox (tb_state b))\<rparr>"
  obtain p where p: "defaultOutboxEntryIdFactory ?request = p @ ''_'' @ js_show (board_now b)"
    using default_id_stamped [of ?request] by auto
  have new: "oe_id x \<noteq> defaultOutboxEntryIdFactory ?request"
    if "x \<in> set (os_proposalOutbox (tb_state b))" for x
  proof -
    have "oe_id x \<noteq> p @ ''_'' @ js_show (tb_clock b (tb_ticks b))"
      using assms that unfolding journal_inv_def fresh_outbox_def by blast
    then show ?thesis unfolding p unfolding board_now_def .
  qed
  then have "oe_id (createOutboxEntry e k s (board_now b) b) = defaultOutboxEntryIdFactory ?request"
    using assms by (auto simp: createOutboxEntry_def buildStableOutboxEntryId_def journal_inv_def)
  with new p show ?thesis by (metis imageE)
qed

lemma fresh_outbox_append:
  assumes "journal_inv b"
    and "os_proposalOutbox (tb_state b') =
           os_proposalOutbox (tb_state b) @ [createOutboxEntry e k s (board_now b) b]"
    and "tb_clock b' = tb_clock b" and "tb_ticks b' = Suc (tb_ticks b)"
  shows "fresh_outbox b'"
proof -
  let ?new = "createOutboxEntry e k s (board_now b) b"
  obtain p where new: "oe_id ?new \<notin> oe_id ` set (os_proposalOutbox (tb_state b))"
    and p: "oe_id ?new = p @ ''_'' @ js_show (board_now b)"
    using createOutboxEntry_stamped [OF assms(1)] by blast
  have inj: "inj (tb_clock b)" and old: "fresh_outbox b"
    using assms(1) by (simp_all add: journal_inv_def)
  have "oe_id ?new \<noteq> q @ ''_'' @ js_show (tb_clock b n)" if "n \<ge> Suc (tb_ticks b)" for q n
  proof
    assume "oe_id ?new = q @ ''_'' @ js_show (tb_clock b n)"
    then have "board_now b = tb_clock b n"
      using stamped_unique p by metis
    with inj have "tb_ticks b = n" by (simp add: board_now_def inj_eq)
    with that show False by simp
  qed
  with old new show ?thesis
    by (auto simp: fresh_outbox_def assms(2-4))
qed

section \<open>Replaying the operations\<close>

definition replays :: "board \<Rightarrow> board \<Rightarrow> task_journal_entry list \<Rightarrow> bool" where
  "replays b b' new \<longleftrightarrow>
     tb_journal b' = tb_journal b @ new \<and>
     (\<forall>s. agrees s (tb_state b) \<longrightarrow>
        (\<exists>s'. project_from s new = Inr s' \<and> agrees s' (tb_state b')))"

lemma replays_refl [simp]: "replays b b []"
  by (simp add: replays_def)

lemma replays_tick [simp]: "replays b (tick b) []"
  by (simp add: replays_def)

lemma replays_trans:
  assumes "replays b b1 es" and "replays b1 b2 fs"
  shows "replays b b2 (es @ fs)"
  unfolding replays_def
proof (intro conjI allI impI)
  show "tb_journal b2 = tb_journal b @ es @ fs"
    using assms by (simp add: replays_def)
next
  fix s assume "agrees s (tb_state b)"
  then obtain s1 where "project_from s es = Inr s1" "agrees s1 (tb_state b1)"
    using assms(1) by (auto simp: replays_def)
  moreover then obtain s2 where "project_from s1 fs = Inr s2" "agrees s2 (tb_state b2)"
    using assms(2) by (auto simp: replays_def)
  ultimately show "\<exists>s'. project_from s (es @ fs) = Inr s' \<and> agrees s' (tb_state b2)"
    by (simp add: project_from_append)
qed

lemma replays_commit:
  assumes "\<And>s'. agrees s' (tb_state b) \<Longrightarrow>
    \<exists>t. project_from s' es = Inr (materializeTaskOperationsState t) \<and>
        agrees (materializeTaskOperationsState t) (materializeTaskOperationsState s)"
  shows "replays b (commit s es b) es"
  using assms by (force simp: replays_def)

lemma agreesD:
  assumes "agrees s t"
  shows "materialized s" "materialized t" "os_schemaVersion s = os_schemaVersion t"
    "os_todos s = os_todos t" "os_delegation s = os_delegation t"
    "os_verification s = os_verification t" "os_proposalQueue s = os_proposalQueue t"
    "os_proposalOutbox s = os_proposalOutbox t"
    "list_all2 same_notice (notifications_of s) (notifications_of t)"
  using assms by (simp_all add: agrees_def)

lemma writeTodos_replays: "\<exists>new. replays b (snd (writeTodos items b)) new"
proof -
  have "replays b (snd (writeTodos items b))
      [mk_entry (TodoWrite (written_todos items b)) (board_now b)]"
    unfolding writeTodos_eq snd_conv
  proof (rule replays_commit)
    fix s' assume "agrees s' (tb_state b)"
    note A = agreesD [OF this]
    show "\<exists>t. project_from s' [mk_entry (TodoWrite (written_todos items b)) (board_now b)] =
          Inr (materializeTaskOperationsState t) \<and>
        agrees (materializeTaskOperationsState t) (materializeTaskOperationsState
          ((tb_state b)\<lparr>os_todos := written_todos items b, os_updatedAtMs := Some (board_now b)\<rparr>))"
      using A
      by (intro exI [where x = "s'\<lparr>os_todos := written_todos items b,
            os_updatedAtMs := Some (board_now b)\<rparr>"])
        (auto simp: apply_todo_write written_todos_def notifications_of_def
          intro!: agrees_materializeI)
  qed
  then show ?thesis by blast
qed

lemma store_delegation_replays:
  assumes inv: "board_inv b"
    and entry: "\<And>s. materialized s \<Longrightarrow>
      applyTaskJournalEntry (OperationsSeed s) entry =
        Inr (materializeTaskOperationsState
          (s\<lparr>os_delegation := replaceRecordById dr_id (os_delegation s) d,
             os_updatedAtMs := Some (board_now b)\<rparr>))"
  shows "replays b
     (commit (store_delegation d (fst (delegation_update d r b)) (board_now b) (tb_state b))
       (entry # snd (delegation_update d r b)) b)
     (entry # snd (delegation_update d r b))"
proof (rule replays_commit)
  fix s' assume "agrees s' (tb_state b)"
  note A = agreesD [OF this]
  let ?s = "s'\<lparr>os_delegation := replaceRecordById dr_id (os_delegation s') d,
               os_updatedAtMs := Some (board_now b)\<rparr>"
  let ?notice = "\<lambda>existing. delegation_notice existing d (board_now b)"
  let ?notes = "replayed_notes (dr_status d = DQueued) ?notice
      (buildDelegationNotificationId (dr_id d)) (notifications_of (tb_state b)) (board_now b)
      (notifications_of s')"
  have same: "list_all2 same_notice ?notes (fst (delegation_update d r b))"
    unfolding delegation_update_def
    using inv by (intro replayed_notes_same A(9) delegation_refresh)
      (auto simp: board_inv_def state_inv_def unique_ids_def)
  have "project_from s' (entry # snd (delegation_update d r b)) =
      Inr (materializeTaskOperationsState (?s\<lparr>os_notifications := Some ?notes\<rparr>))"
    unfolding delegation_update_def
    using entry [OF A(1)] by (simp add: project_notice_events notifications_of_def)
  moreover have "agrees (materializeTaskOperationsState (?s\<lparr>os_notifications := Some ?notes\<rparr>))
      (materializeTaskOperationsState
        (store_delegation d (fst (delegation_update d r b)) (board_now b) (tb_state b)))"
    by (rule agrees_materializeI) (simp_all add: A same [unfolded notifications_of_def] notifications_of_def)
  ultimately show "\<exists>t. project_from s' (entry # snd (delegation_update d r b)) =
        Inr (materializeTaskOperationsState t) \<and>
      agrees (materializeTaskOperationsState t) (materializeTaskOperationsState
        (store_delegation d (fst (delegation_update d r b)) (board_now b) (tb_state b)))"
    by blast
qed

lemma upsertDelegation_replays:
  assumes "board_inv b"
  shows "\<exists>new. replays b (snd (upsertDelegation input b)) new"
proof (cases "buildDelegationRecord input
    (find_by_id dr_id (os_delegation (tb_state b)) (di_id input)) (board_now b)")
  case (Inl e)
  then show ?thesis using replays_tick by (metis snd_conv upsertDelegation_throws)
next
  case (Inr d)
  show ?thesis
    unfolding upsertDelegation_ok [OF Inr] snd_conv
    by (rule exI, rule store_delegation_replays [OF assms]) (simp add: apply_delegation)
qed

lemma setDelegationStatus_replays:
  assumes "board_inv b"
  shows "\<exists>new. replays b (snd (setDelegationStatus input b)) new"
proof (cases "find_by_id dr_id (os_delegation (tb_state b)) (du_id input)")
  case None
  then have "snd (setDelegationStatus input b) = b" by (simp add: setDelegationStatus_def)
  then show ?thesis using replays_refl by metis
next
  case (Some current)
  have wf: "wf_delegation current" using assms Some by (rule board_inv_wf_delegation)
  show ?thesis
    unfolding setDelegationStatus_ok [OF Some wf] snd_conv
    by (rule exI, rule store_delegation_replays [OF assms]) (simp add: apply_delegation)
qed

lemma upsertVerification_replays:
  assumes inv: "board_inv b"
  shows "\<exists>new. replays b (snd (upsertVerification input b)) new"
proof -
  define v where "v = next_verification input b"
  define entry where "entry = mk_entry (VerificationUpserted \<lparr>vp_record = v,
      vp_updatedAtMs = board_now b, vp_opId = None, vp_actor = None\<rparr>) (board_now b)"
  have "replays b
     (commit (store_verification v (fst (verification_update v b)) (board_now b) (tb_state b))
       (entry # snd (verification_update v b)) b)
     (entry # snd (verification_update v b))"
  proof (rule replays_commit)
    fix s' assume "agrees s' (tb_state b)"
    note A = agreesD [OF this]
    let ?s = "s'\<lparr>os_verification := replaceRecordById vr_id (os_verification s') v,
                 os_updatedAtMs := Some (board_now b)\<rparr>"
    let ?notice = "\<lambda>existing. verification_notice existing v (board_now b)"
    let ?notes = "replayed_notes (vr_status v = VPending) ?notice
        (buildVerificationNotificationId (vr_id v)) (notifications_of (tb_state b)) (board_now b)
        (notifications_of s')"
    have same: "list_all2 same_notice ?notes (fst (verification_update v b))"
      unfolding verification_update_def
      using inv by (intro replayed_notes_same A(9) verification_refresh)
        (auto simp: board_inv_def state_inv_def unique_ids_def)
    have "project_from s' (entry # snd (verification_update v b)) =
        Inr (materializeTaskOperationsState (?s\<lparr>os_notifications := Some ?notes\<rparr>))"
      unfolding verification_update_def entry_def
      by (simp add: apply_verification [OF A(1)] project_notice_events notifications_of_def)
    moreover have "agrees (materializeTaskOperationsState (?s\<lparr>os_notifications := Some ?notes\<rparr>))
        (materializeTaskOperationsState
          (store_verification v (fst (verification_update v b)) (board_now b) (tb_state b)))"
      by (rule agrees_materializeI) (simp_all add: A same [unfolded notifications_of_def] notifications_of_def)
    ultimately show "\<exists>t. project_from s' (entry # snd (verification_update v b)) =
          Inr (materializeTaskOperationsState t) \<and>
        agrees (materializeTaskOperationsState t) (materializeTaskOperationsState
          (store_verification v (fst (verification_update v b)) (board_now b) (tb_state b)))"
      by blast
  qed
  then show ?thesis
    unfolding upsertVerification_eq snd_conv v_def [symmetric] entry_def by blast
qed

lemma store_proposal_agrees:
  "agrees s t \<Longrightarrow>
   agrees (materializeTaskOperationsState (store_proposal queue entry u s))
     (materializeTaskOperationsState (store_proposal queue entry u t))"
  by (rule agrees_materializeI) (simp_all add: agreesD [of s t])

lemma enqueueProposal_replays: "\<exists>new. replays b (snd (enqueueProposal input b)) new"
proof (cases "pi_id input \<in> pr_id ` set (os_proposalQueue (tb_state b))")
  case True
  then show ?thesis using replays_refl by (metis enqueueProposal_duplicate snd_conv)
next
  case False
  have id: "pr_id (buildProposalRecord input t) = pi_id input" for t
    by (simp add: buildProposalRecord_def)
  show ?thesis
    unfolding enqueueProposal_ok [OF False] snd_conv
  proof (rule exI, rule replays_commit)
    fix s' assume s': "agrees s' (tb_state b)"
    note A = agreesD [OF this]
    show "\<exists>t. project_from s' [mk_entry (ProposalEnqueuedEvent
           \<lparr>pp_proposal = buildProposalRecord input (board_now b),
            pp_outboxEntry = enqueued_entry input b, pp_updatedAtMs = board_now b,
            pp_opId = None, pp_actor = None\<rparr>) (board_now b)] =
          Inr (materializeTaskOperationsState t) \<and>
        agrees (materializeTaskOperationsState t) (materializeTaskOperationsState
          (store_proposal (os_proposalQueue (tb_state b) @ [buildProposalRecord input (board_now b)])
            (enqueued_entry input b) (board_now b) (tb_state b)))"
      using store_proposal_agrees [OF s'] False A by (auto simp: apply_enqueued id)
  qed
qed

lemma transitionProposal_replays:
  "\<exists>new. replays b (snd (transitionProposal input b)) new"
proof (cases "find_by_id pr_id (os_proposalQueue (tb_state b)) (pt_proposalId input)")
  case None
  then have "snd (transitionProposal input b) = b" by (simp add: transitionProposal_def)
  then show ?thesis using replays_refl by metis
next
  case (Some p)
  consider "\<not> canTransitionProposalStatus (pr_status p) (pt_status input)"
    | "pr_status p = pt_status input"
    | "canTransitionProposalStatus (pr_status p) (pt_status input)" "pr_status p \<noteq> pt_status input"
    by blast
  then show ?thesis
  proof cases
    case 1
    then show ?thesis using replays_refl by (metis transitionProposal_invalid [OF Some] snd_conv)
  next
    case 2
    then show ?thesis using replays_refl by (metis transitionProposal_same [OF Some] snd_conv)
  next
    case 3
    let ?p = "transitioned input p (board_now b)"
    have id: "pr_id p = pt_proposalId input" using proposals.get_Some [OF Some] by simp
    show ?thesis
      unfolding transitionProposal_ok [OF Some 3] snd_conv
    proof (rule exI, rule replays_commit)
      fix s' assume s': "agrees s' (tb_state b)"
      note A = agreesD [OF this]
      show "\<exists>t. project_from s' [mk_entry (ProposalTransitioned
             \<lparr>pp_proposal = ?p, pp_outboxEntry = transition_entry input b,
              pp_updatedAtMs = board_now b, pp_opId = None, pp_actor = None,
              pp_fromStatus = Some (pr_status p), pp_toStatus = Some (pt_status input)\<rparr>)
             (board_now b)] =
            Inr (materializeTaskOperationsState t) \<and>
          agrees (materializeTaskOperationsState t) (materializeTaskOperationsState
            (store_proposal (replaceRecordById pr_id (os_proposalQueue (tb_state b)) ?p)
              (transition_entry input b) (board_now b) (tb_state b)))"
        using store_proposal_agrees [OF s'] Some 3 A by (auto simp: apply_transitioned id)
    qed
  qed
qed

lemma applyProposal_replays: "\<exists>new. replays b (snd (applyProposal k b)) new"
proof (cases k b rule: applyProposal_cases)
  case (applied items)
  obtain es where "replays b (snd (writeTodos items b)) es"
    using writeTodos_replays by blast
  moreover obtain fs where "replays (snd (writeTodos items b)) (snd (applyProposal k b)) fs"
    unfolding applied using transitionProposal_replays by blast
  ultimately show ?thesis using replays_trans by blast
next
  case rejected
  then show ?thesis using replays_refl by metis
qed

lemma filter_taken_ids:
  "distinct (map f xs) \<Longrightarrow> filter (\<lambda>x. f x \<notin> set (map f (take n xs))) xs = drop n xs"
proof -
  assume d: "distinct (map f xs)"
  have split: "xs = take n xs @ drop n xs" by simp
  have "f x \<notin> f ` set (take n xs)" if "x \<in> set (drop n xs)" for x
    using d that by (subst (asm) split, subst (asm) map_append) auto
  then have "filter (\<lambda>x. f x \<notin> f ` set (take n xs)) (drop n xs) = drop n xs"
    by (simp add: filter_id_conv)
  moreover have "filter (\<lambda>x. f x \<notin> f ` set (take n xs)) (take n xs) = []"
    by (simp add: filter_empty_conv)
  ultimately show ?thesis
    by (metis append_Nil append_take_drop_id filter_append list.set_map)
qed

lemma drainProposalOutbox_replays:
  assumes "fresh_outbox b"
  shows "\<exists>new. replays b (snd (drainProposalOutbox limit b)) new"
proof -
  define n where "n = nullish_else limit (int (length (os_proposalOutbox (tb_state b))))"
  have distinct: "distinct (map oe_id (os_proposalOutbox (tb_state b)))"
    using assms by (simp add: fresh_outbox_def)
  show ?thesis
  proof (cases "n \<le> 0 \<or> os_proposalOutbox (tb_state b) = []")
    case True
    then show ?thesis using replays_refl by (metis drainProposalOutbox_none [OF n_def] snd_conv)
  next
    case False
    then have n: "0 < n" "os_proposalOutbox (tb_state b) \<noteq> []" by simp_all
    show ?thesis
      unfolding drainProposalOutbox_ok [OF n_def n] snd_conv
    proof (rule exI, rule replays_commit)
      fix s' assume s': "agrees s' (tb_state b)"
      note A = agreesD [OF this]
      let ?drained = "mk_entry (ProposalOutboxDrained
           \<lparr>od_drainedIds = map oe_id (drained_outbox n b), od_drainedAtMs = board_now b,
            od_drained = None, od_updatedAtMs = Some (board_now b), od_drainBatchId = None,
            od_opId = None, od_actor = None\<rparr>) (board_now b)"
      let ?rest = "drop (nat n) (os_proposalOutbox (tb_state b))"
      have "project_from s' [?drained] =
          Inr (materializeTaskOperationsState
            (s'\<lparr>os_proposalOutbox := ?rest, os_updatedAtMs := Some (board_now b)\<rparr>))"
        using filter_taken_ids [OF distinct]
        by (simp add: apply_drained [OF A(1)] A(8) drained_outbox_def)
      moreover have "agrees
          (materializeTaskOperationsState
            (s'\<lparr>os_proposalOutbox := ?rest, os_updatedAtMs := Some (board_now b)\<rparr>))
          (materializeTaskOperationsState
            ((tb_state b)\<lparr>os_proposalOutbox := ?rest, os_updatedAtMs := Some (board_now b)\<rparr>))"
        using A by (intro agrees_materializeI) (simp_all add: notifications_of_def)
      ultimately show "\<exists>t. project_from s' [?drained] = Inr (materializeTaskOperationsState t) \<and>
          agrees (materializeTaskOperationsState t) (materializeTaskOperationsState
            ((tb_state b)\<lparr>os_proposalOutbox := ?rest, os_updatedAtMs := Some (board_now b)\<rparr>))"
        by blast
    qed
  qed
qed

section \<open>The journal invariant\<close>

text \<open>What an operation may do to the parts of the board that the outbox ids depend on.\<close>

definition outbox_step :: "board \<Rightarrow> board \<Rightarrow> bool" where
  "outbox_step b b' \<longleftrightarrow>
     tb_outboxId b' = tb_outboxId b \<and> tb_clock b' = tb_clock b \<and>
     (journal_inv b \<longrightarrow> fresh_outbox b')"

lemma outbox_step_frame:
  "os_proposalOutbox (tb_state b') = os_proposalOutbox (tb_state b) \<Longrightarrow> tb_clock b' = tb_clock b \<Longrightarrow>
   tb_outboxId b' = tb_outboxId b \<Longrightarrow> tb_ticks b \<le> tb_ticks b' \<Longrightarrow> outbox_step b b'"
  by (auto simp: outbox_step_def journal_inv_def intro: fresh_outbox_frame)

lemma outbox_step_refl [simp]: "outbox_step b b"
  by (simp add: outbox_step_frame)

lemma writeTodos_outbox: "outbox_step b (snd (writeTodos items b))"
  by (rule outbox_step_frame) (simp_all add: writeTodos_eq)

lemma upsertDelegation_outbox: "outbox_step b (snd (upsertDelegation input b))"
  by (cases "buildDelegationRecord input
        (find_by_id dr_id (os_delegation (tb_state b)) (di_id input)) (board_now b)")
    (auto simp: upsertDelegation_throws upsertDelegation_ok intro: outbox_step_frame)

lemma setDelegationStatus_outbox:
  assumes "board_inv b"
  shows "outbox_step b (snd (setDelegationStatus input b))"
proof (cases "find_by_id dr_id (os_delegation (tb_state b)) (du_id input)")
  case None
  then show ?thesis by (simp add: setDelegationStatus_def)
next
  case (Some current)
  show ?thesis
    unfolding setDelegationStatus_ok [OF Some board_inv_wf_delegation [OF assms Some]] snd_conv
    by (rule outbox_step_frame) simp_all
qed

lemma upsertVerification_outbox: "outbox_step b (snd (upsertVerification input b))"
  by (rule outbox_step_frame) (simp_all add: upsertVerification_eq)

lemma store_proposal_outbox:
  "outbox_step b (commit (store_proposal queue (createOutboxEntry e k s (board_now b) b)
     (board_now b) (tb_state b)) es b)"
  by (auto simp: outbox_step_def intro: fresh_outbox_append)

lemma enqueueProposal_outbox: "outbox_step b (snd (enqueueProposal input b))"
  by (cases "pi_id input \<in> pr_id ` set (os_proposalQueue (tb_state b))")
    (auto simp: enqueueProposal_duplicate enqueueProposal_ok enqueued_entry_def
      intro: store_proposal_outbox)

lemma transitionProposal_outbox: "outbox_step b (snd (transitionProposal input b))"
proof (cases "find_by_id pr_id (os_proposalQueue (tb_state b)) (pt_proposalId input)")
  case None
  then show ?thesis by (simp add: transitionProposal_def)
next
  case (Some p)
  consider "\<not> canTransitionProposalStatus (pr_status p) (pt_status input)"
    | "pr_status p = pt_status input"
    | "canTransitionProposalStatus (pr_status p) (pt_status input)" "pr_status p \<noteq> pt_status input"
    by blast
  then show ?thesis
  proof cases
    case 3
    show ?thesis
      unfolding transitionProposal_ok [OF Some 3] snd_conv transition_entry_def
      by (rule store_proposal_outbox)
  qed (simp_all add: transitionProposal_invalid [OF Some] transitionProposal_same [OF Some])
qed

lemma applyProposal_outbox:
  assumes "journal_inv b"
  shows "outbox_step b (snd (applyProposal k b))"
proof (cases k b rule: applyProposal_cases)
  case (applied items)
  let ?b = "snd (writeTodos items b)"
  have first: "outbox_step b ?b" by (rule writeTodos_outbox)
  then have "journal_inv ?b"
    using assms by (simp add: journal_inv_def outbox_step_def writeTodos_inv)
  with first transitionProposal_outbox [of ?b "apply_transition k"] show ?thesis
    by (simp add: applied outbox_step_def)
next
  case rejected
  then show ?thesis by simp
qed

lemma drainProposalOutbox_outbox: "outbox_step b (snd (drainProposalOutbox limit b))"
proof -
  define n where "n = nullish_else limit (int (length (os_proposalOutbox (tb_state b))))"
  show ?thesis
  proof (cases "n \<le> 0 \<or> os_proposalOutbox (tb_state b) = []")
    case True
    then show ?thesis by (simp add: drainProposalOutbox_none [OF n_def])
  next
    case False
    then have n: "0 < n" "os_proposalOutbox (tb_state b) \<noteq> []" by simp_all
    show ?thesis
      unfolding drainProposalOutbox_ok [OF n_def n] snd_conv
      by (auto simp: outbox_step_def journal_inv_def intro: fresh_outbox_drop)
  qed
qed

lemma exec_outbox:
  assumes "journal_inv b"
  shows "outbox_step b (fst (exec c b))"
proof (cases c)
  case (CDrainJournal limit)
  obtain n where "fst (exec c b) = b\<lparr>tb_journal := drop n (tb_journal b)\<rparr>"
    using drainJournal_exec [of b limit] assms CDrainJournal by (auto simp: journal_inv_def)
  then show ?thesis by (simp add: outbox_step_frame)
qed (use assms in \<open>simp_all add: writeTodos_outbox upsertDelegation_outbox
    setDelegationStatus_outbox upsertVerification_outbox enqueueProposal_outbox
    transitionProposal_outbox applyProposal_outbox drainProposalOutbox_outbox journal_inv_def\<close>)

lemma exec_journal_inv: "journal_inv b \<Longrightarrow> journal_inv (fst (exec c b))"
  using exec_outbox [of b c] by (simp add: journal_inv_def outbox_step_def exec_inv)

lemma exec_replay:
  assumes b: "journal_inv b" and s: "agrees s (tb_state b)"
  shows "\<exists>new s'. tb_journal b @ new = snd (exec c b) @ tb_journal (fst (exec c b)) \<and>
                 project_from s new = Inr s' \<and> agrees s' (tb_state (fst (exec c b)))"
proof -
  have inv: "board_inv b" and fresh: "fresh_outbox b"
    using b by (simp_all add: journal_inv_def)
  have result: ?thesis if "snd (exec c b) = []" "\<exists>new. replays b (fst (exec c b)) new"
    using that s by (fastforce simp: replays_def)
  show ?thesis
  proof (cases c)
    case (CDrainJournal limit)
    obtain n where "exec c b = (b\<lparr>tb_journal := drop n (tb_journal b)\<rparr>, take n (tb_journal b))"
      using drainJournal_exec [OF inv, of limit] CDrainJournal by auto
    then show ?thesis using s by (intro exI [of _ "[]"] exI [of _ s]) simp
  qed (rule result; use inv fresh in \<open>simp add: writeTodos_replays upsertDelegation_replays
      setDelegationStatus_replays upsertVerification_replays enqueueProposal_replays
      transitionProposal_replays applyProposal_replays drainProposalOutbox_replays\<close>)+
qed

interpretation journaled_board: journaled_machine exec journal_inv tb_journal project_from
  "\<lambda>s b. agrees s (tb_state b)"
proof
  show "journal_inv b \<Longrightarrow> journal_inv (fst (exec c b))" for b c
    by (rule exec_journal_inv)
  show "project_from s [] = Inr s" for s by simp
  show "project_from s (es @ fs) =
      (case project_from s es of Inl e \<Rightarrow> Inl e | Inr s' \<Rightarrow> project_from s' fs)" for s es fs
    by (rule project_from_append)
  show "journal_inv b \<Longrightarrow> agrees s (tb_state b) \<Longrightarrow>
      \<exists>new s'. tb_journal b @ new = snd (exec c b) @ tb_journal (fst (exec c b)) \<and>
               project_from s new = Inr s' \<and> agrees s' (tb_state (fst (exec c b)))" for b s c
    by (rule exec_replay)
qed

end
