(* ===== verification/Subagent_Recovery.thy ===== *)
theory Subagent_Recovery
  imports Subagent_Runtime
begin

text \<open>
  The recovery plan of \<open>packages/tasks-core/src/subagent-runtime.ts\<close>: one action for every run
  whose scheduling has a conflict reason, and the actions grouped by the kind, the reason and
  the paths of the conflict.
\<close>

section \<open>Actions\<close>

datatype recovery_action_type = WaitForRunning | ReviewObserved
datatype recovery_severity = InfoSeverity | WarningSeverity
datatype recovery_group_type = WriteSetOverlap | ObservedWriteSetOverlap

record recovery_evidence =
  ev_blockedBy :: "string list"
  ev_conflictsWith :: "string list"
  ev_observedConflictWith :: "string list option"

record recovery_action =
  ra_actionId :: string
  ra_subagentId :: string
  ra_actionType :: recovery_action_type
  ra_severity :: recovery_severity
  ra_reason :: string
  ra_relatedSubagentIds :: "string list"
  ra_writeSet :: "string list"
  ra_observedWriteSet :: "string list option"
  ra_undeclaredObservedWriteSet :: "string list option"
  ra_evidence :: recovery_evidence
  ra_operatorSummary :: string

definition write_set_action :: "subagent_run \<Rightarrow> subagent_scheduling \<Rightarrow> string \<Rightarrow> recovery_action" where
  "write_set_action run scheduling reason =
     \<lparr>ra_actionId = ''recover_'' @ sr_subagentId run @ ''_write_set_overlap'',
      ra_subagentId = sr_subagentId run,
      ra_actionType = WaitForRunning,
      ra_severity = InfoSeverity,
      ra_reason = reason,
      ra_relatedSubagentIds = sg_conflictsWith scheduling,
      ra_writeSet = sg_writeSet scheduling,
      ra_observedWriteSet = None,
      ra_undeclaredObservedWriteSet = None,
      ra_evidence = \<lparr>ev_blockedBy = sg_blockedBy scheduling,
                     ev_conflictsWith = sg_conflictsWith scheduling,
                     ev_observedConflictWith = None\<rparr>,
      ra_operatorSummary =
        (case sg_blockedBy scheduling of
           first # _ \<Rightarrow> ''Wait for running subagent '' @ first @ '' before unblocking ''
                          @ sr_subagentId run @ ''.''
         | [] \<Rightarrow> ''Wait for running subagent '' @ sr_subagentId run
                   @ '' before unblocking conflicting queued work.'')\<rparr>"

definition observed_action :: "subagent_run \<Rightarrow> subagent_scheduling \<Rightarrow> string \<Rightarrow> recovery_action" where
  "observed_action run scheduling reason =
     \<lparr>ra_actionId = ''recover_'' @ sr_subagentId run @ ''_observed_write_set_overlap'',
      ra_subagentId = sr_subagentId run,
      ra_actionType = ReviewObserved,
      ra_severity = WarningSeverity,
      ra_reason = reason,
      ra_relatedSubagentIds = nullish_else (sg_observedConflictWith scheduling) [],
      ra_writeSet = sg_writeSet scheduling,
      ra_observedWriteSet = sg_observedWriteSet scheduling,
      ra_undeclaredObservedWriteSet = sg_undeclaredObservedWriteSet scheduling,
      ra_evidence = \<lparr>ev_blockedBy = sg_blockedBy scheduling,
                     ev_conflictsWith = sg_conflictsWith scheduling,
                     ev_observedConflictWith = sg_observedConflictWith scheduling\<rparr>,
      ra_operatorSummary = ''Review observed write-set drift for '' @ sr_subagentId run
                             @ '' before dispatching related subagents.''\<rparr>"

definition run_recovery_actions :: "subagent_run \<Rightarrow> recovery_action list" where
  "run_recovery_actions run =
     (case sr_scheduling run of
        None \<Rightarrow> []
      | Some scheduling \<Rightarrow>
          (case sg_conflictReason scheduling of
             None \<Rightarrow> []
           | Some reason \<Rightarrow>
               (if starts_with ''write-set-overlap:'' reason
                then [write_set_action run scheduling reason] else [])
               @ (if starts_with ''observed-write-set-overlap:'' reason
                  then [observed_action run scheduling reason] else [])))"

definition createSubagentSchedulerRecoveryActions :: "subagent_run list \<Rightarrow> recovery_action list" where
  "createSubagentSchedulerRecoveryActions runs = concat (map run_recovery_actions runs)"

section \<open>Groups\<close>

definition resolveRecoveryGroupType :: "string \<Rightarrow> recovery_group_type option" where
  "resolveRecoveryGroupType reason =
     (if starts_with ''write-set-overlap:'' reason then Some WriteSetOverlap
      else if starts_with ''observed-write-set-overlap:'' reason then Some ObservedWriteSetOverlap
      else None)"

fun group_type_str :: "recovery_group_type \<Rightarrow> string" where
  "group_type_str WriteSetOverlap = ''write-set-overlap''"
| "group_type_str ObservedWriteSetOverlap = ''observed-write-set-overlap''"

definition resolveRecoveryGroupWriteSet :: "recovery_action \<Rightarrow> string list" where
  "resolveRecoveryGroupWriteSet action =
     (let reasonWriteSet =
            normalizeWriteSetField
              (Some (js_join '':'' (drop 1 (js_split (CHR '':'') (ra_reason action)))))
      in if reasonWriteSet \<noteq> [] then reasonWriteSet else ra_writeSet action)"

definition is_alphanumeric :: "char \<Rightarrow> bool" where
  "is_alphanumeric c \<longleftrightarrow>
     (let n = (of_char c :: nat) in
       (48 \<le> n \<and> n \<le> 57) \<or> (65 \<le> n \<and> n \<le> 90) \<or> (97 \<le> n \<and> n \<le> 122))"

definition strip_underscores :: "string \<Rightarrow> string" where
  "strip_underscores s =
     rev (dropWhile (\<lambda>c. c = CHR ''_'') (rev (dropWhile (\<lambda>c. c = CHR ''_'') s)))"

definition slugifyRecoveryGroupWriteSet :: "string list \<Rightarrow> string" where
  "slugifyRecoveryGroupWriteSet writeSet =
     (let normalized =
            map ascii_lower
              (strip_underscores (replace_runs is_alphanumeric False (js_join ''_'' writeSet)))
      in if normalized = [] then ''unknown'' else normalized)"

record pending_group =
  pg_groupType :: recovery_group_type
  pg_severity :: recovery_severity
  pg_reason :: string
  pg_writeSet :: "string list"
  pg_actions :: "recovery_action list"

definition recovery_key :: "recovery_group_type \<Rightarrow> recovery_action \<Rightarrow> string" where
  "recovery_key groupType action =
     group_type_str groupType @ '':'' @ ra_reason action @ '':''
       @ js_join ''|'' (resolveRecoveryGroupWriteSet action)"

definition add_to_group ::
  "(string \<times> pending_group) list \<Rightarrow> recovery_action \<Rightarrow> (string \<times> pending_group) list" where
  "add_to_group groups action =
     (case resolveRecoveryGroupType (ra_reason action) of
        None \<Rightarrow> groups
      | Some groupType \<Rightarrow>
          (let key = recovery_key groupType action
           in case map_of groups key of
                None \<Rightarrow>
                  AList.update key
                    \<lparr>pg_groupType = groupType, pg_severity = ra_severity action,
                     pg_reason = ra_reason action,
                     pg_writeSet = resolveRecoveryGroupWriteSet action,
                     pg_actions = [action]\<rparr> groups
              | Some existing \<Rightarrow>
                  AList.update key (existing\<lparr>pg_actions := pg_actions existing @ [action]\<rparr>)
                    groups))"

definition formatRecoveryGroupOperatorSummary ::
  "recovery_group_type \<Rightarrow> string list \<Rightarrow> nat \<Rightarrow> nat \<Rightarrow> nat \<Rightarrow> string" where
  "formatRecoveryGroupOperatorSummary groupType writeSet runningCount blockedCount completedCount =
     (let joined = js_join '', '' writeSet;
          targetWriteSet = (if joined = [] then ''unknown'' else joined)
      in ''Review '' @ group_type_str groupType @ '' recovery group for '' @ targetWriteSet @ '': ''
           @ show_nat runningCount @ '' running, '' @ show_nat blockedCount @ '' blocked, ''
           @ show_nat completedCount @ '' completed.'')"

record recovery_group =
  rg_groupId :: string
  rg_groupType :: recovery_group_type
  rg_severity :: recovery_severity
  rg_reason :: string
  rg_actionIds :: "string list"
  rg_subagentIds :: "string list"
  rg_runningSubagentIds :: "string list"
  rg_blockedSubagentIds :: "string list"
  rg_completedSubagentIds :: "string list"
  rg_writeSet :: "string list"
  rg_observedWriteSet :: "string list option"
  rg_undeclaredObservedWriteSet :: "string list option"
  rg_operatorSummary :: string

definition run_blocked :: "subagent_run \<Rightarrow> bool" where
  "run_blocked run \<longleftrightarrow>
     sr_status run = DQueued \<and>
     (case sr_scheduling run of None \<Rightarrow> False | Some g \<Rightarrow> sg_blockedBy g \<noteq> [])"

definition finish_group :: "(string \<times> subagent_run) list \<Rightarrow> pending_group \<Rightarrow> recovery_group" where
  "finish_group runsById grp =
     (let subagentIds =
            js_unique (concat (map (\<lambda>a. ra_subagentId a # ra_relatedSubagentIds a)
                                (pg_actions grp)));
          select = (\<lambda>P. filter (\<lambda>k. case map_of runsById k of None \<Rightarrow> False | Some run \<Rightarrow> P run)
                          subagentIds);
          runningSubagentIds = select (\<lambda>run. sr_status run = DRunning);
          blockedSubagentIds = select run_blocked;
          completedSubagentIds = select (\<lambda>run. sr_status run = DCompleted)
      in \<lparr>rg_groupId =
            ''recovery_group_''
              @ map (\<lambda>c. if c = CHR ''-'' then CHR ''_'' else c) (group_type_str (pg_groupType grp))
              @ ''_'' @ slugifyRecoveryGroupWriteSet (pg_writeSet grp),
          rg_groupType = pg_groupType grp,
          rg_severity = pg_severity grp,
          rg_reason = pg_reason grp,
          rg_actionIds = map ra_actionId (pg_actions grp),
          rg_subagentIds = subagentIds,
          rg_runningSubagentIds = runningSubagentIds,
          rg_blockedSubagentIds = blockedSubagentIds,
          rg_completedSubagentIds = completedSubagentIds,
          rg_writeSet = pg_writeSet grp,
          rg_observedWriteSet =
            non_empty (js_unique (concat (map (\<lambda>a. nullish_else (ra_observedWriteSet a) [])
                                           (pg_actions grp)))),
          rg_undeclaredObservedWriteSet =
            non_empty (js_unique (concat
              (map (\<lambda>a. nullish_else (ra_undeclaredObservedWriteSet a) []) (pg_actions grp)))),
          rg_operatorSummary =
            formatRecoveryGroupOperatorSummary (pg_groupType grp) (pg_writeSet grp)
              (length runningSubagentIds) (length blockedSubagentIds)
              (length completedSubagentIds)\<rparr>)"

definition pending_groups :: "recovery_action list \<Rightarrow> (string \<times> pending_group) list" where
  "pending_groups actions = foldl add_to_group [] actions"

definition createSubagentSchedulerRecoveryGroups ::
  "recovery_action list \<Rightarrow> subagent_run list \<Rightarrow> recovery_group list" where
  "createSubagentSchedulerRecoveryGroups actions runs =
     map (\<lambda>(_, grp). finish_group (js_map_of (map (\<lambda>run. (sr_subagentId run, run)) runs)) grp)
       (pending_groups actions)"

section \<open>Plan\<close>

record recovery_plan =
  rp_parentTurnId :: "string option"
  rp_canRecover :: bool
  rp_blockedSubagentIds :: "string list"
  rp_conflictedSubagentIds :: "string list"
  rp_recoveryActions :: "recovery_action list"
  rp_recoveryGroups :: "recovery_group list"
  rp_recoveryOrdinal :: int

definition projectSubagentSchedulerRecoveryPlanFromSubagentRuns ::
  "subagent_run list \<Rightarrow> string option \<Rightarrow> recovery_plan" where
  "projectSubagentSchedulerRecoveryPlanFromSubagentRuns runs parentTurn =
     (let recoveryActions = createSubagentSchedulerRecoveryActions runs
      in \<lparr>rp_parentTurnId = parentTurn,
          rp_canRecover = (recoveryActions \<noteq> []),
          rp_blockedSubagentIds = js_unique (map sr_subagentId (filter run_blocked runs)),
          rp_conflictedSubagentIds = js_unique (map ra_subagentId recoveryActions),
          rp_recoveryActions = recoveryActions,
          rp_recoveryGroups = createSubagentSchedulerRecoveryGroups recoveryActions runs,
          rp_recoveryOrdinal =
            deriveSchedulerHeartbeatOrdinal (resolveLatestUpdatedAtMs runs)\<rparr>)"

definition projectSubagentSchedulerRecoveryPlanFromTaskState ::
  "task_operations_state \<Rightarrow> string option \<Rightarrow> recovery_plan" where
  "projectSubagentSchedulerRecoveryPlanFromTaskState state parentTurn =
     projectSubagentSchedulerRecoveryPlanFromSubagentRuns
       (projectSubagentRunsFromTaskState state parentTurn) parentTurn"

section \<open>Lemmas\<close>

lemma not_both_prefixes:
  "starts_with ''write-set-overlap:'' r \<Longrightarrow> \<not> starts_with ''observed-write-set-overlap:'' r"
  by (cases r) (auto simp: starts_with_def)

lemma run_recovery_actions_cases:
  "run_recovery_actions run = [] \<or>
   (\<exists>g reason. sr_scheduling run = Some g \<and> sg_conflictReason g = Some reason \<and>
      (run_recovery_actions run = [write_set_action run g reason] \<or>
       run_recovery_actions run = [observed_action run g reason]) \<and>
      resolveRecoveryGroupType reason \<noteq> None)"
  using not_both_prefixes
  by (auto simp: run_recovery_actions_def resolveRecoveryGroupType_def split: option.splits)

lemma recovery_action_reason:
  "a \<in> set (createSubagentSchedulerRecoveryActions runs) \<Longrightarrow>
   resolveRecoveryGroupType (ra_reason a) \<noteq> None"
proof -
  assume "a \<in> set (createSubagentSchedulerRecoveryActions runs)"
  then obtain run where run: "a \<in> set (run_recovery_actions run)"
    by (auto simp: createSubagentSchedulerRecoveryActions_def)
  with run_recovery_actions_cases [of run] show ?thesis
    by (auto simp: write_set_action_def observed_action_def)
qed

text \<open>Grouping keeps every action exactly once.\<close>

definition grouped_actions :: "(string \<times> pending_group) list \<Rightarrow> recovery_action multiset" where
  "grouped_actions groups = mset (concat (map (\<lambda>(_, g). pg_actions g) groups))"

lemma distinct_update_keys: "distinct (map fst m) \<Longrightarrow> distinct (map fst (AList.update k v m))"
  by (rule distinct_update)

lemma grouped_update_new:
  "map_of m k = None \<Longrightarrow> grouped_actions (AList.update k g m) = grouped_actions m + mset (pg_actions g)"
  by (induction m) (auto simp: grouped_actions_def split: if_splits)

lemma grouped_update_old:
  "map_of m k = Some e \<Longrightarrow>
   grouped_actions (AList.update k (e\<lparr>pg_actions := pg_actions e @ [a]\<rparr>) m) =
   add_mset a (grouped_actions m)"
  by (induction m) (auto simp: grouped_actions_def split: if_splits)

lemma grouped_add:
  "resolveRecoveryGroupType (ra_reason a) \<noteq> None \<Longrightarrow>
   grouped_actions (add_to_group groups a) = add_mset a (grouped_actions groups)"
  by (auto simp: add_to_group_def Let_def grouped_update_new grouped_update_old
      split: option.splits)

lemma grouped_all:
  "(\<And>a. a \<in> set actions \<Longrightarrow> resolveRecoveryGroupType (ra_reason a) \<noteq> None) \<Longrightarrow>
   grouped_actions (foldl add_to_group groups actions) = grouped_actions groups + mset actions"
  by (induction actions arbitrary: groups) (auto simp: grouped_add)

lemma pending_groups_actions:
  "(\<And>a. a \<in> set actions \<Longrightarrow> resolveRecoveryGroupType (ra_reason a) \<noteq> None) \<Longrightarrow>
   grouped_actions (pending_groups actions) = mset actions"
  by (simp add: pending_groups_def grouped_all) (simp add: grouped_actions_def)

lemma recovery_groups_actionIds:
  "concat (map rg_actionIds (createSubagentSchedulerRecoveryGroups actions runs)) =
   map ra_actionId (concat (map (\<lambda>(_, g). pg_actions g) (pending_groups actions)))"
  by (simp add: createSubagentSchedulerRecoveryGroups_def finish_group_def Let_def map_concat
      comp_def case_prod_beta)

end
