(* ===== verification/Task_Properties.thy ===== *)
theory Task_Properties
  imports Task_Replay Task_Plane Subagent_Recovery
begin

text \<open>
  Facts about single operations that the properties of the root theory are read off from:
  proposals under a run of commands, the effect of an applied proposal, drains of the outbox,
  batches of a schedule, intents of a tick, and the version numbers of the event domain.
\<close>

section \<open>Proposals under commands\<close>

lemma reaches_trans: "proposal_reaches s t \<Longrightarrow> proposal_reaches t u \<Longrightarrow> proposal_reaches s u"
  by (rotate_tac 1, induction rule: proposal_reaches.induct) (auto intro: proposal_reaches.intros)

definition find_proposal :: "board \<Rightarrow> string \<Rightarrow> proposal_record option" where
  "find_proposal b k = find_by_id pr_id (os_proposalQueue (tb_state b)) k"

text \<open>After an operation every proposal is still there and its status moved along the table.\<close>

definition proposals_advance :: "board \<Rightarrow> board \<Rightarrow> bool" where
  "proposals_advance b b' \<longleftrightarrow>
     (\<forall>k p. find_proposal b k = Some p \<longrightarrow>
        (\<exists>p'. find_proposal b' k = Some p' \<and> proposal_reaches (pr_status p) (pr_status p') \<and>
              pr_payload p' = pr_payload p \<and> pr_kind p' = pr_kind p))"

lemma proposals_advance_refl:
  "os_proposalQueue (tb_state b') = os_proposalQueue (tb_state b) \<Longrightarrow> proposals_advance b b'"
  by (simp add: proposals_advance_def find_proposal_def proposal_reaches.here)

lemma proposals_advance_trans:
  assumes "proposals_advance b b1" and "proposals_advance b1 b2"
  shows "proposals_advance b b2"
  unfolding proposals_advance_def
proof (intro allI impI)
  fix k p assume "find_proposal b k = Some p"
  then obtain p1 where p1: "find_proposal b1 k = Some p1" "proposal_reaches (pr_status p) (pr_status p1)"
    "pr_payload p1 = pr_payload p" "pr_kind p1 = pr_kind p"
    using assms(1) unfolding proposals_advance_def by blast
  then obtain p2 where p2: "find_proposal b2 k = Some p2" "proposal_reaches (pr_status p1) (pr_status p2)"
    "pr_payload p2 = pr_payload p1" "pr_kind p2 = pr_kind p1"
    using assms(2) unfolding proposals_advance_def by blast
  show "\<exists>p'. find_proposal b2 k = Some p' \<and> proposal_reaches (pr_status p) (pr_status p') \<and>
              pr_payload p' = pr_payload p \<and> pr_kind p' = pr_kind p"
    using p2(1) reaches_trans [OF p1(2) p2(2)] p1(3,4) p2(3,4) by simp
qed

lemma enqueueProposal_advance: "proposals_advance b (snd (enqueueProposal input b))"
proof (cases "pi_id input \<in> pr_id ` set (os_proposalQueue (tb_state b))")
  case True
  then show ?thesis by (simp add: enqueueProposal_duplicate proposals_advance_refl)
next
  case False
  then show ?thesis
    by (auto simp: enqueueProposal_ok proposals_advance_def find_proposal_def find_by_id_append
        intro: proposal_reaches.here)
qed

lemma transitionProposal_advance: "proposals_advance b (snd (transitionProposal input b))"
proof (cases "find_by_id pr_id (os_proposalQueue (tb_state b)) (pt_proposalId input)")
  case None
  then show ?thesis by (simp add: transitionProposal_def proposals_advance_refl)
next
  case (Some p)
  consider "\<not> canTransitionProposalStatus (pr_status p) (pt_status input)"
    | "pr_status p = pt_status input"
    | "canTransitionProposalStatus (pr_status p) (pt_status input)" "pr_status p \<noteq> pt_status input"
    by blast
  then show ?thesis
  proof cases
    case 3
    have id: "pr_id p = pt_proposalId input" using proposals.get_Some [OF Some] by simp
    have "proposal_reaches (pr_status p) (pt_status input)"
      using 3 by (auto intro: proposal_reaches.intros)
    then show ?thesis
      using Some by (auto simp: transitionProposal_ok [OF Some 3] proposals_advance_def
          find_proposal_def proposals.get_put id intro: proposal_reaches.here)
  qed (simp_all add: transitionProposal_invalid [OF Some] transitionProposal_same [OF Some]
      proposals_advance_refl)
qed

lemma applyProposal_advance: "proposals_advance b (snd (applyProposal k b))"
proof (cases k b rule: applyProposal_cases)
  case (applied items)
  have "proposals_advance b (snd (writeTodos items b))"
    by (rule proposals_advance_refl) (simp add: writeTodos_eq)
  then show ?thesis
    unfolding applied by (rule proposals_advance_trans) (rule transitionProposal_advance)
next
  case rejected
  then show ?thesis by (simp add: proposals_advance_refl)
qed

lemma upsertDelegation_queue:
  "os_proposalQueue (tb_state (snd (upsertDelegation input b))) = os_proposalQueue (tb_state b)"
  by (cases "buildDelegationRecord input
        (find_by_id dr_id (os_delegation (tb_state b)) (di_id input)) (board_now b)")
    (simp_all add: upsertDelegation_throws upsertDelegation_ok)

lemma setDelegationStatus_queue:
  assumes "board_inv b"
  shows "os_proposalQueue (tb_state (snd (setDelegationStatus input b))) = os_proposalQueue (tb_state b)"
proof (cases "find_by_id dr_id (os_delegation (tb_state b)) (du_id input)")
  case None
  then show ?thesis by (simp add: setDelegationStatus_def)
next
  case (Some d)
  then show ?thesis
    by (simp add: setDelegationStatus_ok [OF Some board_inv_wf_delegation [OF assms Some]])
qed

lemma drainProposalOutbox_queue:
  "os_proposalQueue (tb_state (snd (drainProposalOutbox limit b))) = os_proposalQueue (tb_state b)"
proof -
  define n where "n = nullish_else limit (int (length (os_proposalOutbox (tb_state b))))"
  show ?thesis
    by (cases "n \<le> 0 \<or> os_proposalOutbox (tb_state b) = []")
      (auto simp: drainProposalOutbox_none [OF n_def] drainProposalOutbox_ok [OF n_def])
qed

lemma exec_advance:
  assumes "board_inv b"
  shows "proposals_advance b (fst (exec c b))"
proof (cases c)
  case (CDrainJournal limit)
  have "tb_state (fst (exec c b)) = tb_state (snd (drainJournal limit b))"
    unfolding CDrainJournal by (simp split: prod.splits sum.splits)
  then show ?thesis by (simp add: drainJournal_state proposals_advance_refl)
qed (use assms in \<open>simp_all add: enqueueProposal_advance transitionProposal_advance
    applyProposal_advance proposals_advance_refl writeTodos_eq upsertDelegation_queue
    setDelegationStatus_queue upsertVerification_eq drainProposalOutbox_queue\<close>)

lemma run_advance:
  "board_inv b \<Longrightarrow> proposals_advance b (fst (run_log exec cs b))"
proof (induction cs arbitrary: b)
  case Nil
  then show ?case by (simp add: proposals_advance_refl)
next
  case (Cons c cs)
  have "proposals_advance b (fst (exec c b))" using Cons.prems by (rule exec_advance)
  moreover have "proposals_advance (fst (exec c b)) (fst (run_log exec cs (fst (exec c b))))"
    using Cons.prems by (intro Cons.IH exec_inv)
  ultimately show ?case
    by (simp add: run_log_Cons proposals_advance_trans del: run_log.simps(2))
qed

section \<open>Applying a proposal\<close>

lemma applyProposal_effect:
  assumes "find_proposal b k = Some p" and "pr_status p = PAccepted"
    and "pr_kind p = ''tasks.todo_write''" and "proposal_todos p = Some todos"
  shows "\<exists>s b'. applyProposal k b = (Inr s, b') \<and> tb_state b' = s \<and>
           ts_items (os_todos s) = ts_items todos \<and>
           find_proposal b' k = Some (transitioned (apply_transition k) p
                                        (tb_clock b (Suc (tb_ticks b)))) \<and>
           length (tb_journal b') = length (tb_journal b) + 2"
proof -
  let ?b = "snd (writeTodos (ts_items todos) b)"
  have find: "find_by_id pr_id (os_proposalQueue (tb_state ?b)) (pt_proposalId (apply_transition k)) = Some p"
    using assms(1) by (simp add: writeTodos_eq find_proposal_def apply_transition_def)
  have move: "canTransitionProposalStatus (pr_status p) (pt_status (apply_transition k))"
    "pr_status p \<noteq> pt_status (apply_transition k)"
    using assms(2) by (simp_all add: apply_transition_def canTransitionProposalStatus_def)
  have id: "pr_id p = k" using proposals.get_Some assms(1) unfolding find_proposal_def by blast
  have now: "board_now ?b = tb_clock b (Suc (tb_ticks b))"
    by (simp add: writeTodos_eq board_now_def)
  have eq: "applyProposal k b = transitionProposal (apply_transition k) ?b"
    using assms by (intro applyProposal_ok) (simp_all add: find_proposal_def)
  show ?thesis
    unfolding eq transitionProposal_ok [OF find move] now
    by (simp add: find_proposal_def proposals.get_put id writeTodos_eq written_todos_def)
qed

section \<open>Batches of a schedule\<close>

lemma first_fit_split:
  assumes "first_fit (xs @ a # ys)" and "b \<in> set ys" and "ab_batch a = ab_batch b"
  shows "set (ab_writeSet a) \<inter> set (ab_writeSet b) = {}"
proof -
  have "js_intersect (ab_writeSet b) (ab_writeSet a) = []"
    using assms by (auto simp: first_fit_def sorted_wrt_append)
  then show ?thesis by (auto simp: js_intersect_Nil_iff)
qed

lemma assign_all_at:
  "assign_all [] (before @ c # after) = assign_all [] before @ assign (assign_all [] before) c #
     drop (Suc (length (assign_all [] before))) (assign_all [] (before @ c # after))"
proof -
  obtain more where "assign_all (assign_all [] before @ [assign (assign_all [] before) c]) after =
      (assign_all [] before @ [assign (assign_all [] before) c]) @ more"
    using assign_all_prefix by blast
  then show ?thesis by (simp add: assign_all_append)
qed

lemma two_candidates:
  assumes dist: "distinct (map dr_id ds)" and "d \<in> set ds" "e \<in> set ds"
    and "in_schedule d" "in_schedule e" and "dr_id d \<noteq> dr_id e"
  obtains before c mid c' after where "scheduling_candidates ds = before @ c # mid @ c' # after"
    "{cd_record c, cd_record c'} = {d, e}"
proof -
  obtain b1 c a1 where one: "scheduling_candidates ds = b1 @ c # a1" "cd_record c = d"
    using split_candidate [OF dist assms(2,4)] by metis
  obtain b2 c' a2 where two: "scheduling_candidates ds = b2 @ c' # a2" "cd_record c' = e"
    using split_candidate [OF dist assms(3,5)] by metis
  have "c' \<in> set (b1 @ c # a1)" using one(1) two(1) by (metis in_set_conv_decomp)
  moreover have "c' \<noteq> c" using one(2) two(2) assms(6) by auto
  ultimately consider "c' \<in> set b1" | "c' \<in> set a1" by auto
  then show ?thesis
  proof cases
    case 1
    then obtain x y where "b1 = x @ c' # y" by (meson split_list)
    then have "scheduling_candidates ds = x @ c' # y @ c # a1" using one(1) by simp
    then show ?thesis by (rule that) (use one(2) two(2) in auto)
  next
    case 2
    then obtain x y where "a1 = x @ c' # y" by (meson split_list)
    then have "scheduling_candidates ds = b1 @ c # x @ c' # y" using one(1) by simp
    then show ?thesis by (rule that) (use one(2) two(2) in auto)
  qed
qed

lemma ordered_batches_disjoint:
  assumes dist: "distinct (map dr_id ds)"
    and split: "scheduling_candidates ds = before @ c # mid @ c' # after"
    and g: "scheduling_of ds (dr_id (cd_record c)) = Some g"
    and g': "scheduling_of ds (dr_id (cd_record c')) = Some g'"
    and batch: "sg_parallelBatch g = sg_parallelBatch g'"
  shows "set (write_set_of (cd_record c)) \<inter> set (write_set_of (cd_record c')) = {}"
proof -
  let ?first = "assign_all [] before"
  let ?second = "assign_all [] (before @ c # mid)"
  have split': "scheduling_candidates ds = (before @ c # mid) @ c' # after" using split by simp
  have b: "sg_parallelBatch g = candidate_batch ?first c"
    using scheduling_of_candidate [OF dist split] g by (auto simp: candidate_id_def)
  have b': "sg_parallelBatch g' = candidate_batch ?second c'"
    using scheduling_of_candidate [OF dist split'] g' by (auto simp: candidate_id_def)
  have "assign ?first c \<in> set ?second"
    using assign_all_at [of before c mid] by (metis in_set_conv_decomp)
  moreover have "first_fit (?second @ [assign ?second c'])"
    by (intro first_fit_assign first_fit_assign_all) (simp add: first_fit_def)
  ultimately have "js_intersect (cd_writeSet c') (cd_writeSet c) = []"
    using b b' batch by (auto simp: first_fit_def sorted_wrt_append assign_def)
  moreover have "cd_writeSet c = write_set_of (cd_record c)"
    "cd_writeSet c' = write_set_of (cd_record c')"
    using candidate_delegation [OF dist, of c] candidate_delegation [OF dist, of c'] split by simp_all
  ultimately show ?thesis by (auto simp: js_intersect_Nil_iff)
qed

lemma same_batch_disjoint:
  assumes dist: "distinct (map dr_id ds)" and d: "d \<in> set ds" "active_delegation d"
    and e: "e \<in> set ds" "active_delegation e" and ids: "dr_id d \<noteq> dr_id e"
    and g: "scheduling_of ds (dr_id d) = Some g" "scheduling_of ds (dr_id e) = Some g'"
    and batch: "sg_parallelBatch g = sg_parallelBatch g'"
  shows "set (write_set_of d) \<inter> set (write_set_of e) = {}"
proof (cases "in_schedule d \<and> in_schedule e")
  case True
  then have sched: "in_schedule d" "in_schedule e" by simp_all
  obtain before c mid c' after where split: "scheduling_candidates ds = before @ c # mid @ c' # after"
    and cs: "{cd_record c, cd_record c'} = {d, e}"
    by (rule two_candidates [OF dist d(1) e(1) sched ids])
  then consider "cd_record c = d" "cd_record c' = e" | "cd_record c = e" "cd_record c' = d"
    by (auto simp: doubleton_eq_iff)
  then show ?thesis
  proof cases
    case 1
    then show ?thesis using ordered_batches_disjoint [OF dist split, of g g'] g batch by simp
  next
    case 2
    then show ?thesis using ordered_batches_disjoint [OF dist split, of g' g] g batch by auto
  qed
next
  case False
  then have "write_set_of d = [] \<or> write_set_of e = []"
    using d(2) e(2) by (auto simp: in_schedule_def)
  then show ?thesis by auto
qed

text \<open>A batch is justified: every smaller one holds a blocker.\<close>

lemma batch_justified:
  assumes dist: "distinct (map dr_id ds)" and d: "d \<in> set ds" "in_schedule d"
    and g: "scheduling_of ds (dr_id d) = Some g"
    and k: "0 \<le> k" "k < sg_parallelBatch g"
  shows "\<exists>e \<in> set ds. dr_id e \<in> set (sg_blockedBy g) \<and> contend d e \<and>
           (\<exists>h. scheduling_of ds (dr_id e) = Some h \<and> sg_parallelBatch h = k)"
proof -
  obtain before c after where split: "scheduling_candidates ds = before @ c # after"
    and c: "cd_record c = d" "cd_writeSet c = write_set_of d" "candidate_id c = dr_id d"
    by (rule split_candidate [OF dist d])
  let ?assigned = "assign_all [] before"
  have g_eq: "g = candidate_scheduling (scheduling_candidates ds)
       (createObservedWriteSetDiagnosticsByDelegationId ds (writeSetByDelegationId ds)) ?assigned c"
    using scheduling_of_candidate [OF dist split] g c(3) by simp
  then have "k < selectFirstAvailableParallelBatch (map ab_batch (overlapping_assigned ?assigned c))"
    using k(2) by (simp add: candidate_batch_def)
  then have "k \<in> set (map ab_batch (overlapping_assigned ?assigned c))"
    by (rule selectFirstAvailable_spec(3) [OF k(1)])
  then obtain a where a: "a \<in> set ?assigned" "ab_batch a = k"
    "js_intersect (cd_writeSet c) (ab_writeSet a) \<noteq> []"
    by (auto simp: overlapping_assigned_def)
  obtain x c' y where before: "before = x @ c' # y" and assigned: "a = assign (assign_all [] x) c'"
  proof -
    have "\<exists>x c' y. cs = x @ c' # y \<and> a = assign (assign_all acc x) c'"
      if "a \<in> set (assign_all acc cs)" "a \<notin> set acc" for acc cs
      using that
    proof (induction cs arbitrary: acc)
      case Nil
      then show ?case by simp
    next
      case (Cons h cs)
      show ?case
      proof (cases "a = assign acc h")
        case True
        then show ?thesis by (intro exI [of _ "[]"]) auto
      next
        case False
        then obtain x c' y where "cs = x @ c' # y"
          "a = assign (assign_all (acc @ [assign acc h]) x) c'"
          using Cons.IH [of "acc @ [assign acc h]"] Cons.prems by auto
        then show ?thesis by (intro exI [of _ "h # x"]) auto
      qed
    qed
    from this [of "[]" before] a(1) that show ?thesis by auto
  qed
  have split': "scheduling_candidates ds = x @ c' # (y @ c # after)" using split before by simp
  let ?e = "cd_record c'"
  have e: "?e \<in> set ds" "cd_writeSet c' = write_set_of ?e"
    using candidate_delegation [OF dist, of c'] split' by simp_all
  have h: "scheduling_of ds (dr_id ?e) = Some (candidate_scheduling (scheduling_candidates ds)
       (createObservedWriteSetDiagnosticsByDelegationId ds (writeSetByDelegationId ds))
       (assign_all [] x) c')"
    using scheduling_of_candidate [OF dist split'] by (simp add: candidate_id_def)
  have "distinct (map candidate_id (x @ c' # y @ c # after))"
    using scheduling_candidates_distinct [OF dist] split' by simp
  then have "dr_id ?e \<noteq> dr_id d" using c(1) by (auto simp: candidate_id_def)
  then have "contend d ?e"
    using a(3) c(2) e(2) by (auto simp: contend_def assigned assign_def js_intersect_Nil_iff)
  moreover have "dr_id ?e \<in> set (sg_blockedBy g)"
    using a(1,3) unfolding g_eq by (auto simp: overlapping_assigned_def assigned assign_def
        candidate_id_def image_iff intro!: bexI [of _ a])
  ultimately show ?thesis
    using e(1) h a(2) by (intro bexI [of _ ?e]) (auto simp: assigned assign_def)
qed

lemma candidate_batch_le: "candidate_batch assigned c \<le> int (length (overlapping_assigned assigned c))"
  using selectFirstAvailable_le [of "map ab_batch (overlapping_assigned assigned c)"]
  by (simp add: candidate_batch_def)

section \<open>Failures\<close>

text \<open>What a command throws, if it does.\<close>

fun thrown :: "'a outcome \<Rightarrow> js_error option" where
  "thrown (Inl e, b) = Some e"
| "thrown (Inr x, b) = None"

fun command_error :: "task_command \<Rightarrow> board \<Rightarrow> js_error option" where
  "command_error (CWriteTodos items) b = thrown (writeTodos items b)"
| "command_error (CUpsertDelegation input) b = thrown (upsertDelegation input b)"
| "command_error (CSetDelegationStatus input) b = thrown (setDelegationStatus input b)"
| "command_error (CUpsertVerification input) b = thrown (upsertVerification input b)"
| "command_error (CEnqueueProposal input) b = thrown (enqueueProposal input b)"
| "command_error (CTransitionProposal input) b = thrown (transitionProposal input b)"
| "command_error (CApplyProposal k) b = thrown (applyProposal k b)"
| "command_error (CDrainOutbox limit) b = thrown (drainProposalOutbox limit b)"
| "command_error (CDrainJournal limit) b = thrown (drainJournal limit b)"

definition unchanged :: "board \<Rightarrow> board \<Rightarrow> bool" where
  "unchanged b b' \<longleftrightarrow> tb_state b' = tb_state b \<and> tb_journal b' = tb_journal b"

definition atomic_outcome :: "board \<Rightarrow> 'a outcome \<Rightarrow> bool" where
  "atomic_outcome b r \<longleftrightarrow> thrown r = None \<or> unchanged b (snd r)"

lemma atomic_outcome_simps [simp]:
  "atomic_outcome b (Inr x, b')" "atomic_outcome b (Inl e, b)" "atomic_outcome b (Inl e, tick b)"
  by (simp_all add: atomic_outcome_def unchanged_def)

lemma setDelegationStatus_atomic:
  assumes "board_inv b"
  shows "atomic_outcome b (setDelegationStatus input b)"
proof (cases "find_by_id dr_id (os_delegation (tb_state b)) (du_id input)")
  case None
  then show ?thesis by (simp add: setDelegationStatus_def)
next
  case (Some d)
  then show ?thesis
    by (simp add: setDelegationStatus_ok [OF Some board_inv_wf_delegation [OF assms Some]])
qed

lemma transitionProposal_atomic: "atomic_outcome b (transitionProposal input b)"
proof (cases "find_by_id pr_id (os_proposalQueue (tb_state b)) (pt_proposalId input)")
  case None
  then show ?thesis by (simp add: transitionProposal_def)
next
  case (Some p)
  consider "\<not> canTransitionProposalStatus (pr_status p) (pt_status input)"
    | "pr_status p = pt_status input"
    | "canTransitionProposalStatus (pr_status p) (pt_status input)" "pr_status p \<noteq> pt_status input"
    by blast
  then show ?thesis
    by cases (simp_all add: transitionProposal_invalid [OF Some] transitionProposal_same [OF Some]
        transitionProposal_ok [OF Some])
qed

text \<open>Applying writes the todos first, but then the transition cannot fail.\<close>

lemma applyProposal_atomic: "atomic_outcome b (applyProposal k b)"
proof (cases "\<exists>p todos. find_proposal b k = Some p \<and>
    pr_status p = PAccepted \<and> pr_kind p = ''tasks.todo_write'' \<and> proposal_todos p = Some todos")
  case True
  then obtain s b' where "applyProposal k b = (Inr s, b')"
    using applyProposal_effect [of b k] by fastforce
  then show ?thesis by simp
next
  case False
  then have "snd (applyProposal k b) = b"
    using applyProposal_rejects [OF refl, of b k] by (auto simp: find_proposal_def)
  then show ?thesis by (simp add: atomic_outcome_def unchanged_def)
qed

lemma drainProposalOutbox_atomic: "atomic_outcome b (drainProposalOutbox limit b)"
proof -
  define n where "n = nullish_else limit (int (length (os_proposalOutbox (tb_state b))))"
  show ?thesis
    by (cases "n \<le> 0 \<or> os_proposalOutbox (tb_state b) = []")
      (auto simp: drainProposalOutbox_none [OF n_def] drainProposalOutbox_ok [OF n_def])
qed

lemma atomic_unchanged: "atomic_outcome b r \<Longrightarrow> thrown r = Some e \<Longrightarrow> unchanged b (snd r)"
  by (auto simp: atomic_outcome_def)

lemma exec_atomic:
  assumes "board_inv b" and "command_error c b = Some e"
  shows "unchanged b (fst (exec c b))"
proof (cases c)
  case (CWriteTodos items)
  with assms(2) show ?thesis by (simp add: writeTodos_eq)
next
  case (CUpsertDelegation input)
  with assms(2) show ?thesis
    by (cases "buildDelegationRecord input
        (find_by_id dr_id (os_delegation (tb_state b)) (di_id input)) (board_now b)")
      (simp_all add: upsertDelegation_throws upsertDelegation_ok unchanged_def)
next
  case (CUpsertVerification input)
  with assms(2) show ?thesis by (simp add: upsertVerification_eq)
next
  case (CEnqueueProposal input)
  with assms(2) show ?thesis
    by (cases "pi_id input \<in> pr_id ` set (os_proposalQueue (tb_state b))")
      (simp_all add: enqueueProposal_duplicate enqueueProposal_ok unchanged_def)
next
  case (CDrainJournal limit)
  have "\<And>e. e \<in> set (tb_journal b) \<Longrightarrow> wf_entry e" using assms(1) by (simp add: board_inv_def)
  then obtain n where "drainJournal limit b =
      (Inr (take n (tb_journal b)), b\<lparr>tb_journal := drop n (tb_journal b)\<rparr>)"
    using drainJournal_wf by blast
  with assms(2) CDrainJournal show ?thesis by simp
qed (use assms in \<open>auto intro: atomic_unchanged setDelegationStatus_atomic
    transitionProposal_atomic applyProposal_atomic drainProposalOutbox_atomic\<close>)

section \<open>Leaving the queue\<close>

lemma leaving_queue_notice:
  assumes inv: "board_inv b" and d: "find_by_id dr_id (os_delegation (tb_state b)) k = Some d"
    and queued: "dr_status d = DQueued" and id: "du_id input = k" and out: "du_status input \<noteq> DQueued"
  shows "\<exists>n. find_by_id nr_id (notifications_of (tb_state b)) (buildDelegationNotificationId k) = Some n \<and>
             nr_status n = NPending \<and>
             find_by_id nr_id (notifications_of (tb_state (snd (setDelegationStatus input b))))
               (buildDelegationNotificationId k) =
               Some (n\<lparr>nr_status := NAcknowledged, nr_updatedAtMs := board_now b,
                       nr_acknowledgedAtMs := Some (board_now b)\<rparr>)"
proof -
  have mem: "d \<in> set (os_delegation (tb_state b))" "dr_id d = k"
    using delegations.get_Some [OF d] by simp_all
  then have "delegation_noticed (notifications_of (tb_state b)) d"
    using inv by (simp add: board_inv_def state_inv_def)
  then obtain n where n: "find_by_id nr_id (notifications_of (tb_state b))
      (buildDelegationNotificationId k) = Some n" "nr_status n = NPending"
    using queued mem by (auto simp: delegation_noticed_def noticed_def split: option.splits)
  have d': "find_by_id dr_id (os_delegation (tb_state b)) (du_id input) = Some d"
    using d id by simp
  have "find_by_id nr_id (fst (delegation_update (delegation_with_status input d (board_now b))
      (du_reason input) b)) (buildDelegationNotificationId k) = Some (acknowledged_notice (board_now b) n)"
    unfolding delegation_update_def
    by (subst update_notice_find) (use out mem n in simp_all)
  with n show ?thesis
    by (simp add: setDelegationStatus_ok [OF d' board_inv_wf_delegation [OF inv d']]
        acknowledged_notice_def)
qed

section \<open>Ticks\<close>

lemma find_distinct:
  "distinct (map f xs) \<Longrightarrow> x \<in> set xs \<Longrightarrow> find (\<lambda>y. f y = f x) xs = Some x"
  by (induction xs) auto

lemma intents_of_batches:
  "map tn_delegationId (tk_dispatchIntents (projectSubagentSchedulerTickFromSubagentRuns runs s l p)) =
   concat (map db_subagentIds (createSubagentDispatchBatches (dispatchable_runs runs)))"
  by (simp add: projectSubagentSchedulerTickFromSubagentRuns_def
      createSubagentSchedulerTickDispatchIntents_def Let_def map_concat comp_def dispatch_intent_def
      projectSubagentSchedulerDispatchPlanFromSubagentRuns_def)

lemma intent_fields:
  assumes dist: "distinct (map sr_subagentId runs)"
    and intent: "intent \<in> set (tk_dispatchIntents (projectSubagentSchedulerTickFromSubagentRuns runs s l p))"
  shows "\<exists>run \<in> set runs. sr_status run = DQueued \<and> may_start run \<and>
           tn_delegationId intent = sr_subagentId run \<and> tn_workerId intent = sr_workerId run \<and>
           tn_writeSet intent = run_write_set run \<and> tn_parallelBatch intent = run_batch run \<and>
           tn_argv intent = [''run-delegation'', ''--session-id'', s, ''--worker-id'',
             sr_workerId run, ''--delegation-id'', sr_subagentId run]"
proof -
  obtain batch run where batch: "batch = run_batch run" and run: "run \<in> set (dispatchable_runs runs)"
    and eq: "intent = dispatch_intent s runs
        \<lparr>db_parallelBatch = batch,
         db_subagentIds = map sr_subagentId (filter (\<lambda>r. run_batch r = batch) (dispatchable_runs runs)),
         db_workerIds = js_unique (map sr_workerId
            (filter (\<lambda>r. run_batch r = batch) (dispatchable_runs runs))),
         db_writeSets = map (\<lambda>r. \<lparr>dw_subagentId = sr_subagentId r, dw_writeSet = run_write_set r,
                              dw_writeSetSource = run_write_set_source r\<rparr>)
            (filter (\<lambda>r. run_batch r = batch) (dispatchable_runs runs))\<rparr> (sr_subagentId run)"
    using intent
    by (auto simp: projectSubagentSchedulerTickFromSubagentRuns_def
        createSubagentSchedulerTickDispatchIntents_def Let_def
        projectSubagentSchedulerDispatchPlanFromSubagentRuns_def createSubagentDispatchBatches_def)
  have member: "run \<in> set runs" "sr_status run = DQueued" "may_start run"
    using run by (auto simp: dispatchable_runs_def)
  let ?rs = "filter (\<lambda>r. run_batch r = batch) (dispatchable_runs runs)"
  have dist': "distinct (map sr_subagentId ?rs)"
    using dist by (simp add: dispatchable_runs_def distinct_map_filter)
  have find_run: "find (\<lambda>r. sr_subagentId r = sr_subagentId run) runs = Some run"
    using dist member(1) by (rule find_distinct)
  have find_rs: "find (\<lambda>r. sr_subagentId r = sr_subagentId run) ?rs = Some run"
    using dist' run batch by (intro find_distinct) simp_all
  have find_ws: "find (\<lambda>w. dw_subagentId w = k)
        (map (\<lambda>r. \<lparr>dw_subagentId = sr_subagentId r, dw_writeSet = run_write_set r,
                    dw_writeSetSource = run_write_set_source r\<rparr>) rs) =
      map_option (\<lambda>r. \<lparr>dw_subagentId = sr_subagentId r, dw_writeSet = run_write_set r,
                    dw_writeSetSource = run_write_set_source r\<rparr>)
        (find (\<lambda>r. sr_subagentId r = k) rs)" for k rs
    by (induction rs) auto
  show ?thesis
    using member by (intro bexI [of _ run])
      (simp_all add: eq dispatch_intent_def Let_def find_run find_ws find_rs [unfolded batch] batch)
qed

section \<open>Outbox ids\<close>

lemma run_journal_inv: "journal_inv b \<Longrightarrow> journal_inv (fst (run_log exec cs b))"
  by (rule journaled_board.inv_run)

lemma new_journal_inv:
  assumes "state_inv s" and "os_proposalOutbox s = []" and "inj clock"
  shows "journal_inv (newTaskBoard (OperationsSeed s) clock None)"
  using assms
  by (simp add: journal_inv_def board_inv_def newTaskBoard_def fresh_outbox_def
      cloneTaskOperationsState_def state_inv_def)

section \<open>Domain versions\<close>

lemma digits_value_snoc: "digits_value (xs @ [c]) = 10 * digits_value xs + (of_char c - 48)"
  by (simp add: digits_value_def)

lemma digits_value_show: "digits_value (show_nat n) = n"
proof (induction n rule: show_nat.induct)
  case (1 n)
  show ?case
  proof (cases "n < 10")
    case True
    then show ?thesis by (simp add: show_nat_small digits_value_def)
  next
    case False
    with 1 show ?thesis by (simp add: show_nat_large digits_value_snoc)
  qed
qed

lemma show_nat_digits: "list_all is_digit (show_nat n)"
proof (induction n rule: show_nat.induct)
  case (1 n)
  have digit: "m < 10 \<Longrightarrow> is_digit (char_of (48 + m))" for m :: nat
    by (simp add: is_digit_def Let_def)
  show ?case
  proof (cases "n < 10")
    case True
    then show ?thesis using digit by (simp add: show_nat_small)
  next
    case False
    then show ?thesis using 1 digit [of "n mod 10"] by (simp add: show_nat_large)
  qed
qed

lemma digit_not_space: "is_digit c \<Longrightarrow> \<not> is_js_space c"
  by (auto simp: is_digit_def is_js_space_def Let_def)

lemma dropWhile_hd_keep: "xs \<noteq> [] \<Longrightarrow> \<not> P (hd xs) \<Longrightarrow> dropWhile P xs = xs"
  by (cases xs) simp_all

lemma js_trim_digits_end:
  assumes "list_all is_digit ds" and "ds \<noteq> []" and "\<not> is_js_space c"
  shows "js_trim (c # p @ ds) = c # p @ ds"
proof -
  have "is_digit (last ds)" using assms(1,2) by (simp add: list_all_iff)
  then have "\<not> is_js_space (hd (rev (c # p @ ds)))"
    using assms(2) by (simp add: hd_rev digit_not_space hd_append)
  then show ?thesis
    using assms(3) by (simp add: js_trim_def dropWhile_hd_keep del: rev.simps rev_append)
qed

lemma version_tail_digits:
  assumes "list_all is_digit ds" and "ds \<noteq> []"
  shows "version_tail (''/v'' @ ds) = Some ds"
    and "list_all is_digit ms \<Longrightarrow> ms \<noteq> [] \<Longrightarrow> version_tail (''/v'' @ ds @ ''.'' @ ms) = Some ds"
proof -
  have all: "takeWhile is_digit ds = ds" "dropWhile is_digit ds = []"
    using assms(1) by (simp_all add: list_all_iff takeWhile_eq_all_conv dropWhile_eq_Nil_conv)
  have dot: "\<not> is_digit (CHR ''.'')" by (simp add: is_digit_def Let_def)
  show "version_tail (''/v'' @ ds) = Some ds"
    using assms(2) by (simp add: version_tail_def Let_def all)
  have pos: "\<And>x. x \<in> set ds \<Longrightarrow> is_digit x" using assms(1) by (simp add: list_all_iff)
  show "version_tail (''/v'' @ ds @ ''.'' @ ms) = Some ds"
    if "list_all is_digit ms" "ms \<noteq> []"
    using that assms(2) dot
    by (simp add: version_tail_def Let_def takeWhile_append2 [OF pos] dropWhile_append2 [OF pos])
qed

lemma parse_tasks_version:
  assumes "version_tail (''/v'' @ rest) = Some ds" and "js_trim (''tasks/v'' @ rest) = ''tasks/v'' @ rest"
    and "rest \<noteq> []"
  shows "parseVersion (''tasks/v'' @ rest) = Some (''tasks'', digits_value ds)"
proof -
  obtain r rs where rest: "rest = r # rs" using assms(3) by (cases rest) auto
  have upt: "[1..<length (''tasks/v'' @ rest)] = 1 # 2 # 3 # 4 # 5 # [6..<length (''tasks/v'' @ rest)]"
    by (simp add: rest upt_conv_Cons eval_nat_numeral del: upt_Suc)
  have "find (\<lambda>i. list_all (\<lambda>c. \<not> is_line_terminator c) (take i (''tasks/v'' @ rest)) \<and>
      version_tail (drop i (''tasks/v'' @ rest)) \<noteq> None) [1..<length (''tasks/v'' @ rest)] = Some 5"
    unfolding upt using assms(1)
    by (simp add: version_tail_def [of "_ # _ # _ # _"] is_line_terminator_def Let_def)
  then show ?thesis
    using assms(1,2) by (simp add: parseVersion_def Let_def)
qed

end
