(* ===== verification/Session_Plane_Laws.thy ===== *)
theory Session_Plane_Laws
  imports Session_Plane_Json Session_Turn_Laws Task_Properties
begin

text \<open>
  The session-backed task plane refines the board: as long as the session is active and its
  journal projects to a state that keeps the board's invariant, every method of the plane returns
  what the board's method gives on that state, and afterwards the journal projects to the state
  returned, up to the bookkeeping fields of notifications. What the plane relies on of the store
  is the locale \<open>journal_writer\<close>.
\<close>

section \<open>The interface of the store\<close>

definition acceptable :: "append_input \<Rightarrow> bool" where
  "acceptable input \<longleftrightarrow> js_trim (ap_eventType input) \<noteq> [] \<and> ap_schemaVersion input = None \<and>
     ap_payload input \<noteq> JUndefined"

definition stored_as :: "append_input \<Rightarrow> journal_entry \<Rightarrow> bool" where
  "stored_as input e \<longleftrightarrow>
     jn_eventType e = js_trim (ap_eventType input) \<and> jn_payload e = json_copy (ap_payload input) \<and>
     jn_turnId e = ap_turnId input \<and>
     (\<forall>t. ap_createdAtMs input = Some t \<longrightarrow> jn_createdAtMs e = t)"

locale journal_writer =
  fixes ok :: "'s \<Rightarrow> bool"
    and entries :: "'s \<Rightarrow> journal_entry list"
    and put :: "append_input \<Rightarrow> 's \<Rightarrow> (session_error + journal_entry) \<times> 's"
  assumes write_appends: "ok s \<Longrightarrow> acceptable input \<Longrightarrow>
    \<exists>e s'. put input s = (Inr e, s') \<and> ok s' \<and> entries s' = entries s @ [e] \<and> stored_as input e"
begin

lemma write_all:
  "ok s \<Longrightarrow> (\<And>input. input \<in> set inputs \<Longrightarrow> acceptable input) \<Longrightarrow>
   \<exists>es s'. append_all put inputs s = (Inr (), s') \<and> ok s' \<and> entries s' = entries s @ es \<and>
           list_all2 stored_as inputs es"
proof (induction inputs arbitrary: s)
  case Nil
  then show ?case by simp
next
  case (Cons input inputs)
  obtain e s1 where one: "put input s = (Inr e, s1)" "ok s1" "entries s1 = entries s @ [e]"
    "stored_as input e"
    using write_appends [OF Cons.prems(1), of input] Cons.prems(2) by auto
  obtain es s2 where two: "append_all put inputs s1 = (Inr (), s2)" "ok s2"
    "entries s2 = entries s1 @ es" "list_all2 stored_as inputs es"
    using Cons.IH [OF one(2)] Cons.prems(2) by auto
  show ?case
    by (rule exI [of _ "e # es"], rule exI [of _ s2]) (simp add: one two)
qed

end

definition active_session :: "string \<Rightarrow> session_store \<Rightarrow> bool" where
  "active_session k s \<longleftrightarrow> store_inv s \<and> (\<exists>r. lifecycleRequireActive k (st_db s) = Inr r)"

lemma append_to_session:
  assumes "active_session k s" and "acceptable input"
  shows "\<exists>e s'. storeAppendJournal k input s = (Inr e, s') \<and> active_session k s' \<and>
    entries_of k (st_db s') = entries_of k (st_db s) @ [e] \<and> stored_as input e"
proof -
  obtain r where r: "lifecycleRequireActive k (st_db s) = Inr r" and inv: "store_inv s"
    using assms(1) by (auto simp: active_session_def)
  then have k: "isSessionId k" "sqlGetSession k (st_db s) = Some r" "ss_id r = k" "ss_status r = Active"
    "current r (st_db s)"
    using sqlGetSession_Some currentI by (auto simp: lifecycleRequireActive_Inr)
  have tab: "tables_inv (st_db s)" using inv by (simp add: store_inv_def)
  define e where "e = appended_entry r input s"
  define s' where "s' = (if ap_createdAtMs input = None then store_tick s else s)
      \<lparr>st_db := insert_entry e (st_db s)\<rparr>"
  have app: "storeAppendJournal k input s = (Inr e, s')"
    using append_succeeds [OF k(5) tab, of input] assms(2) r
    by (simp add: storeAppendJournal_eq [OF inv] acceptable_def e_def s'_def)
  have db: "st_db s' = insert_entry e (st_db s)" "jn_sessionId e = k"
    by (simp_all add: s'_def e_def k)
  have "store_inv s'" using exec_store_inv [OF inv, of "CmdAppend k input"] app by simp
  moreover have "\<exists>r'. lifecycleRequireActive k (st_db s') = Inr r'"
    using k by (simp add: lifecycleRequireActive_Inr db store_simps)
  moreover have "stored_as input e"
    by (auto simp: stored_as_def e_def appended_entry_def next_entry_def)
  ultimately show ?thesis
    using app db by (simp add: active_session_def store_simps)
qed

interpretation session_journal: journal_writer "active_session k"
  "\<lambda>s. entries_of k (st_db s)" "storeAppendJournal k" for k
  by unfold_locales (rule append_to_session)

section \<open>The projected state\<close>

definition session_task_state :: "string \<Rightarrow> session_store \<Rightarrow> js_error + task_operations_state" where
  "session_task_state k s = project_from (createInitialTaskOperationsState NoSeed)
     (List.map_filter stored_task_entry (entries_of k (st_db s)))"

lemma active_sessionD:
  assumes "active_session k s"
  obtains r where "isSessionId k" "sqlGetSession k (st_db s) = Some r" "ss_id r = k"
    "ss_status r = Active" "tables_inv (st_db s)"
  using assms sqlGetSession_Some that
  by (auto simp: active_session_def lifecycleRequireActive_Inr store_inv_def)

lemma project_session:
  assumes "active_session k s"
  shows "\<exists>r. ss_id r = k \<and> (\<forall>create. ensureSession k create s = (Inr r, s))"
    and "projectSessionTaskState k create s = (lift_js (session_task_state k s), s)"
proof -
  obtain r where r: "isSessionId k" "sqlGetSession k (st_db s) = Some r" "ss_id r = k"
    "tables_inv (st_db s)"
    using assms by (rule active_sessionD)
  then have ensure: "ensureSession k create s = (Inr r, s)" for create
    by (simp add: ensureSession_def storeGetSession_def lifecycleGet_def)
  then show "\<exists>r. ss_id r = k \<and> (\<forall>create. ensureSession k create s = (Inr r, s))"
    using r(3) by blast
  show "projectSessionTaskState k create s = (lift_js (session_task_state k s), s)"
    by (simp add: projectSessionTaskState_def readSessionTaskJournal_def ensure r(3) journalList_def
        list_entries(2) [OF r(4)] projectTaskOperationsFromJournal_def session_task_state_def)
qed

lemma map_filter_append:
  "List.map_filter f (xs @ ys) = List.map_filter f xs @ List.map_filter f ys"
  by (simp add: List.map_filter_def)

lemma stored_entries_same:
  assumes "list_all2 stored_as (map task_append_input es) rows"
    and "\<And>e. e \<in> set es \<Longrightarrow> wf_entry e \<and> json_event (je_payload e)"
  shows "list_all2 same_event es (List.map_filter stored_task_entry rows)"
  using assms
proof (induction es arbitrary: rows)
  case Nil
  then show ?case by (simp add: map_filter_simps)
next
  case (Cons e es)
  obtain row rows' where rows: "rows = row # rows'" and row: "stored_as (task_append_input e) row"
    and rest: "list_all2 stored_as (map task_append_input es) rows'"
    using Cons.prems(1) by (auto simp: list_all2_Cons1)
  have wf: "wf_payload (je_payload e)" and json: "is_json (js_of_payload (je_payload e))"
    using Cons.prems(2) [of e] by (simp_all add: wf_entry_def json_event_ok)
  have "jn_eventType row = payload_event_type (je_payload e)"
    "jn_payload row = js_of_payload (je_payload e)" "jn_createdAtMs row = je_createdAtMs e"
    using row by (simp_all add: stored_as_def task_append_input_def Let_def normalize_own [OF wf]
        json_copy_id [OF json])
  from stored_own [OF wf this(1,2)] this(3) Cons.IH [OF rest] Cons.prems(2) show ?case
    by (simp add: rows map_filter_simps same_event_def je_payload_def)
qed

text \<open>States that agree keep the invariant together.\<close>

lemma find_same_notice:
  "list_all2 same_notice ns' ns \<Longrightarrow>
   rel_option same_notice (find_by_id nr_id ns' k) (find_by_id nr_id ns k)"
  by (induction rule: list_all2_induct) (auto simp: find_by_id_def same_notice_iff)

lemma agrees_state_inv:
  assumes "agrees s t" and "state_inv t"
  shows "state_inv s"
proof -
  note A = agreesD [OF assms(1)]
  have find: "rel_option same_notice (find_by_id nr_id (notifications_of s) k)
      (find_by_id nr_id (notifications_of t) k)" for k
    using A(9) by (rule find_same_notice)
  have noticed: "noticed (notifications_of s) k r op = noticed (notifications_of t) k r op" for k r op
    using find [of k] by (auto simp: noticed_def same_notice_iff option_rel_Some1 option_rel_Some2
        split: option.splits)
  have "notice_ok n \<and> backed s n" if n: "n \<in> set (notifications_of s)" for n
  proof -
    obtain m where m: "m \<in> set (notifications_of t)" "same_notice n m"
      using A(9) n by (metis in_set_conv_nth list_all2_conv_all_nth)
    have "notice_ok m \<and> backed t m" using assms(2) m(1) by (simp add: state_inv_def)
    with m(2) show ?thesis
      by (auto simp: notice_ok_def backed_def same_notice_iff A split: option.splits)
  qed
  moreover have "unique_ids s"
    using assms(2) same_notice_ids [OF A(9)] by (simp add: state_inv_def unique_ids_def A)
  ultimately show ?thesis
    using assms(2) A(1) noticed
    by (simp add: state_inv_def A delegation_noticed_def verification_noticed_def)
qed

section \<open>One mutation\<close>

lemma js_of_payload_defined [simp]: "js_of_payload p \<noteq> JUndefined"
  by (cases p) (simp_all add: js_object_def js_of_task_state_def)

definition plane_board :: "task_operations_state \<Rightarrow> session_plane \<Rightarrow> board" where
  "plane_board st p = newTaskBoard (OperationsSeed st) (\<lambda>n. sp_now p (sp_nows p + n)) None"

definition plane_ok :: "string \<Rightarrow> session_plane \<Rightarrow> task_operations_state \<Rightarrow> bool" where
  "plane_ok k p st \<longleftrightarrow>
     active_session k (sp_store p) \<and> session_task_state k (sp_store p) = Inr st \<and> inj (sp_now p) \<and>
     state_inv st \<and> json_state st \<and> fresh_outbox (plane_board st p)"

lemma plane_board_fields:
  assumes "materialized st"
  shows "tb_state (plane_board st p) = st" "tb_journal (plane_board st p) = []"
    "tb_clock (plane_board st p) = (\<lambda>n. sp_now p (sp_nows p + n))" "tb_ticks (plane_board st p) = 0"
    "tb_outboxId (plane_board st p) = defaultOutboxEntryIdFactory"
  using assms by (simp_all add: plane_board_def newTaskBoard_def cloneTaskOperationsState_def)

lemma plane_board_inv:
  assumes "plane_ok k p st"
  shows "materialized st" and "journal_inv (plane_board st p)" and "json_board (plane_board st p)"
proof -
  show mat: "materialized st" using assms by (simp add: plane_ok_def state_inv_def)
  have "inj (sp_now p)" using assms by (simp add: plane_ok_def)
  then have "inj (\<lambda>n. sp_now p (sp_nows p + n))" by (intro injI) (simp add: inj_eq)
  then show "journal_inv (plane_board st p)"
    using assms by (simp add: journal_inv_def plane_board_fields [OF mat] board_inv_def plane_ok_def)
  show "json_board (plane_board st p)"
    using assms by (simp add: json_board_def plane_board_fields [OF mat] plane_ok_def)
qed

lemma fresh_plane_later:
  assumes "materialized st" and "materialized st'"
    and "os_proposalOutbox st' = os_proposalOutbox (tb_state b)" and "fresh_outbox b"
    and "tb_clock b = (\<lambda>n. sp_now p (sp_nows p + n))"
    and "sp_now p' = sp_now p" and "sp_nows p' = sp_nows p + tb_ticks b"
  shows "fresh_outbox (plane_board st' p')"
  using assms(3-) by (auto simp: fresh_outbox_def plane_board_fields [OF assms(2)] add.assoc)

text \<open>What each callback does to the board is a run of board commands.\<close>

definition quiet :: "task_command \<Rightarrow> bool" where
  "quiet c \<longleftrightarrow> json_command c \<and> (case c of CDrainJournal _ \<Rightarrow> False | _ \<Rightarrow> True)"

lemma quiet_log: "(\<And>c. c \<in> set cs \<Longrightarrow> quiet c) \<Longrightarrow> snd (run_log exec cs b) = []"
proof (induction cs arbitrary: b)
  case Nil
  then show ?case by simp
next
  case (Cons c cs)
  have "quiet c" using Cons.prems by simp
  then have "snd (exec c b) = []" by (cases c) (simp_all add: quiet_def)
  with Cons show ?case by (simp add: run_log_Cons del: run_log.simps(2))
qed

lemma run_clock:
  "journal_inv b \<Longrightarrow> tb_clock (fst (run_log exec cs b)) = tb_clock b"
proof (induction cs arbitrary: b)
  case Nil
  then show ?case by simp
next
  case (Cons c cs)
  then show ?case
    using exec_outbox [OF Cons.prems, of c]
    by (simp add: run_log_Cons exec_journal_inv outbox_step_def del: run_log.simps(2))
qed

lemma mutate_refines:
  assumes ok: "plane_ok k p st"
    and run: "mutation (plane_board st p) = (outcome, b1)"
      "b1 = fst (run_log exec cs (plane_board st p))" "\<And>c. c \<in> set cs \<Longrightarrow> quiet c"
  shows "\<exists>p' st'. mutateSessionTaskState k mutation create p =
      (map_sum JsError (\<lambda>x. (tb_state b1, x)) outcome, p') \<and> plane_ok k p' st' \<and>
    (case outcome of Inl _ \<Rightarrow> sp_store p' = sp_store p \<and> st' = st
     | Inr _ \<Rightarrow> agrees st' (tb_state b1))"
proof -
  note inv = plane_board_inv [OF ok]
  note fields = plane_board_fields [OF inv(1), of p]
  have active: "active_session k (sp_store p)" and state: "session_task_state k (sp_store p) = Inr st"
    using ok by (simp_all add: plane_ok_def)
  obtain r where ensure: "\<And>create. ensureSession k create (sp_store p) = (Inr r, sp_store p)"
    and r: "ss_id r = k"
    using project_session(1) [OF active] by blast
  define p1 where "p1 = p\<lparr>sp_nows := sp_nows p + tb_ticks b1\<rparr>"
  have inv1: "journal_inv b1"
    unfolding run(2) by (rule journaled_board.inv_run [OF inv(2)])
  then have board1: "board_inv b1" and fresh1: "fresh_outbox b1" by (simp_all add: journal_inv_def)
  have clock1: "tb_clock b1 = (\<lambda>n. sp_now p (sp_nows p + n))"
    unfolding run(2) by (simp add: run_clock [OF inv(2)] fields)
  have start: "mutateSessionTaskState k mutation create p =
      (case outcome of
         Inl e \<Rightarrow> (Inl (JsError e), p1)
       | Inr x \<Rightarrow>
           (case drainJournal None b1 of
              (Inl e, b2) \<Rightarrow> (Inl (JsError e), p1)
            | (Inr entries, b2) \<Rightarrow>
                chain (on_store (append_all (storeAppendJournal k) (map task_append_input entries)) p1)
                  (\<lambda>_ p4. (Inr (snapshotOperations b2, x), p4))))"
    using project_session(2) [OF active, of "Some False"] ensure r state
    by (simp add: mutateSessionTaskState_def on_store_def plane_board_def [symmetric] run(1) p1_def
        Let_def split: sum.split prod.split)
  show ?thesis
  proof (cases outcome)
    case (Inl e)
    have "fresh_outbox (plane_board st p)" using ok by (simp add: plane_ok_def)
    then have "fresh_outbox (plane_board st p1)"
      by (auto simp: fresh_outbox_def plane_board_fields [OF inv(1)] p1_def add.assoc)
    then have "plane_ok k p1 st" using ok by (simp add: plane_ok_def p1_def)
    with start Inl show ?thesis by (auto simp: p1_def)
  next
    case (Inr x)
    define es where "es = tb_journal b1"
    have wf: "wf_entry e \<and> json_event (je_payload e)" if "e \<in> set es" for e
      using board1 run_json [OF inv(3), of cs] inv(2) run(3) that
      by (auto simp: board_inv_def json_board_def journal_inv_def quiet_def es_def run(2))
    obtain new st1 where new: "new = es" "project_from st new = Inr st1" "agrees st1 (tb_state b1)"
      using journaled_board.run_replay [OF inv(2), of st cs] inv(1) quiet_log [OF run(3)]
      by (auto simp: fields run(2) es_def)
    have drain: "drainJournal None b1 = (Inr es, b1\<lparr>tb_journal := []\<rparr>)"
      using drainJournal_prefix [of b1 None] board1 by (simp add: board_inv_def es_def)
    have fit: "acceptable input" if "input \<in> set (map task_append_input es)" for input
      using wf that
      by (auto simp: acceptable_def task_append_input_def Let_def wf_entry_def normalize_own)
    have "active_session k (sp_store p1)" using active by (simp add: p1_def)
    from session_journal.write_all [of k "sp_store p1" "map task_append_input es", OF this fit]
    obtain rows s2 where rows: "append_all (storeAppendJournal k) (map task_append_input es) (sp_store p1) =
        (Inr (), s2)" "active_session k s2"
      "entries_of k (st_db s2) = entries_of k (st_db (sp_store p)) @ rows"
      "list_all2 stored_as (map task_append_input es) rows"
      by (auto simp: p1_def)
    define p2 where "p2 = p1\<lparr>sp_store := s2\<rparr>"
    have snap: "snapshotOperations (b1\<lparr>tb_journal := []\<rparr>) = tb_state b1"
      using board1 snapshotOperations_inv [of b1] by (simp add: snapshotOperations_def)
    have result: "mutateSessionTaskState k mutation create p = (Inr (tb_state b1, x), p2)"
      using start by (simp add: Inr drain on_store_def rows(1) p2_def snap)
    have "project_from st (List.map_filter stored_task_entry rows) = Inr st1"
      using project_same [OF stored_entries_same [OF rows(4) wf]] new by simp
    then have state1: "session_task_state k s2 = Inr st1"
      using state by (simp add: session_task_state_def rows(3) map_filter_append project_from_append)
    have st1: "state_inv st1" using agrees_state_inv [OF new(3)] board1 by (simp add: board_inv_def)
    have json1: "json_state st1"
      using run_json [OF inv(3), of cs] inv(2) run(3) agreesD(7) [OF new(3)]
      by (simp add: json_board_def json_state_def journal_inv_def quiet_def run(2))
    have "fresh_outbox (plane_board st1 p2)"
      by (rule fresh_plane_later [OF inv(1) agreesD(1) [OF new(3)] agreesD(8) [OF new(3)] fresh1 clock1])
        (simp_all add: p2_def p1_def)
    then have "plane_ok k p2 st1"
      using ok rows(2) state1 st1 json1 by (simp add: plane_ok_def p2_def p1_def)
    with result new(3) show ?thesis by (auto simp: Inr)
  qed
qed

section \<open>The methods\<close>

fun json_plane :: "plane_command \<Rightarrow> bool" where
  "json_plane (PlaneEnqueueProposal input) = json_fields_ok (pi_payload input)"
| "json_plane _ = True"

lemma discard_eq: "discard r = (map_sum id (\<lambda>_. ()) (fst r), snd r)"
  by (cases r) (auto simp: discard_def and_then_def split: sum.split)

lemma claim_run:
  "\<exists>cs. snd (claimDelegation input b) = fst (run_log exec cs b) \<and> (\<forall>c \<in> set cs. quiet c)"
proof (cases "selectDelegationForClaim (snapshotOperations b) input")
  case (Inl e)
  then show ?thesis
    by (intro exI [of _ "[]"]) (simp add: claimDelegation_def)
next
  case (Inr r)
  then show ?thesis
    by (intro exI [of _ "[CSetDelegationStatus
        \<lparr>du_id = ci_id input, du_status = DRunning, du_error = None, du_reason = None,
         du_resultSummary = None, du_observedWriteSet = None, du_observedWriteSetSource = None\<rparr>]"])
      (simp add: claimDelegation_def quiet_def)
qed

lemma set_statuses_run:
  "\<exists>cs. snd (set_statuses updates b) = fst (run_log exec cs b) \<and> (\<forall>c \<in> set cs. quiet c)"
proof (induction updates arbitrary: b)
  case Nil
  show ?case by (intro exI [of _ "[]"]) simp
next
  case (Cons u us)
  obtain r b1 where step: "setDelegationStatus u b = (r, b1)" by (cases "setDelegationStatus u b")
  show ?case
  proof (cases r)
    case (Inl e)
    with step show ?thesis
      by (intro exI [of _ "[CSetDelegationStatus u]"]) (simp add: quiet_def)
  next
    case (Inr x)
    obtain cs where "snd (set_statuses us b1) = fst (run_log exec cs b1)" "\<forall>c \<in> set cs. quiet c"
      using Cons.IH by blast
    with step Inr show ?thesis
      by (intro exI [of _ "CSetDelegationStatus u # cs"])
        (simp add: run_log_Cons quiet_def del: run_log.simps(2))
  qed
qed

lemma reconcile_run:
  "\<exists>cs. snd (reconcileTaskBoardStartup options b) = fst (run_log exec cs b) \<and> (\<forall>c \<in> set cs. quiet c)"
proof -
  have cont: "snd (and_then r (\<lambda>_ b'. (Inr (snapshotOperations b', running_ids b), b'))) = snd r"
    for r :: "'a outcome"
    by (cases r) (auto simp: and_then_def split: sum.split)
  show ?thesis
    using set_statuses_run [of "map (reconciliation_update options) (running_ids b)" b]
    by (cases "running_ids b = []")
      (auto simp: reconcileTaskBoardStartup_def cont Let_def intro: exI [of _ "[]"])
qed

lemma plane_mutation_run:
  assumes "json_plane c"
  shows "\<exists>cs. snd (plane_mutation c b) = fst (run_log exec cs b) \<and> (\<forall>c \<in> set cs. quiet c)"
proof -
  have one: "\<exists>cs. fst (exec c' b) = fst (run_log exec cs b) \<and> (\<forall>c \<in> set cs. quiet c)"
    if "quiet c'" for c'
    using that by (intro exI [of _ "[c']"]) (simp add: run_log_Cons del: run_log.simps(2))
  show ?thesis
  proof (cases c)
    case (PlaneEnqueueDelegation input)
    then show ?thesis using one [of "CUpsertDelegation input"] by (simp add: discard_eq quiet_def)
  next
    case (PlaneSetDelegationStatus input)
    then show ?thesis using one [of "CSetDelegationStatus input"] by (simp add: discard_eq quiet_def)
  next
    case (PlaneClaimDelegation input)
    then show ?thesis using claim_run [of input b] by (simp add: discard_eq)
  next
    case (PlaneUpsertVerification input)
    then show ?thesis using one [of "CUpsertVerification input"] by (simp add: discard_eq quiet_def)
  next
    case (PlaneEnqueueProposal input)
    then show ?thesis
      using one [of "CEnqueueProposal input"] assms by (simp add: discard_eq quiet_def)
  next
    case (PlaneTransitionProposal input)
    then show ?thesis using one [of "CTransitionProposal input"] by (simp add: discard_eq quiet_def)
  next
    case (PlaneApplyProposal k)
    then show ?thesis using one [of "CApplyProposal k"] by (simp add: discard_eq quiet_def)
  next
    case (PlaneDrainProposalOutbox limit)
    then show ?thesis using one [of "CDrainOutbox limit"] by (simp add: discard_eq quiet_def)
  next
    case (PlaneReconcileStartup options)
    then show ?thesis using reconcile_run [of options b] by (simp add: discard_eq)
  qed
qed

lemma run_plane_refines:
  assumes "plane_ok k p st" and "json_plane c"
  shows "\<exists>p' st'. plane_ok k p' st' \<and>
    (case plane_mutation c (plane_board st p) of
       (Inl e, b) \<Rightarrow> run_plane k create c p = (Inl (JsError e), p') \<and> sp_store p' = sp_store p \<and> st' = st
     | (Inr _, b) \<Rightarrow> run_plane k create c p = (Inr (tb_state b), p') \<and> agrees st' (tb_state b))"
proof -
  obtain outcome b1 where m: "plane_mutation c (plane_board st p) = (outcome, b1)"
    by (cases "plane_mutation c (plane_board st p)")
  moreover obtain cs where "b1 = fst (run_log exec cs (plane_board st p))" "\<And>c. c \<in> set cs \<Longrightarrow> quiet c"
    using plane_mutation_run [OF assms(2), of "plane_board st p"] m by auto
  ultimately obtain p' st' where "mutateSessionTaskState k (plane_mutation c) create p =
      (map_sum JsError (\<lambda>x. (tb_state b1, x)) outcome, p')" "plane_ok k p' st'"
    "case outcome of Inl _ \<Rightarrow> sp_store p' = sp_store p \<and> st' = st | Inr _ \<Rightarrow> agrees st' (tb_state b1)"
    using mutate_refines [OF assms(1), of "plane_mutation c" outcome b1 cs create] by blast
  then show ?thesis
    by (intro exI [of _ p'] exI [of _ st']) (simp add: m run_plane_def split: sum.splits)
qed

text \<open>A run of the plane's methods; what a method returns or throws is left out.\<close>

definition session_plane_step ::
  "string \<Rightarrow> bool option \<Rightarrow> plane_command \<Rightarrow> session_plane \<Rightarrow> session_plane \<times> unit list" where
  "session_plane_step k create c p = (snd (run_plane k create c p), [])"

lemma plane_runs:
  "plane_ok k p st \<Longrightarrow> (\<And>c. c \<in> set cs \<Longrightarrow> json_plane c) \<Longrightarrow>
   \<exists>st'. plane_ok k (fst (run_log (session_plane_step k create) cs p)) st'"
proof (induction cs arbitrary: p st)
  case Nil
  then show ?case by auto
next
  case (Cons c cs)
  obtain p' st' where "plane_ok k p' st'" "snd (run_plane k create c p) = p'"
    using run_plane_refines [OF Cons.prems(1), of c create] Cons.prems(2)
    by (cases "plane_mutation c (plane_board st p)"; cases "fst (plane_mutation c (plane_board st p))")
      auto
  with Cons.IH [of p' st'] Cons.prems(2) show ?case
    by (simp add: run_log_Cons session_plane_step_def del: run_log.simps(2))
qed

section \<open>A new session\<close>

lemma no_session_no_entries:
  assumes "tables_inv d" and "sqlGetSession k d = None"
  shows "entries_of k d = []"
proof -
  have "jn_sessionId e \<noteq> k" if "e \<in> set (tab_journal d)" for e
    using tables_invD(5) [OF assms(1) that] assms(2) by (auto simp: entry_ok_def)
  then show ?thesis by (simp add: entries_of_def filter_empty_conv)
qed

definition named_session :: "string \<Rightarrow> create_session_input" where
  "named_session k = \<lparr>cs_sessionId = Some k, cs_metadata = None, cs_schemaVersion = None\<rparr>"

lemma create_named:
  assumes "store_inv s" and "isSessionId k" and "sqlGetSession k (st_db s) = None"
  shows "\<exists>r s'. storeCreateSession (named_session k) s = (Inr r, s') \<and> ss_id r = k \<and>
    active_session k s' \<and> entries_of k (st_db s') = []"
proof -
  have k: "k \<notin> ss_id ` set (tab_sessions (st_db s))"
    using assms(3) sqlGetSession_None by blast
  obtain v where made: "storeCreateSession (named_session k) s =
      (Inr \<lparr>ss_id = k, ss_metadata = json_fields [], ss_status = Active, ss_schemaVersion = v,
            ss_createdAtMs = store_time s, ss_updatedAtMs = store_time s, ss_archivedAtMs = None,
            ss_archiveReason = None\<rparr>,
       (store_tick s)\<lparr>st_db := insert_session k [] v (store_time s) (st_db s)\<rparr>)"
    using assms(2) k
    by (simp add: storeCreateSession_def lifecycleCreate_def named_session_def sqlCreateSession_db)
  have "store_inv (snd (storeCreateSession (named_session k) s))"
    using exec_store_inv [OF assms(1), of "CmdCreate (named_session k)"] by simp
  then have "active_session k (snd (storeCreateSession (named_session k) s))"
    using assms(2) k by (simp add: active_session_def lifecycleRequireActive_Inr made store_simps)
  moreover have "entries_of k (st_db (snd (storeCreateSession (named_session k) s))) = []"
    using no_session_no_entries [OF _ assms(3)] assms(1)
    by (simp add: made store_simps store_inv_def)
  ultimately show ?thesis by (simp add: made)
qed

abbreviation empty_state :: task_operations_state where
  "empty_state \<equiv> createInitialTaskOperationsState NoSeed"

lemma new_session_plane:
  assumes "active_session k (sp_store p)" and "entries_of k (st_db (sp_store p)) = []"
    and "inj (sp_now p)"
  shows "plane_ok k p empty_state"
proof -
  have "inj (\<lambda>n. sp_now p (sp_nows p + n))"
    using assms(3) by (intro injI) (simp add: inj_eq)
  then have "journal_inv (plane_board empty_state p)"
    unfolding plane_board_def
    by (intro new_journal_inv [OF empty_state_inv]) (simp_all add: empty_operations_def)
  then have "fresh_outbox (plane_board empty_state p)" by (simp add: journal_inv_def)
  moreover have "json_state empty_state" by (simp add: json_state_def empty_operations_def)
  ultimately show ?thesis
    using assms empty_state_inv by (simp add: plane_ok_def session_task_state_def map_filter_simps)
qed

section \<open>Other entries\<close>

text \<open>Entries that are not task events leave the projected state alone.\<close>

lemma other_entry_same_state:
  assumes "entries_of k (st_db s') = entries_of k (st_db s) @ es"
    and "\<And>e. e \<in> set es \<Longrightarrow> \<not> isTaskEventType (jn_eventType e)"
  shows "session_task_state k s' = session_task_state k s"
proof -
  have "List.map_filter stored_task_entry es = []"
    using assms(2) by (auto simp: List.map_filter_def filter_empty_conv stored_other)
  then show ?thesis by (simp add: session_task_state_def assms(1) map_filter_append)
qed

lemma not_task_types [simp]:
  "\<not> isTaskEventType ''control.rewind''" "\<not> isTaskEventType (step_event_str ev)"
  "\<not> isTaskEventType STREAM_JOURNAL_EVENT_TYPE" "\<not> isTaskEventType AUDIT_JOURNAL_EVENT_TYPE"
  "\<not> isTaskEventType HANDOFF_SUMMARY_EVENT_TYPE"
  by (simp_all add: isTaskEventType_def TASK_EVENT_TYPE_SET_def
      STREAM_JOURNAL_EVENT_TYPE_def AUDIT_JOURNAL_EVENT_TYPE_def HANDOFF_SUMMARY_EVENT_TYPE_def)
    (cases ev; simp)

lemma rewind_keeps_task_state:
  assumes "store_inv s" and "lifecycleRequireActive k (st_db s) = Inr r"
    and "rewind_target k ci (st_db s) = Inr (Some t)"
    and "sqlGetLatestCheckpoint k (st_db s) = Some l" "cp_id t \<noteq> cp_id l"
  shows "session_task_state k (snd (storeRewind k ci createdAt s)) = session_task_state k s"
proof -
  obtain rw e c s' where "storeRewind k ci createdAt s = (Inr rw, s')"
    "jn_eventType e = ''control.rewind''"
    "entries_of k (st_db s') = entries_of k (st_db s) @ [e]"
    using storeRewind_outcome [OF assms, of createdAt] by blast
  then show ?thesis using other_entry_same_state [of k s' s "[e]"] by simp
qed

section \<open>The methods as commands\<close>

lemma mutate_discard:
  "mutateSessionTaskState k (\<lambda>b. discard (m b)) create p =
   map_prod (map_sum id (\<lambda>(state, _). (state, ()))) id (mutateSessionTaskState k m create p)"
  unfolding mutateSessionTaskState_def chain_def Let_def discard_eq
  by (auto split: prod.split sum.split)

lemma run_discard:
  assumes "\<And>b. plane_mutation c b = discard (m b)"
  shows "run_plane k create c p =
    chain (mutateSessionTaskState k m create p) (\<lambda>(state, _) p'. (Inr state, p'))"
proof -
  have "plane_mutation c = (\<lambda>b. discard (m b))" using assms by blast
  then show ?thesis
    by (simp add: run_plane_def mutate_discard chain_def split: prod.split sum.split)
qed

lemma run_plane_methods:
  "sessionEnqueueDelegation k create di p = run_plane k create (PlaneEnqueueDelegation di) p"
  "sessionSetDelegationStatus k create du p = run_plane k create (PlaneSetDelegationStatus du) p"
  "sessionClaimDelegation k create ci p = run_plane k create (PlaneClaimDelegation ci) p"
  "sessionUpsertVerification k create vi p = run_plane k create (PlaneUpsertVerification vi) p"
  "sessionEnqueueProposal k create pi p = run_plane k create (PlaneEnqueueProposal pi) p"
  "sessionTransitionProposal k create pt p = run_plane k create (PlaneTransitionProposal pt) p"
  "sessionApplyProposal k create i p = run_plane k create (PlaneApplyProposal i) p"
  unfolding sessionEnqueueDelegation_def sessionSetDelegationStatus_def sessionClaimDelegation_def
    sessionUpsertVerification_def sessionEnqueueProposal_def sessionTransitionProposal_def
    sessionApplyProposal_def
  by (rule run_discard [symmetric], simp)+

lemma plane_reads:
  assumes "plane_ok k p st"
  shows "session_query k create query p = (Inr (query st), p)"
  using assms project_session(2) [of k "sp_store p" create]
  by (simp add: plane_ok_def session_query_def on_store_def)

end
