(* ===== verification/JS_Texts.thy ===== *)
theory JS_Texts
  imports JS_Prelude
begin

text \<open>String methods that several packages use, on strings of 8-bit code units.\<close>

text \<open>\<open>toLowerCase\<close>: ASCII and the Latin-1 capitals but the multiplication sign.\<close>

definition latin_lower :: "char \<Rightarrow> char" where
  "latin_lower c =
     (let n = (of_char c :: nat)
      in if (65 \<le> n \<and> n \<le> 90) \<or> (192 \<le> n \<and> n \<le> 222 \<and> n \<noteq> 215) then char_of (n + 32) else c)"

definition toLowerCase :: "string \<Rightarrow> string" where
  "toLowerCase s = map latin_lower s"

text \<open>\<open>value.includes(part)\<close> and \<open>value.indexOf(part)\<close>.\<close>

fun str_includes :: "string \<Rightarrow> string \<Rightarrow> bool" where
  "str_includes [] part \<longleftrightarrow> part = []"
| "str_includes (c # cs) part \<longleftrightarrow> starts_with part (c # cs) \<or> str_includes cs part"

fun str_index :: "string \<Rightarrow> string \<Rightarrow> nat option" where
  "str_index [] part = (if part = [] then Some 0 else None)"
| "str_index (c # cs) part =
     (if starts_with part (c # cs) then Some 0 else map_option Suc (str_index cs part))"

text \<open>\<open>value.replace(/\s+/gu, " ")\<close>; \<open>inside\<close> says that the last character read was a space.\<close>

fun collapse_spaces :: "bool \<Rightarrow> string \<Rightarrow> string" where
  "collapse_spaces inside [] = []"
| "collapse_spaces inside (c # cs) =
     (if is_js_space c then (if inside then [] else '' '') @ collapse_spaces True cs
      else c # collapse_spaces False cs)"

text \<open>\<open>value.split(pattern)\<close> where the pattern matches a run of separators.\<close>

fun split_runs :: "(char \<Rightarrow> bool) \<Rightarrow> bool \<Rightarrow> string \<Rightarrow> string list" where
  "split_runs sep inRun [] = [[]]"
| "split_runs sep inRun (c # cs) =
     (if sep c then (if inRun then [] else [[]]) @ split_runs sep True cs
      else (case split_runs sep False cs of [] \<Rightarrow> [[c]] | t # ts \<Rightarrow> (c # t) # ts))"

lemma length_toLowerCase [simp]: "length (toLowerCase s) = length s"
  by (simp add: toLowerCase_def)

text \<open>A part occurs in a text when the text is something, the part and something.\<close>

lemma str_includes_iff: "str_includes s part \<longleftrightarrow> (\<exists>before after. s = before @ part @ after)"
proof (induction s)
  case Nil
  show ?case by auto
next
  case (Cons c s)
  have here: "starts_with part (c # s) \<longleftrightarrow> (\<exists>after. c # s = part @ after)"
    unfolding starts_with_def by (metis append_eq_conv_conj)
  have "(\<exists>before after. c # s = before @ part @ after) \<longleftrightarrow>
        (\<exists>after. c # s = part @ after) \<or> (\<exists>before after. s = before @ part @ after)"
    by (metis Cons_eq_append_conv append_Cons append_Nil)
  then show ?case using here Cons.IH by simp
qed

lemma length_trim: "length (js_trim s) \<le> length s"
proof -
  have "length (js_trim s) \<le> length (dropWhile is_js_space s)"
    unfolding js_trim_def length_rev by (metis length_dropWhile_le length_rev)
  also have "\<dots> \<le> length s" by (rule length_dropWhile_le)
  finally show ?thesis .
qed

end
