(* ===== verification/Session_Search.thy ===== *)
theory Session_Search
  imports Session_Store JS_Texts
begin

text \<open>
  The full-text search of the session package: \<open>searchSessions\<close> of
  \<open>packages/sessions/src/storage.ts\<close> with its helpers, and \<open>search\<close> of \<open>store.ts\<close>. A score is
  counted in units of 1/100000, the weight of a sequence number. Texts are 8-bit, so the branch
  for Han, kana and Hangul characters is never taken.
\<close>

section \<open>Texts of columns\<close>

text \<open>\<open>JSON.stringify\<close> of a value that a column holds.\<close>

definition hex_digit :: "nat \<Rightarrow> char" where
  "hex_digit n = (if n < 10 then char_of (48 + n) else char_of (87 + n))"

definition json_char :: "char \<Rightarrow> string" where
  "json_char c =
     (let n = (of_char c :: nat)
      in if n = 34 then [char_of (92 :: nat), c]
         else if n = 92 then [c, c]
         else if n = 8 then [char_of (92 :: nat), CHR ''b'']
         else if n = 9 then [char_of (92 :: nat), CHR ''t'']
         else if n = 10 then [char_of (92 :: nat), CHR ''n'']
         else if n = 12 then [char_of (92 :: nat), CHR ''f'']
         else if n = 13 then [char_of (92 :: nat), CHR ''r'']
         else if n < 32 then char_of (92 :: nat) # ''u00'' @ [hex_digit (n div 16), hex_digit (n mod 16)]
         else [c])"

definition json_quote :: "string \<Rightarrow> string" where
  "json_quote s = ''\"'' @ concat (map json_char s) @ ''\"''"

fun json_text :: "jsval \<Rightarrow> string"
  and json_item_texts :: "jsval list \<Rightarrow> string list"
  and json_field_texts :: "json_object \<Rightarrow> string list"
where
  "json_text JUndefined = ''null''"
| "json_text JNull = ''null''"
| "json_text (JBool b) = (if b then ''true'' else ''false'')"
| "json_text (JNum (Finite n)) = js_show n"
| "json_text (JNum Infinity) = ''null''"
| "json_text (JNum NegInfinity) = ''null''"
| "json_text (JNum NaN) = ''null''"
| "json_text (JStr s) = json_quote s"
| "json_text (JArr xs) = ''['' @ js_join '','' (json_item_texts xs) @ '']''"
| "json_text (JObj kvs) = ''{'' @ js_join '','' (json_field_texts kvs) @ ''}''"
| "json_item_texts [] = []"
| "json_item_texts (x # xs) = json_text x # json_item_texts xs"
| "json_field_texts [] = []"
| "json_field_texts ((k, v) # kvs) = (json_quote k @ '':'' @ json_text v) # json_field_texts kvs"

section \<open>Terms\<close>

definition DEFAULT_SEARCH_LIMIT :: int where
  "DEFAULT_SEARCH_LIMIT = 10"

definition MAX_SEARCH_LIMIT :: int where
  "MAX_SEARCH_LIMIT = 50"

definition SEARCH_SNIPPET_RADIUS :: nat where
  "SEARCH_SNIPPET_RADIUS = 80"

definition normalizeSearchLimit :: "jsnum option \<Rightarrow> session_error + int" where
  "normalizeSearchLimit limit =
     (case limit of
        None \<Rightarrow> Inr DEFAULT_SEARCH_LIMIT
      | Some n \<Rightarrow>
          (case integer_of n of
             None \<Rightarrow> Inl (RangeError (''limit must be a positive integer; received '' @ show_num n))
           | Some i \<Rightarrow>
               if i \<le> 0
               then Inl (RangeError (''limit must be a positive integer; received '' @ show_num n))
               else Inr (min i MAX_SEARCH_LIMIT)))"

definition normalizeSearchText :: "string \<Rightarrow> string" where
  "normalizeSearchText v = toLowerCase (js_trim v)"

text \<open>The letters and numbers of \<open>TOKEN_SPLIT_PATTERN\<close> below 256, and the underscore.\<close>

definition is_token_char :: "char \<Rightarrow> bool" where
  "is_token_char c \<longleftrightarrow>
     (let n = (of_char c :: nat)
      in (48 \<le> n \<and> n \<le> 57) \<or> (65 \<le> n \<and> n \<le> 90) \<or> n = 95 \<or> (97 \<le> n \<and> n \<le> 122) \<or>
         n \<in> {170, 178, 179, 181, 185, 186, 188, 189, 190} \<or>
         (192 \<le> n \<and> n \<noteq> 215 \<and> n \<noteq> 247))"

definition addSearchTerm :: "string list \<Rightarrow> string \<Rightarrow> string list" where
  "addSearchTerm terms term =
     (let normalized = normalizeSearchText term
      in if length normalized < 2 \<or> 64 < length normalized then terms
         else if normalized \<in> set terms then terms else terms @ [normalized])"

definition longer_first :: "string \<Rightarrow> string \<Rightarrow> int" where
  "longer_first l r = int (length r) - int (length l)"

definition extractSearchTerms :: "string \<Rightarrow> string list" where
  "extractSearchTerms query =
     (let normalizedQuery = normalizeSearchText query
      in if length normalizedQuery = 0 then []
         else js_sort longer_first
           (foldl (\<lambda>terms part. if length (js_trim part) = 0 then terms
                                else addSearchTerm terms (js_trim part))
              (addSearchTerm [] normalizedQuery)
              (split_runs (\<lambda>c. \<not> is_token_char c) False normalizedQuery)))"

definition scoreSearchText :: "string \<Rightarrow> string list \<Rightarrow> (int \<times> string list) option" where
  "scoreSearchText text' terms =
     (let normalizedText = normalizeSearchText text';
          matched = js_unique (filter (\<lambda>term. str_includes normalizedText term) terms);
          coverage = sum_list (map (\<lambda>term. int (length term)) matched);
          bonus = (case terms of [] \<Rightarrow> 0
                   | term # _ \<Rightarrow>
                       if term \<noteq> [] \<and> str_includes normalizedText term
                       then int (length term) * 3 else 0)
      in if length normalizedText = 0 then None
         else if matched = [] then None
         else Some (coverage + bonus + int (length matched), matched))"

definition slice :: "nat \<Rightarrow> nat \<Rightarrow> string \<Rightarrow> string" where
  "slice start stop s = take (stop - start) (drop start s)"

definition createSearchSnippet :: "string \<Rightarrow> string list \<Rightarrow> string" where
  "createSearchSnippet text' matchedTerms =
     (let firstTerm = (case matchedTerms of [] \<Rightarrow> [] | t # _ \<Rightarrow> t)
      in if length text' \<le> SEARCH_SNIPPET_RADIUS * 2 then text'
         else (case (if firstTerm = [] then None
                     else str_index (normalizeSearchText text') firstTerm) of
                 None \<Rightarrow> js_trim (slice 0 (SEARCH_SNIPPET_RADIUS * 2) text') @ ''...''
               | Some i \<Rightarrow>
                   let start = i - SEARCH_SNIPPET_RADIUS;
                       stop = min (length text') (i + length firstTerm + SEARCH_SNIPPET_RADIUS)
                   in (if 0 < start then ''...'' else []) @ js_trim (slice start stop text')
                      @ (if stop < length text' then ''...'' else [])))"

section \<open>Hits\<close>

datatype search_source =
    SessionIdSource | SessionMetadataSource | JournalEventTypeSource | JournalTurnIdSource
  | JournalPayloadSource

record search_hit =
  sh_session :: session_record
  sh_entry :: "journal_entry option"
  sh_source :: search_source
  sh_score :: int
  sh_matchedText :: string
  sh_matchedTerms :: "string list"

record search_query =
  sq_query :: string
  sq_limit :: "jsnum option"
  sq_sessionId :: "string option"
  sq_status :: "session_status option"
  sq_eventTypes :: "string list option"

definition SCORE_UNIT :: int where
  "SCORE_UNIT = 100000"

definition collectSessionLevelSearchHits ::
  "session_record \<Rightarrow> string list \<Rightarrow> string \<Rightarrow> search_source \<Rightarrow> search_hit list \<Rightarrow> search_hit list" where
  "collectSessionLevelSearchHits session terms text' source hits =
     (case scoreSearchText text' terms of
        None \<Rightarrow> hits
      | Some (score, matched) \<Rightarrow>
          hits @ [\<lparr>sh_session = session, sh_entry = None, sh_source = source,
                   sh_score = score * SCORE_UNIT,
                   sh_matchedText = createSearchSnippet text' matched,
                   sh_matchedTerms = matched\<rparr>])"

definition collectJournalSearchHits ::
  "session_record \<Rightarrow> journal_entry \<Rightarrow> string list \<Rightarrow> string \<Rightarrow> search_source \<Rightarrow>
   search_hit list \<Rightarrow> search_hit list" where
  "collectJournalSearchHits session entry terms text' source hits =
     (case scoreSearchText text' terms of
        None \<Rightarrow> hits
      | Some (score, matched) \<Rightarrow>
          hits @ [\<lparr>sh_session = session, sh_entry = Some entry, sh_source = source,
                   sh_score = score * SCORE_UNIT + jn_seq entry,
                   sh_matchedText = createSearchSnippet text' matched,
                   sh_matchedTerms = matched\<rparr>])"

definition search_event_types :: "search_query \<Rightarrow> string list" where
  "search_event_types query =
     filter (\<lambda>t. 0 < length t) (map js_trim (nullish_else (sq_eventTypes query) []))"

text \<open>The bodies of the loops over the journal rows and over the session rows.\<close>

definition search_entry ::
  "search_query \<Rightarrow> session_record \<Rightarrow> string list \<Rightarrow> search_hit list \<Rightarrow> journal_entry \<Rightarrow>
   search_hit list" where
  "search_entry query session terms hits entry =
     (let eventTypes = search_event_types query
      in if eventTypes \<noteq> [] \<and> jn_eventType entry \<notin> set eventTypes then hits
         else collectJournalSearchHits session entry terms (json_text (jn_payload entry))
                JournalPayloadSource
              ((case jn_turnId entry of
                  None \<Rightarrow> id
                | Some t \<Rightarrow>
                    if t = [] then id
                    else collectJournalSearchHits session entry terms t JournalTurnIdSource)
               (collectJournalSearchHits session entry terms (jn_eventType entry)
                  JournalEventTypeSource hits)))"

definition search_session ::
  "search_query \<Rightarrow> string list \<Rightarrow> tables \<Rightarrow> search_hit list \<Rightarrow> session_record \<Rightarrow> search_hit list" where
  "search_session query terms d hits session =
     foldl (search_entry query session terms)
       (collectSessionLevelSearchHits session terms (json_text (JObj (ss_metadata session)))
          SessionMetadataSource
          (collectSessionLevelSearchHits session terms (ss_id session) SessionIdSource hits))
       (js_sort by_latest_entry (entries_of (ss_id session) d))"

definition by_recent_session :: "session_record \<Rightarrow> session_record \<Rightarrow> int" where
  "by_recent_session l r =
     (if ss_updatedAtMs r \<noteq> ss_updatedAtMs l then ss_updatedAtMs r - ss_updatedAtMs l
      else ss_createdAtMs r - ss_createdAtMs l)"

definition searched_sessions :: "search_query \<Rightarrow> tables \<Rightarrow> session_record list" where
  "searched_sessions query d =
     js_sort by_recent_session
       (filter (\<lambda>s. (sq_sessionId query = None \<or> sq_sessionId query = Some (ss_id s)) \<and>
                    (sq_status query = None \<or> sq_status query = Some (ss_status s)))
          (tab_sessions d))"

definition hit_time :: "search_hit \<Rightarrow> int" where
  "hit_time h = (case sh_entry h of None \<Rightarrow> ss_updatedAtMs (sh_session h)
                 | Some e \<Rightarrow> jn_createdAtMs e)"

definition hit_seq :: "search_hit \<Rightarrow> int" where
  "hit_seq h = (case sh_entry h of None \<Rightarrow> 0 | Some e \<Rightarrow> jn_seq e)"

definition by_relevance :: "search_hit \<Rightarrow> search_hit \<Rightarrow> int" where
  "by_relevance l r =
     (if sh_score l \<noteq> sh_score r then sh_score r - sh_score l
      else if hit_time l \<noteq> hit_time r then hit_time r - hit_time l
      else hit_seq r - hit_seq l)"

definition searchSessions :: "search_query \<Rightarrow> tables \<Rightarrow> session_error + search_hit list" where
  "searchSessions query d =
     (let normalizedQuery = js_trim (sq_query query)
      in if length normalizedQuery = 0 then Inr []
         else (case normalizeSearchLimit (sq_limit query) of
                 Inl e \<Rightarrow> Inl e
               | Inr limit \<Rightarrow>
                   let terms = extractSearchTerms normalizedQuery
                   in if terms = [] then Inr []
                      else Inr (take (nat limit) (js_sort by_relevance
                             (foldl (search_session query terms d) [] (searched_sessions query d))))))"

record search_result =
  sx_query :: search_query
  sx_hits :: "search_hit list"
  sx_totalHits :: nat

definition storeSearch :: "search_query \<Rightarrow> session_store \<Rightarrow> session_error + search_result" where
  "storeSearch query s =
     (case searchSessions query (st_db s) of
        Inl e \<Rightarrow> Inl e
      | Inr hits \<Rightarrow> Inr \<lparr>sx_query = query, sx_hits = hits, sx_totalHits = length hits\<rparr>)"

section \<open>Bounds\<close>

definition term_ok :: "string \<Rightarrow> bool" where
  "term_ok t \<longleftrightarrow> 2 \<le> length t \<and> length t \<le> 64"

lemma addSearchTerm_ok: "list_all term_ok terms \<Longrightarrow> list_all term_ok (addSearchTerm terms t)"
  by (auto simp: addSearchTerm_def term_ok_def Let_def)

lemma foldl_keeps: "P acc \<Longrightarrow> (\<And>acc x. P acc \<Longrightarrow> P (f acc x)) \<Longrightarrow> P (foldl f acc xs)"
  by (induction xs arbitrary: acc) auto

lemma search_terms_ok: "list_all term_ok (extractSearchTerms query)"
proof -
  let ?f = "\<lambda>terms part. if length (js_trim part) = 0 then terms
                         else addSearchTerm terms (js_trim part)"
  have "list_all term_ok (foldl ?f (addSearchTerm [] q) parts)" for q parts
    by (rule foldl_keeps [where P = "list_all term_ok"]) (auto simp: addSearchTerm_ok)
  then show ?thesis by (auto simp: extractSearchTerms_def Let_def list_all_iff)
qed

lemma scored_terms:
  assumes "scoreSearchText t terms = Some (score, matched)"
  shows "matched \<noteq> []" and "set matched \<subseteq> set terms"
    and "list_all (\<lambda>term. str_includes (normalizeSearchText t) term) matched"
  using assms by (auto simp: scoreSearchText_def Let_def list_all_iff split: if_splits)

lemma snippet_bound:
  assumes "list_all term_ok matched"
  shows "length (createSearchSnippet t matched) \<le> 230"
proof (cases "length t \<le> SEARCH_SNIPPET_RADIUS * 2")
  case True
  then show ?thesis by (simp add: createSearchSnippet_def SEARCH_SNIPPET_RADIUS_def)
next
  case False
  define firstTerm where "firstTerm = (case matched of [] \<Rightarrow> [] | u # _ \<Rightarrow> u)"
  have len: "length firstTerm \<le> 64"
    using assms by (cases matched) (simp_all add: firstTerm_def term_ok_def)
  define found where "found = (if firstTerm = [] then None
                               else str_index (normalizeSearchText t) firstTerm)"
  have eq: "createSearchSnippet t matched =
      (case found of
         None \<Rightarrow> js_trim (slice 0 (SEARCH_SNIPPET_RADIUS * 2) t) @ ''...''
       | Some i \<Rightarrow>
           let start = i - SEARCH_SNIPPET_RADIUS;
               stop = min (length t) (i + length firstTerm + SEARCH_SNIPPET_RADIUS)
           in (if 0 < start then ''...'' else []) @ js_trim (slice start stop t)
              @ (if stop < length t then ''...'' else []))"
    unfolding createSearchSnippet_def Let_def firstTerm_def [symmetric] found_def [symmetric]
    using False by simp
  have slice: "length (js_trim (slice m n t)) \<le> n - m" for m n
    using length_trim [of "slice m n t"] by (simp add: slice_def)
  show ?thesis
  proof (cases found)
    case None
    then show ?thesis
      unfolding eq using slice [of 0 "SEARCH_SNIPPET_RADIUS * 2"]
      by (simp add: SEARCH_SNIPPET_RADIUS_def)
  next
    case (Some i)
    let ?start = "i - SEARCH_SNIPPET_RADIUS"
    let ?stop = "min (length t) (i + length firstTerm + SEARCH_SNIPPET_RADIUS)"
    have "length (createSearchSnippet t matched) \<le> 6 + length (js_trim (slice ?start ?stop t))"
      unfolding eq Some by (simp add: Let_def)
    also have "\<dots> \<le> 6 + (?stop - ?start)" using slice by simp
    also have "\<dots> \<le> 230" using len by (simp add: SEARCH_SNIPPET_RADIUS_def)
    finally show ?thesis .
  qed
qed

text \<open>A good hit is a bounded extract of a searched session, with terms of the query in it.\<close>

definition hit_ok :: "search_query \<Rightarrow> string list \<Rightarrow> tables \<Rightarrow> search_hit \<Rightarrow> bool" where
  "hit_ok query terms d h \<longleftrightarrow>
     length (sh_matchedText h) \<le> 230 \<and>
     sh_matchedTerms h \<noteq> [] \<and> set (sh_matchedTerms h) \<subseteq> set terms \<and>
     sh_session h \<in> set (searched_sessions query d) \<and>
     (case sh_entry h of None \<Rightarrow> True
      | Some e \<Rightarrow> e \<in> set (entries_of (ss_id (sh_session h)) d) \<and>
          (search_event_types query = [] \<or> jn_eventType e \<in> set (search_event_types query)))"

lemma session_hits_ok:
  assumes "list_all term_ok terms" and "list_all (hit_ok query terms d) hits"
    and "session \<in> set (searched_sessions query d)"
  shows "list_all (hit_ok query terms d) (collectSessionLevelSearchHits session terms t source hits)"
proof (cases "scoreSearchText t terms")
  case None
  then show ?thesis using assms(2) by (simp add: collectSessionLevelSearchHits_def)
next
  case (Some match)
  obtain score matched where m: "match = (score, matched)" by (cases match)
  note matched = scored_terms [OF Some [unfolded m]]
  have "list_all term_ok matched" using matched(2) assms(1) by (auto simp: list_all_iff)
  from snippet_bound [OF this] matched assms(2,3) show ?thesis
    by (simp add: collectSessionLevelSearchHits_def Some m hit_ok_def)
qed

lemma journal_hits_ok:
  assumes "list_all term_ok terms" and "list_all (hit_ok query terms d) hits"
    and "session \<in> set (searched_sessions query d)" and "e \<in> set (entries_of (ss_id session) d)"
    and "search_event_types query = [] \<or> jn_eventType e \<in> set (search_event_types query)"
  shows "list_all (hit_ok query terms d) (collectJournalSearchHits session e terms t source hits)"
proof (cases "scoreSearchText t terms")
  case None
  then show ?thesis using assms(2) by (simp add: collectJournalSearchHits_def)
next
  case (Some match)
  obtain score matched where m: "match = (score, matched)" by (cases match)
  note matched = scored_terms [OF Some [unfolded m]]
  have "list_all term_ok matched" using matched(2) assms(1) by (auto simp: list_all_iff)
  from snippet_bound [OF this] matched assms(2-) show ?thesis
    by (simp add: collectJournalSearchHits_def Some m hit_ok_def)
qed

lemma entry_hits_ok:
  assumes "list_all term_ok terms" and "list_all (hit_ok query terms d) hits"
    and "session \<in> set (searched_sessions query d)" and "e \<in> set (entries_of (ss_id session) d)"
  shows "list_all (hit_ok query terms d) (search_entry query session terms hits e)"
proof (cases "search_event_types query \<noteq> [] \<and> jn_eventType e \<notin> set (search_event_types query)")
  case True
  then show ?thesis using assms(2) by (simp add: search_entry_def)
next
  case False
  then have "search_event_types query = [] \<or> jn_eventType e \<in> set (search_event_types query)"
    by blast
  note collect = journal_hits_ok [OF assms(1) _ assms(3,4) this]
  show ?thesis
    unfolding search_entry_def Let_def using False
    by (auto intro!: collect assms(2) split: option.split)
qed

lemma session_search_ok:
  assumes "list_all term_ok terms" and "list_all (hit_ok query terms d) hits"
    and "session \<in> set (searched_sessions query d)"
  shows "list_all (hit_ok query terms d) (search_session query terms d hits session)"
proof -
  have loop: "list_all (hit_ok query terms d) acc \<Longrightarrow> set es \<subseteq> set (entries_of (ss_id session) d) \<Longrightarrow>
      list_all (hit_ok query terms d) (foldl (search_entry query session terms) acc es)" for acc es
    by (induction es arbitrary: acc) (auto intro: entry_hits_ok [OF assms(1) _ assms(3)])
  show ?thesis
    unfolding search_session_def
    by (intro loop session_hits_ok assms) simp
qed

lemma comparator_relevance: "consistent_comparator by_relevance"
  unfolding by_relevance_def by unfold_locales (auto split: if_splits)

lemma search_limit_bound: "normalizeSearchLimit limit = Inr n \<Longrightarrow> n \<le> 50"
  by (auto simp: normalizeSearchLimit_def DEFAULT_SEARCH_LIMIT_def MAX_SEARCH_LIMIT_def
      split: option.splits if_splits)

lemma search_hits_ok:
  assumes "searchSessions query d = Inr hits"
  shows "list_all (hit_ok query (extractSearchTerms (js_trim (sq_query query))) d) hits"
    and "length hits \<le> 50"
    and "sorted_wrt (\<lambda>h h'. sh_score h' \<le> sh_score h) hits"
proof -
  let ?terms = "extractSearchTerms (js_trim (sq_query query))"
  let ?found = "foldl (search_session query ?terms d) [] (searched_sessions query d)"
  have loop: "list_all (hit_ok query ?terms d) acc \<Longrightarrow> set ss \<subseteq> set (searched_sessions query d) \<Longrightarrow>
      list_all (hit_ok query ?terms d) (foldl (search_session query ?terms d) acc ss)" for acc ss
    by (induction ss arbitrary: acc) (auto intro: session_search_ok [OF search_terms_ok])
  have all: "list_all (hit_ok query ?terms d) (js_sort by_relevance ?found)"
    using loop [of "[]" "searched_sessions query d"] by (simp add: list_all_iff)
  have sorted: "sorted_wrt (\<lambda>h h'. sh_score h' \<le> sh_score h) (js_sort by_relevance ?found)"
    using consistent_comparator.sort_ordered [OF comparator_relevance, of ?found]
    by (rule sorted_wrt_mono_rel [rotated]) (auto simp: by_relevance_def split: if_splits)
  have cases: "hits = [] \<or>
      (\<exists>limit \<le> 50. hits = take (nat limit) (js_sort by_relevance ?found))"
    using assms search_limit_bound by (auto simp: searchSessions_def Let_def split: if_splits sum.splits)
  show "list_all (hit_ok query ?terms d) hits"
    using cases all by (auto simp: list_all_iff dest: in_set_takeD)
  show "length hits \<le> 50" using cases by auto
  show "sorted_wrt (\<lambda>h h'. sh_score h' \<le> sh_score h) hits"
    using cases sorted by (auto simp: sorted_wrt_take)
qed

end
