(* ===== verification/Kernel_Contracts.thy ===== *)
theory Kernel_Contracts
  imports Machines
begin

text \<open>
  The executable contracts of \<open>packages/agent-os-kernel-contracts/src\<close>: the turn state machine
  (\<open>state-machine.ts\<close>), the append-only timeline and its summary (\<open>timeline.ts\<close>) and the
  scope rules of delegated subagents (\<open>subagent.ts\<close>). Turn states are a datatype; an event's
  type, sequence and payload are what the caller gave, so that the guard of \<open>timeline.ts\<close> has
  something to reject.
\<close>

section \<open>Turn states\<close>

datatype turn_state =
    Received | Queued | Preflight | ContextResolved | ModelCalling | ToolCalling
  | AwaitingApproval | Observing | Delegating | Finalizing | Completed | Blocked | Failed

fun turn_state_str :: "turn_state \<Rightarrow> string" where
  "turn_state_str Received = ''received''"
| "turn_state_str Queued = ''queued''"
| "turn_state_str Preflight = ''preflight''"
| "turn_state_str ContextResolved = ''context_resolved''"
| "turn_state_str ModelCalling = ''model_calling''"
| "turn_state_str ToolCalling = ''tool_calling''"
| "turn_state_str AwaitingApproval = ''awaiting_approval''"
| "turn_state_str Observing = ''observing''"
| "turn_state_str Delegating = ''delegating''"
| "turn_state_str Finalizing = ''finalizing''"
| "turn_state_str Completed = ''completed''"
| "turn_state_str Blocked = ''blocked''"
| "turn_state_str Failed = ''failed''"

definition AGENT_OS_TURN_STATES :: "turn_state list" where
  "AGENT_OS_TURN_STATES =
     [Received, Queued, Preflight, ContextResolved, ModelCalling, ToolCalling, AwaitingApproval,
      Observing, Delegating, Finalizing, Completed, Blocked, Failed]"

fun AGENT_OS_TURN_TRANSITIONS :: "turn_state \<Rightarrow> turn_state list" where
  "AGENT_OS_TURN_TRANSITIONS Received = [Queued, Preflight, Blocked, Failed]"
| "AGENT_OS_TURN_TRANSITIONS Queued = [Preflight, Blocked, Failed]"
| "AGENT_OS_TURN_TRANSITIONS Preflight = [ContextResolved, AwaitingApproval, Blocked, Failed]"
| "AGENT_OS_TURN_TRANSITIONS ContextResolved =
     [ModelCalling, ToolCalling, Finalizing, Blocked, Failed]"
| "AGENT_OS_TURN_TRANSITIONS ModelCalling =
     [ToolCalling, Observing, Finalizing, Completed, Blocked, Failed]"
| "AGENT_OS_TURN_TRANSITIONS ToolCalling =
     [AwaitingApproval, Observing, Finalizing, Blocked, Failed]"
| "AGENT_OS_TURN_TRANSITIONS AwaitingApproval = [ToolCalling, Observing, Blocked, Failed]"
| "AGENT_OS_TURN_TRANSITIONS Observing =
     [ModelCalling, ToolCalling, Delegating, Finalizing, Blocked, Failed]"
| "AGENT_OS_TURN_TRANSITIONS Delegating = [Observing, Finalizing, Blocked, Failed]"
| "AGENT_OS_TURN_TRANSITIONS Finalizing = [Completed, Blocked, Failed]"
| "AGENT_OS_TURN_TRANSITIONS Completed = []"
| "AGENT_OS_TURN_TRANSITIONS Blocked = []"
| "AGENT_OS_TURN_TRANSITIONS Failed = []"

definition canTransitionAgentOsTurnState :: "turn_state \<Rightarrow> turn_state \<Rightarrow> bool" where
  "canTransitionAgentOsTurnState from to \<longleftrightarrow> to \<in> set (AGENT_OS_TURN_TRANSITIONS from)"

record turn_snapshot =
  sn_turnId :: string
  sn_state :: turn_state
  sn_updatedAt :: string
  sn_transitionCount :: int

definition transitionAgentOsTurnState ::
  "turn_snapshot \<Rightarrow> turn_state \<Rightarrow> string \<Rightarrow> js_error + turn_snapshot" where
  "transitionAgentOsTurnState snapshot to updatedAt =
     (if \<not> canTransitionAgentOsTurnState (sn_state snapshot) to
      then Inl (Error (''Illegal Agent OS turn transition: '' @ turn_state_str (sn_state snapshot)
             @ '' -> '' @ turn_state_str to))
      else Inr \<lparr>sn_turnId = sn_turnId snapshot, sn_state = to, sn_updatedAt = updatedAt,
                sn_transitionCount = sn_transitionCount snapshot + 1\<rparr>)"

section \<open>Timeline\<close>

record timeline_event =
  tv_sequence :: jsnum
  tv_turnId :: string
  tv_eventId :: string
  tv_eventType :: string
  tv_createdAt :: string
  tv_payload :: jsval
  tv_actorId :: "string option"
  tv_correlationId :: "string option"

definition AGENT_OS_TIMELINE_EVENT_TYPES :: "string list" where
  "AGENT_OS_TIMELINE_EVENT_TYPES =
     [''state.transition'', ''queue.decision'', ''capability.projected'', ''model.call'',
      ''model.result'', ''tool.start'', ''tool.progress'', ''tool.result'',
      ''approval.requested'', ''approval.resolved'', ''sandbox.preflight'', ''memory.recall'',
      ''memory.eval'', ''memory.store'', ''memory.sweep'', ''skill.viewed'', ''skill.used'',
      ''skill.evolved'', ''subagent.spawned'', ''subagent.message'', ''subagent.finished'',
      ''control.doctor'', ''control.health'', ''control.log'', ''control.config'',
      ''control.secrets'', ''control.cost'', ''control.gateway_lock'', ''final.delivered'']"

fun isNumber :: "jsnum \<Rightarrow> bool" where
  "isNumber (Finite n) = True"
| "isNumber _ = False"

fun isObject :: "jsval \<Rightarrow> bool" where
  "isObject (JObj kvs) = True"
| "isObject _ = False"

definition isAgentOsTimelineEvent :: "timeline_event \<Rightarrow> bool" where
  "isAgentOsTimelineEvent event \<longleftrightarrow>
     isNumber (tv_sequence event) \<and>
     tv_eventType event \<in> set AGENT_OS_TIMELINE_EVENT_TYPES \<and>
     isObject (tv_payload event)"

text \<open>\<open><=\<close> on numbers: no comparison with \<open>NaN\<close> holds.\<close>

fun js_num_le :: "jsnum \<Rightarrow> jsnum \<Rightarrow> bool" where
  "js_num_le (Finite m) (Finite n) \<longleftrightarrow> m \<le> n"
| "js_num_le (Finite m) Infinity = True"
| "js_num_le NegInfinity (Finite n) = True"
| "js_num_le NegInfinity NegInfinity = True"
| "js_num_le NegInfinity Infinity = True"
| "js_num_le Infinity Infinity = True"
| "js_num_le _ _ = False"

fun js_show_num :: "jsnum \<Rightarrow> string" where
  "js_show_num (Finite n) = js_show n"
| "js_show_num Infinity = ''Infinity''"
| "js_show_num NegInfinity = ''-Infinity''"
| "js_show_num NaN = ''NaN''"

definition appendAgentOsTimelineEvent ::
  "timeline_event list \<Rightarrow> timeline_event \<Rightarrow> js_error + timeline_event list" where
  "appendAgentOsTimelineEvent timeline event =
     (if \<not> isAgentOsTimelineEvent event
      then Inl (Error ''Invalid Agent OS timeline event.'')
      else if timeline \<noteq> [] \<and> js_num_le (tv_sequence event) (tv_sequence (last timeline))
      then Inl (Error (''Agent OS timeline sequence must increase: ''
             @ js_show_num (tv_sequence (last timeline)) @ '' -> ''
             @ js_show_num (tv_sequence event)))
      else Inr (timeline @ [event]))"

record timeline_summary =
  tz_latestState :: "turn_state option"
  tz_approvalEvents :: nat
  tz_memoryEvents :: nat
  tz_skillEvents :: nat
  tz_subagentEvents :: nat
  tz_controlPlaneEvents :: nat
  tz_toolEvents :: nat
  tz_finalDelivered :: bool

definition isAgentOsTurnState :: "string \<Rightarrow> turn_state option" where
  "isAgentOsTurnState s = find (\<lambda>t. turn_state_str t = s) AGENT_OS_TURN_STATES"

definition readStateTransitionTarget :: "jsval \<Rightarrow> turn_state option" where
  "readStateTransitionTarget payload = Option.bind (as_string (js_get payload ''to'')) isAgentOsTurnState"

definition count_prefix :: "string \<Rightarrow> timeline_event \<Rightarrow> nat \<Rightarrow> nat" where
  "count_prefix prefix event n = (if starts_with prefix (tv_eventType event) then n + 1 else n)"

definition summary_step :: "timeline_summary \<Rightarrow> timeline_event \<Rightarrow> timeline_summary" where
  "summary_step summary event =
     \<lparr>tz_latestState =
        (if tv_eventType event = ''state.transition''
         then nullish (readStateTransitionTarget (tv_payload event)) (tz_latestState summary)
         else tz_latestState summary),
      tz_approvalEvents = count_prefix ''approval.'' event (tz_approvalEvents summary),
      tz_memoryEvents = count_prefix ''memory.'' event (tz_memoryEvents summary),
      tz_skillEvents = count_prefix ''skill.'' event (tz_skillEvents summary),
      tz_subagentEvents = count_prefix ''subagent.'' event (tz_subagentEvents summary),
      tz_controlPlaneEvents = count_prefix ''control.'' event (tz_controlPlaneEvents summary),
      tz_toolEvents = count_prefix ''tool.'' event (tz_toolEvents summary),
      tz_finalDelivered =
        (if tv_eventType event = ''final.delivered'' then True else tz_finalDelivered summary)\<rparr>"

definition empty_summary :: timeline_summary where
  "empty_summary =
     \<lparr>tz_latestState = None, tz_approvalEvents = 0, tz_memoryEvents = 0, tz_skillEvents = 0,
      tz_subagentEvents = 0, tz_controlPlaneEvents = 0, tz_toolEvents = 0,
      tz_finalDelivered = False\<rparr>"

definition projectAgentOsTimelineSummary :: "timeline_event list \<Rightarrow> timeline_summary" where
  "projectAgentOsTimelineSummary timeline = foldl summary_step empty_summary timeline"

section \<open>Subagent scopes\<close>

datatype memory_layer = L0 | L1 | L2 | L3

fun memory_layer_str :: "memory_layer \<Rightarrow> string" where
  "memory_layer_str L0 = ''L0''"
| "memory_layer_str L1 = ''L1''"
| "memory_layer_str L2 = ''L2''"
| "memory_layer_str L3 = ''L3''"

datatype subagent_status = SQueued | SRunning | SCompleted | SFailed | SCancelled | SBlocked

record budget_envelope =
  be_maxModelCalls :: "int option"
  be_maxToolCalls :: "int option"
  be_maxCostUsd :: "jsnum option"
  be_modelHints :: "string list option"

record subagent_envelope =
  se_subagentId :: string
  se_parentTurnId :: string
  se_profileId :: string
  se_permissions :: "string list"
  se_tools :: "string list"
  se_writableRoots :: "string list"
  se_memoryLayers :: "memory_layer list"
  se_maxTurns :: int
  se_delegationRequestId :: "string option"
  se_task :: "string option"
  se_expectedOutput :: "string option"
  se_isolatedContext :: "bool option"
  se_status :: "subagent_status option"
  se_createdAt :: "string option"
  se_budget :: "budget_envelope option"
  se_artifactsRequested :: "string list option"

record subagent_profile =
  sp_profileId :: string
  sp_role :: string
  sp_instructions :: string
  sp_permissions :: "string list"
  sp_tools :: "string list"
  sp_writableRoots :: "string list"
  sp_memoryLayers :: "memory_layer list"
  sp_maxTurns :: int
  sp_budget :: "budget_envelope option"

record delegation_request =
  rq_requestId :: string
  rq_parentTurnId :: string
  rq_task :: string
  rq_expectedOutput :: string
  rq_allowedTools :: "string list option"
  rq_allowedPermissions :: "string list option"
  rq_writableRoots :: "string list option"
  rq_memoryLayers :: "memory_layer list option"
  rq_maxTurns :: "int option"
  rq_artifactsRequested :: "string list option"

definition isSubset :: "'a list \<Rightarrow> 'a list \<Rightarrow> bool" where
  "isSubset candidate allowed \<longleftrightarrow> list_all (\<lambda>entry. entry \<in> set allowed) candidate"

definition subagentScopeDoesNotEscalate :: "subagent_envelope \<Rightarrow> subagent_envelope \<Rightarrow> bool" where
  "subagentScopeDoesNotEscalate parent child \<longleftrightarrow>
     isSubset (se_permissions child) (se_permissions parent) \<and>
     isSubset (se_tools child) (se_tools parent) \<and>
     isSubset (se_writableRoots child) (se_writableRoots parent) \<and>
     isSubset (se_memoryLayers child) (se_memoryLayers parent) \<and>
     se_maxTurns child \<le> se_maxTurns parent"

definition assertRequestedSubset ::
  "('a \<Rightarrow> string) \<Rightarrow> string \<Rightarrow> 'a list option \<Rightarrow> 'a list \<Rightarrow> js_error option" where
  "assertRequestedSubset shown label requestedValues profileValues =
     (case requestedValues of
        None \<Rightarrow> None
      | Some requested \<Rightarrow>
          (let denied = filter (\<lambda>v. v \<notin> set profileValues) requested
           in if denied \<noteq> []
              then Some (Error (''Subagent scope escalation blocked: '' @ label @ '' ''
                     @ js_join '', '' (map shown denied)))
              else None))"

definition intersectOrRequested :: "'a list \<Rightarrow> 'a list option \<Rightarrow> 'a list" where
  "intersectOrRequested profileValues requestedValues =
     (case requestedValues of
        None \<Rightarrow> profileValues
      | Some requested \<Rightarrow> filter (\<lambda>v. v \<in> set profileValues) requested)"

fun first_error :: "js_error option list \<Rightarrow> js_error option" where
  "first_error [] = None"
| "first_error (e # es) = (case e of Some x \<Rightarrow> Some x | None \<Rightarrow> first_error es)"

definition scope_assertions :: "subagent_profile \<Rightarrow> delegation_request \<Rightarrow> js_error option" where
  "scope_assertions profile request =
     first_error
       [assertRequestedSubset id ''permissions'' (rq_allowedPermissions request)
          (sp_permissions profile),
        assertRequestedSubset id ''tools'' (rq_allowedTools request) (sp_tools profile),
        assertRequestedSubset id ''writableRoots'' (rq_writableRoots request)
          (sp_writableRoots profile),
        assertRequestedSubset memory_layer_str ''memoryLayers'' (rq_memoryLayers request)
          (sp_memoryLayers profile)]"

definition child_envelope ::
  "subagent_profile \<Rightarrow> delegation_request \<Rightarrow> string \<Rightarrow> string option \<Rightarrow> subagent_envelope" where
  "child_envelope profile request now subagentId =
     \<lparr>se_subagentId = nullish_else subagentId (''subagent_'' @ rq_requestId request),
      se_parentTurnId = rq_parentTurnId request,
      se_profileId = sp_profileId profile,
      se_permissions =
        intersectOrRequested (sp_permissions profile) (rq_allowedPermissions request),
      se_tools = intersectOrRequested (sp_tools profile) (rq_allowedTools request),
      se_writableRoots =
        intersectOrRequested (sp_writableRoots profile) (rq_writableRoots request),
      se_memoryLayers = intersectOrRequested (sp_memoryLayers profile) (rq_memoryLayers request),
      se_maxTurns =
        min (sp_maxTurns profile) (nullish_else (rq_maxTurns request) (sp_maxTurns profile)),
      se_delegationRequestId = Some (rq_requestId request),
      se_task = Some (rq_task request),
      se_expectedOutput = Some (rq_expectedOutput request),
      se_isolatedContext = Some True,
      se_status = Some SQueued,
      se_createdAt = Some now,
      se_budget = sp_budget profile,
      se_artifactsRequested = rq_artifactsRequested request\<rparr>"

definition createAgentToolDelegationEnvelope ::
  "subagent_envelope \<Rightarrow> subagent_profile \<Rightarrow> delegation_request \<Rightarrow> string \<Rightarrow> string option \<Rightarrow>
   js_error + subagent_envelope" where
  "createAgentToolDelegationEnvelope parent profile request now subagentId =
     (case scope_assertions profile request of
        Some e \<Rightarrow> Inl e
      | None \<Rightarrow>
          (let child = child_envelope profile request now subagentId
           in if \<not> subagentScopeDoesNotEscalate parent child
              then Inl (Error ''Subagent scope escalation blocked'')
              else Inr child))"

record subagent_artifact =
  sa_artifactId :: string
  sa_kind :: string
  sa_label :: string
  sa_uri :: string
  sa_parentVisible :: bool

record visible_result =
  pb_subagentId :: string
  pb_parentTurnId :: string
  pb_delegationRequestId :: "string option"
  pb_profileId :: string
  pb_status :: subagent_status
  pb_summary :: string
  pb_artifacts :: "subagent_artifact list"
  pb_completedAt :: string

definition createParentVisibleSubagentResult ::
  "subagent_envelope \<Rightarrow> subagent_status \<Rightarrow> string \<Rightarrow> subagent_artifact list option \<Rightarrow> string \<Rightarrow>
   visible_result" where
  "createParentVisibleSubagentResult envelope status summary artifacts completedAt =
     \<lparr>pb_subagentId = se_subagentId envelope, pb_parentTurnId = se_parentTurnId envelope,
      pb_delegationRequestId = se_delegationRequestId envelope,
      pb_profileId = se_profileId envelope, pb_status = status, pb_summary = summary,
      pb_artifacts = filter sa_parentVisible (nullish_else artifacts []),
      pb_completedAt = completedAt\<rparr>"

section \<open>Runs of the turn machine\<close>

definition terminal_turn_state :: "turn_state \<Rightarrow> bool" where
  "terminal_turn_state s \<longleftrightarrow> s = Completed \<or> s = Blocked \<or> s = Failed"

text \<open>A run: the states visited from a first one, each step one the table allows.\<close>

inductive turn_run :: "turn_state \<Rightarrow> turn_state list \<Rightarrow> turn_state \<Rightarrow> bool" where
  turn_here: "turn_run s [s] s"
| turn_on: "turn_run s path t \<Longrightarrow> canTransitionAgentOsTurnState t u \<Longrightarrow> turn_run s (path @ [u]) u"

inductive_cases turn_run_cases: "turn_run s path t"

lemma turn_run_ends: "turn_run s path t \<Longrightarrow> path \<noteq> [] \<and> hd path = s \<and> last path = t"
  by (induction rule: turn_run.induct) auto

lemma terminal_no_transition:
  "terminal_turn_state s \<Longrightarrow> \<not> canTransitionAgentOsTurnState s t"
  by (auto simp: terminal_turn_state_def canTransitionAgentOsTurnState_def)

lemma nonterminal_can_stop:
  "\<not> terminal_turn_state s \<Longrightarrow>
   canTransitionAgentOsTurnState s Blocked \<and> canTransitionAgentOsTurnState s Failed"
  by (cases s) (auto simp: terminal_turn_state_def canTransitionAgentOsTurnState_def)

lemma terminal_run: "turn_run s path t \<Longrightarrow> terminal_turn_state s \<Longrightarrow> path = [s] \<and> t = s"
  by (induction rule: turn_run.induct) (auto dest: terminal_no_transition)

text \<open>Only \<open>received\<close> and \<open>queued\<close> come before the preflight; a run that got further passed it.\<close>

lemma preflight_before:
  "turn_run s path t \<Longrightarrow> s = Received \<Longrightarrow>
   t \<in> {Received, Queued, Blocked, Failed} \<or> Preflight \<in> set path"
proof (induction rule: turn_run.induct)
  case (turn_here s)
  then show ?case by simp
next
  case (turn_on s path t u)
  then show ?case
    by (cases t) (auto simp: canTransitionAgentOsTurnState_def)
qed

text \<open>Every state that is not terminal can still complete.\<close>

fun turns_to_completion :: "turn_state \<Rightarrow> turn_state list" where
  "turns_to_completion Received = [Preflight, ContextResolved, Finalizing, Completed]"
| "turns_to_completion Queued = [Preflight, ContextResolved, Finalizing, Completed]"
| "turns_to_completion Preflight = [ContextResolved, Finalizing, Completed]"
| "turns_to_completion AwaitingApproval = [Observing, Finalizing, Completed]"
| "turns_to_completion Finalizing = [Completed]"
| "turns_to_completion _ = [Finalizing, Completed]"

fun follow :: "turn_state \<Rightarrow> turn_state list \<Rightarrow> bool" where
  "follow s [] = True"
| "follow s (t # ts) \<longleftrightarrow> canTransitionAgentOsTurnState s t \<and> follow t ts"

lemma follow_run:
  "turn_run r path s \<Longrightarrow> follow s ts \<Longrightarrow> turn_run r (path @ ts) (last (s # ts))"
proof (induction ts arbitrary: path s)
  case Nil
  then show ?case by simp
next
  case (Cons t ts)
  then have "turn_run r (path @ [t]) t" by (auto intro: turn_on)
  from Cons.IH [OF this] Cons.prems(2) show ?case by simp
qed

lemma completion_follows:
  "\<not> terminal_turn_state s \<Longrightarrow> follow s (turns_to_completion s) \<and> last (turns_to_completion s) = Completed"
  by (cases s) (auto simp: terminal_turn_state_def canTransitionAgentOsTurnState_def)

section \<open>Timelines\<close>

definition seq_less :: "timeline_event \<Rightarrow> timeline_event \<Rightarrow> bool" where
  "seq_less a b \<longleftrightarrow> (\<exists>m n. tv_sequence a = Finite m \<and> tv_sequence b = Finite n \<and> m < n)"

definition timeline_ok :: "timeline_event list \<Rightarrow> bool" where
  "timeline_ok timeline \<longleftrightarrow>
     sorted_wrt seq_less timeline \<and> (\<forall>e \<in> set timeline. isAgentOsTimelineEvent e)"

lemma valid_event_finite: "isAgentOsTimelineEvent e \<Longrightarrow> \<exists>n. tv_sequence e = Finite n"
  by (cases "tv_sequence e") (auto simp: isAgentOsTimelineEvent_def)

lemma seq_less_trans: "seq_less a b \<Longrightarrow> seq_less b c \<Longrightarrow> seq_less a c"
  by (auto simp: seq_less_def)

lemma append_ok:
  assumes ok: "timeline_ok timeline" and app: "appendAgentOsTimelineEvent timeline event = Inr timeline'"
  shows "timeline' = timeline @ [event] \<and> timeline_ok timeline'"
proof -
  have event: "isAgentOsTimelineEvent event" and eq: "timeline' = timeline @ [event]"
    and later: "timeline = [] \<or> \<not> js_num_le (tv_sequence event) (tv_sequence (last timeline))"
    using app by (auto simp: appendAgentOsTimelineEvent_def split: if_splits)
  have "seq_less e event" if e: "e \<in> set timeline" for e
  proof -
    have ne: "timeline \<noteq> []" using e by auto
    obtain m n where "tv_sequence event = Finite n" "tv_sequence (last timeline) = Finite m"
      using valid_event_finite [OF event] valid_event_finite [of "last timeline"] ok ne
      by (auto simp: timeline_ok_def)
    then have last: "seq_less (last timeline) event"
      using later ne by (auto simp: seq_less_def)
    have split: "timeline = butlast timeline @ [last timeline]" using ne by simp
    show ?thesis
    proof (cases "e \<in> set (butlast timeline)")
      case True
      have "sorted_wrt seq_less (butlast timeline @ [last timeline])"
        using ok split by (simp add: timeline_ok_def)
      with True have "seq_less e (last timeline)" by (simp add: sorted_wrt_append)
      then show ?thesis using last by (rule seq_less_trans)
    next
      case False
      then have "e = last timeline" using e split by (metis UnE empty_iff list.set(1) set_ConsD set_append)
      then show ?thesis using last by simp
    qed
  qed
  with ok event eq show ?thesis
    by (auto simp: timeline_ok_def sorted_wrt_append)
qed

text \<open>A log that keeps only what the append accepts is a machine that preserves the order.\<close>

definition timeline_step ::
  "timeline_event \<Rightarrow> timeline_event list \<Rightarrow> timeline_event list \<times> js_error list" where
  "timeline_step event timeline =
     (case appendAgentOsTimelineEvent timeline event of
        Inl e \<Rightarrow> (timeline, [e])
      | Inr timeline' \<Rightarrow> (timeline', []))"

interpretation timeline: command_machine timeline_step timeline_ok
  by unfold_locales (auto simp: timeline_step_def dest: append_ok split: sum.splits)

lemma summary_snoc:
  "projectAgentOsTimelineSummary (timeline @ [event]) =
     summary_step (projectAgentOsTimelineSummary timeline) event"
  by (simp add: projectAgentOsTimelineSummary_def)

definition with_prefix :: "string \<Rightarrow> timeline_event list \<Rightarrow> timeline_event list" where
  "with_prefix p timeline = filter (\<lambda>e. starts_with p (tv_eventType e)) timeline"

lemma summary_counters:
  "tz_approvalEvents (projectAgentOsTimelineSummary es) = length (with_prefix ''approval.'' es)"
  "tz_memoryEvents (projectAgentOsTimelineSummary es) = length (with_prefix ''memory.'' es)"
  "tz_skillEvents (projectAgentOsTimelineSummary es) = length (with_prefix ''skill.'' es)"
  "tz_subagentEvents (projectAgentOsTimelineSummary es) = length (with_prefix ''subagent.'' es)"
  "tz_controlPlaneEvents (projectAgentOsTimelineSummary es) = length (with_prefix ''control.'' es)"
  "tz_toolEvents (projectAgentOsTimelineSummary es) = length (with_prefix ''tool.'' es)"
  "tz_finalDelivered (projectAgentOsTimelineSummary es) \<longleftrightarrow>
     (\<exists>e \<in> set es. tv_eventType e = ''final.delivered'')"
  by (induction es rule: rev_induct)
    (simp_all add: summary_snoc summary_step_def count_prefix_def with_prefix_def
      projectAgentOsTimelineSummary_def empty_summary_def)

section \<open>Delegation chains\<close>

lemma isSubset_set [simp]: "isSubset xs ys \<longleftrightarrow> set xs \<subseteq> set ys"
  by (auto simp: isSubset_def list_all_iff)

lemma set_intersectOrRequested:
  "set (intersectOrRequested xs ys) \<subseteq> set xs"
  by (auto simp: intersectOrRequested_def split: option.splits)

text \<open>The envelopes that delegation can derive from a root envelope.\<close>

inductive delegated :: "subagent_envelope \<Rightarrow> subagent_envelope \<Rightarrow> bool" where
  delegated_root: "delegated root root"
| delegated_child:
    "delegated root parent \<Longrightarrow>
     createAgentToolDelegationEnvelope parent profile request now k = Inr child \<Longrightarrow>
     delegated root child"

lemma create_scope:
  assumes "createAgentToolDelegationEnvelope parent profile request now k = Inr child"
  shows "subagentScopeDoesNotEscalate parent child"
    and "set (se_permissions child) \<subseteq> set (sp_permissions profile)"
    and "set (se_tools child) \<subseteq> set (sp_tools profile)"
    and "set (se_writableRoots child) \<subseteq> set (sp_writableRoots profile)"
    and "set (se_memoryLayers child) \<subseteq> set (sp_memoryLayers profile)"
    and "se_maxTurns child \<le> sp_maxTurns profile"
proof -
  have child: "child = child_envelope profile request now k"
    and ok: "subagentScopeDoesNotEscalate parent child"
    using assms by (auto simp: createAgentToolDelegationEnvelope_def Let_def
        split: option.splits if_splits)
  show "subagentScopeDoesNotEscalate parent child" by (rule ok)
  show "set (se_permissions child) \<subseteq> set (sp_permissions profile)"
    "set (se_tools child) \<subseteq> set (sp_tools profile)"
    "set (se_writableRoots child) \<subseteq> set (sp_writableRoots profile)"
    "set (se_memoryLayers child) \<subseteq> set (sp_memoryLayers profile)"
    "se_maxTurns child \<le> sp_maxTurns profile"
    unfolding child child_envelope_def by (simp_all add: set_intersectOrRequested)
qed

lemma scope_trans:
  "subagentScopeDoesNotEscalate a b \<Longrightarrow> subagentScopeDoesNotEscalate b c \<Longrightarrow>
   subagentScopeDoesNotEscalate a c"
  by (auto simp: subagentScopeDoesNotEscalate_def)

lemma delegated_scope: "delegated root child \<Longrightarrow> subagentScopeDoesNotEscalate root child"
proof (induction rule: delegated.induct)
  case (delegated_root root)
  then show ?case by (simp add: subagentScopeDoesNotEscalate_def)
next
  case (delegated_child root parent profile request now k child)
  then show ?case using create_scope(1) scope_trans by blast
qed

end
