(* ===== verification/Examples.thy ===== *)
theory Examples
  imports Task_Properties Kernel_Contracts
begin

text \<open>
  Small inputs at which the properties of the root theory are applied: delegations,
  verifications and proposals of a board whose clock counts its own readings.
\<close>

definition sample_delegation :: "string \<Rightarrow> string \<Rightarrow> string option \<Rightarrow> delegation_record_input" where
  "sample_delegation k worker context =
     \<lparr>di_id = k, di_taskId = Some ''t1'', di_workerId = worker, di_instruction = ''do it'',
      di_fromAgent = None, di_contextSnapshot = context, di_specialization = None,
      di_targetAgent = None, di_verificationRequest = None, di_resultSummary = None,
      di_observedWriteSet = None, di_observedWriteSetSource = None, di_status = Some DQueued,
      di_error = None\<rparr>"

definition sample_status :: "string \<Rightarrow> delegation_status \<Rightarrow> delegation_status_update" where
  "sample_status k status =
     \<lparr>du_id = k, du_status = status, du_error = None, du_reason = None, du_resultSummary = None,
      du_observedWriteSet = None, du_observedWriteSetSource = None\<rparr>"

definition sample_verification :: "string \<Rightarrow> string \<Rightarrow> verification_input" where
  "sample_verification k verifier =
     \<lparr>vi_id = k, vi_taskId = Some ''t1'', vi_verifierId = verifier, vi_verifiedBy = None,
      vi_requirement = ''check it'', vi_status = None, vi_verdict = None,
      vi_verdictSummary = None, vi_checks = None\<rparr>"

definition sample_proposal :: "string \<Rightarrow> proposal_input" where
  "sample_proposal k =
     \<lparr>pi_id = k, pi_kind = ''tasks.todo_write'', pi_payload = [(''items'', JArr [])],
      pi_sourceSessionId = ''s1'', pi_sourceTurnId = ''u1'', pi_provenance = ''model'',
      pi_expiresAtMs = None\<rparr>"

definition sample_claim :: "string \<Rightarrow> delegation_claim_input" where
  "sample_claim k = \<lparr>ci_id = k, ci_workerId = None, ci_respectScheduler = True\<rparr>"

definition sample_board :: board where
  "sample_board = newTaskBoard NoSeed int None"

definition sample_commands :: "task_command list" where
  "sample_commands =
     [CUpsertDelegation (sample_delegation ''d1'' ''w1'' None),
      CUpsertVerification (sample_verification ''v1'' ''r1''),
      CSetDelegationStatus (sample_status ''d1'' DRunning),
      CEnqueueProposal (sample_proposal ''p1''),
      CTransitionProposal \<lparr>pt_proposalId = ''p1'', pt_status = PAccepted, pt_decisionNote = None\<rparr>,
      CApplyProposal ''p1'', CDrainOutbox (Some 1), CDrainJournal None]"

lemma sample_board_inv [simp]: "board_inv sample_board"
  unfolding sample_board_def by (rule new_board_inv, rule empty_state_inv)

lemma sample_board_fields [simp]:
  "tb_journal sample_board = []" "os_delegation (tb_state sample_board) = []"
  "os_verification (tb_state sample_board) = []" "os_proposalQueue (tb_state sample_board) = []"
  "os_proposalOutbox (tb_state sample_board) = []" "tb_clock sample_board = int"
  by (simp_all add: sample_board_def newTaskBoard_def empty_operations_def)

text \<open>Two delegations with disjoint write sets, both claimed.\<close>

definition sample_plane :: board where
  "sample_plane =
     snd (claimDelegation (sample_claim ''d2'')
       (snd (claimDelegation (sample_claim ''d1'')
         (snd (upsertDelegation (sample_delegation ''d2'' ''w2'' (Some ''writeSet=b''))
           (snd (upsertDelegation (sample_delegation ''d1'' ''w1'' (Some ''writeSet=a''))
             sample_board)))))))"

lemma sample_plane_reachable: "reachable sample_board sample_plane"
  unfolding sample_plane_def
  by (intro reachable.step [OF _ plane_step.claim] reachable.step [OF _ plane_step.enqueue]
      reachable.start) (simp_all add: sample_claim_def sample_delegation_def)

text \<open>
  Two running delegations that overlap each other, and a queued one that overlaps only the second.
\<close>

definition sample_contending :: task_operations_state where
  "sample_contending =
     tb_state (fst (run_log exec
       [CUpsertDelegation (sample_delegation ''a'' ''w1'' (Some ''writeSet=x'')),
        CUpsertDelegation (sample_delegation ''b'' ''w2'' (Some ''writeSet=x,y'')),
        CUpsertDelegation (sample_delegation ''c'' ''w3'' (Some ''writeSet=y'')),
        CSetDelegationStatus (sample_status ''a'' DRunning),
        CSetDelegationStatus (sample_status ''b'' DRunning)] sample_board))"

text \<open>Two queued delegations over the same file.\<close>

definition sample_queued :: task_operations_state where
  "sample_queued =
     tb_state (fst (run_log exec
       [CUpsertDelegation (sample_delegation ''a'' ''w1'' (Some ''writeSet=x'')),
        CUpsertDelegation (sample_delegation ''b'' ''w2'' (Some ''writeSet=y;parallelGroup=g'')),
        CUpsertDelegation (sample_delegation ''c'' ''w3'' (Some ''writeSet=x''))] sample_board))"

lemma sample_queued_records:
  "map (\<lambda>d. (dr_id d, dr_status d)) (os_delegation sample_queued) =
     [(''a'', DQueued), (''b'', DQueued), (''c'', DQueued)]"
  "map dr_id (os_delegation sample_queued) = [''a'', ''b'', ''c'']"
  "length (os_delegation sample_queued) = 3"
  by code_simp+

text \<open>A seed whose queued delegation names a target agent but no specialization.\<close>

definition sample_undecodable :: board where
  "sample_undecodable =
     (let s = tb_state (fst (exec (CUpsertDelegation (sample_delegation ''d1'' ''w1'' None)) sample_board))
      in newTaskBoard
           (OperationsSeed (s\<lparr>os_delegation :=
              map (\<lambda>d. d\<lparr>dr_targetAgent := Some ''coder''\<rparr>) (os_delegation s)\<rparr>)) int None)"

text \<open>A parent scope, a profile within it and a request within the profile.\<close>

definition sample_parent :: subagent_envelope where
  "sample_parent =
     \<lparr>se_subagentId = ''root'', se_parentTurnId = ''u1'', se_profileId = ''main'',
      se_permissions = [''fs.read'', ''fs.write''], se_tools = [''read'', ''write''],
      se_writableRoots = [''/repo''], se_memoryLayers = [L0, L1], se_maxTurns = 8,
      se_delegationRequestId = None, se_task = None, se_expectedOutput = None,
      se_isolatedContext = None, se_status = None, se_createdAt = None, se_budget = None,
      se_artifactsRequested = None\<rparr>"

definition sample_profile :: subagent_profile where
  "sample_profile =
     \<lparr>sp_profileId = ''reader'', sp_role = ''explore'', sp_instructions = ''read only'',
      sp_permissions = [''fs.read''], sp_tools = [''read''], sp_writableRoots = [],
      sp_memoryLayers = [L0], sp_maxTurns = 4, sp_budget = None\<rparr>"

definition sample_request :: delegation_request where
  "sample_request =
     \<lparr>rq_requestId = ''q1'', rq_parentTurnId = ''u1'', rq_task = ''look'',
      rq_expectedOutput = ''notes'', rq_allowedTools = Some [''read''],
      rq_allowedPermissions = None, rq_writableRoots = None, rq_memoryLayers = None,
      rq_maxTurns = Some 2, rq_artifactsRequested = None\<rparr>"

end
