(* ===== verification/Session_Examples.thy ===== *)
theory Session_Examples
  imports Session_Plane_Laws Session_Search Examples
begin

text \<open>
  Small inputs at which the session properties of the root theory are applied: a store whose clock
  counts its own readings, with one session, a journal of two entries and two checkpoints.
\<close>

definition sample_hash :: "string \<Rightarrow> string" where
  "sample_hash content = concat (replicate 4 ''0123456789abcdef'')"

definition sample_store :: session_store where
  "sample_store = newSessionStore None int (\<lambda>n. ''00000000-0000-0000-0000-000000000000'') sample_hash [''data'']"

definition sample_session :: string where
  "sample_session = ''sess-1''"

definition sample_append :: "string \<Rightarrow> int \<Rightarrow> append_input" where
  "sample_append ty n =
     \<lparr>ap_eventType = ty, ap_payload = JObj [(''n'', js_int n)], ap_turnId = Some ''turn-1'',
      ap_schemaVersion = None, ap_createdAtMs = None\<rparr>"

definition sample_checkpoint :: "jsval \<Rightarrow> checkpoint_input" where
  "sample_checkpoint state =
     \<lparr>ck_state = state, ck_uptoSeq = None, ck_schemaVersion = None, ck_createdAtMs = None,
      ck_metadata = None\<rparr>"

definition sample_step :: step_input where
  "sample_step =
     \<lparr>sj_turnId = ''turn-1'', sj_stepIndex = Finite 0, sj_eventType = ToolResult,
      sj_payload = JStr ''ok'', sj_schemaVersion = None, sj_createdAtMs = None\<rparr>"

definition sample_artifact :: "string \<Rightarrow> artifact_input" where
  "sample_artifact toolUseId =
     \<lparr>ai_turnId = ''turn-1'', ai_stepIndex = Finite 0, ai_toolUseId = toolUseId,
      ai_toolName = ''read_file'', ai_status = ArtifactSuccess, ai_content = ''hello'',
      ai_mimeType = None, ai_previewMaxChars = None, ai_replacement = None,
      ai_schemaVersion = None, ai_createdAtMs = None\<rparr>"

text \<open>The reducer that counts entries.\<close>

fun sample_reducer :: reducer where
  "sample_reducer (JNum (Finite n)) e = JNum (Finite (n + 1))"
| "sample_reducer _ e = JNum (Finite 1)"

definition sample_store_commands :: "store_command list" where
  "sample_store_commands =
     [CmdCreate (named_session sample_session),
      CmdAppend sample_session (sample_append ''note'' 1),
      CmdCheckpoint sample_session (sample_checkpoint (js_int 1)),
      CmdAppend sample_session (sample_append ''note'' 2),
      CmdCheckpoint sample_session (sample_checkpoint (js_int 2))]"

definition sample_run :: "nat \<Rightarrow> session_store" where
  "sample_run n = fst (run_log exec_store (take n sample_store_commands) sample_store)"

lemma sample_run_inv [simp]: "store_inv (sample_run n)"
  unfolding sample_run_def sample_store_def
  by (rule session_machine.inv_run) (rule new_store_inv)

lemma sample_run_root [simp]: "clean_root (sample_run n)"
proof -
  have "store_inv (sample_run n) \<and> clean_root (sample_run n)"
    unfolding sample_run_def sample_store_def
    by (rule artifact_machine.inv_run) (simp add: new_store_clean_root)
  then show ?thesis ..
qed

lemma sample_run_eval:
  "map jn_seq (entries_of sample_session (st_db (sample_run 5))) = [1, 2]"
  "map cp_uptoSeq (checkpoints_of sample_session (st_db (sample_run 5))) = [1, 2]"
  by code_simp+

definition sample_step_checkpoint :: step_checkpoint_input where
  "sample_step_checkpoint =
     \<lparr>sc_turnId = ''turn-1'', sc_stepIndex = Finite 0, sc_eventType = ToolResult,
      sc_state = js_int 2, sc_uptoSeq = None, sc_schemaVersion = None, sc_createdAtMs = None\<rparr>"


definition unreadable_append :: "string \<Rightarrow> bool" where
  "unreadable_append toolUseId =
     (case storeAppendToolResultArtifact sample_session (sample_artifact toolUseId) (sample_run 1) of
        (Inr (artifact, _), s') \<Rightarrow>
          isl (storeReadToolResultArtifact sample_session (af_artifactId artifact) s')
      | (Inl _, _) \<Rightarrow> False)"

text \<open>A plane over a store with a new session, whose clock counts its own readings.\<close>

definition sample_session_plane :: session_plane where
  "sample_session_plane =
     \<lparr>sp_store = fst (exec_store (CmdCreate (named_session sample_session)) sample_store),
      sp_now = int, sp_nows = 0\<rparr>"

lemma sample_session_plane_ok: "plane_ok sample_session sample_session_plane empty_state"
proof (rule new_session_plane)
  have inv: "store_inv sample_store" unfolding sample_store_def by (rule new_store_inv)
  have "isSessionId sample_session" "sqlGetSession sample_session (st_db sample_store) = None"
    by code_simp+
  from create_named [OF inv this]
  show "active_session sample_session (sp_store sample_session_plane)"
    "entries_of sample_session (st_db (sp_store sample_session_plane)) = []"
    by (auto simp: sample_session_plane_def)
qed (simp add: sample_session_plane_def)

text \<open>A search for the event type of the sample journal.\<close>

definition note_query :: search_query where
  "note_query =
     \<lparr>sq_query = ''note'', sq_limit = None, sq_sessionId = None, sq_status = None,
      sq_eventTypes = None\<rparr>"

end
