(* ===== verification/Session_Facts.thy ===== *)
theory Session_Facts
  imports Session_Examples
begin

text \<open>
  Further facts of the session store and of the plane it carries, which the properties of the root
  theory do not repeat.
\<close>

text \<open>
  The default target is the checkpoint before the latest, and a rewind makes a new latest one:
  two default rewinds in a row return to the state that was current before the first.
\<close>

lemma two_rewinds_return:
  assumes "store_inv s" and "lifecycleRequireActive k (st_db s) = Inr r"
    and "storeListCheckpoints k None s = Inr (latest # previous # older)"
  shows "\<exists>rw s1 rw' s2. storeRewind k None t s = (Inr rw, s1) \<and> storeRewind k None t' s1 = (Inr rw', s2) \<and>
    rw_targetCheckpointId rw = cp_id previous \<and> rw_targetCheckpointId rw' = cp_id latest \<and>
    map_option cp_state (sqlGetLatestCheckpoint k (st_db s1)) = Some (cp_state previous) \<and>
    map_option cp_state (sqlGetLatestCheckpoint k (st_db s2)) = Some (cp_state latest)"
proof (rule storeRewind_twice [OF assms(1,2)])
  show "js_sort by_latest_checkpoint (checkpoints_of k (st_db s)) = latest # previous # older"
    using assms(2,3)
    by (simp add: storeListCheckpoints_def lifecycleRequireActive_Inr lifecycleRequire_def
        lifecycleGet_def sqlListCheckpoints_def check_limit_def sql_limit_def)
qed

text \<open>
  Deleting an existing session always succeeds. It returns the archived record and the whole
  transcript, one entry for each journal entry in order, and removes the session with its journal,
  its checkpoints and the files in its artifact directory; other sessions and files stay.
\<close>

lemma deletion_returns_transcript:
  assumes "store_inv s" and "clean_root s" and "storeGetSession k s = Inr (Some r)"
  shows "\<exists>archived transcript s'. storeDeleteSession k reason s = (Inr (archived, transcript), s') \<and>
    ss_id archived = k \<and> ss_status archived = Archived \<and>
    dt_entries transcript = map toDurableTranscriptEntry (entries_of k (st_db s)) \<and>
    storeGetSession k s' = Inr None \<and> entries_of k (st_db s') = [] \<and>
    checkpoints_of k (st_db s') = [] \<and>
    (k' \<noteq> k \<longrightarrow> frozen k' (st_db s) (st_db s')) \<and>
    map_of (st_files s') path =
      (if prefix (artifact_dir k s) path then None else map_of (st_files s) path)"
proof -
  have k: "isSessionId k" "lifecycleRequire k (st_db s) = Inr r"
    using assms(3) by (auto simp: storeGetSession_def lifecycleGet_def lifecycleRequire_def split: if_splits)
  obtain archived transcript s' where del:
    "storeDeleteSession k reason s = (Inr (archived, transcript), s')"
    "ss_id archived = k" "ss_status archived = Archived"
    "dt_entries transcript = map toDurableTranscriptEntry (entries_of k (st_db s))"
    "st_db s' = remove_session k (st_db s)"
    "st_files s' = filter (\<lambda>(path, content). \<not> prefix (artifact_dir k s) path) (st_files s)"
    using delete_outcome [OF assms(1,2) k(2), of reason] by blast
  then show ?thesis
    using k(1)
    by (auto simp: storeGetSession_def lifecycleGet_def store_simps frozen_def map_of_filter_keys)
qed

text \<open>
  Whatever methods of the plane run on an active session with an empty journal, the state
  projected from its journal keeps the board's invariant, and the inboxes of every worker and
  verifier, read through the store, are aligned.
\<close>

lemma session_inboxes_aligned:
  fixes create p cs
  assumes "active_session k (sp_store p)" and "entries_of k (st_db (sp_store p)) = []"
    and "inj (sp_now p)" and "list_all json_plane cs"
  defines "p' \<equiv> fst (run_log (session_plane_step k create) cs p)"
  shows "\<exists>st wm fm. sessionStatus k create p' = (Inr st, p') \<and> state_inv st \<and>
    readSessionWorkerMailbox k w create p' = (Inr wm, p') \<and> wm_coverage wm = Aligned \<and>
    readSessionVerifierMailbox k v create p' = (Inr fm, p') \<and> fm_coverage fm = Aligned"
proof -
  obtain st where st: "plane_ok k p' st"
    using plane_runs [OF new_session_plane [OF assms(1-3)], of cs create] assms(4)
    by (auto simp: list_all_iff p'_def)
  then have inv: "state_inv st" by (simp add: plane_ok_def)
  show ?thesis
    using readWorkerMailbox_aligned [OF inv, of w] readVerifierMailbox_aligned [OF inv, of v] inv
    by (simp add: plane_reads [OF st] sessionStatus_def readSessionWorkerMailbox_def
        readSessionVerifierMailbox_def)
qed

text \<open>
  Not every artifact reads back: when the sanitized tool-use id is empty, or longer than 79
  characters, the append succeeds and reading under the id it returned fails.
\<close>

lemma unreadable_artifacts:
  "unreadable_append ''***'' \<and> unreadable_append (replicate 80 CHR ''x'')"
  by (rule conjI) code_simp+

text \<open>
  The turn that the store calls the latest is the hint of the latest checkpoint, when it has
  one: entries of later turns that are journaled after it do not change the answer.
\<close>

lemma latest_turn_ignores_later_entries:
  assumes "store_inv s" and "storeAppendJournal k input s = (Inr e, s')"
    and "sqlGetLatestCheckpoint k (st_db s) = Some c"
    and "readCheckpointLatestTurnHint (Some (cp_metadata c)) = Some hint"
  shows "storeGetLatestTurnId k s' = Inr hint \<and> jn_turnId e = ap_turnId input"
  using append_keeps_hint [OF assms] by blast

text \<open>
  A search returns at most 50 hits, in the order of their scores, and reports as their total
  the number it returns. Every hit is an extract of at most 230 characters, with at least one of
  the query's terms, from a session of the requested id and status or from a journal entry of it
  that has one of the requested event types.
\<close>

lemma search_hits_bounded:
  assumes "storeSearch query s = Inr found"
  shows "length (sx_hits found) \<le> 50 \<and> sx_totalHits found = length (sx_hits found) \<and>
    sorted_wrt (\<lambda>h h'. sh_score h' \<le> sh_score h) (sx_hits found) \<and>
    list_all (hit_ok query (extractSearchTerms (js_trim (sq_query query))) (st_db s)) (sx_hits found)"
  using assms search_hits_ok [of query "st_db s"]
  by (auto simp: storeSearch_def split: sum.splits)

text \<open>
  Where a turn resumes: once a step event is journaled, recovering the step state of its turn
  gives that event as the last, whatever was journaled and checkpointed before, and with it the
  next step and the action the event's type calls for.
\<close>

lemma turn_resumes_after_step:
  assumes "store_inv s" and "storeAppendStepJournal k input s = (Inr e, s')"
    and "is_json (sj_payload input)" and "storeGetSession k s = Inr (Some r)"
    and "expected = None \<or> expected = Some (ss_schemaVersion r)"
  shows "\<exists>v i. storeRecoverStep k (sj_turnId input) (plain_recovery f initial expected) s' = Inr v \<and>
    integer_of (sj_stepIndex input) = Some i \<and>
    sv_lastStepEvent v = Some \<lparr>sy_eventType = sj_eventType input, sy_entry = e, sy_stepIndex = i,
                               sy_payload = sj_payload input\<rparr> \<and>
    sv_resumeAction v = resumeActionFromProgress (sj_eventType input) \<and>
    sv_nextStepIndex v = nextStepIndexFromProgress i (sj_eventType input) \<and>
    last (sv_stepJournal v) = the (sv_lastStepEvent v)"
proof -
  have "sqlGetSession k (st_db s) = Some r"
    using assms(4) by (simp add: storeGetSession_def lifecycleGet_def split: if_splits)
  from step_resumes [OF assms(1-3) this assms(5)] show ?thesis .
qed

text \<open>
  Two sessions whose ids differ only in a colon share an artifact directory: deleting
  \<open>ab:c\<close> makes the artifacts of \<open>ab_c\<close> unreadable, although that session is still there.
\<close>

lemma sessions_share_artifacts:
  "let s = fst (run_log exec_store
             [CmdCreate (named_session ''ab:c''), CmdCreate (named_session ''ab_c''),
              CmdArtifact ''ab_c'' (sample_artifact ''call/1'')] sample_store);
       s' = fst (exec_store (CmdDelete ''ab:c'' None) s)
   in map_sum id snd (storeReadToolResultArtifact ''ab_c'' ''call_1_0123456789abcdef'' s) = Inr ''hello'' \<and>
      map_sum id (map_option ss_status) (storeGetSession ''ab_c'' s') = Inr (Some Active) \<and>
      isl (storeReadToolResultArtifact ''ab_c'' ''call_1_0123456789abcdef'' s')"
  unfolding sample_store_def by code_simp

end
