(* ===== verification/Task_Facts.thy ===== *)
theory Task_Facts
  imports Examples
begin

text \<open>
  Further facts of single operations of the task plane and of the turn contracts, which the
  properties of the root theory do not repeat: outcomes, counts, partitions and orders.
\<close>

text \<open>
  Enqueueing a proposal under a taken id throws and changes nothing; under a new id it appends
  the pending proposal to the queue, one outbox entry that announces it, and one journal entry.
\<close>

lemma enqueue_outcomes:
  "if pi_id input \<in> pr_id ` set (os_proposalQueue (tb_state b))
   then enqueueProposal input b = (Inl (Error (''Duplicate proposal id: '' @ pi_id input)), b)
   else \<exists>s b' p e j. enqueueProposal input b = (Inr s, b') \<and> tb_state b' = s \<and>
          os_proposalQueue s = map cloneProposalRecord (os_proposalQueue (tb_state b)) @ [p] \<and>
          pr_id p = pi_id input \<and> pr_status p = PPending \<and> pr_payload p = pi_payload input \<and>
          os_proposalOutbox s = map cloneProposalOutboxEntry (os_proposalOutbox (tb_state b)) @ [e] \<and>
          oe_eventType e = ProposalEnqueued \<and> oe_proposalId e = pi_id input \<and>
          oe_status e = PPending \<and> tb_journal b' = tb_journal b @ [j]"
proof (cases "pi_id input \<in> pr_id ` set (os_proposalQueue (tb_state b))")
  case True
  then show ?thesis by (simp add: enqueueProposal_duplicate)
next
  case False
  then show ?thesis
    by (simp add: enqueueProposal_ok materializeTaskOperationsState_def buildProposalRecord_def
        enqueued_entry_def createOutboxEntry_def cloneProposalRecord_def
        cloneProposalOutboxEntry_def store_proposal_def)
qed

text \<open>
  Draining the outbox takes a prefix of it, of the asked length or all of it, leaves the rest
  in order, and journals the ids taken unless nothing was taken.
\<close>

lemma outbox_drains_in_order:
  "let n = nat (nullish_else limit (int (length (os_proposalOutbox (tb_state b)))));
       outcome = drainProposalOutbox limit b
   in fst outcome = Inr (take n (os_proposalOutbox (tb_state b))) \<and>
      os_proposalOutbox (tb_state (snd outcome)) = drop n (os_proposalOutbox (tb_state b)) \<and>
      length (tb_journal (snd outcome)) = length (tb_journal b) +
        (if take n (os_proposalOutbox (tb_state b)) = [] then 0 else 1)"
proof (cases "nullish_else limit (int (length (os_proposalOutbox (tb_state b)))) \<le> 0 \<or>
    os_proposalOutbox (tb_state b) = []")
  case True
  then show ?thesis by (auto simp: drainProposalOutbox_none [OF refl] Let_def)
next
  case False
  then show ?thesis
    by (simp add: drainProposalOutbox_ok [OF refl] Let_def drained_outbox_def clone_simps)
qed

text \<open>
  Draining the journal of a board never throws: it hands out a prefix of the buffer, of the
  asked length or all of it, as it was recorded, and keeps the rest.
\<close>

lemma journal_drains_in_order:
  assumes "board_inv b"
  shows "drainJournal limit b =
           (let n = nat (nullish_else limit (int (length (tb_journal b))))
            in (Inr (take n (tb_journal b)), b\<lparr>tb_journal := drop n (tb_journal b)\<rparr>))"
  unfolding Let_def by (rule drainJournal_prefix) (use assms in \<open>simp add: board_inv_def\<close>)

text \<open>
  When a queued delegation is set to another status, its pending notification is acknowledged
  in the same step, at the step's reading of the clock, and keeps its other fields.
\<close>

lemma leaving_queue_acknowledges:
  assumes "board_inv b" and "find_by_id dr_id (os_delegation (tb_state b)) k = Some d"
    and "dr_status d = DQueued" and "du_id input = k" and "du_status input \<noteq> DQueued"
  shows "\<exists>n. find_by_id nr_id (notifications_of (tb_state b)) (buildDelegationNotificationId k) = Some n \<and>
             nr_status n = NPending \<and>
             find_by_id nr_id (notifications_of (tb_state (snd (setDelegationStatus input b))))
               (buildDelegationNotificationId k) =
               Some (n\<lparr>nr_status := NAcknowledged, nr_updatedAtMs := board_now b,
                       nr_acknowledgedAtMs := Some (board_now b)\<rparr>)"
  using assms by (rule leaving_queue_notice)

text \<open>
  First fit: for every batch below the one a scheduled delegation gets, one of its recorded
  blockers sits in that batch and shares a file with it.
\<close>

lemma later_batch_has_blockers:
  assumes "distinct (map dr_id ds)" and "d \<in> set ds" and "in_schedule d"
    and "scheduling_of ds (dr_id d) = Some g" and "0 \<le> k" and "k < sg_parallelBatch g"
  shows "\<exists>e \<in> set ds. dr_id e \<in> set (sg_blockedBy g) \<and> contend d e \<and>
           (\<exists>h. scheduling_of ds (dr_id e) = Some h \<and> sg_parallelBatch h = k)"
  using assms by (rule batch_justified)

text \<open>
  A dispatch plan's batches hold each queued run that may start exactly once, and nothing
  else, and their numbers increase; the plan can dispatch exactly when its reason is \<open>ready\<close>.
\<close>

lemma dispatch_plan_partitions:
  "let plan = projectSubagentSchedulerDispatchPlanFromSubagentRuns runs p;
       startable = filter (\<lambda>run. sr_status run = DQueued \<and> may_start run) runs
   in mset (concat (map db_subagentIds (pl_dispatchBatches plan))) = mset (map sr_subagentId startable) \<and>
      sorted_wrt (<) (map db_parallelBatch (pl_dispatchBatches plan)) \<and>
      mset (pl_dispatchableSubagentIds plan) = mset (map sr_subagentId startable) \<and>
      pl_maxDispatchableCount plan = length startable \<and>
      (pl_canDispatch plan \<longleftrightarrow> pl_dispatchReason plan = ReadyReason)"
proof -
  have sorted: "mset (dispatchable_runs runs) =
      mset (filter (\<lambda>run. sr_status run = DQueued \<and> may_start run) runs)"
    by (simp add: dispatchable_runs_def)
  then have ids: "mset (map sr_subagentId (dispatchable_runs runs)) =
      mset (map sr_subagentId (filter (\<lambda>run. sr_status run = DQueued \<and> may_start run) runs))"
    by simp
  have len: "length (dispatchable_runs runs) =
      length (filter (\<lambda>run. sr_status run = DQueued \<and> may_start run) runs)"
    using sorted by (rule mset_eq_length)
  have empty: "dispatchable_runs runs = [] \<longleftrightarrow>
      filter (\<lambda>run. sr_status run = DQueued \<and> may_start run) runs = []"
    using len by (metis length_0_conv)
  have batches: "sorted_wrt (<) (map db_parallelBatch (createSubagentDispatchBatches rs))" for rs
    by (simp add: createSubagentDispatchBatches_def Let_def comp_def uniqueNumbers_sorted)
  show ?thesis
    using ids len empty batches
    by (simp add: projectSubagentSchedulerDispatchPlanFromSubagentRuns_def Let_def batches_partition
        projectSubagentSchedulerHeartbeatFromSubagentRuns_def with_status_def conj_commute)
qed

text \<open>
  A heartbeat counts every run under exactly one status and every queued run as ready or
  blocked; it can continue exactly when something is ready, and otherwise says whether the
  scheduler blocks queued work or nothing is queued.
\<close>

lemma heartbeat_counts:
  "let h = projectSubagentSchedulerHeartbeatFromSubagentRuns runs p
   in hb_queuedCount h + hb_runningCount h + hb_completedCount h + hb_failedCount h +
        hb_cancelledCount h = hb_totalSubagentRuns h \<and>
      hb_readyCount h + hb_blockedCount h = hb_queuedCount h \<and>
      (hb_canContinue h \<longleftrightarrow> 0 < hb_readyCount h) \<and>
      hb_stoppedReason h = (if 0 < hb_readyCount h then ReadyReason
        else if 0 < hb_queuedCount h then SchedulerBlocked else MailboxEmpty)"
proof -
  have "length (filter may_start xs) + length (filter (\<lambda>r. \<not> may_start r) xs) = length xs" for xs
    by (rule sum_length_filter_compl)
  moreover have "filter may_start xs = [] \<Longrightarrow> filter (\<lambda>r. \<not> may_start r) xs = xs" for xs
    by (induction xs) (auto split: if_splits)
  ultimately show ?thesis
    using with_status_partition [of runs]
    by (auto simp: projectSubagentSchedulerHeartbeatFromSubagentRuns_def Let_def)
qed

text \<open>
  A scheduler tick emits one intent per dispatched run, in batch order, and each intent is
  for a queued run that may start, under that run's worker, files and batch, with the command
  line that claims it.
\<close>

lemma tick_intents_dispatch:
  assumes "distinct (map sr_subagentId runs)"
    and "intent \<in> set (tk_dispatchIntents (projectSubagentSchedulerTickFromSubagentRuns runs s l p))"
  shows "map tn_delegationId (tk_dispatchIntents (projectSubagentSchedulerTickFromSubagentRuns runs s l p)) =
           concat (map db_subagentIds (createSubagentDispatchBatches (dispatchable_runs runs))) \<and>
         (\<exists>run \<in> set runs. sr_status run = DQueued \<and> may_start run \<and>
           tn_delegationId intent = sr_subagentId run \<and> tn_workerId intent = sr_workerId run \<and>
           tn_writeSet intent = run_write_set run \<and> tn_parallelBatch intent = run_batch run \<and>
           tn_argv intent = [''run-delegation'', ''--session-id'', s, ''--worker-id'',
             sr_workerId run, ''--delegation-id'', sr_subagentId run])"
  using intents_of_batches [of runs s l p] intent_fields [OF assms] by blast

text \<open>
  The recovery plan's groups hold the id of each recovery action exactly once, and the plan
  offers recovery exactly when some run's scheduling yields an action.
\<close>

lemma recovery_groups_partition:
  "let plan = projectSubagentSchedulerRecoveryPlanFromSubagentRuns runs p
   in mset (concat (map rg_actionIds (rp_recoveryGroups plan))) =
        mset (map ra_actionId (rp_recoveryActions plan)) \<and>
      rp_recoveryActions plan = concat (map run_recovery_actions runs) \<and>
      (rp_canRecover plan \<longleftrightarrow> (\<exists>run \<in> set runs. run_recovery_actions run \<noteq> []))"
proof -
  let ?actions = "createSubagentSchedulerRecoveryActions runs"
  have "grouped_actions (pending_groups ?actions) = mset ?actions"
    by (rule pending_groups_actions) (rule recovery_action_reason)
  then have "mset (concat (map rg_actionIds (createSubagentSchedulerRecoveryGroups ?actions runs))) =
      mset (map ra_actionId ?actions)"
    by (simp only: recovery_groups_actionIds grouped_actions_def mset_map)
  then show ?thesis
    by (simp add: projectSubagentSchedulerRecoveryPlanFromSubagentRuns_def Let_def
        createSubagentSchedulerRecoveryActions_def)
qed

text \<open>
  The delegation mailbox lists the delegations of the asked worker and statuses (queued by
  default), sorted by creation, update and id, each once; a limit keeps the first ones of that
  order, and none when it is not positive.
\<close>

lemma delegation_mailbox_is_sorted_selection:
  "\<exists>page. mset page = mset (filter (\<lambda>r. matches_query w (dr_workerId r) \<and>
               dr_status r \<in> set (nullish_else statuses [DQueued])) (os_delegation s)) \<and>
          sorted_wrt (\<lambda>x y. compareDelegationMailboxOrder x y \<le> 0) page \<and>
          listDelegationMailbox s w statuses limit =
            map mailboxCloneDelegationRecord
              (case limit of None \<Rightarrow> page | Some n \<Rightarrow> take (nat n) page)"
proof (intro exI conjI)
  let ?P = "\<lambda>r. matches_query w (dr_workerId r) \<and> dr_status r \<in> set (nullish_else statuses [DQueued])"
  let ?page = "mailbox_page ?P compareDelegationMailboxOrder None (os_delegation s)"
  show "mset ?page = mset (filter ?P (os_delegation s))" by (simp add: mailbox_page_all)
  show "sorted_wrt (\<lambda>x y. compareDelegationMailboxOrder x y \<le> 0) ?page"
    by (rule mailbox_page_sorted) (rule delegation_order.consistent_comparator_axioms)
  show "listDelegationMailbox s w statuses limit = map mailboxCloneDelegationRecord
      (case limit of None \<Rightarrow> ?page | Some n \<Rightarrow> take (nat n) ?page)"
    by (cases limit) (simp_all add: listDelegationMailbox_def mailbox_page_prefix)
qed

text \<open>
  Whatever decodes is stable: its payload has the asked event type, is well formed, and
  creating an event from it gives the decoded event again.
\<close>

lemma decoded_events_recreate:
  assumes "decodeTaskEvent eventType v d = Some e"
  shows "payload_event_type (te_payload e) = eventType \<and> wf_payload (te_payload e) \<and>
         createTaskEvent (te_payload e) d = Inr e"
proof -
  have e: "decode_payload eventType v = Some (te_payload e)"
    "te_domainVersion e = TASK_EVENTS_DOMAIN_VERSION" "compatible_version d"
    using decodeTaskEvent_Some [OF assms] by simp_all
  have "wf_payload (te_payload e)" using e(1) by (rule decode_payload_wf)
  with e show ?thesis
    by (cases e) (simp add: createTaskEvent_wf decode_payload_type)
qed

text \<open>
  Of the versions \<open>tasks/vN\<close> and \<open>tasks/vN.M\<close> exactly those with \<open>N = 1\<close> are compatible with
  the current domain version.
\<close>

lemma version_compatible_iff:
  "(isTaskEventsDomainVersionCompatible (''tasks/v'' @ show_nat n) TASK_EVENTS_DOMAIN_VERSION
      \<longleftrightarrow> n = 1) \<and>
   (isTaskEventsDomainVersionCompatible (''tasks/v'' @ show_nat n @ ''.'' @ show_nat m)
      TASK_EVENTS_DOMAIN_VERSION \<longleftrightarrow> n = 1)"
proof -
  have nonempty: "show_nat k \<noteq> []" for k by (cases "k < 10") (simp_all add: show_nat_small show_nat_large)
  have tail: "version_tail (''/v'' @ show_nat k) = Some (show_nat k)"
    "version_tail (''/v'' @ show_nat k @ ''.'' @ show_nat j) = Some (show_nat k)" for k j
    using show_nat_digits nonempty by (blast intro: version_tail_digits)+
  have not_space: "\<not> is_js_space (CHR ''t'')" by (simp add: is_js_space_def)
  have trim: "js_trim (''tasks/v'' @ show_nat k) = ''tasks/v'' @ show_nat k"
    "js_trim (''tasks/v'' @ show_nat k @ ''.'' @ show_nat j) = ''tasks/v'' @ show_nat k @ ''.'' @ show_nat j"
    for k j
    using js_trim_digits_end [OF show_nat_digits nonempty not_space, of "''asks/v''" k]
      js_trim_digits_end [OF show_nat_digits nonempty not_space, of "''asks/v'' @ show_nat k @ ''.''" j]
    by simp_all
  have parse: "parseVersion (''tasks/v'' @ show_nat k) = Some (''tasks'', k)"
    "parseVersion (''tasks/v'' @ show_nat k @ ''.'' @ show_nat j) = Some (''tasks'', k)" for k j
    using parse_tasks_version [OF tail(1) trim(1) nonempty, of k]
      parse_tasks_version [OF tail(2) trim(2), of k j] nonempty
    by (simp_all add: digits_value_show)
  have current: "TASK_EVENTS_DOMAIN_VERSION = ''tasks/v'' @ show_nat 1"
    by code_simp
  have same: "''tasks/v'' @ x = ''tasks/v'' @ y \<Longrightarrow> x = y" for x y :: string by simp
  have inj: "n = 1" if "''tasks/v'' @ show_nat n = ''tasks/v'' @ show_nat 1"
    using arg_cong [OF same [OF that], of digits_value] by (simp add: digits_value_show)
  have dotted: "n = 1" if "''tasks/v'' @ show_nat n @ ''.'' @ show_nat m = ''tasks/v'' @ show_nat 1"
    using parse(2) [of n m] parse(1) [of 1] unfolding that by simp
  show ?thesis
    unfolding isTaskEventsDomainVersionCompatible_def current
    using parse inj dotted by (simp only: option.case prod.case fst_conv snd_conv) metis
qed

text \<open>
  The lifecycle has exactly one record for each non-empty task id that a todo item, a
  delegation or a verification names.
\<close>

lemma lifecycle_covers_tasks:
  "distinct (map lr_taskId (deriveTaskLifecycle s)) \<and>
   set (map lr_taskId (deriveTaskLifecycle s)) =
     {t. t \<noteq> [] \<and> ((\<exists>i \<in> set (ts_items (os_todos s)). ti_id i = t) \<or>
                   (\<exists>d \<in> set (os_delegation s). dr_taskId d = Some t) \<or>
                   (\<exists>v \<in> set (os_verification s). vr_taskId v = Some t))}"
  unfolding lifecycle_task_ids using collectTaskIds_distinct set_collectTaskIds by blast

text \<open>
  The lifecycle summary counts the records of each status, lists every status once and in
  order, and its counts add up to its total.
\<close>

lemma summary_adds_up:
  "ls_byStatus (summarizeTaskLifecycle es) st = length (filter (\<lambda>e. lr_status e = st) es) \<and>
   (\<Sum>s\<leftarrow>TASK_LIFECYCLE_STATUS_ORDER. ls_byStatus (summarizeTaskLifecycle es) s) =
     ls_total (summarizeTaskLifecycle es) \<and>
   sorted TASK_LIFECYCLE_STATUS_ORDER \<and> distinct TASK_LIFECYCLE_STATUS_ORDER \<and>
   set TASK_LIFECYCLE_STATUS_ORDER = UNIV"
  using summary_byStatus summary_total status_order_complete by blast

text \<open>
  A completed, blocked or failed turn never moves again; any other turn can be blocked or
  failed at once, and can still be completed.
\<close>

lemma turn_can_always_end:
  "if terminal_turn_state s
   then list_all (\<lambda>t. \<not> canTransitionAgentOsTurnState s t) AGENT_OS_TURN_STATES
   else canTransitionAgentOsTurnState s Blocked \<and> canTransitionAgentOsTurnState s Failed \<and>
        (\<exists>path. turn_run s path Completed)"
proof (cases "terminal_turn_state s")
  case True
  then show ?thesis by (simp add: terminal_no_transition list_all_iff)
next
  case False
  have "turn_run s ([s] @ turns_to_completion s) (last (s # turns_to_completion s))"
    using completion_follows [OF False] by (intro follow_run turn_here) simp
  moreover have "turns_to_completion s \<noteq> []" by (cases s) simp_all
  ultimately have "turn_run s ([s] @ turns_to_completion s) Completed"
    using completion_follows [OF False] by simp
  with False nonterminal_can_stop [OF False] show ?thesis by auto
qed

text \<open>
  The timeline summary's counters are the numbers of events whose type has the prefix they
  stand for, and the turn counts as delivered exactly when a \<open>final.delivered\<close> event is there.
\<close>

lemma timeline_summary_counts:
  "let summary = projectAgentOsTimelineSummary es
   in tz_approvalEvents summary = length (with_prefix ''approval.'' es) \<and>
      tz_memoryEvents summary = length (with_prefix ''memory.'' es) \<and>
      tz_skillEvents summary = length (with_prefix ''skill.'' es) \<and>
      tz_subagentEvents summary = length (with_prefix ''subagent.'' es) \<and>
      tz_controlPlaneEvents summary = length (with_prefix ''control.'' es) \<and>
      tz_toolEvents summary = length (with_prefix ''tool.'' es) \<and>
      (tz_finalDelivered summary \<longleftrightarrow> (\<exists>e \<in> set es. tv_eventType e = ''final.delivered''))"
  by (simp add: summary_counters)

text \<open>
  Startup reconciliation never throws on a board that keeps its invariant, reports exactly
  the delegations that were running, leaves none running, keeps the invariant (so each requeued
  one is notified again), and touches no other delegation.
\<close>

lemma startup_recovers_orphans:
  assumes "board_inv b"
  shows "\<exists>s b'. reconcileTaskBoardStartup options b = (Inr (s, running_ids b), b') \<and> board_inv b' \<and>
           (\<forall>d \<in> set (os_delegation s). dr_status d \<noteq> DRunning) \<and>
           (\<forall>k d. find_by_id dr_id (os_delegation (tb_state b)) k = Some d \<and> dr_status d \<noteq> DRunning \<longrightarrow>
                find_by_id dr_id (os_delegation s) k = Some d) \<and>
           (\<forall>k d. find_by_id dr_id (os_delegation (tb_state b)) k = Some d \<and> dr_status d = DRunning \<longrightarrow>
                map_option dr_status (find_by_id dr_id (os_delegation s) k) =
                  Some (target_status (nullish_else (ro_target options) Requeue)))"
proof -
  obtain b' where run: "reconcileTaskBoardStartup options b = (Inr (tb_state b', running_ids b), b')"
    and inv: "board_inv b'"
    and eff: "\<And>k. find_by_id dr_id (os_delegation (tb_state b')) k =
       (case find_by_id dr_id (os_delegation (tb_state b)) k of
          None \<Rightarrow> None
        | Some d \<Rightarrow>
            if dr_status d = DRunning
            then Some (delegation_with_status (reconciliation_update options k) d
                   (dr_updatedAtMs (the (find_by_id dr_id (os_delegation (tb_state b')) k))))
            else Some d)"
    using reconcile_effect [OF assms, of options] by blast
  have "map_option dr_status (find_by_id dr_id (os_delegation (tb_state b')) k) =
      Some (target_status (nullish_else (ro_target options) Requeue))"
    if "find_by_id dr_id (os_delegation (tb_state b)) k = Some d" "dr_status d = DRunning" for k d
    using that by (subst eff) (simp add: delegation_with_status_def)
  moreover have "find_by_id dr_id (os_delegation (tb_state b')) k = Some d"
    if "find_by_id dr_id (os_delegation (tb_state b)) k = Some d" "dr_status d \<noteq> DRunning" for k d
    using that by (subst eff) simp
  ultimately show ?thesis
    using run inv reconcile_none_running [OF assms run] by blast
qed

text \<open>
  A task counts as verified exactly when its latest verification has passed and no delegation
  of the task is more recent than it.
\<close>

lemma verified_iff_passed_last:
  "lr_status (derive_task s t) = LVerified \<longleftrightarrow>
     (\<exists>v. findLatestRecord verification_recency
            (filter (\<lambda>u. vr_taskId u = Some t) (os_verification s)) = Some v \<and>
          vr_status v = VPassed \<and>
          list_all (\<lambda>d. compareRecordRecency (delegation_recency d) (verification_recency v) \<le> 0)
            (filter (\<lambda>d. dr_taskId d = Some t) (os_delegation s)))"
proof -
  let ?ds = "filter (\<lambda>d. dr_taskId d = Some t) (os_delegation s)"
  have recent: "list_all (\<lambda>d. compareRecordRecency (delegation_recency d) r \<le> 0) ?ds \<longleftrightarrow>
      (case latest_delegation s t of None \<Rightarrow> True
       | Some d \<Rightarrow> 0 \<le> compareRecordRecency r (delegation_recency d))" for r
  proof (cases "latest_delegation s t")
    case None
    then have "?ds = []" by (simp only: latest_delegation_def findLatestRecord_None)
    with None show ?thesis by simp
  next
    case (Some d)
    then have d: "d \<in> set ?ds"
      "\<And>x. x \<in> set ?ds \<Longrightarrow> compareRecordRecency (delegation_recency x) (delegation_recency d) \<le> 0"
      using findLatestRecord_Some [of delegation_recency ?ds d] by (auto simp: latest_delegation_def)
    have "compareRecordRecency (delegation_recency d) r \<le> 0 \<longleftrightarrow>
        0 \<le> compareRecordRecency r (delegation_recency d)"
      using record_recency.sign [of r "delegation_recency d"] by linarith
    then show ?thesis
      using d record_recency.trans_le Some unfolding list_all_iff by auto
  qed
  have never: "mapDelegationStatus x \<noteq> LVerified" "mapTodoStatus y \<noteq> LVerified"
    "mapVerificationStatus z = LVerified \<longleftrightarrow> z = VPassed" for x y z
    by simp_all
  show ?thesis
    unfolding recent latest_verification_def [symmetric]
    by (auto simp: derive_task_def Let_def deriveTaskLifecycleStatus_def verification_owns_status_def
        never
        simp del: mapDelegationStatus.simps mapTodoStatus.simps mapVerificationStatus.simps
        split: option.splits bool.splits)
qed

text \<open>
  However appends succeed or throw, a turn's timeline holds only valid events with strictly
  increasing finite sequence numbers.
\<close>

lemma timeline_strictly_increases:
  "sorted_wrt seq_less (fst (run_log timeline_step events [])) \<and>
   list_all isAgentOsTimelineEvent (fst (run_log timeline_step events []))"
  using timeline.inv_run [of "[]" events] by (simp add: timeline_ok_def list_all_iff)

text \<open>
  After any run of commands the inbox of any worker or verifier, or of all of them, is
  aligned: every queued delegation and every pending verification has its pending notification,
  and every pending notification its record.
\<close>

lemma inboxes_aligned:
  fixes cs clock factory
  assumes "state_inv (createInitialTaskOperationsState seed)"
  defines "b \<equiv> fst (run_log exec cs (newTaskBoard seed clock factory))"
  shows "wm_coverage (portReadWorkerMailbox w b) = Aligned \<and>
         wm_unnotifiedDelegationIds (portReadWorkerMailbox w b) = [] \<and>
         wm_orphanNotificationIds (portReadWorkerMailbox w b) = [] \<and>
         fm_coverage (portReadVerifierMailbox v b) = Aligned \<and>
         fm_unnotifiedVerificationIds (portReadVerifierMailbox v b) = [] \<and>
         fm_orphanNotificationIds (portReadVerifierMailbox v b) = []"
  using board.inv_run [OF new_board_inv [OF assms(1)], of cs] unfolding b_def
  by (simp add: portReadWorkerMailbox_def readWorkerMailbox_aligned portReadVerifierMailbox_def
      readVerifierMailbox_aligned board_inv_stateD)

text \<open>
  With the default id factory and a clock that never repeats a reading, the outbox never holds
  two entries with the same id, however enqueues, transitions, applications and drains interleave.
\<close>

lemma outbox_ids_distinct:
  assumes "state_inv s" and "os_proposalOutbox s = []" and "inj clock"
  shows "distinct (map oe_id (os_proposalOutbox
           (portStatus (fst (run_log exec cs (newTaskBoard (OperationsSeed s) clock None))))))"
  using run_journal_inv [OF new_journal_inv [OF assms], of cs]
  by (simp add: journal_inv_def fresh_outbox_def portStatus_def)

text \<open>
  A claim is accepted exactly when the delegation is known, belongs to the claiming worker if
  one is named, is queued and, unless the claim ignores the scheduler, is unscheduled or ready.
\<close>

lemma claim_accepted_iff:
  "(\<exists>r. selectDelegationForClaim s input = Inr r) \<longleftrightarrow>
     (\<exists>d. find_by_id dr_id (os_delegation s) (ci_id input) = Some d \<and>
          matches_query (ci_workerId input) (dr_workerId d) \<and> dr_status d = DQueued \<and>
          (if ci_respectScheduler input
           then (case scheduling_of (os_delegation s) (ci_id input) of
                   None \<Rightarrow> True | Some g \<Rightarrow> sg_readyToStart g)
           else True))"
proof (cases "find_by_id dr_id (os_delegation s) (ci_id input)")
  case None
  then show ?thesis by (simp add: selectDelegationForClaim_def)
next
  case (Some d)
  obtain run where "find (\<lambda>run. sr_subagentId run = ci_id input)
      (projectSubagentRunsFromTaskState s None) = Some run"
    "sr_scheduling run = scheduling_of (os_delegation s) (ci_id input)"
    using find_run [OF Some] by blast
  with Some show ?thesis
    by (simp add: selectDelegationForClaim_def split: option.splits)
qed

text \<open>
  Without the scheduler's discipline the first-fit schedule does not protect running work:
  of two running delegations that overlap, the second is pushed to batch 1, and a queued one that
  overlaps only it gets batch 0, is ready, lists the running one as its blocker, and is claimed.
\<close>

lemma ready_although_blocked:
  "map_option (\<lambda>g. (sg_parallelBatch g, sg_readyToStart g, sg_blockedBy g))
     (scheduling_of (os_delegation sample_contending) ''c'') = Some (0, True, [''b'']) \<and>
   map_option dr_status (find_by_id dr_id (os_delegation sample_contending) ''b'') = Some DRunning \<and>
   map_sum (\<lambda>_. ()) dr_id (selectDelegationForClaim sample_contending (sample_claim ''c'')) = Inr ''c''"
  by code_simp

text \<open>
  The loop that searches for a free batch ends, whatever batches are occupied, and the batch
  it ends with is the least one from 0 that no overlapping delegation occupies; it is at most the
  number of occupied ones.
\<close>

lemma first_free_batch:
  "while_option (\<lambda>batch. batch \<in> set blocked) (\<lambda>batch. batch + 1) 0 =
     Some (selectFirstAvailableParallelBatch blocked) \<and>
   selectFirstAvailableParallelBatch blocked \<notin> set blocked \<and>
   0 \<le> selectFirstAvailableParallelBatch blocked \<and>
   {0 ..< selectFirstAvailableParallelBatch blocked} \<subseteq> set blocked \<and>
   selectFirstAvailableParallelBatch blocked \<le> int (length blocked)"
  using selectFirstAvailable_spec selectFirstAvailable_le [of blocked] while_occupied
  by (auto simp: selectFirstAvailableParallelBatch_def)

text \<open>
  With an id factory that repeats itself the suffix that should keep outbox ids apart does
  not: after three enqueues and a drain of two, two more enqueues leave two entries under the same
  id in the outbox.
\<close>

lemma outbox_suffix_collides:
  "map oe_id (os_proposalOutbox (tb_state (fst (run_log exec
      [CEnqueueProposal (sample_proposal ''p1''), CEnqueueProposal (sample_proposal ''p2''),
       CEnqueueProposal (sample_proposal ''p3''), CDrainOutbox (Some 2),
       CEnqueueProposal (sample_proposal ''p4''), CEnqueueProposal (sample_proposal ''p5'')]
      (newTaskBoard NoSeed int (Some (\<lambda>_. ''e'')))))))
   = [''e_dup_3'', ''e'', ''e_dup_3'']"
  by code_simp

text \<open>
  A second upsert of a queued delegation refreshes its pending notification's timestamp on
  the board without a journal entry, so the replayed state keeps the old one.
\<close>

lemma replay_misses_refresh:
  defines "b \<equiv> fst (run_log exec
      [CUpsertDelegation (sample_delegation ''d1'' ''w1'' None),
       CUpsertDelegation (sample_delegation ''d1'' ''w1'' None)] sample_board)"
  shows "map_sum id (\<lambda>t. map nr_updatedAtMs (notifications_of t))
           (projectTaskOperationsFromJournal (tb_journal b) NoSeed) = Inr [0] \<and>
         map nr_updatedAtMs (notifications_of (tb_state b)) = [1]"
  unfolding b_def by code_simp

text \<open>
  Applying an accepted \<open>tasks.todo_write\<close> proposal whose payload decodes succeeds: the board's
  todo items are the payload's, the proposal is applied with the second reading of the clock, and
  exactly two journal entries are added (the write and the transition).
\<close>

lemma apply_writes_todos:
  assumes "find_proposal b k = Some p" and "pr_status p = PAccepted"
    and "pr_kind p = ''tasks.todo_write''" and "proposal_todos p = Some todos"
  shows "\<exists>s b'. applyProposal k b = (Inr s, b') \<and> tb_state b' = s \<and>
           ts_items (os_todos s) = ts_items todos \<and>
           find_proposal b' k = Some (transitioned (apply_transition k) p
                                        (tb_clock b (Suc (tb_ticks b)))) \<and>
           length (tb_journal b') = length (tb_journal b) + 2"
  using assms by (rule applyProposal_effect)

text \<open>
  A delegation read through the mailbox never carries the observed write set that the board
  keeps for it: the mailbox's own copy of a record leaves both observed fields out, and the
  board's copy does not.
\<close>

lemma mailbox_drops_observed_writes:
  "list_all (\<lambda>r. dr_observedWriteSet r = None \<and> dr_observedWriteSetSource r = None)
     (listDelegationMailbox s w statuses limit) \<and>
   dr_observedWriteSet (cloneDelegationRecord d) = dr_observedWriteSet d \<and>
   dr_observedWriteSetSource (cloneDelegationRecord d) = dr_observedWriteSetSource d"
  by (simp add: listDelegationMailbox_def list_all_iff mailboxCloneDelegationRecord_def clone_simps)

text \<open>
  Setting the status of a delegation that a seed holds with a target agent and no
  specialization throws, because its journal event does not decode, but only after the status has
  changed: the state moves and the journal does not.
\<close>

lemma status_change_without_event:
  "map_option dr_status (find_by_id dr_id (os_delegation (tb_state (snd
      (setDelegationStatus (sample_status ''d1'' DRunning) sample_undecodable)))) ''d1'') = Some DRunning \<and>
   thrown (setDelegationStatus (sample_status ''d1'' DRunning) sample_undecodable) =
     Some (TypeError ''Invalid payload for task event tasks.delegation_status_set'') \<and>
   tb_journal (snd (setDelegationStatus (sample_status ''d1'' DRunning) sample_undecodable)) = []"
  by code_simp

end
