(* ===== verification/Async_Calls.thy ===== *)
theory Async_Calls
  imports Json_Values
begin

text \<open>
  Asynchronous code that awaits callbacks it was given. A process is what such code does next:
  it is done, it awaits a callback that returns nothing (a hook or a sink), or it invokes a tool
  and awaits its result; an awaited promise can reject, so each continuation takes the thrown
  value or the result. The events of a run are the calls with their answers, so a theorem about
  all runs holds whatever the callbacks do.
\<close>

section \<open>Thrown values\<close>

text \<open>
  An \<open>Error\<close> by its message, the two error classes of the tools package, and any other thrown
  value by the string \<open>String(value)\<close>.
\<close>

datatype thrown =
    ErrorThrown string
  | ValidationThrown string
  | TimeoutThrown string jsnum
  | ValueThrown string

fun normalizeError :: "thrown \<Rightarrow> string" where
  "normalizeError (ErrorThrown message) = message"
| "normalizeError (ValidationThrown message) = message"
| "normalizeError (TimeoutThrown toolName timeoutMs) =
     ''Tool \"'' @ toolName @ ''\" timed out after '' @ show_num timeoutMs @ ''ms.''"
| "normalizeError (ValueThrown text) = text"

section \<open>Processes\<close>

datatype ('u, 't, 'r, 'a) proc =
    Return 'a
  | Await 'u "thrown + unit \<Rightarrow> ('u, 't, 'r, 'a) proc"
  | Invoke 't "thrown + 'r \<Rightarrow> ('u, 't, 'r, 'a) proc"

type_synonym ('u, 't, 'r, 'a) task = "('u, 't, 'r, thrown + 'a) proc"

primrec follow :: "('u, 't, 'r, 'a) proc \<Rightarrow> ('a \<Rightarrow> ('u, 't, 'r, 'b) proc) \<Rightarrow> ('u, 't, 'r, 'b) proc" where
  "follow (Return a) k = k a"
| "follow (Await u c) k = Await u (\<lambda>r. follow (c r) k)"
| "follow (Invoke t c) k = Invoke t (\<lambda>r. follow (c r) k)"

text \<open>\<open>const x = await m; ...\<close>, and \<open>try { ... } catch (error) { ... }\<close>.\<close>

definition await :: "('u, 't, 'r, 'a) task \<Rightarrow> ('a \<Rightarrow> ('u, 't, 'r, 'b) task) \<Rightarrow> ('u, 't, 'r, 'b) task" where
  "await m k = follow m (\<lambda>r. case r of Inl e \<Rightarrow> Return (Inl e) | Inr x \<Rightarrow> k x)"

definition attempt ::
  "('u, 't, 'r, 'a) task \<Rightarrow> (thrown \<Rightarrow> ('u, 't, 'r, 'a) task) \<Rightarrow> ('u, 't, 'r, 'a) task" where
  "attempt m handler = follow m (\<lambda>r. case r of Inl e \<Rightarrow> handler e | Inr x \<Rightarrow> Return (Inr x))"

abbreviation resolved :: "'a \<Rightarrow> ('u, 't, 'r, 'a) task" where
  "resolved x \<equiv> Return (Inr x)"

abbreviation rejected :: "thrown \<Rightarrow> ('u, 't, 'r, 'a) task" where
  "rejected e \<equiv> Return (Inl e)"

text \<open>\<open>await callback?.(...)\<close>: nothing happens when the callback is not given.\<close>

definition call_if :: "bool \<Rightarrow> 'u \<Rightarrow> ('u, 't, 'r, unit) task" where
  "call_if given u = (if given then Await u Return else resolved ())"

section \<open>Runs\<close>

datatype ('u, 't, 'r) event =
    Did 'u "thrown + unit"
  | Invoked 't "thrown + 'r"

fun resume :: "('u, 't, 'r, 'a) proc \<Rightarrow> ('u, 't, 'r) event \<Rightarrow> ('u, 't, 'r, 'a) proc option" where
  "resume (Await u c) (Did u' r) = (if u' = u then Some (c r) else None)"
| "resume (Invoke t c) (Invoked t' r) = (if t' = t then Some (c r) else None)"
| "resume _ _ = None"

fun feed :: "('u, 't, 'r, 'a) proc \<Rightarrow> ('u, 't, 'r) event list \<Rightarrow> ('u, 't, 'r, 'a) proc option" where
  "feed p [] = Some p"
| "feed p (e # es) = (case resume p e of None \<Rightarrow> None | Some p' \<Rightarrow> feed p' es)"

text \<open>The complete runs of a process, with its result.\<close>

definition runs :: "('u, 't, 'r, 'a) proc \<Rightarrow> ('u, 't, 'r) event list \<Rightarrow> 'a \<Rightarrow> bool" where
  "runs p es a \<longleftrightarrow> feed p es = Some (Return a)"

fun proc_result :: "('u, 't, 'r, 'a) proc \<Rightarrow> 'a option" where
  "proc_result (Return a) = Some a"
| "proc_result _ = None"

definition run_result :: "('u, 't, 'r, 'a) proc \<Rightarrow> ('u, 't, 'r) event list \<Rightarrow> 'a option" where
  "run_result p es = Option.bind (feed p es) proc_result"

lemma run_result_iff: "run_result p es = Some a \<longleftrightarrow> runs p es a"
proof (cases "feed p es")
  case (Some q)
  then show ?thesis by (cases q) (simp_all add: run_result_def runs_def)
qed (simp add: run_result_def runs_def)

lemma resume_Return [simp]: "resume (Return a) e = None"
  by (cases e) simp_all

lemma runs_Return [simp]: "runs (Return a) es b \<longleftrightarrow> es = [] \<and> b = a"
  by (cases es) (auto simp: runs_def)

lemma runs_Await [simp]:
  "runs (Await u c) es a \<longleftrightarrow> (\<exists>r es'. es = Did u r # es' \<and> runs (c r) es' a)"
proof (cases es)
  case (Cons e es')
  then show ?thesis by (cases e) (auto simp: runs_def)
qed (simp add: runs_def)

lemma runs_Invoke [simp]:
  "runs (Invoke t c) es a \<longleftrightarrow> (\<exists>r es'. es = Invoked t r # es' \<and> runs (c r) es' a)"
proof (cases es)
  case (Cons e es')
  then show ?thesis by (cases e) (auto simp: runs_def)
qed (simp add: runs_def)

lemma proc_induct [case_names Return Await Invoke, induct type: proc]:
  fixes p :: "('u, 't, 'r, 'a) proc"
  assumes "\<And>a. P (Return a)" and "\<And>u c. (\<And>r. P (c r)) \<Longrightarrow> P (Await u c)"
    and "\<And>t c. (\<And>r. P (c r)) \<Longrightarrow> P (Invoke t c)"
  shows "P p"
  by (rule proc.induct) (use assms in \<open>auto simp: rangeI\<close>)

lemma prefix_split:
  assumes "\<And>es1 a. P es1 a \<longleftrightarrow> (\<exists>r es. es1 = e r # es \<and> Q r es a)"
  shows "(\<exists>r es'. es = e r # es' \<and> (\<exists>es1 es2 a. es' = es1 @ es2 \<and> Q r es1 a \<and> R es2 a)) \<longleftrightarrow>
         (\<exists>es1 es2 a. es = es1 @ es2 \<and> P es1 a \<and> R es2 a)"
proof
  assume "\<exists>r es'. es = e r # es' \<and> (\<exists>es1 es2 a. es' = es1 @ es2 \<and> Q r es1 a \<and> R es2 a)"
  then obtain r es1 es2 a where "es = (e r # es1) @ es2" "Q r es1 a" "R es2 a" by auto
  then show "\<exists>es1 es2 a. es = es1 @ es2 \<and> P es1 a \<and> R es2 a" using assms by blast
next
  assume "\<exists>es1 es2 a. es = es1 @ es2 \<and> P es1 a \<and> R es2 a"
  then show "\<exists>r es'. es = e r # es' \<and> (\<exists>es1 es2 a. es' = es1 @ es2 \<and> Q r es1 a \<and> R es2 a)"
    using assms by force
qed

lemma runs_follow:
  "runs (follow p k) es b \<longleftrightarrow> (\<exists>es1 es2 a. es = es1 @ es2 \<and> runs p es1 a \<and> runs (k a) es2 b)"
proof (induction p arbitrary: es)
  case (Return a)
  then show ?case by auto
next
  case (Await u c)
  show ?case unfolding follow.simps runs_Await Await.IH by (rule prefix_split) blast
next
  case (Invoke t c)
  show ?case unfolding follow.simps runs_Invoke Invoke.IH by (rule prefix_split) blast
qed

lemma runs_await:
  "runs (await m k) es b \<longleftrightarrow>
     (\<exists>e. runs m es (Inl e) \<and> b = Inl e) \<or>
     (\<exists>es1 es2 x. es = es1 @ es2 \<and> runs m es1 (Inr x) \<and> runs (k x) es2 b)"
proof -
  have "runs (await m k) es b \<longleftrightarrow> (\<exists>es1 es2 r. es = es1 @ es2 \<and> runs m es1 r \<and>
      runs (case r of Inl e \<Rightarrow> Return (Inl e) | Inr x \<Rightarrow> k x) es2 b)"
    unfolding await_def by (rule runs_follow)
  also have "\<dots> \<longleftrightarrow> (\<exists>e. runs m es (Inl e) \<and> b = Inl e) \<or>
      (\<exists>es1 es2 x. es = es1 @ es2 \<and> runs m es1 (Inr x) \<and> runs (k x) es2 b)"
    unfolding split_sum_ex by (auto split: sum.split)
  finally show ?thesis .
qed

lemma runs_attempt:
  "runs (attempt m h) es b \<longleftrightarrow>
     (\<exists>x. runs m es (Inr x) \<and> b = Inr x) \<or>
     (\<exists>es1 es2 e. es = es1 @ es2 \<and> runs m es1 (Inl e) \<and> runs (h e) es2 b)"
proof -
  have "runs (attempt m h) es b \<longleftrightarrow> (\<exists>es1 es2 r. es = es1 @ es2 \<and> runs m es1 r \<and>
      runs (case r of Inl e \<Rightarrow> h e | Inr x \<Rightarrow> Return (Inr x)) es2 b)"
    unfolding attempt_def by (rule runs_follow)
  also have "\<dots> \<longleftrightarrow> (\<exists>x. runs m es (Inr x) \<and> b = Inr x) \<or>
      (\<exists>es1 es2 e. es = es1 @ es2 \<and> runs m es1 (Inl e) \<and> runs (h e) es2 b)"
    unfolding split_sum_ex by (auto split: sum.split)
  finally show ?thesis .
qed

lemma runs_call_if:
  "runs (call_if given u) es r \<longleftrightarrow> (if given then es = [Did u r] else es = [] \<and> r = Inr ())"
  by (auto simp: call_if_def)

lemmas runs_simps = runs_await runs_attempt runs_call_if

section \<open>Partial runs\<close>

lemma feed_append:
  "feed p (es @ es') = (case feed p es of None \<Rightarrow> None | Some p' \<Rightarrow> feed p' es')"
  by (induction p es rule: feed.induct) (auto split: option.split)

text \<open>Every process can finish, so a partial run is the beginning of a complete one.\<close>

lemma can_finish: "\<exists>es a. runs p es a"
proof (induction p)
  case (Return a)
  show ?case by auto
next
  case (Await u c)
  obtain es a where "runs (c (Inr ())) es a" using Await.IH by blast
  then show ?case by auto
next
  case (Invoke t c)
  obtain es a where "runs (c (Inl (ErrorThrown []))) es a"
    using Invoke.IH by blast
  then show ?case by auto
qed

lemma feed_extends:
  assumes "feed p es = Some p'"
  shows "\<exists>es' a. runs p (es @ es') a"
  using can_finish [of p'] assms by (auto simp: runs_def feed_append)

section \<open>Processes that invoke nothing\<close>

text \<open>All the callbacks it awaits are among \<open>S\<close>.\<close>

primrec calls_only :: "('u \<Rightarrow> bool) \<Rightarrow> ('u, 't, 'r, 'a) proc \<Rightarrow> bool" where
  "calls_only S (Return a) \<longleftrightarrow> True"
| "calls_only S (Await u c) \<longleftrightarrow> S u \<and> (\<forall>r. calls_only S (c r))"
| "calls_only S (Invoke t c) \<longleftrightarrow> False"

lemma calls_only_follow: "calls_only S p \<Longrightarrow> (\<And>a. calls_only S (k a)) \<Longrightarrow> calls_only S (follow p k)"
  by (induction p) auto

lemma calls_only_await [intro]:
  "calls_only S m \<Longrightarrow> (\<And>x. calls_only S (k x)) \<Longrightarrow> calls_only S (await m k)"
  unfolding await_def by (rule calls_only_follow) (auto split: sum.split)

lemma calls_only_attempt [intro]:
  "calls_only S m \<Longrightarrow> (\<And>e. calls_only S (h e)) \<Longrightarrow> calls_only S (attempt m h)"
  unfolding attempt_def by (rule calls_only_follow) (auto split: sum.split)

lemma calls_only_call_if [simp]: "calls_only S (call_if given u) \<longleftrightarrow> (given \<longrightarrow> S u)"
  by (simp add: call_if_def)

abbreviation quiet_proc :: "('u, 't, 'r, 'a) proc \<Rightarrow> bool" where
  "quiet_proc \<equiv> calls_only (\<lambda>_. True)"

definition invocations :: "('u, 't, 'r) event list \<Rightarrow> ('t \<times> (thrown + 'r)) list" where
  "invocations es = List.map_filter (\<lambda>e. case e of Invoked t r \<Rightarrow> Some (t, r) | Did u r \<Rightarrow> None) es"

lemma invocations_simps [simp]:
  "invocations [] = []" "invocations (Did u r # es) = invocations es"
  "invocations (Invoked t o' # es) = (t, o') # invocations es"
  "invocations (es @ es') = invocations es @ invocations es'"
  by (simp_all add: invocations_def List.map_filter_def)

lemma quiet_runs: "quiet_proc p \<Longrightarrow> runs p es a \<Longrightarrow> invocations es = []"
  by (induction p arbitrary: es) auto

end
