(* ===== verification/Call_Monitors.thy ===== *)
theory Call_Monitors
  imports Async_Calls
begin

text \<open>
  Reasoning about runs. A monitor reads the events of a run one by one and keeps a state; an
  event it has no next state for is one it assumes not to happen. A triple says that a process
  started with the monitor in a state where \<open>P\<close> holds ends with \<open>Q\<close> of the monitor's state and
  the process's result, whatever the callbacks answer.
\<close>

type_synonym ('s, 'u, 't, 'r) monitor = "'s \<Rightarrow> ('u, 't, 'r) event \<Rightarrow> 's option"

fun watched :: "('s, 'u, 't, 'r) monitor \<Rightarrow> 's \<Rightarrow> ('u, 't, 'r) event list \<Rightarrow> 's option" where
  "watched w s [] = Some s"
| "watched w s (e # es) = (case w s e of None \<Rightarrow> None | Some s' \<Rightarrow> watched w s' es)"

lemma watched_append:
  "watched w s (es @ es') = (case watched w s es of None \<Rightarrow> None | Some s' \<Rightarrow> watched w s' es')"
  by (induction es arbitrary: s) (auto split: option.split)

definition triple ::
  "('s, 'u, 't, 'r) monitor \<Rightarrow> ('s \<Rightarrow> bool) \<Rightarrow> ('u, 't, 'r, 'a) proc \<Rightarrow> ('s \<Rightarrow> 'a \<Rightarrow> bool) \<Rightarrow> bool" where
  "triple w P p Q \<longleftrightarrow>
     (\<forall>s es a s'. P s \<longrightarrow> runs p es a \<longrightarrow> watched w s es = Some s' \<longrightarrow> Q s' a)"

lemma tripleD:
  "triple w P p Q \<Longrightarrow> P s \<Longrightarrow> runs p es a \<Longrightarrow> watched w s es = Some s' \<Longrightarrow> Q s' a"
  unfolding triple_def by blast

lemma triple_weaken:
  "triple w P' p Q' \<Longrightarrow> (\<And>s. P s \<Longrightarrow> P' s) \<Longrightarrow> (\<And>s a. Q' s a \<Longrightarrow> Q s a) \<Longrightarrow> triple w P p Q"
  unfolding triple_def by blast

lemma triple_Return: "triple w P (Return a) Q \<longleftrightarrow> (\<forall>s. P s \<longrightarrow> Q s a)"
  by (auto simp: triple_def)

lemma triple_follow:
  assumes "triple w P p R" and "\<And>a. triple w (\<lambda>s. R s a) (k a) Q"
  shows "triple w P (follow p k) Q"
  unfolding triple_def runs_follow
proof (intro allI impI, elim exE conjE)
  fix s es b s' es1 es2 a
  assume s: "P s" "watched w s es = Some s'" and es: "es = es1 @ es2"
    and p: "runs p es1 a" and k: "runs (k a) es2 b"
  from s es obtain t where t: "watched w s es1 = Some t" "watched w t es2 = Some s'"
    by (auto simp: watched_append split: option.splits)
  have "R t a" using tripleD [OF assms(1) s(1) p t(1)] .
  then show "Q s' b" using tripleD [OF assms(2) _ k t(2)] by simp
qed

lemma triple_await:
  assumes "triple w P m R" and "\<And>x. triple w (\<lambda>s. R s (Inr x)) (k x) Q"
    and "\<And>s e. R s (Inl e) \<Longrightarrow> Q s (Inl e)"
  shows "triple w P (await m k) Q"
  unfolding await_def
  by (rule triple_follow [OF assms(1)]) (auto simp: triple_Return assms(2,3) split: sum.split)

text \<open>A step that resolves whatever happens, and leaves the monitor in the states of \<open>P\<close>.\<close>

lemma after_resolved:
  assumes "triple w P m (\<lambda>s r. P' s \<and> r = Inr ())" and "triple w P' (k ()) Q"
  shows "triple w P (await m (\<lambda>_. k ())) Q"
  by (rule triple_await [OF assms(1)]) (auto intro: triple_weaken [OF assms(2)])

lemmas after_resolved_any = after_resolved [where P' = "\<lambda>_. True", unfolded simp_thms]

lemma triple_attempt:
  assumes "triple w P m R" and "\<And>e. triple w (\<lambda>s. R s (Inl e)) (h e) Q"
    and "\<And>s x. R s (Inr x) \<Longrightarrow> Q s (Inr x)"
  shows "triple w P (attempt m h) Q"
  unfolding attempt_def
  by (rule triple_follow [OF assms(1)]) (auto simp: triple_Return assms(2,3) split: sum.split)

lemma triple_Await:
  "triple w P (Await u c) Q \<longleftrightarrow>
     (\<forall>r. triple w (\<lambda>s'. \<exists>s. P s \<and> w s (Did u r) = Some s') (c r) Q)"
  unfolding triple_def by (fastforce split: option.splits)

lemma triple_Invoke:
  "triple w P (Invoke t c) Q \<longleftrightarrow>
     (\<forall>r. triple w (\<lambda>s'. \<exists>s. P s \<and> w s (Invoked t r) = Some s') (c r) Q)"
  unfolding triple_def by (fastforce split: option.splits)

lemma triple_call_if:
  "triple w P (call_if given u) Q \<longleftrightarrow>
     (if given then \<forall>r s s'. P s \<longrightarrow> w s (Did u r) = Some s' \<longrightarrow> Q s' r
      else \<forall>s. P s \<longrightarrow> Q s (Inr ()))"
  by (auto simp: call_if_def triple_Return triple_Await)

lemma triple_False [simp]: "triple w (\<lambda>s. False) p Q"
  by (simp add: triple_def)

lemma triple_case_option:
  assumes "x = None \<Longrightarrow> triple w P f Q" and "\<And>y. x = Some y \<Longrightarrow> triple w P (g y) Q"
  shows "triple w P (case x of None \<Rightarrow> f | Some y \<Rightarrow> g y) Q"
  using assms by (cases x) auto

text \<open>A process that invokes nothing leaves a monitor of the invocations where it was.\<close>

definition note_invocations :: "('t list, 'u, 't, 'r) monitor" where
  "note_invocations ts e = (case e of Did u r \<Rightarrow> Some ts | Invoked t r \<Rightarrow> Some (ts @ [t]))"

lemma watched_invocations: "watched note_invocations ts es = Some (ts @ map fst (invocations es))"
proof (induction es arbitrary: ts)
  case (Cons e es)
  then show ?case by (cases e) (simp_all add: note_invocations_def)
qed simp

lemma triple_quiet:
  assumes "quiet_proc p" and "\<And>s a. P s \<Longrightarrow> Q s a"
  shows "triple note_invocations P p Q"
  unfolding triple_def using assms quiet_runs [OF assms(1)] by (fastforce simp: watched_invocations)

text \<open>What the callbacks of a process preserve, the process preserves.\<close>

lemma triple_calls_only:
  assumes "calls_only S p" and "\<And>u r s s'. S u \<Longrightarrow> P s \<Longrightarrow> w s (Did u r) = Some s' \<Longrightarrow> P s'"
  shows "triple w P p (\<lambda>s _. P s)"
  using assms(1)
proof (induction p)
  case (Return a)
  show ?case by (simp add: triple_Return)
next
  case (Await u c)
  have "triple w P (c r) (\<lambda>s _. P s)" for r using Await by simp
  then show ?case unfolding triple_Await using Await.prems assms(2)
    by (fastforce intro: triple_weaken)
qed simp

lemma triple_both:
  "triple w P p Q \<Longrightarrow> triple w P' p Q' \<Longrightarrow> triple w (\<lambda>s. P s \<and> P' s) p (\<lambda>s a. Q s a \<and> Q' s a)"
  unfolding triple_def by blast

text \<open>What holds whatever a monitor sees.\<close>

definition no_monitor :: "(unit, 'u, 't, 'r) monitor" where
  "no_monitor s e = Some ()"

lemma watched_no_monitor [simp]: "watched no_monitor s es = Some ()"
  by (induction es) (simp_all add: no_monitor_def)

lemma triple_no_monitor: "triple no_monitor (\<lambda>_. True) p Q \<longleftrightarrow> (\<forall>es a. runs p es a \<longrightarrow> Q () a)"
  by (auto simp: triple_def)

end
