(* ===== verification/Contract_Errors.thy ===== *)
theory Contract_Errors
  imports Async_Calls
begin

text \<open>
  \<open>packages/contracts/src/errors.ts\<close>: the runtime's error codes with their failure kinds and
  recovery actions, \<open>ContractError\<close>, and the surfaces that report an error or a degradation.
\<close>

datatype contract_error_code =
    UserError | PolicyFault | ProviderTransientError | ProviderFatalError | MemoryDegraded
  | InternalInvariantError | InvalidContext | InvalidEvent | InvalidStreamEvent | Aborted
  | DegradedMode | ModelFailure | ToolFailure | ValidationFailure | UnknownFailure

datatype runtime_stage =
    ReasoningStage | ModelStage | ToolStage | PolicyStage | StreamStage | RuntimeStage

datatype failure_kind =
    UserKind | PolicyKind | ToolKind | ProviderTransientKind | ProviderFatalKind
  | MemoryDegradeKind | InternalInvariantKind

datatype recovery_action_kind = RetryAction | FailoverAction | DegradeAction | AbortAction

datatype degrade_severity = MinorSeverity | MajorSeverity

datatype degrade_category =
    ToolCategory | PolicyCategory | MemoryCategory | ProviderCategory | RuntimeCategory

datatype degrade_reason =
    ToolUnavailable | ModelLimited | PolicyRestricted | LatencyBudget | ContextPressure | Fallback

text \<open>A cause is whatever was caught: kept as the thrown value.\<close>

record contract_error =
  ce_message :: string
  ce_code :: contract_error_code
  ce_retryable :: bool
  ce_kind :: failure_kind
  ce_defaultAction :: recovery_action_kind
  ce_metadata :: "json_object option"
  ce_cause :: "thrown option"

record contract_error_options =
  co_code :: contract_error_code
  co_message :: string
  co_retryable :: "bool option"
  co_kind :: "failure_kind option"
  co_defaultAction :: "recovery_action_kind option"
  co_metadata :: "json_object option"
  co_cause :: "thrown option"

record error_surface =
  es_stage :: runtime_stage
  es_kind :: failure_kind
  es_action :: recovery_action_kind
  es_error :: contract_error
  es_recoverable :: bool
  es_operatorVisible :: "bool option"

text \<open>The field \<open>action\<close> of a degradation is the literal \<open>degrade\<close>.\<close>

record degrade_surface =
  dg_stage :: runtime_stage
  dg_category :: degrade_category
  dg_severity :: degrade_severity
  dg_reason :: degrade_reason
  dg_message :: string
  dg_recoverable :: bool
  dg_error :: "contract_error option"
  dg_metadata :: "json_object option"

fun resolveRuntimeFailureKindForCode :: "contract_error_code \<Rightarrow> failure_kind" where
  "resolveRuntimeFailureKindForCode UserError = UserKind"
| "resolveRuntimeFailureKindForCode PolicyFault = PolicyKind"
| "resolveRuntimeFailureKindForCode ProviderTransientError = ProviderTransientKind"
| "resolveRuntimeFailureKindForCode ProviderFatalError = ProviderFatalKind"
| "resolveRuntimeFailureKindForCode MemoryDegraded = MemoryDegradeKind"
| "resolveRuntimeFailureKindForCode InternalInvariantError = InternalInvariantKind"
| "resolveRuntimeFailureKindForCode InvalidContext = InternalInvariantKind"
| "resolveRuntimeFailureKindForCode InvalidEvent = InternalInvariantKind"
| "resolveRuntimeFailureKindForCode InvalidStreamEvent = InternalInvariantKind"
| "resolveRuntimeFailureKindForCode Aborted = InternalInvariantKind"
| "resolveRuntimeFailureKindForCode DegradedMode = MemoryDegradeKind"
| "resolveRuntimeFailureKindForCode ModelFailure = ProviderFatalKind"
| "resolveRuntimeFailureKindForCode ToolFailure = ToolKind"
| "resolveRuntimeFailureKindForCode ValidationFailure = UserKind"
| "resolveRuntimeFailureKindForCode UnknownFailure = InternalInvariantKind"

fun resolveRuntimeRecoveryActionForKind :: "failure_kind \<Rightarrow> recovery_action_kind" where
  "resolveRuntimeRecoveryActionForKind UserKind = AbortAction"
| "resolveRuntimeRecoveryActionForKind PolicyKind = AbortAction"
| "resolveRuntimeRecoveryActionForKind ToolKind = AbortAction"
| "resolveRuntimeRecoveryActionForKind ProviderTransientKind = FailoverAction"
| "resolveRuntimeRecoveryActionForKind ProviderFatalKind = AbortAction"
| "resolveRuntimeRecoveryActionForKind MemoryDegradeKind = DegradeAction"
| "resolveRuntimeRecoveryActionForKind InternalInvariantKind = AbortAction"

definition createContractError :: "contract_error_options \<Rightarrow> contract_error" where
  "createContractError options =
     (let kind = nullish_else (co_kind options) (resolveRuntimeFailureKindForCode (co_code options))
      in \<lparr>ce_message = co_message options, ce_code = co_code options,
          ce_retryable = nullish_else (co_retryable options) False, ce_kind = kind,
          ce_defaultAction = nullish_else (co_defaultAction options)
            (resolveRuntimeRecoveryActionForKind kind),
          ce_metadata = co_metadata options, ce_cause = co_cause options\<rparr>)"

definition createRuntimeErrorSurface ::
  "runtime_stage \<Rightarrow> contract_error \<Rightarrow> bool option \<Rightarrow> failure_kind option \<Rightarrow>
   recovery_action_kind option \<Rightarrow> bool option \<Rightarrow> error_surface" where
  "createRuntimeErrorSurface stage error recoverable kind action operatorVisible =
     \<lparr>es_stage = stage, es_kind = nullish_else kind (ce_kind error),
      es_action = nullish_else action (ce_defaultAction error), es_error = error,
      es_recoverable = nullish_else recoverable (ce_retryable error),
      es_operatorVisible = operatorVisible\<rparr>"

definition createRuntimeDegradeSurface ::
  "runtime_stage \<Rightarrow> degrade_category \<Rightarrow> degrade_severity \<Rightarrow> degrade_reason \<Rightarrow> string \<Rightarrow> bool \<Rightarrow>
   contract_error option \<Rightarrow> json_object option \<Rightarrow> degrade_surface" where
  "createRuntimeDegradeSurface stage category severity reason message recoverable error metadata =
     \<lparr>dg_stage = stage, dg_category = category, dg_severity = severity, dg_reason = reason,
      dg_message = message, dg_recoverable = recoverable, dg_error = error,
      dg_metadata = metadata\<rparr>"

text \<open>What \<open>toContractError\<close> tells apart: a \<open>ContractError\<close>, another \<open>Error\<close>, any other value.\<close>

datatype caught = CaughtContract contract_error | CaughtError string | CaughtValue jsval

fun toContractError :: "caught \<Rightarrow> contract_error_code option \<Rightarrow> contract_error" where
  "toContractError (CaughtContract error) fallbackCode = error"
| "toContractError (CaughtError message) fallbackCode =
     createContractError
       \<lparr>co_code = nullish_else fallbackCode UnknownFailure, co_message = message,
        co_retryable = None, co_kind = None, co_defaultAction = None, co_metadata = None,
        co_cause = Some (ErrorThrown message)\<rparr>"
| "toContractError (CaughtValue error) fallbackCode =
     createContractError
       \<lparr>co_code = nullish_else fallbackCode UnknownFailure, co_message = ''Unknown contract error'',
        co_retryable = None, co_kind = None, co_defaultAction = None,
        co_metadata = Some [(''error'', error)], co_cause = None\<rparr>"

end
