(* ===== verification/Policy_Runtime.thy ===== *)
theory Policy_Runtime
  imports Contract_Errors
begin

text \<open>
  \<open>packages/policy-runtime/src/index.ts\<close> without the sandbox preflight: the decision of a policy
  runtime is the stricter one of the first matching rule's (or the default) and the execution
  policy's. Rules are synchronous functions that may throw; hooks and the audit sink are awaited
  callbacks. The readings of \<open>Date.now\<close> in audit events are left out.
\<close>

section \<open>Data\<close>

datatype policy_verdict = PolicyAllow | PolicyDeny | PolicyAsk | PolicyDegrade

datatype risk_level = LowRisk | MediumRisk | HighRisk | CriticalRisk

datatype tool_approval = ToolApproved | ToolRejected | ToolPending | ToolNotRequired

record capability_profile =
  cf_toolName :: "string option"
  cf_capabilities :: "string list option"
  cf_riskLevel :: "risk_level option"
  cf_requiresApproval :: "bool option"

record approval_context =
  ac_status :: tool_approval
  ac_approver :: "string option"
  ac_note :: "string option"
  ac_metadata :: "json_object option"

record policy_input =
  pn_action :: string
  pn_resource :: "string option"
  pn_actor :: "string option"
  pn_metadata :: "json_object option"
  pn_capabilityProfile :: "capability_profile option"
  pn_approval :: "approval_context option"

record tool_policy_input =
  ti_toolName :: string
  ti_actor :: "string option"
  ti_metadata :: "json_object option"
  ti_capabilityProfile :: "capability_profile option"
  ti_approval :: "approval_context option"

record policy_decision =
  pd_verdict :: policy_verdict
  pd_reason :: string
  pd_ruleId :: "string option"
  pd_degradedCapabilities :: "string list option"
  pd_degradation :: "degrade_surface option"
  pd_metadata :: "json_object option"

datatype decision_origin = DefaultOrigin | RuleOrigin | ExecutionPolicyOrigin | MergedOrigin

record policy_rule =
  ru_id :: string
  ru_matches :: "policy_input \<Rightarrow> thrown + bool"
  ru_evaluate :: "policy_input \<Rightarrow> thrown + policy_decision"

record execution_policy =
  xp_approvalRequiredAtOrAbove :: "risk_level option"
  xp_blockedCapabilities :: "string list option"
  xp_degradeCapabilities :: "string list option"
  xp_degradeSeverity :: "degrade_severity option"
  xp_degradeReason :: "degrade_reason option"
  xp_denyByDefault :: "bool option"

datatype policy_event_kind =
    DecisionStarted | DecisionCompleted | DecisionFailed | DecisionApprovalRequired

record policy_event =
  px_kind :: policy_event_kind
  px_input :: policy_input
  px_decision :: "policy_decision option"
  px_error :: "string option"

text \<open>The callbacks, of which the options say whether each is given.\<close>

datatype policy_call =
    BeforeDecision policy_input
  | AfterDecision policy_input policy_decision
  | DecisionError policy_input thrown
  | PolicyAudit policy_event

record policy_options =
  po_rules :: "policy_rule list option"
  po_beforeDecision :: bool
  po_afterDecision :: bool
  po_onError :: bool
  po_auditSink :: bool
  po_executionPolicy :: "execution_policy option"
  po_defaultDecision :: "policy_decision option"

record policy_runtime =
  rt_rules :: "policy_rule list"
  rt_beforeDecision :: bool
  rt_afterDecision :: bool
  rt_onError :: bool
  rt_auditSink :: bool
  rt_executionPolicy :: execution_policy
  rt_defaultDecision :: policy_decision

fun policy_verdict_str :: "policy_verdict \<Rightarrow> string" where
  "policy_verdict_str PolicyAllow = ''allow''"
| "policy_verdict_str PolicyDeny = ''deny''"
| "policy_verdict_str PolicyAsk = ''ask''"
| "policy_verdict_str PolicyDegrade = ''degrade''"

fun risk_str :: "risk_level \<Rightarrow> string" where
  "risk_str LowRisk = ''low''"
| "risk_str MediumRisk = ''medium''"
| "risk_str HighRisk = ''high''"
| "risk_str CriticalRisk = ''critical''"

fun approval_str :: "tool_approval \<Rightarrow> string" where
  "approval_str ToolApproved = ''approved''"
| "approval_str ToolRejected = ''rejected''"
| "approval_str ToolPending = ''pending''"
| "approval_str ToolNotRequired = ''not-required''"

fun origin_str :: "decision_origin \<Rightarrow> string" where
  "origin_str DefaultOrigin = ''default''"
| "origin_str RuleOrigin = ''rule''"
| "origin_str ExecutionPolicyOrigin = ''execution-policy''"
| "origin_str MergedOrigin = ''merged''"

fun RISK_ORDER :: "risk_level \<Rightarrow> nat" where
  "RISK_ORDER LowRisk = 0"
| "RISK_ORDER MediumRisk = 1"
| "RISK_ORDER HighRisk = 2"
| "RISK_ORDER CriticalRisk = 3"

fun DECISION_ORDER :: "policy_verdict \<Rightarrow> nat" where
  "DECISION_ORDER PolicyAllow = 0"
| "DECISION_ORDER PolicyDegrade = 1"
| "DECISION_ORDER PolicyAsk = 2"
| "DECISION_ORDER PolicyDeny = 3"

section \<open>Decisions\<close>

definition plain_decision :: "policy_verdict \<Rightarrow> string \<Rightarrow> json_object option \<Rightarrow> policy_decision" where
  "plain_decision verdict reason metadata =
     \<lparr>pd_verdict = verdict, pd_reason = reason, pd_ruleId = None, pd_degradedCapabilities = None,
      pd_degradation = None, pd_metadata = metadata\<rparr>"

definition DENY_DEFAULT_DECISION :: policy_decision where
  "DENY_DEFAULT_DECISION = plain_decision PolicyDeny ''No matching policy rule'' None"

definition ALLOW_DEFAULT_DECISION :: policy_decision where
  "ALLOW_DEFAULT_DECISION =
     plain_decision PolicyAllow ''No matching policy rule, allow by execution policy'' None"

definition createPolicyDegradation ::
  "string \<Rightarrow> string list \<Rightarrow> degrade_severity \<Rightarrow> degrade_reason \<Rightarrow> degrade_surface" where
  "createPolicyDegradation message degradedCapabilities severity reason =
     createRuntimeDegradeSurface PolicyStage PolicyCategory severity reason message True None
       (Some [(''degradedCapabilities'', JArr (map JStr degradedCapabilities))])"

text \<open>The object \<open>decision\<close>; the \<open>init\<close> argument gives the other fields.\<close>

definition decision_of :: "policy_verdict \<Rightarrow> string \<Rightarrow> policy_decision \<Rightarrow> policy_decision" where
  "decision_of verdict reason init = init\<lparr>pd_verdict := verdict, pd_reason := reason\<rparr>"

definition decision_degrade ::
  "string \<Rightarrow> string list \<Rightarrow> string option \<Rightarrow> degrade_surface option \<Rightarrow> json_object option \<Rightarrow>
   policy_decision" where
  "decision_degrade reason degradedCapabilities ruleId degradation metadata =
     \<lparr>pd_verdict = PolicyDegrade, pd_reason = reason, pd_ruleId = ruleId,
      pd_degradedCapabilities = Some degradedCapabilities,
      pd_degradation = Some (nullish_else degradation
        (createPolicyDegradation reason degradedCapabilities MajorSeverity PolicyRestricted)),
      pd_metadata = metadata\<rparr>"

definition staticRule ::
  "string \<Rightarrow> (policy_input \<Rightarrow> thrown + bool) \<Rightarrow> policy_decision \<Rightarrow> policy_rule" where
  "staticRule ruleId match output =
     \<lparr>ru_id = ruleId, ru_matches = match, ru_evaluate = (\<lambda>_. Inr output)\<rparr>"

section \<open>Metadata\<close>

text \<open>\<open>{ ...base, ...next }\<close>\<close>

definition obj_spread :: "json_object \<Rightarrow> json_object \<Rightarrow> json_object" where
  "obj_spread base next = foldl (\<lambda>obj (k, v). obj_put k v obj) base next"

definition mergeMetadata :: "json_object option \<Rightarrow> json_object option \<Rightarrow> json_object option" where
  "mergeMetadata baseMetadata nextMetadata =
     (if baseMetadata = None \<and> nextMetadata = None then None
      else Some (obj_spread (nullish_else baseMetadata []) (nullish_else nextMetadata [])))"

definition POLICY_RUNTIME_METADATA_KEY :: string where
  "POLICY_RUNTIME_METADATA_KEY = ''policyRuntime''"

definition readPolicyRuntimeMetadata :: "json_object \<Rightarrow> json_object option" where
  "readPolicyRuntimeMetadata metadata =
     (case alist_get metadata POLICY_RUNTIME_METADATA_KEY of JObj kvs \<Rightarrow> Some kvs | _ \<Rightarrow> None)"

record eligibility =
  el_canDispatch :: bool
  el_requiresApproval :: bool
  el_degraded :: bool
  el_terminal :: bool

fun resolveExecutionEligibility :: "policy_verdict \<Rightarrow> eligibility" where
  "resolveExecutionEligibility PolicyAllow =
     \<lparr>el_canDispatch = True, el_requiresApproval = False, el_degraded = False, el_terminal = False\<rparr>"
| "resolveExecutionEligibility PolicyDegrade =
     \<lparr>el_canDispatch = True, el_requiresApproval = False, el_degraded = True, el_terminal = False\<rparr>"
| "resolveExecutionEligibility PolicyAsk =
     \<lparr>el_canDispatch = False, el_requiresApproval = True, el_degraded = False, el_terminal = True\<rparr>"
| "resolveExecutionEligibility PolicyDeny =
     \<lparr>el_canDispatch = False, el_requiresApproval = False, el_degraded = False, el_terminal = True\<rparr>"

definition js_of_eligibility :: "eligibility \<Rightarrow> jsval" where
  "js_of_eligibility e =
     JObj [(''canDispatch'', JBool (el_canDispatch e)),
           (''requiresApproval'', JBool (el_requiresApproval e)),
           (''degraded'', JBool (el_degraded e)), (''terminal'', JBool (el_terminal e))]"

definition normalizedRiskLevel :: "risk_level option \<Rightarrow> risk_level" where
  "normalizedRiskLevel riskLevel = nullish_else riskLevel LowRisk"

definition input_risk :: "policy_input \<Rightarrow> risk_level" where
  "input_risk input =
     normalizedRiskLevel (Option.bind (pn_capabilityProfile input) cf_riskLevel)"

definition withPolicyRuntimeMetadata ::
  "policy_decision \<Rightarrow> decision_origin \<Rightarrow> policy_input \<Rightarrow> policy_decision" where
  "withPolicyRuntimeMetadata d origin input =
     (let existingMetadata = nullish_else (pd_metadata d) [];
          toolName = (case Option.bind (pn_capabilityProfile input) cf_toolName of
                        Some n \<Rightarrow> (if n = [] then [] else [(''toolName'', JStr n)])
                      | None \<Rightarrow> []);
          nextMetadata = obj_spread (nullish_else (readPolicyRuntimeMetadata existingMetadata) [])
            ([(''origin'', JStr (origin_str origin)),
              (''verdict'', JStr (policy_verdict_str (pd_verdict d))),
              (''eligibility'', js_of_eligibility (resolveExecutionEligibility (pd_verdict d))),
              (''riskLevel'', JStr (risk_str (input_risk input))),
              (''approvalStatus'', JStr (approval_str
                 (nullish_else (map_option ac_status (pn_approval input)) ToolNotRequired)))]
             @ toolName)
      in d\<lparr>pd_metadata := Some (obj_put POLICY_RUNTIME_METADATA_KEY (JObj nextMetadata)
                                          existingMetadata)\<rparr>)"

definition readDecisionOrigin :: "policy_decision \<Rightarrow> decision_origin" where
  "readDecisionOrigin decision =
     (case pd_metadata decision of
        None \<Rightarrow> DefaultOrigin
      | Some metadata \<Rightarrow>
          (case readPolicyRuntimeMetadata metadata of
             None \<Rightarrow> DefaultOrigin
           | Some runtime \<Rightarrow>
               nullish_else
                 (find (\<lambda>origin. alist_get runtime ''origin'' = JStr (origin_str origin))
                    [DefaultOrigin, RuleOrigin, ExecutionPolicyOrigin, MergedOrigin])
                 DefaultOrigin))"

section \<open>The execution policy\<close>

definition intersectCapabilities :: "string list \<Rightarrow> string list option \<Rightarrow> string list" where
  "intersectCapabilities requested configured =
     (case configured of
        None \<Rightarrow> []
      | Some cs \<Rightarrow> (if cs = [] then [] else filter (\<lambda>capability. capability \<in> set cs) requested))"

definition requiresApproval :: "policy_input \<Rightarrow> execution_policy \<Rightarrow> bool" where
  "requiresApproval input policy =
     (if Option.bind (pn_capabilityProfile input) cf_requiresApproval = Some True then True
      else (case xp_approvalRequiredAtOrAbove policy of
              None \<Rightarrow> False
            | Some threshold \<Rightarrow> RISK_ORDER threshold \<le> RISK_ORDER (input_risk input)))"

definition input_capabilities :: "policy_input \<Rightarrow> string list" where
  "input_capabilities input =
     nullish_else (Option.bind (pn_capabilityProfile input) cf_capabilities) []"

definition evaluateExecutionPolicy ::
  "execution_policy \<Rightarrow> policy_input \<Rightarrow> policy_decision option" where
  "evaluateExecutionPolicy policy input =
     (let capabilities = input_capabilities input;
          blocked = intersectCapabilities capabilities (xp_blockedCapabilities policy);
          status = map_option ac_status (pn_approval input);
          note = (case Option.bind (pn_approval input) ac_note of
                    Some n \<Rightarrow> (if n = [] then [] else [(''note'', JStr n)]) | None \<Rightarrow> []);
          degraded = intersectCapabilities capabilities (xp_degradeCapabilities policy);
          message = ''Execution policy degraded tool capabilities'';
          tagged = (\<lambda>d. Some (withPolicyRuntimeMetadata d ExecutionPolicyOrigin input))
      in if blocked \<noteq> []
         then tagged (plain_decision PolicyDeny ''Execution policy blocked tool capabilities''
                (Some [(''blockedCapabilities'', JArr (map JStr blocked))]))
         else if status = Some ToolRejected
         then tagged (plain_decision PolicyDeny ''Execution approval rejected''
                (Some ((''approvalStatus'', JStr ''rejected'') # note)))
         else if requiresApproval input policy \<and> status \<noteq> Some ToolApproved
         then tagged (plain_decision PolicyAsk ''Tool execution requires approval''
                (Some [(''approvalStatus'', JStr (approval_str (nullish_else status ToolPending))),
                       (''riskLevel'', JStr (risk_str (input_risk input))),
                       (''requiredAtOrAbove'', JStr (risk_str
                          (nullish_else (xp_approvalRequiredAtOrAbove policy) CriticalRisk)))]))
         else if degraded \<noteq> []
         then tagged (decision_degrade message degraded None
                (Some (createPolicyDegradation message degraded
                  (nullish_else (xp_degradeSeverity policy) MajorSeverity)
                  (nullish_else (xp_degradeReason policy) PolicyRestricted))) None)
         else None)"

section \<open>Merging\<close>

definition uniqueCapabilities :: "string list \<Rightarrow> string list" where
  "uniqueCapabilities capabilities = js_unique capabilities"

text \<open>\<open>...(x ? { field: x } : {})\<close> over a spread keeps the spread's field when x is missing.\<close>

definition mergePolicyDecisions ::
  "policy_decision \<Rightarrow> policy_decision option \<Rightarrow> policy_decision" where
  "mergePolicyDecisions base policy =
     (case policy of
        None \<Rightarrow> base
      | Some p \<Rightarrow>
          let ruleId = nullish (pd_ruleId p) (pd_ruleId base);
              metadata = mergeMetadata (pd_metadata base) (pd_metadata p)
          in if pd_verdict base = PolicyDegrade \<and> pd_verdict p = PolicyDegrade
             then let merged = uniqueCapabilities (nullish_else (pd_degradedCapabilities base) []
                                 @ nullish_else (pd_degradedCapabilities p) [])
                  in p\<lparr>pd_ruleId := nullish ruleId (pd_ruleId p),
                       pd_degradedCapabilities := Some merged,
                       pd_degradation := Some (nullish_else
                         (nullish (pd_degradation p) (pd_degradation base))
                         (createPolicyDegradation (pd_reason p) merged MajorSeverity
                            PolicyRestricted)),
                       pd_metadata := nullish metadata (pd_metadata p)\<rparr>
             else if DECISION_ORDER (pd_verdict base) < DECISION_ORDER (pd_verdict p)
             then p\<lparr>pd_ruleId := nullish ruleId (pd_ruleId p),
                    pd_metadata := nullish metadata (pd_metadata p)\<rparr>
             else base\<lparr>pd_metadata := nullish metadata (pd_metadata base)\<rparr>)"

section \<open>Rules\<close>

fun first_matching_rule :: "policy_rule list \<Rightarrow> policy_input \<Rightarrow> thrown + policy_rule option" where
  "first_matching_rule [] input = Inr None"
| "first_matching_rule (rule # rules) input =
     (case ru_matches rule input of
        Inl e \<Rightarrow> Inl e
      | Inr True \<Rightarrow> Inr (Some rule)
      | Inr False \<Rightarrow> first_matching_rule rules input)"

definition evaluateRules :: "policy_runtime \<Rightarrow> policy_input \<Rightarrow> thrown + policy_decision" where
  "evaluateRules rt input =
     (case first_matching_rule (rt_rules rt) input of
        Inl e \<Rightarrow> Inl e
      | Inr None \<Rightarrow> Inr (withPolicyRuntimeMetadata (rt_defaultDecision rt) DefaultOrigin input)
      | Inr (Some rule) \<Rightarrow>
          (case ru_evaluate rule input of
             Inl e \<Rightarrow> Inl e
           | Inr evaluated \<Rightarrow>
               Inr (withPolicyRuntimeMetadata
                      (evaluated\<lparr>pd_ruleId := nullish (pd_ruleId evaluated) (Some (ru_id rule))\<rparr>)
                      RuleOrigin input)))"

text \<open>What the second \<open>try\<close> block of \<open>decide\<close> computes.\<close>

definition resolve_decision :: "policy_runtime \<Rightarrow> policy_input \<Rightarrow> thrown + policy_decision" where
  "resolve_decision rt input =
     (case evaluateRules rt input of
        Inl e \<Rightarrow> Inl e
      | Inr base \<Rightarrow>
          let policy = evaluateExecutionPolicy (rt_executionPolicy rt) input
          in Inr (withPolicyRuntimeMetadata (mergePolicyDecisions base policy)
                    (if policy = None then readDecisionOrigin base else MergedOrigin) input))"

section \<open>Deciding\<close>

definition newPolicyRuntime :: "policy_options \<Rightarrow> policy_runtime" where
  "newPolicyRuntime options =
     (let policy = nullish_else (po_executionPolicy options)
            \<lparr>xp_approvalRequiredAtOrAbove = None, xp_blockedCapabilities = None,
             xp_degradeCapabilities = None, xp_degradeSeverity = None, xp_degradeReason = None,
             xp_denyByDefault = None\<rparr>
      in \<lparr>rt_rules = nullish_else (po_rules options) [],
          rt_beforeDecision = po_beforeDecision options, rt_afterDecision = po_afterDecision options,
          rt_onError = po_onError options, rt_auditSink = po_auditSink options,
          rt_executionPolicy = policy,
          rt_defaultDecision = nullish_else (po_defaultDecision options)
            (if xp_denyByDefault policy = Some False then ALLOW_DEFAULT_DECISION
             else DENY_DEFAULT_DECISION)\<rparr>)"

text \<open>The callbacks may be among those of a larger program: \<open>emb\<close> says how.\<close>

definition reportPolicyError ::
  "(policy_call \<Rightarrow> 'u) \<Rightarrow> policy_runtime \<Rightarrow> policy_input \<Rightarrow> thrown \<Rightarrow> ('u, 't, 'r, unit) task" where
  "reportPolicyError emb rt input error =
     attempt (call_if (rt_onError rt) (emb (DecisionError input error))) (\<lambda>_. resolved ())"

definition emitPolicyAudit ::
  "(policy_call \<Rightarrow> 'u) \<Rightarrow> policy_runtime \<Rightarrow> policy_event \<Rightarrow> ('u, 't, 'r, unit) task" where
  "emitPolicyAudit emb rt event =
     attempt (call_if (rt_auditSink rt) (emb (PolicyAudit event)))
       (\<lambda>error. reportPolicyError emb rt (px_input event) error)"

definition policy_event_of ::
  "policy_event_kind \<Rightarrow> policy_input \<Rightarrow> policy_decision option \<Rightarrow> string option \<Rightarrow> policy_event" where
  "policy_event_of kind input decision error =
     \<lparr>px_kind = kind, px_input = input, px_decision = decision, px_error = error\<rparr>"

definition deny_for_error :: "string \<Rightarrow> thrown \<Rightarrow> policy_decision" where
  "deny_for_error reason error =
     plain_decision PolicyDeny reason (Some [(''error'', JStr (normalizeError error))])"

definition announce_decision ::
  "(policy_call \<Rightarrow> 'u) \<Rightarrow> policy_runtime \<Rightarrow> policy_input \<Rightarrow> policy_decision \<Rightarrow>
   ('u, 't, 'r, policy_decision) task" where
  "announce_decision emb rt input d =
     await (if pd_verdict d = PolicyAsk
            then emitPolicyAudit emb rt (policy_event_of DecisionApprovalRequired input (Some d) None)
            else resolved ())
       (\<lambda>_. await (emitPolicyAudit emb rt (policy_event_of DecisionCompleted input (Some d) None))
         (\<lambda>_. resolved d))"

definition decide ::
  "(policy_call \<Rightarrow> 'u) \<Rightarrow> policy_runtime \<Rightarrow> policy_input \<Rightarrow> ('u, 't, 'r, policy_decision) task" where
  "decide emb rt input =
     follow (call_if (rt_beforeDecision rt) (emb (BeforeDecision input))) (\<lambda>before. case before of
       Inl error \<Rightarrow>
         await (reportPolicyError emb rt input error)
           (\<lambda>_. resolved (deny_for_error ''Policy pre-hook failed'' error))
     | Inr _ \<Rightarrow>
         await (emitPolicyAudit emb rt (policy_event_of DecisionStarted input None None)) (\<lambda>_.
           case resolve_decision rt input of
             Inl error \<Rightarrow>
               await (reportPolicyError emb rt input error) (\<lambda>_.
               await (emitPolicyAudit emb rt
                        (policy_event_of DecisionFailed input None (Some (normalizeError error))))
                 (\<lambda>_. resolved (deny_for_error ''Policy evaluation failed'' error)))
           | Inr d \<Rightarrow>
               follow (call_if (rt_afterDecision rt) (emb (AfterDecision input d))) (\<lambda>after. case after of
                 Inl error \<Rightarrow>
                   await (reportPolicyError emb rt input error)
                     (\<lambda>_. resolved (deny_for_error ''Policy post-hook failed'' error))
               | Inr _ \<Rightarrow> announce_decision emb rt input d)))"

definition tool_dispatch_input :: "tool_policy_input \<Rightarrow> policy_input" where
  "tool_dispatch_input input =
     (let given = ti_capabilityProfile input
      in \<lparr>pn_action = ''tool.dispatch'', pn_resource = Some (ti_toolName input),
          pn_actor = ti_actor input, pn_metadata = ti_metadata input,
          pn_capabilityProfile = Some
            \<lparr>cf_toolName = Some (nullish_else (Option.bind given cf_toolName) (ti_toolName input)),
             cf_capabilities = Option.bind given cf_capabilities,
             cf_riskLevel = Option.bind given cf_riskLevel,
             cf_requiresApproval = Option.bind given cf_requiresApproval\<rparr>,
          pn_approval = ti_approval input\<rparr>)"

definition evaluateToolDispatch ::
  "(policy_call \<Rightarrow> 'u) \<Rightarrow> policy_runtime \<Rightarrow> tool_policy_input \<Rightarrow> ('u, 't, 'r, policy_decision) task"
where
  "evaluateToolDispatch emb rt input = decide emb rt (tool_dispatch_input input)"

end
