(* ===== verification/Policy_Laws.thy ===== *)
theory Policy_Laws
  imports Call_Monitors Policy_Runtime
begin

text \<open>
  What a policy runtime decides: the stricter verdict of the rules and of the execution policy;
  what the execution policy asks for cannot be undone by a rule or a callback; and a decision is
  always reached.
\<close>

section \<open>Merging takes the stricter verdict\<close>

lemma DECISION_ORDER_inject [simp]: "DECISION_ORDER v = DECISION_ORDER w \<longleftrightarrow> v = w"
  by (cases v; cases w) simp_all

lemma verdict_with_metadata [simp]: "pd_verdict (withPolicyRuntimeMetadata d origin input) = pd_verdict d"
  by (simp add: withPolicyRuntimeMetadata_def Let_def)

lemma reason_with_metadata [simp]: "pd_reason (withPolicyRuntimeMetadata d origin input) = pd_reason d"
  by (simp add: withPolicyRuntimeMetadata_def Let_def)

lemma merged_verdict_order:
  "DECISION_ORDER (pd_verdict (mergePolicyDecisions base (Some p))) =
     max (DECISION_ORDER (pd_verdict base)) (DECISION_ORDER (pd_verdict p))"
  by (simp add: mergePolicyDecisions_def Let_def max_def)

lemma merged_none [simp]: "mergePolicyDecisions base None = base"
  by (simp add: mergePolicyDecisions_def)

lemma merged_verdict:
  "pd_verdict (mergePolicyDecisions base policy) =
     (case policy of None \<Rightarrow> pd_verdict base
      | Some p \<Rightarrow> if DECISION_ORDER (pd_verdict base) < DECISION_ORDER (pd_verdict p)
                  then pd_verdict p else pd_verdict base)"
  by (auto simp: mergePolicyDecisions_def Let_def split: option.split)

text \<open>The verdict of the first matching rule, or of the default.\<close>

definition rule_verdict :: "policy_runtime \<Rightarrow> policy_input \<Rightarrow> thrown + policy_verdict" where
  "rule_verdict rt input = map_sum id pd_verdict (evaluateRules rt input)"

lemma resolve_verdict:
  "map_sum id pd_verdict (resolve_decision rt input) =
     map_sum id (\<lambda>v. case evaluateExecutionPolicy (rt_executionPolicy rt) input of
                       None \<Rightarrow> v
                     | Some p \<Rightarrow> if DECISION_ORDER v < DECISION_ORDER (pd_verdict p)
                                 then pd_verdict p else v)
       (rule_verdict rt input)"
  by (auto simp: resolve_decision_def rule_verdict_def merged_verdict Let_def
      split: sum.split option.split)

section \<open>The execution policy\<close>

definition capability_blocked :: "execution_policy \<Rightarrow> policy_input \<Rightarrow> bool" where
  "capability_blocked policy input \<longleftrightarrow>
     set (input_capabilities input) \<inter> set (nullish_else (xp_blockedCapabilities policy) []) \<noteq> {}"

definition capability_degraded :: "execution_policy \<Rightarrow> policy_input \<Rightarrow> bool" where
  "capability_degraded policy input \<longleftrightarrow>
     set (input_capabilities input) \<inter> set (nullish_else (xp_degradeCapabilities policy) []) \<noteq> {}"

definition approval_given :: "policy_input \<Rightarrow> bool" where
  "approval_given input \<longleftrightarrow> map_option ac_status (pn_approval input) = Some ToolApproved"

definition approval_refused :: "policy_input \<Rightarrow> bool" where
  "approval_refused input \<longleftrightarrow> map_option ac_status (pn_approval input) = Some ToolRejected"

lemma intersect_empty_iff:
  "intersectCapabilities requested configured = [] \<longleftrightarrow>
     set requested \<inter> set (nullish_else configured []) = {}"
  by (auto simp: intersectCapabilities_def filter_empty_conv split: option.split)

text \<open>The verdict the execution policy adds: deny, ask, degrade or nothing, in this order.\<close>

definition policy_verdict_of :: "execution_policy \<Rightarrow> policy_input \<Rightarrow> policy_verdict option" where
  "policy_verdict_of policy input =
     (if capability_blocked policy input \<or> approval_refused input then Some PolicyDeny
      else if requiresApproval input policy \<and> \<not> approval_given input then Some PolicyAsk
      else if capability_degraded policy input then Some PolicyDegrade
      else None)"

lemma execution_policy_verdict:
  "map_option pd_verdict (evaluateExecutionPolicy policy input) = policy_verdict_of policy input"
  by (simp add: evaluateExecutionPolicy_def policy_verdict_of_def Let_def intersect_empty_iff
      capability_blocked_def capability_degraded_def approval_given_def approval_refused_def
      plain_decision_def decision_degrade_def)

lemma resolved_verdict:
  assumes "resolve_decision rt input = Inr d"
  shows "\<exists>v. rule_verdict rt input = Inr v \<and>
           DECISION_ORDER (pd_verdict d) =
             max (DECISION_ORDER v)
               (case policy_verdict_of (rt_executionPolicy rt) input of
                  None \<Rightarrow> 0 | Some w \<Rightarrow> DECISION_ORDER w)"
proof -
  have eq: "map_sum id pd_verdict (resolve_decision rt input) = Inr (pd_verdict d)"
    using assms by simp
  obtain v where v: "rule_verdict rt input = Inr v"
    using eq unfolding resolve_verdict by (cases "rule_verdict rt input") auto
  have "pd_verdict d = (case evaluateExecutionPolicy (rt_executionPolicy rt) input of
                       None \<Rightarrow> v
                     | Some p \<Rightarrow> if DECISION_ORDER v < DECISION_ORDER (pd_verdict p)
                                 then pd_verdict p else v)"
    using eq unfolding resolve_verdict v by simp
  then show ?thesis
    unfolding execution_policy_verdict [symmetric]
    using v by (auto simp: max_def split: option.split)
qed

text \<open>What may be executed: the rules allow it and the execution policy has nothing to add.\<close>

lemma resolved_allow:
  assumes "resolve_decision rt input = Inr d" and "pd_verdict d = PolicyAllow"
  shows "rule_verdict rt input = Inr PolicyAllow"
    and "policy_verdict_of (rt_executionPolicy rt) input = None"
proof -
  obtain v where v: "rule_verdict rt input = Inr v"
    and "0 = max (DECISION_ORDER v)
             (case policy_verdict_of (rt_executionPolicy rt) input of
                None \<Rightarrow> 0 | Some w \<Rightarrow> DECISION_ORDER w)"
    using resolved_verdict [OF assms(1)] assms(2) by auto
  then have 0: "DECISION_ORDER v = 0"
      "(case policy_verdict_of (rt_executionPolicy rt) input of
          None \<Rightarrow> 0 | Some w \<Rightarrow> DECISION_ORDER w) = 0"
    by (simp_all add: max_def split: if_splits)
  show "rule_verdict rt input = Inr PolicyAllow" using v 0(1) by (cases v) auto
  show "policy_verdict_of (rt_executionPolicy rt) input = None"
    using 0(2) by (auto simp: policy_verdict_of_def split: option.splits if_splits)
qed

lemma nothing_to_add:
  "policy_verdict_of policy input = None \<longleftrightarrow>
     \<not> capability_blocked policy input \<and> \<not> approval_refused input \<and>
     (requiresApproval input policy \<longrightarrow> approval_given input) \<and>
     \<not> capability_degraded policy input"
  by (auto simp: policy_verdict_of_def)

section \<open>Deciding\<close>

lemma reportPolicyError_calls:
  "(\<And>c. S (emb c)) \<Longrightarrow> calls_only S (reportPolicyError emb rt input e)"
  by (auto simp: reportPolicyError_def)

lemma emitPolicyAudit_calls: "(\<And>c. S (emb c)) \<Longrightarrow> calls_only S (emitPolicyAudit emb rt ev)"
  by (auto simp: emitPolicyAudit_def intro!: calls_only_attempt reportPolicyError_calls)

lemma announce_calls: "(\<And>c. S (emb c)) \<Longrightarrow> calls_only S (announce_decision emb rt input d)"
  by (auto simp: announce_decision_def intro!: calls_only_await emitPolicyAudit_calls)

lemma decide_calls: "(\<And>c. S (emb c)) \<Longrightarrow> calls_only S (decide emb rt input)"
  unfolding decide_def
  by (intro calls_only_follow)
    (auto intro!: calls_only_await calls_only_follow reportPolicyError_calls emitPolicyAudit_calls
      announce_calls split: sum.split)

text \<open>Reporting an error and emitting an audit event never reject.\<close>

lemma reportPolicyError_resolves: "triple w (\<lambda>_. True) (reportPolicyError emb rt input e) (\<lambda>_ r. r = Inr ())"
  unfolding reportPolicyError_def
  by (rule triple_attempt [where R = "\<lambda>_ _. True"]) (auto simp: triple_call_if triple_Return)

lemma emitPolicyAudit_resolves: "triple w (\<lambda>_. True) (emitPolicyAudit emb rt ev) (\<lambda>_ r. r = Inr ())"
  unfolding emitPolicyAudit_def
  by (rule triple_attempt [where R = "\<lambda>_ _. True"])
    (auto simp: triple_call_if intro: triple_weaken [OF reportPolicyError_resolves])

text \<open>The decision is the resolved one or a denial.\<close>

definition decided_from :: "policy_runtime \<Rightarrow> policy_input \<Rightarrow> thrown + policy_decision \<Rightarrow> bool" where
  "decided_from rt input r \<longleftrightarrow>
     (\<exists>d. r = Inr d \<and> (pd_verdict d = PolicyDeny \<or> resolve_decision rt input = Inr d))"

lemma denies_for_error [simp]: "pd_verdict (deny_for_error reason e) = PolicyDeny"
  by (simp add: deny_for_error_def plain_decision_def)

lemmas after_report = after_resolved_any [OF reportPolicyError_resolves]
lemmas after_audit = after_resolved_any [OF emitPolicyAudit_resolves]

lemma announce_returns:
  "triple w (\<lambda>_. True) (announce_decision emb rt input d) (\<lambda>_ r. r = Inr d)"
  unfolding announce_decision_def
  by (rule after_resolved_any)
    (auto simp: triple_Return intro: emitPolicyAudit_resolves after_audit)

lemma denial_returned:
  "triple w (\<lambda>_. True) (await (reportPolicyError emb rt input e)
       (\<lambda>_. resolved (deny_for_error reason e))) (\<lambda>_. decided_from rt input)"
  by (rule after_report) (simp add: triple_Return decided_from_def)

lemma decide_decides: "triple w (\<lambda>_. True) (decide emb rt input) (\<lambda>_. decided_from rt input)"
  unfolding decide_def
proof (rule triple_follow [where R = "\<lambda>_ _. True"])
  show "triple w (\<lambda>_. True) (call_if (rt_beforeDecision rt) (emb (BeforeDecision input))) (\<lambda>_ _. True)"
    by (simp add: triple_call_if)
next
  fix before :: "thrown + unit"
  let ?decided = "case resolve_decision rt input of
      Inl error \<Rightarrow>
        await (reportPolicyError emb rt input error) (\<lambda>_.
        await (emitPolicyAudit emb rt
                 (policy_event_of DecisionFailed input None (Some (normalizeError error))))
          (\<lambda>_. resolved (deny_for_error ''Policy evaluation failed'' error)))
    | Inr d \<Rightarrow>
        follow (call_if (rt_afterDecision rt) (emb (AfterDecision input d))) (\<lambda>after. case after of
          Inl error \<Rightarrow>
            await (reportPolicyError emb rt input error)
              (\<lambda>_. resolved (deny_for_error ''Policy post-hook failed'' error))
        | Inr _ \<Rightarrow> announce_decision emb rt input d)"
  have "triple w (\<lambda>_. True) ?decided (\<lambda>_. decided_from rt input)"
  proof (cases "resolve_decision rt input")
    case (Inl e)
    show ?thesis unfolding Inl sum.case
      by (intro after_report after_audit) (simp add: triple_Return decided_from_def)
  next
    case (Inr d)
    show ?thesis unfolding Inr sum.case
    proof (rule triple_follow [where R = "\<lambda>_ _. True"])
      fix after :: "thrown + unit"
      show "triple w (\<lambda>_. True) (case after of
          Inl error \<Rightarrow>
            await (reportPolicyError emb rt input error)
              (\<lambda>_. resolved (deny_for_error ''Policy post-hook failed'' error))
        | Inr _ \<Rightarrow> announce_decision emb rt input d) (\<lambda>_. decided_from rt input)"
        by (cases after)
          (auto intro: denial_returned triple_weaken [OF announce_returns] simp: decided_from_def Inr)
    qed (simp add: triple_call_if)
  qed
  from after_audit [OF this] show "triple w (\<lambda>_. True) (case before of
       Inl error \<Rightarrow>
         await (reportPolicyError emb rt input error)
           (\<lambda>_. resolved (deny_for_error ''Policy pre-hook failed'' error))
     | Inr _ \<Rightarrow>
         await (emitPolicyAudit emb rt (policy_event_of DecisionStarted input None None)) (\<lambda>_. ?decided))
     (\<lambda>_. decided_from rt input)"
    by (cases before) (auto intro: denial_returned)
qed

end
