(* ===== verification/Tool_Registry.thy ===== *)
theory Tool_Registry
  imports Policy_Runtime
begin

text \<open>
  The tools package's contracts (\<open>packages/tools/src/contracts.ts\<close>), its input schemas
  (\<open>schema.ts\<close>), journal events (\<open>journal.ts\<close>), merge strategies (\<open>merge-strategy.ts\<close>), toolset
  names (\<open>toolset.ts\<close>) and the registry (\<open>registry.ts\<close>). Arguments and outputs are JavaScript
  values. A tool's \<open>execute\<close> is outside code: the dispatcher invokes it. Its availability check
  is the answer it gives when asked. The readings of \<open>Date.now\<close> in events are left out.
\<close>

section \<open>Contracts\<close>

datatype merge_strategy = OrderedMerge | AllOrNothing | FirstWins

datatype tool_resolution =
    ToolExecuted | ToolMissing | ToolDenied | ToolApprovalRequired | ToolDegraded | ToolFailed

datatype availability_reason = MissingRequiredEnv | CheckUnavailable | CheckError

record tool_context =
  tx_sessionId :: string
  tx_turnId :: "string option"
  tx_workspaceRoot :: "string option"
  tx_actor :: "string option"
  tx_approval :: "approval_context option"

record tool_call =
  tk_id :: string
  tk_name :: string
  tk_args :: jsval

text \<open>An absent output is \<open>undefined\<close>.\<close>

record tool_result =
  tr_toolCallId :: string
  tr_toolName :: string
  tr_ok :: bool
  tr_output :: jsval
  tr_error :: "string option"
  tr_resolution :: "tool_resolution option"
  tr_degradation :: "degrade_surface option"
  tr_policyDecision :: "policy_decision option"
  tr_metadata :: "json_object option"

record tool_availability =
  av_available :: bool
  av_reason :: "availability_reason option"
  av_message :: "string option"
  av_missingEnvVars :: "string list option"
  av_error :: "string option"

record tool_definition =
  td_name :: string
  td_description :: string
  td_timeoutMs :: jsnum
  td_readOnly :: bool
  td_inputSchema :: "(jsval \<Rightarrow> thrown + jsval) option"
  td_schema :: "jsval option"
  td_toolset :: "string option"
  td_toolsetDescription :: "string option"
  td_toolsetEnabledByDefault :: "bool option"
  td_toolsetPlatforms :: "string list option"
  td_capabilities :: "string list option"
  td_riskLevel :: "risk_level option"
  td_requiresApproval :: "bool option"
  td_checkFn :: "(thrown + bool) option"
  td_requiresEnv :: "string list option"

datatype journal_event_type = ToolCallPlanned | ToolResultRecorded

record tool_journal_event =
  tj_eventType :: journal_event_type
  tj_payload :: json_object

fun resolution_str :: "tool_resolution \<Rightarrow> string" where
  "resolution_str ToolExecuted = ''executed''"
| "resolution_str ToolMissing = ''missing''"
| "resolution_str ToolDenied = ''denied''"
| "resolution_str ToolApprovalRequired = ''approval_required''"
| "resolution_str ToolDegraded = ''degraded''"
| "resolution_str ToolFailed = ''failed''"

fun availability_reason_str :: "availability_reason \<Rightarrow> string" where
  "availability_reason_str MissingRequiredEnv = ''missing_required_env''"
| "availability_reason_str CheckUnavailable = ''check_unavailable''"
| "availability_reason_str CheckError = ''check_error''"

section \<open>Input schemas\<close>

definition expectObject :: "jsval \<Rightarrow> string \<Rightarrow> thrown + json_object" where
  "expectObject input label =
     (case input of JObj kvs \<Rightarrow> Inr kvs
      | _ \<Rightarrow> Inl (ValidationThrown (''Expected '' @ label @ '' to be an object.'')))"

definition expectString :: "json_object \<Rightarrow> string \<Rightarrow> string \<Rightarrow> thrown + string" where
  "expectString kvs key label =
     (case alist_get kvs key of JStr s \<Rightarrow> Inr s
      | _ \<Rightarrow> Inl (ValidationThrown (''Expected '' @ label @ '' to be a string.'')))"

definition expectArray :: "json_object \<Rightarrow> string \<Rightarrow> string \<Rightarrow> thrown + jsval list" where
  "expectArray kvs key label =
     (case alist_get kvs key of JArr xs \<Rightarrow> Inr xs
      | _ \<Rightarrow> Inl (ValidationThrown (''Expected '' @ label @ '' to be an array.'')))"

definition expectStringEnumValue :: "jsval \<Rightarrow> string list \<Rightarrow> string \<Rightarrow> thrown + string" where
  "expectStringEnumValue v candidates label =
     (if (case v of JStr s \<Rightarrow> s \<in> set candidates | _ \<Rightarrow> False)
      then (case v of JStr s \<Rightarrow> Inr s | _ \<Rightarrow> Inr [])
      else Inl (ValidationThrown (''Expected '' @ label @ '' to be one of: ''
                  @ js_join '', '' candidates @ ''.'')))"

definition expectOptionalStringEnum ::
  "json_object \<Rightarrow> string \<Rightarrow> string list \<Rightarrow> string \<Rightarrow> thrown + string option" where
  "expectOptionalStringEnum kvs key candidates label =
     (let v = alist_get kvs key
      in if v = JUndefined then Inr None
         else (case expectStringEnumValue v candidates label of
                 Inl e \<Rightarrow> Inl e | Inr s \<Rightarrow> Inr (Some s)))"

section \<open>Journal events\<close>

fun toToolJournalValue :: "jsval \<Rightarrow> jsval"
  and journal_items :: "jsval list \<Rightarrow> jsval list"
  and journal_fields :: "json_object \<Rightarrow> json_object"
where
  "toToolJournalValue JUndefined = JNull"
| "toToolJournalValue JNull = JNull"
| "toToolJournalValue (JBool b) = JBool b"
| "toToolJournalValue (JNum n) = JNum n"
| "toToolJournalValue (JStr s) = JStr s"
| "toToolJournalValue (JArr xs) = JArr (journal_items xs)"
| "toToolJournalValue (JObj kvs) = JObj (journal_fields kvs)"
| "journal_items [] = []"
| "journal_items (x # xs) = toToolJournalValue x # journal_items xs"
| "journal_fields [] = []"
| "journal_fields ((k, v) # kvs) =
     (if v = JUndefined then journal_fields kvs
      else (k, toToolJournalValue v) # journal_fields kvs)"

definition createToolCallPlannedJournalEvent :: "tool_call \<Rightarrow> tool_journal_event" where
  "createToolCallPlannedJournalEvent call =
     \<lparr>tj_eventType = ToolCallPlanned,
      tj_payload = [(''toolCallId'', JStr (tk_id call)), (''toolName'', JStr (tk_name call)),
                    (''args'', toToolJournalValue (tk_args call))]\<rparr>"

definition createToolResultJournalEvent :: "tool_result \<Rightarrow> tool_journal_event" where
  "createToolResultJournalEvent result =
     \<lparr>tj_eventType = ToolResultRecorded,
      tj_payload =
        [(''toolCallId'', JStr (tr_toolCallId result)), (''toolName'', JStr (tr_toolName result)),
         (''ok'', JBool (tr_ok result))]
        @ (if tr_output result = JUndefined then []
           else [(''output'', toToolJournalValue (tr_output result))])
        @ [(''error'', case tr_error result of None \<Rightarrow> JNull | Some e \<Rightarrow> JStr e)]
        @ (case tr_resolution result of None \<Rightarrow> []
           | Some r \<Rightarrow> [(''resolution'', JStr (resolution_str r))])\<rparr>"

section \<open>Merging results\<close>

definition mergeToolResults :: "merge_strategy \<Rightarrow> tool_result list \<Rightarrow> tool_result list" where
  "mergeToolResults strategy results =
     (case strategy of
        OrderedMerge \<Rightarrow> results
      | FirstWins \<Rightarrow>
          (case find tr_ok results of Some firstSuccess \<Rightarrow> [firstSuccess] | None \<Rightarrow> results)
      | AllOrNothing \<Rightarrow> (if list_all tr_ok results then results else []))"

section \<open>Registry\<close>

text \<open>A \<open>Map\<close> by tool name, in the order of insertion.\<close>

type_synonym tool_registry = "tool_definition list"

type_synonym process_env = "string \<Rightarrow> string option"

definition registry_get :: "tool_registry \<Rightarrow> string \<Rightarrow> tool_definition option" where
  "registry_get registry name = find (\<lambda>d. td_name d = name) registry"

definition register :: "tool_registry \<Rightarrow> tool_definition \<Rightarrow> thrown + tool_registry" where
  "register registry d =
     (if registry_get registry (td_name d) \<noteq> None
      then Inl (ErrorThrown (''Tool already registered: '' @ td_name d))
      else Inr (registry @ [d]))"

definition DEFAULT_TOOLSET_NAME :: string where
  "DEFAULT_TOOLSET_NAME = ''default''"

definition resolveToolsetName :: "tool_definition \<Rightarrow> string" where
  "resolveToolsetName d =
     (case map_option js_trim (td_toolset d) of
        None \<Rightarrow> DEFAULT_TOOLSET_NAME
      | Some t \<Rightarrow> (if t = [] then DEFAULT_TOOLSET_NAME else t))"

definition registry_list :: "tool_registry \<Rightarrow> string option \<Rightarrow> tool_definition list" where
  "registry_list registry toolset =
     (if toolset = None \<or> toolset = Some [] then registry
      else filter (\<lambda>d. Some (resolveToolsetName d) = toolset) registry)"

definition hasPresentEnvValue :: "string option \<Rightarrow> bool" where
  "hasPresentEnvValue v \<longleftrightarrow> (case v of None \<Rightarrow> False | Some s \<Rightarrow> 0 < length s)"

definition missing_env :: "process_env \<Rightarrow> tool_definition \<Rightarrow> string list" where
  "missing_env env d =
     filter (\<lambda>name. \<not> hasPresentEnvValue (env name)) (nullish_else (td_requiresEnv d) [])"

definition available_tool :: tool_availability where
  "available_tool = \<lparr>av_available = True, av_reason = None, av_message = None,
     av_missingEnvVars = None, av_error = None\<rparr>"

definition unavailable_tool ::
  "availability_reason \<Rightarrow> string \<Rightarrow> string list option \<Rightarrow> string option \<Rightarrow> tool_availability" where
  "unavailable_tool reason message missing err =
     \<lparr>av_available = False, av_reason = Some reason, av_message = Some message,
      av_missingEnvVars = missing, av_error = err\<rparr>"

definition evaluateToolAvailability :: "tool_definition \<Rightarrow> process_env \<Rightarrow> tool_availability" where
  "evaluateToolAvailability d env =
     (let missing = missing_env env d
      in if missing \<noteq> []
         then unavailable_tool MissingRequiredEnv
                (''Tool \"'' @ td_name d
                 @ ''\" is unavailable because required environment variables are missing: ''
                 @ js_join '', '' missing @ ''.'') (Some missing) None
         else (case td_checkFn d of
                 None \<Rightarrow> available_tool
               | Some (Inr True) \<Rightarrow> available_tool
               | Some (Inr False) \<Rightarrow>
                   unavailable_tool CheckUnavailable
                     (''Tool \"'' @ td_name d
                      @ ''\" is unavailable because its availability check returned false.'') None None
               | Some (Inl e) \<Rightarrow>
                   unavailable_tool CheckError
                     (''Tool \"'' @ td_name d @ ''\" availability check failed: '' @ normalizeError e)
                     None (Some (normalizeError e))))"

definition getAvailability ::
  "tool_registry \<Rightarrow> string \<Rightarrow> process_env \<Rightarrow> tool_availability option" where
  "getAvailability registry name env =
     map_option (\<lambda>d. evaluateToolAvailability d env) (registry_get registry name)"

text \<open>The first argument of \<open>listAvailable\<close> is a toolset or the environment.\<close>

fun normalizeListInput :: "string + process_env \<Rightarrow> process_env \<Rightarrow> string option \<times> process_env" where
  "normalizeListInput (Inl toolset) env = (Some toolset, env)"
| "normalizeListInput (Inr given) env = (None, given)"

definition listAvailable ::
  "tool_registry \<Rightarrow> string + process_env \<Rightarrow> process_env \<Rightarrow> tool_definition list" where
  "listAvailable registry toolsetOrEnv env =
     (case normalizeListInput toolsetOrEnv env of (toolset, resolvedEnv) \<Rightarrow>
        filter (\<lambda>d. av_available (evaluateToolAvailability d resolvedEnv))
          (registry_list registry toolset))"

record tool_schema_descriptor =
  ts_name :: string
  ts_description :: string
  ts_toolset :: string
  ts_readOnly :: bool
  ts_inputSchema :: jsval

definition schema_descriptor :: "tool_definition \<Rightarrow> tool_schema_descriptor option" where
  "schema_descriptor d =
     map_option (\<lambda>schema. \<lparr>ts_name = td_name d, ts_description = td_description d,
       ts_toolset = resolveToolsetName d, ts_readOnly = td_readOnly d, ts_inputSchema = schema\<rparr>)
       (td_schema d)"

definition getSchemas ::
  "tool_registry \<Rightarrow> string + process_env \<Rightarrow> process_env \<Rightarrow> tool_schema_descriptor list" where
  "getSchemas registry toolsetOrEnv env =
     (case normalizeListInput toolsetOrEnv env of (toolset, resolvedEnv) \<Rightarrow>
        js_sort (\<lambda>l r. localeCompare (ts_name l) (ts_name r))
          (List.map_filter schema_descriptor
            (listAvailable registry
               (case toolset of Some t \<Rightarrow> Inl t | None \<Rightarrow> Inr resolvedEnv) resolvedEnv)))"

section \<open>Toolsets\<close>

record toolset_entry =
  te_description :: "string option"
  te_enabledByDefault :: "bool option"
  te_platform :: "string list option"
  te_tools :: "string list"

record toolset_definition =
  tset_name :: string
  tset_description :: string
  tset_tools :: "string list"
  tset_enabledByDefault :: bool
  tset_platform :: "string list option"

definition defaultToolsetDescription :: "string \<Rightarrow> string" where
  "defaultToolsetDescription name =
     (if name = DEFAULT_TOOLSET_NAME then ''Default toolset.''
      else ''Registered tools for the \"'' @ name @ ''\" toolset.'')"

text \<open>The body of the loop on the entry of the definition's toolset.\<close>

definition add_to_entry :: "tool_definition \<Rightarrow> toolset_entry \<Rightarrow> toolset_entry" where
  "add_to_entry d current =
     \<lparr>te_description = nullish (te_description current) (td_toolsetDescription d),
      te_enabledByDefault = nullish (te_enabledByDefault current) (td_toolsetEnabledByDefault d),
      te_platform = nullish (te_platform current) (td_toolsetPlatforms d),
      te_tools = te_tools current @ [td_name d]\<rparr>"

definition empty_entry :: toolset_entry where
  "empty_entry =
     \<lparr>te_description = None, te_enabledByDefault = None, te_platform = None, te_tools = []\<rparr>"

fun group_put :: "string \<Rightarrow> tool_definition \<Rightarrow> (string \<times> toolset_entry) list \<Rightarrow>
  (string \<times> toolset_entry) list" where
  "group_put name d [] = [(name, add_to_entry d empty_entry)]"
| "group_put name d ((n, e) # grouped) =
     (if n = name then (n, add_to_entry d e) # grouped else (n, e) # group_put name d grouped)"

definition toolset_groups :: "tool_registry \<Rightarrow> (string \<times> toolset_entry) list" where
  "toolset_groups registry =
     foldl (\<lambda>grouped d. group_put (resolveToolsetName d) d grouped) [] registry"

text \<open>\<open>Array.prototype.sort\<close> without a comparator orders strings by their code units.\<close>

definition code_unit_compare :: "string \<Rightarrow> string \<Rightarrow> int" where
  "code_unit_compare s t = lex_compare (map of_char s) (map of_char t)"

definition toolset_of_entry :: "string \<times> toolset_entry \<Rightarrow> toolset_definition" where
  "toolset_of_entry entry =
     (case entry of (name, e) \<Rightarrow>
        \<lparr>tset_name = name,
         tset_description = nullish_else (te_description e) (defaultToolsetDescription name),
         tset_tools = js_sort code_unit_compare (te_tools e),
         tset_enabledByDefault = nullish_else (te_enabledByDefault e) (name = DEFAULT_TOOLSET_NAME),
         tset_platform = te_platform e\<rparr>)"

definition listToolsets :: "tool_registry \<Rightarrow> toolset_definition list" where
  "listToolsets registry =
     js_sort (\<lambda>l r. localeCompare (tset_name l) (tset_name r))
       (map toolset_of_entry (toolset_groups registry))"

section \<open>Laws of the registry\<close>

lemma registry_get_name: "registry_get registry name = Some d \<Longrightarrow> td_name d = name \<and> d \<in> set registry"
  by (auto simp: registry_get_def find_Some_iff)

text \<open>Names in a registry stay distinct, so that every registered tool is the one its name finds.\<close>

definition registry_ok :: "tool_registry \<Rightarrow> bool" where
  "registry_ok registry \<longleftrightarrow> distinct (map td_name registry)"

lemma registry_get_None: "registry_get registry name = None \<longleftrightarrow> name \<notin> td_name ` set registry"
  by (auto simp: registry_get_def find_None_iff)

lemma register_ok: "registry_ok registry \<Longrightarrow> register registry d = Inr registry' \<Longrightarrow> registry_ok registry'"
  by (auto simp: register_def registry_ok_def registry_get_None split: if_splits)

lemma find_append: "find P (xs @ ys) = (case find P xs of None \<Rightarrow> find P ys | Some x \<Rightarrow> Some x)"
  by (induction xs) auto

lemma register_get:
  "register registry d = Inr registry' \<Longrightarrow>
     registry_get registry' name = (if name = td_name d then Some d else registry_get registry name)"
  by (auto simp: register_def registry_get_def find_append split: if_splits option.splits)

lemma registry_get_member:
  "registry_ok registry \<Longrightarrow> d \<in> set registry \<Longrightarrow> registry_get registry (td_name d) = Some d"
  by (induction registry) (auto simp: registry_ok_def registry_get_def)

lemma unavailable_iff:
  "av_available (evaluateToolAvailability d env) \<longleftrightarrow>
     missing_env env d = [] \<and> td_checkFn d \<in> {None, Some (Inr True)}"
  by (auto simp: evaluateToolAvailability_def available_tool_def unavailable_tool_def Let_def
      split: option.split sum.split bool.split)

text \<open>The entry of a toolset lists the tools that resolve to it, in the order of registration.\<close>

lemma map_of_group_put:
  "map_of (group_put name d grouped) k =
     (if k = name then Some (add_to_entry d (nullish_else (map_of grouped name) empty_entry))
      else map_of grouped k)"
  by (induction grouped) auto

lemma names_group_put:
  "map fst (group_put name d grouped) =
     (if name \<in> fst ` set grouped then map fst grouped else map fst grouped @ [name])"
proof (induction grouped)
  case (Cons g grouped)
  then show ?case by (cases g) (auto split: if_splits simp: rev_image_eqI)
qed simp

definition tools_in :: "string \<Rightarrow> tool_registry \<Rightarrow> string list" where
  "tools_in name registry = map td_name (filter (\<lambda>d. resolveToolsetName d = name) registry)"

lemma toolset_groups_snoc:
  "toolset_groups (registry @ [d]) = group_put (resolveToolsetName d) d (toolset_groups registry)"
  by (simp add: toolset_groups_def)

lemma toolset_groups_tools:
  "nullish_else (map_option te_tools (map_of (toolset_groups registry) name)) [] =
     tools_in name registry"
proof (induction registry rule: rev_induct)
  case Nil
  then show ?case by (simp add: toolset_groups_def tools_in_def)
next
  case (snoc d registry)
  then show ?case
    by (cases "map_of (toolset_groups registry) name")
      (auto simp: toolset_groups_snoc map_of_group_put tools_in_def add_to_entry_def empty_entry_def)
qed

lemma toolset_groups_names:
  "distinct (map fst (toolset_groups registry)) \<and>
   set (map fst (toolset_groups registry)) = resolveToolsetName ` set registry"
proof (induction registry rule: rev_induct)
  case Nil
  then show ?case by (simp add: toolset_groups_def)
next
  case (snoc d registry)
  then show ?case by (auto simp: toolset_groups_snoc names_group_put image_iff)
qed

lemma toolset_entry_tools:
  assumes "(name, e) \<in> set (toolset_groups registry)"
  shows "te_tools e = tools_in name registry"
proof -
  have "map_of (toolset_groups registry) name = Some e"
    using assms toolset_groups_names by (simp add: map_of_is_SomeI)
  with toolset_groups_tools [of registry name] show ?thesis by simp
qed

lemma comparator_code_units [comparator_intros]: "consistent_comparator code_unit_compare"
  unfolding code_unit_compare_def
  by (rule comparator_on [OF lex_compare.consistent_comparator_axioms])

end
