(* ===== verification/Tool_Dispatch.thy ===== *)
theory Tool_Dispatch
  imports Tool_Registry
begin

text \<open>
  \<open>ToolDispatcher.dispatch\<close> of \<open>packages/tools/src/dispatcher.ts\<close>: one call goes through the
  pre-hook, validation, the availability check, the policy and the execution under a time limit,
  with journal and audit records along the way. Hooks and sinks are awaited callbacks, of which
  the options say whether each is given; the policy is a task of its own.
\<close>

section \<open>Calls to the outside\<close>

datatype error_stage =
    StageBeforeDispatch | StageValidation | StageAvailability | StageJournal
  | StagePolicy | StageExecute | StageAfterDispatch | StageAudit

datatype tool_audit_kind =
    DispatchStarted | DispatchPolicyDecision | DispatchCompleted | DispatchFailed

record tool_audit_event =
  ta_kind :: tool_audit_kind
  ta_call :: tool_call
  ta_context :: tool_context
  ta_toolName :: string
  ta_capabilities :: "string list"
  ta_riskLevel :: risk_level
  ta_policyDecision :: "policy_decision option"
  ta_result :: "tool_result option"
  ta_error :: "string option"

text \<open>\<open>PolicyCall\<close> is a callback of the policy runtime.\<close>

datatype dispatch_call =
    BeforeDispatch tool_call tool_context
  | AfterDispatch tool_call tool_context tool_result
  | DispatchError error_stage tool_call tool_context thrown
  | DispatchAudit tool_audit_event
  | DispatchJournal tool_journal_event tool_context
  | PolicyCall policy_call

text \<open>An execution: the registered tool's name, with the arguments and the context.\<close>

record tool_request =
  tq_toolName :: string
  tq_args :: jsval
  tq_context :: tool_context

text \<open>
  The answer to an execution says whether the tool settled before its time limit was over
  (a rejection in time is the thrown value itself). Without a limit only the outcome counts.
\<close>

datatype settlement = InTime tool_result | Late "thrown + tool_result"

type_synonym 'a dispatch_task = "(dispatch_call, tool_request, settlement, 'a) task"

record dispatcher_options =
  op_policy :: "(tool_policy_input \<Rightarrow> policy_decision dispatch_task) option"
  op_auditSink :: bool
  op_journalSink :: bool
  op_beforeDispatch :: bool
  op_afterDispatch :: bool
  op_onError :: bool

section \<open>Capabilities\<close>

record resolved_profile =
  rc_capabilities :: "string list"
  rc_riskLevel :: risk_level
  rc_requiresApproval :: bool

definition resolveCapabilityProfile :: "tool_definition option \<Rightarrow> string \<Rightarrow> resolved_profile" where
  "resolveCapabilityProfile definition toolName =
     (case definition of
        None \<Rightarrow> \<lparr>rc_capabilities = [], rc_riskLevel = LowRisk, rc_requiresApproval = False\<rparr>
      | Some d \<Rightarrow>
          \<lparr>rc_capabilities =
             (case td_capabilities d of
                None \<Rightarrow> [toolName] | Some cs \<Rightarrow> (if 0 < length cs then cs else [toolName])),
           rc_riskLevel = nullish_else (td_riskLevel d) (if td_readOnly d then LowRisk else MediumRisk),
           rc_requiresApproval = nullish_else (td_requiresApproval d) False\<rparr>)"

definition policyRuntimeTask ::
  "policy_runtime \<Rightarrow> tool_policy_input \<Rightarrow> policy_decision dispatch_task" where
  "policyRuntimeTask rt input = evaluateToolDispatch PolicyCall rt input"

definition DEFAULT_POLICY_RUNTIME :: policy_runtime where
  "DEFAULT_POLICY_RUNTIME = newPolicyRuntime
     \<lparr>po_rules = None, po_beforeDecision = False, po_afterDecision = False, po_onError = False,
      po_auditSink = False,
      po_executionPolicy = Some
        \<lparr>xp_approvalRequiredAtOrAbove = Some HighRisk, xp_blockedCapabilities = None,
         xp_degradeCapabilities = None, xp_degradeSeverity = None, xp_degradeReason = None,
         xp_denyByDefault = Some False\<rparr>,
      po_defaultDecision =
        Some (plain_decision PolicyAllow ''Tool dispatch allowed by default policy runtime'' None)\<rparr>"

definition dispatch_policy ::
  "dispatcher_options \<Rightarrow> tool_policy_input \<Rightarrow> policy_decision dispatch_task" where
  "dispatch_policy options =
     nullish_else (op_policy options) (policyRuntimeTask DEFAULT_POLICY_RUNTIME)"

definition managesJournalClosure :: "dispatcher_options \<Rightarrow> bool" where
  "managesJournalClosure options = op_journalSink options"

section \<open>Results\<close>

definition plain_result ::
  "tool_call \<Rightarrow> string \<Rightarrow> string \<Rightarrow> tool_resolution \<Rightarrow> json_object option \<Rightarrow> tool_result" where
  "plain_result call toolName err resolution metadata =
     \<lparr>tr_toolCallId = tk_id call, tr_toolName = toolName, tr_ok = False, tr_output = JUndefined,
      tr_error = Some err, tr_resolution = Some resolution, tr_degradation = None,
      tr_policyDecision = None, tr_metadata = metadata\<rparr>"

fun createExecutionFailureResult :: "tool_call \<Rightarrow> string \<Rightarrow> thrown \<Rightarrow> tool_result" where
  "createExecutionFailureResult call toolName (TimeoutThrown tool timeoutMs) =
     plain_result call toolName (normalizeError (TimeoutThrown tool timeoutMs)) ToolFailed
       (Some [(''timeoutMs'', JNum timeoutMs)])"
| "createExecutionFailureResult call toolName error =
     plain_result call toolName (normalizeError error) ToolFailed None"

definition validation_message :: "thrown \<Rightarrow> string" where
  "validation_message error =
     (case error of ValidationThrown m \<Rightarrow> m
      | _ \<Rightarrow> ''Tool input validation failed: '' @ normalizeError error)"

definition createValidationFailureResult :: "tool_call \<Rightarrow> string \<Rightarrow> thrown \<Rightarrow> tool_result" where
  "createValidationFailureResult call toolName error =
     plain_result call toolName
       (''Tool \"'' @ toolName @ ''\" input validation failed: '' @ validation_message error) ToolFailed
       (Some [(''validationError'', JStr (validation_message error))])"

definition resultFromAvailability :: "tool_call \<Rightarrow> string \<Rightarrow> tool_availability \<Rightarrow> tool_result" where
  "resultFromAvailability call toolName av =
     plain_result call toolName
       (nullish_else (av_message av) (''Tool \"'' @ toolName @ ''\" is unavailable.'')) ToolMissing
       (Some ((''availabilityReason'', JStr (availability_reason_str
                 (nullish_else (av_reason av) CheckUnavailable)))
              # (case av_missingEnvVars av of None \<Rightarrow> []
                 | Some vars \<Rightarrow> [(''missingEnvVars'', JArr (map JStr vars))])))"

definition createAvailabilityCheckFailedResult ::
  "tool_call \<Rightarrow> string \<Rightarrow> tool_availability \<Rightarrow> tool_result" where
  "createAvailabilityCheckFailedResult call toolName av =
     plain_result call toolName
       (nullish_else (av_message av) (''Tool \"'' @ toolName @ ''\" availability check failed.''))
       ToolFailed
       (Some ((''availabilityReason'', JStr (availability_reason_str
                 (nullish_else (av_reason av) CheckError)))
              # (case av_error av of None \<Rightarrow> []
                 | Some e \<Rightarrow> (if e = [] then [] else [(''availabilityError'', JStr e)]))))"

fun mapPolicyVerdictToResolution :: "policy_verdict \<Rightarrow> tool_resolution" where
  "mapPolicyVerdictToResolution PolicyDeny = ToolDenied"
| "mapPolicyVerdictToResolution PolicyAsk = ToolApprovalRequired"
| "mapPolicyVerdictToResolution PolicyDegrade = ToolDegraded"
| "mapPolicyVerdictToResolution PolicyAllow = ToolExecuted"

definition createDefaultPolicyDegradation :: "string \<Rightarrow> string list \<Rightarrow> degrade_surface" where
  "createDefaultPolicyDegradation message degradedCapabilities =
     createRuntimeDegradeSurface PolicyStage PolicyCategory MajorSeverity PolicyRestricted message
       True None (Some [(''degradedCapabilities'', JArr (map JStr degradedCapabilities))])"

definition resultFromPolicyDecision ::
  "tool_call \<Rightarrow> string \<Rightarrow> policy_decision \<Rightarrow> tool_result" where
  "resultFromPolicyDecision call toolName d =
     (plain_result call toolName (pd_reason d) (mapPolicyVerdictToResolution (pd_verdict d))
        (mergeMetadata (pd_metadata d)
          (map_option (\<lambda>cs. [(''degradedCapabilities'', JArr (map JStr cs))])
             (pd_degradedCapabilities d))))
     \<lparr>tr_degradation :=
        (if pd_verdict d = PolicyDegrade
         then Some (nullish_else (pd_degradation d)
                (createDefaultPolicyDegradation (pd_reason d)
                   (nullish_else (pd_degradedCapabilities d) [])))
         else None),
      tr_policyDecision := Some d\<rparr>"

definition normalizeResolution :: "tool_result \<Rightarrow> tool_resolution" where
  "normalizeResolution result =
     (case tr_resolution result of
        Some r \<Rightarrow> r
      | None \<Rightarrow>
          if tr_ok result then ToolExecuted
          else if tr_degradation result \<noteq> None then ToolDegraded else ToolFailed)"

definition finalizeToolResult ::
  "tool_result \<Rightarrow> tool_call \<Rightarrow> string \<Rightarrow> policy_decision \<Rightarrow> tool_result" where
  "finalizeToolResult rawResult call toolName d =
     rawResult\<lparr>tr_toolCallId := tk_id call, tr_toolName := toolName,
       tr_ok := (normalizeResolution rawResult = ToolExecuted),
       tr_resolution := Some (normalizeResolution rawResult),
       tr_policyDecision := Some d,
       tr_metadata := nullish (mergeMetadata (tr_metadata rawResult) (pd_metadata d))
                        (tr_metadata rawResult)\<rparr>"

section \<open>Validation and execution\<close>

definition validateToolCallArgs :: "tool_call \<Rightarrow> tool_definition \<Rightarrow> thrown + tool_call" where
  "validateToolCallArgs call d =
     (case td_inputSchema d of
        None \<Rightarrow> Inr call
      | Some parse \<Rightarrow>
          (case parse (tk_args call) of Inl e \<Rightarrow> Inl e | Inr args \<Rightarrow> Inr (call\<lparr>tk_args := args\<rparr>)))"

definition has_time_limit :: "tool_definition \<Rightarrow> bool" where
  "has_time_limit d \<longleftrightarrow> (case td_timeoutMs d of Finite n \<Rightarrow> 0 < n | _ \<Rightarrow> False)"

definition executeToolWithTimeout ::
  "tool_definition \<Rightarrow> tool_call \<Rightarrow> tool_context \<Rightarrow> tool_result dispatch_task" where
  "executeToolWithTimeout d call context' =
     Invoke \<lparr>tq_toolName = td_name d, tq_args = tk_args call, tq_context = context'\<rparr> (\<lambda>answer.
       case answer of
         Inl e \<Rightarrow> rejected e
       | Inr (InTime result) \<Rightarrow> resolved result
       | Inr (Late outcome) \<Rightarrow>
           if has_time_limit d then rejected (TimeoutThrown (td_name d) (td_timeoutMs d))
           else Return outcome)"

section \<open>Hooks and sinks\<close>

definition report_stage ::
  "dispatcher_options \<Rightarrow> error_stage \<Rightarrow> tool_call \<Rightarrow> tool_context \<Rightarrow> thrown \<Rightarrow> unit dispatch_task" where
  "report_stage options stage call context' error =
     call_if (op_onError options) (DispatchError stage call context' error)"

definition runAfterDispatch ::
  "dispatcher_options \<Rightarrow> tool_call \<Rightarrow> tool_context \<Rightarrow> tool_result \<Rightarrow> unit dispatch_task" where
  "runAfterDispatch options call context' result =
     attempt (call_if (op_afterDispatch options) (AfterDispatch call context' result))
       (\<lambda>error. report_stage options StageAfterDispatch call context' error)"

definition emitToolAudit :: "dispatcher_options \<Rightarrow> tool_audit_event \<Rightarrow> unit dispatch_task" where
  "emitToolAudit options ev =
     attempt (call_if (op_auditSink options) (DispatchAudit ev))
       (\<lambda>error. attempt (report_stage options StageAudit (ta_call ev) (ta_context ev) error)
                  (\<lambda>_. resolved ()))"

definition emitToolJournal ::
  "dispatcher_options \<Rightarrow> tool_journal_event \<Rightarrow> tool_call \<Rightarrow> tool_context \<Rightarrow> unit dispatch_task" where
  "emitToolJournal options ev call context' =
     attempt (call_if (op_journalSink options) (DispatchJournal ev context'))
       (\<lambda>error. await (attempt (report_stage options StageJournal call context' error)
                         (\<lambda>_. resolved ()))
                  (\<lambda>_. rejected error))"

definition audit_event_of ::
  "tool_audit_kind \<Rightarrow> tool_call \<Rightarrow> tool_context \<Rightarrow> string \<Rightarrow> resolved_profile \<Rightarrow>
   policy_decision option \<Rightarrow> tool_result option \<Rightarrow> tool_audit_event" where
  "audit_event_of kind call context' toolName profile d result =
     \<lparr>ta_kind = kind, ta_call = call, ta_context = context', ta_toolName = toolName,
      ta_capabilities = rc_capabilities profile, ta_riskLevel = rc_riskLevel profile,
      ta_policyDecision = d, ta_result = result,
      ta_error = (if kind \<noteq> DispatchFailed then None
                  else case Option.bind result tr_error of None \<Rightarrow> None
                    | Some e \<Rightarrow> (if e = [] then None else Some e))\<rparr>"

text \<open>The four statements that end a dispatch: journal, post-hook, audit, return.\<close>

definition conclude ::
  "dispatcher_options \<Rightarrow> tool_audit_kind \<Rightarrow> tool_call \<Rightarrow> tool_context \<Rightarrow> resolved_profile \<Rightarrow>
   policy_decision option \<Rightarrow> tool_result \<Rightarrow> tool_result dispatch_task" where
  "conclude options kind call context' profile d result =
     await (emitToolJournal options (createToolResultJournalEvent result) call context') (\<lambda>_.
     await (runAfterDispatch options call context' result) (\<lambda>_.
     await (emitToolAudit options
              (audit_event_of kind call context' (tr_toolName result) profile d (Some result)))
       (\<lambda>_. resolved result)))"

section \<open>Dispatch\<close>

definition text_field :: "string \<Rightarrow> string option \<Rightarrow> json_object" where
  "text_field key v =
     (case v of None \<Rightarrow> [] | Some s \<Rightarrow> (if s = [] then [] else [(key, JStr s)]))"

definition dispatch_policy_input ::
  "tool_definition \<Rightarrow> tool_call \<Rightarrow> tool_context \<Rightarrow> resolved_profile \<Rightarrow> tool_policy_input" where
  "dispatch_policy_input d call context' profile =
     \<lparr>ti_toolName = td_name d,
      ti_actor = Some (nullish_else (tx_actor context') (tx_sessionId context')),
      ti_metadata = Some ([(''callId'', JStr (tk_id call)),
                           (''sessionId'', JStr (tx_sessionId context'))]
                          @ text_field ''turnId'' (tx_turnId context')
                          @ text_field ''workspaceRoot'' (tx_workspaceRoot context')),
      ti_capabilityProfile = Some
        \<lparr>cf_toolName = Some (td_name d), cf_capabilities = Some (rc_capabilities profile),
         cf_riskLevel = Some (rc_riskLevel profile),
         cf_requiresApproval = Some (rc_requiresApproval profile)\<rparr>,
      ti_approval = tx_approval context'\<rparr>"

definition execute_allowed ::
  "dispatcher_options \<Rightarrow> tool_definition \<Rightarrow> tool_call \<Rightarrow> tool_context \<Rightarrow> resolved_profile \<Rightarrow>
   policy_decision \<Rightarrow> tool_result dispatch_task" where
  "execute_allowed options d call context' profile decided =
     attempt
       (await (executeToolWithTimeout d call context') (\<lambda>result.
          conclude options DispatchCompleted call context' profile (Some decided)
            (finalizeToolResult result call (td_name d) decided)))
       (\<lambda>error.
          await (report_stage options StageExecute call context' error) (\<lambda>_.
            conclude options DispatchFailed call context' profile (Some decided)
              (finalizeToolResult (createExecutionFailureResult call (td_name d) error)
                 call (td_name d) decided)))"

text \<open>What follows the policy's answer.\<close>

definition handle_decision ::
  "dispatcher_options \<Rightarrow> tool_definition \<Rightarrow> tool_call \<Rightarrow> tool_context \<Rightarrow> resolved_profile \<Rightarrow>
   thrown + policy_decision \<Rightarrow> tool_result dispatch_task" where
  "handle_decision options d call context' profile decision =
     (case decision of
        Inl error \<Rightarrow>
          await (report_stage options StagePolicy call context' error) (\<lambda>_.
            conclude options DispatchFailed call context' profile None
              (plain_result call (td_name d)
                 (''Tool policy evaluation failed: '' @ normalizeError error) ToolFailed None))
      | Inr decided \<Rightarrow>
          await (emitToolAudit options
                   (audit_event_of DispatchPolicyDecision call context' (td_name d) profile
                      (Some decided) None)) (\<lambda>_.
            if pd_verdict decided \<noteq> PolicyAllow
            then conclude options DispatchCompleted call context' profile (Some decided)
                   (resultFromPolicyDecision call (td_name d) decided)
            else execute_allowed options d call context' profile decided))"

definition decide_and_execute ::
  "dispatcher_options \<Rightarrow> tool_definition \<Rightarrow> tool_call \<Rightarrow> tool_context \<Rightarrow> resolved_profile \<Rightarrow>
   tool_result dispatch_task" where
  "decide_and_execute options d call context' profile =
     await (emitToolJournal options (createToolCallPlannedJournalEvent call) call context') (\<lambda>_.
       follow (dispatch_policy options (dispatch_policy_input d call context' profile))
         (handle_decision options d call context' profile))"

definition check_and_execute ::
  "process_env \<Rightarrow> tool_registry \<Rightarrow> dispatcher_options \<Rightarrow> tool_definition \<Rightarrow> tool_call \<Rightarrow>
   tool_context \<Rightarrow> resolved_profile \<Rightarrow> tool_result dispatch_task" where
  "check_and_execute env registry options d call context' profile =
     (case getAvailability registry (tk_name call) env of
        None \<Rightarrow> decide_and_execute options d call context' profile
      | Some av \<Rightarrow>
          if av_available av then decide_and_execute options d call context' profile
          else if av_reason av = Some CheckError
          then await (report_stage options StageAvailability call context'
                        (ValueThrown (nullish_else (nullish (av_error av) (av_message av))
                           ''Tool availability check failed.''))) (\<lambda>_.
                 conclude options DispatchFailed call context' profile None
                   (createAvailabilityCheckFailedResult call (td_name d) av))
          else conclude options DispatchCompleted call context' profile None
                 (resultFromAvailability call (td_name d) av))"

definition dispatch_known ::
  "process_env \<Rightarrow> tool_registry \<Rightarrow> dispatcher_options \<Rightarrow> tool_definition \<Rightarrow> tool_call \<Rightarrow>
   tool_context \<Rightarrow> resolved_profile \<Rightarrow> tool_result dispatch_task" where
  "dispatch_known env registry options d call context' profile =
     (case validateToolCallArgs call d of
        Inl error \<Rightarrow>
          await (report_stage options StageValidation call context' error) (\<lambda>_.
            conclude options DispatchFailed call context' profile None
              (createValidationFailureResult call (td_name d) error))
      | Inr validated \<Rightarrow> check_and_execute env registry options d validated context' profile)"

definition dispatch_found ::
  "process_env \<Rightarrow> tool_registry \<Rightarrow> dispatcher_options \<Rightarrow> tool_context \<Rightarrow> tool_call \<Rightarrow>
   tool_definition option \<Rightarrow> resolved_profile \<Rightarrow> tool_result dispatch_task" where
  "dispatch_found env registry options context' call found profile =
     (case found of
        None \<Rightarrow>
          conclude options DispatchCompleted call context' profile None
            (plain_result call (tk_name call)
               (''Tool \"'' @ tk_name call @ ''\" is not registered.'') ToolMissing None)
      | Some d \<Rightarrow> dispatch_known env registry options d call context' profile)"

definition dispatch_started ::
  "process_env \<Rightarrow> tool_registry \<Rightarrow> dispatcher_options \<Rightarrow> tool_context \<Rightarrow> tool_call \<Rightarrow>
   tool_result dispatch_task" where
  "dispatch_started env registry options context' call =
     (let found = registry_get registry (tk_name call);
          profile = resolveCapabilityProfile found (tk_name call)
      in await (emitToolAudit options
                  (audit_event_of DispatchStarted call context' (tk_name call) profile None None))
           (\<lambda>_. dispatch_found env registry options context' call found profile))"

definition dispatch ::
  "process_env \<Rightarrow> tool_registry \<Rightarrow> dispatcher_options \<Rightarrow> tool_context \<Rightarrow> tool_call \<Rightarrow>
   tool_result dispatch_task" where
  "dispatch env registry options context' call =
     follow (call_if (op_beforeDispatch options) (BeforeDispatch call context')) (\<lambda>before.
       case before of
         Inl error \<Rightarrow>
           await (report_stage options StageBeforeDispatch call context' error) (\<lambda>_.
             resolved (plain_result call (tk_name call)
               (''Tool dispatch pre-hook failed: '' @ normalizeError error) ToolFailed None))
       | Inr _ \<Rightarrow> dispatch_started env registry options context' call)"

end
