(* ===== verification/Tool_Laws.thy ===== *)
theory Tool_Laws
  imports Policy_Laws Tool_Dispatch
begin

text \<open>
  What a dispatch does whatever its callbacks and its tool do: the tool runs at most once and only
  when everything permits it; the journal is closed by the result that is returned; the dispatch
  rejects only when a journal sink or the error hook throws.
\<close>

named_theorems dispatch_calls \<open>the callbacks of the parts of a dispatch\<close>

section \<open>Callbacks of the parts\<close>

lemma report_stage_calls [dispatch_calls]:
  "(\<And>st c x e. S (DispatchError st c x e)) \<Longrightarrow> calls_only S (report_stage options stage call ctx error)"
  by (simp add: report_stage_def)

lemma runAfterDispatch_calls [dispatch_calls]:
  "(\<And>st c x e. S (DispatchError st c x e)) \<Longrightarrow> (\<And>c x r. S (AfterDispatch c x r)) \<Longrightarrow>
     calls_only S (runAfterDispatch options call ctx result)"
  by (auto simp: runAfterDispatch_def intro!: calls_only_attempt report_stage_calls)

lemma emitToolAudit_calls [dispatch_calls]:
  "(\<And>st c x e. S (DispatchError st c x e)) \<Longrightarrow> (\<And>ev. S (DispatchAudit ev)) \<Longrightarrow>
     calls_only S (emitToolAudit options ev)"
  by (auto simp: emitToolAudit_def intro!: calls_only_attempt report_stage_calls)

lemma emitToolJournal_calls [dispatch_calls]:
  "(\<And>st c x e. S (DispatchError st c x e)) \<Longrightarrow> (\<And>x. S (DispatchJournal ev x)) \<Longrightarrow>
     calls_only S (emitToolJournal options ev call ctx)"
  by (auto simp: emitToolJournal_def intro!: calls_only_attempt calls_only_await report_stage_calls)

lemma conclude_calls [dispatch_calls]:
  "(\<And>u. S u) \<Longrightarrow> calls_only S (conclude options kind call ctx profile d result)"
  by (auto simp: conclude_def intro!: calls_only_await emitToolJournal_calls runAfterDispatch_calls
      emitToolAudit_calls)

lemma policyRuntimeTask_calls [dispatch_calls]:
  "(\<And>c. S (PolicyCall c)) \<Longrightarrow> calls_only S (policyRuntimeTask rt input)"
  by (simp add: policyRuntimeTask_def evaluateToolDispatch_def decide_calls)

text \<open>A policy task decides, and keeps what the policy's own callbacks keep.\<close>

lemma policy_task_decides:
  assumes "\<And>c r s s'. P s \<Longrightarrow> w s (Did (PolicyCall c) r) = Some s' \<Longrightarrow> P s'"
  shows "triple w P (policyRuntimeTask rt input)
           (\<lambda>s r. P s \<and> decided_from rt (tool_dispatch_input input) r)"
proof -
  have "triple w P (policyRuntimeTask rt input) (\<lambda>s _. P s)"
    by (rule triple_calls_only [OF policyRuntimeTask_calls [where S = "\<lambda>u. \<exists>c. u = PolicyCall c"]])
      (auto intro: assms)
  moreover have "triple w (\<lambda>_. True) (policyRuntimeTask rt input)
      (\<lambda>_. decided_from rt (tool_dispatch_input input))"
    by (simp add: policyRuntimeTask_def evaluateToolDispatch_def decide_decides)
  ultimately show ?thesis by (rule triple_weaken [OF triple_both]) auto
qed

section \<open>The tool runs once, and only when permitted\<close>

abbreviation no_calls_yet :: "'t list \<Rightarrow> bool" where
  "no_calls_yet ts \<equiv> ts = []"

text \<open>The policy input of a validated call.\<close>

definition call_policy_input ::
  "tool_definition \<Rightarrow> tool_call \<Rightarrow> tool_context \<Rightarrow> policy_input" where
  "call_policy_input d validated ctx =
     tool_dispatch_input (dispatch_policy_input d validated ctx
       (resolveCapabilityProfile (Some d) (tk_name validated)))"

definition execution_permitted ::
  "process_env \<Rightarrow> tool_registry \<Rightarrow> policy_runtime \<Rightarrow> tool_context \<Rightarrow> tool_call \<Rightarrow> tool_request \<Rightarrow> bool"
where
  "execution_permitted env registry rt ctx call rq \<longleftrightarrow>
     (\<exists>d validated.
        registry_get registry (tk_name call) = Some d \<and>
        validateToolCallArgs call d = Inr validated \<and>
        rq = \<lparr>tq_toolName = td_name d, tq_args = tk_args validated, tq_context = ctx\<rparr> \<and>
        av_available (evaluateToolAvailability d env) \<and>
        rule_verdict rt (call_policy_input d validated ctx) = Inr PolicyAllow \<and>
        policy_verdict_of (rt_executionPolicy rt) (call_policy_input d validated ctx) = None)"

lemma permitted_requests:
  assumes "triple note_invocations no_calls_yet p (\<lambda>ts a. no_calls_yet ts \<or> (\<exists>rq. ts = [rq] \<and> ok rq))"
    and "feed p es = Some p'"
  shows "invocations es = [] \<or> (\<exists>rq answer. invocations es = [(rq, answer)] \<and> ok rq)"
proof -
  obtain es' a where run: "runs p (es @ es') a" using feed_extends [OF assms(2)] by blast
  have "map fst (invocations (es @ es')) = [] \<or>
        (\<exists>rq. map fst (invocations (es @ es')) = [rq] \<and> ok rq)"
    using tripleD [OF assms(1) _ run, of "[]"] by (simp add: watched_invocations)
  then show ?thesis by (auto simp: map_eq_append_conv append_eq_Cons_conv)
qed

lemma validated_name: "validateToolCallArgs call d = Inr validated \<Longrightarrow> tk_name validated = tk_name call"
  by (auto simp: validateToolCallArgs_def split: option.splits sum.splits)

lemma validated_id: "validateToolCallArgs call d = Inr validated \<Longrightarrow> tk_id validated = tk_id call"
  by (auto simp: validateToolCallArgs_def split: option.splits sum.splits)

abbreviation at_most :: "'t \<Rightarrow> 't list \<Rightarrow> bool" where
  "at_most rq ts \<equiv> no_calls_yet ts \<or> ts = [rq]"

lemma quiet_conclude [simp]: "quiet_proc (conclude options kind call ctx profile d result)"
  by (rule conclude_calls) simp

lemma execute_once:
  "triple note_invocations no_calls_yet (execute_allowed options d call ctx profile decided)
     (\<lambda>ts _. at_most \<lparr>tq_toolName = td_name d, tq_args = tk_args call, tq_context = ctx\<rparr> ts)"
  (is "triple _ _ _ (\<lambda>ts _. at_most ?rq ts)")
proof -
  have "triple note_invocations no_calls_yet (executeToolWithTimeout d call ctx) (\<lambda>ts _. ts = [?rq])"
    by (auto simp: executeToolWithTimeout_def triple_Invoke triple_Return note_invocations_def
        split: sum.split settlement.split)
  then show ?thesis
    unfolding execute_allowed_def
    by (intro triple_attempt [where R = "\<lambda>ts _. ts = [?rq]"] triple_await [where R = "\<lambda>ts _. ts = [?rq]"])
      (auto intro!: triple_quiet calls_only_await dispatch_calls)
qed

text \<open>The request of a call, if everything about its policy input is clear.\<close>

definition cleared_request ::
  "policy_runtime \<Rightarrow> policy_input \<Rightarrow> tool_definition \<Rightarrow> tool_call \<Rightarrow> tool_context \<Rightarrow>
   tool_request list \<Rightarrow> bool" where
  "cleared_request rt input d call ctx ts \<longleftrightarrow>
     no_calls_yet ts \<or>
     ts = [\<lparr>tq_toolName = td_name d, tq_args = tk_args call, tq_context = ctx\<rparr>] \<and>
     rule_verdict rt input = Inr PolicyAllow \<and>
     policy_verdict_of (rt_executionPolicy rt) input = None"

lemma cleared_Nil [simp]: "cleared_request rt input d call ctx []"
  by (simp add: cleared_request_def)

lemma handle_decision_permitted:
  "triple note_invocations (\<lambda>ts. no_calls_yet ts \<and> decided_from rt input r)
     (handle_decision options d call ctx profile r) (\<lambda>ts _. cleared_request rt input d call ctx ts)"
proof (cases r)
  case (Inl e)
  then show ?thesis
    by (auto simp: handle_decision_def intro!: triple_quiet calls_only_await dispatch_calls)
next
  case (Inr decided)
  let ?P = "\<lambda>ts. no_calls_yet ts \<and> decided_from rt input r"
  have executed: "triple note_invocations ?P
      (if pd_verdict decided \<noteq> PolicyAllow
       then conclude options DispatchCompleted call ctx profile (Some decided)
              (resultFromPolicyDecision call (td_name d) decided)
       else execute_allowed options d call ctx profile decided)
      (\<lambda>ts _. cleared_request rt input d call ctx ts)"
  proof (cases "pd_verdict decided = PolicyAllow \<and> decided_from rt input r")
    case True
    then have "rule_verdict rt input = Inr PolicyAllow"
        "policy_verdict_of (rt_executionPolicy rt) input = None"
      using resolved_allow [of rt input decided] by (auto simp: decided_from_def Inr)
    then show ?thesis
      using True by (auto intro!: triple_weaken [OF execute_once] simp: cleared_request_def)
  next
    case False
    then consider "\<not> decided_from rt input r" | "pd_verdict decided \<noteq> PolicyAllow" by blast
    then show ?thesis by cases (auto intro!: triple_quiet)
  qed
  have audit: "triple note_invocations ?P
      (emitToolAudit options
         (audit_event_of DispatchPolicyDecision call ctx (td_name d) profile (Some decided) None))
      (\<lambda>ts _. ?P ts)"
    by (auto intro!: triple_quiet dispatch_calls)
  show ?thesis
    unfolding handle_decision_def Inr sum.case
    by (rule triple_await [OF audit [unfolded Inr] executed [unfolded Inr]]) simp
qed

lemma decide_and_execute_permitted:
  fixes d :: tool_definition and call :: tool_call and ctx :: tool_context
    and profile :: resolved_profile
  assumes "dispatch_policy options = policyRuntimeTask rt"
  defines "input \<equiv> tool_dispatch_input (dispatch_policy_input d call ctx profile)"
  shows "triple note_invocations no_calls_yet (decide_and_execute options d call ctx profile)
     (\<lambda>ts _. cleared_request rt input d call ctx ts)"
proof -
  have policy: "triple note_invocations no_calls_yet
      (policyRuntimeTask rt (dispatch_policy_input d call ctx profile))
      (\<lambda>ts r. no_calls_yet ts \<and> decided_from rt input r)"
    unfolding input_def by (rule policy_task_decides) (simp add: note_invocations_def)
  have journaled: "triple note_invocations no_calls_yet
        (emitToolJournal options (createToolCallPlannedJournalEvent call) call ctx)
        (\<lambda>ts _. no_calls_yet ts)"
    by (auto intro!: triple_quiet dispatch_calls)
  show ?thesis
    unfolding decide_and_execute_def assms(1)
    by (rule triple_await [OF journaled triple_follow [OF policy handle_decision_permitted]]) simp
qed

lemma check_and_execute_permitted:
  fixes call :: tool_call and ctx :: tool_context
  assumes "dispatch_policy options = policyRuntimeTask rt"
    and "registry_get registry (tk_name call) = Some d"
  defines "profile \<equiv> resolveCapabilityProfile (Some d) (tk_name call)"
  defines "input \<equiv> tool_dispatch_input (dispatch_policy_input d call ctx profile)"
  shows "triple note_invocations no_calls_yet
     (check_and_execute env registry options d call ctx profile)
     (\<lambda>ts _. cleared_request rt input d call ctx ts \<and>
        (no_calls_yet ts \<or> av_available (evaluateToolAvailability d env)))"
proof (cases "av_available (evaluateToolAvailability d env)")
  case True
  then show ?thesis
    using decide_and_execute_permitted [OF assms(1), of d call ctx profile]
    by (auto simp: check_and_execute_def getAvailability_def assms(2) input_def
        intro: triple_weaken)
next
  case False
  then show ?thesis
    by (auto simp: check_and_execute_def getAvailability_def assms(2)
        intro!: triple_quiet calls_only_await dispatch_calls)
qed

lemma dispatch_known_permitted:
  assumes "dispatch_policy options = policyRuntimeTask rt"
    and "registry_get registry (tk_name call) = Some d"
  shows "triple note_invocations no_calls_yet
     (dispatch_known env registry options d call ctx
        (resolveCapabilityProfile (Some d) (tk_name call)))
     (\<lambda>ts _. no_calls_yet ts \<or> (\<exists>rq. ts = [rq] \<and> execution_permitted env registry rt ctx call rq))"
proof (cases "validateToolCallArgs call d")
  case (Inl e)
  then show ?thesis
    by (auto simp: dispatch_known_def intro!: triple_quiet calls_only_await dispatch_calls)
next
  case (Inr validated)
  have name: "tk_name validated = tk_name call" by (rule validated_name [OF Inr])
  then have found: "registry_get registry (tk_name validated) = Some d" using assms(2) by simp
  note checked = check_and_execute_permitted [OF assms(1) found, where env = env and ctx = ctx]
  show ?thesis
    using Inr assms(2) name
    by (auto simp: dispatch_known_def execution_permitted_def call_policy_input_def
        cleared_request_def intro!: triple_weaken [OF checked [unfolded name]])
qed

lemma dispatch_permitted:
  assumes "dispatch_policy options = policyRuntimeTask rt"
  shows "triple note_invocations no_calls_yet (dispatch env registry options ctx call)
     (\<lambda>ts _. no_calls_yet ts \<or> (\<exists>rq. ts = [rq] \<and> execution_permitted env registry rt ctx call rq))"
    (is "triple _ _ _ ?Q")
proof -
  let ?found = "registry_get registry (tk_name call)"
  let ?profile = "resolveCapabilityProfile ?found (tk_name call)"
  have found: "triple note_invocations no_calls_yet
      (dispatch_found env registry options ctx call ?found ?profile) ?Q"
  proof (cases ?found)
    case (Some d)
    then show ?thesis
      using dispatch_known_permitted [OF assms Some] by (simp add: dispatch_found_def)
  qed (simp add: dispatch_found_def triple_quiet)
  have audit: "triple note_invocations no_calls_yet
      (emitToolAudit options
         (audit_event_of DispatchStarted call ctx (tk_name call) ?profile None None))
      (\<lambda>ts _. no_calls_yet ts)"
    by (auto intro!: triple_quiet dispatch_calls)
  have started: "triple note_invocations no_calls_yet
      (dispatch_started env registry options ctx call) ?Q"
    unfolding dispatch_started_def Let_def by (rule triple_await [OF audit found]) simp
  have hook: "triple note_invocations no_calls_yet
      (call_if (op_beforeDispatch options) (BeforeDispatch call ctx)) (\<lambda>ts _. no_calls_yet ts)"
    by (simp add: triple_quiet)
  show ?thesis
    unfolding dispatch_def
  proof (rule triple_follow [OF hook])
    fix before :: "thrown + unit"
    show "triple note_invocations (\<lambda>ts. no_calls_yet ts) (case before of
         Inl error \<Rightarrow>
           await (report_stage options StageBeforeDispatch call ctx error) (\<lambda>_.
             resolved (plain_result call (tk_name call)
               (''Tool dispatch pre-hook failed: '' @ normalizeError error) ToolFailed None))
       | Inr _ \<Rightarrow> dispatch_started env registry options ctx call) ?Q"
      by (cases before) (auto intro!: triple_quiet calls_only_await dispatch_calls simp: started)
  qed
qed

end
