(* ===== verification/Tool_Journal_Laws.thy ===== *)
theory Tool_Journal_Laws
  imports Tool_Laws
begin

text \<open>
  The journal of a dispatch, as long as the error hook and the journal sink do not throw: a call
  is planned at most once, and the last record is the result that is returned. Every other hook,
  the audit sink, the policy and the tool may fail.
\<close>

section \<open>The monitor\<close>

text \<open>It collects the journal, and assumes the error hook and the journal sink not to throw.\<close>

definition steady_journal ::
  "(tool_journal_event list, dispatch_call, tool_request, settlement) monitor" where
  "steady_journal J e =
     (case e of
        Invoked rq answer \<Rightarrow> Some J
      | Did u r \<Rightarrow>
          (case u of
             DispatchError stage call ctx error \<Rightarrow> (if isl r then None else Some J)
           | DispatchJournal ev ctx \<Rightarrow> (if isl r then None else Some (J @ [ev]))
           | _ \<Rightarrow> Some J))"

lemma steady_simps [simp]:
  "steady_journal J (Invoked rq answer) = Some J"
  "steady_journal J (Did (DispatchError stage call ctx error) r) = (if isl r then None else Some J)"
  "steady_journal J (Did (DispatchJournal ev ctx) r) = (if isl r then None else Some (J @ [ev]))"
  "steady_journal J (Did (PolicyCall c) r) = Some J"
  "steady_journal J (Did (DispatchAudit a) r) = Some J"
  "steady_journal J (Did (BeforeDispatch call ctx) r) = Some J"
  "steady_journal J (Did (AfterDispatch call ctx result) r) = Some J"
  by (simp_all add: steady_journal_def)

text \<open>The records a journal sink took, and the events of a run in which neither throws.\<close>

fun journal_record :: "(dispatch_call, tool_request, settlement) event \<Rightarrow> tool_journal_event option" where
  "journal_record (Did (DispatchJournal ev ctx) (Inr u)) = Some ev"
| "journal_record e = None"

definition journal_records ::
  "(dispatch_call, tool_request, settlement) event list \<Rightarrow> tool_journal_event list" where
  "journal_records es = List.map_filter journal_record es"

fun steady_event :: "(dispatch_call, tool_request, settlement) event \<Rightarrow> bool" where
  "steady_event (Did (DispatchError stage call ctx error) (Inl e)) = False"
| "steady_event (Did (DispatchJournal ev ctx) (Inl e)) = False"
| "steady_event e = True"

lemma steady_journal_event:
  "steady_journal J e =
     (if steady_event e then Some (J @ (case journal_record e of None \<Rightarrow> [] | Some ev \<Rightarrow> [ev]))
      else None)"
proof (cases e)
  case (Did u r)
  then show ?thesis by (cases u; cases r) simp_all
qed simp

lemma watched_steady:
  "list_all steady_event es \<Longrightarrow> watched steady_journal J es = Some (J @ journal_records es)"
  by (induction es arbitrary: J)
    (auto simp: steady_journal_event journal_records_def map_filter_simps split: option.split)

lemma not_isl_unit: "\<not> isl (r :: thrown + unit) \<Longrightarrow> r = Inr ()"
  by (cases r) auto

section \<open>The parts of a dispatch\<close>

definition recorded :: "dispatcher_options \<Rightarrow> tool_journal_event list \<Rightarrow> tool_journal_event \<Rightarrow>
  tool_journal_event list" where
  "recorded options J ev = (if op_journalSink options then J @ [ev] else J)"

lemma report_steady:
  "triple steady_journal (\<lambda>s. s = J) (report_stage options stage call ctx error)
     (\<lambda>s r. s = J \<and> r = Inr ())"
  by (auto simp: report_stage_def triple_call_if dest: not_isl_unit split: if_splits)

lemma after_dispatch_steady:
  "triple steady_journal (\<lambda>s. s = J) (runAfterDispatch options call ctx result)
     (\<lambda>s r. s = J \<and> r = Inr ())"
  unfolding runAfterDispatch_def
  by (rule triple_attempt [where R = "\<lambda>s r. s = J"])
    (auto simp: triple_call_if intro: report_steady)

lemma swallowed_report:
  "triple steady_journal (\<lambda>s. s = J)
     (attempt (report_stage options stage call ctx error) (\<lambda>_. resolved ()))
     (\<lambda>s r. s = J \<and> r = Inr ())"
  by (rule triple_attempt [OF report_steady]) (auto simp: triple_Return)

lemma audit_steady:
  "triple steady_journal (\<lambda>s. s = J) (emitToolAudit options ev) (\<lambda>s r. s = J \<and> r = Inr ())"
  unfolding emitToolAudit_def
  by (rule triple_attempt [where R = "\<lambda>s r. s = J"])
    (auto simp: triple_call_if intro: swallowed_report)

lemma journal_steady:
  "triple steady_journal (\<lambda>s. s = J) (emitToolJournal options ev call ctx)
     (\<lambda>s r. s = recorded options J ev \<and> r = Inr ())"
  unfolding emitToolJournal_def
  by (rule triple_attempt [where R = "\<lambda>s r. s = recorded options J ev \<and> r = Inr ()"])
    (auto simp: triple_call_if recorded_def dest: not_isl_unit split: if_splits)

lemma conclude_steady:
  "triple steady_journal (\<lambda>s. s = J) (conclude options kind call ctx profile d result)
     (\<lambda>s r. s = recorded options J (createToolResultJournalEvent result) \<and> r = Inr result)"
  unfolding conclude_def
  by (intro after_resolved [OF journal_steady] after_resolved [OF after_dispatch_steady]
      after_resolved [OF audit_steady]) (simp add: triple_Return)

lemma reported_conclusion:
  "triple steady_journal (\<lambda>s. s = J)
     (await (report_stage options stage call ctx error)
        (\<lambda>_. conclude options kind call' ctx profile d result))
     (\<lambda>s r. s = recorded options J (createToolResultJournalEvent result) \<and> r = Inr result)"
  by (rule after_resolved [OF report_steady conclude_steady])

lemma execution_steady:
  "triple steady_journal (\<lambda>s. s = J) (executeToolWithTimeout d call ctx) (\<lambda>s r. s = J)"
  by (auto simp: executeToolWithTimeout_def triple_Invoke triple_Return
      split: sum.split settlement.split)

section \<open>Results\<close>

text \<open>The result of a call: it carries the call's id and tool, and is ok exactly when executed.\<close>

definition result_of :: "tool_call \<Rightarrow> tool_result \<Rightarrow> bool" where
  "result_of call result \<longleftrightarrow>
     tr_toolCallId result = tk_id call \<and> tr_toolName result = tk_name call \<and>
     (tr_ok result \<longleftrightarrow> tr_resolution result = Some ToolExecuted)"

lemma plain_result_of:
  "name = tk_name call \<Longrightarrow> resolution \<noteq> ToolExecuted \<Longrightarrow>
     result_of call (plain_result call name err resolution metadata)"
  by (simp add: result_of_def plain_result_def)

lemma finalized_result_of:
  "name = tk_name call \<Longrightarrow> result_of call (finalizeToolResult raw call name d)"
  by (simp add: result_of_def finalizeToolResult_def)

lemma undecided_result_of:
  "name = tk_name call \<Longrightarrow> pd_verdict d \<noteq> PolicyAllow \<Longrightarrow>
     result_of call (resultFromPolicyDecision call name d)"
  by (cases "pd_verdict d") (simp_all add: result_of_def resultFromPolicyDecision_def plain_result_def)

lemma availability_result_of:
  "name = tk_name call \<Longrightarrow> result_of call (resultFromAvailability call name av)"
  "name = tk_name call \<Longrightarrow> result_of call (createAvailabilityCheckFailedResult call name av)"
  "name = tk_name call \<Longrightarrow> result_of call (createValidationFailureResult call name e)"
  by (simp_all add: resultFromAvailability_def createAvailabilityCheckFailedResult_def
      createValidationFailureResult_def plain_result_of)

lemma result_of_validated:
  "validateToolCallArgs call d = Inr validated \<Longrightarrow> result_of validated result \<Longrightarrow> result_of call result"
  by (simp add: result_of_def validated_id validated_name)

lemmas results_of = plain_result_of finalized_result_of undecided_result_of availability_result_of

section \<open>The whole dispatch\<close>

text \<open>The journal a dispatch adds ends with its result's record.\<close>

definition closes_with ::
  "dispatcher_options \<Rightarrow> tool_journal_event list \<Rightarrow> tool_call \<Rightarrow> tool_journal_event list \<Rightarrow>
   thrown + tool_result \<Rightarrow> bool" where
  "closes_with options J call s r \<longleftrightarrow>
     (\<exists>result. r = Inr result \<and> result_of call result \<and>
        s = recorded options J (createToolResultJournalEvent result))"

lemma concludes:
  "result_of call result \<Longrightarrow>
     triple steady_journal (\<lambda>s. s = J) (conclude options kind call' ctx profile d result)
       (closes_with options J call)"
  by (rule triple_weaken [OF conclude_steady]) (auto simp: closes_with_def)

lemma reports_and_concludes:
  "result_of call result \<Longrightarrow>
     triple steady_journal (\<lambda>s. s = J)
       (await (report_stage options stage call'' ctx error)
          (\<lambda>_. conclude options kind call' ctx profile d result))
       (closes_with options J call)"
  by (rule triple_weaken [OF reported_conclusion]) (auto simp: closes_with_def)

lemma execute_allowed_closes:
  assumes "td_name d = tk_name call"
  shows "triple steady_journal (\<lambda>s. s = J) (execute_allowed options d call ctx profile decided)
           (closes_with options J call)"
  unfolding execute_allowed_def
proof (rule triple_attempt [where R = "\<lambda>s r. closes_with options J call s r \<or> (s = J \<and> isl r)"])
  show "triple steady_journal (\<lambda>s. s = J)
     (await (executeToolWithTimeout d call ctx) (\<lambda>result.
          conclude options DispatchCompleted call ctx profile (Some decided)
            (finalizeToolResult result call (td_name d) decided)))
     (\<lambda>s r. closes_with options J call s r \<or> (s = J \<and> isl r))"
    by (rule triple_await [OF execution_steady])
      (auto intro: triple_weaken [OF concludes [OF finalized_result_of [OF assms]]])
next
  fix error
  show "triple steady_journal
     (\<lambda>s. closes_with options J call s (Inl error) \<or> (s = J \<and> isl (Inl error :: thrown + tool_result)))
     (await (report_stage options StageExecute call ctx error) (\<lambda>_.
        conclude options DispatchFailed call ctx profile (Some decided)
          (finalizeToolResult (createExecutionFailureResult call (td_name d) error)
             call (td_name d) decided)))
     (closes_with options J call)"
    using reports_and_concludes [OF finalized_result_of [OF assms]]
    by (rule triple_weaken) (auto simp: closes_with_def)
qed auto

lemma handle_decision_closes:
  assumes "td_name d = tk_name call"
  shows "triple steady_journal (\<lambda>s. s = J) (handle_decision options d call ctx profile r)
           (closes_with options J call)"
proof (cases r)
  case (Inl e)
  then show ?thesis
    by (auto simp: handle_decision_def assms intro!: reports_and_concludes plain_result_of)
next
  case (Inr decided)
  show ?thesis
    unfolding handle_decision_def Inr sum.case
    by (rule after_resolved [OF audit_steady])
      (auto simp: assms intro!: concludes undecided_result_of execute_allowed_closes)
qed

definition planned_journal :: "dispatcher_options \<Rightarrow> tool_journal_event list \<Rightarrow> tool_call \<Rightarrow>
  tool_journal_event list" where
  "planned_journal options J call = recorded options J (createToolCallPlannedJournalEvent call)"

lemma decide_and_execute_closes:
  assumes "dispatch_policy options = policyRuntimeTask rt" and "td_name d = tk_name call"
  shows "triple steady_journal (\<lambda>s. s = J) (decide_and_execute options d call ctx profile)
           (closes_with options (planned_journal options J call) call)"
proof -
  have policy: "triple steady_journal (\<lambda>s. s = planned_journal options J call)
      (policyRuntimeTask rt (dispatch_policy_input d call ctx profile))
      (\<lambda>s r. s = planned_journal options J call)"
    by (rule triple_weaken [OF policy_task_decides [where P = "\<lambda>s. s = planned_journal options J call"]])
      auto
  have planned: "triple steady_journal (\<lambda>s. s = J)
      (emitToolJournal options (createToolCallPlannedJournalEvent call) call ctx)
      (\<lambda>s r. s = planned_journal options J call \<and> r = Inr ())"
    unfolding planned_journal_def by (rule journal_steady)
  show ?thesis
    unfolding decide_and_execute_def assms(1)
    by (rule after_resolved [OF planned triple_follow [OF policy handle_decision_closes [OF assms(2)]]])
qed

text \<open>
  A journal that a dispatch leaves: the result's record, after the record of the planned call when
  the call got as far as the policy; nothing when the pre-hook threw.
\<close>

definition journal_of_dispatch ::
  "dispatcher_options \<Rightarrow> tool_call \<Rightarrow> tool_journal_event list \<Rightarrow> tool_result \<Rightarrow> bool" where
  "journal_of_dispatch options call s result \<longleftrightarrow>
     s = recorded options [] (createToolResultJournalEvent result) \<or>
     (\<exists>planned. tk_id planned = tk_id call \<and> tk_name planned = tk_name call \<and>
        s = recorded options (planned_journal options [] planned) (createToolResultJournalEvent result)) \<or>
     (op_beforeDispatch options \<and> s = [] \<and> tr_resolution result = Some ToolFailed)"

definition dispatch_closes ::
  "dispatcher_options \<Rightarrow> tool_call \<Rightarrow> tool_journal_event list \<Rightarrow> thrown + tool_result \<Rightarrow> bool" where
  "dispatch_closes options call s r \<longleftrightarrow>
     (\<exists>result. r = Inr result \<and> result_of call result \<and> journal_of_dispatch options call s result)"

lemma closes_dispatch:
  "closes_with options [] call s r \<Longrightarrow> dispatch_closes options call s r"
  by (auto simp: closes_with_def dispatch_closes_def journal_of_dispatch_def)

lemma closes_planned:
  "closes_with options (planned_journal options [] call) call s r \<Longrightarrow> dispatch_closes options call s r"
  by (auto simp: closes_with_def dispatch_closes_def journal_of_dispatch_def)

lemma dispatch_closes_validated:
  "validateToolCallArgs call d = Inr validated \<Longrightarrow> dispatch_closes options validated s r \<Longrightarrow>
     dispatch_closes options call s r"
  by (auto simp: dispatch_closes_def journal_of_dispatch_def result_of_def validated_id validated_name)

lemma check_and_execute_closes:
  assumes "dispatch_policy options = policyRuntimeTask rt" and "td_name d = tk_name call"
  shows "triple steady_journal (\<lambda>s. s = []) (check_and_execute env registry options d call ctx profile)
           (dispatch_closes options call)"
proof -
  have executed: "triple steady_journal (\<lambda>s. s = [])
      (decide_and_execute options d call ctx profile) (dispatch_closes options call)"
    by (rule triple_weaken [OF decide_and_execute_closes [OF assms]]) (auto intro: closes_planned)
  have refused: "triple steady_journal (\<lambda>s. s = [])
      (conclude options DispatchCompleted call ctx profile None
         (resultFromAvailability call (td_name d) av)) (dispatch_closes options call)" for av
    by (rule triple_weaken [OF concludes [OF availability_result_of(1) [OF assms(2)]]])
      (auto intro: closes_dispatch)
  have failed: "triple steady_journal (\<lambda>s. s = [])
      (await (report_stage options StageAvailability call ctx e) (\<lambda>_.
         conclude options DispatchFailed call ctx profile None
           (createAvailabilityCheckFailedResult call (td_name d) av)))
      (dispatch_closes options call)" for e av
    by (rule triple_weaken [OF reports_and_concludes [OF availability_result_of(2) [OF assms(2)]]])
      (auto intro: closes_dispatch)
  show ?thesis
    unfolding check_and_execute_def
    by (auto intro!: triple_case_option executed refused failed)
qed

lemma dispatch_known_closes:
  assumes "dispatch_policy options = policyRuntimeTask rt" and "td_name d = tk_name call"
  shows "triple steady_journal (\<lambda>s. s = []) (dispatch_known env registry options d call ctx profile)
           (dispatch_closes options call)"
proof (cases "validateToolCallArgs call d")
  case (Inl e)
  show ?thesis
    unfolding dispatch_known_def Inl sum.case
    by (rule triple_weaken [OF reports_and_concludes [OF availability_result_of(3) [OF assms(2)]]])
      (auto intro: closes_dispatch)
next
  case (Inr validated)
  have name: "td_name d = tk_name validated" using assms(2) validated_name [OF Inr] by simp
  show ?thesis
    unfolding dispatch_known_def Inr sum.case
    by (rule triple_weaken [OF check_and_execute_closes [OF assms(1) name]])
      (auto intro: dispatch_closes_validated [OF Inr])
qed

lemma dispatch_started_closes:
  assumes "dispatch_policy options = policyRuntimeTask rt"
  shows "triple steady_journal (\<lambda>s. s = []) (dispatch_started env registry options ctx call)
           (dispatch_closes options call)"
proof -
  have found: "triple steady_journal (\<lambda>s. s = [])
      (dispatch_found env registry options ctx call (registry_get registry (tk_name call)) profile)
      (dispatch_closes options call)" for profile
  proof (cases "registry_get registry (tk_name call)")
    case None
    then show ?thesis
      by (auto simp: dispatch_found_def intro!: triple_weaken [OF concludes [OF plain_result_of]]
          closes_dispatch)
  next
    case (Some d)
    then have "td_name d = tk_name call" using registry_get_name by blast
    with Some show ?thesis
      by (simp add: dispatch_found_def dispatch_known_closes [OF assms])
  qed
  show ?thesis
    unfolding dispatch_started_def Let_def by (rule after_resolved [OF audit_steady found])
qed

lemma dispatch_steady:
  assumes "dispatch_policy options = policyRuntimeTask rt"
  shows "triple steady_journal (\<lambda>s. s = []) (dispatch env registry options ctx call)
           (dispatch_closes options call)"
proof -
  have hook: "triple steady_journal (\<lambda>s. s = [])
      (call_if (op_beforeDispatch options) (BeforeDispatch call ctx))
      (\<lambda>s r. s = [] \<and> (isl r \<longrightarrow> op_beforeDispatch options))"
    by (simp add: triple_call_if)
  show ?thesis
    unfolding dispatch_def
  proof (rule triple_follow [OF hook])
    fix before :: "thrown + unit"
    show "triple steady_journal (\<lambda>s. s = [] \<and> (isl before \<longrightarrow> op_beforeDispatch options)) (case before of
         Inl error \<Rightarrow>
           await (report_stage options StageBeforeDispatch call ctx error) (\<lambda>_.
             resolved (plain_result call (tk_name call)
               (''Tool dispatch pre-hook failed: '' @ normalizeError error) ToolFailed None))
       | Inr _ \<Rightarrow> dispatch_started env registry options ctx call) (dispatch_closes options call)"
    proof (cases before)
      case (Inr u)
      then show ?thesis by (simp add: dispatch_started_closes [OF assms])
    next
      case (Inl e)
      show ?thesis
      proof (cases "op_beforeDispatch options")
        case True
        then show ?thesis unfolding Inl sum.case
          by (intro triple_weaken [OF after_resolved [OF report_steady]])
            (auto simp: triple_Return dispatch_closes_def journal_of_dispatch_def result_of_def
              plain_result_def)
      qed (simp add: Inl)
    qed
  qed
qed

end
