(* ===== verification/Tool_Batches.thy ===== *)
theory Tool_Batches
  imports Tool_Journal_Laws
begin

text \<open>
  \<open>ToolDispatcher.dispatchMany\<close> of \<open>packages/tools/src/dispatcher.ts\<close>: consecutive calls of
  read-only tools form a batch whose dispatches run concurrently, every other call is dispatched
  alone. The dispatches of a batch advance in any order: the state of the machine below holds the
  dispatches under way, and an event advances one of them. \<open>Promise.all\<close> resolves with the results
  in the order of the calls, and rejects as soon as one dispatch does; then no further batch
  starts, while the other dispatches of the batch still go on.
\<close>

section \<open>Batches\<close>

datatype batch_mode = ParallelBatch | SerialBatch

record tool_batch =
  db_mode :: batch_mode
  db_calls :: "tool_call list"

definition isParallelSafeCall :: "tool_registry \<Rightarrow> tool_call \<Rightarrow> bool" where
  "isParallelSafeCall registry call =
     (case registry_get registry (tk_name call) of None \<Rightarrow> False | Some d \<Rightarrow> td_readOnly d)"

definition flushParallelBatch :: "tool_batch list \<Rightarrow> tool_call list \<Rightarrow> tool_batch list" where
  "flushParallelBatch batches parallelBatch =
     (if parallelBatch = [] then batches
      else batches @ [\<lparr>db_mode = ParallelBatch, db_calls = parallelBatch\<rparr>])"

fun batch_loop ::
  "tool_registry \<Rightarrow> tool_batch list \<Rightarrow> tool_call list \<Rightarrow> tool_call list \<Rightarrow> tool_batch list" where
  "batch_loop registry batches parallelBatch [] = flushParallelBatch batches parallelBatch"
| "batch_loop registry batches parallelBatch (call # calls) =
     (if isParallelSafeCall registry call
      then batch_loop registry batches (parallelBatch @ [call]) calls
      else batch_loop registry
             (flushParallelBatch batches parallelBatch
              @ [\<lparr>db_mode = SerialBatch, db_calls = [call]\<rparr>]) [] calls)"

definition createDispatchBatches :: "tool_registry \<Rightarrow> tool_call list \<Rightarrow> tool_batch list" where
  "createDispatchBatches registry calls = batch_loop registry [] [] calls"

text \<open>A parallel batch starts its dispatches together, a serial one after the other.\<close>

definition batch_rounds :: "tool_batch \<Rightarrow> tool_call list list" where
  "batch_rounds batch =
     (case db_mode batch of
        ParallelBatch \<Rightarrow> [db_calls batch]
      | SerialBatch \<Rightarrow> map (\<lambda>call. [call]) (db_calls batch))"

section \<open>Dispatching many calls\<close>

record many_state =
  ms_waiting :: "tool_call list list"
  ms_pool :: "(tool_call \<times> tool_result dispatch_task) list"
  ms_results :: "tool_result list"
  ms_error :: "thrown option"

text \<open>What \<open>Promise.all\<close> says of the dispatches under way.\<close>

fun all_resolved :: "(tool_call \<times> tool_result dispatch_task) list \<Rightarrow> tool_result list option" where
  "all_resolved [] = Some []"
| "all_resolved ((call, p) # pool) =
     (case p of
        Return (Inr x) \<Rightarrow> (case all_resolved pool of None \<Rightarrow> None | Some xs \<Rightarrow> Some (x # xs))
      | _ \<Rightarrow> None)"

fun first_rejected :: "(tool_call \<times> tool_result dispatch_task) list \<Rightarrow> thrown option" where
  "first_rejected [] = None"
| "first_rejected ((call, p) # pool) =
     (case p of Return (Inl e) \<Rightarrow> Some e | _ \<Rightarrow> first_rejected pool)"

text \<open>The loop over the batches, up to the first dispatch that has to wait.\<close>

fun start_rounds ::
  "(tool_call \<Rightarrow> tool_result dispatch_task) \<Rightarrow> tool_call list list \<Rightarrow> tool_result list \<Rightarrow> many_state"
where
  "start_rounds run [] results =
     \<lparr>ms_waiting = [], ms_pool = [], ms_results = results, ms_error = None\<rparr>"
| "start_rounds run (calls # rounds) results =
     (let pool = map (\<lambda>call. (call, run call)) calls
      in case first_rejected pool of
           Some e \<Rightarrow> \<lparr>ms_waiting = rounds, ms_pool = pool, ms_results = results, ms_error = Some e\<rparr>
         | None \<Rightarrow>
             (case all_resolved pool of
                Some xs \<Rightarrow> start_rounds run rounds (results @ xs)
              | None \<Rightarrow>
                  \<lparr>ms_waiting = rounds, ms_pool = pool, ms_results = results, ms_error = None\<rparr>))"

definition pool_settled ::
  "(tool_call \<Rightarrow> tool_result dispatch_task) \<Rightarrow> many_state \<Rightarrow> many_state" where
  "pool_settled run st =
     (if ms_error st \<noteq> None then st
      else case first_rejected (ms_pool st) of
             Some e \<Rightarrow> st\<lparr>ms_error := Some e\<rparr>
           | None \<Rightarrow>
               (case all_resolved (ms_pool st) of
                  None \<Rightarrow> st
                | Some xs \<Rightarrow> start_rounds run (ms_waiting st) (ms_results st @ xs)))"

text \<open>The i-th dispatch under way gets the answer it awaits.\<close>

definition many_step ::
  "(tool_call \<Rightarrow> tool_result dispatch_task) \<Rightarrow> many_state \<Rightarrow>
   nat \<times> (dispatch_call, tool_request, settlement) event \<Rightarrow> many_state option" where
  "many_step run st move =
     (case move of (i, e) \<Rightarrow>
        if length (ms_pool st) \<le> i then None
        else case ms_pool st ! i of (call, p) \<Rightarrow>
          (case resume p e of
             None \<Rightarrow> None
           | Some p' \<Rightarrow> Some (pool_settled run (st\<lparr>ms_pool := (ms_pool st)[i := (call, p')]\<rparr>))))"

fun many_steps ::
  "(tool_call \<Rightarrow> tool_result dispatch_task) \<Rightarrow> many_state \<Rightarrow>
   (nat \<times> (dispatch_call, tool_request, settlement) event) list \<Rightarrow> many_state option" where
  "many_steps run st [] = Some st"
| "many_steps run st (move # moves) =
     (case many_step run st move of None \<Rightarrow> None | Some st' \<Rightarrow> many_steps run st' moves)"

definition dispatchMany_start ::
  "process_env \<Rightarrow> tool_registry \<Rightarrow> dispatcher_options \<Rightarrow> tool_context \<Rightarrow> tool_call list \<Rightarrow> many_state" where
  "dispatchMany_start env registry options ctx calls =
     start_rounds (dispatch env registry options ctx)
       (concat (map batch_rounds (createDispatchBatches registry calls))) []"

definition dispatchMany ::
  "process_env \<Rightarrow> tool_registry \<Rightarrow> dispatcher_options \<Rightarrow> tool_context \<Rightarrow> tool_call list \<Rightarrow>
   (nat \<times> (dispatch_call, tool_request, settlement) event) list \<Rightarrow> many_state option" where
  "dispatchMany env registry options ctx calls moves =
     many_steps (dispatch env registry options ctx)
       (dispatchMany_start env registry options ctx calls) moves"

text \<open>The promise \<open>dispatchMany\<close> returned: pending, rejected or resolved.\<close>

definition many_outcome :: "merge_strategy \<Rightarrow> many_state \<Rightarrow> (thrown + tool_result list) option" where
  "many_outcome strategy st =
     (case ms_error st of
        Some e \<Rightarrow> Some (Inl e)
      | None \<Rightarrow>
          if ms_pool st = [] \<and> ms_waiting st = []
          then Some (Inr (mergeToolResults strategy (ms_results st))) else None)"

section \<open>Batches keep the order of the calls\<close>

lemma flush_rounds:
  "concat (concat (map batch_rounds (flushParallelBatch batches par))) =
     concat (concat (map batch_rounds batches)) @ par"
  by (simp add: flushParallelBatch_def batch_rounds_def)

lemma batch_loop_calls:
  "concat (concat (map batch_rounds (batch_loop registry batches par calls))) =
     concat (concat (map batch_rounds batches)) @ par @ calls"
  by (induction registry batches par calls rule: batch_loop.induct)
    (simp_all add: flush_rounds, simp add: batch_rounds_def)

lemma batches_calls:
  "concat (concat (map batch_rounds (createDispatchBatches registry calls))) = calls"
  by (simp add: createDispatchBatches_def batch_loop_calls)

text \<open>A round of more than one call holds calls of read-only tools only.\<close>

definition round_ok :: "tool_registry \<Rightarrow> tool_call list \<Rightarrow> bool" where
  "round_ok registry calls \<longleftrightarrow> length calls \<le> 1 \<or> list_all (isParallelSafeCall registry) calls"

definition batch_ok :: "tool_registry \<Rightarrow> tool_batch \<Rightarrow> bool" where
  "batch_ok registry batch \<longleftrightarrow>
     (case db_mode batch of
        ParallelBatch \<Rightarrow> list_all (isParallelSafeCall registry) (db_calls batch)
      | SerialBatch \<Rightarrow> True)"

lemma batch_loop_ok:
  "list_all (batch_ok registry) batches \<Longrightarrow> list_all (isParallelSafeCall registry) par \<Longrightarrow>
     list_all (batch_ok registry) (batch_loop registry batches par calls)"
  by (induction registry batches par calls rule: batch_loop.induct)
    (auto simp: flushParallelBatch_def batch_ok_def)

lemma batch_rounds_ok: "batch_ok registry batch \<Longrightarrow> list_all (round_ok registry) (batch_rounds batch)"
  by (cases "db_mode batch") (auto simp: batch_ok_def batch_rounds_def round_ok_def list_all_iff)

lemma batches_ok:
  "list_all (round_ok registry) (concat (map batch_rounds (createDispatchBatches registry calls)))"
  using batch_loop_ok [of registry "[]" "[]" calls] batch_rounds_ok [of registry]
  by (auto simp: createDispatchBatches_def list_all_iff)

section \<open>The invariant of the machine\<close>

text \<open>
  The calls are those done, whose results are results of complete runs of their dispatches, those
  under way, and those of the rounds that wait.
\<close>

definition dispatched ::
  "(tool_call \<Rightarrow> tool_result dispatch_task) \<Rightarrow> tool_call \<Rightarrow> tool_result \<Rightarrow> bool" where
  "dispatched run call x \<longleftrightarrow> (\<exists>es. runs (run call) es (Inr x))"

definition under_way ::
  "(tool_call \<Rightarrow> tool_result dispatch_task) \<Rightarrow> tool_call \<times> tool_result dispatch_task \<Rightarrow> bool" where
  "under_way run cp \<longleftrightarrow> (\<exists>es. feed (run (fst cp)) es = Some (snd cp))"

definition many_inv ::
  "(tool_call \<Rightarrow> tool_result dispatch_task) \<Rightarrow> (tool_call list \<Rightarrow> bool) \<Rightarrow> tool_call list \<Rightarrow>
   many_state \<Rightarrow> bool" where
  "many_inv run ok calls st \<longleftrightarrow>
     (\<exists>finished. calls = finished @ map fst (ms_pool st) @ concat (ms_waiting st) \<and>
        list_all2 (dispatched run) finished (ms_results st)) \<and>
     list_all (under_way run) (ms_pool st) \<and>
     ok (map fst (ms_pool st)) \<and> list_all ok (ms_waiting st)"

lemma all_resolved_results:
  "all_resolved pool = Some xs \<Longrightarrow> list_all (under_way run) pool \<Longrightarrow>
     list_all2 (dispatched run) (map fst pool) xs"
proof (induction pool arbitrary: xs)
  case (Cons cp pool)
  obtain call p where cp: "cp = (call, p)" by (cases cp)
  from Cons.prems(1) obtain x ys where p: "p = Return (Inr x)" and ys: "all_resolved pool = Some ys"
    and xs: "xs = x # ys"
    by (auto simp: cp split: proc.splits sum.splits option.splits)
  from Cons.prems(2) obtain es where "feed (run call) es = Some (Return (Inr x))"
    by (auto simp: cp p under_way_def)
  then have "dispatched run call x" by (auto simp: dispatched_def runs_def)
  with Cons.IH [OF ys] Cons.prems(2) xs cp show ?case by simp
qed simp

lemma fresh_under_way: "list_all (under_way run) (map (\<lambda>call. (call, run call)) calls)"
proof -
  have "under_way run (call, run call)" for call
    unfolding under_way_def by (rule exI [of _ "[]"]) simp
  then show ?thesis by (simp add: list_all_iff)
qed

lemma start_rounds_inv:
  assumes "ok []" and "list_all2 (dispatched run) finished results" and "list_all ok rounds"
  shows "many_inv run ok (finished @ concat rounds) (start_rounds run rounds results)"
  using assms(2,3)
proof (induction rounds arbitrary: finished results)
  case Nil
  then show ?case by (auto simp: many_inv_def assms(1))
next
  case (Cons calls rounds)
  let ?pool = "map (\<lambda>call. (call, run call)) calls"
  have calls: "map fst ?pool = calls" by (simp add: comp_def)
  have waits: "many_inv run ok (finished @ concat (calls # rounds))
      \<lparr>ms_waiting = rounds, ms_pool = ?pool, ms_results = results, ms_error = e\<rparr>" for e
    using Cons.prems fresh_under_way [of run calls] by (auto simp: many_inv_def comp_def)
  show ?case
  proof (cases "first_rejected ?pool = None \<and> all_resolved ?pool \<noteq> None")
    case True
    then obtain xs where xs: "all_resolved ?pool = Some xs" by auto
    have "list_all2 (dispatched run) (finished @ calls) (results @ xs)"
      using Cons.prems(1) all_resolved_results [OF xs fresh_under_way]
      by (intro list_all2_appendI) (simp_all add: comp_def)
    from Cons.IH [OF this] Cons.prems(2) True xs show ?thesis by (simp add: Let_def)
  next
    case False
    with waits show ?thesis by (auto simp: Let_def split: option.split)
  qed
qed

lemma many_step_inv:
  assumes "ok []" and "many_inv run ok calls st" and "many_step run st move = Some st'"
  shows "many_inv run ok calls st'"
proof -
  obtain i e where move: "move = (i, e)" by (cases move)
  obtain call p where cp: "ms_pool st ! i = (call, p)" by (cases "ms_pool st ! i")
  from assms(3) have i: "i < length (ms_pool st)"
    by (auto simp: many_step_def move split: if_splits)
  from assms(3) i obtain p' where p': "resume p e = Some p'"
    and st': "st' = pool_settled run (st\<lparr>ms_pool := (ms_pool st)[i := (call, p')]\<rparr>)"
    by (auto simp: many_step_def move cp split: option.splits)
  let ?st = "st\<lparr>ms_pool := (ms_pool st)[i := (call, p')]\<rparr>"
  have calls: "map fst (ms_pool ?st) = map fst (ms_pool st)"
    using i cp by (auto simp: map_update list_update_same_conv)
  obtain es where "feed (run call) es = Some p"
    using assms(2) i cp by (force simp: many_inv_def list_all_length under_way_def)
  then have "feed (run call) (es @ [e]) = Some p'" by (simp add: feed_append p')
  then have "under_way run (call, p')" by (auto simp: under_way_def)
  then have way: "list_all (under_way run) (ms_pool ?st)"
    using assms(2) by (auto simp: many_inv_def list_all_iff dest!: set_update_subset_insert [THEN subsetD])
  have inv: "many_inv run ok calls ?st"
    using assms(2) way calls by (simp add: many_inv_def)
  show ?thesis
  proof (cases "ms_error ?st = None \<and> first_rejected (ms_pool ?st) = None \<and> all_resolved (ms_pool ?st) \<noteq> None")
    case True
    then obtain xs where xs: "all_resolved (ms_pool ?st) = Some xs" by auto
    from inv obtain finished where f: "calls = finished @ map fst (ms_pool ?st) @ concat (ms_waiting ?st)"
      "list_all2 (dispatched run) finished (ms_results ?st)" and waiting: "list_all ok (ms_waiting ?st)"
      by (auto simp: many_inv_def)
    have "list_all2 (dispatched run) (finished @ map fst (ms_pool ?st)) (ms_results ?st @ xs)"
      using f(2) all_resolved_results [OF xs way] by (rule list_all2_appendI)
    from start_rounds_inv [of ok, OF assms(1) this waiting] f(1) True xs show ?thesis
      by (simp add: st' pool_settled_def)
  next
    case False
    have "many_inv run ok calls (?st\<lparr>ms_error := err\<rparr>)" for err
      using inv by (simp add: many_inv_def)
    with inv False show ?thesis by (auto simp: st' pool_settled_def split: option.split)
  qed
qed

lemma many_steps_inv:
  "ok [] \<Longrightarrow> many_inv run ok calls st \<Longrightarrow> many_steps run st moves = Some st' \<Longrightarrow>
     many_inv run ok calls st'"
  by (induction moves arbitrary: st) (auto split: option.splits dest: many_step_inv)

lemma dispatchMany_inv:
  assumes "dispatchMany env registry options ctx calls moves = Some st"
  shows "many_inv (dispatch env registry options ctx) (round_ok registry) calls st"
proof -
  have ok: "round_ok registry []" by (simp add: round_ok_def)
  have "many_inv (dispatch env registry options ctx) (round_ok registry)
      ([] @ concat (concat (map batch_rounds (createDispatchBatches registry calls))))
      (dispatchMany_start env registry options ctx calls)"
    unfolding dispatchMany_start_def by (rule start_rounds_inv [OF ok _ batches_ok]) simp
  then show ?thesis
    using assms many_steps_inv [of "round_ok registry", OF ok]
    by (simp add: dispatchMany_def batches_calls)
qed

end
