(* ===== verification/Tool_Builtins.thy ===== *)
theory Tool_Builtins
  imports Tool_Registry Session_Artifacts Task_Event_Codec
begin

text \<open>
  The tools of \<open>packages/tools/src/builtins\<close>: \<open>filesystem.read_text\<close> and \<open>tasks.todo_write\<close>.
  The file system's \<open>realpath\<close> and \<open>readFile\<close>, the working directory and the port that
  persists the todo items are parameters. A path is the list of its segments once resolved.
\<close>

section \<open>Reading a text file\<close>

definition isAbsolute :: "string \<Rightarrow> bool" where
  "isAbsolute path = starts_with ''/'' path"

text \<open>\<open>resolve(path)\<close>, relative to the working directory.\<close>

definition resolve_text :: "string list \<Rightarrow> string \<Rightarrow> string list" where
  "resolve_text cwd path =
     normalize_path [] ((if isAbsolute path then [] else cwd) @ js_split CHR ''/'' path)"

definition normalizeRoots :: "string list \<Rightarrow> string list \<Rightarrow> string list list" where
  "normalizeRoots cwd roots = map (resolve_text cwd) roots"

text \<open>A POSIX path relative to another one is never absolute.\<close>

definition within_root :: "string list \<Rightarrow> string list \<Rightarrow> bool" where
  "within_root targetPath root \<longleftrightarrow>
     (let relativePath = js_join ''/'' (relative_path root targetPath)
      in relativePath = [] \<or> (\<not> starts_with ''..'' relativePath \<and> \<not> isAbsolute relativePath))"

definition isWithinAllowedRoots :: "string list \<Rightarrow> string list list \<Rightarrow> bool" where
  "isWithinAllowedRoots targetPath roots \<longleftrightarrow> list_ex (within_root targetPath) roots"

definition resolveRequestedPath :: "string list \<Rightarrow> string \<Rightarrow> string option \<Rightarrow> string list" where
  "resolveRequestedPath cwd path workspaceRoot =
     (if isAbsolute path then resolve_text cwd path
      else case workspaceRoot of
             None \<Rightarrow> resolve_text cwd path
           | Some root \<Rightarrow>
               if root = [] then resolve_text cwd path
               else resolve_path (resolve_text cwd root) (js_split CHR ''/'' path))"

definition normalizeRealRoots ::
  "(string list \<Rightarrow> thrown + string list) \<Rightarrow> string list list \<Rightarrow> string list list" where
  "normalizeRealRoots realpath roots =
     map (\<lambda>root. case realpath root of Inl _ \<Rightarrow> root | Inr real \<Rightarrow> real) roots"

text \<open>The tool: its roots and their canonical paths, both taken when it is created.\<close>

record read_text_tool =
  rx_allowedRoots :: "string list list"
  rx_realAllowedRoots :: "string list list"

definition createFilesystemReadTextTool ::
  "(string list \<Rightarrow> thrown + string list) \<Rightarrow> string list \<Rightarrow> string list \<Rightarrow> read_text_tool" where
  "createFilesystemReadTextTool realpath cwd allowedRoots =
     \<lparr>rx_allowedRoots = normalizeRoots cwd allowedRoots,
      rx_realAllowedRoots = normalizeRealRoots realpath (normalizeRoots cwd allowedRoots)\<rparr>"

definition readTextArgs :: "jsval \<Rightarrow> thrown + jsval" where
  "readTextArgs input =
     (case expectObject input ''args'' of
        Inl e \<Rightarrow> Inl e
      | Inr kvs \<Rightarrow>
          (case expectString kvs ''path'' ''args.path'' of
             Inl e \<Rightarrow> Inl e
           | Inr path \<Rightarrow> Inr (JObj [(''path'', JStr path)])))"

definition builtin_result :: "string \<Rightarrow> string \<Rightarrow> jsval \<Rightarrow> tool_result" where
  "builtin_result toolCallId toolName output =
     \<lparr>tr_toolCallId = toolCallId, tr_toolName = toolName, tr_ok = True, tr_output = output,
      tr_error = None, tr_resolution = None, tr_degradation = None, tr_policyDecision = None,
      tr_metadata = None\<rparr>"

definition outside_roots :: "string list \<Rightarrow> tool_result" where
  "outside_roots path =
     (builtin_result ''filesystem.read_text'' ''filesystem.read_text'' JUndefined)
     \<lparr>tr_ok := False, tr_error := Some (''Path is outside allowed roots: '' @ show_path path)\<rparr>"

definition readTextExecute ::
  "read_text_tool \<Rightarrow> (string list \<Rightarrow> thrown + string list) \<Rightarrow> (string list \<Rightarrow> thrown + string) \<Rightarrow>
   string list \<Rightarrow> string \<Rightarrow> tool_context \<Rightarrow> thrown + tool_result" where
  "readTextExecute tool realpath readFile cwd path context' =
     (let resolvedPath = resolveRequestedPath cwd path (tx_workspaceRoot context')
      in if \<not> isWithinAllowedRoots resolvedPath (rx_allowedRoots tool)
         then Inr (outside_roots resolvedPath)
         else (case realpath resolvedPath of
                 Inl e \<Rightarrow> Inl e
               | Inr resolvedRealPath \<Rightarrow>
                   if \<not> isWithinAllowedRoots resolvedRealPath (rx_realAllowedRoots tool)
                   then Inr (outside_roots resolvedRealPath)
                   else (case readFile resolvedRealPath of
                           Inl e \<Rightarrow> Inl e
                         | Inr output \<Rightarrow>
                             Inr (builtin_result
                               (nullish_else (tx_turnId context') ''filesystem.read_text'')
                               ''filesystem.read_text'' (JStr output)))))"

text \<open>The definition the registry gets; the schema is the object literal of the source.\<close>

definition text_property :: "string \<Rightarrow> string \<Rightarrow> jsval" where
  "text_property type' description =
     JObj [(''type'', JStr type'), (''description'', JStr description)]"

definition filesystemReadTextDefinition :: tool_definition where
  "filesystemReadTextDefinition =
     \<lparr>td_name = ''filesystem.read_text'',
      td_description = ''Read a UTF-8 text file from the workspace.'',
      td_timeoutMs = Finite 5000, td_readOnly = True, td_inputSchema = Some readTextArgs,
      td_schema = Some (JObj
        [(''type'', JStr ''object''),
         (''description'', JStr ''Arguments for reading a UTF-8 text file from the workspace.''),
         (''additionalProperties'', JBool False),
         (''properties'', JObj [(''path'', text_property ''string''
            ''Absolute path or path relative to the active workspace root.'')]),
         (''required'', JArr [JStr ''path''])]),
      td_toolset = Some ''filesystem'',
      td_toolsetDescription = Some ''Workspace-scoped file reading tools.'',
      td_toolsetEnabledByDefault = Some True, td_toolsetPlatforms = None,
      td_capabilities = Some [''filesystem.read''], td_riskLevel = Some LowRisk,
      td_requiresApproval = None, td_checkFn = None, td_requiresEnv = None\<rparr>"

section \<open>Writing the todo list\<close>

definition TASK_ITEM_STATUSES :: "string list" where
  "TASK_ITEM_STATUSES = [''todo'', ''doing'', ''done'']"

definition TASK_PRIORITIES :: "string list" where
  "TASK_PRIORITIES = [''low'', ''normal'', ''high'', ''urgent'']"

text \<open>The statements run in the order of the source: the priority, then the other fields.\<close>

definition parseTaskItem :: "jsval \<Rightarrow> string \<Rightarrow> thrown + jsval" where
  "parseTaskItem input label =
     (case expectObject input label of Inl e \<Rightarrow> Inl e | Inr kvs \<Rightarrow>
     (case expectOptionalStringEnum kvs ''priority'' TASK_PRIORITIES (label @ ''.priority'') of
        Inl e \<Rightarrow> Inl e | Inr priority \<Rightarrow>
     (case expectString kvs ''id'' (label @ ''.id'') of Inl e \<Rightarrow> Inl e | Inr k \<Rightarrow>
     (case expectString kvs ''content'' (label @ ''.content'') of Inl e \<Rightarrow> Inl e | Inr content \<Rightarrow>
     (case expectStringEnumValue (alist_get kvs ''status'') TASK_ITEM_STATUSES (label @ ''.status'') of
        Inl e \<Rightarrow> Inl e | Inr status \<Rightarrow>
        Inr (JObj ([(''id'', JStr k), (''content'', JStr content), (''status'', JStr status)]
               @ (case priority of None \<Rightarrow> [] | Some p \<Rightarrow> [(''priority'', JStr p)]))))))))"

text \<open>\<open>items.map(...)\<close>: the first item that does not parse throws.\<close>

fun parse_items :: "nat \<Rightarrow> jsval list \<Rightarrow> thrown + jsval list" where
  "parse_items index [] = Inr []"
| "parse_items index (entry # entries) =
     (case parseTaskItem entry (''args.items['' @ show_nat index @ '']'') of
        Inl e \<Rightarrow> Inl e
      | Inr item \<Rightarrow>
          (case parse_items (Suc index) entries of
             Inl e \<Rightarrow> Inl e | Inr items \<Rightarrow> Inr (item # items)))"

definition todoWriteArgs :: "jsval \<Rightarrow> thrown + jsval" where
  "todoWriteArgs input =
     (case expectObject input ''args'' of
        Inl e \<Rightarrow> Inl e
      | Inr kvs \<Rightarrow>
          (case expectArray kvs ''items'' ''args.items'' of
             Inl e \<Rightarrow> Inl e
           | Inr entries \<Rightarrow>
               (case parse_items 0 entries of
                  Inl e \<Rightarrow> Inl e
                | Inr items \<Rightarrow> Inr (JObj [(''items'', JArr items)]))))"

definition todoWriteExecute ::
  "(jsval list \<Rightarrow> thrown + jsval) \<Rightarrow> jsval list \<Rightarrow> tool_context \<Rightarrow> thrown + tool_result" where
  "todoWriteExecute port items context' =
     (case port items of
        Inl e \<Rightarrow> Inl e
      | Inr output \<Rightarrow>
          Inr (builtin_result (nullish_else (tx_turnId context') ''tasks.todo_write'')
                 ''tasks.todo_write'' output))"

definition tasksTodoWriteDefinition :: tool_definition where
  "tasksTodoWriteDefinition =
     \<lparr>td_name = ''tasks.todo_write'',
      td_description = ''Persist the current todo list for the active session.'',
      td_timeoutMs = Finite 2000, td_readOnly = False, td_inputSchema = Some todoWriteArgs,
      td_schema = Some (JObj
        [(''type'', JStr ''object''),
         (''description'', JStr ''Arguments for persisting the session todo list.''),
         (''additionalProperties'', JBool False),
         (''properties'', JObj [(''items'', JObj
            [(''type'', JStr ''array''),
             (''description'', JStr ''Todo items to persist for the active session.''),
             (''items'', JObj
               [(''type'', JStr ''object''), (''additionalProperties'', JBool False),
                (''properties'', JObj
                  [(''id'', text_property ''string'' ''Stable todo identifier.''),
                   (''content'', text_property ''string'' ''Human-readable todo content.''),
                   (''status'', JObj
                     [(''type'', JStr ''string''), (''description'', JStr ''Current todo state.''),
                      (''enum'', JArr (map JStr TASK_ITEM_STATUSES))]),
                   (''priority'', JObj
                     [(''type'', JStr ''string''), (''description'', JStr ''Optional todo priority.''),
                      (''enum'', JArr (map JStr TASK_PRIORITIES))])]),
                (''required'', JArr (map JStr [''id'', ''content'', ''status'']))])])]),
         (''required'', JArr [JStr ''items''])]),
      td_toolset = Some ''tasks'', td_toolsetDescription = Some ''Task board mutation tools.'',
      td_toolsetEnabledByDefault = Some True, td_toolsetPlatforms = None,
      td_capabilities = Some [''tasks.write''], td_riskLevel = Some MediumRisk,
      td_requiresApproval = None, td_checkFn = None, td_requiresEnv = None\<rparr>"

section \<open>Confinement\<close>

lemma relative_path_prefix:
  "(\<exists>rest. target = root @ rest \<and> relative_path root target = rest) \<or>
   (\<exists>rest. relative_path root target = ''..'' # rest)"
proof (induction root arbitrary: target)
  case Nil
  then show ?case by (cases target) auto
next
  case (Cons r root)
  show ?case
  proof (cases target)
    case Nil
    then show ?thesis by (cases root) auto
  next
    case target: (Cons t rest)
    then show ?thesis using Cons.IH [of rest] by (cases "r = t") auto
  qed
qed

lemma dotdot_joined: "starts_with ''..'' (js_join ''/'' (''..'' # rest))"
  by (cases rest) (simp_all add: starts_with_def)

lemma within_root_prefix: "within_root target root \<Longrightarrow> \<exists>rest. target = root @ rest"
proof -
  assume within: "within_root target root"
  have "\<not> (\<exists>rest. relative_path root target = ''..'' # rest)"
  proof
    assume "\<exists>rest. relative_path root target = ''..'' # rest"
    then obtain rest where rel: "relative_path root target = ''..'' # rest" by blast
    have "js_join ''/'' (relative_path root target) \<noteq> []" by (cases rest) (simp_all add: rel)
    with within dotdot_joined [of rest] show False by (simp add: within_root_def Let_def rel)
  qed
  with relative_path_prefix [of target root] show ?thesis by blast
qed

lemma within_roots_prefix:
  "isWithinAllowedRoots target roots \<Longrightarrow> \<exists>root \<in> set roots. \<exists>rest. target = root @ rest"
  unfolding isWithinAllowedRoots_def list_ex_iff using within_root_prefix by blast

lemma read_text_reads:
  assumes "readTextExecute tool realpath readFile cwd path ctx = Inr result" and "tr_ok result"
  obtains real contents where
    "isWithinAllowedRoots (resolveRequestedPath cwd path (tx_workspaceRoot ctx)) (rx_allowedRoots tool)"
    and "realpath (resolveRequestedPath cwd path (tx_workspaceRoot ctx)) = Inr real"
    and "isWithinAllowedRoots real (rx_realAllowedRoots tool)"
    and "readFile real = Inr contents" and "tr_output result = JStr contents"
  using assms
  by (auto simp: readTextExecute_def Let_def outside_roots_def builtin_result_def
      split: if_splits sum.splits)

section \<open>Parsed items\<close>

text \<open>The items the schema accepts are the task items of the contracts, unchanged.\<close>

lemma enum_value: "expectStringEnumValue v candidates label = Inr s \<Longrightarrow> v = JStr s \<and> s \<in> set candidates"
  by (auto simp: expectStringEnumValue_def split: jsval.splits if_splits)

lemma optional_enum:
  "expectOptionalStringEnum kvs key candidates label = Inr (Some s) \<Longrightarrow> s \<in> set candidates"
  by (auto simp: expectOptionalStringEnum_def Let_def split: if_splits sum.splits dest: enum_value)

lemma status_names: "set TASK_ITEM_STATUSES = range task_item_status_str"
proof -
  have "range task_item_status_str = task_item_status_str ` {Todo, Doing, Done}"
    by (rule arg_cong [where f = "image task_item_status_str"]) (auto intro: task_item_status.exhaust)
  then show ?thesis by (simp add: TASK_ITEM_STATUSES_def)
qed

lemma priority_names: "set TASK_PRIORITIES = range task_priority_str"
proof -
  have "range task_priority_str = task_priority_str ` {Low, Normal, High, Urgent}"
    by (rule arg_cong [where f = "image task_priority_str"]) (auto intro: task_priority.exhaust)
  then show ?thesis by (simp add: TASK_PRIORITIES_def)
qed

lemma item_object:
  "js_of_task_item r =
     JObj ([(''id'', JStr (ti_id r)), (''content'', JStr (ti_content r)),
            (''status'', JStr (task_item_status_str (ti_status r)))]
           @ (case ti_priority r of None \<Rightarrow> [] | Some p \<Rightarrow> [(''priority'', JStr (task_priority_str p))]))"
  by (simp add: js_of_task_item_def js_object_def split: option.split)

lemma parse_item_id: "parseTaskItem (js_of_task_item r) label = Inr (js_of_task_item r)"
  by (cases "ti_status r"; cases "ti_priority r"; cases "the (ti_priority r)")
    (simp_all add: item_object parseTaskItem_def expectObject_def expectString_def
      expectOptionalStringEnum_def expectStringEnumValue_def TASK_ITEM_STATUSES_def
      TASK_PRIORITIES_def)

lemma parsed_item:
  assumes "parseTaskItem input label = Inr item"
  shows "\<exists>r. item = js_of_task_item r"
proof -
  from assms obtain kvs priority k content status where
    priority: "expectOptionalStringEnum kvs ''priority'' TASK_PRIORITIES (label @ ''.priority'') = Inr priority"
    and status: "expectStringEnumValue (alist_get kvs ''status'') TASK_ITEM_STATUSES (label @ ''.status'') = Inr status"
    and item: "item = JObj ([(''id'', JStr k), (''content'', JStr content), (''status'', JStr status)]
               @ (case priority of None \<Rightarrow> [] | Some p \<Rightarrow> [(''priority'', JStr p)]))"
    by (auto simp: parseTaskItem_def split: sum.splits)
  obtain st where st: "status = task_item_status_str st"
    using enum_value [OF status] by (auto simp: status_names)
  obtain p where p: "priority = map_option task_priority_str p"
  proof (cases priority)
    case None
    then show ?thesis using that [of None] by simp
  next
    case (Some s)
    with optional_enum [of kvs "''priority''" TASK_PRIORITIES _ s] priority
    have "s \<in> set TASK_PRIORITIES" by simp
    then obtain q where "s = task_priority_str q" by (auto simp: priority_names)
    then show ?thesis using that [of "Some q"] Some by simp
  qed
  have "item = js_of_task_item \<lparr>ti_id = k, ti_content = content, ti_status = st, ti_priority = p\<rparr>"
    by (simp add: item item_object st p split: option.split)
  then show ?thesis by blast
qed

lemma parse_items_id: "parse_items n (map js_of_task_item items) = Inr (map js_of_task_item items)"
  by (induction items arbitrary: n) (simp_all add: parse_item_id)

lemma parsed_items:
  "parse_items n entries = Inr items \<Longrightarrow>
     length items = length entries \<and> (\<exists>rs. items = map js_of_task_item rs)"
proof (induction n entries arbitrary: items rule: parse_items.induct)
  case (2 n entry entries)
  from "2.prems" obtain item rest where item: "parseTaskItem entry (''args.items['' @ show_nat n @ '']'') = Inr item"
    and rest: "parse_items (Suc n) entries = Inr rest" and items: "items = item # rest"
    by (auto split: sum.splits)
  obtain r rs where "item = js_of_task_item r" "length rest = length entries" "rest = map js_of_task_item rs"
    using parsed_item [OF item] "2.IH" [OF item rest] by blast
  then have "items = map js_of_task_item (r # rs)" "length items = length (entry # entries)"
    by (simp_all add: items)
  then show ?case by blast
qed simp

end
