(* ===== verification/Sandbox_Preflight.thy ===== *)
theory Sandbox_Preflight
  imports Policy_Runtime Kernel_Contracts JS_Texts
begin

text \<open>
  The sandbox preflight of \<open>packages/policy-runtime/src/index.ts\<close>, with the guard
  \<open>isAgentOsSandboxPreflight\<close> of \<open>packages/agent-os-kernel-contracts/src/types.ts\<close>. A preflight is
  the object itself, since one the policy carries is handed back as it is; \<open>checkedAt\<close> is the
  reading of the clock.
\<close>

section \<open>The preflight object\<close>

definition AGENT_OS_POLICY_VERDICTS :: "string list" where
  "AGENT_OS_POLICY_VERDICTS =
     [''allow'', ''deny'', ''needs_approval'', ''needs_setup'', ''blocked'', ''degraded'']"

definition AGENT_OS_SANDBOX_MODES :: "string list" where
  "AGENT_OS_SANDBOX_MODES =
     [''host'', ''readonly'', ''workspace-write'', ''network-limited'', ''docker'', ''ssh'', ''disabled'']"

definition is_one_of :: "jsval \<Rightarrow> string list \<Rightarrow> bool" where
  "is_one_of v candidates \<longleftrightarrow> (case v of JStr s \<Rightarrow> s \<in> set candidates | _ \<Rightarrow> False)"

definition is_string :: "jsval \<Rightarrow> bool" where
  "is_string v \<longleftrightarrow> as_string v \<noteq> None"

definition is_optional_string :: "jsval \<Rightarrow> bool" where
  "is_optional_string v \<longleftrightarrow> v = JUndefined \<or> is_string v"

definition isAgentOsSandboxPreflight :: "jsval \<Rightarrow> bool" where
  "isAgentOsSandboxPreflight v \<longleftrightarrow>
     isObject v \<and>
     is_one_of (js_get v ''verdict'') AGENT_OS_POLICY_VERDICTS \<and>
     is_one_of (js_get v ''sandboxMode'') AGENT_OS_SANDBOX_MODES \<and>
     is_string (js_get v ''checkedAt'') \<and>
     is_optional_string (js_get v ''providerId'') \<and>
     is_optional_string (js_get v ''reason'')"

definition preflight_object :: "string \<Rightarrow> string \<Rightarrow> string \<Rightarrow> string \<Rightarrow> string \<Rightarrow> jsval" where
  "preflight_object verdict sandboxMode checkedAt providerId reason =
     JObj [(''verdict'', JStr verdict), (''sandboxMode'', JStr sandboxMode),
           (''checkedAt'', JStr checkedAt), (''providerId'', JStr providerId),
           (''reason'', JStr reason)]"

definition createDeniedAgentOsSandboxPreflight :: "string \<Rightarrow> string \<Rightarrow> string \<Rightarrow> jsval" where
  "createDeniedAgentOsSandboxPreflight checkedAt providerId reason =
     preflight_object ''deny'' ''disabled'' checkedAt providerId reason"

section \<open>Policies and inputs\<close>

record sandbox_policy =
  sp_defaultMutatingSandboxMode :: "string option"
  sp_commandAllowlist :: "string list option"
  sp_commandDenylist :: "string list option"
  sp_dangerousCommandPatterns :: "string list option"
  sp_filesystemScope :: "string list option"
  sp_networkAccess :: "string option"
  sp_explicitPreflight :: jsval

record preflight_input =
  pf_toolName :: string
  pf_providerId :: "string option"
  pf_readOnly :: bool
  pf_capabilityIds :: "string list option"
  pf_riskLevel :: "risk_level option"
  pf_command :: "string option"
  pf_sandboxPolicy :: "sandbox_policy option"

definition DEFAULT_DANGEROUS_COMMAND_PATTERNS :: "string list" where
  "DEFAULT_DANGEROUS_COMMAND_PATTERNS =
     [''rm -rf /'', ''sudo rm -rf'', '':(){'', ''mkfs'', ''dd if='', ''> /dev/sd'', ''| sh'', ''| bash'',
      ''curl '', ''wget '']"

text \<open>\<open>input.sandboxPolicy?.field\<close>\<close>

definition policy_field :: "preflight_input \<Rightarrow> (sandbox_policy \<Rightarrow> 'a option) \<Rightarrow> 'a option" where
  "policy_field input field = Option.bind (pf_sandboxPolicy input) field"

definition policyProviderId :: "string option \<Rightarrow> string \<Rightarrow> string" where
  "policyProviderId providerId toolName =
     (let given = (case providerId of None \<Rightarrow> [] | Some p \<Rightarrow> js_trim p);
          name = js_trim toolName
      in if given \<noteq> [] then given else if name \<noteq> [] then name else ''policy-runtime'')"

definition pattern_matches :: "string \<Rightarrow> string \<Rightarrow> bool" where
  "pattern_matches normalizedValue pattern \<longleftrightarrow>
     (let normalizedPattern = toLowerCase (js_trim pattern)
      in normalizedPattern \<noteq> [] \<and> str_includes normalizedValue normalizedPattern)"

definition firstMatchingPattern :: "string \<Rightarrow> string list option \<Rightarrow> string option" where
  "firstMatchingPattern command patterns =
     (case patterns of None \<Rightarrow> None
      | Some ps \<Rightarrow> find (\<lambda>pattern. pattern_matches (toLowerCase command) pattern) ps)"

definition normalizePolicyCommand :: "string \<Rightarrow> string" where
  "normalizePolicyCommand command = toLowerCase (collapse_spaces False (js_trim command))"

definition command_prefix :: "string \<Rightarrow> string \<Rightarrow> bool" where
  "command_prefix normalizedValue pattern \<longleftrightarrow>
     (let p = normalizePolicyCommand pattern
      in p \<noteq> [] \<and>
         (normalizedValue = p \<or> starts_with (p @ '' '') normalizedValue))"

definition firstMatchingCommandPrefix :: "string \<Rightarrow> string list option \<Rightarrow> string option" where
  "firstMatchingCommandPrefix command patterns =
     (case patterns of None \<Rightarrow> None
      | Some ps \<Rightarrow> find (\<lambda>pattern. command_prefix (normalizePolicyCommand command) pattern) ps)"

definition isKnownAgentOsSandboxMode :: "string \<Rightarrow> bool" where
  "isKnownAgentOsSandboxMode mode \<longleftrightarrow> mode \<in> set AGENT_OS_SANDBOX_MODES"

definition policy_details :: "preflight_input \<Rightarrow> string \<Rightarrow> string list" where
  "policy_details input sandboxMode =
     (let listed = (\<lambda>label xs. case xs of None \<Rightarrow> []
                      | Some ys \<Rightarrow> (if ys = [] then [] else [label @ js_join '','' ys]))
      in [''mode='' @ sandboxMode,
          ''risk='' @ risk_str (normalizedRiskLevel (pf_riskLevel input))]
         @ listed ''capabilities='' (pf_capabilityIds input)
         @ (case policy_field input sp_networkAccess of None \<Rightarrow> []
            | Some n \<Rightarrow> (if n = [] then [] else [''network='' @ n]))
         @ listed ''fs='' (policy_field input sp_filesystemScope))"

definition createAgentOsSandboxPolicyReason :: "preflight_input \<Rightarrow> string \<Rightarrow> string" where
  "createAgentOsSandboxPolicyReason input sandboxMode =
     ''Agent OS sandbox policy allowed mutating tool execution (''
     @ js_join ''; '' (policy_details input sandboxMode) @ '').''"

section \<open>Checking\<close>

text \<open>Why the command is refused, if it is.\<close>

definition command_refusal :: "preflight_input \<Rightarrow> string \<Rightarrow> string option" where
  "command_refusal input command =
     (case firstMatchingPattern command (policy_field input sp_commandDenylist) of
        Some p \<Rightarrow> Some (''Command matched sandbox denylist pattern \"'' @ p @ ''\"'')
      | None \<Rightarrow>
          (case firstMatchingPattern command
                  (Some (nullish_else (policy_field input sp_dangerousCommandPatterns)
                           DEFAULT_DANGEROUS_COMMAND_PATTERNS)) of
             Some p \<Rightarrow> Some (''Command matched built-in dangerous pattern \"'' @ p @ ''\"'')
           | None \<Rightarrow>
               (case policy_field input sp_commandAllowlist of
                  None \<Rightarrow> None
                | Some allowlist \<Rightarrow>
                    (if allowlist \<noteq> [] \<and> firstMatchingCommandPrefix command (Some allowlist) = None
                     then Some ''Command did not match sandbox allowlist'' else None))))"

text \<open>Undefined and the empty command are not checked.\<close>

definition input_refusal :: "preflight_input \<Rightarrow> string option" where
  "input_refusal input =
     (case map_option js_trim (pf_command input) of
        None \<Rightarrow> None
      | Some command \<Rightarrow> (if command = [] then None else command_refusal input command))"

definition createAgentOsExecutionPolicyPreflight :: "string \<Rightarrow> preflight_input \<Rightarrow> jsval" where
  "createAgentOsExecutionPolicyPreflight checkedAt input =
     (let providerId = policyProviderId (pf_providerId input) (pf_toolName input);
          explicitPreflight = (case pf_sandboxPolicy input of
             None \<Rightarrow> JUndefined | Some p \<Rightarrow> sp_explicitPreflight p)
      in if explicitPreflight \<noteq> JUndefined
         then (if isAgentOsSandboxPreflight explicitPreflight then explicitPreflight
               else createDeniedAgentOsSandboxPreflight checkedAt providerId
                      ''Agent OS sandbox policy returned an invalid explicit preflight'')
         else (case input_refusal input of
           Some reason \<Rightarrow> createDeniedAgentOsSandboxPreflight checkedAt providerId reason
         | None \<Rightarrow>
             if pf_readOnly input
             then preflight_object ''allow'' ''readonly'' checkedAt providerId
                    ''Read-only tool capability may execute with readonly sandbox preflight.''
             else (case policy_field input sp_defaultMutatingSandboxMode of
               None \<Rightarrow> createDeniedAgentOsSandboxPreflight checkedAt providerId
                 ''Agent OS sandbox preflight is required before executing mutating tools''
             | Some mode \<Rightarrow>
                 if mode = ''disabled'' \<or> \<not> isKnownAgentOsSandboxMode mode
                 then createDeniedAgentOsSandboxPreflight checkedAt providerId
                   ''Agent OS sandbox preflight is required before executing mutating tools''
                 else preflight_object ''allow'' mode checkedAt providerId
                   (createAgentOsSandboxPolicyReason input mode))))"

section \<open>What is allowed\<close>

lemma preflight_object_get [simp]:
  "js_get (preflight_object v m t p r) ''verdict'' = JStr v"
  "js_get (preflight_object v m t p r) ''sandboxMode'' = JStr m"
  "js_get (preflight_object v m t p r) ''checkedAt'' = JStr t"
  "js_get (preflight_object v m t p r) ''providerId'' = JStr p"
  "js_get (preflight_object v m t p r) ''reason'' = JStr r"
  "isObject (preflight_object v m t p r)"
  by (simp_all add: preflight_object_def)

lemma denied_verdict [simp]:
  "js_get (createDeniedAgentOsSandboxPreflight t p r) ''verdict'' = JStr ''deny''"
  by (simp add: createDeniedAgentOsSandboxPreflight_def)

lemma denied_is_preflight [simp]:
  "isAgentOsSandboxPreflight (createDeniedAgentOsSandboxPreflight t p r)"
  by (simp add: isAgentOsSandboxPreflight_def createDeniedAgentOsSandboxPreflight_def is_one_of_def
      AGENT_OS_POLICY_VERDICTS_def AGENT_OS_SANDBOX_MODES_def is_string_def is_optional_string_def)

lemma allowed_is_preflight:
  "isKnownAgentOsSandboxMode m \<Longrightarrow> isAgentOsSandboxPreflight (preflight_object ''allow'' m t p r)"
  by (simp add: isAgentOsSandboxPreflight_def isKnownAgentOsSandboxMode_def is_one_of_def
      AGENT_OS_POLICY_VERDICTS_def is_string_def is_optional_string_def)

lemma readonly_known [simp]: "isKnownAgentOsSandboxMode ''readonly''"
  by (simp add: isKnownAgentOsSandboxMode_def AGENT_OS_SANDBOX_MODES_def)

lemma preflight_is_valid:
  "isAgentOsSandboxPreflight (createAgentOsExecutionPolicyPreflight t input)"
  by (simp add: createAgentOsExecutionPolicyPreflight_def Let_def allowed_is_preflight
      split: option.split)

lemma find_None_all: "find P xs = None \<longleftrightarrow> list_all (\<lambda>x. \<not> P x) xs"
  by (induction xs) auto

lemma allowed_command_clean:
  assumes "command_refusal input command = None"
  shows "list_all (\<lambda>p. \<not> pattern_matches (toLowerCase command) p)
           (nullish_else (policy_field input sp_commandDenylist) [] @
            nullish_else (policy_field input sp_dangerousCommandPatterns)
              DEFAULT_DANGEROUS_COMMAND_PATTERNS)"
    and "case policy_field input sp_commandAllowlist of None \<Rightarrow> True
         | Some ps \<Rightarrow> ps = [] \<or> list_ex (\<lambda>p. command_prefix (normalizePolicyCommand command) p) ps"
proof -
  note refusal = assms [unfolded command_refusal_def firstMatchingPattern_def
      firstMatchingCommandPrefix_def]
  show "list_all (\<lambda>p. \<not> pattern_matches (toLowerCase command) p)
           (nullish_else (policy_field input sp_commandDenylist) [] @
            nullish_else (policy_field input sp_dangerousCommandPatterns)
              DEFAULT_DANGEROUS_COMMAND_PATTERNS)"
    using refusal by (auto simp: find_None_all split: option.splits)
  show "case policy_field input sp_commandAllowlist of None \<Rightarrow> True
        | Some ps \<Rightarrow> ps = [] \<or> list_ex (\<lambda>p. command_prefix (normalizePolicyCommand command) p) ps"
    using refusal
    by (auto simp: find_None_all list_ex_iff list_all_iff split: option.splits if_splits)
qed

end
