(* ===== verification/Tool_Examples.thy ===== *)
theory Tool_Examples
  imports Tool_Batches Tool_Builtins Sandbox_Preflight
begin

text \<open>Concrete tools, calls and callbacks, on which the properties of the tool plane are applied, and what the
  preflight makes of a second blank.\<close>

definition sample_context :: tool_context where
  "sample_context =
     \<lparr>tx_sessionId = ''s1'', tx_turnId = Some ''t1'', tx_workspaceRoot = Some ''/work'',
      tx_actor = None, tx_approval = None\<rparr>"

definition quiet_options :: dispatcher_options where
  "quiet_options =
     \<lparr>op_policy = None, op_auditSink = False, op_journalSink = True, op_beforeDispatch = False,
      op_afterDispatch = False, op_onError = False\<rparr>"

definition hooked_options :: dispatcher_options where
  "hooked_options =
     \<lparr>op_policy = None, op_auditSink = False, op_journalSink = True, op_beforeDispatch = False,
      op_afterDispatch = True, op_onError = True\<rparr>"

definition no_env :: process_env where
  "no_env name = None"

definition sample_registry :: tool_registry where
  "sample_registry = [filesystemReadTextDefinition, tasksTodoWriteDefinition]"

definition todo_call :: tool_call where
  "todo_call =
     \<lparr>tk_id = ''c1'', tk_name = ''tasks.todo_write'', tk_args = JObj [(''items'', JArr [])]\<rparr>"

definition read_call :: "string \<Rightarrow> tool_call" where
  "read_call k =
     \<lparr>tk_id = k, tk_name = ''filesystem.read_text'', tk_args = JObj [(''path'', JStr ''a.txt'')]\<rparr>"

definition request_of :: "tool_call \<Rightarrow> tool_request" where
  "request_of call =
     \<lparr>tq_toolName = tk_name call, tq_args = tk_args call, tq_context = sample_context\<rparr>"

definition tool_answer :: "tool_call \<Rightarrow> tool_result" where
  "tool_answer call = builtin_result (tk_id call) (tk_name call) (JBool True)"

text \<open>The decision of the default policy for a call, as the dispatcher records it.\<close>

definition default_decision_for :: "tool_definition \<Rightarrow> tool_call \<Rightarrow> policy_decision" where
  "default_decision_for d call =
     (case resolve_decision DEFAULT_POLICY_RUNTIME (call_policy_input d call sample_context) of
        Inr decided \<Rightarrow> decided | Inl e \<Rightarrow> DENY_DEFAULT_DECISION)"

definition final_result :: "tool_definition \<Rightarrow> tool_call \<Rightarrow> tool_result" where
  "final_result d call =
     finalizeToolResult (tool_answer call) call (td_name d) (default_decision_for d call)"

definition journaled :: "tool_journal_event \<Rightarrow> (dispatch_call, tool_request, settlement) event" where
  "journaled ev = Did (DispatchJournal ev sample_context) (Inr ())"

text \<open>A run of a call that is allowed and answered in time.\<close>

definition answered_run ::
  "tool_definition \<Rightarrow> tool_call \<Rightarrow> (dispatch_call, tool_request, settlement) event list" where
  "answered_run d call =
     [journaled (createToolCallPlannedJournalEvent call),
      Invoked (request_of call) (Inr (InTime (tool_answer call))),
      journaled (createToolResultJournalEvent (final_result d call))]"

definition todo_dispatch :: "dispatcher_options \<Rightarrow> tool_result dispatch_task" where
  "todo_dispatch options = dispatch no_env sample_registry options sample_context todo_call"

definition todo_run :: "(dispatch_call, tool_request, settlement) event list" where
  "todo_run = answered_run tasksTodoWriteDefinition todo_call"

definition todo_result :: tool_result where
  "todo_result = final_result tasksTodoWriteDefinition todo_call"

lemma default_policy [simp]:
  "dispatch_policy quiet_options = policyRuntimeTask DEFAULT_POLICY_RUNTIME"
  "dispatch_policy hooked_options = policyRuntimeTask DEFAULT_POLICY_RUNTIME"
  by (simp_all add: dispatch_policy_def quiet_options_def hooked_options_def)

lemma todo_runs: "runs (todo_dispatch quiet_options) todo_run (Inr todo_result)"
proof -
  have "run_result (todo_dispatch quiet_options) todo_run = Some (Inr todo_result)" by code_simp
  then show ?thesis by (simp add: run_result_iff)
qed

text \<open>
  The post-hook throws on the tool's result, and the error hook throws in turn: the call that was
  executed is recorded a second time, as failed.
\<close>

definition hook_error :: thrown where
  "hook_error = ErrorThrown ''hook''"

definition failed_result :: tool_result where
  "failed_result =
     finalizeToolResult (createExecutionFailureResult todo_call ''tasks.todo_write'' hook_error)
       todo_call ''tasks.todo_write'' (default_decision_for tasksTodoWriteDefinition todo_call)"

definition hooked_run :: "(dispatch_call, tool_request, settlement) event list" where
  "hooked_run =
     todo_run @
     [Did (AfterDispatch todo_call sample_context todo_result) (Inl hook_error),
      Did (DispatchError StageAfterDispatch todo_call sample_context hook_error) (Inl hook_error),
      Did (DispatchError StageExecute todo_call sample_context hook_error) (Inr ()),
      journaled (createToolResultJournalEvent failed_result),
      Did (AfterDispatch todo_call sample_context failed_result) (Inr ())]"

lemma hooked_runs: "runs (todo_dispatch hooked_options) hooked_run (Inr failed_result)"
proof -
  have "run_result (todo_dispatch hooked_options) hooked_run = Some (Inr failed_result)" by code_simp
  then show ?thesis by (simp add: run_result_iff)
qed

text \<open>Two read calls whose dispatches interleave, then a call that is dispatched alone.\<close>

definition sample_calls :: "tool_call list" where
  "sample_calls = [read_call ''r1'', read_call ''r2'', todo_call]"

definition read_run :: "string \<Rightarrow> (dispatch_call, tool_request, settlement) event list" where
  "read_run k = answered_run filesystemReadTextDefinition (read_call k)"

definition sample_moves :: "(nat \<times> (dispatch_call, tool_request, settlement) event) list" where
  "sample_moves =
     [(0, read_run ''r1'' ! 0), (1, read_run ''r2'' ! 0), (1, read_run ''r2'' ! 1),
      (1, read_run ''r2'' ! 2), (0, read_run ''r1'' ! 1), (0, read_run ''r1'' ! 2),
      (0, todo_run ! 0), (0, todo_run ! 1), (0, todo_run ! 2)]"

definition sample_many ::
  "(nat \<times> (dispatch_call, tool_request, settlement) event) list \<Rightarrow> many_state option" where
  "sample_many moves =
     dispatchMany no_env sample_registry quiet_options sample_context sample_calls moves"

definition sample_results :: "tool_result list" where
  "sample_results =
     [final_result filesystemReadTextDefinition (read_call ''r1''),
      final_result filesystemReadTextDefinition (read_call ''r2''), todo_result]"

lemma sample_many_done:
  "map_option (many_outcome OrderedMerge) (sample_many sample_moves) = Some (Some (Inr sample_results))"
  by code_simp

lemma sample_many_begun:
  "map_option (\<lambda>st. (map fst (ms_pool st), ms_results st)) (sample_many (take 3 sample_moves)) =
     Some ([read_call ''r1'', read_call ''r2''], [])"
  by code_simp

text \<open>A call of critical risk without an approval.\<close>

definition risky_input :: policy_input where
  "risky_input =
     \<lparr>pn_action = ''tool.dispatch'', pn_resource = None, pn_actor = None, pn_metadata = None,
      pn_capabilityProfile = Some
        \<lparr>cf_toolName = None, cf_capabilities = None, cf_riskLevel = Some CriticalRisk,
         cf_requiresApproval = None\<rparr>,
      pn_approval = None\<rparr>"

definition risky_decision :: "(policy_call, unit, unit, policy_decision) task" where
  "risky_decision = decide id DEFAULT_POLICY_RUNTIME risky_input"

section \<open>Reading files\<close>

text \<open>A file system in which \<open>/work/link\<close> points outside the root.\<close>

definition sample_realpath :: "string list \<Rightarrow> thrown + string list" where
  "sample_realpath path = Inr (if path = [''work'', ''link''] then [''etc'', ''passwd''] else path)"

definition sample_readFile :: "string list \<Rightarrow> thrown + string" where
  "sample_readFile path =
     (if path = [''work'', ''a.txt''] then Inr ''hello'' else Inl (ErrorThrown ''ENOENT''))"

definition work_tool :: read_text_tool where
  "work_tool = createFilesystemReadTextTool sample_realpath [''home''] [''/work'']"

section \<open>Sandbox policies\<close>

definition bare_policy :: sandbox_policy where
  "bare_policy =
     \<lparr>sp_defaultMutatingSandboxMode = Some ''host'', sp_commandAllowlist = None,
      sp_commandDenylist = Some [''git push''], sp_dangerousCommandPatterns = None,
      sp_filesystemScope = None, sp_networkAccess = None, sp_explicitPreflight = JUndefined\<rparr>"

definition command_input :: "string \<Rightarrow> preflight_input" where
  "command_input command =
     \<lparr>pf_toolName = ''shell'', pf_providerId = None, pf_readOnly = False, pf_capabilityIds = None,
      pf_riskLevel = None, pf_command = Some command, pf_sandboxPolicy = Some bare_policy\<rparr>"

text \<open>
  The allow list compares commands after collapsing their white space, the deny list and the
  dangerous patterns do not: with a second blank, a command that is a dangerous pattern, and one
  that is on the deny list, are allowed to run on the host.
\<close>

lemma second_blank_evades_patterns:
  "normalizePolicyCommand ''rm  -rf /'' \<in> set DEFAULT_DANGEROUS_COMMAND_PATTERNS \<and>
   js_get (createAgentOsExecutionPolicyPreflight checkedAt (command_input ''rm -rf /'')) ''verdict'' =
     JStr ''deny'' \<and>
   js_get (createAgentOsExecutionPolicyPreflight checkedAt (command_input ''rm  -rf /'')) ''verdict'' =
     JStr ''allow'' \<and>
   policy_field (command_input ''git  push'') sp_commandDenylist =
     Some [normalizePolicyCommand ''git  push''] \<and>
   js_get (createAgentOsExecutionPolicyPreflight checkedAt (command_input ''git  push'')) ''verdict'' =
     JStr ''allow''"
proof (intro conjI)
  show "normalizePolicyCommand ''rm  -rf /'' \<in> set DEFAULT_DANGEROUS_COMMAND_PATTERNS" by code_simp
  show "js_get (createAgentOsExecutionPolicyPreflight checkedAt (command_input ''rm -rf /'')) ''verdict'' =
      JStr ''deny''"
    by code_simp
  show "js_get (createAgentOsExecutionPolicyPreflight checkedAt (command_input ''rm  -rf /'')) ''verdict'' =
      JStr ''allow''"
    by code_simp
  show "policy_field (command_input ''git  push'') sp_commandDenylist =
      Some [normalizePolicyCommand ''git  push'']" by code_simp
  show "js_get (createAgentOsExecutionPolicyPreflight checkedAt (command_input ''git  push'')) ''verdict'' =
      JStr ''allow''"
    by code_simp
qed

end
