(* ===== verification/Engine_Json.thy ===== *)
theory Engine_Json
  imports Tool_Registry Session_Search Task_Board
begin

text \<open>
  The JSON form of what the engine journals: the literals of \<open>packages/contracts/src/errors.ts\<close>,
  the objects of its surfaces and errors, \<open>toJsonSafe\<close> of \<open>packages/engine/src/engine.ts\<close> and the
  keys by which degradations are merged.
\<close>

section \<open>Literals\<close>

fun runtime_stage_str :: "runtime_stage \<Rightarrow> string" where
  "runtime_stage_str ReasoningStage = ''reasoning''"
| "runtime_stage_str ModelStage = ''model''"
| "runtime_stage_str ToolStage = ''tool''"
| "runtime_stage_str PolicyStage = ''policy''"
| "runtime_stage_str StreamStage = ''stream''"
| "runtime_stage_str RuntimeStage = ''runtime''"

fun failure_kind_str :: "failure_kind \<Rightarrow> string" where
  "failure_kind_str UserKind = ''user''"
| "failure_kind_str PolicyKind = ''policy''"
| "failure_kind_str ToolKind = ''tool''"
| "failure_kind_str ProviderTransientKind = ''provider-transient''"
| "failure_kind_str ProviderFatalKind = ''provider-fatal''"
| "failure_kind_str MemoryDegradeKind = ''memory-degrade''"
| "failure_kind_str InternalInvariantKind = ''internal-invariant''"

fun recovery_action_str :: "recovery_action_kind \<Rightarrow> string" where
  "recovery_action_str RetryAction = ''retry''"
| "recovery_action_str FailoverAction = ''failover''"
| "recovery_action_str DegradeAction = ''degrade''"
| "recovery_action_str AbortAction = ''abort''"

fun severity_str :: "degrade_severity \<Rightarrow> string" where
  "severity_str MinorSeverity = ''minor''"
| "severity_str MajorSeverity = ''major''"

fun degrade_category_str :: "degrade_category \<Rightarrow> string" where
  "degrade_category_str ToolCategory = ''tool''"
| "degrade_category_str PolicyCategory = ''policy''"
| "degrade_category_str MemoryCategory = ''memory''"
| "degrade_category_str ProviderCategory = ''provider''"
| "degrade_category_str RuntimeCategory = ''runtime''"

fun degrade_reason_str :: "degrade_reason \<Rightarrow> string" where
  "degrade_reason_str ToolUnavailable = ''tool-unavailable''"
| "degrade_reason_str ModelLimited = ''model-limited''"
| "degrade_reason_str PolicyRestricted = ''policy-restricted''"
| "degrade_reason_str LatencyBudget = ''latency-budget''"
| "degrade_reason_str ContextPressure = ''context-pressure''"
| "degrade_reason_str Fallback = ''fallback''"

fun error_code_str :: "contract_error_code \<Rightarrow> string" where
  "error_code_str UserError = ''USER_ERROR''"
| "error_code_str PolicyFault = ''POLICY_ERROR''"
| "error_code_str ProviderTransientError = ''PROVIDER_TRANSIENT_ERROR''"
| "error_code_str ProviderFatalError = ''PROVIDER_FATAL_ERROR''"
| "error_code_str MemoryDegraded = ''MEMORY_DEGRADED''"
| "error_code_str InternalInvariantError = ''INTERNAL_INVARIANT_ERROR''"
| "error_code_str InvalidContext = ''INVALID_CONTEXT''"
| "error_code_str InvalidEvent = ''INVALID_EVENT''"
| "error_code_str InvalidStreamEvent = ''INVALID_STREAM_EVENT''"
| "error_code_str Aborted = ''ABORTED''"
| "error_code_str DegradedMode = ''DEGRADED_MODE''"
| "error_code_str ModelFailure = ''MODEL_FAILURE''"
| "error_code_str ToolFailure = ''TOOL_FAILURE''"
| "error_code_str ValidationFailure = ''VALIDATION_FAILURE''"
| "error_code_str UnknownFailure = ''UNKNOWN''"

section \<open>JSON-safe values\<close>

text \<open>
  \<open>toJsonSafe\<close> on a value without \<open>Error\<close> objects: an \<open>undefined\<close> inside it becomes the string
  \<open>undefined\<close>. An \<open>Error\<close> becomes its name and message, its own properties and its cause.
\<close>

fun toJsonSafe :: "jsval \<Rightarrow> jsval"
  and json_safe_items :: "jsval list \<Rightarrow> jsval list"
  and json_safe_fields :: "json_object \<Rightarrow> json_object"
where
  "toJsonSafe JUndefined = JStr ''undefined''"
| "toJsonSafe JNull = JNull"
| "toJsonSafe (JBool b) = JBool b"
| "toJsonSafe (JNum n) = JNum n"
| "toJsonSafe (JStr s) = JStr s"
| "toJsonSafe (JArr xs) = JArr (json_safe_items xs)"
| "toJsonSafe (JObj kvs) = JObj (json_safe_fields kvs)"
| "json_safe_items [] = []"
| "json_safe_items (x # xs) = toJsonSafe x # json_safe_items xs"
| "json_safe_fields [] = []"
| "json_safe_fields ((k, v) # kvs) = (k, toJsonSafe v) # json_safe_fields kvs"

fun safe_thrown :: "thrown \<Rightarrow> jsval" where
  "safe_thrown (ErrorThrown m) = JObj [(''name'', JStr ''Error''), (''message'', JStr m)]"
| "safe_thrown (ValidationThrown m) =
     JObj [(''name'', JStr ''ToolInputValidationError''), (''message'', JStr m)]"
| "safe_thrown (TimeoutThrown tool ms) =
     JObj [(''name'', JStr ''ToolExecutionTimeoutError''),
           (''message'', JStr (normalizeError (TimeoutThrown tool ms))),
           (''toolName'', JStr tool), (''timeoutMs'', JNum ms)]"
| "safe_thrown (ValueThrown text) = JStr text"

text \<open>\<open>metadata\<close> is an own property of a \<open>ContractError\<close> also when it is \<open>undefined\<close>.\<close>

definition safe_contract_error :: "contract_error \<Rightarrow> jsval" where
  "safe_contract_error e =
     JObj ([(''name'', JStr ''ContractError''), (''message'', JStr (ce_message e)),
            (''code'', JStr (error_code_str (ce_code e))), (''retryable'', JBool (ce_retryable e)),
            (''kind'', JStr (failure_kind_str (ce_kind e))),
            (''defaultAction'', JStr (recovery_action_str (ce_defaultAction e))),
            (''metadata'', toJsonSafe (case ce_metadata e of None \<Rightarrow> JUndefined | Some m \<Rightarrow> JObj m))]
           @ (case ce_cause e of None \<Rightarrow> [] | Some c \<Rightarrow> [(''cause'', safe_thrown c)]))"

definition degradation_fields :: "degrade_surface \<Rightarrow> json_object" where
  "degradation_fields d =
     [(''stage'', JStr (runtime_stage_str (dg_stage d))),
      (''category'', JStr (degrade_category_str (dg_category d))), (''action'', JStr ''degrade''),
      (''severity'', JStr (severity_str (dg_severity d))),
      (''reason'', JStr (degrade_reason_str (dg_reason d))),
      (''message'', JStr (dg_message d)), (''recoverable'', JBool (dg_recoverable d))]"

definition safe_degradation :: "degrade_surface \<Rightarrow> jsval" where
  "safe_degradation d =
     JObj (degradation_fields d
           @ (case dg_error d of None \<Rightarrow> [] | Some e \<Rightarrow> [(''error'', safe_contract_error e)])
           @ (case dg_metadata d of None \<Rightarrow> [] | Some m \<Rightarrow> [(''metadata'', toJsonSafe (JObj m))]))"

definition safe_failure :: "error_surface \<Rightarrow> jsval" where
  "safe_failure f =
     JObj ([(''stage'', JStr (runtime_stage_str (es_stage f))),
            (''kind'', JStr (failure_kind_str (es_kind f))),
            (''action'', JStr (recovery_action_str (es_action f))),
            (''error'', safe_contract_error (es_error f)),
            (''recoverable'', JBool (es_recoverable f))]
           @ (case es_operatorVisible f of None \<Rightarrow> [] | Some b \<Rightarrow> [(''operatorVisible'', JBool b)]))"

section \<open>Merging degradations\<close>

definition createRuntimeDegradationKey :: "degrade_surface \<Rightarrow> string" where
  "createRuntimeDegradationKey d =
     json_text (JObj
       [(''stage'', JStr (runtime_stage_str (dg_stage d))),
        (''category'', JStr (degrade_category_str (dg_category d))),
        (''severity'', JStr (severity_str (dg_severity d))),
        (''reason'', JStr (degrade_reason_str (dg_reason d))),
        (''message'', JStr (dg_message d)), (''recoverable'', JBool (dg_recoverable d)),
        (''metadata'', case dg_metadata d of None \<Rightarrow> JNull | Some m \<Rightarrow> json_copy (JObj m))])"

text \<open>\<open>Map.set\<close>: a key that is present keeps its place and takes the new value.\<close>

fun map_set :: "'k \<Rightarrow> 'v \<Rightarrow> ('k \<times> 'v) list \<Rightarrow> ('k \<times> 'v) list" where
  "map_set k v [] = [(k, v)]"
| "map_set k v ((k', w) # m) = (if k' = k then (k, v) # m else (k', w) # map_set k v m)"

definition degradation_map ::
  "(string \<times> degrade_surface) list \<Rightarrow> degrade_surface list \<Rightarrow> (string \<times> degrade_surface) list"
where
  "degradation_map m ds = foldl (\<lambda>m d. map_set (createRuntimeDegradationKey d) d m) m ds"

definition dedupeRuntimeDegradations :: "degrade_surface list \<Rightarrow> degrade_surface list" where
  "dedupeRuntimeDegradations ds =
     map snd (degradation_map [] ds)"

definition mergeRuntimeDegradations ::
  "degrade_surface list \<Rightarrow> degrade_surface list \<Rightarrow> degrade_surface list" where
  "mergeRuntimeDegradations left right = dedupeRuntimeDegradations (left @ right)"

lemma map_set_keys: "map fst (map_set k v m) =
  (if k \<in> set (map fst m) then map fst m else map fst m @ [k])"
  by (induction k v m rule: map_set.induct) auto

lemma map_set_image: "f v = k \<Longrightarrow> \<forall>(k', w) \<in> set m. f w = k' \<Longrightarrow>
  \<forall>(k', w) \<in> set (map_set k v m). f w = k'"
  by (induction k v m rule: map_set.induct) (auto split: if_splits)

lemma dedupe_keys:
  assumes "distinct (map fst m)" and "\<forall>(k, d) \<in> set m. createRuntimeDegradationKey d = k"
  shows "distinct (map fst (degradation_map m ds)) \<and>
         (\<forall>(k, d) \<in> set (degradation_map m ds). createRuntimeDegradationKey d = k) \<and>
         fst ` set (degradation_map m ds) = fst ` set m \<union> createRuntimeDegradationKey ` set ds"
  using assms unfolding degradation_map_def
proof (induction ds arbitrary: m)
  case (Cons d ds)
  let ?m = "map_set (createRuntimeDegradationKey d) d m"
  have keys: "distinct (map fst ?m)" using Cons.prems(1) by (auto simp: map_set_keys)
  have image: "\<forall>(k, d) \<in> set ?m. createRuntimeDegradationKey d = k"
    by (rule map_set_image) (use Cons.prems(2) in auto)
  have "fst ` set ?m = insert (createRuntimeDegradationKey d) (fst ` set m)"
    using arg_cong [OF map_set_keys, of set "createRuntimeDegradationKey d" d m]
    by (simp split: if_splits) blast
  then show ?case using Cons.IH [OF keys image] by auto
qed simp

text \<open>What is left has one degradation for each key.\<close>

lemma dedupe_distinct:
  "distinct (map createRuntimeDegradationKey (dedupeRuntimeDegradations ds))"
proof -
  let ?r = "degradation_map [] ds"
  have r: "distinct (map fst ?r)" "\<forall>(k, d) \<in> set ?r. createRuntimeDegradationKey d = k"
    using dedupe_keys [of "[]" ds] by auto
  have "map createRuntimeDegradationKey (map snd ?r) = map fst ?r"
    unfolding map_map by (rule map_cong) (use r(2) in auto)
  then show ?thesis using r(1) unfolding dedupeRuntimeDegradations_def by metis
qed

lemma dedupe_covers:
  "createRuntimeDegradationKey ` set (dedupeRuntimeDegradations ds) =
   createRuntimeDegradationKey ` set ds"
proof -
  let ?r = "degradation_map [] ds"
  have r: "\<forall>(k, d) \<in> set ?r. createRuntimeDegradationKey d = k"
    "fst ` set ?r = createRuntimeDegradationKey ` set ds"
    using dedupe_keys [of "[]" ds] by auto
  have "createRuntimeDegradationKey ` snd ` set ?r = fst ` set ?r"
    using r(1) by (force simp: image_iff)
  then show ?thesis using r(2) by (simp add: dedupeRuntimeDegradations_def image_image)
qed

end
