(* ===== verification/Engine_Steps.thy ===== *)
theory Engine_Steps
  imports Engine_Json
begin

text \<open>
  The loop of a turn, \<open>packages/engine/src/step-loop.ts\<close>, and the step it repeats,
  \<open>EngineStepStrategy\<close> of \<open>engine-step-strategy.ts\<close>: build the prompt, call the model, run the
  tools it asks for. The dependencies of the strategy are the fields of a record; each may read and
  change the state \<open>'s\<close> of the surroundings and may throw. Steps are counted with integers.
\<close>

section \<open>The step loop\<close>

datatype stop_reason = StrategyStop | MaxStepsReached

record 'st iteration_result =
  ir_state :: 'st
  ir_continueLoop :: bool

record 'st loop_result =
  lr_state :: 'st
  lr_completedSteps :: int
  lr_stopReason :: stop_reason

function step_loop ::
  "(int \<Rightarrow> int \<Rightarrow> 'st \<Rightarrow> 's \<Rightarrow> ('e + 'st iteration_result) \<times> 's) \<Rightarrow>
   (int \<Rightarrow> 'st iteration_result \<Rightarrow> 's \<Rightarrow> ('e + unit) \<times> 's) \<Rightarrow>
   int \<Rightarrow> int \<Rightarrow> 'st \<Rightarrow> int \<Rightarrow> 's \<Rightarrow> ('e + 'st loop_result) \<times> 's" where
  "step_loop strategy hook maxSteps stepIndex st completedSteps s =
     (if stepIndex < maxSteps then
        chain (strategy stepIndex maxSteps st s) (\<lambda>result s1.
          chain (hook stepIndex result s1) (\<lambda>_ s2.
            if \<not> ir_continueLoop result
            then (Inr \<lparr>lr_state = ir_state result, lr_completedSteps = completedSteps + 1,
                       lr_stopReason = StrategyStop\<rparr>, s2)
            else step_loop strategy hook maxSteps (stepIndex + 1) (ir_state result)
                   (completedSteps + 1) s2))
      else (Inr \<lparr>lr_state = st, lr_completedSteps = completedSteps,
                 lr_stopReason = MaxStepsReached\<rparr>, s))"
  by pat_completeness auto
termination
  by (relation "measure (\<lambda>(_, _, maxSteps, stepIndex, _). nat (maxSteps - stepIndex))") auto

declare step_loop.simps [simp del]

definition runLoop ::
  "(int \<Rightarrow> int \<Rightarrow> 'st \<Rightarrow> 's \<Rightarrow> ('e + 'st iteration_result) \<times> 's) \<Rightarrow>
   (int \<Rightarrow> 'st iteration_result \<Rightarrow> 's \<Rightarrow> ('e + unit) \<times> 's) \<Rightarrow>
   'st \<Rightarrow> int \<Rightarrow> int option \<Rightarrow> 's \<Rightarrow> ('e + 'st loop_result) \<times> 's" where
  "runLoop strategy hook initialState maxSteps startStepIndex s =
     step_loop strategy hook (max 0 maxSteps) (max 0 (nullish_else startStepIndex 0)) initialState 0 s"

section \<open>Data of a step\<close>

datatype model_role = SystemRole | UserRole | AssistantRole | ToolRole

record model_tool_call =
  mc_id :: string
  mc_name :: string
  mc_argumentsJson :: string

record model_message =
  mm_role :: model_role
  mm_content :: string
  mm_name :: "string option"
  mm_toolCalls :: "model_tool_call list option"
  mm_toolCallId :: "string option"

record model_request =
  mq_providerId :: string
  mq_model :: string
  mq_messages :: "model_message list"
  mq_tools :: "tool_schema_descriptor list option"

record model_output =
  mo_text :: string
  mo_toolCalls :: "model_tool_call list option"

datatype reasoning_action = CallTools | Finalize

record reasoning_decision =
  rd_action :: reasoning_action
  rd_rationale :: string
  rd_plannedToolCount :: int

datatype turn_branch =
  NormalBranch | PolicyDenied | ApprovalRequired | ToolDegradedBranch | ToolFailedBranch

fun turn_branch_str :: "turn_branch \<Rightarrow> string" where
  "turn_branch_str NormalBranch = ''normal''"
| "turn_branch_str PolicyDenied = ''policy-denied''"
| "turn_branch_str ApprovalRequired = ''approval-required''"
| "turn_branch_str ToolDegradedBranch = ''tool-degraded''"
| "turn_branch_str ToolFailedBranch = ''tool-failed''"

record step_journal_event =
  se_eventType :: step_event
  se_payload :: jsval

record step_state =
  ls_output :: string
  ls_toolResults :: "tool_result list"
  ls_runtimeDegradations :: "degrade_surface list"
  ls_lastReasoningDecision :: "reasoning_decision option"
  ls_lastStepEvents :: "step_journal_event list"
  ls_lastTurnBranch :: turn_branch

record loop_context =
  lc_turnId :: string
  lc_providerId :: string
  lc_model :: string
  lc_sessionId :: string
  lc_tokenBudget :: int
  lc_maxSteps :: int

text \<open>The summaries of the prompt's sections are kept as the values they are journaled as.\<close>

record prompt_artifacts =
  pa_staticPrompt :: string
  pa_dynamicPrompt :: string
  pa_staticSections :: "jsval list"
  pa_staticSectionIds :: "string list"
  pa_dynamicSections :: "jsval list"
  pa_dynamicSectionIds :: "string list"
  pa_omittedSections :: "jsval list"
  pa_omittedSectionIds :: "string list"
  pa_usedTokens :: int
  pa_remainingTokens :: int
  pa_runtimeDegradations :: "degrade_surface list option"

text \<open>The surface of a provider's failure, from the models package.\<close>

datatype provider_stage = GenerateStage | ProviderStreamStage

record provider_failure = error_surface +
  pf_providerId :: string
  pf_providerStage :: provider_stage
  pf_providerCode :: string
  pf_failureClass :: string
  pf_retryable :: bool
  pf_statusCode :: "int option"

record run_failure =
  uf_sessionId :: string
  uf_turnId :: string
  uf_model :: string
  uf_selectedProviderId :: string
  uf_failure :: provider_failure

text \<open>What a turn can throw: an error of the store, the failure of the model inside a step with the
  degradations known by then, the failure of the run it becomes, any other value.\<close>

datatype engine_error =
    StoreThrew session_error
  | Threw thrown
  | EngineModelRuntimeFailure thrown "degrade_surface list"
  | EngineRunFailure run_failure

record 's step_deps =
  sd_context :: loop_context
  sd_userText :: string
  sd_parse :: "string \<Rightarrow> jsval option"
  sd_taskState :: "'s \<Rightarrow> task_state"
  sd_getSchemas :: "'s \<Rightarrow> tool_schema_descriptor list"
  sd_onContextBuilt ::
    "int \<Rightarrow> step_journal_event \<Rightarrow> string \<Rightarrow> task_state \<Rightarrow> 's \<Rightarrow> (engine_error + unit) \<times> 's"
  sd_modelRuntimeGenerate :: "model_request \<Rightarrow> 's \<Rightarrow> (thrown + model_output) \<times> 's"
  sd_buildPrompt ::
    "task_state \<Rightarrow> tool_result list \<Rightarrow> degrade_surface list \<Rightarrow> tool_schema_descriptor list \<Rightarrow> 's \<Rightarrow>
     (engine_error + prompt_artifacts) \<times> 's"
  sd_executeToolCalls :: "model_output \<Rightarrow> 's \<Rightarrow> (engine_error + tool_result list) \<times> 's"
  sd_decideReasoning :: "(model_output \<Rightarrow> reasoning_decision) option"

section \<open>Replaying tool results to the model\<close>

definition estimated_replay_chars :: "int \<Rightarrow> int" where
  "estimated_replay_chars tokens = (tokens * 16) div 5"

definition MIN_TOOL_RESULT_REPLAY_MESSAGE_CHARS :: int where
  "MIN_TOOL_RESULT_REPLAY_MESSAGE_CHARS = 128"

definition MAX_TOOL_RESULT_REPLAY_TOTAL_CHARS :: int where
  "MAX_TOOL_RESULT_REPLAY_TOTAL_CHARS = 8192"

record planned_call =
  pc_id :: string
  pc_name :: string
  pc_args :: jsval

record result_summary =
  rs_toolCallId :: string
  rs_toolName :: string
  rs_ok :: bool
  rs_resolution :: "string option"

fun object_items :: "jsval \<Rightarrow> string \<Rightarrow> jsval list" where
  "object_items (JObj kvs) key = (case alist_get kvs key of JArr xs \<Rightarrow> xs | _ \<Rightarrow> [])"
| "object_items _ key = []"

definition event_payload :: "step_event \<Rightarrow> step_journal_event list \<Rightarrow> jsval" where
  "event_payload kind events =
     (case find (\<lambda>e. se_eventType e = kind) events of None \<Rightarrow> JUndefined | Some e \<Rightarrow> se_payload e)"

fun planned_call_of :: "jsval \<Rightarrow> planned_call option" where
  "planned_call_of (JObj kvs) =
     (case (alist_get kvs ''id'', alist_get kvs ''name'') of
        (JStr i, JStr n) \<Rightarrow>
          Some \<lparr>pc_id = i, pc_name = n,
                pc_args = (case alist_get kvs ''args'' of JObj a \<Rightarrow> JObj a | _ \<Rightarrow> JObj [])\<rparr>
      | _ \<Rightarrow> None)"
| "planned_call_of _ = None"

definition readPlannedToolCalls :: "step_journal_event list \<Rightarrow> planned_call list" where
  "readPlannedToolCalls events =
     List.map_filter planned_call_of (object_items (event_payload ToolsPlanned events) ''toolCalls'')"

fun result_summary_of :: "jsval \<Rightarrow> result_summary option" where
  "result_summary_of (JObj kvs) =
     (case (alist_get kvs ''toolCallId'', alist_get kvs ''toolName'', alist_get kvs ''ok'') of
        (JStr i, JStr n, JBool b) \<Rightarrow>
          Some \<lparr>rs_toolCallId = i, rs_toolName = n, rs_ok = b,
                rs_resolution = as_string (alist_get kvs ''resolution'')\<rparr>
      | _ \<Rightarrow> None)"
| "result_summary_of _ = None"

definition readStepToolResults :: "step_journal_event list \<Rightarrow> result_summary list" where
  "readStepToolResults events =
     List.map_filter result_summary_of (object_items (event_payload ToolResult events) ''results'')"

definition resolveToolResultReplayBudgetChars :: "int option \<Rightarrow> int \<Rightarrow> int" where
  "resolveToolResultReplayBudgetChars remainingTokens resultCount =
     (if resultCount \<le> 0 then 0
      else max (resultCount * MIN_TOOL_RESULT_REPLAY_MESSAGE_CHARS)
             (min MAX_TOOL_RESULT_REPLAY_TOTAL_CHARS
               (max 0 (estimated_replay_chars (nullish_else remainingTokens 0)))))"

definition resolveToolResultMessageBudgetChars :: "int \<Rightarrow> int \<Rightarrow> int" where
  "resolveToolResultMessageBudgetChars remainingReplayChars resultsLeft =
     (if resultsLeft \<le> 0 then MIN_TOOL_RESULT_REPLAY_MESSAGE_CHARS
      else max MIN_TOOL_RESULT_REPLAY_MESSAGE_CHARS (max 0 remainingReplayChars div resultsLeft))"

definition truncateText :: "string \<Rightarrow> nat \<Rightarrow> string" where
  "truncateText value maxChars =
     (if length value \<le> maxChars then value
      else if maxChars \<le> 3 then take maxChars value
      else take (maxChars - 3) value @ ''...'')"

text \<open>\<open>JSON.stringify\<close> of a value that is not \<open>undefined\<close>.\<close>

definition stringify :: "jsval \<Rightarrow> string" where
  "stringify v = json_text (json_copy v)"

definition serializeValueForPreview :: "jsval \<Rightarrow> string" where
  "serializeValueForPreview v =
     (case v of JStr s \<Rightarrow> s | JUndefined \<Rightarrow> ''undefined'' | _ \<Rightarrow> stringify v)"

text \<open>The fields that every serialized result starts with.\<close>

definition result_fields :: "tool_result option \<Rightarrow> result_summary \<Rightarrow> json_object" where
  "result_fields result summary =
     (''ok'', JBool (nullish_else (map_option tr_ok result) (rs_ok summary)))
     # (case rs_resolution summary of None \<Rightarrow> []
        | Some r \<Rightarrow> (if r = [] then [] else [(''resolution'', JStr r)]))"

definition result_output :: "tool_result option \<Rightarrow> jsval" where
  "result_output result = (case result of None \<Rightarrow> JUndefined | Some r \<Rightarrow> tr_output r)"

definition preview_of :: "tool_result option \<Rightarrow> (string \<times> string) option" where
  "preview_of result =
     (case Option.bind result tr_error of
        Some e \<Rightarrow> Some (''errorPreview'', e)
      | None \<Rightarrow>
          (if result_output result = JUndefined then None
           else Some (''outputPreview'', serializeValueForPreview (result_output result))))"

definition compact_content ::
  "tool_result option \<Rightarrow> result_summary \<Rightarrow> int \<Rightarrow> (string \<times> string) option \<Rightarrow> nat \<Rightarrow> string" where
  "compact_content result summary originalChars preview previewChars =
     stringify (JObj (result_fields result summary
       @ [(''truncated'', JBool True), (''originalChars'', js_int originalChars)]
       @ (case preview of None \<Rightarrow> []
          | Some (key, source) \<Rightarrow>
              (if 0 < previewChars then [(key, JStr (truncateText source previewChars))] else []))))"

text \<open>The loop that shrinks the preview until the message fits.\<close>

function shrink_preview :: "(nat \<Rightarrow> string) \<Rightarrow> int \<Rightarrow> nat \<Rightarrow> string option" where
  "shrink_preview render maxChars previewChars =
     (let serialized = render previewChars
      in if int (length serialized) \<le> maxChars then Some serialized
         else if previewChars = 0 then None
         else shrink_preview render maxChars
                (nat (max 0 (int previewChars - max (int (length serialized) - maxChars) 16))))"
  by pat_completeness auto
termination by (relation "measure (\<lambda>(_, _, n). n)") auto

declare shrink_preview.simps [simp del]

definition serializeTruncatedToolResultForMessage ::
  "tool_result option \<Rightarrow> result_summary \<Rightarrow> int \<Rightarrow> int \<Rightarrow> string" where
  "serializeTruncatedToolResultForMessage result summary maxChars originalChars =
     (let preview = preview_of result;
          previewSource = (case preview of None \<Rightarrow> [] | Some (_, source) \<Rightarrow> source);
          previewChars = nat (max 0 (min (int (length previewSource)) (max 0 (maxChars - 64))))
      in case shrink_preview (compact_content result summary originalChars preview) maxChars
                previewChars of
           Some content \<Rightarrow> content
         | None \<Rightarrow> stringify (JObj (result_fields result summary @ [(''truncated'', JBool True)])))"

record serialized_result =
  sz_content :: string
  sz_originalChars :: "int option"

text \<open>\<open>sz_originalChars\<close> is given exactly when the content was truncated.\<close>

definition serializeToolResultForMessage ::
  "tool_result option \<Rightarrow> result_summary \<Rightarrow> int \<Rightarrow> serialized_result" where
  "serializeToolResultForMessage result summary maxChars =
     (let serialized = stringify (JObj (result_fields result summary
            @ (if result_output result = JUndefined then []
               else [(''output'', result_output result)])
            @ (case Option.bind result tr_error of None \<Rightarrow> [] | Some e \<Rightarrow> [(''error'', JStr e)])))
      in if int (length serialized) \<le> maxChars
         then \<lparr>sz_content = serialized, sz_originalChars = None\<rparr>
         else \<lparr>sz_content = serializeTruncatedToolResultForMessage result summary maxChars
                  (int (length serialized)),
               sz_originalChars = Some (int (length serialized))\<rparr>)"

definition createToolResultReplayBudgetDegradation ::
  "result_summary \<Rightarrow> serialized_result \<Rightarrow> degrade_surface" where
  "createToolResultReplayBudgetDegradation summary serialized =
     createRuntimeDegradeSurface RuntimeStage RuntimeCategory MinorSeverity ContextPressure
       (''Tool result replay for \"'' @ rs_toolName summary
        @ ''\" was truncated to fit the remaining context budget.'') True None
       (Some ([(''toolCallId'', JStr (rs_toolCallId summary)),
               (''toolName'', JStr (rs_toolName summary)),
               (''replayChars'', js_int (int (length (sz_content serialized))))]
              @ (case sz_originalChars serialized of None \<Rightarrow> []
                 | Some n \<Rightarrow> [(''originalChars'', js_int n)])))"

definition result_by_id :: "tool_result list \<Rightarrow> string \<Rightarrow> tool_result option" where
  "result_by_id results toolCallId = find (\<lambda>r. tr_toolCallId r = toolCallId) (rev results)"

definition tool_message :: "result_summary \<Rightarrow> string \<Rightarrow> model_message" where
  "tool_message summary content =
     \<lparr>mm_role = ToolRole, mm_content = content, mm_name = Some (rs_toolName summary),
      mm_toolCalls = None, mm_toolCallId = Some (rs_toolCallId summary)\<rparr>"

text \<open>The loop over the results of the last step, with the characters that remain.\<close>

fun replay_results ::
  "tool_result list \<Rightarrow> result_summary list \<Rightarrow> int \<Rightarrow> model_message list \<times> degrade_surface list" where
  "replay_results results [] remaining = ([], [])"
| "replay_results results (summary # summaries) remaining =
     (let budget = resolveToolResultMessageBudgetChars remaining (int (length (summary # summaries)));
          serialized = serializeToolResultForMessage
            (result_by_id results (rs_toolCallId summary)) summary budget;
          (messages, degradations) = replay_results results summaries
            (max 0 (remaining - int (length (sz_content serialized))))
      in (tool_message summary (sz_content serialized) # messages,
          (if sz_originalChars serialized = None then []
           else [createToolResultReplayBudgetDegradation summary serialized]) @ degradations))"

definition safeSerializeToolArgs :: "planned_call \<Rightarrow> model_tool_call" where
  "safeSerializeToolArgs call =
     \<lparr>mc_id = pc_id call, mc_name = pc_name call, mc_argumentsJson = stringify (pc_args call)\<rparr>"

definition buildToolContinuationMessages ::
  "step_state \<Rightarrow> int option \<Rightarrow> model_message list \<times> degrade_surface list" where
  "buildToolContinuationMessages st remainingTokens =
     (let planned = readPlannedToolCalls (ls_lastStepEvents st);
          summaries = readStepToolResults (ls_lastStepEvents st)
      in if planned = [] \<or> summaries = [] then ([], [])
         else
           let (messages, degradations) = replay_results (ls_toolResults st) summaries
                 (resolveToolResultReplayBudgetChars remainingTokens (int (length summaries)))
           in (\<lparr>mm_role = AssistantRole, mm_content = ls_output st, mm_name = None,
                mm_toolCalls = Some (map safeSerializeToolArgs planned), mm_toolCallId = None\<rparr>
               # messages, degradations))"

end
