(* ===== verification/Engine_Strategy.thy ===== *)
theory Engine_Strategy
  imports Engine_Steps
begin

text \<open>
  \<open>EngineStepStrategy.runStep\<close> of \<open>packages/engine/src/engine-step-strategy.ts\<close>: what the model's
  output decides, the branch that the tool results put the turn on, and the step itself.
\<close>

section \<open>Decisions\<close>

definition planned_tool_count :: "model_output \<Rightarrow> int" where
  "planned_tool_count modelOutput =
     (case mo_toolCalls modelOutput of None \<Rightarrow> 0 | Some calls \<Rightarrow> int (length calls))"

definition decideReasoningFromModelOutput :: "model_output \<Rightarrow> reasoning_decision" where
  "decideReasoningFromModelOutput modelOutput =
     (if planned_tool_count modelOutput > 0
      then \<lparr>rd_action = CallTools, rd_rationale = ''model requested tool calls'',
            rd_plannedToolCount = planned_tool_count modelOutput\<rparr>
      else \<lparr>rd_action = Finalize,
            rd_rationale = ''model returned final output without tool calls'',
            rd_plannedToolCount = 0\<rparr>)"

definition has_verdict :: "policy_verdict \<Rightarrow> tool_result \<Rightarrow> bool" where
  "has_verdict v result \<longleftrightarrow> map_option pd_verdict (tr_policyDecision result) = Some v"

definition result_failed :: "tool_result \<Rightarrow> bool" where
  "result_failed result \<longleftrightarrow>
     tr_resolution result = Some ToolFailed \<or> \<not> tr_ok result \<and> tr_resolution result = None"

definition result_degraded :: "tool_result \<Rightarrow> bool" where
  "result_degraded result \<longleftrightarrow>
     tr_resolution result = Some ToolDegraded \<or> tr_degradation result \<noteq> None \<or>
     has_verdict PolicyDegrade result"

definition classifyTurnBranch :: "tool_result list \<Rightarrow> turn_branch" where
  "classifyTurnBranch results =
     (if list_ex (\<lambda>r. tr_resolution r = Some ToolDenied \<or> has_verdict PolicyDeny r) results
      then PolicyDenied
      else if list_ex (\<lambda>r. tr_resolution r = Some ToolApprovalRequired \<or> has_verdict PolicyAsk r)
                results
      then ApprovalRequired
      else if list_ex result_failed results then ToolFailedBranch
      else if list_ex result_degraded results then ToolDegradedBranch
      else NormalBranch)"

definition terminal_branch :: "turn_branch \<Rightarrow> bool" where
  "terminal_branch b \<longleftrightarrow> b = PolicyDenied \<or> b = ApprovalRequired \<or> b = ToolFailedBranch"

text \<open>\<open>results.find((result) => !result.ok) ?? results[0]\<close>\<close>

definition primary_result :: "tool_result list \<Rightarrow> tool_result option" where
  "primary_result results =
     nullish (find (\<lambda>r. \<not> tr_ok r) results) (case results of [] \<Rightarrow> None | r # _ \<Rightarrow> Some r)"

definition renderTerminalBranchOutput :: "turn_branch \<Rightarrow> tool_result list \<Rightarrow> string" where
  "renderTerminalBranchOutput b results =
     (let primary = primary_result results;
          toolName = nullish_else (map_option tr_toolName primary) ''unknown-tool'';
          reason = nullish (Option.bind primary tr_error)
                     (Option.bind primary (\<lambda>r. map_option pd_reason (tr_policyDecision r)));
          suffix = (case reason of None \<Rightarrow> [] | Some t \<Rightarrow> (if t = [] then [] else '' '' @ t))
      in js_trim (''Stopped: tool \"'' @ toolName
           @ (if b = PolicyDenied then ''\" was denied by policy.''
              else if b = ApprovalRequired then ''\" requires approval before execution.''
              else ''\" failed.'')
           @ suffix))"

section \<open>Events of a step\<close>

definition context_built_event :: "prompt_artifacts \<Rightarrow> step_journal_event" where
  "context_built_event prompt =
     \<lparr>se_eventType = ContextBuilt,
      se_payload = JObj
        [(''staticSections'', JArr (pa_staticSections prompt)),
         (''staticSectionIds'', js_texts (pa_staticSectionIds prompt)),
         (''dynamicSections'', JArr (pa_dynamicSections prompt)),
         (''dynamicSectionIds'', js_texts (pa_dynamicSectionIds prompt)),
         (''omittedSections'', JArr (pa_omittedSections prompt)),
         (''omittedSectionIds'', js_texts (pa_omittedSectionIds prompt)),
         (''usedTokens'', js_int (pa_usedTokens prompt)),
         (''remainingTokens'', js_int (pa_remainingTokens prompt)),
         (''runtimeDegradations'',
            JArr (map safe_degradation (nullish_else (pa_runtimeDegradations prompt) [])))]\<rparr>"

fun reasoning_action_str :: "reasoning_action \<Rightarrow> string" where
  "reasoning_action_str CallTools = ''call-tools''"
| "reasoning_action_str Finalize = ''finalize''"

definition model_output_event :: "model_output \<Rightarrow> reasoning_decision \<Rightarrow> step_journal_event" where
  "model_output_event modelOutput decision =
     \<lparr>se_eventType = ModelOutput,
      se_payload = JObj
        [(''text'', JStr (mo_text modelOutput)),
         (''toolCallCount'', js_int (planned_tool_count modelOutput)),
         (''reasoning'', JObj
            [(''action'', JStr (reasoning_action_str (rd_action decision))),
             (''rationale'', JStr (rd_rationale decision)),
             (''plannedToolCount'', js_int (rd_plannedToolCount decision))])]\<rparr>"

text \<open>\<open>JSON.parse\<close> of the model's arguments; what is not an object counts as no arguments.\<close>

definition safeParseToolArgs :: "(string \<Rightarrow> jsval option) \<Rightarrow> string \<Rightarrow> jsval" where
  "safeParseToolArgs parse argumentsJson =
     (case parse argumentsJson of Some (JObj kvs) \<Rightarrow> JObj kvs | _ \<Rightarrow> JObj [])"

definition tools_planned_event :: "(string \<Rightarrow> jsval option) \<Rightarrow> model_output \<Rightarrow> step_journal_event"
where
  "tools_planned_event parse modelOutput =
     \<lparr>se_eventType = ToolsPlanned,
      se_payload = JObj [(''toolCalls'',
        JArr (map (\<lambda>c. JObj [(''id'', JStr (mc_id c)), (''name'', JStr (mc_name c)),
                             (''args'', safeParseToolArgs parse (mc_argumentsJson c))])
               (nullish_else (mo_toolCalls modelOutput) [])))]\<rparr>"

definition result_record :: "tool_result \<Rightarrow> jsval" where
  "result_record r =
     JObj [(''toolCallId'', JStr (tr_toolCallId r)), (''toolName'', JStr (tr_toolName r)),
           (''ok'', JBool (tr_ok r)),
           (''resolution'', JStr (resolution_str (nullish_else (tr_resolution r) ToolExecuted)))]"

definition tool_result_event :: "turn_branch \<Rightarrow> tool_result list \<Rightarrow> step_journal_event" where
  "tool_result_event b results =
     \<lparr>se_eventType = ToolResult,
      se_payload = JObj [(''turnBranch'', JStr (turn_branch_str b)),
                         (''results'', JArr (map result_record results))]\<rparr>"

definition final_output_event :: "string \<Rightarrow> turn_branch option \<Rightarrow> step_journal_event" where
  "final_output_event text b =
     \<lparr>se_eventType = FinalOutput,
      se_payload = JObj ((''text'', JStr text)
        # (case b of None \<Rightarrow> [] | Some t \<Rightarrow> [(''turnBranch'', JStr (turn_branch_str t))]))\<rparr>"

section \<open>The step\<close>

text \<open>The request of the step and the degradations known when it is sent.\<close>

definition model_request_of ::
  "'s step_deps \<Rightarrow> prompt_artifacts \<Rightarrow> step_state \<Rightarrow> tool_schema_descriptor list \<Rightarrow>
   model_request \<times> degrade_surface list" where
  "model_request_of deps prompt st toolSchemas =
     (let (messages, degradations) =
            buildToolContinuationMessages st (Some (pa_remainingTokens prompt));
          text = (\<lambda>role content. \<lparr>mm_role = role, mm_content = content, mm_name = None,
                                  mm_toolCalls = None, mm_toolCallId = None\<rparr>)
      in (\<lparr>mq_providerId = lc_providerId (sd_context deps),
           mq_model = lc_model (sd_context deps),
           mq_messages =
             text SystemRole (if pa_staticPrompt prompt = [] then ''You are Hotflow.''
                              else pa_staticPrompt prompt)
             # text UserRole (if pa_dynamicPrompt prompt = [] then sd_userText deps
                              else pa_dynamicPrompt prompt)
             # messages,
           mq_tools = (if toolSchemas = [] then None else Some toolSchemas)\<rparr>,
          mergeRuntimeDegradations
            (nullish_else (pa_runtimeDegradations prompt) (ls_runtimeDegradations st))
            degradations))"

definition call_model ::
  "'s step_deps \<Rightarrow> model_request \<Rightarrow> degrade_surface list \<Rightarrow> 's \<Rightarrow> (engine_error + model_output) \<times> 's"
where
  "call_model deps request degradations s =
     (case sd_modelRuntimeGenerate deps request s of
        (Inl e, s') \<Rightarrow> (Inl (EngineModelRuntimeFailure e degradations), s')
      | (Inr modelOutput, s') \<Rightarrow> (Inr modelOutput, s'))"

definition final_step ::
  "step_state \<Rightarrow> degrade_surface list \<Rightarrow> reasoning_decision \<Rightarrow> step_journal_event list \<Rightarrow>
   model_output \<Rightarrow> step_state iteration_result" where
  "final_step st degradations decision events modelOutput =
     \<lparr>ir_state =
        \<lparr>ls_output = mo_text modelOutput, ls_toolResults = ls_toolResults st,
         ls_runtimeDegradations = degradations, ls_lastReasoningDecision = Some decision,
         ls_lastStepEvents = events @ [final_output_event (mo_text modelOutput) None],
         ls_lastTurnBranch = ls_lastTurnBranch st\<rparr>,
      ir_continueLoop = False\<rparr>"

text \<open>What follows the tools: the turn stops on a terminal branch and goes on otherwise.\<close>

definition tool_step ::
  "(string \<Rightarrow> jsval option) \<Rightarrow> step_state \<Rightarrow> degrade_surface list \<Rightarrow> reasoning_decision \<Rightarrow>
   step_journal_event list \<Rightarrow> model_output \<Rightarrow> tool_result list \<Rightarrow> step_state iteration_result" where
  "tool_step parse st degradations decision events modelOutput stepResults =
     (let b = classifyTurnBranch stepResults;
          planned = tools_planned_event parse modelOutput;
          recorded = tool_result_event b stepResults;
          next = \<lparr>ls_output = mo_text modelOutput,
                  ls_toolResults = ls_toolResults st @ stepResults,
                  ls_runtimeDegradations = degradations,
                  ls_lastReasoningDecision = Some decision,
                  ls_lastStepEvents = events @ [planned, recorded],
                  ls_lastTurnBranch = b\<rparr>
      in if terminal_branch b
         then let terminalOutput = renderTerminalBranchOutput b stepResults
              in \<lparr>ir_state = next\<lparr>ls_output := terminalOutput,
                    ls_lastStepEvents :=
                      events @ [planned, recorded, final_output_event terminalOutput (Some b)]\<rparr>,
                  ir_continueLoop = False\<rparr>
         else \<lparr>ir_state = next, ir_continueLoop = True\<rparr>)"

definition after_model ::
  "'s step_deps \<Rightarrow> step_state \<Rightarrow> step_journal_event \<Rightarrow> degrade_surface list \<Rightarrow> model_output \<Rightarrow> 's \<Rightarrow>
   (engine_error + step_state iteration_result) \<times> 's" where
  "after_model deps st contextBuilt degradations modelOutput s =
     (let decision = nullish_else (sd_decideReasoning deps) decideReasoningFromModelOutput modelOutput;
          events = [contextBuilt, model_output_event modelOutput decision]
      in if rd_action decision \<noteq> CallTools
         then (Inr (final_step st degradations decision events modelOutput), s)
         else chain (sd_executeToolCalls deps modelOutput s) (\<lambda>stepResults s1.
                (Inr (tool_step (sd_parse deps) st degradations decision events modelOutput
                        stepResults), s1)))"

definition runStep ::
  "'s step_deps \<Rightarrow> int \<Rightarrow> int \<Rightarrow> step_state \<Rightarrow> 's \<Rightarrow>
   (engine_error + step_state iteration_result) \<times> 's" where
  "runStep deps stepIndex maxSteps st s =
     (let taskState = sd_taskState deps s;
          toolSchemas = sd_getSchemas deps s
      in chain (sd_buildPrompt deps taskState (ls_toolResults st) (ls_runtimeDegradations st)
                  toolSchemas s) (\<lambda>prompt s1.
         chain (sd_onContextBuilt deps stepIndex (context_built_event prompt) (ls_output st)
                  taskState s1) (\<lambda>_ s2.
         let (request, degradations) = model_request_of deps prompt st toolSchemas
         in chain (call_model deps request degradations s2) (\<lambda>modelOutput s3.
              after_model deps st (context_built_event prompt) degradations modelOutput s3))))"

end
