(* ===== verification/Engine_Stream.thy ===== *)
theory Engine_Stream
  imports Engine_Strategy
begin

text \<open>
  The stream recorder of a turn, \<open>packages/engine/src/turn-stream-recorder.ts\<close>: the events it
  appends to the session's stream journal and the state it keeps, which a new recorder of the same
  turn restores from the stored events. Its clock is the store's.
\<close>

section \<open>Kinds and state\<close>

datatype stream_kind =
    StartedKind | ChunkKind | ReasoningKind | ToolCallKind | InterruptedKind | ResumedKind
  | ErrorKind | AbortedKind | CompletedKind

fun stream_kind_str :: "stream_kind \<Rightarrow> string" where
  "stream_kind_str StartedKind = ''stream.started''"
| "stream_kind_str ChunkKind = ''stream.chunk''"
| "stream_kind_str ReasoningKind = ''stream.reasoning''"
| "stream_kind_str ToolCallKind = ''stream.tool-call''"
| "stream_kind_str InterruptedKind = ''stream.interrupted''"
| "stream_kind_str ResumedKind = ''stream.resumed''"
| "stream_kind_str ErrorKind = ''stream.error''"
| "stream_kind_str AbortedKind = ''stream.aborted''"
| "stream_kind_str CompletedKind = ''stream.completed''"

definition TERMINAL_STREAM_KINDS :: "stream_kind list" where
  "TERMINAL_STREAM_KINDS = [CompletedKind, AbortedKind]"

record recorder_state =
  rc_sequence :: int
  rc_chunkIndex :: int
  rc_started :: bool
  rc_interrupted :: bool
  rc_reasoningRecorded :: bool
  rc_terminal :: bool

text \<open>What the closure of \<open>createTurnStreamRecorder\<close> holds besides the state.\<close>

record recorder =
  rc_sessionId :: string
  rc_turnId :: string

type_synonym 'a recording =
  "recorder_state \<times> session_store \<Rightarrow> (session_error + 'a) \<times> (recorder_state \<times> session_store)"

section \<open>Appending\<close>

text \<open>The state after an event of a kind was stored.\<close>

definition advance_recorder :: "stream_kind \<Rightarrow> recorder_state \<Rightarrow> recorder_state" where
  "advance_recorder kind st =
     (let st = st\<lparr>rc_sequence := rc_sequence st + 1\<rparr>
      in case kind of
           StartedKind \<Rightarrow> st\<lparr>rc_started := True\<rparr>
         | ChunkKind \<Rightarrow> st\<lparr>rc_chunkIndex := rc_chunkIndex st + 1\<rparr>
         | InterruptedKind \<Rightarrow> st\<lparr>rc_interrupted := True\<rparr>
         | ResumedKind \<Rightarrow> st\<lparr>rc_interrupted := False\<rparr>
         | _ \<Rightarrow> (if kind \<in> set TERMINAL_STREAM_KINDS
                then st\<lparr>rc_interrupted := False, rc_terminal := True\<rparr> else st))"

definition stream_event_id :: "string \<Rightarrow> stream_kind \<Rightarrow> int \<Rightarrow> string" where
  "stream_event_id turnId kind sequence =
     ''stream_'' @ turnId @ ''_'' @ stream_kind_str kind @ ''_'' @ js_show sequence"

definition stream_event :: "recorder \<Rightarrow> stream_kind \<Rightarrow> jsval \<Rightarrow> int \<Rightarrow> int \<Rightarrow> scoped_input" where
  "stream_event r kind payload sequence occurredAtMs =
     \<lparr>sx_event = JObj
        [(''id'', JStr (stream_event_id (rc_turnId r) kind sequence)),
         (''kind'', JStr (stream_kind_str kind)),
         (''schemaVersion'', JStr CONTRACTS_SCHEMA_VERSION),
         (''occurredAtMs'', js_int occurredAtMs), (''payload'', payload)],
      sx_turnId = Some (rc_turnId r), sx_schemaVersion = None,
      sx_createdAtMs = Some occurredAtMs\<rparr>"

definition append_stream :: "recorder \<Rightarrow> stream_kind \<Rightarrow> jsval \<Rightarrow> unit recording" where
  "append_stream r kind payload =
     (\<lambda>(st, s).
        if rc_terminal st then (Inr (), (st, s))
        else (case storeAppendStreamEvent (rc_sessionId r)
                     (stream_event r kind payload (rc_sequence st) (store_time s)) (store_tick s) of
                (Inl e, s') \<Rightarrow> (Inl e, (st, s'))
              | (Inr _, s') \<Rightarrow> (Inr (), (advance_recorder kind st, s'))))"

definition turn_fields :: "recorder \<Rightarrow> json_object \<Rightarrow> jsval" where
  "turn_fields r kvs = JObj ((''turnId'', JStr (rc_turnId r)) # kvs)"

definition append_started :: "recorder \<Rightarrow> unit recording" where
  "append_started r = append_stream r StartedKind (turn_fields r [])"

definition appendChunk :: "recorder \<Rightarrow> string \<Rightarrow> unit recording" where
  "appendChunk r delta =
     (\<lambda>(st, s).
        if length delta = 0 then (Inr (), (st, s))
        else append_stream r ChunkKind
               (turn_fields r [(''index'', js_int (rc_chunkIndex st)), (''delta'', JStr delta)]) (st, s))"

definition appendInterrupted :: "recorder \<Rightarrow> string \<Rightarrow> bool \<Rightarrow> unit recording" where
  "appendInterrupted r reason resumable =
     append_stream r InterruptedKind
       (turn_fields r [(''reason'', JStr reason), (''resumable'', JBool resumable)])"

definition appendResumed :: "recorder \<Rightarrow> string \<Rightarrow> unit recording" where
  "appendResumed r reason = append_stream r ResumedKind (turn_fields r [(''reason'', JStr reason)])"

datatype finish_reason = FinishStop | FinishLength | FinishError

fun finish_reason_str :: "finish_reason \<Rightarrow> string" where
  "finish_reason_str FinishStop = ''stop''"
| "finish_reason_str FinishLength = ''length''"
| "finish_reason_str FinishError = ''error''"

definition appendCompleted :: "recorder \<Rightarrow> finish_reason \<Rightarrow> unit recording" where
  "appendCompleted r reason =
     append_stream r CompletedKind
       (turn_fields r [(''finishReason'', JStr (finish_reason_str reason))])"

text \<open>Appends in a row; the first that throws ends it.\<close>

definition then_append :: "unit recording \<Rightarrow> unit recording \<Rightarrow> unit recording" where
  "then_append f g = (\<lambda>x. chain (f x) (\<lambda>_ x'. g x'))"

fun append_each :: "('a \<Rightarrow> unit recording) \<Rightarrow> 'a list \<Rightarrow> unit recording" where
  "append_each f [] = Pair (Inr ())"
| "append_each f (a # as) = then_append (f a) (append_each f as)"

definition skip_append :: "unit recording" where
  "skip_append = Pair (Inr ())"

text \<open>A choice made on the recorder's state at that point.\<close>

definition on_state :: "(recorder_state \<Rightarrow> unit recording) \<Rightarrow> unit recording" where
  "on_state f = (\<lambda>(st, s). f st (st, s))"

section \<open>Reading the events of a step\<close>

fun text_of_payload :: "jsval \<Rightarrow> string option" where
  "text_of_payload (JObj kvs) = as_string (alist_get kvs ''text'')"
| "text_of_payload _ = None"

definition readStepModelOutputText :: "step_journal_event list \<Rightarrow> string option" where
  "readStepModelOutputText events = text_of_payload (event_payload ModelOutput events)"

definition readStepFinalOutputText :: "step_journal_event list \<Rightarrow> string option" where
  "readStepFinalOutputText events = text_of_payload (event_payload FinalOutput events)"

fun toJsonObject :: "jsval \<Rightarrow> jsval" where
  "toJsonObject (JObj kvs) = toJsonSafe (JObj kvs)"
| "toJsonObject _ = JObj []"

fun stream_call_of :: "jsval \<Rightarrow> planned_call option" where
  "stream_call_of (JObj kvs) =
     (case (alist_get kvs ''id'', alist_get kvs ''name'') of
        (JStr i, JStr n) \<Rightarrow>
          Some \<lparr>pc_id = i, pc_name = n, pc_args = toJsonObject (alist_get kvs ''args'')\<rparr>
      | _ \<Rightarrow> None)"
| "stream_call_of _ = None"

definition readStepPlannedTools :: "step_journal_event list \<Rightarrow> planned_call list" where
  "readStepPlannedTools events =
     List.map_filter stream_call_of (object_items (event_payload ToolsPlanned events) ''toolCalls'')"

fun resolveTerminalResumeReason :: "turn_branch \<Rightarrow> string" where
  "resolveTerminalResumeReason PolicyDenied = ''policy denied tool execution''"
| "resolveTerminalResumeReason ApprovalRequired = ''approval required before tool execution''"
| "resolveTerminalResumeReason ToolFailedBranch = ''tool execution failed''"
| "resolveTerminalResumeReason ToolDegradedBranch = ''tool execution degraded''"
| "resolveTerminalResumeReason NormalBranch = ''tool boundary cleared''"

section \<open>The recorder's methods\<close>

text \<open>The choice of a reasoning strategy, as the contracts package serializes it.\<close>

record reasoning_selection =
  rn_journal :: "json_object"
  rn_decision :: jsval
  rn_summary :: string
  rn_observation :: jsval

definition recordReasoning :: "recorder \<Rightarrow> reasoning_selection \<Rightarrow> unit recording" where
  "recordReasoning r reasoning =
     on_state (\<lambda>st.
       if rc_terminal st \<or> rc_reasoningRecorded st then skip_append
       else then_append
              (then_append (if rc_started st then skip_append else append_started r)
                (append_stream r ReasoningKind
                  (turn_fields r [(''decision'', rn_decision reasoning),
                                  (''summary'', JStr (rn_summary reasoning))])))
              (\<lambda>(st', s). (Inr (), (st'\<lparr>rc_reasoningRecorded := True\<rparr>, s))))"

definition beforeModelCall :: "recorder \<Rightarrow> string option \<Rightarrow> unit recording" where
  "beforeModelCall r reason =
     on_state (\<lambda>st.
       if rc_terminal st then skip_append
       else if \<not> rc_started st then append_started r
       else if rc_interrupted st
       then appendResumed r (nullish_else reason ''tool boundary cleared'')
       else skip_append)"

definition append_tool_call :: "recorder \<Rightarrow> planned_call \<Rightarrow> unit recording" where
  "append_tool_call r call =
     (\<lambda>(st, s). append_stream r ToolCallKind
        (turn_fields r [(''call'', JObj
          [(''callId'', JStr (pc_id call)),
           (''tool'', JObj [(''name'', JStr (pc_name call)), (''version'', JStr ''unspecified''),
                            (''kind'', JStr ''function''), (''timeoutMs'', js_int 0),
                            (''parameters'', JArr [])]),
           (''args'', pc_args call), (''startedAtMs'', js_int (store_time s))])]) (st, store_tick s))"

definition append_text :: "recorder \<Rightarrow> string option \<Rightarrow> unit recording" where
  "append_text r text = (case text of None \<Rightarrow> skip_append | Some t \<Rightarrow> appendChunk r t)"

definition append_closing ::
  "recorder \<Rightarrow> step_journal_event list \<Rightarrow> turn_branch \<Rightarrow> unit recording" where
  "append_closing r events b =
     (let finalText = readStepFinalOutputText events;
          modelText = readStepModelOutputText events
      in if finalText \<noteq> None \<and> finalText \<noteq> Some []
         then then_append (appendResumed r (resolveTerminalResumeReason b))
                (if finalText \<noteq> modelText then append_text r finalText else skip_append)
         else skip_append)"

definition recordStep ::
  "recorder \<Rightarrow> bool \<Rightarrow> step_journal_event list \<Rightarrow> turn_branch \<Rightarrow> unit recording" where
  "recordStep r continueLoop events b =
     on_state (\<lambda>st.
       let modelText = readStepModelOutputText events;
           planned = readStepPlannedTools events;
           finalText = readStepFinalOutputText events;
           closure = finalText \<noteq> None \<and> finalText \<noteq> Some []
       in if rc_terminal st then skip_append
          else if planned = []
          then then_append (append_text r (nullish finalText modelText))
                 (appendCompleted r FinishStop)
          else then_append (append_text r modelText)
                 (then_append (append_each (append_tool_call r) planned)
                   (then_append (appendInterrupted r ''tool_boundary'' (continueLoop \<or> closure))
                     (if continueLoop then skip_append
                      else then_append (append_closing r events b)
                             (appendCompleted r FinishStop)))))"

definition serializeFailureError :: "contract_error \<Rightarrow> jsval" where
  "serializeFailureError e =
     JObj ([(''code'', JStr (error_code_str (ce_code e))), (''message'', JStr (ce_message e)),
            (''retryable'', JBool (ce_retryable e)),
            (''kind'', JStr (failure_kind_str (ce_kind e))),
            (''defaultAction'', JStr (recovery_action_str (ce_defaultAction e)))]
           @ (case ce_metadata e of None \<Rightarrow> [] | Some m \<Rightarrow> [(''metadata'', toJsonSafe (JObj m))]))"

definition recordFailure :: "recorder \<Rightarrow> 'b error_surface_scheme \<Rightarrow> unit recording" where
  "recordFailure r failure =
     on_state (\<lambda>st.
       let err = serializeFailureError (es_error failure)
       in if rc_terminal st then skip_append
          else then_append (if rc_started st then skip_append else append_started r)
                 (then_append (append_stream r ErrorKind (turn_fields r [(''error'', err)]))
                   (append_stream r AbortedKind (turn_fields r
                     [(''failure'', JObj
                        ([(''stage'', JStr (runtime_stage_str (es_stage failure))),
                          (''kind'', JStr (failure_kind_str (es_kind failure))),
                          (''action'', JStr (recovery_action_str (es_action failure))),
                          (''recoverable'', JBool (es_recoverable failure))]
                         @ (case es_operatorVisible failure of None \<Rightarrow> []
                            | Some b \<Rightarrow> [(''operatorVisible'', JBool b)])
                         @ [(''error'', err)]))]))))"

definition completeTurn :: "recorder \<Rightarrow> finish_reason \<Rightarrow> unit recording" where
  "completeTurn r reason =
     on_state (\<lambda>st. if rc_terminal st then skip_append else appendCompleted r reason)"

section \<open>Restoring a recorder\<close>

fun chunk_position :: "event_envelope \<Rightarrow> int option" where
  "chunk_position e =
     (if en_kind e \<noteq> ''stream.chunk'' then None
      else (case en_payload e of
              JObj kvs \<Rightarrow> map_option (\<lambda>n. n + 1) (as_finite (alist_get kvs ''index''))
            | _ \<Rightarrow> None))"

definition restoreRecorderState :: "event_envelope list \<Rightarrow> recorder_state" where
  "restoreRecorderState entries =
     (let kinds = map en_kind entries; lastEventKind = last_opt kinds
      in \<lparr>rc_sequence = int (length entries),
          rc_chunkIndex =
            foldl (\<lambda>i e. case chunk_position e of None \<Rightarrow> i | Some n \<Rightarrow> max i n) 0 entries,
          rc_started = (''stream.started'' \<in> set kinds),
          rc_interrupted = (lastEventKind = Some ''stream.interrupted''),
          rc_reasoningRecorded = (''stream.reasoning'' \<in> set kinds),
          rc_terminal = (case lastEventKind of None \<Rightarrow> False
             | Some k \<Rightarrow> k \<in> stream_kind_str ` set TERMINAL_STREAM_KINDS)\<rparr>)"

definition createTurnStreamRecorder ::
  "recorder \<Rightarrow> session_store \<Rightarrow> session_error + recorder_state" where
  "createTurnStreamRecorder r s =
     map_sum id (\<lambda>entries. restoreRecorderState (map sz_event entries))
       (journalListStreamEvents (rc_sessionId r) no_options (Some (rc_turnId r)) (st_db s))"

end
