(* ===== verification/Engine_State.thy ===== *)
theory Engine_State
  imports Engine_Stream
begin

text \<open>
  The pure functions of \<open>packages/engine/src/engine.ts\<close>: the state of a turn that is persisted and
  the reducer that rebuilds it from the journal, the tool results read back from it, and the
  observation of the latest turn that goes into the session's metadata.
\<close>

section \<open>The persisted turn state\<close>

definition coerce_text :: "jsval \<Rightarrow> string" where
  "coerce_text v = (case v of JStr s \<Rightarrow> js_trim s | _ \<Rightarrow> [])"

fun coercePersistedTaskItem :: "jsval \<Rightarrow> nat \<Rightarrow> task_item option" where
  "coercePersistedTaskItem (JObj source) fallbackIndex =
     (let content = coerce_text (alist_get source ''content'')
      in if content = [] then None
         else Some
           \<lparr>ti_id = (case alist_get source ''id'' of
                       JStr s \<Rightarrow> (if 0 < length s then s
                                  else ''todo-'' @ show_nat (fallbackIndex + 1))
                     | _ \<Rightarrow> ''todo-'' @ show_nat (fallbackIndex + 1)),
            ti_content = content,
            ti_status = nullish_else (asTaskItemStatus (alist_get source ''status'')) Todo,
            ti_priority = asTaskPriority (alist_get source ''priority'')\<rparr>)"
| "coercePersistedTaskItem _ fallbackIndex = None"

definition coerce_items :: "nat \<Rightarrow> jsval list \<Rightarrow> task_item list" where
  "coerce_items start raw =
     List.map_filter (\<lambda>(i, v). coercePersistedTaskItem v i) (enumerate start raw)"

definition coercePersistedTaskState :: "jsval \<Rightarrow> task_state" where
  "coercePersistedTaskState value =
     \<lparr>ts_items = coerce_items 0 (object_items value ''items''),
      ts_updatedAtMs = (case value of
         JObj kvs \<Rightarrow> as_finite (alist_get kvs ''updatedAtMs'') | _ \<Rightarrow> None)\<rparr>"

definition toTaskState :: "task_state \<Rightarrow> task_state" where
  "toTaskState state =
     \<lparr>ts_items = map (\<lambda>item. \<lparr>ti_id = ti_id item, ti_content = ti_content item,
                             ti_status = ti_status item, ti_priority = ti_priority item\<rparr>)
                   (ts_items state),
      ts_updatedAtMs = ts_updatedAtMs state\<rparr>"

definition toPersistedTurnState :: "task_state \<Rightarrow> string \<Rightarrow> jsval" where
  "toPersistedTurnState taskState lastAssistantOutput =
     JObj [(''tasks'', js_of_task_state (coercePersistedTaskState (js_of_task_state taskState))),
           (''lastAssistantOutput'', JStr lastAssistantOutput)]"

definition INITIAL_TURN_STATE :: jsval where
  "INITIAL_TURN_STATE = JObj [(''tasks'', JObj [(''items'', JArr [])])]"

definition decodeTaskTodoWritePayload :: "jsval \<Rightarrow> task_state option" where
  "decodeTaskTodoWritePayload payload =
     (case decodeTaskEvent ''tasks.todo_write'' payload None of
        Some event \<Rightarrow>
          (case te_payload event of
             TodoWrite state \<Rightarrow> Some (coercePersistedTaskState (js_of_task_state state))
           | _ \<Rightarrow> None)
      | None \<Rightarrow> None)"

text \<open>The canonical payload of a todo write; \<open>createTaskEvent\<close> throws when it rejects it.\<close>

definition encodeTaskTodoWritePayload :: "jsval \<Rightarrow> js_error + jsval" where
  "encodeTaskTodoWritePayload payload =
     (let decoded = nullish_else (decodeTaskTodoWritePayload payload)
                      (coercePersistedTaskState payload)
      in map_sum id (\<lambda>event. toJsonSafe (js_of_payload (te_payload event)))
           (createTaskEvent (TodoWrite (toTaskState decoded)) None))"

text \<open>\<open>String(value)\<close>\<close>

fun js_String :: "jsval \<Rightarrow> string"
  and js_String_items :: "jsval list \<Rightarrow> string list"
where
  "js_String (JStr s) = s"
| "js_String (JNum n) = show_num n"
| "js_String (JBool b) = (if b then ''true'' else ''false'')"
| "js_String JNull = ''null''"
| "js_String JUndefined = ''undefined''"
| "js_String (JObj kvs) = ''[object Object]''"
| "js_String (JArr xs) = js_join '','' (js_String_items xs)"
| "js_String_items [] = []"
| "js_String_items (x # xs) =
     (if x = JNull \<or> x = JUndefined then [] else js_String x) # js_String_items xs"

fun put_field :: "string \<Rightarrow> jsval \<Rightarrow> jsval \<Rightarrow> jsval" where
  "put_field k v (JObj kvs) = JObj (obj_put k v kvs)"
| "put_field k v _ = JObj [(k, v)]"

text \<open>The reducer of the recovery. The payloads of \<open>assistant.output\<close> entries are objects.\<close>

definition persistTurnStateReducer :: reducer where
  "persistTurnStateReducer state event =
     (if jn_eventType event = ''tasks.todo_write''
      then (case decodeTaskTodoWritePayload (jn_payload event) of
              None \<Rightarrow> state
            | Some decoded \<Rightarrow> put_field ''tasks'' (js_of_task_state decoded) state)
      else if jn_eventType event = ''assistant.output''
      then let t = js_get (jn_payload event) ''text''
           in put_field ''lastAssistantOutput''
                (JStr (if t = JNull \<or> t = JUndefined then [] else js_String t)) state
      else state)"

definition turn_options :: "jsval \<Rightarrow> recover_options" where
  "turn_options initialState =
     \<lparr>ro_expectedSchemaVersion = None, ro_reducer = Some persistTurnStateReducer,
      ro_initialState = Some initialState\<rparr>"

text \<open>Reading a state of the asserted type: its last output and its tasks. A state without a task
  list makes \<open>toTaskState\<close> throw.\<close>

definition state_output :: "jsval \<Rightarrow> string" where
  "state_output state = nullish_else (as_string (js_get state ''lastAssistantOutput'')) []"

definition taskBoardFromState :: "jsval \<Rightarrow> (nat \<Rightarrow> int) \<Rightarrow> thrown + board" where
  "taskBoardFromState state clock =
     (case asTaskState (js_get state ''tasks'') of
        None \<Rightarrow> Inl (ErrorThrown ''Cannot read properties of undefined'')
      | Some tasks \<Rightarrow> Inr (newTaskBoard (TodoSeed (toTaskState tasks)) clock None))"

section \<open>Tool results read back\<close>

definition toRecoveredToolResult :: "jsval \<Rightarrow> nat \<Rightarrow> tool_result option" where
  "toRecoveredToolResult payload index =
     (case payload of
        JObj source \<Rightarrow>
          (case (alist_get source ''toolName'', alist_get source ''ok'') of
             (JStr toolName, JBool ok) \<Rightarrow>
               Some \<lparr>tr_toolCallId =
                       (case alist_get source ''toolCallId'' of
                          JStr s \<Rightarrow> (if 0 < length s then s
                                     else ''recovered-tool-result-'' @ show_nat (index + 1))
                        | _ \<Rightarrow> ''recovered-tool-result-'' @ show_nat (index + 1)),
                     tr_toolName = toolName, tr_ok = ok,
                     tr_output = alist_get source ''output'',
                     tr_error = as_string (alist_get source ''error''),
                     tr_resolution = None, tr_degradation = None, tr_policyDecision = None,
                     tr_metadata = None\<rparr>
           | _ \<Rightarrow> None)
      | _ \<Rightarrow> None)"

definition readRecoveredToolResults :: "journal_entry list \<Rightarrow> string \<Rightarrow> tool_result list" where
  "readRecoveredToolResults journal turnId =
     List.map_filter
       (\<lambda>(index, entry).
          if jn_turnId entry \<noteq> Some turnId \<or> jn_eventType entry \<noteq> ''tool.result'' then None
          else toRecoveredToolResult (jn_payload entry) index)
       (enumerate 0 journal)"

section \<open>Texts\<close>

definition truncateHandoffText :: "string \<Rightarrow> nat \<Rightarrow> string" where
  "truncateHandoffText value maxLength =
     (let normalized = js_trim (collapse_spaces False value)
      in if length normalized \<le> maxLength then normalized
         else js_trim (take (maxLength - 3) normalized) @ ''...'')"

section \<open>Tool observations for the prompt\<close>

record tool_observation =
  ob_toolName :: string
  ob_ok :: bool
  ob_resolution :: "tool_resolution option"
  ob_error :: "string option"
  ob_metadataPreview :: "(string \<times> string) list option"
  ob_degradation :: "degrade_surface option"
  ob_policyDecision :: "(policy_verdict \<times> string) option"

definition summarizeToolAvailabilityReason :: "jsval \<Rightarrow> string option" where
  "summarizeToolAvailabilityReason value =
     (if value = JStr ''missing_required_env'' then Some ''missing-env''
      else if value = JStr ''check_unavailable'' then Some ''check-unavailable''
      else if value = JStr ''check_error'' then Some ''check-error'' else None)"

definition non_blank_text :: "jsval \<Rightarrow> string option" where
  "non_blank_text value =
     (case value of JStr s \<Rightarrow> (if 0 < length (js_trim s) then Some s else None) | _ \<Rightarrow> None)"

definition summarizePreviewList :: "jsval \<Rightarrow> string option" where
  "summarizePreviewList value =
     (case value of
        JArr xs \<Rightarrow>
          (let uniqueItems = js_unique (List.map_filter non_blank_text xs);
               previewed = take 2 uniqueItems
           in if uniqueItems = [] then None
              else Some (js_join '','' previewed
                     @ (if length uniqueItems > length previewed
                        then ''(+'' @ show_nat (length uniqueItems - length previewed) @ '')''
                        else [])))
      | _ \<Rightarrow> None)"

definition preview_entry :: "string \<Rightarrow> string option \<Rightarrow> (string \<times> string) list" where
  "preview_entry key value = (case value of None \<Rightarrow> [] | Some v \<Rightarrow> [(key, v)])"

definition createToolObservationMetadataPreview ::
  "json_object option \<Rightarrow> (string \<times> string) list option" where
  "createToolObservationMetadataPreview metadata =
     (case metadata of
        None \<Rightarrow> None
      | Some m \<Rightarrow>
          let entries =
                preview_entry ''availability''
                  (summarizeToolAvailabilityReason (alist_get m ''availabilityReason''))
                @ preview_entry ''env'' (summarizePreviewList (alist_get m ''missingEnvVars''))
                @ preview_entry ''timeout''
                    (map_option (\<lambda>n. js_show n @ ''ms'') (as_finite (alist_get m ''timeoutMs'')))
                @ preview_entry ''validation''
                    (map_option (\<lambda>_. ''invalid-input'')
                       (non_blank_text (alist_get m ''validationError'')))
                @ preview_entry ''blocked''
                    (summarizePreviewList (alist_get m ''blockedCapabilities''))
                @ preview_entry ''degraded''
                    (summarizePreviewList (alist_get m ''degradedCapabilities''))
                @ preview_entry ''approval'' (non_blank_text (alist_get m ''approvalStatus''))
                @ preview_entry ''risk'' (non_blank_text (alist_get m ''riskLevel''))
                @ preview_entry ''threshold'' (non_blank_text (alist_get m ''requiredAtOrAbove''))
          in if entries = [] then None else Some entries)"

definition createToolRuntimePromptObservations :: "tool_result list \<Rightarrow> tool_observation list" where
  "createToolRuntimePromptObservations toolResults =
     map (\<lambda>r. \<lparr>ob_toolName = tr_toolName r, ob_ok = tr_ok r, ob_resolution = tr_resolution r,
               ob_error = tr_error r,
               ob_metadataPreview = createToolObservationMetadataPreview (tr_metadata r),
               ob_degradation = tr_degradation r,
               ob_policyDecision =
                 map_option (\<lambda>d. (pd_verdict d, pd_reason d)) (tr_policyDecision r)\<rparr>) toolResults"

section \<open>The latest turn's observation\<close>

datatype runtime_status = HealthyStatus | DegradedStatus | BlockedStatus | FailedStatus

fun runtime_status_str :: "runtime_status \<Rightarrow> string" where
  "runtime_status_str HealthyStatus = ''healthy''"
| "runtime_status_str DegradedStatus = ''degraded''"
| "runtime_status_str BlockedStatus = ''blocked''"
| "runtime_status_str FailedStatus = ''failed''"

record tool_outcomes =
  to_total :: int
  to_executed :: int
  to_denied :: int
  to_approvalRequired :: int
  to_degraded :: int
  to_failed :: int
  to_missing :: int
  to_unknown :: int

definition result_blocked :: "tool_result \<Rightarrow> bool" where
  "result_blocked r \<longleftrightarrow>
     tr_resolution r \<in> {Some ToolDenied, Some ToolApprovalRequired, Some ToolMissing} \<or>
     has_verdict PolicyDeny r \<or> has_verdict PolicyAsk r"

definition deriveLatestTurnRuntimeStatus ::
  "tool_result list \<Rightarrow> degrade_surface list \<Rightarrow> runtime_status" where
  "deriveLatestTurnRuntimeStatus toolResults runtimeDegradations =
     (if list_ex result_failed toolResults then FailedStatus
      else if list_ex result_blocked toolResults then BlockedStatus
      else if 0 < length runtimeDegradations \<or> list_ex result_degraded toolResults
      then DegradedStatus else HealthyStatus)"

definition count_outcome :: "tool_outcomes \<Rightarrow> tool_result \<Rightarrow> tool_outcomes" where
  "count_outcome summary r =
     (let n = summary\<lparr>to_total := to_total summary + 1\<rparr>
      in if tr_resolution r = Some ToolExecuted then n\<lparr>to_executed := to_executed n + 1\<rparr>
         else if tr_resolution r = Some ToolDenied \<or> has_verdict PolicyDeny r
         then n\<lparr>to_denied := to_denied n + 1\<rparr>
         else if tr_resolution r = Some ToolApprovalRequired \<or> has_verdict PolicyAsk r
         then n\<lparr>to_approvalRequired := to_approvalRequired n + 1\<rparr>
         else if result_degraded r then n\<lparr>to_degraded := to_degraded n + 1\<rparr>
         else if result_failed r then n\<lparr>to_failed := to_failed n + 1\<rparr>
         else if tr_resolution r = Some ToolMissing then n\<lparr>to_missing := to_missing n + 1\<rparr>
         else if tr_ok r then n\<lparr>to_executed := to_executed n + 1\<rparr>
         else n\<lparr>to_unknown := to_unknown n + 1\<rparr>)"

definition summarizeLatestTurnToolOutcomes :: "tool_result list \<Rightarrow> tool_outcomes" where
  "summarizeLatestTurnToolOutcomes toolResults =
     foldl count_outcome
       \<lparr>to_total = 0, to_executed = 0, to_denied = 0, to_approvalRequired = 0, to_degraded = 0,
        to_failed = 0, to_missing = 0, to_unknown = 0\<rparr> toolResults"

definition inferLatestTurnResumeHint ::
  "int \<Rightarrow> int \<Rightarrow> step_event option \<Rightarrow> (resume_action \<times> int) option" where
  "inferLatestTurnResumeHint startStepIndex completedSteps lastStepEventType =
     (if completedSteps \<le> 0 then None
      else
        let lastStepIndex = startStepIndex + completedSteps - 1
        in case lastStepEventType of
             None \<Rightarrow> None
           | Some ContextBuilt \<Rightarrow> Some (ContinueCurrentStep, lastStepIndex)
           | Some ModelOutput \<Rightarrow> Some (ContinueCurrentStep, lastStepIndex)
           | Some ToolsPlanned \<Rightarrow> Some (ContinueCurrentStep, lastStepIndex)
           | Some ToolResult \<Rightarrow> Some (StartNextStep, lastStepIndex + 1)
           | Some FinalOutput \<Rightarrow> None)"

record turn_observation =
  ot_turnId :: string
  ot_providerId :: string
  ot_model :: string
  ot_runtimeStatus :: runtime_status
  ot_turnBranch :: string
  ot_finishReason :: string
  ot_updatedAtMs :: int
  ot_completedSteps :: "int option"
  ot_lastStepEventType :: "step_event option"
  ot_resume :: "(resume_action \<times> int) option"
  ot_toolCount :: "int option"
  ot_toolOutcomes :: "tool_outcomes option"
  ot_reasoning :: "jsval option"
  ot_toolRuntimeGuidance :: "jsval option"
  ot_runtimeDegradationSummaries :: "string list option"

fun resume_action_str :: "resume_action \<Rightarrow> string" where
  "resume_action_str NoProgress = ''no-progress''"
| "resume_action_str ContinueCurrentStep = ''continue-current-step''"
| "resume_action_str StartNextStep = ''start-next-step''"
| "resume_action_str TurnComplete = ''turn-complete''"

definition js_of_outcomes :: "tool_outcomes \<Rightarrow> jsval" where
  "js_of_outcomes n =
     JObj [(''total'', js_int (to_total n)), (''executed'', js_int (to_executed n)),
           (''denied'', js_int (to_denied n)),
           (''approvalRequired'', js_int (to_approvalRequired n)),
           (''degraded'', js_int (to_degraded n)), (''failed'', js_int (to_failed n)),
           (''missing'', js_int (to_missing n)), (''unknown'', js_int (to_unknown n))]"

definition latest_turn :: "turn_observation \<Rightarrow> jsval" where
  "latest_turn ob = js_object
     [(''turnId'', JStr (ot_turnId ob)), (''providerId'', JStr (ot_providerId ob)),
      (''model'', JStr (ot_model ob)),
      (''runtimeStatus'', JStr (runtime_status_str (ot_runtimeStatus ob))),
      (''turnBranch'', JStr (ot_turnBranch ob)), (''finishReason'', JStr (ot_finishReason ob)),
      (''updatedAtMs'', js_int (ot_updatedAtMs ob)),
      (''completedSteps'', js_opt js_int (ot_completedSteps ob)),
      (''lastStepEventType'', js_opt (\<lambda>e. JStr (step_event_str e)) (ot_lastStepEventType ob)),
      (''resumeAction'', js_opt (\<lambda>(a, _). JStr (resume_action_str a)) (ot_resume ob)),
      (''nextStepIndex'', js_opt (\<lambda>(_, n). js_int n) (ot_resume ob)),
      (''toolCount'', js_opt js_int (ot_toolCount ob)),
      (''toolOutcomes'', js_opt js_of_outcomes (ot_toolOutcomes ob)),
      (''reasoning'', js_opt id (ot_reasoning ob)),
      (''toolRuntimeGuidance'', js_opt id (ot_toolRuntimeGuidance ob)),
      (''runtimeDegradationSummaries'', js_opt js_texts (ot_runtimeDegradationSummaries ob))]"

text \<open>\<open>{ ...metadata, runtime: { ...runtime, latestTurn } }\<close>\<close>

definition withLatestTurnObservationMetadata :: "json_object \<Rightarrow> turn_observation \<Rightarrow> json_object" where
  "withLatestTurnObservationMetadata metadata ob =
     (let runtime = (case alist_get metadata ''runtime'' of JObj r \<Rightarrow> r | _ \<Rightarrow> [])
      in obj_put ''runtime'' (JObj (obj_put ''latestTurn'' (toJsonSafe (latest_turn ob)) runtime))
           metadata)"

definition omitPrePersistedContextBuilt :: "step_journal_event list \<Rightarrow> bool \<Rightarrow> step_journal_event list"
where
  "omitPrePersistedContextBuilt events enabled =
     (case events of
        [] \<Rightarrow> []
      | e # rest \<Rightarrow> (if \<not> enabled \<or> se_eventType e \<noteq> ContextBuilt then events else rest))"

end
