(* ===== verification/Engine_Turn.thy ===== *)
theory Engine_Turn
  imports Engine_State
begin

text \<open>
  \<open>PhaseOneEngine.runTurn\<close> of \<open>packages/engine/src/engine.ts\<close> over the session store, the task board
  and the step loop of this development. What the constructor is given (the dispatcher of a board,
  the model runtime, the memory, the prompt) and the packages it calls for texts and failure
  surfaces are the fields of \<open>engine_deps\<close>. The store is a \<open>SessionStore\<close>, which has every
  optional method. Its clock is also \<open>Date.now\<close> of the engine; log records are left out.
\<close>

section \<open>A turn's surroundings\<close>

text \<open>The store, the board of the turn, the stream recorder's state, the variable
  \<open>recoveryResumePending\<close> and everything outside.\<close>

record 'w turn_world =
  ew_store :: session_store
  ew_board :: board
  ew_recorder :: recorder_state
  ew_resumePending :: bool
  ew_outside :: 'w

type_synonym ('w, 'a) turn_step = "'w turn_world \<Rightarrow> (engine_error + 'a) \<times> 'w turn_world"

record turn_input =
  in_sessionId :: "string option"
  in_turnId :: "string option"
  in_userText :: string
  in_providerId :: string
  in_model :: string
  in_tokenBudget :: "int option"
  in_maxSteps :: "int option"

record turn_resume_state =
  tu_resumeAction :: resume_action
  tu_nextStepIndex :: int
  tu_fromSeqExclusive :: int
  tu_toSeqInclusive :: int
  tu_recoveredToolResults :: int
  tu_lastStepEventType :: "step_event option"

text \<open>What \<open>buildPrompt\<close> assembles the prompt from.\<close>

record prompt_input =
  pi_context :: loop_context
  pi_userText :: string
  pi_taskState :: task_state
  pi_toolResults :: "tool_result list"
  pi_runtimeDegradations :: "degrade_surface list"
  pi_availableTools :: "tool_schema_descriptor list"
  pi_sessionMetadata :: json_object
  pi_turnResumeState :: "turn_resume_state option"
  pi_reasoning :: "reasoning_selection option"

record 'w engine_deps =
  ed_workspaceRoot :: string
  ed_parse :: "string \<Rightarrow> jsval option"
  ed_managesJournalClosure :: bool
  ed_getSchemas :: "'w turn_world \<Rightarrow> tool_schema_descriptor list"
  ed_dispatch ::
    "tool_call \<Rightarrow> tool_context \<Rightarrow> 'w turn_world \<Rightarrow> (thrown + tool_result) \<times> 'w turn_world"
  ed_generate :: "model_request \<Rightarrow> 'w \<Rightarrow> (thrown + model_output) \<times> 'w"
  ed_buildPrompt :: "prompt_input \<Rightarrow> 'w \<Rightarrow> (thrown + prompt_artifacts) \<times> 'w"
  ed_writeUserMemory :: "string \<Rightarrow> string \<Rightarrow> 'w \<Rightarrow> (thrown + unit) \<times> 'w"
  ed_writeOutputMemory :: "string \<Rightarrow> string \<Rightarrow> 'w \<Rightarrow> (thrown + unit) \<times> 'w"
  ed_failureSurface :: "thrown \<Rightarrow> provider_failure"
  ed_reasoning :: "turn_input \<Rightarrow> reasoning_selection option"
  ed_guidance :: "tool_observation list \<Rightarrow> jsval option"
  ed_degradationSummaries :: "degrade_surface list \<Rightarrow> string list"

record turn_result =
  rt_sessionId :: string
  rt_output :: string
  rt_taskState :: task_state
  rt_toolResults :: "tool_result list"
  rt_reasoningDecision :: "jsval option"

definition DEFAULT_TOKEN_BUDGET :: int where
  "DEFAULT_TOKEN_BUDGET = 8000"

definition DEFAULT_MAX_STEPS :: int where
  "DEFAULT_MAX_STEPS = 4"

text \<open>An operation of the store, of the recorder, of the outside as a step of the turn.\<close>

definition on_store :: "(session_store \<Rightarrow> 'a result) \<Rightarrow> ('w, 'a) turn_step" where
  "on_store operation w =
     (case operation (ew_store w) of
        (Inl e, s) \<Rightarrow> (Inl (StoreThrew e), w\<lparr>ew_store := s\<rparr>)
      | (Inr x, s) \<Rightarrow> (Inr x, w\<lparr>ew_store := s\<rparr>))"

definition on_recorder :: "'a recording \<Rightarrow> ('w, 'a) turn_step" where
  "on_recorder operation w =
     (case operation (ew_recorder w, ew_store w) of
        (Inl e, (st, s)) \<Rightarrow> (Inl (StoreThrew e), w\<lparr>ew_recorder := st, ew_store := s\<rparr>)
      | (Inr x, (st, s)) \<Rightarrow> (Inr x, w\<lparr>ew_recorder := st, ew_store := s\<rparr>))"

definition on_outside :: "('w \<Rightarrow> (thrown + 'a) \<times> 'w) \<Rightarrow> ('w, 'a) turn_step" where
  "on_outside operation w =
     (case operation (ew_outside w) of
        (Inl e, x) \<Rightarrow> (Inl (Threw e), w\<lparr>ew_outside := x\<rparr>)
      | (Inr y, x) \<Rightarrow> (Inr y, w\<lparr>ew_outside := x\<rparr>))"

definition pass :: "('w, unit) turn_step" where
  "pass w = (Inr (), w)"

definition next_step :: "('w, 'b) turn_step \<Rightarrow> ('w, 'a) turn_step \<Rightarrow> ('w, 'a) turn_step" where
  "next_step f g w = chain (f w) (\<lambda>_ w'. g w')"

fun each_step :: "('b \<Rightarrow> ('w, unit) turn_step) \<Rightarrow> 'b list \<Rightarrow> ('w, unit) turn_step" where
  "each_step f [] = pass"
| "each_step f (x # xs) = next_step (f x) (each_step f xs)"

section \<open>What a turn records\<close>

definition engineAppendJournal :: "string \<Rightarrow> string \<Rightarrow> jsval \<Rightarrow> string \<Rightarrow> ('w, unit) turn_step" where
  "engineAppendJournal sessionId eventType payload turnId w =
     chain (on_store (storeAppendJournal sessionId
              \<lparr>ap_eventType = eventType, ap_payload = payload,
               ap_turnId = (if turnId = [] then None else Some turnId),
               ap_schemaVersion = None, ap_createdAtMs = None\<rparr>) w)
       (\<lambda>_ w'. (Inr (), w'))"

definition engineRecordEvidence ::
  "string \<Rightarrow> evidence_kind \<Rightarrow> jsval \<Rightarrow> string \<Rightarrow> ('w, unit) turn_step" where
  "engineRecordEvidence sessionId kind payload turnId w =
     on_store (storeRecordRuntimeEvidence sessionId
       \<lparr>ei_kind = kind, ei_payload = payload,
        ei_turnId = (if turnId = [] then None else Some turnId),
        ei_channel = Some AuditEvidence, ei_schemaVersion = None, ei_occurredAtMs = None,
        ei_eventId = None\<rparr>) w"

definition recordStepEvent ::
  "string \<Rightarrow> string \<Rightarrow> int \<Rightarrow> jsval \<Rightarrow> step_journal_event \<Rightarrow> ('w, unit) turn_step" where
  "recordStepEvent sessionId turnId stepIndex checkpointState event =
     next_step
       (on_store (storeAppendStepJournal sessionId
         \<lparr>sj_turnId = turnId, sj_stepIndex = Finite stepIndex, sj_eventType = se_eventType event,
          sj_payload = toJsonSafe (se_payload event), sj_schemaVersion = None,
          sj_createdAtMs = None\<rparr>))
       (next_step
         (on_store (storeCreateStepCheckpoint sessionId
           \<lparr>sc_turnId = turnId, sc_stepIndex = Finite stepIndex,
            sc_eventType = se_eventType event, sc_state = checkpointState, sc_uptoSeq = None,
            sc_schemaVersion = None, sc_createdAtMs = None\<rparr>))
         pass)"

definition recordStepRuntime ::
  "string \<Rightarrow> string \<Rightarrow> int \<Rightarrow> step_journal_event list \<Rightarrow> jsval \<Rightarrow> ('w, unit) turn_step" where
  "recordStepRuntime sessionId turnId stepIndex events checkpointState =
     each_step (recordStepEvent sessionId turnId stepIndex checkpointState) events"

definition recordRuntimeDegradations ::
  "string \<Rightarrow> string \<Rightarrow> degrade_surface list \<Rightarrow> ('w, unit) turn_step" where
  "recordRuntimeDegradations sessionId turnId degradations =
     each_step (\<lambda>d. next_step
         (engineAppendJournal sessionId ''runtime.degraded'' (safe_degradation d) turnId)
         (engineRecordEvidence sessionId RuntimeDegraded (safe_degradation d) turnId))
       degradations"

definition tool_failure_surface :: "tool_result list \<Rightarrow> error_surface" where
  "tool_failure_surface toolResults =
     (let failed = find result_failed toolResults;
          toolName = nullish_else (map_option tr_toolName failed) ''unknown-tool''
      in createRuntimeErrorSurface ToolStage
           (createContractError
             \<lparr>co_code = ToolFailure,
              co_message = nullish_else (Option.bind failed tr_error)
                (''Tool \"'' @ toolName @ ''\" failed.''),
              co_retryable = Some False, co_kind = None, co_defaultAction = None,
              co_metadata = Some
                [(''toolName'', JStr toolName),
                 (''toolCallId'',
                    JStr (nullish_else (map_option tr_toolCallId failed) ''unknown-tool-call''))],
              co_cause = None\<rparr>)
           (Some False) (Some ToolKind) (Some AbortAction) None)"

definition tool_degradation_surface :: "tool_result list \<Rightarrow> degrade_surface" where
  "tool_degradation_surface toolResults =
     nullish_else
       (Option.bind (find (\<lambda>r. tr_degradation r \<noteq> None) toolResults) tr_degradation)
       (createRuntimeDegradeSurface ToolStage ToolCategory MinorSeverity Fallback
          ''Tool execution degraded but the turn continued.'' True None None)"

definition failing_tools :: "tool_result list \<Rightarrow> jsval" where
  "failing_tools toolResults =
     JArr (map (\<lambda>r. JObj
             [(''toolName'', JStr (tr_toolName r)),
              (''resolution'',
                 JStr (resolution_str (nullish_else (tr_resolution r) ToolExecuted))),
              (''error'', js_or_null (tr_error r))])
          (filter (\<lambda>r. \<not> tr_ok r \<or> tr_resolution r = Some ToolDegraded) toolResults))"

definition recordTurnBranch ::
  "string \<Rightarrow> string \<Rightarrow> turn_branch \<Rightarrow> tool_result list \<Rightarrow> ('w, unit) turn_step" where
  "recordTurnBranch sessionId turnId b toolResults =
     (if b = NormalBranch then pass
      else next_step
        (engineAppendJournal sessionId ''turn.branch''
           (JObj [(''turnBranch'', JStr (turn_branch_str b)),
                  (''toolCount'', js_int (int (length toolResults))),
                  (''failingTools'', failing_tools toolResults)]) turnId)
        (if b = ToolDegradedBranch
         then let payload = safe_degradation (tool_degradation_surface toolResults)
              in next_step (engineAppendJournal sessionId ''runtime.degraded'' payload turnId)
                   (engineRecordEvidence sessionId RuntimeDegraded payload turnId)
         else if b = ToolFailedBranch
         then let payload = safe_failure (tool_failure_surface toolResults)
              in next_step (engineAppendJournal sessionId ''runtime.failed'' payload turnId)
                   (engineRecordEvidence sessionId RuntimeFailed payload turnId)
         else pass))"

section \<open>Failures of the model\<close>

definition failure_metadata :: "provider_failure \<Rightarrow> string \<Rightarrow> json_object" where
  "failure_metadata f providerId =
     foldl (\<lambda>m (k, v). obj_put k v m)
       (nullish_else (ce_metadata (es_error f)) [])
       ([(''stage'', JStr (if pf_providerStage f = ProviderStreamStage then ''stream'' else ''model'')),
         (''kind'', JStr (failure_kind_str (es_kind f))),
         (''action'', JStr (recovery_action_str (es_action f))),
         (''recoverable'', JBool (es_recoverable f)), (''providerId'', JStr providerId),
         (''providerStage'',
            JStr (if pf_providerStage f = ProviderStreamStage then ''stream'' else ''generate'')),
         (''providerCode'', JStr (pf_providerCode f)), (''retryable'', JBool (pf_retryable f))]
        @ (case pf_statusCode f of None \<Rightarrow> [] | Some n \<Rightarrow> [(''statusCode'', js_int n)])
        @ (case es_operatorVisible f of None \<Rightarrow> [] | Some b \<Rightarrow> [(''operatorVisible'', JBool b)]))"

definition toEngineModelRuntimeFailure ::
  "(thrown \<Rightarrow> provider_failure) \<Rightarrow> thrown \<Rightarrow> string \<Rightarrow> provider_failure" where
  "toEngineModelRuntimeFailure surface err providerId =
     (let f = surface err;
          resolvedProviderId = (if pf_providerId f = ''unknown'' then providerId else pf_providerId f)
      in f\<lparr>pf_providerId := resolvedProviderId,
           es_error := createContractError
             \<lparr>co_code = ce_code (es_error f), co_message = ce_message (es_error f),
              co_retryable = Some (ce_retryable (es_error f)), co_kind = Some (es_kind f),
              co_defaultAction = Some (es_action f),
              co_metadata = Some (failure_metadata f resolvedProviderId),
              co_cause = Some err\<rparr>\<rparr>)"

definition safe_provider_failure :: "provider_failure \<Rightarrow> jsval" where
  "safe_provider_failure f =
     JObj ([(''stage'', JStr (runtime_stage_str (es_stage f))),
            (''kind'', JStr (failure_kind_str (es_kind f))),
            (''action'', JStr (recovery_action_str (es_action f))),
            (''error'', safe_contract_error (es_error f)),
            (''recoverable'', JBool (es_recoverable f))]
           @ (case es_operatorVisible f of None \<Rightarrow> [] | Some b \<Rightarrow> [(''operatorVisible'', JBool b)])
           @ [(''providerId'', JStr (pf_providerId f)),
              (''providerStage'',
                 JStr (if pf_providerStage f = ProviderStreamStage then ''stream'' else ''generate'')),
              (''providerCode'', JStr (pf_providerCode f)),
              (''failureClass'', JStr (pf_failureClass f)),
              (''retryable'', JBool (pf_retryable f))]
           @ (case pf_statusCode f of None \<Rightarrow> [] | Some n \<Rightarrow> [(''statusCode'', js_int n)]))"

definition recordModelRuntimeFailure ::
  "'w engine_deps \<Rightarrow> string \<Rightarrow> string \<Rightarrow> string \<Rightarrow> thrown \<Rightarrow> ('w, provider_failure) turn_step" where
  "recordModelRuntimeFailure deps sessionId turnId providerId err =
     (let failure = toEngineModelRuntimeFailure (ed_failureSurface deps) err providerId;
          payload = safe_provider_failure failure
      in next_step (engineAppendJournal sessionId ''runtime.failed'' payload turnId)
           (next_step (engineRecordEvidence sessionId RuntimeFailed payload turnId)
             (\<lambda>w. (Inr failure, w))))"

section \<open>The latest turn's observation\<close>

text \<open>\<open>createLatestTurnObservation\<close> reads the clock, then the update is tried; its failure is only
  logged.\<close>

definition persistLatestTurnObservation ::
  "string \<Rightarrow> json_object \<Rightarrow> turn_observation \<Rightarrow> ('w, unit) turn_step" where
  "persistLatestTurnObservation sessionId sessionMetadata observation w =
     (let s = ew_store w;
          ob = observation\<lparr>ot_updatedAtMs := store_time s\<rparr>;
          (_, s') = storeUpdateMetadata sessionId
                      (withLatestTurnObservationMetadata sessionMetadata ob) (store_tick s)
      in (Inr (), w\<lparr>ew_store := s'\<rparr>))"

section \<open>Tool calls\<close>

definition appendToolEvent :: "string \<Rightarrow> string \<Rightarrow> tool_journal_event \<Rightarrow> ('w, unit) turn_step" where
  "appendToolEvent sessionId turnId event =
     engineAppendJournal sessionId
       (case tj_eventType event of ToolCallPlanned \<Rightarrow> ''tool.call_planned''
        | ToolResultRecorded \<Rightarrow> ''tool.result'') (JObj (tj_payload event)) turnId"

definition js_truthy :: "jsval \<Rightarrow> bool" where
  "js_truthy v \<longleftrightarrow>
     v \<notin> {JUndefined, JNull, JBool False, JStr [], JNum (Finite 0), JNum NaN}"

definition record_todo_write :: "string \<Rightarrow> string \<Rightarrow> tool_result \<Rightarrow> ('w, unit) turn_step" where
  "record_todo_write sessionId turnId result w =
     (if tr_toolName result = ''tasks.todo_write'' \<and> js_truthy (tr_output result)
      then (case encodeTaskTodoWritePayload (tr_output result) of
              Inl e \<Rightarrow> (Inl (StoreThrew (JsError e)), w)
            | Inr payload \<Rightarrow> engineAppendJournal sessionId ''tasks.todo_write'' payload turnId w)
      else pass w)"

definition on_dispatcher ::
  "('w turn_world \<Rightarrow> (thrown + 'a) \<times> 'w turn_world) \<Rightarrow> ('w, 'a) turn_step" where
  "on_dispatcher operation w =
     (case operation w of (Inl e, w') \<Rightarrow> (Inl (Threw e), w') | (Inr x, w') \<Rightarrow> (Inr x, w'))"

definition run_tool_call ::
  "'w engine_deps \<Rightarrow> loop_context \<Rightarrow> model_tool_call \<Rightarrow> ('w, tool_result) turn_step" where
  "run_tool_call deps context' toolCall w =
     (let call = \<lparr>tk_id = mc_id toolCall, tk_name = mc_name toolCall,
                  tk_args = safeParseToolArgs (ed_parse deps) (mc_argumentsJson toolCall)\<rparr>;
          sessionId = lc_sessionId context'; turnId = lc_turnId context';
          journaled = (\<lambda>event. if ed_managesJournalClosure deps then pass
                               else appendToolEvent sessionId turnId event)
      in chain (journaled (createToolCallPlannedJournalEvent call) w) (\<lambda>_ w1.
         chain (on_dispatcher (ed_dispatch deps call
                  \<lparr>tx_sessionId = sessionId, tx_turnId = Some turnId,
                   tx_workspaceRoot = Some (ed_workspaceRoot deps), tx_actor = None,
                   tx_approval = None\<rparr>) w1) (\<lambda>result w2.
         next_step (journaled (createToolResultJournalEvent result))
           (next_step (record_todo_write sessionId turnId result) (\<lambda>w'. (Inr result, w'))) w2)))"

fun run_tool_calls ::
  "'w engine_deps \<Rightarrow> loop_context \<Rightarrow> model_tool_call list \<Rightarrow> ('w, tool_result list) turn_step" where
  "run_tool_calls deps context' [] w = (Inr [], w)"
| "run_tool_calls deps context' (c # cs) w =
     chain (run_tool_call deps context' c w) (\<lambda>result w1.
       chain (run_tool_calls deps context' cs w1) (\<lambda>results w2. (Inr (result # results), w2)))"

definition executeToolCalls ::
  "'w engine_deps \<Rightarrow> loop_context \<Rightarrow> model_output \<Rightarrow> ('w, tool_result list) turn_step" where
  "executeToolCalls deps context' modelOutput =
     run_tool_calls deps context' (nullish_else (mo_toolCalls modelOutput) [])"

end
