(* ===== verification/Engine_Run.thy ===== *)
theory Engine_Run
  imports Engine_Turn
begin

text \<open>
  The body of \<open>PhaseOneEngine.runTurn\<close>: opening the session, recovering the turn, the loop with its
  hooks, the handler of a model failure and the records that close the turn.
\<close>

section \<open>Opening the turn\<close>

text \<open>\<open>getSession(id) ?? createSession({ sessionId: id })\<close>, or a new session.\<close>

definition open_session :: "string option \<Rightarrow> session_store \<Rightarrow> session_record result" where
  "open_session given s =
     (let create = (\<lambda>k. storeCreateSession
            \<lparr>cs_sessionId = k, cs_metadata = None, cs_schemaVersion = None\<rparr> s)
      in case given of
           None \<Rightarrow> create None
         | Some k \<Rightarrow>
             if k = [] then create None
             else (case storeGetSession k s of
                     Inl e \<Rightarrow> (Inl e, s)
                   | Inr (Some session) \<Rightarrow> (Inr session, s)
                   | Inr None \<Rightarrow> create (Some k)))"

text \<open>\<open>input.turnId ?? `turn_${Date.now()}`\<close>\<close>

definition turn_id :: "turn_input \<Rightarrow> session_store \<Rightarrow> string \<times> session_store" where
  "turn_id input s =
     (case in_turnId input of
        Some t \<Rightarrow> (t, s)
      | None \<Rightarrow> (''turn_'' @ js_show (store_time s), store_tick s))"

text \<open>What the two recoveries give: the sequence number the session was recovered to, the state, the
  step to start with, the tool results found and how the turn is resumed.\<close>

record turn_recovery =
  tv_lastAppliedSeq :: int
  tv_state :: jsval
  tv_resumeAction :: resume_action
  tv_resumed :: bool
  tv_initialStepIndex :: int
  tv_toolResults :: "tool_result list"
  tv_resumeState :: "turn_resume_state option"

definition recover_turn ::
  "string \<Rightarrow> string \<Rightarrow> session_store \<Rightarrow> session_error + turn_recovery" where
  "recover_turn sessionId turnId s =
     (case storeRecover sessionId (turn_options INITIAL_TURN_STATE) s of
        Inl e \<Rightarrow> Inl e
      | Inr recovered \<Rightarrow>
     (case storeRecoverStep sessionId turnId (turn_options (rr_state recovered)) s of
        Inl e \<Rightarrow> Inl e
      | Inr step \<Rightarrow>
          let action = sv_resumeAction step;
              resumed = (action = ContinueCurrentStep \<or> action = StartNextStep);
              results = readRecoveredToolResults (rr_journal (sv_base step)) turnId
          in Inr \<lparr>tv_lastAppliedSeq = rr_lastAppliedSeq recovered,
                  tv_state = rr_state (sv_base step), tv_resumeAction = action,
                  tv_resumed = resumed,
                  tv_initialStepIndex = (if resumed then sv_nextStepIndex step else 0),
                  tv_toolResults = results,
                  tv_resumeState =
                    (if resumed
                     then Some \<lparr>tu_resumeAction = action, tu_nextStepIndex = sv_nextStepIndex step,
                                tu_fromSeqExclusive = sv_fromSeqExclusive step,
                                tu_toSeqInclusive = sv_toSeqInclusive step,
                                tu_recoveredToolResults = int (length results),
                                tu_lastStepEventType =
                                  map_option sy_eventType (sv_lastStepEvent step)\<rparr>
                     else None)\<rparr>))"

text \<open>The turn was complete: its recorded output is the answer.\<close>

definition completed_result ::
  "'w engine_deps \<Rightarrow> turn_input \<Rightarrow> session_record \<Rightarrow> turn_recovery \<Rightarrow> board \<Rightarrow> turn_result" where
  "completed_result deps input session recovery b =
     \<lparr>rt_sessionId = ss_id session, rt_output = state_output (tv_state recovery),
      rt_taskState = snapshot b, rt_toolResults = tv_toolResults recovery,
      rt_reasoningDecision = map_option rn_decision (ed_reasoning deps input)\<rparr>"

section \<open>The loop of the turn\<close>

text \<open>The values that the closures of \<open>runTurn\<close> capture.\<close>

record 'w turn_frame =
  tf_deps :: "'w engine_deps"
  tf_session :: session_record
  tf_context :: loop_context
  tf_userText :: string
  tf_recovery :: turn_recovery
  tf_reasoning :: "reasoning_selection option"

definition frame_recorder :: "'w turn_frame \<Rightarrow> recorder" where
  "frame_recorder f =
     \<lparr>rc_sessionId = lc_sessionId (tf_context f), rc_turnId = lc_turnId (tf_context f)\<rparr>"

definition on_context_built ::
  "'w turn_frame \<Rightarrow> int \<Rightarrow> step_journal_event \<Rightarrow> string \<Rightarrow> task_state \<Rightarrow> ('w, unit) turn_step" where
  "on_context_built f stepIndex event out taskState =
     next_step
       (recordStepRuntime (lc_sessionId (tf_context f)) (lc_turnId (tf_context f)) stepIndex [event]
          (toPersistedTurnState taskState out))
       (\<lambda>w. next_step
          (on_recorder (beforeModelCall (frame_recorder f)
             (if ew_resumePending w then Some ''resuming interrupted turn'' else None)))
          (\<lambda>w'. (Inr (), w'\<lparr>ew_resumePending := False\<rparr>)) w)"

definition prompt_input_of ::
  "'w turn_frame \<Rightarrow> task_state \<Rightarrow> tool_result list \<Rightarrow> degrade_surface list \<Rightarrow>
   tool_schema_descriptor list \<Rightarrow> prompt_input" where
  "prompt_input_of f taskState toolResults degradations tools =
     \<lparr>pi_context = tf_context f, pi_userText = tf_userText f, pi_taskState = taskState,
      pi_toolResults = toolResults, pi_runtimeDegradations = degradations,
      pi_availableTools = tools, pi_sessionMetadata = ss_metadata (tf_session f),
      pi_turnResumeState = tv_resumeState (tf_recovery f), pi_reasoning = tf_reasoning f\<rparr>"

definition strategy_deps :: "'w turn_frame \<Rightarrow> 'w turn_world step_deps" where
  "strategy_deps f =
     \<lparr>sd_context = tf_context f, sd_userText = tf_userText f, sd_parse = ed_parse (tf_deps f),
      sd_taskState = (\<lambda>w. snapshot (ew_board w)), sd_getSchemas = ed_getSchemas (tf_deps f),
      sd_onContextBuilt = on_context_built f,
      sd_modelRuntimeGenerate = (\<lambda>request w.
        (case ed_generate (tf_deps f) request (ew_outside w) of
           (answer, x) \<Rightarrow> (answer, w\<lparr>ew_outside := x\<rparr>))),
      sd_buildPrompt = (\<lambda>taskState toolResults degradations tools.
        on_outside (ed_buildPrompt (tf_deps f)
          (prompt_input_of f taskState toolResults degradations tools))),
      sd_executeToolCalls = executeToolCalls (tf_deps f) (tf_context f),
      sd_decideReasoning = None\<rparr>"

definition on_step_completed ::
  "'w turn_frame \<Rightarrow> int \<Rightarrow> step_state iteration_result \<Rightarrow> ('w, unit) turn_step" where
  "on_step_completed f stepIndex result w =
     (let st = ir_state result
      in next_step
           (recordStepRuntime (lc_sessionId (tf_context f)) (lc_turnId (tf_context f)) stepIndex
              (omitPrePersistedContextBuilt (ls_lastStepEvents st) True)
              (toPersistedTurnState (snapshot (ew_board w)) (ls_output st)))
           (on_recorder (recordStep (frame_recorder f) (ir_continueLoop result)
              (ls_lastStepEvents st) (ls_lastTurnBranch st))) w)"

definition initial_step_state :: "turn_recovery \<Rightarrow> step_state" where
  "initial_step_state recovery =
     \<lparr>ls_output = state_output (tv_state recovery),
      ls_toolResults = (if tv_resumed recovery then tv_toolResults recovery else []),
      ls_runtimeDegradations = [], ls_lastReasoningDecision = None, ls_lastStepEvents = [],
      ls_lastTurnBranch = NormalBranch\<rparr>"

definition turn_loop :: "'w turn_frame \<Rightarrow> ('w, step_state loop_result) turn_step" where
  "turn_loop f =
     runLoop (runStep (strategy_deps f)) (on_step_completed f) (initial_step_state (tf_recovery f))
       (lc_maxSteps (tf_context f)) (Some (tv_initialStepIndex (tf_recovery f)))"

section \<open>When the model fails\<close>

definition failed_observation ::
  "'w turn_frame \<Rightarrow> degrade_surface list \<Rightarrow> turn_observation" where
  "failed_observation f degradations =
     \<lparr>ot_turnId = lc_turnId (tf_context f), ot_providerId = lc_providerId (tf_context f),
      ot_model = lc_model (tf_context f), ot_runtimeStatus = FailedStatus,
      ot_turnBranch = ''model-runtime-failed'', ot_finishReason = ''failed'', ot_updatedAtMs = 0,
      ot_completedSteps = None, ot_lastStepEventType = Some ContextBuilt,
      ot_resume = Some (ContinueCurrentStep, tv_initialStepIndex (tf_recovery f)),
      ot_toolCount = None, ot_toolOutcomes = None,
      ot_reasoning = map_option rn_observation (tf_reasoning f), ot_toolRuntimeGuidance = None,
      ot_runtimeDegradationSummaries =
        (if degradations = [] then None
         else Some (ed_degradationSummaries (tf_deps f) degradations))\<rparr>"

definition turn_failed ::
  "'w turn_frame \<Rightarrow> thrown \<Rightarrow> degrade_surface list \<Rightarrow> ('w, step_state loop_result) turn_step" where
  "turn_failed f err degradations =
     (let sessionId = lc_sessionId (tf_context f); turnId = lc_turnId (tf_context f);
          providerId = lc_providerId (tf_context f);
          streamFailure =
            toEngineModelRuntimeFailure (ed_failureSurface (tf_deps f)) err providerId
      in next_step (on_recorder (recordFailure (frame_recorder f) streamFailure))
        (next_step
           (if degradations = [] then pass
            else recordRuntimeDegradations sessionId turnId degradations)
        (\<lambda>w. chain (recordModelRuntimeFailure (tf_deps f) sessionId turnId providerId err w)
          (\<lambda>failure w1.
             next_step
               (persistLatestTurnObservation sessionId (ss_metadata (tf_session f))
                  (failed_observation f degradations))
               (Pair (Inl (EngineRunFailure
                 \<lparr>uf_sessionId = sessionId, uf_turnId = turnId,
                  uf_model = lc_model (tf_context f), uf_selectedProviderId = providerId,
                  uf_failure = failure\<rparr>))) w1))))"

definition guarded_loop :: "'w turn_frame \<Rightarrow> ('w, step_state loop_result) turn_step" where
  "guarded_loop f w =
     (case turn_loop f w of
        (Inl (EngineModelRuntimeFailure err degradations), w1) \<Rightarrow> turn_failed f err degradations w1
      | (Inl e, w1) \<Rightarrow> (Inl e, w1)
      | (Inr result, w1) \<Rightarrow> (Inr result, w1))"

section \<open>Closing the turn\<close>

fun stop_reason_str :: "stop_reason \<Rightarrow> string" where
  "stop_reason_str StrategyStop = ''strategy-stop''"
| "stop_reason_str MaxStepsReached = ''max-steps''"

definition turn_handoff :: "'w turn_frame \<Rightarrow> step_state loop_result \<Rightarrow> handoff_input" where
  "turn_handoff f result =
     (let st = lr_state result; toolResults = ls_toolResults st;
          fromSeq = tv_lastAppliedSeq (tf_recovery f) + 1;
          toSeq = fromSeq + lr_completedSteps result;
          count = show_nat (length toolResults)
      in \<lparr>hi_lastSummarizedSeq = Finite toSeq, hi_sourceFromSeq = Finite fromSeq,
          hi_sourceToSeq = Finite toSeq, hi_latestTurnId = Some (lc_turnId (tf_context f)),
          hi_currentState = ''Turn completed with '' @ count @ '' tool result(s).'',
          hi_task = truncateHandoffText (tf_userText f) 240,
          hi_filesAndFunctions = Some [],
          hi_workflow = Some
            [''Model loop completed after '' @ js_show (lr_completedSteps result) @ '' step(s).'',
             ''Stop reason: '' @ stop_reason_str (lr_stopReason result) @ ''.'',
             ''Turn branch: '' @ turn_branch_str (ls_lastTurnBranch st) @ ''.''],
          hi_errorsAndCorrections = Some
            (map (\<lambda>r. truncateHandoffText
                   (tr_toolName r @ '': ''
                    @ nullish_else (nullish (tr_error r)
                        (map_option resolution_str (tr_resolution r))) ''not ok'') 240)
              (filter (\<lambda>r. \<not> tr_ok r \<or> tr_error r \<noteq> None) toolResults)),
          hi_keyResults = Some [truncateHandoffText (ls_output st) 240],
          hi_worklog = Some
            [''Recorded assistant output for turn '' @ lc_turnId (tf_context f) @ ''.'',
             ''Recorded '' @ count @ '' tool result(s).''],
          hi_nextActions = Some [''Use durable transcript or journal for exact replay.''],
          hi_schemaVersion = None, hi_createdAtMs = None\<rparr>)"

definition turn_finish_reason :: "stop_reason \<Rightarrow> finish_reason" where
  "turn_finish_reason r = (if r = MaxStepsReached then FinishLength else FinishStop)"

definition turn_observation_of :: "'w turn_frame \<Rightarrow> step_state loop_result \<Rightarrow> turn_observation" where
  "turn_observation_of f result =
     (let st = lr_state result; toolResults = ls_toolResults st;
          degradations = ls_runtimeDegradations st;
          summaries = ed_degradationSummaries (tf_deps f) degradations;
          lastStepEventType = map_option se_eventType (last_opt (ls_lastStepEvents st))
      in \<lparr>ot_turnId = lc_turnId (tf_context f), ot_providerId = lc_providerId (tf_context f),
          ot_model = lc_model (tf_context f),
          ot_runtimeStatus = deriveLatestTurnRuntimeStatus toolResults degradations,
          ot_turnBranch = turn_branch_str (ls_lastTurnBranch st),
          ot_finishReason = finish_reason_str (turn_finish_reason (lr_stopReason result)),
          ot_updatedAtMs = 0, ot_completedSteps = Some (lr_completedSteps result),
          ot_lastStepEventType = lastStepEventType,
          ot_resume =
            (if lr_stopReason result \<noteq> MaxStepsReached then None
             else inferLatestTurnResumeHint (tv_initialStepIndex (tf_recovery f))
                    (lr_completedSteps result) lastStepEventType),
          ot_toolCount = Some (int (length toolResults)),
          ot_toolOutcomes =
            (if toolResults = [] then None else Some (summarizeLatestTurnToolOutcomes toolResults)),
          ot_reasoning = map_option rn_observation (tf_reasoning f),
          ot_toolRuntimeGuidance =
            ed_guidance (tf_deps f) (createToolRuntimePromptObservations toolResults),
          ot_runtimeDegradationSummaries = (if summaries = [] then None else Some summaries)\<rparr>)"

definition close_turn :: "'w turn_frame \<Rightarrow> step_state loop_result \<Rightarrow> ('w, turn_result) turn_step" where
  "close_turn f result =
     (let sessionId = lc_sessionId (tf_context f); turnId = lc_turnId (tf_context f);
          st = lr_state result; out = ls_output st; toolResults = ls_toolResults st
      in next_step (on_recorder (completeTurn (frame_recorder f)
                      (turn_finish_reason (lr_stopReason result))))
        (next_step (recordRuntimeDegradations sessionId turnId (ls_runtimeDegradations st))
        (next_step (recordTurnBranch sessionId turnId (ls_lastTurnBranch st) toolResults)
        (next_step (engineAppendJournal sessionId ''assistant.output'' (JObj [(''text'', JStr out)])
                      turnId)
        (next_step (on_store (storeCreateHandoffSummary sessionId (turn_handoff f result)))
        (next_step (\<lambda>w. on_store (storeCreateCheckpoint sessionId
             \<lparr>ck_state = toPersistedTurnState (snapshot (ew_board w)) out, ck_uptoSeq = None,
              ck_schemaVersion = None, ck_createdAtMs = None, ck_metadata = None\<rparr>) w)
        (next_step (on_outside (ed_writeOutputMemory (tf_deps f) sessionId out))
        (next_step (persistLatestTurnObservation sessionId (ss_metadata (tf_session f))
                      (turn_observation_of f result))
          (\<lambda>w. (Inr \<lparr>rt_sessionId = sessionId, rt_output = out,
                     rt_taskState = snapshot (ew_board w), rt_toolResults = toolResults,
                     rt_reasoningDecision = map_option rn_decision (tf_reasoning f)\<rparr>, w))))))))))"

section \<open>The turn\<close>

text \<open>What a fresh turn records before its first step.\<close>

definition record_input :: "'w turn_frame \<Rightarrow> ('w, unit) turn_step" where
  "record_input f =
     (let sessionId = lc_sessionId (tf_context f); turnId = lc_turnId (tf_context f)
      in if tv_resumed (tf_recovery f) then pass
         else next_step (engineAppendJournal sessionId ''user.input''
                           (JObj [(''text'', JStr (tf_userText f))]) turnId)
           (next_step (on_outside (ed_writeUserMemory (tf_deps f) sessionId (tf_userText f)))
             (case tf_reasoning f of
                None \<Rightarrow> pass
              | Some reasoning \<Rightarrow>
                  engineAppendJournal sessionId ''turn.reasoning_strategy_selected''
                    (JObj (rn_journal reasoning)) turnId)))"

definition turn_body :: "'w turn_frame \<Rightarrow> ('w, turn_result) turn_step" where
  "turn_body f =
     next_step (record_input f)
       (next_step
         (case tf_reasoning f of
            None \<Rightarrow> pass
          | Some reasoning \<Rightarrow> on_recorder (recordReasoning (frame_recorder f) reasoning))
         (\<lambda>w. chain (guarded_loop f w) (\<lambda>result w1. close_turn f result w1)))"

definition turn_frame_of ::
  "'w engine_deps \<Rightarrow> turn_input \<Rightarrow> session_record \<Rightarrow> string \<Rightarrow> turn_recovery \<Rightarrow> 'w turn_frame" where
  "turn_frame_of deps input session turnId recovery =
     \<lparr>tf_deps = deps, tf_session = session,
      tf_context =
        \<lparr>lc_turnId = turnId, lc_providerId = in_providerId input, lc_model = in_model input,
         lc_sessionId = ss_id session,
         lc_tokenBudget = nullish_else (in_tokenBudget input) DEFAULT_TOKEN_BUDGET,
         lc_maxSteps = nullish_else (in_maxSteps input) DEFAULT_MAX_STEPS\<rparr>,
      tf_userText = in_userText input, tf_recovery = recovery,
      tf_reasoning = ed_reasoning deps input\<rparr>"

definition start_turn ::
  "'w turn_frame \<Rightarrow> board \<Rightarrow> session_store \<Rightarrow> 'w \<Rightarrow>
   (engine_error + turn_result) \<times> session_store \<times> 'w" where
  "start_turn f b s x =
     (case createTurnStreamRecorder (frame_recorder f) s of
        Inl e \<Rightarrow> (Inl (StoreThrew e), s, x)
      | Inr recorderState \<Rightarrow>
          (case turn_body f
                  \<lparr>ew_store = s, ew_board = b, ew_recorder = recorderState,
                   ew_resumePending = tv_resumed (tf_recovery f), ew_outside = x\<rparr> of
             (r, w) \<Rightarrow> (r, ew_store w, ew_outside w)))"

definition runTurn ::
  "'w engine_deps \<Rightarrow> turn_input \<Rightarrow> session_store \<Rightarrow> 'w \<Rightarrow>
   (engine_error + turn_result) \<times> session_store \<times> 'w" where
  "runTurn deps input s0 x =
     (case open_session (in_sessionId input) s0 of
        (Inl e, s) \<Rightarrow> (Inl (StoreThrew e), s, x)
      | (Inr session, s1) \<Rightarrow>
     (case turn_id input s1 of (turnId, s) \<Rightarrow>
     (case recover_turn (ss_id session) turnId s of
        Inl e \<Rightarrow> (Inl (StoreThrew e), s, x)
      | Inr recovery \<Rightarrow>
     (case taskBoardFromState (tv_state recovery) (\<lambda>n. st_clock s (st_ticks s + n)) of
        Inl e \<Rightarrow> (Inl (Threw e), s, x)
      | Inr b \<Rightarrow>
          if tv_resumeAction recovery = TurnComplete
          then (Inr (completed_result deps input session recovery b), s, x)
          else start_turn (turn_frame_of deps input session turnId recovery) b s x))))"

end
