(* ===== verification/Engine_Laws.thy ===== *)
theory Engine_Laws
  imports Engine_Run
begin

text \<open>
  What holds of the loop and of a step: the loop's counts, the results after which a turn goes on,
  and the size of the tool results that a step replays to the model.
\<close>

section \<open>The loop\<close>

lemma chain_Inr:
  "chain r k = (Inr y, s') \<longleftrightarrow> (\<exists>x s. r = (Inr x, s) \<and> k x s = (Inr y, s'))"
  by (cases r) (auto simp: chain_def split: sum.splits)

lemma step_loop_end: "\<not> i < maxSteps \<Longrightarrow>
  step_loop strategy hook maxSteps i st n s =
    (Inr \<lparr>lr_state = st, lr_completedSteps = n, lr_stopReason = MaxStepsReached\<rparr>, s)"
  by (subst step_loop.simps) simp

lemma step_loop_more: "i < maxSteps \<Longrightarrow>
  step_loop strategy hook maxSteps i st n s =
    chain (strategy i maxSteps st s) (\<lambda>result s1.
      chain (hook i result s1) (\<lambda>_ s2.
        if \<not> ir_continueLoop result
        then (Inr \<lparr>lr_state = ir_state result, lr_completedSteps = n + 1,
                   lr_stopReason = StrategyStop\<rparr>, s2)
        else step_loop strategy hook maxSteps (i + 1) (ir_state result) (n + 1) s2))"
  by (subst step_loop.simps) simp

lemma step_loop_counts:
  assumes "step_loop strategy hook maxSteps i st n s = (Inr r, s')"
  shows "n \<le> lr_completedSteps r \<and> lr_completedSteps r \<le> n + max 0 (maxSteps - i) \<and>
         (lr_stopReason r = MaxStepsReached \<longrightarrow> lr_completedSteps r = n + max 0 (maxSteps - i)) \<and>
         (lr_stopReason r = StrategyStop \<longrightarrow> n < lr_completedSteps r)"
  using assms
proof (induction strategy hook maxSteps i st n s rule: step_loop.induct)
  case (1 strategy hook maxSteps i st n s)
  show ?case
  proof (cases "i < maxSteps")
    case False
    then show ?thesis using "1.prems" by (auto simp: step_loop_end)
  next
    case True
    from "1.prems" True obtain result s1 s2 where
      hook: "hook i result s1 = (Inr (), s2)" and rest: "(if \<not> ir_continueLoop result
        then (Inr \<lparr>lr_state = ir_state result, lr_completedSteps = n + 1,
                   lr_stopReason = StrategyStop\<rparr>, s2)
        else step_loop strategy hook maxSteps (i + 1) (ir_state result) (n + 1) s2) = (Inr r, s')"
      unfolding step_loop_more [OF True] chain_Inr by auto
    from rest show ?thesis using "1.IH" [OF True, of result s2] True by (auto split: if_splits)
  qed
qed

text \<open>An invariant of the surroundings that the strategy and the hook keep holds at the end.\<close>

lemma step_loop_keeps:
  assumes "\<And>i st s. P s \<Longrightarrow> P (snd (strategy i maxSteps st s))"
    and "\<And>i r s. P s \<Longrightarrow> P (snd (hook i r s))" and "P s"
  shows "P (snd (step_loop strategy hook maxSteps i st n s))"
  using assms
proof (induction strategy hook maxSteps i st n s rule: step_loop.induct)
  case (1 strategy hook maxSteps i st n s)
  show ?case
  proof (cases "i < maxSteps")
    case False
    then show ?thesis using "1.prems" by (simp add: step_loop_end)
  next
    case True
    obtain a s1 where a: "strategy i maxSteps st s = (a, s1)" by fastforce
    have s1: "P s1" using "1.prems"(1) [OF "1.prems"(3), of i st] a by simp
    show ?thesis
    proof (cases a)
      case (Inl e)
      then show ?thesis using True a s1 by (simp add: step_loop_more)
    next
      case (Inr result)
      obtain b s2 where b: "hook i result s1 = (b, s2)" by fastforce
      have s2: "P s2" using "1.prems"(2) [OF s1, of i result] b by simp
      show ?thesis
        by (cases b)
           (use True a b s2 Inr "1.IH" [OF True, of result s2] "1.prems"(1,2) in
             \<open>auto simp: step_loop_more\<close>)
    qed
  qed
qed

section \<open>When a turn goes on\<close>

definition lets_continue :: "tool_result \<Rightarrow> bool" where
  "lets_continue r \<longleftrightarrow>
     tr_resolution r \<notin> {Some ToolDenied, Some ToolApprovalRequired, Some ToolFailed} \<and>
     \<not> has_verdict PolicyDeny r \<and> \<not> has_verdict PolicyAsk r \<and>
     (tr_ok r \<or> tr_resolution r \<noteq> None)"

lemma not_terminal_iff:
  "\<not> terminal_branch (classifyTurnBranch results) \<longleftrightarrow> list_all lets_continue results"
  by (auto simp: classifyTurnBranch_def terminal_branch_def lets_continue_def result_failed_def
      list_ex_iff list_all_iff)

lemma runStep_cases:
  assumes "runStep deps i m st s = (Inr r, s')"
  obtains (final) prompt degradations decision modelOutput where
      "r = final_step st degradations decision
             [context_built_event prompt, model_output_event modelOutput decision] modelOutput"
      "rd_action decision \<noteq> CallTools"
  | (tools) prompt degradations decision modelOutput results s1 where
      "r = tool_step (sd_parse deps) st degradations decision
             [context_built_event prompt, model_output_event modelOutput decision] modelOutput results"
      "rd_action decision = CallTools"
      "sd_executeToolCalls deps modelOutput s1 = (Inr results, s')"
proof -
  obtain prompt s1 s2 where run:
    "(case model_request_of deps prompt st (sd_getSchemas deps s) of (request, degradations) \<Rightarrow>
        chain (call_model deps request degradations s2) (\<lambda>modelOutput s3.
          after_model deps st (context_built_event prompt) degradations modelOutput s3)) = (Inr r, s')"
    using assms unfolding runStep_def Let_def chain_Inr by blast
  then obtain degradations modelOutput s3 where
    after: "after_model deps st (context_built_event prompt) degradations modelOutput s3 = (Inr r, s')"
    unfolding chain_Inr split_beta by blast
  let ?d = "nullish_else (sd_decideReasoning deps) decideReasoningFromModelOutput modelOutput"
  show thesis
  proof (cases "rd_action ?d = CallTools")
    case True
    then obtain results s4 where results: "sd_executeToolCalls deps modelOutput s3 = (Inr results, s4)"
      "(Inr (tool_step (sd_parse deps) st degradations ?d
          [context_built_event prompt, model_output_event modelOutput ?d] modelOutput results), s4) =
       (Inr r, s')"
      using after by (simp add: after_model_def Let_def chain_Inr del: Pair_inject) blast
    show thesis by (rule tools [OF _ True]) (use results in auto)
  next
    case False
    then show thesis
      using after final [OF _ False] unfolding after_model_def Let_def by auto
  qed
qed

lemma tool_step_continues:
  "ir_continueLoop (tool_step parse st degradations decision events modelOutput results) \<longleftrightarrow>
   list_all lets_continue results"
  by (simp add: tool_step_def Let_def not_terminal_iff [symmetric])

lemma tool_step_results [simp]:
  "ls_toolResults (ir_state (tool_step parse st degradations decision events modelOutput results)) =
   ls_toolResults st @ results"
  by (simp add: tool_step_def Let_def)

lemma final_step_simps [simp]:
  "\<not> ir_continueLoop (final_step st degradations decision events modelOutput)"
  "ls_toolResults (ir_state (final_step st degradations decision events modelOutput)) =
   ls_toolResults st"
  by (simp_all add: final_step_def)

lemma step_continues:
  assumes "runStep deps i m st s = (Inr r, s')" and "ir_continueLoop r"
  shows "\<exists>results. ls_toolResults (ir_state r) = ls_toolResults st @ results \<and>
                   list_all lets_continue results"
  using assms(1)
proof (cases rule: runStep_cases)
  case final
  then show ?thesis using assms(2) by simp
next
  case tools
  then show ?thesis using assms(2) tool_step_continues by auto
qed

section \<open>The replay of tool results\<close>

lemma shrink_preview_fits:
  "shrink_preview render maxChars n = Some content \<Longrightarrow> int (length content) \<le> maxChars"
proof (induction render maxChars n rule: shrink_preview.induct)
  case (1 render maxChars n)
  then show ?case by (subst (asm) (2) shrink_preview.simps) (auto simp: Let_def split: if_splits)
qed

definition known_resolution :: "result_summary \<Rightarrow> bool" where
  "known_resolution summary \<longleftrightarrow>
     (case rs_resolution summary of None \<Rightarrow> True | Some t \<Rightarrow> \<exists>r. t = resolution_str r)"

lemma shortest_message:
  assumes "known_resolution summary"
  shows "int (length (stringify (JObj (result_fields result summary @ [(''truncated'', JBool True)]))))
           \<le> MIN_TOOL_RESULT_REPLAY_MESSAGE_CHARS"
proof (cases "rs_resolution summary")
  case None
  then show ?thesis
    by (simp add: result_fields_def stringify_def MIN_TOOL_RESULT_REPLAY_MESSAGE_CHARS_def
        json_quote_def json_char_def)
next
  case (Some t)
  then obtain r where t: "t = resolution_str r"
    using assms by (auto simp: known_resolution_def)
  show ?thesis
    by (cases r) (simp_all add: Some t result_fields_def stringify_def json_quote_def
        MIN_TOOL_RESULT_REPLAY_MESSAGE_CHARS_def json_char_def)
qed

lemma serialized_fits:
  assumes "known_resolution summary" and "MIN_TOOL_RESULT_REPLAY_MESSAGE_CHARS \<le> maxChars"
  shows "int (length (sz_content (serializeToolResultForMessage result summary maxChars))) \<le> maxChars"
  using shortest_message [OF assms(1), of result] assms(2)
  by (auto simp: serializeToolResultForMessage_def serializeTruncatedToolResultForMessage_def Let_def
      dest: shrink_preview_fits split: option.splits)

definition replayed_chars :: "model_message list \<Rightarrow> int" where
  "replayed_chars messages = int (sum_list (map (\<lambda>m. length (mm_content m)) messages))"

text \<open>With at least 128 characters left for each message, every share is at least that.\<close>

lemma share_least:
  fixes n remaining :: int
  assumes "1 \<le> n" and "128 * n \<le> remaining"
  shows "128 \<le> remaining div n"
  using zdiv_mono1 [OF assms(2), of n] assms(1) by simp

lemma share_left:
  fixes n remaining len :: int
  assumes "1 \<le> n" and "128 * n \<le> remaining" and "len \<le> remaining div n"
  shows "128 * (n - 1) \<le> remaining - len"
proof -
  have whole: "n * (remaining div n) \<le> remaining"
    using assms(1) pos_mod_sign [of n remaining] mult_div_mod_eq [of n remaining] by linarith
  have "(n - 1) * 128 \<le> (n - 1) * (remaining div n)"
    using assms(1) share_least [OF assms(1,2)] by (intro mult_left_mono) auto
  moreover have "n * (remaining div n) - (remaining div n) = (n - 1) * (remaining div n)"
    by (simp add: algebra_simps)
  ultimately show ?thesis using assms(3) whole by linarith
qed

lemma share_budget:
  assumes "1 \<le> n" and "128 * n \<le> remaining"
  shows "resolveToolResultMessageBudgetChars remaining n = remaining div n"
  using share_least [OF assms] assms
  by (simp add: resolveToolResultMessageBudgetChars_def MIN_TOOL_RESULT_REPLAY_MESSAGE_CHARS_def)

lemma replay_fits:
  assumes "list_all known_resolution summaries" and "128 * int (length summaries) \<le> remaining"
  shows "replayed_chars (fst (replay_results results summaries remaining)) \<le> remaining"
  using assms
proof (induction summaries arbitrary: remaining)
  case Nil
  then show ?case by (simp add: replayed_chars_def)
next
  case (Cons summary summaries)
  let ?n = "int (length (summary # summaries))"
  let ?content = "sz_content (serializeToolResultForMessage
    (result_by_id results (rs_toolCallId summary)) summary
    (resolveToolResultMessageBudgetChars remaining ?n))"
  have n: "1 \<le> ?n" by simp
  have share: "resolveToolResultMessageBudgetChars remaining ?n = remaining div ?n"
    using share_budget [OF n Cons.prems(2)] .
  have "MIN_TOOL_RESULT_REPLAY_MESSAGE_CHARS \<le> remaining div ?n"
    using share_least [OF n Cons.prems(2)] by (simp add: MIN_TOOL_RESULT_REPLAY_MESSAGE_CHARS_def)
  then have fits: "int (length ?content) \<le> remaining div ?n"
    unfolding share by (rule serialized_fits [rotated]) (use Cons.prems(1) in simp)
  then have left: "128 * int (length summaries) \<le> remaining - int (length ?content)"
    using share_left [OF n Cons.prems(2) fits] by simp
  then have "replayed_chars (fst (replay_results results summaries
      (remaining - int (length ?content)))) \<le> remaining - int (length ?content)"
    using Cons.IH Cons.prems(1) by simp
  with left show ?case
    by (simp add: replayed_chars_def split_beta Let_def tool_message_def)
qed

lemma replay_ids:
  "map mm_toolCallId (fst (replay_results results summaries remaining)) =
   map (Some \<circ> rs_toolCallId) summaries"
  by (induction results summaries remaining rule: replay_results.induct)
    (simp_all add: split_beta Let_def tool_message_def)

section \<open>Reading back a step's events\<close>

definition summary_of :: "tool_result \<Rightarrow> result_summary" where
  "summary_of r =
     \<lparr>rs_toolCallId = tr_toolCallId r, rs_toolName = tr_toolName r, rs_ok = tr_ok r,
      rs_resolution = Some (resolution_str (nullish_else (tr_resolution r) ToolExecuted))\<rparr>"

lemma summary_of_record [simp]: "result_summary_of (result_record r) = Some (summary_of r)"
  by (simp add: result_record_def summary_of_def)

lemma map_filter_total: "(\<And>x. f (g x) = Some (h x)) \<Longrightarrow> List.map_filter f (map g xs) = map h xs"
  by (induction xs) (simp_all add: List.map_filter_simps)

lemma step_results_read_back:
  "readStepToolResults (ls_lastStepEvents (ir_state (tool_step parse st degradations decision
     [context_built_event prompt, model_output_event modelOutput decision] modelOutput results))) =
   map summary_of results"
  by (simp add: readStepToolResults_def event_payload_def tool_step_def Let_def
      context_built_event_def model_output_event_def tools_planned_event_def tool_result_event_def
      map_filter_total [of result_summary_of result_record summary_of])

lemma safe_args_object: "\<exists>kvs. safeParseToolArgs parse s = JObj kvs"
  by (auto simp: safeParseToolArgs_def split: option.splits jsval.splits)

lemma planned_calls_read_back:
  "readPlannedToolCalls (ls_lastStepEvents (ir_state (tool_step parse st degradations decision
     [context_built_event prompt, model_output_event modelOutput decision] modelOutput results))) =
   map (\<lambda>c. \<lparr>pc_id = mc_id c, pc_name = mc_name c,
            pc_args = safeParseToolArgs parse (mc_argumentsJson c)\<rparr>)
     (nullish_else (mo_toolCalls modelOutput) [])"
proof -
  have "planned_call_of (JObj [(''id'', JStr (mc_id c)), (''name'', JStr (mc_name c)),
           (''args'', safeParseToolArgs parse (mc_argumentsJson c))]) =
        Some \<lparr>pc_id = mc_id c, pc_name = mc_name c,
              pc_args = safeParseToolArgs parse (mc_argumentsJson c)\<rparr>" for c :: model_tool_call
    using safe_args_object [of parse "mc_argumentsJson c"] by auto
  then show ?thesis
    by (simp add: readPlannedToolCalls_def event_payload_def tool_step_def Let_def
        context_built_event_def model_output_event_def tools_planned_event_def tool_result_event_def
        map_filter_total)
qed

lemma known_summaries: "list_all known_resolution (map summary_of results)"
  by (auto simp: list_all_iff known_resolution_def summary_of_def)

definition is_tool_message :: "model_message \<Rightarrow> bool" where
  "is_tool_message m \<longleftrightarrow> mm_role m = ToolRole"

lemma replay_all_tools:
  "list_all is_tool_message (fst (replay_results results summaries remaining))"
  by (induction results summaries remaining rule: replay_results.induct)
    (simp_all add: split_beta Let_def tool_message_def is_tool_message_def)

text \<open>The state after the tools of a step, and the messages the next step sends because of it.\<close>

abbreviation after_tools ::
  "(string \<Rightarrow> jsval option) \<Rightarrow> step_state \<Rightarrow> degrade_surface list \<Rightarrow> reasoning_decision \<Rightarrow>
   prompt_artifacts \<Rightarrow> model_output \<Rightarrow> tool_result list \<Rightarrow> step_state" where
  "after_tools parse st degradations decision prompt modelOutput results \<equiv>
     ir_state (tool_step parse st degradations decision
       [context_built_event prompt, model_output_event modelOutput decision] modelOutput results)"

definition replayed_messages :: "step_state \<Rightarrow> int \<Rightarrow> model_message list" where
  "replayed_messages st tokens =
     filter is_tool_message (fst (buildToolContinuationMessages st (Some tokens)))"

lemma replay_of_step:
  "replayed_messages (after_tools parse st degradations decision prompt modelOutput results) tokens =
     (if nullish_else (mo_toolCalls modelOutput) [] = [] \<or> results = [] then []
      else fst (replay_results (ls_toolResults st @ results) (map summary_of results)
             (resolveToolResultReplayBudgetChars (Some tokens) (int (length results)))))"
proof -
  have "filter is_tool_message (fst (replay_results rs ss n)) = fst (replay_results rs ss n)" for rs ss n
    using replay_all_tools [of rs ss n] by (simp add: list_all_iff filter_id_conv)
  then show ?thesis
    unfolding replayed_messages_def buildToolContinuationMessages_def step_results_read_back
      planned_calls_read_back Let_def split_beta
    by (simp add: is_tool_message_def)
qed

lemma budget_covers:
  "128 * n \<le> resolveToolResultReplayBudgetChars (Some tokens) n \<or> n \<le> 0"
  by (simp add: resolveToolResultReplayBudgetChars_def MIN_TOOL_RESULT_REPLAY_MESSAGE_CHARS_def mult.commute)

lemma replay_of_step_fits:
  "replayed_chars (replayed_messages
     (after_tools parse st degradations decision prompt modelOutput results) tokens)
   \<le> max (128 * int (length results)) (min 8192 (max 0 ((16 * tokens) div 5)))"
proof (cases "nullish_else (mo_toolCalls modelOutput) [] = [] \<or> results = []")
  case True
  then show ?thesis by (simp add: replay_of_step replayed_chars_def)
next
  case False
  let ?n = "int (length results)" and ?b = "resolveToolResultReplayBudgetChars (Some tokens) (int (length results))"
  have "128 * ?n \<le> ?b" using budget_covers [of ?n tokens] False by simp
  then have "replayed_chars (replayed_messages
      (after_tools parse st degradations decision prompt modelOutput results) tokens) \<le> ?b"
    using replay_fits [OF known_summaries, of results ?b] False by (simp add: replay_of_step)
  also have "?b = max (128 * ?n) (min 8192 (max 0 ((16 * tokens) div 5)))"
    using False by (simp add: resolveToolResultReplayBudgetChars_def estimated_replay_chars_def
        MIN_TOOL_RESULT_REPLAY_MESSAGE_CHARS_def MAX_TOOL_RESULT_REPLAY_TOTAL_CHARS_def mult.commute)
  finally show ?thesis .
qed

end
