(* ===== verification/Engine_Stream_Laws.thy ===== *)
theory Engine_Stream_Laws
  imports Engine_Laws Session_Turn_Laws
begin

text \<open>
  The stream of a turn as its recorder writes it: the kinds of the stored events follow an automaton,
  and a recorder that is created from the stored events is in the state of the one that wrote them,
  so a turn that is resumed in another process goes on with the stream where it was.
\<close>

section \<open>The stored stream\<close>

definition stream_of :: "recorder \<Rightarrow> session_store \<Rightarrow> event_envelope list" where
  "stream_of r s =
     map sz_event (List.map_filter (scoped_entry_of STREAM_JOURNAL_EVENT_TYPE (Some (rc_turnId r)))
       (entries_of (rc_sessionId r) (st_db s)))"

text \<open>An id that is not blank and has no blanks around it.\<close>

definition proper_turn :: "recorder \<Rightarrow> bool" where
  "proper_turn r \<longleftrightarrow> rc_turnId r \<noteq> [] \<and> js_trim (rc_turnId r) = rc_turnId r"

lemma created_recorder:
  assumes "store_inv s" and "proper_turn r"
  shows "createTurnStreamRecorder r s = Inr (restoreRecorderState (stream_of r s))"
  using assms list_entries(2) [of "st_db s" "rc_sessionId r"]
  by (simp add: createTurnStreamRecorder_def journalListStreamEvents_def listScopedEvents_def
      journalList_def turn_filter_def proper_turn_def store_inv_def stream_of_def)

lemma stream_of_tick [simp]: "stream_of r (store_tick s) = stream_of r s"
  by (simp add: stream_of_def)

lemma store_inv_tick [simp]: "store_inv (store_tick s) = store_inv s"
  by (simp add: store_inv_def)

lemma trim_not_blank: "\<not> is_js_space c \<Longrightarrow> js_trim (c # s) \<noteq> []"
  by (simp add: js_trim_def dropWhile_eq_Nil_conv)

lemma stream_event_envelope:
  "asJournalEventEnvelope (sx_event (stream_event r kind (JObj kvs) n t)) =
     Some \<lparr>en_id = stream_event_id (rc_turnId r) kind n, en_kind = stream_kind_str kind,
           en_schemaVersion = CONTRACTS_SCHEMA_VERSION, en_occurredAtMs = t, en_payload = JObj kvs\<rparr>"
proof -
  have "js_trim (stream_event_id (rc_turnId r) kind n) \<noteq> []"
    by (simp add: stream_event_id_def trim_not_blank is_js_space_def)
  moreover have "js_trim (stream_kind_str kind) \<noteq> []"
    by (cases kind) (simp_all add: trim_not_blank is_js_space_def)
  moreover have "js_trim CONTRACTS_SCHEMA_VERSION \<noteq> []"
    by (simp add: CONTRACTS_SCHEMA_VERSION_def trim_not_blank is_js_space_def)
  ultimately show ?thesis
    by (simp add: stream_event_def non_blank_def has_own_def)
qed

lemma append_stream_Inr:
  assumes inv: "store_inv s" and open': "\<not> rc_terminal st"
    and app: "append_stream r kind (JObj kvs) (st, s) = (Inr u, (st', s'))"
  shows "store_inv s'" and "st' = advance_recorder kind st"
    and "\<exists>ev. stream_of r s' = stream_of r s @ [ev] \<and> en_kind ev = stream_kind_str kind \<and>
              en_payload ev = json_copy (JObj kvs)"
proof -
  let ?k = "rc_sessionId r"
  let ?input = "stream_event r kind (JObj kvs) (rc_sequence st) (store_time s)"
  obtain e where stored: "storeAppendStreamEvent ?k ?input (store_tick s) = (Inr e, s')"
    and st': "st' = advance_recorder kind st"
    using app open' by (auto simp: append_stream_def split: prod.splits sum.splits)
  show "st' = advance_recorder kind st" by (rule st')
  show inv': "store_inv s'"
    using exec_store_inv [of "store_tick s" "CmdAppendStream ?k ?input"] inv stored by simp
  define env where "env = \<lparr>en_id = stream_event_id (rc_turnId r) kind (rc_sequence st),
    en_kind = stream_kind_str kind, en_schemaVersion = CONTRACTS_SCHEMA_VERSION,
    en_occurredAtMs = store_time s, en_payload = JObj kvs\<rparr>"
  obtain row where row: "lifecycleRequireActive ?k (st_db s) = Inr row"
    and appended: "journalAppendStreamEvent row ?input (store_tick s) = (Inr e, s')"
    using stored by (auto simp: storeAppendStreamEvent_def with_active_def transaction_def
        split: sum.splits prod.splits)
  have cur: "current row (st_db (store_tick s))" and id: "ss_id row = ?k"
    using row sqlGetSession_Some currentI by (auto simp: lifecycleRequireActive_Inr)
  have "journalAppend row \<lparr>ap_eventType = STREAM_JOURNAL_EVENT_TYPE, ap_payload = js_of_envelope env,
      ap_turnId = Some (rc_turnId r), ap_schemaVersion = None,
      ap_createdAtMs = Some (store_time s)\<rparr> (store_tick s) = (Inr e, s')"
    using appended stream_event_envelope [of r kind kvs "rc_sequence st" "store_time s"]
    by (simp add: journalAppendStreamEvent_def appendScopedEvent_def validateJournalEventEnvelope_def
        env_def) (simp add: stream_event_def)
  note ok = journalAppend_Inr [OF cur _ this]
  have tab: "tables_inv (st_db (store_tick s))" using inv by (simp add: store_inv_def)
  have e: "jn_sessionId e = ?k" "jn_eventType e = STREAM_JOURNAL_EVENT_TYPE"
    "jn_turnId e = Some (rc_turnId r)" "jn_payload e = json_copy (js_of_envelope env)"
    by (simp_all add: ok(1) [OF tab] id STREAM_JOURNAL_EVENT_TYPE_def js_trim_def is_js_space_def)
  have "non_blank (JStr (en_id env)) = Some (en_id env)"
    "non_blank (JStr (en_kind env)) = Some (en_kind env)"
    "non_blank (JStr (en_schemaVersion env)) = Some (en_schemaVersion env)"
    using envelope_wf [OF stream_event_envelope [of r kind kvs "rc_sequence st" "store_time s"]]
    by (simp_all add: env_def non_blank_def)
  then have "asJournalEventEnvelope (jn_payload e) = Some (env\<lparr>en_payload := json_copy (JObj kvs)\<rparr>)"
    by (simp add: e js_of_envelope_def has_own_def env_def)
  then have "scoped_entry_of STREAM_JOURNAL_EVENT_TYPE (Some (rc_turnId r)) e =
      Some \<lparr>sz_entry = e, sz_event = env\<lparr>en_payload := json_copy (JObj kvs)\<rparr>\<rparr>"
    by (simp add: scoped_entry_of_def e of_turn_def)
  then have "stream_of r s' = stream_of r s @ [env\<lparr>en_payload := json_copy (JObj kvs)\<rparr>]"
    using ok(2) [OF tab] by (simp add: stream_of_def store_simps e map_filter_snoc)
  then show "\<exists>ev. stream_of r s' = stream_of r s @ [ev] \<and> en_kind ev = stream_kind_str kind \<and>
              en_payload ev = json_copy (JObj kvs)"
    by (auto simp: env_def)
qed

section \<open>The automaton of a stream\<close>

datatype stream_phase = NotStarted | Streaming | Paused | Closed

fun stream_next :: "stream_phase \<Rightarrow> stream_kind \<Rightarrow> stream_phase option" where
  "stream_next NotStarted StartedKind = Some Streaming"
| "stream_next NotStarted CompletedKind = Some Closed"
| "stream_next Streaming ChunkKind = Some Streaming"
| "stream_next Streaming ReasoningKind = Some Streaming"
| "stream_next Streaming ToolCallKind = Some Streaming"
| "stream_next Streaming ErrorKind = Some Streaming"
| "stream_next Streaming InterruptedKind = Some Paused"
| "stream_next Streaming AbortedKind = Some Closed"
| "stream_next Streaming CompletedKind = Some Closed"
| "stream_next Paused ResumedKind = Some Streaming"
| "stream_next Paused CompletedKind = Some Closed"
| "stream_next _ _ = None"

fun stream_run :: "stream_phase \<Rightarrow> stream_kind list \<Rightarrow> stream_phase option" where
  "stream_run p [] = Some p"
| "stream_run p (k # ks) = (case stream_next p k of None \<Rightarrow> None | Some q \<Rightarrow> stream_run q ks)"

lemma stream_run_snoc: "stream_run p (ks @ [k]) = Option.bind (stream_run p ks) (\<lambda>q. stream_next q k)"
  by (induction ks arbitrary: p) (auto split: option.split)

definition phase_of :: "recorder_state \<Rightarrow> stream_phase" where
  "phase_of st =
     (if rc_terminal st then Closed else if rc_interrupted st then Paused
      else if rc_started st then Streaming else NotStarted)"

text \<open>The state is the one that the stored events restore, and their kinds lead to its phase.\<close>

definition following :: "recorder \<Rightarrow> recorder_state \<Rightarrow> session_store \<Rightarrow> bool" where
  "following r st s \<longleftrightarrow>
     store_inv s \<and> st = restoreRecorderState (stream_of r s) \<and>
     (rc_interrupted st \<longrightarrow> rc_started st) \<and>
     (\<exists>kinds. map en_kind (stream_of r s) = map stream_kind_str kinds \<and>
              stream_run NotStarted kinds = Some (phase_of st))"

lemma following_started: "following r st s \<Longrightarrow> rc_interrupted st \<Longrightarrow> rc_started st"
  unfolding following_def by blast

lemma following_tick: "following r st s \<Longrightarrow> following r st (store_tick s)"
  unfolding following_def store_inv_tick stream_of_tick .

lemma stream_kind_inject [simp]: "stream_kind_str a = stream_kind_str b \<longleftrightarrow> a = b"
  by (cases a; cases b) simp_all

lemma kind_strings:
  "''stream.started'' = stream_kind_str StartedKind" "''stream.chunk'' = stream_kind_str ChunkKind"
  "''stream.reasoning'' = stream_kind_str ReasoningKind"
  "''stream.interrupted'' = stream_kind_str InterruptedKind"
  by simp_all

lemma restore_snoc:
  assumes "en_kind ev = stream_kind_str kind"
  shows "restoreRecorderState (evs @ [ev]) =
    (let st = restoreRecorderState evs
     in \<lparr>rc_sequence = rc_sequence st + 1,
         rc_chunkIndex = (case chunk_position ev of None \<Rightarrow> rc_chunkIndex st
                          | Some n \<Rightarrow> max (rc_chunkIndex st) n),
         rc_started = (rc_started st \<or> kind = StartedKind),
         rc_interrupted = (kind = InterruptedKind),
         rc_reasoningRecorded = (rc_reasoningRecorded st \<or> kind = ReasoningKind),
         rc_terminal = (kind \<in> {CompletedKind, AbortedKind})\<rparr>)"
  unfolding restoreRecorderState_def Let_def kind_strings
  by (auto simp: assms last_opt_def TERMINAL_STREAM_KINDS_def simp del: stream_kind_str.simps
      split: option.split)

lemma chunk_position_other: "en_kind ev = stream_kind_str kind \<Longrightarrow> kind \<noteq> ChunkKind \<Longrightarrow> chunk_position ev = None"
  by (simp add: kind_strings(2) del: stream_kind_str.simps)

text \<open>One event that the automaton allows.\<close>

lemma append_follows:
  assumes "following r st s" and "stream_next (phase_of st) kind = Some p"
    and "kind = ChunkKind \<Longrightarrow>
      \<exists>delta. kvs = [(''turnId'', JStr (rc_turnId r)), (''index'', js_int (rc_chunkIndex st)),
                    (''delta'', JStr delta)]"
    and "append_stream r kind (JObj kvs) (st, s) = (Inr u, (st', s'))"
  shows "\<exists>q. q = st'\<lparr>rc_reasoningRecorded := rc_reasoningRecorded st \<or> kind = ReasoningKind\<rparr> \<and>
             following r q s' \<and> phase_of q = p"
proof -
  have open': "\<not> rc_terminal st"
    using assms(2) by (cases kind) (auto simp: phase_of_def split: if_splits)
  from append_stream_Inr [OF _ open' assms(4)] assms(1) obtain ev where
    inv: "store_inv s'" and st': "st' = advance_recorder kind st"
    and ev: "stream_of r s' = stream_of r s @ [ev]" "en_kind ev = stream_kind_str kind"
      "en_payload ev = json_copy (JObj kvs)"
    by (auto simp: following_def)
  let ?q = "st'\<lparr>rc_reasoningRecorded := rc_reasoningRecorded st \<or> kind = ReasoningKind\<rparr>"
  have st: "st = restoreRecorderState (stream_of r s)" using assms(1) by (simp add: following_def)
  have position: "chunk_position ev =
      (if kind = ChunkKind then Some (rc_chunkIndex st + 1) else None)"
    using assms(3) ev(2,3) chunk_position_other [OF ev(2)] by (cases kind) auto
  have restored: "?q = restoreRecorderState (stream_of r s')"
    using assms(2) open'
    unfolding ev(1) restore_snoc [OF ev(2)] st [symmetric] Let_def position st'
    by (cases kind; cases st)
      (auto simp: advance_recorder_def phase_of_def TERMINAL_STREAM_KINDS_def split: if_splits)
  have phase: "phase_of ?q = p \<and> (rc_interrupted ?q \<longrightarrow> rc_started ?q)"
    using assms(1,2) open'
    by (cases kind)
      (auto simp: following_def st' advance_recorder_def phase_of_def TERMINAL_STREAM_KINDS_def split: if_splits)
  obtain kinds where kinds: "map en_kind (stream_of r s) = map stream_kind_str kinds"
    "stream_run NotStarted kinds = Some (phase_of st)"
    using assms(1) by (auto simp: following_def)
  have "map en_kind (stream_of r s') = map stream_kind_str (kinds @ [kind])"
    by (simp add: ev kinds)
  moreover have "stream_run NotStarted (kinds @ [kind]) = Some (phase_of ?q)"
    by (simp add: stream_run_snoc kinds assms(2) phase)
  ultimately have "following r ?q s'"
    unfolding following_def using inv restored phase by blast
  with phase show ?thesis by simp
qed

text \<open>Only the reasoning is marked after its event was stored.\<close>

lemma append_keeps_mark:
  "append_stream r kind payload (st, s) = (Inr u, (st', s')) \<Longrightarrow>
   rc_reasoningRecorded st' = rc_reasoningRecorded st"
  by (cases kind) (auto simp: append_stream_def advance_recorder_def Let_def TERMINAL_STREAM_KINDS_def
      split: prod.splits sum.splits if_splits)

lemma append_follows_plain:
  assumes "following r st s" and "stream_next (phase_of st) kind = Some p" and "kind \<noteq> ReasoningKind"
    and "kind = ChunkKind \<Longrightarrow>
      \<exists>delta. kvs = [(''turnId'', JStr (rc_turnId r)), (''index'', js_int (rc_chunkIndex st)),
                    (''delta'', JStr delta)]"
    and app: "append_stream r kind (JObj kvs) (st, s) = (Inr u, (st', s'))"
  shows "following r st' s' \<and> phase_of st' = p"
proof -
  have "st'\<lparr>rc_reasoningRecorded := rc_reasoningRecorded st \<or> kind = ReasoningKind\<rparr> = st'"
    using append_keeps_mark [OF app] assms(3) by simp
  with append_follows [OF assms(1,2,4) app] show ?thesis by simp
qed

section \<open>The recorder's methods\<close>

text \<open>What a method does to a stream in one of some phases, when every append succeeds.\<close>

definition moves ::
  "recorder \<Rightarrow> (recorder_state \<Rightarrow> bool) \<Rightarrow> unit recording \<Rightarrow> (recorder_state \<Rightarrow> bool) \<Rightarrow> bool" where
  "moves r P f Q \<longleftrightarrow>
     (\<forall>st s st' s'. following r st s \<longrightarrow> P st \<longrightarrow> f (st, s) = (Inr (), (st', s')) \<longrightarrow>
        following r st' s' \<and> Q st')"

abbreviation in_phase :: "stream_phase \<Rightarrow> recorder_state \<Rightarrow> bool" where
  "in_phase p st \<equiv> phase_of st = p"

lemma movesI:
  "(\<And>st s st' s'. following r st s \<Longrightarrow> P st \<Longrightarrow> f (st, s) = (Inr (), (st', s')) \<Longrightarrow>
      following r st' s' \<and> Q st') \<Longrightarrow> moves r P f Q"
  by (simp add: moves_def)

lemma movesD:
  "moves r P f Q \<Longrightarrow> following r st s \<Longrightarrow> P st \<Longrightarrow> f (st, s) = (Inr (), (st', s')) \<Longrightarrow>
     following r st' s' \<and> Q st'"
  by (simp add: moves_def)

lemma moves_then:
  assumes "moves r P f Q" and "moves r Q g R"
  shows "moves r P (then_append f g) R"
proof (rule movesI)
  fix st s st' s'
  assume "following r st s" and "P st" and "then_append f g (st, s) = (Inr (), (st', s'))"
  moreover from this obtain st1 s1 where "f (st, s) = (Inr (), (st1, s1))" "g (st1, s1) = (Inr (), (st', s'))"
    by (auto simp: then_append_def chain_Inr)
  ultimately show "following r st' s' \<and> R st'"
    using movesD [OF assms(1)] movesD [OF assms(2)] by metis
qed

lemma moves_skip: "(\<And>st. P st \<Longrightarrow> Q st) \<Longrightarrow> moves r P skip_append Q"
  by (simp add: moves_def skip_append_def)

lemma moves_weaken:
  "moves r P f Q \<Longrightarrow> (\<And>st. P' st \<Longrightarrow> P st) \<Longrightarrow> (\<And>st. Q st \<Longrightarrow> Q' st) \<Longrightarrow> moves r P' f Q'"
  unfolding moves_def by blast

lemma moves_on_state:
  assumes "\<And>st. P st \<Longrightarrow> (rc_interrupted st \<Longrightarrow> rc_started st) \<Longrightarrow>
      moves r (\<lambda>st'. st' = st) (f st) Q"
  shows "moves r P (on_state f) Q"
proof (rule movesI)
  fix st s st' s'
  assume "following r st s" and "P st" and "on_state f (st, s) = (Inr (), (st', s'))"
  moreover from this have "moves r (\<lambda>st'. st' = st) (f st) Q"
    using following_started by (intro assms)
  ultimately show "following r st' s' \<and> Q st'"
    using movesD [of r "\<lambda>st'. st' = st" "f st" Q st s st' s'] by (simp add: on_state_def)
qed

lemma moves_kind:
  assumes "stream_next p kind = Some q" and "kind \<noteq> ChunkKind" and "kind \<noteq> ReasoningKind"
  shows "moves r (in_phase p) (append_stream r kind (turn_fields r kvs)) (in_phase q)"
  unfolding turn_fields_def
  by (rule movesI, rule append_follows_plain) (use assms in auto)

lemma moves_chunk: "moves r (in_phase Streaming) (appendChunk r delta) (in_phase Streaming)"
proof (rule movesI)
  fix st s st' s'
  assume follows: "following r st s" "in_phase Streaming st"
    and app: "appendChunk r delta (st, s) = (Inr (), (st', s'))"
  show "following r st' s' \<and> in_phase Streaming st'"
  proof (cases "delta = []")
    case True
    then show ?thesis using follows app by (simp add: appendChunk_def)
  next
    case False
    then have "append_stream r ChunkKind (JObj [(''turnId'', JStr (rc_turnId r)),
        (''index'', js_int (rc_chunkIndex st)), (''delta'', JStr delta)]) (st, s) = (Inr (), (st', s'))"
      using app by (simp add: appendChunk_def turn_fields_def)
    from append_follows_plain [OF follows(1) _ _ _ this] follows(2) show ?thesis by simp
  qed
qed

lemma moves_text: "moves r (in_phase Streaming) (append_text r t) (in_phase Streaming)"
  by (cases t) (simp_all add: append_text_def moves_skip moves_chunk)

lemma moves_call: "moves r (in_phase Streaming) (append_tool_call r call) (in_phase Streaming)"
proof (rule movesI)
  fix st s st' s'
  assume follows: "following r st s" "in_phase Streaming st"
    and app: "append_tool_call r call (st, s) = (Inr (), (st', s'))"
  have "moves r (in_phase Streaming) (append_stream r ToolCallKind (turn_fields r kvs))
      (in_phase Streaming)" for kvs
    by (rule moves_kind) simp_all
  from movesD [OF this following_tick [OF follows(1)] follows(2)] app
  show "following r st' s' \<and> in_phase Streaming st'"
    unfolding append_tool_call_def prod.case .
qed

lemma moves_each:
  "(\<And>x. moves r P (f x) P) \<Longrightarrow> moves r P (append_each f xs) P"
proof (induction xs)
  case Nil
  show ?case by (simp add: moves_def)
next
  case (Cons x xs)
  show ?case
    unfolding append_each.simps by (rule moves_then [OF Cons.prems Cons.IH [OF Cons.prems]])
qed

lemma moves_resumed: "moves r (in_phase Paused) (appendResumed r reason) (in_phase Streaming)"
  unfolding appendResumed_def by (rule moves_kind) simp_all

lemma moves_interrupted:
  "moves r (in_phase Streaming) (appendInterrupted r reason resumable) (in_phase Paused)"
  unfolding appendInterrupted_def by (rule moves_kind) simp_all

lemma moves_completed: "p \<noteq> Closed \<Longrightarrow> moves r (in_phase p) (appendCompleted r reason) (in_phase Closed)"
  unfolding appendCompleted_def by (rule moves_kind) (cases p; simp)+

lemma moves_started: "moves r (in_phase NotStarted) (append_started r) (in_phase Streaming)"
  unfolding append_started_def by (rule moves_kind) simp_all

lemma moves_step:
  "moves r (in_phase Streaming) (recordStep r continueLoop events b)
     (\<lambda>st. phase_of st \<in> {Paused, Closed})"
proof -
  have closed: "phase_of st = p \<Longrightarrow> p \<noteq> Closed \<Longrightarrow> \<not> rc_terminal st" for st p
    by (auto simp: phase_of_def)
  have closing: "moves r (in_phase Paused)
      (then_append (append_closing r events b) (appendCompleted r FinishStop)) (in_phase Closed)"
    by (cases "readStepFinalOutputText events \<noteq> None \<and> readStepFinalOutputText events \<noteq> Some []")
      (auto simp: append_closing_def Let_def
        intro!: moves_then [OF moves_then [OF moves_resumed] moves_completed]
          moves_then [OF moves_skip moves_completed] moves_text moves_skip)
  show ?thesis
    unfolding recordStep_def Let_def
  proof (rule moves_on_state)
    fix st assume st: "in_phase Streaming st"
    then have go: "\<not> rc_terminal st" by (rule closed) simp
    let ?planned = "readStepPlannedTools events"
    have final: "moves r (in_phase Streaming) (then_append (append_text r t) (appendCompleted r FinishStop))
        (in_phase Closed)" for t
      by (rule moves_then [OF moves_text moves_completed]) simp
    have rest: "moves r (in_phase Paused) (if continueLoop then skip_append
        else then_append (append_closing r events b) (appendCompleted r FinishStop))
        (\<lambda>st. phase_of st \<in> {Paused, Closed})"
      using moves_weaken [OF closing, of "in_phase Paused" "\<lambda>st. phase_of st \<in> {Paused, Closed}"]
      by (simp add: moves_skip)
    have tools: "moves r (in_phase Streaming) (then_append (append_text r t)
        (then_append (append_each (append_tool_call r) ?planned)
          (then_append (appendInterrupted r ''tool_boundary'' resumable)
            (if continueLoop then skip_append
             else then_append (append_closing r events b) (appendCompleted r FinishStop)))))
        (\<lambda>st. phase_of st \<in> {Paused, Closed})" for t resumable
      by (rule moves_then [OF moves_text moves_then [OF moves_each [OF moves_call]
            moves_then [OF moves_interrupted rest]]])
    show "moves r (\<lambda>st'. st' = st)
        (if rc_terminal st then skip_append
         else if ?planned = []
         then then_append (append_text r (nullish (readStepFinalOutputText events)
                (readStepModelOutputText events))) (appendCompleted r FinishStop)
         else then_append (append_text r (readStepModelOutputText events))
                (then_append (append_each (append_tool_call r) ?planned)
                  (then_append (appendInterrupted r ''tool_boundary''
                      (continueLoop \<or> readStepFinalOutputText events \<noteq> None \<and>
                        readStepFinalOutputText events \<noteq> Some []))
                    (if continueLoop then skip_append
                     else then_append (append_closing r events b) (appendCompleted r FinishStop)))))
        (\<lambda>st. phase_of st \<in> {Paused, Closed})"
      using moves_weaken [OF final, of "\<lambda>st'. st' = st" "\<lambda>st. phase_of st \<in> {Paused, Closed}"]
        moves_weaken [OF tools, of "\<lambda>st'. st' = st"] st go
      by simp
  qed
qed

lemma moves_before_model:
  "moves r (\<lambda>_. True) (beforeModelCall r reason) (\<lambda>st. phase_of st \<in> {Streaming, Closed})"
  unfolding beforeModelCall_def
proof (rule moves_on_state)
  fix st :: recorder_state
  assume started: "rc_interrupted st \<Longrightarrow> rc_started st"
  let ?Q = "\<lambda>st. phase_of st \<in> {Streaming, Closed}"
  let ?f = "if rc_terminal st then skip_append
       else if \<not> rc_started st then append_started r
       else if rc_interrupted st then appendResumed r (nullish_else reason ''tool boundary cleared'')
       else skip_append"
  show "moves r (\<lambda>st'. st' = st) ?f ?Q"
  proof (cases "phase_of st")
    case NotStarted
    then have "?f = append_started r" by (auto simp: phase_of_def split: if_splits)
    with moves_weaken [OF moves_started, of "\<lambda>st'. st' = st" ?Q] NotStarted show ?thesis by simp
  next
    case Paused
    then have "?f = appendResumed r (nullish_else reason ''tool boundary cleared'')"
      using started by (auto simp: phase_of_def split: if_splits)
    with moves_weaken [OF moves_resumed, of "\<lambda>st'. st' = st" ?Q] Paused show ?thesis by simp
  qed (auto simp: phase_of_def moves_skip split: if_splits)
qed

lemma moves_open:
  assumes "\<not> rc_terminal st" and "\<not> rc_interrupted st"
  shows "moves r (\<lambda>st'. st' = st) (if rc_started st then skip_append else append_started r)
           (in_phase Streaming)"
proof (cases "rc_started st")
  case True
  then show ?thesis using assms by (simp add: moves_skip phase_of_def)
next
  case False
  then have "phase_of st = NotStarted" using assms by (simp add: phase_of_def)
  with moves_weaken [OF moves_started, of "\<lambda>st'. st' = st" "in_phase Streaming" r] False
  show ?thesis by simp
qed

lemma moves_reasoning:
  "moves r (\<lambda>st. rc_interrupted st \<longrightarrow> rc_reasoningRecorded st) (recordReasoning r reasoning) (\<lambda>_. True)"
  unfolding recordReasoning_def
proof (rule moves_on_state)
  fix st :: recorder_state
  assume quiet: "rc_interrupted st \<longrightarrow> rc_reasoningRecorded st"
  let ?append = "append_stream r ReasoningKind (turn_fields r
    [(''decision'', rn_decision reasoning), (''summary'', JStr (rn_summary reasoning))])"
  have mark: "moves r (in_phase Streaming)
      (then_append ?append (\<lambda>(st', s). (Inr (), (st'\<lparr>rc_reasoningRecorded := True\<rparr>, s)))) (\<lambda>_. True)"
  proof (rule movesI)
    fix st s st' s'
    assume follows: "following r st s" "in_phase Streaming st"
      and run: "then_append ?append (\<lambda>(st', s). (Inr (), (st'\<lparr>rc_reasoningRecorded := True\<rparr>, s)))
        (st, s) = (Inr (), (st', s'))"
    then obtain st1 where "?append (st, s) = (Inr (), (st1, s'))"
      "st' = st1\<lparr>rc_reasoningRecorded := True\<rparr>"
      by (auto simp: then_append_def chain_Inr)
    with append_follows [OF follows(1), of ReasoningKind Streaming _ "()" st1 s'] follows(2)
    show "following r st' s' \<and> True" by (simp add: turn_fields_def)
  qed
  let ?f = "if rc_terminal st \<or> rc_reasoningRecorded st then skip_append
       else then_append (then_append (if rc_started st then skip_append else append_started r) ?append)
              (\<lambda>(st', s). (Inr (), (st'\<lparr>rc_reasoningRecorded := True\<rparr>, s)))"
  have assoc: "then_append (then_append f g) h = then_append f (then_append g h)" for f g h
    by (rule ext) (simp add: then_append_def chain_def split: prod.split sum.split)
  show "moves r (\<lambda>st'. st' = st) ?f (\<lambda>_. True)"
  proof (cases "rc_terminal st \<or> rc_reasoningRecorded st")
    case True
    then show ?thesis by (simp add: moves_skip)
  next
    case False
    with quiet have "moves r (\<lambda>st'. st' = st)
        (if rc_started st then skip_append else append_started r) (in_phase Streaming)"
      by (intro moves_open) auto
    from moves_then [OF this mark] False show ?thesis by (simp add: assoc)
  qed
qed

lemma moves_failure:
  "moves r (\<lambda>st. \<not> rc_interrupted st) (recordFailure r failure) (in_phase Closed)"
  unfolding recordFailure_def Let_def
proof (rule moves_on_state)
  fix st :: recorder_state
  assume quiet: "\<not> rc_interrupted st"
  have ending: "moves r (in_phase Streaming)
      (then_append (append_stream r ErrorKind (turn_fields r a)) (append_stream r AbortedKind (turn_fields r b)))
      (in_phase Closed)" for a b
    by (rule moves_then [OF moves_kind [where q = Streaming] moves_kind]) simp_all
  show "moves r (\<lambda>st'. st' = st)
      (if rc_terminal st then skip_append
       else then_append (if rc_started st then skip_append else append_started r)
         (then_append (append_stream r ErrorKind (turn_fields r a))
            (append_stream r AbortedKind (turn_fields r b)))) (in_phase Closed)" for a b
  proof (cases "rc_terminal st")
    case True
    then show ?thesis by (simp add: moves_skip phase_of_def)
  next
    case False
    with quiet have "moves r (\<lambda>st'. st' = st)
        (if rc_started st then skip_append else append_started r) (in_phase Streaming)"
      by (intro moves_open) auto
    from moves_then [OF this ending] False show ?thesis by simp
  qed
qed

lemma moves_complete: "moves r (\<lambda>_. True) (completeTurn r reason) (in_phase Closed)"
  unfolding completeTurn_def
proof (rule moves_on_state)
  fix st :: recorder_state
  show "moves r (\<lambda>st'. st' = st) (if rc_terminal st then skip_append else appendCompleted r reason)
      (in_phase Closed)"
  proof (cases "rc_terminal st")
    case True
    then show ?thesis by (simp add: moves_skip phase_of_def)
  next
    case False
    then have "phase_of st \<noteq> Closed" by (simp add: phase_of_def)
    from moves_weaken [OF moves_completed [OF this], of "\<lambda>st'. st' = st" "in_phase Closed"] False
    show ?thesis by simp
  qed
qed

section \<open>Runs of a recorder\<close>

text \<open>The calls of the recorder's methods, and the order in which the engine makes them: a step is
  recorded after its model call began, a failure while the stream is not paused, and the choice of
  the reasoning before the first step.\<close>

datatype recorder_call =
    BeforeModel "string option"
  | Reasoning reasoning_selection
  | Step bool "step_journal_event list" turn_branch
  | Failure error_surface
  | Complete finish_reason

fun recorder_method :: "recorder \<Rightarrow> recorder_call \<Rightarrow> unit recording" where
  "recorder_method r (BeforeModel reason) = beforeModelCall r reason"
| "recorder_method r (Reasoning reasoning) = recordReasoning r reasoning"
| "recorder_method r (Step continueLoop events b) = recordStep r continueLoop events b"
| "recorder_method r (Failure failure) = recordFailure r failure"
| "recorder_method r (Complete reason) = completeTurn r reason"

fun in_order :: "recorder_call \<Rightarrow> recorder_state \<Rightarrow> bool" where
  "in_order (Step continueLoop events b) st = (phase_of st = Streaming)"
| "in_order (Failure failure) st = (\<not> rc_interrupted st)"
| "in_order (Reasoning reasoning) st = (rc_interrupted st \<longrightarrow> rc_reasoningRecorded st)"
| "in_order _ st = True"

text \<open>A run ends with nothing when a call is out of order or an append throws.\<close>

fun run_recorder ::
  "recorder \<Rightarrow> recorder_call list \<Rightarrow> recorder_state \<times> session_store \<Rightarrow>
   (recorder_state \<times> session_store) option" where
  "run_recorder r [] x = Some x"
| "run_recorder r (c # cs) x =
     (if \<not> in_order c (fst x) then None
      else case recorder_method r c x of (Inl e, x') \<Rightarrow> None | (Inr u, x') \<Rightarrow> run_recorder r cs x')"

lemma method_follows: "moves r (in_order c) (recorder_method r c) (\<lambda>_. True)"
proof (cases c)
  case (BeforeModel reason)
  then show ?thesis using moves_weaken [OF moves_before_model, of "in_order c"] by simp
next
  case (Reasoning reasoning)
  then show ?thesis using moves_weaken [OF moves_reasoning, of "in_order c"] by simp
next
  case (Step continueLoop events b)
  then show ?thesis using moves_weaken [OF moves_step, of "in_order c"] by simp
next
  case (Failure failure)
  then show ?thesis using moves_weaken [OF moves_failure [of r failure], of "in_order c"] by simp
next
  case (Complete reason)
  then show ?thesis using moves_weaken [OF moves_complete, of "in_order c"] by simp
qed

lemma run_follows:
  "following r st s \<Longrightarrow> run_recorder r cs (st, s) = Some (st', s') \<Longrightarrow> following r st' s'"
proof (induction cs arbitrary: st s)
  case Nil
  then show ?case by simp
next
  case (Cons c cs)
  then obtain st1 s1 where "in_order c st" "recorder_method r c (st, s) = (Inr (), (st1, s1))"
    "run_recorder r cs (st1, s1) = Some (st', s')"
    by (auto split: if_splits prod.splits sum.splits)
  then show ?case using movesD [OF method_follows Cons.prems(1)] Cons.IH by blast
qed

lemma new_stream_follows:
  assumes "store_inv s" and "stream_of r s = []"
  shows "following r (restoreRecorderState []) s"
proof -
  have "stream_run NotStarted [] = Some (phase_of (restoreRecorderState []))"
    by (simp add: restoreRecorderState_def phase_of_def last_opt_def)
  moreover have "\<not> rc_interrupted (restoreRecorderState [])"
    by (simp add: restoreRecorderState_def last_opt_def)
  ultimately show ?thesis
    unfolding following_def assms(2) using assms(1) by (intro conjI exI [of _ "[]"]) simp_all
qed

end
