(* ===== verification/Engine_Runtime.thy ===== *)
theory Engine_Runtime
  imports Engine_Run Tool_Builtins Tool_Dispatch
begin

text \<open>
  The dispatcher that the runtime gives the engine, \<open>apps/runtime-bootstrap/src/index.ts\<close>: a
  \<open>ToolDispatcher\<close> over the plugins' tools and \<open>tasks.todo_write\<close>, whose journal sink appends to
  the session store and whose todo tool writes the turn's board. The plugins' tools are arguments.
\<close>

section \<open>Running a task\<close>

text \<open>The callbacks and the tools answer from a state, which they change.\<close>

primrec perform ::
  "('u \<Rightarrow> 's \<Rightarrow> (thrown + unit) \<times> 's) \<Rightarrow> ('t \<Rightarrow> 's \<Rightarrow> (thrown + 'r) \<times> 's) \<Rightarrow>
   ('u, 't, 'r, 'a) proc \<Rightarrow> 's \<Rightarrow> 'a \<times> 's" where
  "perform callback tool (Return a) = Pair a"
| "perform callback tool (Await u c) =
     (\<lambda>s. case callback u s of (r, s') \<Rightarrow> perform callback tool (c r) s')"
| "perform callback tool (Invoke t c) =
     (\<lambda>s. case tool t s of (r, s') \<Rightarrow> perform callback tool (c r) s')"

text \<open>The events of that run.\<close>

primrec performed ::
  "('u \<Rightarrow> 's \<Rightarrow> (thrown + unit) \<times> 's) \<Rightarrow> ('t \<Rightarrow> 's \<Rightarrow> (thrown + 'r) \<times> 's) \<Rightarrow>
   ('u, 't, 'r, 'a) proc \<Rightarrow> 's \<Rightarrow> ('u, 't, 'r) event list" where
  "performed callback tool (Return a) = (\<lambda>s. [])"
| "performed callback tool (Await u c) =
     (\<lambda>s. case callback u s of (r, s') \<Rightarrow> Did u r # performed callback tool (c r) s')"
| "performed callback tool (Invoke t c) =
     (\<lambda>s. case tool t s of (r, s') \<Rightarrow> Invoked t r # performed callback tool (c r) s')"

lemma performed_runs: "runs p (performed callback tool p s) (fst (perform callback tool p s))"
  by (induction p arbitrary: s) (auto split: prod.split)

text \<open>The callbacks that a process may call, whatever is answered.\<close>

primrec awaits_only :: "('u \<Rightarrow> bool) \<Rightarrow> ('u, 't, 'r, 'a) proc \<Rightarrow> bool" where
  "awaits_only S (Return a) \<longleftrightarrow> True"
| "awaits_only S (Await u c) \<longleftrightarrow> S u \<and> (\<forall>r. awaits_only S (c r))"
| "awaits_only S (Invoke t c) \<longleftrightarrow> (\<forall>r. awaits_only S (c r))"

lemma awaits_only_follow:
  "awaits_only S p \<Longrightarrow> (\<And>a. awaits_only S (k a)) \<Longrightarrow> awaits_only S (follow p k)"
  by (induction p) auto

lemma awaits_only_await:
  "awaits_only S m \<Longrightarrow> (\<And>x. awaits_only S (k x)) \<Longrightarrow> awaits_only S (await m k)"
  unfolding await_def by (rule awaits_only_follow) (auto split: sum.split)

lemma awaits_only_attempt:
  "awaits_only S m \<Longrightarrow> (\<And>e. awaits_only S (h e)) \<Longrightarrow> awaits_only S (attempt m h)"
  unfolding attempt_def by (rule awaits_only_follow) (auto split: sum.split)

lemma awaits_only_calls: "calls_only S p \<Longrightarrow> awaits_only S p"
  by (induction p) auto

lemma perform_keeps:
  assumes "awaits_only S p" and "\<And>u s. S u \<Longrightarrow> P s \<Longrightarrow> P (snd (callback u s))"
    and "\<And>t s. P s \<Longrightarrow> P (snd (tool t s))" and "P s"
  shows "P (snd (perform callback tool p s))"
  using assms(1,4)
proof (induction p arbitrary: s)
  case (Await u c)
  obtain r s' where "callback u s = (r, s')" by fastforce
  then show ?case using Await assms(2) [of u s] by simp
next
  case (Invoke t c)
  obtain r s' where "tool t s = (r, s')" by fastforce
  then show ?case using Invoke assms(3) [of s t] by simp
qed simp

section \<open>The dispatcher of a turn\<close>

definition createDefaultRuntimeToolRegistry :: "tool_registry \<Rightarrow> thrown + tool_registry" where
  "createDefaultRuntimeToolRegistry pluginTools = register pluginTools tasksTodoWriteDefinition"

definition runtime_options :: dispatcher_options where
  "runtime_options =
     \<lparr>op_policy = None, op_auditSink = False, op_journalSink = True, op_beforeDispatch = False,
      op_afterDispatch = False, op_onError = False\<rparr>"

definition thrown_of_store :: "session_error \<Rightarrow> thrown" where
  "thrown_of_store e = ErrorThrown (session_error_message e)"

text \<open>The event reads the clock when it is created, right before the sink is called.\<close>

definition runtime_sink ::
  "tool_journal_event \<Rightarrow> tool_context \<Rightarrow> 'w turn_world \<Rightarrow> (thrown + unit) \<times> 'w turn_world" where
  "runtime_sink event context' w =
     (let s = ew_store w
      in case storeAppendJournal (tool_context.tx_sessionId context')
                \<lparr>ap_eventType = (case tj_eventType event of ToolCallPlanned \<Rightarrow> ''tool.call_planned''
                                 | ToolResultRecorded \<Rightarrow> ''tool.result''),
                 ap_payload = JObj (tj_payload event),
                 ap_turnId = (case tool_context.tx_turnId context' of None \<Rightarrow> None
                              | Some t \<Rightarrow> (if t = [] then None else Some t)),
                 ap_schemaVersion = None, ap_createdAtMs = Some (store_time s)\<rparr> (store_tick s) of
           (Inl e, s') \<Rightarrow> (Inl (thrown_of_store e), w\<lparr>ew_store := s'\<rparr>)
         | (Inr _, s') \<Rightarrow> (Inr (), w\<lparr>ew_store := s'\<rparr>))"

text \<open>No other callback is given.\<close>

fun runtime_callback :: "dispatch_call \<Rightarrow> 'w turn_world \<Rightarrow> (thrown + unit) \<times> 'w turn_world" where
  "runtime_callback (DispatchJournal event context') w = runtime_sink event context' w"
| "runtime_callback _ w = (Inr (), w)"

text \<open>The todo tool, given the arguments that its schema has parsed, over the board's port.\<close>

fun parsed_todos :: "jsval \<Rightarrow> jsval list" where
  "parsed_todos (JObj kvs) = (case alist_get kvs ''items'' of JArr items \<Rightarrow> items | _ \<Rightarrow> [])"
| "parsed_todos _ = []"

definition todo_write_run :: "tool_request \<Rightarrow> board \<Rightarrow> (thrown + settlement) \<times> board" where
  "todo_write_run rq b =
     (let items = parsed_todos (tq_args rq)
      in case writeTodos (List.map_filter asTaskItem items) b of
           (written, b') \<Rightarrow>
             (map_sum id InTime
                (todoWriteExecute
                   (\<lambda>_. map_sum (\<lambda>e. thrown_of_store (JsError e)) js_of_task_state written)
                   items (tq_context rq)), b'))"

definition runtime_tool ::
  "(tool_request \<Rightarrow> 'w \<Rightarrow> (thrown + settlement) \<times> 'w) \<Rightarrow>
   tool_request \<Rightarrow> 'w turn_world \<Rightarrow> (thrown + settlement) \<times> 'w turn_world" where
  "runtime_tool plugin rq w =
     (if tq_toolName rq = ''tasks.todo_write''
      then (case todo_write_run rq (ew_board w) of (r, b) \<Rightarrow> (r, w\<lparr>ew_board := b\<rparr>))
      else (case plugin rq (ew_outside w) of (r, x) \<Rightarrow> (r, w\<lparr>ew_outside := x\<rparr>)))"

text \<open>What the runtime is made of besides the engine's own arguments.\<close>

record 'w runtime_parts =
  rp_registry :: tool_registry
  rp_env :: process_env
  rp_plugin :: "tool_request \<Rightarrow> 'w \<Rightarrow> (thrown + settlement) \<times> 'w"

definition runtime_dispatch ::
  "'w runtime_parts \<Rightarrow> tool_call \<Rightarrow> tool_context \<Rightarrow> 'w turn_world \<Rightarrow>
   (thrown + tool_result) \<times> 'w turn_world" where
  "runtime_dispatch parts call context' =
     perform runtime_callback (runtime_tool (rp_plugin parts))
       (dispatch (rp_env parts) (rp_registry parts) runtime_options context' call)"

text \<open>The engine as the runtime constructs it; the other fields are as given.\<close>

definition runtime_engine :: "'w runtime_parts \<Rightarrow> 'w engine_deps \<Rightarrow> 'w engine_deps" where
  "runtime_engine parts deps =
     deps\<lparr>ed_managesJournalClosure := managesJournalClosure runtime_options,
          ed_getSchemas := (\<lambda>_. getSchemas (rp_registry parts) (Inr (rp_env parts)) (rp_env parts)),
          ed_dispatch := runtime_dispatch parts\<rparr>"

section \<open>What the todo tool is given\<close>

text \<open>The items that the schema let through are written to the board as they are.\<close>

lemma parsed_todos_of_args:
  assumes "todoWriteArgs input = Inr args"
  shows "\<exists>items. parsed_todos args = map js_of_task_item items \<and>
                 List.map_filter asTaskItem (parsed_todos args) = items"
proof -
  obtain entries items where "parse_items 0 entries = Inr items" "args = JObj [(''items'', JArr items)]"
    using assms by (auto simp: todoWriteArgs_def split: sum.splits)
  moreover from this obtain rs where "items = map js_of_task_item rs"
    using parsed_items by blast
  moreover have "List.map_filter asTaskItem (map js_of_task_item rs) = rs" for rs
    by (induction rs) (simp_all add: map_filter_simps asTaskItem_js)
  ultimately show ?thesis by simp
qed

end
