(* ===== verification/Engine_Turn_Laws.thy ===== *)
theory Engine_Turn_Laws
  imports Engine_Laws Engine_Runtime Session_Laws Tool_Laws
begin

text \<open>
  What a turn does to the store, whatever the model, the prompt, the memory and the tools do: it
  only writes its own session, whose journal and checkpoints it adds to. What the engine relies on
  the dispatcher for is the locale \<open>session_dispatcher\<close>, of which the runtime's dispatcher is an
  instance.
\<close>

section \<open>Steps that only write a session\<close>

definition confined :: "string \<Rightarrow> session_store \<Rightarrow> session_store \<Rightarrow> bool" where
  "confined k s s' \<longleftrightarrow> store_inv s \<longrightarrow> session_steps k (st_db s) (st_db s')"

definition confines :: "string \<Rightarrow> ('w, 'a) turn_step \<Rightarrow> bool" where
  "confines k f \<longleftrightarrow> (\<forall>w. confined k (ew_store w) (ew_store (snd (f w))))"

lemma confined_refl [simp]: "confined k s s"
  by (simp add: confined_def)

lemma confined_trans: "confined k s s' \<Longrightarrow> confined k s' s'' \<Longrightarrow> confined k s s''"
  unfolding confined_def store_inv_def
  using session_steps_inv rtranclp_trans [of "session_step k"] by metis

lemma confined_inv: "confined k s s' \<Longrightarrow> store_inv s \<Longrightarrow> store_inv s'"
  unfolding confined_def store_inv_def using session_steps_inv by blast

lemma confined_chain:
  assumes "confined k s (h (snd r))" and "\<And>x s1. confined k (h s1) (h (snd (g x s1)))"
  shows "confined k s (h (snd (chain r g)))"
  using assms by (cases r) (auto simp: chain_def split: sum.split intro: confined_trans)

lemma confinesI: "(\<And>w. confined k (ew_store w) (ew_store (snd (f w)))) \<Longrightarrow> confines k f"
  by (simp add: confines_def)

lemma confinesD: "confines k f \<Longrightarrow> confined k (ew_store w) (ew_store (snd (f w)))"
  by (simp add: confines_def)

named_theorems confines_intros \<open>steps of a turn that only write its session\<close>

lemma confines_chain [confines_intros]:
  "confines k f \<Longrightarrow> (\<And>w x. confines k (g w x)) \<Longrightarrow> confines k (\<lambda>w. chain (f w) (g w))"
  unfolding confines_def by (blast intro: confined_chain)

text \<open>A step chosen by the state it starts in.\<close>

lemma confines_at: "(\<And>w. confines k (f w)) \<Longrightarrow> confines k (\<lambda>w. f w w)"
  by (simp add: confines_def)

lemma confines_next [confines_intros]:
  "confines k f \<Longrightarrow> confines k g \<Longrightarrow> confines k (next_step f g)"
  unfolding next_step_def by (rule confines_chain)

lemma confines_answer [confines_intros]:
  "confines k (Pair r)" "confines k pass" "confines k (\<lambda>w. (answer w, w))"
  by (simp_all add: confines_def pass_def)

lemma confines_if [confines_intros]:
  "confines k f \<Longrightarrow> confines k g \<Longrightarrow> confines k (if b then f else g)"
  by simp

lemma confines_outside [confines_intros]: "confines k (on_outside f)"
  by (rule confinesI) (simp add: on_outside_def split: prod.split sum.split)

lemma confines_each [confines_intros]:
  "(\<And>x. confines k (f x)) \<Longrightarrow> confines k (each_step f xs)"
  by (induction xs) (auto intro: confines_intros)

lemma confines_store [confines_intros]:
  assumes "\<And>s. confined k s (snd (f s))"
  shows "confines k (on_store f)"
proof (rule confinesI)
  fix w show "confined k (ew_store w) (ew_store (snd (on_store f w)))"
    using assms [of "ew_store w"]
    by (cases "f (ew_store w)") (simp add: on_store_def split: sum.split)
qed

text \<open>The methods of the store that a turn calls.\<close>

lemma confined_methods:
  "confined k s (snd (storeAppendJournal k a s))" "confined k s (snd (storeAppendStepJournal k b s))"
  "confined k s (snd (storeAppendStreamEvent k c s))" "confined k s (snd (storeCreateCheckpoint k e s))"
  "confined k s (snd (storeCreateStepCheckpoint k g s))"
  "confined k s (snd (storeCreateHandoffSummary k h s))"
  "confined k s (snd (storeRecordRuntimeEvidence k i s))"
  "confined k s (snd (storeUpdateMetadata k m s))"
  unfolding confined_def store_inv_def storeAppendJournal_def storeAppendStepJournal_def
    storeCreateCheckpoint_def storeCreateStepCheckpoint_def
  by (blast intro: with_active_steps journalAppend_steps journalAppendStep_steps
      checkpointsCreate_steps checkpointsCreateStep_steps storeAppendStreamEvent_steps
      storeCreateHandoffSummary_steps storeRecordRuntimeEvidence_steps storeUpdateMetadata_steps)+

lemma confined_tick: "confined k (store_tick s) s' \<longleftrightarrow> confined k s s'"
  by (simp add: confined_def store_inv_def)

section \<open>The recorder\<close>

definition records_in :: "string \<Rightarrow> 'a recording \<Rightarrow> bool" where
  "records_in k f \<longleftrightarrow> (\<forall>st s. confined k s (snd (snd (f (st, s)))))"

lemma records_then: "records_in k f \<Longrightarrow> records_in k g \<Longrightarrow> records_in k (then_append f g)"
  unfolding records_in_def then_append_def
  using confined_chain [where h = snd] by (metis (no_types, lifting) surjective_pairing)

lemma records_skip: "records_in k skip_append" "records_in k (\<lambda>(st, s). (r, (f st, s)))"
  by (simp_all add: records_in_def skip_append_def)

lemma records_state: "(\<And>st. records_in k (f st)) \<Longrightarrow> records_in k (on_state f)"
  by (simp add: records_in_def on_state_def)

lemma records_stream: "records_in (rc_sessionId r) (append_stream r kind payload)"
proof -
  have "confined k s (snd (storeAppendStreamEvent k e (store_tick s)))" for k e s
    using confined_methods(3) [of k "store_tick s"] by (simp add: confined_tick)
  then show ?thesis
    by (simp add: records_in_def append_stream_def split: prod.split sum.split)
       (metis snd_conv)
qed

lemma records_each: "(\<And>x. records_in k (f x)) \<Longrightarrow> records_in k (append_each f xs)"
proof (induction xs)
  case Nil
  then show ?case by (simp add: records_in_def)
next
  case (Cons x xs)
  then show ?case by (simp add: records_then)
qed

lemma records_chunk: "records_in (rc_sessionId r) (appendChunk r delta)"
  using records_stream [of r] by (simp add: records_in_def appendChunk_def)

lemma records_call: "records_in (rc_sessionId r) (append_tool_call r call)"
  unfolding records_in_def append_tool_call_def prod.case
  using records_stream [of r] confined_tick by (simp add: records_in_def) blast

lemma records_methods:
  "records_in (rc_sessionId r) (recordReasoning r n)"
  "records_in (rc_sessionId r) (beforeModelCall r reason)"
  "records_in (rc_sessionId r) (recordStep r go events b)"
  "records_in (rc_sessionId r) (recordFailure r failure)"
  "records_in (rc_sessionId r) (completeTurn r finish)"
  unfolding recordReasoning_def beforeModelCall_def recordStep_def recordFailure_def
    completeTurn_def append_started_def appendResumed_def appendInterrupted_def
    appendCompleted_def append_closing_def append_text_def Let_def
  by (auto intro!: records_state records_then records_skip records_stream records_each
      records_chunk records_call split: option.split)

lemma frame_session [simp]: "rc_sessionId (frame_recorder f) = lc_sessionId (tf_context f)"
  by (simp add: frame_recorder_def)

lemma confines_recorder [confines_intros]:
  assumes "records_in k f"
  shows "confines k (on_recorder f)"
proof (rule confinesI)
  fix w show "confined k (ew_store w) (ew_store (snd (on_recorder f w)))"
    using assms [unfolded records_in_def, rule_format, of "ew_store w" "ew_recorder w"]
    by (cases "f (ew_recorder w, ew_store w)")
      (simp add: on_recorder_def split: sum.split prod.split)
qed

section \<open>The parts of a turn\<close>

lemma confines_append [confines_intros]: "confines k (engineAppendJournal k ty p t)"
  unfolding engineAppendJournal_def by (intro confines_intros confined_methods)

lemma confines_evidence [confines_intros]: "confines k (engineRecordEvidence k kind p t)"
  unfolding engineRecordEvidence_def by (intro confines_intros confined_methods)

lemma confines_degradations [confines_intros]: "confines k (recordRuntimeDegradations k t ds)"
  unfolding recordRuntimeDegradations_def by (intro confines_intros)

lemma confines_branch [confines_intros]: "confines k (recordTurnBranch k t b results)"
  unfolding recordTurnBranch_def Let_def by (intro confines_intros)

lemma confines_step_runtime [confines_intros]: "confines k (recordStepRuntime k t i events st)"
  unfolding recordStepRuntime_def recordStepEvent_def by (intro confines_intros confined_methods)

lemma confines_failure [confines_intros]: "confines k (recordModelRuntimeFailure deps k t p e)"
  unfolding recordModelRuntimeFailure_def Let_def by (intro confines_intros)

lemma confines_observation [confines_intros]: "confines k (persistLatestTurnObservation k m ob)"
proof (rule confinesI)
  fix w
  show "confined k (ew_store w) (ew_store (snd (persistLatestTurnObservation k m ob w)))"
    using confined_methods(8) [of k "store_tick (ew_store w)"]
    by (simp add: persistLatestTurnObservation_def Let_def confined_tick split: prod.split)
      (metis snd_conv)
qed

lemma confines_case [confines_intros]:
  "confines k f \<Longrightarrow> (\<And>x. confines k (g x)) \<Longrightarrow>
   confines k (case y of None \<Rightarrow> f | Some x \<Rightarrow> g x)"
  by (simp split: option.split)

lemma confines_resume_pending [confines_intros]:
  "confines k (\<lambda>w. (answer, ew_resumePending_update f w))"
  "confines k (\<lambda>w. (answer, ew_outside_update g w))"
  by (simp_all add: confines_def)

lemma confines_todo_write [confines_intros]: "confines k (record_todo_write k t result)"
  by (rule confinesI)
    (auto simp: record_todo_write_def pass_def confinesD [OF confines_append] split: sum.split)

lemma confines_built:
  assumes "lc_sessionId (tf_context f) = k"
  shows "confines k (on_context_built f i e out task)"
proof -
  have "confines k (next_step (on_recorder (beforeModelCall (frame_recorder f) reason))
      (\<lambda>w'. (Inr (), w'\<lparr>ew_resumePending := False\<rparr>)))" for reason
    using records_methods(2) [of "frame_recorder f"] assms
    by (intro confines_next confines_recorder confines_resume_pending) simp
  then show ?thesis
    unfolding on_context_built_def assms
    by (intro confines_next [OF confines_step_runtime] confinesI) (rule confinesD)
qed

section \<open>The dispatcher\<close>

text \<open>What the engine relies on: a dispatch in a session only writes that session.\<close>

locale session_dispatcher =
  fixes k :: string
    and dispatcher ::
      "tool_call \<Rightarrow> tool_context \<Rightarrow> 'w turn_world \<Rightarrow> (thrown + tool_result) \<times> 'w turn_world"
  assumes dispatch_confined: "tool_context.tx_sessionId ctx = k \<Longrightarrow>
    confined k (ew_store w) (ew_store (snd (dispatcher call ctx w)))"
begin

lemma confines_dispatch:
  "tool_context.tx_sessionId ctx = k \<Longrightarrow> confines k (on_dispatcher (dispatcher call ctx))"
  using dispatch_confined [of ctx]
  by (auto intro!: confinesI simp: on_dispatcher_def split: prod.splits sum.split) (metis snd_conv)+

lemma confines_tool_call:
  assumes "ed_dispatch deps = dispatcher" and "lc_sessionId ctx = k"
  shows "confines k (run_tool_call deps ctx call)"
  unfolding run_tool_call_def Let_def assms appendToolEvent_def
  by (intro confines_intros confines_dispatch) simp

lemma confines_tool_calls:
  assumes "ed_dispatch deps = dispatcher" and "lc_sessionId ctx = k"
  shows "confines k (run_tool_calls deps ctx calls)"
proof (induction calls)
  case Nil
  have "run_tool_calls deps ctx [] = Pair (Inr [])" by (rule ext) simp
  then show ?case by (simp add: confines_answer)
next
  case (Cons call calls)
  have "run_tool_calls deps ctx (call # calls) =
      (\<lambda>w. chain (run_tool_call deps ctx call w) (\<lambda>result w1.
        chain (run_tool_calls deps ctx calls w1) (\<lambda>results w2. (Inr (result # results), w2))))"
    by (rule ext) simp
  then show ?case
    by (simp only:) (intro confines_intros confines_tool_call Cons assms)
qed

lemma confines_run_step:
  assumes "ed_dispatch (tf_deps f) = dispatcher" and "lc_sessionId (tf_context f) = k"
  shows "confines k (runStep (strategy_deps f) i m st)"
proof -
  have tools: "confines k (sd_executeToolCalls (strategy_deps f) out)" for out
    unfolding strategy_deps_def executeToolCalls_def
    by (simp add: confines_tool_calls [OF assms])
  have model: "confines k (call_model (strategy_deps f) request degradations)" for request degradations
    by (rule confinesI)
      (simp add: call_model_def strategy_deps_def split: prod.split sum.split)
  have prompt: "confines k (sd_buildPrompt (strategy_deps f) a b c d)" for a b c d
    by (simp add: strategy_deps_def confines_outside)
  have built: "confines k (sd_onContextBuilt (strategy_deps f) a b c d)" for a b c d
    by (simp add: strategy_deps_def confines_built [OF assms(2)])
  have after: "confines k (after_model (strategy_deps f) st e degradations out)" for e degradations out
    by (cases "rd_action (nullish_else (sd_decideReasoning (strategy_deps f))
          decideReasoningFromModelOutput out) = CallTools")
      (simp_all add: after_model_def [abs_def] Let_def confines_answer confines_chain [OF tools])
  let ?deps = "strategy_deps f"
  have steps: "confines k (\<lambda>w'. chain (sd_buildPrompt ?deps task (ls_toolResults st)
        (ls_runtimeDegradations st) tools w') (\<lambda>prompt s1.
      chain (sd_onContextBuilt ?deps i (context_built_event prompt) (ls_output st) task s1) (\<lambda>_ s2.
        chain (call_model ?deps (fst (model_request_of ?deps prompt st tools))
            (snd (model_request_of ?deps prompt st tools)) s2) (\<lambda>out.
          after_model ?deps st (context_built_event prompt)
            (snd (model_request_of ?deps prompt st tools)) out))))" for task tools
    by (rule confines_chain [OF prompt], rule confines_chain [OF built],
        rule confines_chain [OF model after])
  show ?thesis
  proof (rule confinesI)
    fix w
    show "confined k (ew_store w) (ew_store (snd (runStep ?deps i m st w)))"
      using confinesD [OF steps, of w "sd_taskState ?deps w" "sd_getSchemas ?deps w"]
      by (simp add: runStep_def Let_def case_prod_unfold)
  qed
qed

lemma confines_step_completed:
  fixes f :: "'w turn_frame"
  assumes "lc_sessionId (tf_context f) = k"
  shows "confines k (on_step_completed f i r)"
proof (rule confinesI)
  fix w :: "'w turn_world"
  have "confines k (next_step
           (recordStepRuntime k (lc_turnId (tf_context f)) i
              (omitPrePersistedContextBuilt (ls_lastStepEvents (ir_state r)) True)
              (toPersistedTurnState (snapshot (ew_board w)) (ls_output (ir_state r))))
           (on_recorder (recordStep (frame_recorder f) (ir_continueLoop r)
              (ls_lastStepEvents (ir_state r)) (ls_lastTurnBranch (ir_state r)))))"
    using records_methods(3) [of "frame_recorder f"] assms
    by (intro confines_intros) simp
  from confinesD [OF this, of w]
  show "confined k (ew_store w) (ew_store (snd (on_step_completed f i r w)))"
    by (simp add: on_step_completed_def Let_def assms)
qed

lemma confines_loop:
  assumes "ed_dispatch (tf_deps f) = dispatcher" and "lc_sessionId (tf_context f) = k"
  shows "confines k (turn_loop f)"
proof (rule confinesI)
  fix w
  have "confined k (ew_store w) (ew_store (snd (step_loop (runStep (strategy_deps f))
      (on_step_completed f) m i st n w)))" for m i st n
    by (rule step_loop_keeps)
      (auto intro: confined_trans confinesD confines_run_step [OF assms]
        confines_step_completed [OF assms(2)])
  then show "confined k (ew_store w) (ew_store (snd (turn_loop f w)))"
    by (simp add: turn_loop_def runLoop_def)
qed

text \<open>The whole turn, once it is opened.\<close>

lemma confines_failed:
  assumes "lc_sessionId (tf_context f) = k"
  shows "confines k (turn_failed f e degradations)"
  unfolding turn_failed_def Let_def assms
  using records_methods(4) [of "frame_recorder f"] assms
  by (intro confines_intros) simp

lemma confines_guarded:
  assumes "ed_dispatch (tf_deps f) = dispatcher" and "lc_sessionId (tf_context f) = k"
  shows "confines k (guarded_loop f)"
proof (rule confinesI)
  fix w
  obtain r w1 where loop: "turn_loop f w = (r, w1)" by fastforce
  have w1: "confined k (ew_store w) (ew_store w1)"
    using confinesD [OF confines_loop [OF assms], of w] loop by simp
  have "confined k (ew_store w1) (ew_store (snd (turn_failed f e degradations w1)))" for e degradations
    by (rule confinesD [OF confines_failed [OF assms(2)]])
  with w1 show "confined k (ew_store w) (ew_store (snd (guarded_loop f w)))"
    by (auto simp: guarded_loop_def loop intro: confined_trans
        split: sum.split engine_error.split)
qed

lemma confines_close:
  assumes "lc_sessionId (tf_context f) = k"
  shows "confines k (close_turn f result)"
proof -
  have "confines k (\<lambda>w. on_store (storeCreateCheckpoint k (input w)) w)" for input
    by (rule confines_at) (intro confines_store confined_methods)
  then show ?thesis
    unfolding close_turn_def Let_def assms
    using records_methods(5) [of "frame_recorder f"] assms
    by (intro confines_next confines_recorder confines_degradations confines_branch
        confines_append confines_store confined_methods confines_outside confines_observation
        confines_answer(3)) simp_all
qed

lemma confines_opening:
  assumes "ed_dispatch (tf_deps f) = dispatcher" and "lc_sessionId (tf_context f) = k"
  shows "confines k (next_step (record_input f) (next_step
      (case tf_reasoning f of None \<Rightarrow> pass
       | Some reasoning \<Rightarrow> on_recorder (recordReasoning (frame_recorder f) reasoning))
      (guarded_loop f)))"
  unfolding record_input_def Let_def assms(2)
  using records_methods(1) [of "frame_recorder f"] assms(2)
  by (intro confines_next confines_if confines_case confines_answer(2)
      confines_append confines_outside confines_recorder confines_guarded [OF assms]) simp

lemma confines_body:
  assumes "ed_dispatch (tf_deps f) = dispatcher" and "lc_sessionId (tf_context f) = k"
  shows "confines k (turn_body f)"
  unfolding turn_body_def record_input_def Let_def assms(2)
  using records_methods(1) [of "frame_recorder f"] assms(2)
  by (intro confines_next confines_if confines_case confines_chain confines_answer(2)
      confines_append confines_outside confines_recorder confines_guarded [OF assms]
      confines_close [OF assms(2)]) simp

end

section \<open>The runtime's dispatcher\<close>

definition own_journal :: "tool_context \<Rightarrow> dispatch_call \<Rightarrow> bool" where
  "own_journal ctx u \<longleftrightarrow> (case u of DispatchJournal ev ctx' \<Rightarrow> ctx' = ctx | _ \<Rightarrow> True)"

lemma own_journal_simps [simp]:
  "own_journal ctx (DispatchJournal ev ctx') \<longleftrightarrow> ctx' = ctx"
  "own_journal ctx (DispatchError stage call ctx' e)" "own_journal ctx (DispatchAudit a)"
  "own_journal ctx (BeforeDispatch call ctx')" "own_journal ctx (AfterDispatch call ctx' r)"
  "own_journal ctx (PolicyCall c)"
  by (simp_all add: own_journal_def)

lemma awaits_call_if: "(given \<Longrightarrow> S u) \<Longrightarrow> awaits_only S (call_if given u)"
  by (simp add: call_if_def)

lemma awaits_report: "awaits_only (own_journal ctx) (report_stage options stage call ctx' e)"
  unfolding report_stage_def by (intro awaits_call_if) simp

lemma awaits_audit: "awaits_only (own_journal ctx) (emitToolAudit options ev)"
  unfolding emitToolAudit_def
  by (intro awaits_only_attempt awaits_call_if awaits_report) simp_all

lemma awaits_journal: "awaits_only (own_journal ctx) (emitToolJournal options ev call ctx)"
  unfolding emitToolJournal_def
  by (intro awaits_only_attempt awaits_only_await awaits_call_if awaits_report) simp_all

lemma awaits_after: "awaits_only (own_journal ctx) (runAfterDispatch options call ctx' result)"
  unfolding runAfterDispatch_def
  by (intro awaits_only_attempt awaits_call_if awaits_report) simp_all

lemma awaits_conclude:
  "awaits_only (own_journal ctx) (conclude options kind call ctx profile d result)"
  unfolding conclude_def
  by (intro awaits_only_await awaits_audit awaits_journal awaits_after) simp

lemma awaits_reported:
  "awaits_only (own_journal ctx)
     (await (report_stage options stage call ctx' e) (\<lambda>_. conclude options kind call'' ctx profile d r))"
  by (intro awaits_only_await awaits_report awaits_conclude)

lemma awaits_execute: "awaits_only (own_journal ctx) (executeToolWithTimeout d call ctx')"
  by (auto simp: executeToolWithTimeout_def split: sum.split settlement.split)

lemma awaits_handle:
  "awaits_only (own_journal ctx) (handle_decision options d call ctx profile decision)"
proof (cases decision)
  case (Inl e)
  then show ?thesis by (simp add: handle_decision_def awaits_reported)
next
  case (Inr decided)
  have "awaits_only (own_journal ctx) (execute_allowed options d call ctx profile decided)"
    unfolding execute_allowed_def
    by (intro awaits_only_attempt awaits_only_await [OF awaits_execute] awaits_conclude awaits_reported)
  then show ?thesis
    unfolding Inr handle_decision_def
    by (auto intro!: awaits_only_await awaits_audit awaits_conclude)
qed

lemma awaits_decide:
  "awaits_only (own_journal ctx) (decide_and_execute runtime_options d call ctx profile)"
proof -
  have policy: "awaits_only (own_journal ctx) (dispatch_policy runtime_options input)" for input
    by (simp add: dispatch_policy_def runtime_options_def awaits_only_calls policyRuntimeTask_calls)
  show ?thesis
    unfolding decide_and_execute_def
    by (intro awaits_only_await [OF awaits_journal] awaits_only_follow [OF policy] awaits_handle)
qed

lemma awaits_check:
  "awaits_only (own_journal ctx) (check_and_execute env registry runtime_options d call ctx profile)"
  by (simp add: check_and_execute_def awaits_decide awaits_reported awaits_conclude split: option.split)

lemma awaits_found:
  "awaits_only (own_journal ctx) (dispatch_found env registry runtime_options ctx call found profile)"
  by (simp add: dispatch_found_def dispatch_known_def awaits_conclude awaits_reported awaits_check
      split: option.split sum.split)

lemma awaits_dispatch:
  "awaits_only (own_journal ctx) (dispatch env registry runtime_options ctx call)"
proof -
  have "awaits_only (own_journal ctx) (dispatch_started env registry runtime_options ctx call)"
    unfolding dispatch_started_def Let_def
    by (intro awaits_only_await [OF awaits_audit] awaits_found)
  moreover have "awaits_only (own_journal ctx) (await (report_stage runtime_options
      StageBeforeDispatch call ctx e) (\<lambda>_. resolved r))" for e and r :: tool_result
    by (intro awaits_only_await awaits_report) simp
  ultimately show ?thesis
    unfolding dispatch_def
    by (intro awaits_only_follow awaits_call_if) (simp_all split: sum.split)
qed

lemma runtime_sink_confined:
  "confined (tool_context.tx_sessionId ctx) (ew_store w) (ew_store (snd (runtime_sink ev ctx w)))"
proof -
  have tick: "confined k s (snd (storeAppendJournal k a (store_tick s)))" for k a s
    using confined_methods(1) [of k "store_tick s"] by (simp add: confined_tick)
  have "ew_store (snd (case r of (Inl e, s') \<Rightarrow> (Inl (thrown_of_store e), w\<lparr>ew_store := s'\<rparr>)
      | (Inr x, s') \<Rightarrow> (Inr (), w\<lparr>ew_store := s'\<rparr>))) = snd r" for r :: "journal_entry result"
    by (simp split: prod.split sum.split)
  with tick show ?thesis unfolding runtime_sink_def Let_def by simp
qed

interpretation runtime: session_dispatcher k "runtime_dispatch parts" for k parts
proof
  fix ctx :: tool_context and w :: "'a turn_world" and call
  assume k: "tool_context.tx_sessionId ctx = k"
  show "confined k (ew_store w) (ew_store (snd (runtime_dispatch parts call ctx w)))"
    unfolding runtime_dispatch_def
  proof (rule perform_keeps [OF awaits_dispatch, where P = "\<lambda>w'. confined k (ew_store w) (ew_store w')"])
    fix u and w' :: "'a turn_world"
    assume "own_journal ctx u" and "confined k (ew_store w) (ew_store w')"
    then show "confined k (ew_store w) (ew_store (snd (runtime_callback u w')))"
      using runtime_sink_confined [of ctx w'] k
      by (cases u) (auto intro: confined_trans)
  next
    fix t and w' :: "'a turn_world"
    assume "confined k (ew_store w) (ew_store w')"
    then show "confined k (ew_store w) (ew_store (snd (runtime_tool (rp_plugin parts) t w')))"
      by (simp add: runtime_tool_def split: prod.split)
  qed simp
qed

section \<open>Running a turn\<close>

text \<open>Every session but one is as it was, and no journal and no list of checkpoints lost anything.\<close>

definition only_adds_to :: "string \<Rightarrow> tables \<Rightarrow> tables \<Rightarrow> bool" where
  "only_adds_to k d d' \<longleftrightarrow>
     (\<forall>k'. (k' \<noteq> k \<longrightarrow> frozen k' d d') \<and> prefix (entries_of k' d) (entries_of k' d') \<and>
           prefix (checkpoints_of k' d) (checkpoints_of k' d'))"

lemma only_adds_refl [simp]: "only_adds_to k d d"
  by (simp add: only_adds_to_def frozen_def)

lemma only_adds_trans: "only_adds_to k d d' \<Longrightarrow> only_adds_to k d' d'' \<Longrightarrow> only_adds_to k d d''"
  unfolding only_adds_to_def by (metis frozen_def prefix_order.trans)

lemma session_steps_add: "session_steps k d d' \<Longrightarrow> only_adds_to k d d'"
  using session_steps_frozen session_steps_grow by (simp add: only_adds_to_def)

lemma created_adds: "k \<notin> ss_id ` set (tab_sessions d) \<Longrightarrow> only_adds_to k d (insert_session k m v t d)"
  by (simp add: only_adds_to_def frozen_def store_simps)

lemma storeCreateSession_adds:
  assumes "store_inv s" and "storeCreateSession input s = (r, s')"
  shows "\<exists>k. (\<forall>given. cs_sessionId input = Some given \<longrightarrow> k = given) \<and> store_inv s' \<and>
             only_adds_to k (st_db s) (st_db s') \<and> (\<forall>session. r = Inr session \<longrightarrow> ss_id session = k)"
proof -
  have inv: "store_inv s'" using exec_store_inv [OF assms(1), of "CmdCreate input"] assms(2) by simp
  show ?thesis
  proof (cases rule: storeCreateSession_cases [of input s])
    case (thrown e s'')
    then show ?thesis
      using assms(2) inv by (cases "cs_sessionId input") auto
  next
    case (created k v t s'')
    then show ?thesis
      using assms(2) inv created_adds [of k "st_db s"] by (intro exI [of _ k]) auto
  qed
qed

lemma open_session_adds:
  assumes "store_inv s" and "open_session given s = (r, s')"
  shows "\<exists>k. (\<forall>name. given = Some name \<longrightarrow> name \<noteq> [] \<longrightarrow> k = name) \<and> store_inv s' \<and>
             only_adds_to k (st_db s) (st_db s') \<and> (\<forall>session. r = Inr session \<longrightarrow> ss_id session = k)"
proof -
  let ?input = "\<lambda>k. \<lparr>cs_sessionId = k, cs_metadata = None, cs_schemaVersion = None\<rparr>"
  consider (create) k where "storeCreateSession (?input k) s = (r, s')"
      "\<And>name. given = Some name \<Longrightarrow> name \<noteq> [] \<Longrightarrow> k = Some name"
    | (thrown) e where "r = Inl e" "s' = s"
    | (found) name session where "given = Some name" "storeGetSession name s = Inr (Some session)"
        "r = Inr session" "s' = s"
  proof (cases "given = None \<or> given = Some []")
    case True
    then have "storeCreateSession (?input None) s = (r, s')"
      using assms(2) by (auto simp: open_session_def)
    with True that(1) show thesis by auto
  next
    case False
    then obtain name where name: "given = Some name" "name \<noteq> []" by auto
    then have opened: "(case storeGetSession name s of Inl e \<Rightarrow> (Inl e, s)
        | Inr (Some session) \<Rightarrow> (Inr session, s)
        | Inr None \<Rightarrow> storeCreateSession (?input (Some name)) s) = (r, s')"
      using assms(2) by (simp add: open_session_def Let_def)
    show thesis
    proof (cases "storeGetSession name s")
      case (Inl e)
      with opened that(2) show thesis by auto
    next
      case (Inr found)
      show thesis
      proof (cases found)
        case None
        show thesis
          by (rule that(1) [of "Some name"]) (use opened Inr None name in simp_all)
      next
        case (Some session)
        show thesis
          by (rule that(3) [of name session]) (use opened Inr Some name in simp_all)
      qed
    qed
  qed
  then show ?thesis
  proof cases
    case (create k)
    from storeCreateSession_adds [OF assms(1) create(1)] obtain i where
      "\<And>name. k = Some name \<Longrightarrow> i = name" "store_inv s'" "only_adds_to i (st_db s) (st_db s')"
      "\<And>session. r = Inr session \<Longrightarrow> ss_id session = i"
      by auto
    with create(2) show ?thesis by (intro exI [of _ i]) simp
  next
    case (thrown e)
    then show ?thesis using assms(1) by (cases given) auto
  next
    case (found name session)
    then have "ss_id session = name"
      using sqlGetSession_Some [of name "st_db s" session]
      by (auto simp: storeGetSession_def lifecycleGet_def split: if_splits)
    then show ?thesis using found assms(1) by auto
  qed
qed

lemma turn_id_store: "turn_id input s = (t, s') \<Longrightarrow> st_db s' = st_db s"
  by (auto simp: turn_id_def split: option.splits)

text \<open>The dispatcher may be any that only writes the session it is called in.\<close>

lemma runTurn_adds:
  assumes inv: "store_inv s" and dispatcher: "\<And>k. session_dispatcher k (ed_dispatch deps)"
    and run: "runTurn deps input s x = (r, s', x')"
  shows "\<exists>k. (\<forall>name. in_sessionId input = Some name \<longrightarrow> name \<noteq> [] \<longrightarrow> k = name) \<and>
             store_inv s' \<and> only_adds_to k (st_db s) (st_db s')"
proof -
  obtain opened s1 where opened: "open_session (in_sessionId input) s = (opened, s1)" by fastforce
  from open_session_adds [OF inv opened] obtain k where
    k: "\<And>name. in_sessionId input = Some name \<Longrightarrow> name \<noteq> [] \<Longrightarrow> k = name"
    and s1: "store_inv s1" "only_adds_to k (st_db s) (st_db s1)"
    and session: "\<And>session. opened = Inr session \<Longrightarrow> ss_id session = k"
    by blast
  obtain turnId s2 where turn: "turn_id input s1 = (turnId, s2)" by fastforce
  have s2: "st_db s2 = st_db s1" "store_inv s2"
    using turn_id_store [OF turn] s1 by (simp_all add: store_inv_def)
  have body: "session_steps k (st_db s2) (st_db (ew_store (snd (turn_body f w))))"
    if "tf_deps f = deps" "lc_sessionId (tf_context f) = k" "ew_store w = s2"
    for f and w :: "'a turn_world"
    using confinesD [OF session_dispatcher.confines_body [OF dispatcher], of f k w] that s2(2)
    by (simp add: confined_def)
  have start: "s' = s2 \<or> session_steps k (st_db s2) (st_db s')"
    if "start_turn f b s2 x = (r, s', x')" "tf_deps f = deps" "lc_sessionId (tf_context f) = k" for f b
  proof (cases "createTurnStreamRecorder (frame_recorder f) s2")
    case (Inl e)
    with that show ?thesis by (simp add: start_turn_def)
  next
    case (Inr st)
    with that body [OF that(2,3), of "\<lparr>ew_store = s2, ew_board = b, ew_recorder = st,
        ew_resumePending = tv_resumed (tf_recovery f), ew_outside = x\<rparr>"] show ?thesis
      by (auto simp: start_turn_def split: prod.splits)
  qed
  have "s' = s1 \<or> s' = s2 \<or> session_steps k (st_db s2) (st_db s')"
  proof (cases opened)
    case (Inl e)
    then show ?thesis using run by (simp add: runTurn_def opened)
  next
    case (Inr found)
    have frame: "tf_deps (turn_frame_of deps input found turnId v) = deps"
      "lc_sessionId (tf_context (turn_frame_of deps input found turnId v)) = k" for v
      using session [OF Inr] by (simp_all add: turn_frame_of_def)
    show ?thesis
      using run start [OF _ frame]
      by (simp add: runTurn_def opened Inr turn split: sum.splits if_splits)
  qed
  moreover have "store_inv s' \<and> only_adds_to k (st_db s) (st_db s')"
    if "session_steps k (st_db s2) (st_db s')"
    using session_steps_inv [OF that] session_steps_add [OF that] s1 s2
    by (auto simp: store_inv_def intro: only_adds_trans)
  ultimately show ?thesis using k s1 s2 by metis
qed

end
