(* ===== verification/Engine_Journal_Laws.thy ===== *)
theory Engine_Journal_Laws
  imports Engine_Turn_Laws Tool_Journal_Laws Session_Plane_Laws
begin

text \<open>
  A tool call of a turn in the journal of its session: the runtime's dispatcher, the session store
  under its sink and the policy runtime together.
\<close>

section \<open>Rows of a dispatch\<close>

definition journal_type :: "tool_journal_event \<Rightarrow> string" where
  "journal_type event =
     (case tj_eventType event of ToolCallPlanned \<Rightarrow> ''tool.call_planned''
      | ToolResultRecorded \<Rightarrow> ''tool.result'')"

definition row_of_event :: "tool_context \<Rightarrow> tool_journal_event \<Rightarrow> journal_entry \<Rightarrow> bool" where
  "row_of_event ctx event row \<longleftrightarrow>
     jn_eventType row = journal_type event \<and> jn_payload row = json_copy (JObj (tj_payload event)) \<and>
     jn_turnId row = (if tool_context.tx_turnId ctx = Some [] then None else tool_context.tx_turnId ctx)"

lemma sink_appends:
  assumes "active_session (tool_context.tx_sessionId ctx) (ew_store w)"
  shows "\<exists>row w'. runtime_sink event ctx w = (Inr (), w') \<and>
    active_session (tool_context.tx_sessionId ctx) (ew_store w') \<and> row_of_event ctx event row \<and>
    entries_of (tool_context.tx_sessionId ctx) (st_db (ew_store w')) =
      entries_of (tool_context.tx_sessionId ctx) (st_db (ew_store w)) @ [row]"
proof -
  let ?k = "tool_context.tx_sessionId ctx"
  let ?input = "\<lparr>ap_eventType = (case tj_eventType event of ToolCallPlanned \<Rightarrow> ''tool.call_planned''
      | ToolResultRecorded \<Rightarrow> ''tool.result''),
    ap_payload = JObj (tj_payload event),
    ap_turnId = (case tool_context.tx_turnId ctx of None \<Rightarrow> None
       | Some t \<Rightarrow> (if t = [] then None else Some t)),
    ap_schemaVersion = None, ap_createdAtMs = Some (store_time (ew_store w))\<rparr>"
  have trim: "js_trim (ap_eventType ?input) = ap_eventType ?input"
    by (cases "tj_eventType event") (simp_all add: js_trim_def is_js_space_def)
  have "acceptable ?input"
    using trim by (simp add: acceptable_def split: journal_event_type.split)
  moreover have "active_session ?k (store_tick (ew_store w))"
    using assms by (simp add: active_session_def store_inv_def)
  ultimately obtain e s' where
    "storeAppendJournal ?k ?input (store_tick (ew_store w)) = (Inr e, s')" "active_session ?k s'"
    "entries_of ?k (st_db s') = entries_of ?k (st_db (ew_store w)) @ [e]" "stored_as ?input e"
    using append_to_session [of ?k "store_tick (ew_store w)" ?input] by auto
  then show ?thesis
    using trim
    by (intro exI [of _ e] exI [of _ "w\<lparr>ew_store := s'\<rparr>"])
      (auto simp: runtime_sink_def Let_def stored_as_def row_of_event_def journal_type_def
        split: option.split)
qed

lemma performed_journal:
  fixes w :: "'w turn_world"
  assumes "awaits_only (own_journal ctx) p"
    and "active_session (tool_context.tx_sessionId ctx) (ew_store w)"
    and "es = performed runtime_callback (runtime_tool plugin) p w"
    and "w' = snd (perform runtime_callback (runtime_tool plugin) p w)"
  shows "list_all steady_event es \<and> (\<exists>rows.
    entries_of (tool_context.tx_sessionId ctx) (st_db (ew_store w')) =
      entries_of (tool_context.tx_sessionId ctx) (st_db (ew_store w)) @ rows \<and>
    list_all2 (row_of_event ctx) (journal_records es) rows)"
  using assms
proof (induction p arbitrary: w es)
  case (Return a)
  then show ?case by (simp add: journal_records_def map_filter_simps)
next
  case (Await u c)
  obtain r w1 where w1: "runtime_callback u w = (r, w1)" by fastforce
  have quiet: "r = Inr () \<and> w1 = w" if "\<And>ev ctx'. u \<noteq> DispatchJournal ev ctx'"
    using w1 that by (cases u) auto
  define es1 where "es1 = performed runtime_callback (runtime_tool plugin) (c r) w1"
  have es: "es = Did u r # es1" using Await.prems(3) w1 by (simp add: es1_def)
  have end': "w' = snd (perform runtime_callback (runtime_tool plugin) (c r) w1)"
    using Await.prems(4) w1 by simp
  have only: "awaits_only (own_journal ctx) (c r)" using Await.prems(1) by simp
  show ?case
  proof (cases "\<exists>ev ctx'. u = DispatchJournal ev ctx'")
    case True
    then obtain ev where u: "u = DispatchJournal ev ctx" using Await.prems(1) by auto
    from sink_appends [OF Await.prems(2), of ev] w1 obtain row where
      row: "r = Inr ()" "active_session (tool_context.tx_sessionId ctx) (ew_store w1)"
        "row_of_event ctx ev row" "entries_of (tool_context.tx_sessionId ctx) (st_db (ew_store w1)) =
        entries_of (tool_context.tx_sessionId ctx) (st_db (ew_store w)) @ [row]"
      by (auto simp: u)
    from Await.IH [OF only row(2) es1_def end'] obtain rows where
      "list_all steady_event es1"
      "entries_of (tool_context.tx_sessionId ctx) (st_db (ew_store w')) =
        entries_of (tool_context.tx_sessionId ctx) (st_db (ew_store w1)) @ rows"
      "list_all2 (row_of_event ctx) (journal_records es1) rows"
      by blast
    then show ?thesis
      using row by (intro conjI exI [of _ "row # rows"])
        (simp_all add: es u journal_records_def map_filter_simps)
  next
    case False
    then have same: "r = Inr ()" "w1 = w" using quiet by auto
    have silent: "journal_record (Did u r) = None" "steady_event (Did u r)"
      using False by (cases u; simp add: same)+
    from Await.IH [OF only _ es1_def end'] Await.prems(2) same silent show ?thesis
      by (simp add: es journal_records_def map_filter_simps)
  qed
next
  case (Invoke t c)
  obtain r w1 where w1: "runtime_tool plugin t w = (r, w1)" by fastforce
  then have same: "ew_store w1 = ew_store w"
    by (auto simp: runtime_tool_def split: if_splits prod.splits)
  define es1 where "es1 = performed runtime_callback (runtime_tool plugin) (c r) w1"
  have es: "es = Invoked t r # es1" using Invoke.prems(3) w1 by (simp add: es1_def)
  have end': "w' = snd (perform runtime_callback (runtime_tool plugin) (c r) w1)"
    using Invoke.prems(4) w1 by simp
  have "awaits_only (own_journal ctx) (c r)" using Invoke.prems(1) by simp
  from Invoke.IH [OF this _ es1_def end'] Invoke.prems(2) same show ?case
    by (simp add: es journal_records_def map_filter_simps)
qed

lemma runtime_policy: "dispatch_policy runtime_options = policyRuntimeTask DEFAULT_POLICY_RUNTIME"
  by (rule ext) (simp add: dispatch_policy_def runtime_options_def)

lemma runtime_dispatch_journals:
  assumes active: "active_session (tool_context.tx_sessionId ctx) (ew_store w)"
    and run: "runtime_dispatch parts call ctx w = (r, w')"
  shows "\<exists>result rows. r = Inr result \<and>
    tr_toolCallId result = tk_id call \<and> tr_toolName result = tk_name call \<and>
    entries_of (tool_context.tx_sessionId ctx) (st_db (ew_store w')) =
      entries_of (tool_context.tx_sessionId ctx) (st_db (ew_store w)) @ rows \<and>
    (list_all2 (row_of_event ctx) [createToolResultJournalEvent result] rows \<or>
     (\<exists>planned. tk_id planned = tk_id call \<and> tk_name planned = tk_name call \<and>
        list_all2 (row_of_event ctx)
          [createToolCallPlannedJournalEvent planned, createToolResultJournalEvent result] rows))"
proof -
  let ?task = "dispatch (rp_env parts) (rp_registry parts) runtime_options ctx call"
  define es where "es = performed runtime_callback (runtime_tool (rp_plugin parts)) ?task w"
  have w': "w' = snd (perform runtime_callback (runtime_tool (rp_plugin parts)) ?task w)"
    and r: "r = fst (perform runtime_callback (runtime_tool (rp_plugin parts)) ?task w)"
    using run by (simp_all add: runtime_dispatch_def)
  from performed_journal [OF awaits_dispatch active es_def w'] obtain rows where
    steady: "list_all steady_event es" and
    rows: "entries_of (tool_context.tx_sessionId ctx) (st_db (ew_store w')) =
      entries_of (tool_context.tx_sessionId ctx) (st_db (ew_store w)) @ rows"
      "list_all2 (row_of_event ctx) (journal_records es) rows"
    by blast
  have "runs ?task es r" unfolding es_def r by (rule performed_runs)
  from tripleD [OF dispatch_steady [OF runtime_policy] _ this watched_steady [OF steady]]
  have "dispatch_closes runtime_options call (journal_records es) r" by simp
  then show ?thesis
    using rows
    by (auto simp: dispatch_closes_def journal_of_dispatch_def recorded_def planned_journal_def
        result_of_def runtime_options_def)
qed

end
