(* ===== verification/Engine_Examples.thy ===== *)
theory Engine_Examples
  imports Engine_Laws Engine_Stream_Laws Engine_Journal_Laws Session_Examples
begin

text \<open>
  A small engine at which the properties of turns are applied: the model's answers are a script, the
  tools answer at once, the prompt has no sections.
\<close>

type_synonym script = "(thrown + model_output) list"

definition sample_prompt :: prompt_artifacts where
  "sample_prompt =
     \<lparr>pa_staticPrompt = ''static'', pa_dynamicPrompt = ''dynamic'', pa_staticSections = [],
      pa_staticSectionIds = [], pa_dynamicSections = [], pa_dynamicSectionIds = [],
      pa_omittedSections = [], pa_omittedSectionIds = [], pa_usedTokens = 10,
      pa_remainingTokens = 90, pa_runtimeDegradations = None\<rparr>"

definition script_generate :: "model_request \<Rightarrow> script \<Rightarrow> (thrown + model_output) \<times> script" where
  "script_generate request answers =
     (case answers of
        [] \<Rightarrow> (Inl (ErrorThrown ''offline''), [])
      | a # rest \<Rightarrow> (a, rest))"

definition echo_result :: "tool_call \<Rightarrow> tool_result" where
  "echo_result call =
     \<lparr>tr_toolCallId = tk_id call, tr_toolName = tk_name call, tr_ok = True,
      tr_output = JStr ''done'', tr_error = None, tr_resolution = Some ToolExecuted,
      tr_degradation = None, tr_policyDecision = None, tr_metadata = None\<rparr>"

definition sample_failure :: "thrown \<Rightarrow> provider_failure" where
  "sample_failure e =
     \<lparr>es_stage = ModelStage, es_kind = ProviderTransientKind, es_action = FailoverAction,
      es_error = createContractError
        \<lparr>co_code = ProviderTransientError, co_message = normalizeError e, co_retryable = Some True,
         co_kind = None, co_defaultAction = None, co_metadata = None, co_cause = Some e\<rparr>,
      es_recoverable = True, es_operatorVisible = None, pf_providerId = ''unknown'',
      pf_providerStage = GenerateStage, pf_providerCode = ''network'',
      pf_failureClass = ''transient'', pf_retryable = True, pf_statusCode = None\<rparr>"

definition sample_engine :: "script engine_deps" where
  "sample_engine =
     \<lparr>ed_workspaceRoot = ''/work'', ed_parse = (\<lambda>_. Some (JObj [])),
      ed_managesJournalClosure = False, ed_getSchemas = (\<lambda>_. []),
      ed_dispatch = (\<lambda>call context' w. (Inr (echo_result call), w)),
      ed_generate = script_generate, ed_buildPrompt = (\<lambda>_ x. (Inr sample_prompt, x)),
      ed_writeUserMemory = (\<lambda>_ _ x. (Inr (), x)), ed_writeOutputMemory = (\<lambda>_ _ x. (Inr (), x)),
      ed_failureSurface = sample_failure, ed_reasoning = (\<lambda>_. None), ed_guidance = (\<lambda>_. None),
      ed_degradationSummaries = (\<lambda>_. [])\<rparr>"

definition sample_turn :: turn_input where
  "sample_turn =
     \<lparr>in_sessionId = Some sample_session, in_turnId = Some ''turn-9'', in_userText = ''hello'',
      in_providerId = ''p'', in_model = ''m'', in_tokenBudget = None, in_maxSteps = None\<rparr>"

definition say :: "string \<Rightarrow> thrown + model_output" where
  "say text = Inr \<lparr>mo_text = text, mo_toolCalls = None\<rparr>"

definition call_tool :: "string \<Rightarrow> thrown + model_output" where
  "call_tool name = Inr \<lparr>mo_text = ''calling'',
     mo_toolCalls = Some [\<lparr>mc_id = ''c1'', mc_name = name, mc_argumentsJson = ''{}''\<rparr>]\<rparr>"

definition sample_parts :: "script runtime_parts" where
  "sample_parts =
     \<lparr>rp_registry = [tasksTodoWriteDefinition], rp_env = (\<lambda>_. None),
      rp_plugin = (\<lambda>rq x. (Inl (ErrorThrown ''no plugin''), x))\<rparr>"

definition sample_loop_context :: loop_context where
  "sample_loop_context =
     \<lparr>lc_turnId = ''turn-9'', lc_providerId = ''p'', lc_model = ''m'', lc_sessionId = sample_session,
      lc_tokenBudget = 100, lc_maxSteps = 4\<rparr>"

definition sample_step_deps :: "script step_deps" where
  "sample_step_deps =
     \<lparr>sd_context = sample_loop_context, sd_userText = ''hello'', sd_parse = (\<lambda>_. Some (JObj [])),
      sd_taskState = (\<lambda>_. \<lparr>ts_items = [], ts_updatedAtMs = None\<rparr>), sd_getSchemas = (\<lambda>_. []),
      sd_onContextBuilt = (\<lambda>i event text task x. (Inr (), x)),
      sd_modelRuntimeGenerate = script_generate,
      sd_buildPrompt = (\<lambda>task results degradations schemas x. (Inr sample_prompt, x)),
      sd_executeToolCalls = (\<lambda>m x. (Inr (map (\<lambda>c. echo_result
         \<lparr>tk_id = mc_id c, tk_name = mc_name c, tk_args = JObj []\<rparr>)
         (nullish_else (mo_toolCalls m) [])), x)),
      sd_decideReasoning = None\<rparr>"

definition fresh_step_state :: step_state where
  "fresh_step_state =
     \<lparr>ls_output = [], ls_toolResults = [],
      ls_runtimeDegradations = [], ls_lastReasoningDecision = None,
      ls_lastStepEvents = [], ls_lastTurnBranch = NormalBranch\<rparr>"

definition sample_world :: "script turn_world" where
  "sample_world =
     \<lparr>ew_store = sample_run 1,
      ew_board = newTaskBoard NoSeed (\<lambda>n. int n) None,
      ew_recorder = restoreRecorderState [], ew_resumePending = False, ew_outside = []\<rparr>"

definition sample_call :: tool_call where
  "sample_call = \<lparr>tk_id = ''c1'', tk_name = ''look'', tk_args = JObj []\<rparr>"

definition sample_tool_context :: tool_context where
  "sample_tool_context =
     \<lparr>tx_sessionId = sample_session, tx_turnId = Some ''turn-9'', tx_workspaceRoot = None,
      tx_actor = None, tx_approval = None\<rparr>"

definition blank_todo :: task_item where
  "blank_todo = \<lparr>ti_id = ''t1'', ti_content = '' '', ti_status = Todo, ti_priority = None\<rparr>"

text \<open>A turn that is not given a single step.\<close>

definition short_turn :: turn_input where
  "short_turn = sample_turn\<lparr>in_maxSteps := Some 0\<rparr>"

definition sample_recorder :: recorder where
  "sample_recorder = \<lparr>rc_sessionId = sample_session, rc_turnId = ''turn-9''\<rparr>"

definition calling :: model_output where
  "calling =
     \<lparr>mo_text = ''calling'',
      mo_toolCalls = Some [\<lparr>mc_id = ''c1'', mc_name = ''look'', mc_argumentsJson = ''{}''\<rparr>]\<rparr>"

definition sample_recording :: "recorder_call list" where
  "sample_recording =
     [BeforeModel None,
      Step True
        [model_output_event calling (decideReasoningFromModelOutput calling),
         tools_planned_event (\<lambda>_. Some (JObj [])) calling,
         tool_result_event NormalBranch [echo_result sample_call]] NormalBranch,
      BeforeModel None,
      Step False [final_output_event ''done'' None] NormalBranch,
      Complete FinishStop]"

end
