(* ===== verification/Engine_Failures.thy ===== *)
theory Engine_Failures
  imports Engine_Laws
begin

text \<open>
  With which errors a turn ends: those of the store, of the prompt, the memory and the dispatcher as
  they are, and a failure of the model as the engine's own error, after it has been recorded.
\<close>

section \<open>Errors of a step\<close>

text \<open>The errors that a step of a turn may throw.\<close>

definition thrown_in :: "(engine_error \<Rightarrow> bool) \<Rightarrow> engine_error + 'a \<Rightarrow> bool" where
  "thrown_in E r \<longleftrightarrow> (case r of Inl e \<Rightarrow> E e | Inr x \<Rightarrow> True)"

definition throws :: "(engine_error \<Rightarrow> bool) \<Rightarrow> ('w, 'a) turn_step \<Rightarrow> bool" where
  "throws E f \<longleftrightarrow> (\<forall>w. thrown_in E (fst (f w)))"

fun base_error :: "engine_error \<Rightarrow> bool" where
  "base_error (StoreThrew e) = True"
| "base_error (Threw e) = True"
| "base_error _ = False"

fun loop_error :: "engine_error \<Rightarrow> bool" where
  "loop_error (EngineRunFailure u) = False"
| "loop_error _ = True"

lemma base_loop_error: "base_error e \<Longrightarrow> loop_error e"
  by (cases e) simp_all

lemma thrown_in_simps [simp]: "thrown_in E (Inr x)" "thrown_in E (Inl e) \<longleftrightarrow> E e"
  by (simp_all add: thrown_in_def)

lemma throwsD: "throws E f \<Longrightarrow> thrown_in E (fst (f w))"
  by (simp add: throws_def)

lemma throws_mono: "throws E f \<Longrightarrow> (\<And>e. E e \<Longrightarrow> E' e) \<Longrightarrow> throws E' f"
  unfolding throws_def thrown_in_def by (metis (mono_tags, lifting) sum.case_eq_if)

lemma thrown_in_chain:
  "thrown_in E (fst r) \<Longrightarrow> (\<And>x s. thrown_in E (fst (k x s))) \<Longrightarrow> thrown_in E (fst (chain r k))"
  by (cases r; cases "fst r") (simp_all add: chain_def)

named_theorems throws_intros \<open>steps of a turn that throw nothing but what they call throws\<close>

lemma throws_chain [throws_intros]:
  "throws E f \<Longrightarrow> (\<And>w x. throws E (g w x)) \<Longrightarrow> throws E (\<lambda>w. chain (f w) (g w))"
  by (simp add: throws_def thrown_in_chain)

lemma throws_next [throws_intros]:
  "throws E f \<Longrightarrow> throws E g \<Longrightarrow> throws E (next_step f g)"
  unfolding next_step_def by (rule throws_chain)

lemma throws_answer [throws_intros]:
  "throws E (Pair (Inr r))" "throws E pass" "throws E (\<lambda>w. (Inr (answer w), update w))"
  by (simp_all add: throws_def pass_def)

lemma throws_if [throws_intros]: "throws E f \<Longrightarrow> throws E g \<Longrightarrow> throws E (if b then f else g)"
  by simp

lemma throws_case [throws_intros]:
  "throws E f \<Longrightarrow> (\<And>x. throws E (g x)) \<Longrightarrow> throws E (case y of None \<Rightarrow> f | Some x \<Rightarrow> g x)"
  by (simp split: option.split)

lemma throws_operations [throws_intros]:
  "throws base_error (on_store f)" "throws base_error (\<lambda>w. on_store (h w) w)"
  "throws base_error (on_recorder g)" "throws base_error (on_outside j)"
  "throws base_error (on_dispatcher d)" "throws base_error (persistLatestTurnObservation k m ob)"
  by (simp_all add: throws_def on_store_def on_recorder_def on_outside_def on_dispatcher_def Let_def
      persistLatestTurnObservation_def split: prod.split sum.split)

lemma throws_each [throws_intros]: "(\<And>x. throws E (f x)) \<Longrightarrow> throws E (each_step f xs)"
  by (induction xs) (auto intro: throws_intros)

lemma throws_append [throws_intros]: "throws base_error (engineAppendJournal k ty p t)"
  unfolding engineAppendJournal_def by (intro throws_intros throws_chain [OF throws_operations(1)])

lemma throws_evidence [throws_intros]: "throws base_error (engineRecordEvidence k kind p t)"
  unfolding engineRecordEvidence_def by (intro throws_intros)

lemma throws_degradations [throws_intros]: "throws base_error (recordRuntimeDegradations k t ds)"
  unfolding recordRuntimeDegradations_def by (intro throws_intros)

lemma throws_branch [throws_intros]: "throws base_error (recordTurnBranch k t b results)"
  unfolding recordTurnBranch_def Let_def by (intro throws_intros)

lemma throws_step_runtime [throws_intros]: "throws base_error (recordStepRuntime k t i events st)"
  unfolding recordStepRuntime_def recordStepEvent_def by (intro throws_intros)

lemma throws_close: "throws base_error (close_turn f result)"
  unfolding close_turn_def Let_def by (intro throws_intros)

lemma throws_record_input: "throws base_error (record_input f)"
  unfolding record_input_def Let_def by (intro throws_intros)

lemma throws_todo_write [throws_intros]: "throws base_error (record_todo_write k t result)"
  using throwsD [OF throws_append]
  by (auto simp: throws_def record_todo_write_def pass_def split: sum.split)

lemma throws_tool_call: "throws base_error (run_tool_call deps ctx call)"
  unfolding run_tool_call_def Let_def appendToolEvent_def
  by (intro throws_chain throws_next throws_if throws_intros)

lemma throws_tool_calls: "throws base_error (run_tool_calls deps ctx calls)"
proof (induction calls)
  case Nil
  then show ?case by (simp add: throws_def)
next
  case (Cons call calls)
  show ?case
    unfolding throws_def run_tool_calls.simps
    by (intro allI thrown_in_chain throwsD [OF throws_tool_call] throwsD [OF Cons]) simp
qed

lemma throws_built:
  fixes f :: "'w turn_frame"
  shows "throws base_error (on_context_built f i e out task)"
proof -
  have "throws base_error (next_step (on_recorder (beforeModelCall (frame_recorder f) reason))
      (\<lambda>w' :: 'w turn_world. (Inr (), w'\<lparr>ew_resumePending := False\<rparr>)))" for reason
    by (intro throws_intros)
  then show ?thesis
    unfolding on_context_built_def
    by (intro throws_next [OF throws_step_runtime]) (simp add: throws_def)
qed

lemma throws_run_step: "throws loop_error (runStep (strategy_deps f) i m st)"
  unfolding throws_def
proof
  fix w
  let ?deps = "strategy_deps f"
  note loop = throws_mono [OF _ base_loop_error, THEN throwsD]
  have tools: "thrown_in loop_error (fst (sd_executeToolCalls ?deps out w))" for out w
    unfolding strategy_deps_def step_deps.simps executeToolCalls_def
    by (rule loop [OF throws_tool_calls])
  have after: "thrown_in loop_error (fst (after_model ?deps st e degradations out w))"
    for e degradations out w
    by (simp add: after_model_def Let_def thrown_in_chain tools)
  have model: "thrown_in loop_error (fst (call_model ?deps request degradations w))"
    for request degradations w
    by (simp add: call_model_def split: prod.split sum.split)
  have prompt: "thrown_in loop_error (fst (sd_buildPrompt ?deps a b c d w))" for a b c d w
    unfolding strategy_deps_def step_deps.simps by (rule loop [OF throws_operations(4)])
  have built: "thrown_in loop_error (fst (sd_onContextBuilt ?deps a b c d w))" for a b c d w
    unfolding strategy_deps_def step_deps.simps by (rule loop [OF throws_built])
  show "thrown_in loop_error (fst (runStep ?deps i m st w))"
    unfolding runStep_def Let_def case_prod_unfold
    by (intro thrown_in_chain prompt built model after)
qed

lemma step_loop_throws:
  assumes "\<And>i st. throws E (\<lambda>s. strategy i maxSteps st s)" and "\<And>i r. throws E (hook i r)"
  shows "thrown_in E (fst (step_loop strategy hook maxSteps i st n s))"
  using assms
proof (induction strategy hook maxSteps i st n s rule: step_loop.induct)
  case (1 strategy hook maxSteps i st n s)
  show ?case
  proof (cases "i < maxSteps")
    case False
    then show ?thesis by (simp add: step_loop_end)
  next
    case True
    show ?thesis
      unfolding step_loop_more [OF True]
      by (intro thrown_in_chain throwsD [OF "1.prems"(1)] throwsD [OF "1.prems"(2)])
        (use "1.IH" [OF True _ "1.prems"] in simp)
  qed
qed

lemma throws_step_completed: "throws base_error (on_step_completed f i r)"
  unfolding throws_def on_step_completed_def Let_def
  by (intro allI throwsD [OF throws_next [OF throws_step_runtime throws_operations(3)]])

lemma throws_loop: "throws loop_error (turn_loop f)"
proof -
  have "thrown_in loop_error (fst (step_loop (runStep (strategy_deps f)) (on_step_completed f)
      m i st n w))" for m i st n w
    by (rule step_loop_throws)
      (simp_all add: throws_run_step throws_mono [OF throws_step_completed base_loop_error])
  then show ?thesis by (simp add: throws_def turn_loop_def runLoop_def)
qed

text \<open>The error of a turn: never the loop's own failure of the model, but the engine's, which names
  the model, the provider and the failure as the provider's surface describes it.\<close>

definition reported :: "'w engine_deps \<Rightarrow> string \<Rightarrow> string \<Rightarrow> engine_error \<Rightarrow> bool" where
  "reported deps model providerId e \<longleftrightarrow>
     (case e of
        EngineModelRuntimeFailure t ds \<Rightarrow> False
      | EngineRunFailure u \<Rightarrow>
          uf_model u = model \<and> uf_selectedProviderId u = providerId \<and>
          (\<exists>t. uf_failure u = toEngineModelRuntimeFailure (ed_failureSurface deps) t providerId)
      | _ \<Rightarrow> True)"

lemma base_reported: "base_error e \<Longrightarrow> reported deps model providerId e"
  by (cases e) (simp_all add: reported_def)

lemmas throws_reported = throws_mono [OF _ base_reported]

abbreviation frame_error :: "'w turn_frame \<Rightarrow> engine_error \<Rightarrow> bool" where
  "frame_error f \<equiv>
     reported (tf_deps f) (lc_model (tf_context f)) (lc_providerId (tf_context f))"

lemma throws_failed: "throws (frame_error f) (turn_failed f e degradations)"
proof -
  have ending: "throws (frame_error f) (\<lambda>w. chain (recordModelRuntimeFailure (tf_deps f) k t p e w)
      (\<lambda>failure w1. next_step (persistLatestTurnObservation k m ob)
         (Pair (Inl (EngineRunFailure (u failure)))) w1))"
    if "\<And>failure. uf_model (u failure) = lc_model (tf_context f)"
       "\<And>failure. uf_selectedProviderId (u failure) = p" "\<And>failure. uf_failure (u failure) = failure"
       "p = lc_providerId (tf_context f)"
    for k t p m ob u
  proof -
    let ?failure = "toEngineModelRuntimeFailure (ed_failureSurface (tf_deps f)) e p"
    have eq: "(\<lambda>w. chain (recordModelRuntimeFailure (tf_deps f) k t p e w)
      (\<lambda>failure w1. next_step (persistLatestTurnObservation k m ob)
         (Pair (Inl (EngineRunFailure (u failure)))) w1)) =
      next_step (engineAppendJournal k ''runtime.failed'' (safe_provider_failure ?failure) t)
        (next_step (engineRecordEvidence k RuntimeFailed (safe_provider_failure ?failure) t)
          (next_step (persistLatestTurnObservation k m ob)
             (Pair (Inl (EngineRunFailure (u ?failure))))))"
      by (rule ext) (simp add: recordModelRuntimeFailure_def Let_def next_step_def chain_def
          split: prod.split sum.split)
    have "throws (frame_error f) (Pair (Inl (EngineRunFailure (u ?failure))))"
      using that by (auto simp: throws_def reported_def)
    then show ?thesis
      unfolding eq
      by (intro throws_next throws_reported [OF throws_append] throws_reported [OF throws_evidence]
          throws_reported [OF throws_operations(6)])
  qed
  show ?thesis
    unfolding turn_failed_def Let_def
    by (intro throws_next throws_reported [OF throws_operations(3)] throws_if throws_answer(2)
        throws_reported [OF throws_degradations] ending) simp_all
qed

lemma throws_guarded: "throws (frame_error f) (guarded_loop f)"
  unfolding throws_def
proof
  fix w
  obtain r w1 where loop: "turn_loop f w = (r, w1)" by fastforce
  have r: "thrown_in loop_error r" using throwsD [OF throws_loop, of f w] loop by simp
  show "thrown_in (frame_error f) (fst (guarded_loop f w))"
  proof (cases r)
    case (Inl e)
    with r throwsD [OF throws_failed, of f] show ?thesis
      by (cases e) (simp_all add: guarded_loop_def loop reported_def)
  qed (simp add: guarded_loop_def loop)
qed

lemma throws_body: "throws (frame_error f) (turn_body f)"
  unfolding turn_body_def
  by (intro throws_next throws_case throws_chain throws_guarded throws_answer(2)
      throws_reported [OF throws_record_input] throws_reported [OF throws_operations(3)]
      throws_reported [OF throws_close])

lemma runTurn_reported:
  "thrown_in (reported deps (in_model input) (in_providerId input)) (fst (runTurn deps input s x))"
proof -
  have body: "thrown_in (reported deps (in_model input) (in_providerId input)) (fst (turn_body f w))"
    if "f = turn_frame_of deps input session turnId v" for f session turnId v w
    using throwsD [OF throws_body, of f w] by (simp add: that turn_frame_of_def)
  have start: "thrown_in (reported deps (in_model input) (in_providerId input))
      (fst (start_turn (turn_frame_of deps input session turnId v) b s x))" for session turnId v b s
    using body [OF refl]
    by (simp add: start_turn_def base_reported case_prod_unfold split: sum.split)
  show ?thesis
    by (simp add: runTurn_def base_reported start split: prod.split sum.split)
qed

end
