(* ===== verification/Engine_Recovery_Laws.thy ===== *)
theory Engine_Recovery_Laws
  imports Engine_Turn_Laws Session_Turn_Laws Session_Plane_Json
begin

text \<open>
  What the next turn of a session finds after a turn was closed: the output and the tasks of the
  closed turn, and no progress, whatever the id of the next turn is.
\<close>

section \<open>A session whose last checkpoint covers its journal\<close>

definition at_rest :: "string \<Rightarrow> json_object \<Rightarrow> jsval \<Rightarrow> session_store \<Rightarrow> bool" where
  "at_rest k metadata state s \<longleftrightarrow>
     store_inv s \<and> isSessionId k \<and> sqlGetSession k (st_db s) \<noteq> None \<and>
     (\<exists>c. sqlGetLatestCheckpoint k (st_db s) = Some c \<and> cp_state c = state \<and>
          cp_metadata c = metadata \<and> cp_uptoSeq c = int (length (entries_of k (st_db s))))"

lemma turn_options_plain: "turn_options i = plain_recovery persistTurnStateReducer i None"
  by (simp add: turn_options_def plain_recovery_def)

lemma created_rests:
  assumes inv: "store_inv s" and inv': "store_inv s'" and json: "is_json state"
    and row: "lifecycleRequireActive k (st_db s) = Inr r"
    and created: "checkpointsCreate r \<lparr>ck_state = state, ck_uptoSeq = None, ck_schemaVersion = None,
      ck_createdAtMs = None, ck_metadata = metadata\<rparr> s = (Inr c, s')"
  shows "at_rest k (json_fields (nullish_else metadata [])) state s'"
proof -
  have cur: "current r (st_db s)" and k: "ss_id r = k" "isSessionId k" "sqlGetSession k (st_db s) = Some r"
    using row sqlGetSession_Some currentI by (auto simp: lifecycleRequireActive_Inr)
  have tab: "tables_inv (st_db s)" using inv by (simp add: store_inv_def)
  note c = checkpoint_at_end [OF cur tab created]
  show ?thesis
    unfolding at_rest_def using inv' c k json by (simp add: store_simps json_copy_id)
qed

lemma checkpoint_rests:
  assumes inv: "store_inv s" and json: "is_json state"
    and made: "storeCreateCheckpoint k \<lparr>ck_state = state, ck_uptoSeq = None, ck_schemaVersion = None,
      ck_createdAtMs = None, ck_metadata = None\<rparr> s = (Inr c, s')"
  shows "at_rest k [] state s'"
proof -
  let ?input = "\<lparr>ck_state = state, ck_uptoSeq = None, ck_schemaVersion = None,
      ck_createdAtMs = None, ck_metadata = None\<rparr> :: checkpoint_input"
  obtain r where "lifecycleRequireActive k (st_db s) = Inr r"
    "checkpointsCreate r ?input s = (Inr c, s')"
    using made by (auto simp: storeCreateCheckpoint_def with_active_def transaction_def
        split: sum.splits prod.splits)
  from created_rests [OF inv _ json this] exec_store_inv [OF inv, of "CmdCheckpoint k ?input"] made
  show ?thesis by simp
qed

lemma step_checkpoint_rests:
  assumes inv: "store_inv s" and json: "is_json state"
    and made: "storeCreateStepCheckpoint k \<lparr>sc_turnId = t, sc_stepIndex = Finite i, sc_eventType = ev,
      sc_state = state, sc_uptoSeq = None, sc_schemaVersion = None, sc_createdAtMs = None\<rparr> s = (Inr c, s')"
  shows "at_rest k (step_metadata (js_trim t) i ev) state s' \<and> 0 \<le> i \<and> js_trim t \<noteq> []"
proof -
  let ?step = "\<lparr>sc_turnId = t, sc_stepIndex = Finite i, sc_eventType = ev,
      sc_state = state, sc_uptoSeq = None, sc_schemaVersion = None, sc_createdAtMs = None\<rparr>
      :: step_checkpoint_input"
  obtain r where r: "lifecycleRequireActive k (st_db s) = Inr r"
    "checkpointsCreateStep r ?step s = (Inr c, s')"
    using made by (auto simp: storeCreateStepCheckpoint_def with_active_def transaction_def
        split: sum.splits prod.splits)
  then have "checkpointsCreate r \<lparr>ck_state = state, ck_uptoSeq = None, ck_schemaVersion = None,
      ck_createdAtMs = None, ck_metadata = Some (step_metadata (js_trim t) i ev)\<rparr> s = (Inr c, s')"
    and step: "0 \<le> i" "js_trim t \<noteq> []"
    by (auto simp: checkpointsCreateStep_def check_step_def Let_def split: if_splits)
  moreover have "store_inv s'"
    using exec_store_inv [OF inv, of "CmdStepCheckpoint k ?step"] made by simp
  ultimately have "at_rest k (json_fields (step_metadata (js_trim t) i ev)) state s'"
    using created_rests [OF inv _ json r(1)] by fastforce
  then show ?thesis using step by (simp add: step_metadata_def)
qed

lemma at_rest_metadata:
  assumes "at_rest k metadata state s"
  shows "at_rest k metadata state (snd (storeUpdateMetadata k m s))"
proof (cases "lifecycleRequireActive k (st_db s)")
  case (Inl e)
  then show ?thesis using assms by (simp add: storeUpdateMetadata_eq)
next
  case (Inr r)
  have "store_inv (snd (storeUpdateMetadata k m s))"
    using exec_store_inv [of s "CmdUpdateMetadata k m"] assms by (simp add: at_rest_def)
  with assms Inr show ?thesis
    by (simp add: at_rest_def storeUpdateMetadata_eq store_simps sqlGetLatestCheckpoint_def)
qed

lemma at_rest_tick [simp]: "at_rest k metadata state (store_tick s) = at_rest k metadata state s"
  by (simp add: at_rest_def store_inv_def)

text \<open>A turn of a session at rest starts from the checkpoint, at the step that the checkpoint's
  metadata say when they are of that turn, and from the beginning otherwise. It finds no tool
  results in either case.\<close>

definition rest_progress :: "json_object \<Rightarrow> string \<Rightarrow> int \<times> resume_action" where
  "rest_progress metadata turnId =
     (case isStepCheckpointMetadata metadata of
        None \<Rightarrow> (0, NoProgress)
      | Some m \<Rightarrow>
          (if sm_turnId m = js_trim turnId
           then (nextStepIndexFromProgress (sm_stepIndex m) (sm_eventType m),
                 resumeActionFromProgress (sm_eventType m))
           else (0, NoProgress)))"

lemma at_rest_recovers:
  assumes rest: "at_rest k metadata state s" and state: "state \<notin> {JNull, JUndefined}"
    and turn: "js_trim turnId \<noteq> []"
    and progress: "rest_progress metadata turnId = (i, action)"
  shows "\<exists>v. recover_turn k turnId s = Inr v \<and> tv_state v = state \<and> tv_resumeAction v = action \<and>
    tv_resumed v = (action \<in> {ContinueCurrentStep, StartNextStep}) \<and>
    tv_initialStepIndex v = (if action \<in> {ContinueCurrentStep, StartNextStep} then i else 0) \<and>
    tv_toolResults v = [] \<and> tv_lastAppliedSeq v = int (length (entries_of k (st_db s)))"
proof -
  obtain c r where c: "sqlGetLatestCheckpoint k (st_db s) = Some c" "cp_state c = state"
      "cp_metadata c = metadata" "cp_uptoSeq c = int (length (entries_of k (st_db s)))"
    and r: "sqlGetSession k (st_db s) = Some r" and inv: "tables_inv (st_db s)"
    using rest by (auto simp: at_rest_def store_inv_def)
  have base: "recoverSessionState k (turn_options i) (st_db s) =
      Inr \<lparr>rr_session = r, rr_checkpoint = Some c, rr_journal = [], rr_state = state,
           rr_lastAppliedSeq = int (length (entries_of k (st_db s)))\<rparr>" for i
    unfolding turn_options_plain using state
    by (simp add: recover_eq [OF inv r] c checkpoint_seq_def base_state_def js_nullish_def)
  show ?thesis
    using turn progress
    by (cases "isStepCheckpointMetadata metadata")
      (auto simp: recover_turn_def storeRecover_def storeRecoverStep_def recoverStepState_def base
        Let_def step_checkpoint_of_def c List.map_filter_def last_opt_def readRecoveredToolResults_def
        rest_progress_def split: if_splits)
qed

section \<open>Closing a turn\<close>

lemma persisted_state:
  "is_json (toPersistedTurnState task out)" "toPersistedTurnState task out \<notin> {JNull, JUndefined}"
  "state_output (toPersistedTurnState task out) = out"
  by (simp_all add: toPersistedTurnState_def state_output_def)

lemma next_step_Inr:
  "next_step f g w = (Inr y, w') \<longleftrightarrow> (\<exists>x w1. f w = (Inr x, w1) \<and> g w1 = (Inr y, w'))"
  by (simp add: next_step_def chain_Inr)

text \<open>The steps that close a turn leave its board alone.\<close>

lemma on_store_board: "Engine_Turn.on_store f w = (r, w') \<Longrightarrow> ew_board w' = ew_board w"
  by (auto simp: Engine_Turn.on_store_def split: prod.splits sum.splits)

lemma on_outside_board: "on_outside f w = (r, w') \<Longrightarrow> ew_board w' = ew_board w \<and> ew_store w' = ew_store w"
  by (auto simp: on_outside_def split: prod.splits sum.splits)

lemma persist_rests:
  assumes "persistLatestTurnObservation k m ob w = (r, w')" and "at_rest k metadata state (ew_store w)"
  shows "at_rest k metadata state (ew_store w') \<and> ew_board w' = ew_board w"
  using assms at_rest_metadata [of k metadata state "store_tick (ew_store w)"]
  by (auto simp: persistLatestTurnObservation_def Let_def split: prod.splits) (metis snd_conv)

lemma close_turn_rests:
  assumes inv: "store_inv (ew_store w)" and run: "close_turn f result w = (Inr res, w')"
  shows "at_rest (lc_sessionId (tf_context f)) []
           (toPersistedTurnState (rt_taskState res) (rt_output res)) (ew_store w')"
proof -
  let ?k = "lc_sessionId (tf_context f)" and ?t = "lc_turnId (tf_context f)"
  let ?st = "lr_state result"
  let ?before = "next_step (on_recorder (completeTurn (frame_recorder f)
        (turn_finish_reason (lr_stopReason result))))
      (next_step (recordRuntimeDegradations ?k ?t (ls_runtimeDegradations ?st))
      (next_step (recordTurnBranch ?k ?t (ls_lastTurnBranch ?st) (ls_toolResults ?st))
      (next_step (engineAppendJournal ?k ''assistant.output'' (JObj [(''text'', JStr (ls_output ?st))]) ?t)
        (Engine_Turn.on_store (storeCreateHandoffSummary ?k (turn_handoff f result))))))"
  obtain u w1 c w2 x w3 y w4 where
    w1: "?before w = (Inr u, w1)" and
    w2: "Engine_Turn.on_store (storeCreateCheckpoint ?k \<lparr>ck_state = toPersistedTurnState (snapshot (ew_board w1))
          (ls_output ?st), ck_uptoSeq = None, ck_schemaVersion = None, ck_createdAtMs = None,
          ck_metadata = None\<rparr>) w1 = (Inr c, w2)" and
    w3: "on_outside (ed_writeOutputMemory (tf_deps f) ?k (ls_output ?st)) w2 = (Inr x, w3)" and
    w4: "persistLatestTurnObservation ?k (ss_metadata (tf_session f)) (turn_observation_of f result) w3 =
          (Inr y, w4)" and
    res: "w' = w4" "rt_taskState res = snapshot (ew_board w4)" "rt_output res = ls_output ?st"
    using run unfolding close_turn_def Let_def next_step_Inr by (auto simp: next_step_Inr)
  have "confines ?k ?before"
    using records_methods(5) [of "frame_recorder f"]
    by (intro confines_next confines_recorder confines_degradations confines_branch
        confines_append confines_store confined_methods) simp
  then have inv1: "store_inv (ew_store w1)"
    using confined_inv [OF confinesD inv] w1 by (metis snd_conv)
  let ?state = "toPersistedTurnState (snapshot (ew_board w1)) (ls_output ?st)"
  have "at_rest ?k [] ?state (ew_store w2)"
    using w2 checkpoint_rests [OF inv1 persisted_state(1)]
    by (auto simp: Engine_Turn.on_store_def split: prod.splits sum.splits)
  then have "at_rest ?k [] ?state (ew_store w4) \<and> ew_board w4 = ew_board w1"
    using on_outside_board [OF w3] on_store_board [OF w2] persist_rests [OF w4] by simp
  then show ?thesis by (simp add: res)
qed

section \<open>The next turn\<close>

text \<open>The items that the persisted state keeps as they are.\<close>

definition proper_item :: "task_item \<Rightarrow> bool" where
  "proper_item i \<longleftrightarrow>
     ti_id i \<noteq> [] \<and> ti_content i \<noteq> [] \<and> js_trim (ti_content i) = ti_content i"

lemma coerce_proper_item: "proper_item i \<Longrightarrow> coercePersistedTaskItem (js_of_task_item i) n = Some i"
proof -
  have "asTaskPriority JUndefined = None" by (simp add: asTaskPriority_def)
  then show "proper_item i \<Longrightarrow> ?thesis"
    by (cases i) (simp add: proper_item_def js_of_task_item_def js_object_def coerce_text_def Let_def
        codec_simps)
qed

lemma coerce_items_proper:
  "list_all proper_item items \<Longrightarrow> coerce_items n (map js_of_task_item items) = items"
  by (induction items arbitrary: n)
    (simp_all add: coerce_items_def map_filter_simps coerce_proper_item)

lemma coerce_proper:
  "list_all proper_item (ts_items t) \<Longrightarrow> coercePersistedTaskState (js_of_task_state t) = t"
  by (cases t) (simp add: coercePersistedTaskState_def js_of_task_state_def js_object_def
      coerce_items_proper split: option.split)

lemma persisted_board:
  "\<exists>b. taskBoardFromState (toPersistedTurnState t out) clock = Inr b \<and>
       snapshot b = coercePersistedTaskState (js_of_task_state t)"
proof -
  have same: "toTaskState u = u" "cloneTaskItems items = items" for u items
    by (simp_all add: toTaskState_def cloneTaskItems_def map_idI)
  show ?thesis
    by (simp add: taskBoardFromState_def toPersistedTurnState_def asTaskState_js newTaskBoard_def
        snapshot_def cloneTaskState_def empty_operations_def same)
qed

lemma start_turn_rests:
  assumes inv: "store_inv s" and dispatcher: "session_dispatcher (lc_sessionId (tf_context f)) (ed_dispatch (tf_deps f))"
    and run: "start_turn f b s x = (Inr res, s', x')"
  shows "at_rest (rt_sessionId res) [] (toPersistedTurnState (rt_taskState res) (rt_output res)) s' \<and>
         rt_sessionId res = lc_sessionId (tf_context f)"
proof -
  let ?k = "lc_sessionId (tf_context f)"
  obtain st w' where body: "turn_body f \<lparr>ew_store = s, ew_board = b, ew_recorder = st,
      ew_resumePending = tv_resumed (tf_recovery f), ew_outside = x\<rparr> = (Inr res, w')"
    and s': "s' = ew_store w'"
    using run by (auto simp: start_turn_def split: sum.splits prod.splits)
  let ?w = "\<lparr>ew_store = s, ew_board = b, ew_recorder = st,
      ew_resumePending = tv_resumed (tf_recovery f), ew_outside = x\<rparr>"
  let ?before = "next_step (record_input f) (next_step
      (case tf_reasoning f of None \<Rightarrow> pass
       | Some reasoning \<Rightarrow> on_recorder (recordReasoning (frame_recorder f) reasoning))
      (guarded_loop f))"
  obtain result w1 where before: "?before ?w = (Inr result, w1)"
    and close: "close_turn f result w1 = (Inr res, w')"
    using body unfolding turn_body_def next_step_Inr chain_Inr by blast
  have "confines ?k ?before"
    by (rule session_dispatcher.confines_opening [OF dispatcher refl refl])
  then have "store_inv (ew_store w1)"
    using confined_inv [OF confinesD [of ?k ?before ?w]] inv before by simp
  from close_turn_rests [OF this close] close show ?thesis
    by (auto simp: s' close_turn_def Let_def next_step_Inr)
qed

text \<open>A turn that ran, rather than being found complete, leaves its session at rest.\<close>

definition found_complete :: "turn_input \<Rightarrow> session_store \<Rightarrow> bool" where
  "found_complete input s \<longleftrightarrow>
     (case open_session (in_sessionId input) s of
        (Inl e, s1) \<Rightarrow> False
      | (Inr session, s1) \<Rightarrow>
          (case turn_id input s1 of (turnId, s2) \<Rightarrow>
             (case recover_turn (ss_id session) turnId s2 of
                Inl e \<Rightarrow> False
              | Inr v \<Rightarrow> tv_resumeAction v = TurnComplete)))"

lemma runTurn_rests:
  assumes inv: "store_inv s" and dispatcher: "\<And>k. session_dispatcher k (ed_dispatch deps)"
    and ran: "\<not> found_complete input s" and run: "runTurn deps input s x = (Inr res, s', x')"
  shows "at_rest (rt_sessionId res) [] (toPersistedTurnState (rt_taskState res) (rt_output res)) s'"
proof -
  obtain opened s1 where opened: "open_session (in_sessionId input) s = (opened, s1)" by fastforce
  obtain session where session: "opened = Inr session"
    using run by (cases opened) (simp_all add: runTurn_def opened)
  obtain turnId s2 where turn: "turn_id input s1 = (turnId, s2)" by fastforce
  have inv2: "store_inv s2"
    using open_session_adds [OF inv opened] turn_id_store [OF turn] by (auto simp: store_inv_def)
  obtain v where v: "recover_turn (ss_id session) turnId s2 = Inr v"
    using run by (auto simp: runTurn_def opened session turn split: sum.splits)
  have "tv_resumeAction v \<noteq> TurnComplete"
    using ran by (simp add: found_complete_def opened session turn v)
  then obtain b where start: "start_turn (turn_frame_of deps input session turnId v) b s2 x = (Inr res, s', x')"
    using run by (auto simp: runTurn_def opened session turn v split: sum.splits)
  have disp: "session_dispatcher (lc_sessionId (tf_context (turn_frame_of deps input session turnId v)))
      (ed_dispatch (tf_deps (turn_frame_of deps input session turnId v)))"
    using dispatcher by (simp add: turn_frame_of_def)
  show ?thesis by (rule conjunct1 [OF start_turn_rests [OF inv2 disp start]])
qed

lemma next_turn_starts:
  assumes rest: "at_rest k [] (toPersistedTurnState task out) s" and turn: "js_trim turnId \<noteq> []"
  shows "\<exists>v b. recover_turn k turnId s = Inr v \<and> tv_resumeAction v = NoProgress \<and>
    tv_initialStepIndex v = 0 \<and> state_output (tv_state v) = out \<and>
    taskBoardFromState (tv_state v) clock = Inr b \<and>
    snapshot b = coercePersistedTaskState (js_of_task_state task)"
proof -
  have "rest_progress [] turnId = (0, NoProgress)"
    by (simp add: rest_progress_def isStepCheckpointMetadata_def)
  from at_rest_recovers [OF rest persisted_state(2) turn this] persisted_board [of task out clock]
  show ?thesis by (auto simp: persisted_state(3))
qed

section \<open>A turn that was interrupted\<close>

lemma recorded_steps_rest:
  assumes "store_inv (ew_store w)" and "recordStepRuntime k t i events state w = (Inr (), w')"
    and "events \<noteq> []" and "is_json state"
  shows "at_rest k (step_metadata (js_trim t) i (se_eventType (last events))) state (ew_store w') \<and>
         0 \<le> i \<and> js_trim t \<noteq> []"
  using assms
proof (induction events arbitrary: w)
  case Nil
  then show ?case by simp
next
  case (Cons event events)
  let ?append = "Engine_Turn.on_store (storeAppendStepJournal k
    \<lparr>sj_turnId = t, sj_stepIndex = Finite i, sj_eventType = se_eventType event,
     sj_payload = toJsonSafe (se_payload event), sj_schemaVersion = None, sj_createdAtMs = None\<rparr>)"
  let ?point = "\<lparr>sc_turnId = t, sc_stepIndex = Finite i, sc_eventType = se_eventType event,
    sc_state = state, sc_uptoSeq = None, sc_schemaVersion = None, sc_createdAtMs = None\<rparr>"
  obtain x w1 c w2 where w1: "?append w = (Inr x, w1)"
    and w2: "Engine_Turn.on_store (storeCreateStepCheckpoint k ?point) w1 = (Inr c, w2)"
    and rest: "recordStepRuntime k t i events state w2 = (Inr (), w')"
    using Cons.prems(2)
    by (auto simp: recordStepRuntime_def recordStepEvent_def next_step_Inr pass_def)
  have "store_inv (ew_store w1)"
    using exec_store_inv [OF Cons.prems(1), of "CmdAppendStep k \<lparr>sj_turnId = t, sj_stepIndex = Finite i,
        sj_eventType = se_eventType event, sj_payload = toJsonSafe (se_payload event),
        sj_schemaVersion = None, sj_createdAtMs = None\<rparr>"] w1
    by (auto simp: Engine_Turn.on_store_def split: prod.splits sum.splits)
  then have point: "at_rest k (step_metadata (js_trim t) i (se_eventType event)) state (ew_store w2) \<and>
      0 \<le> i \<and> js_trim t \<noteq> []"
    using step_checkpoint_rests [OF _ Cons.prems(4)] w2
    by (fastforce simp: Engine_Turn.on_store_def split: prod.splits sum.splits)
  show ?case
  proof (cases "events = []")
    case True
    then show ?thesis using point rest by (simp add: recordStepRuntime_def pass_def)
  next
    case False
    with Cons.IH [OF _ rest False Cons.prems(4)] point show ?thesis by (simp add: at_rest_def)
  qed
qed

lemma trim_twice: "js_trim (js_trim t) = js_trim t"
  by (rule js_trim_idem)

lemma step_progress:
  assumes "0 \<le> i" and "js_trim t \<noteq> []"
  shows "rest_progress (step_metadata (js_trim t) i ev) t =
           (nextStepIndexFromProgress i ev, resumeActionFromProgress ev)"
proof -
  have "isStepCheckpointMetadata (step_metadata (js_trim t) i ev) =
      Some \<lparr>sm_turnId = js_trim t, sm_stepIndex = i, sm_eventType = ev\<rparr>"
    using assms by (simp add: isStepCheckpointMetadata_def step_metadata_def non_blank_def js_trim_idem)
  then show ?thesis by (simp add: rest_progress_def)
qed

end
