(* ===== verification/JS_Regex.thy ===== *)
theory JS_Regex
  imports JS_Texts
begin

text \<open>
  Regular expressions with the backtracking order of JavaScript, for patterns over 8-bit texts:
  classes, sequences, alternatives, greedy and lazy repetition and the end of the input.
\<close>

datatype regex =
    Class "char \<Rightarrow> bool"
  | Empty
  | Ending
  | Seq regex regex
  | Alt regex regex
  | Greedy regex
  | Lazy regex

text \<open>What is left of the text after each way to match its beginning, the preferred ways first. A
  repetition does not repeat an empty match.\<close>

function rests :: "regex \<Rightarrow> string \<Rightarrow> string list" where
  "rests (Class P) s = (case s of [] \<Rightarrow> [] | c # cs \<Rightarrow> (if P c then [cs] else []))"
| "rests Empty s = [s]"
| "rests Ending s = (if s = [] then [[]] else [])"
| "rests (Seq a b) s = concat (map (rests b) (rests a s))"
| "rests (Alt a b) s = rests a s @ rests b s"
| "rests (Greedy a) s =
     concat (map (\<lambda>t. if length t < length s then rests (Greedy a) t else []) (rests a s)) @ [s]"
| "rests (Lazy a) s =
     s # concat (map (\<lambda>t. if length t < length s then rests (Lazy a) t else []) (rests a s))"
  by pat_completeness auto
termination
  by (relation "measures [\<lambda>(r, s). size r, \<lambda>(r, s). length s]") auto

text \<open>\<open>pattern.test(text)\<close>, for a pattern that starts with \<open>^\<close> and for one that does not.\<close>

definition matches_start :: "regex \<Rightarrow> string \<Rightarrow> bool" where
  "matches_start r s \<longleftrightarrow> rests r s \<noteq> []"

fun matches :: "regex \<Rightarrow> string \<Rightarrow> bool" where
  "matches r [] \<longleftrightarrow> matches_start r []"
| "matches r (c # cs) \<longleftrightarrow> matches_start r (c # cs) \<or> matches r cs"

text \<open>The first match at the beginning, of a group and what follows it: the text of the group and
  what is left after the match.\<close>

definition match_group :: "regex \<Rightarrow> regex \<Rightarrow> string \<Rightarrow> (string \<times> string) option" where
  "match_group g r s =
     (case concat (map (\<lambda>t. map (Pair (take (length s - length t) s)) (rests r t)) (rests g s)) of
        [] \<Rightarrow> None
      | m # _ \<Rightarrow> Some m)"

text \<open>\<open>text.replace(/(group)r/g, "$1" + label)\<close>, for patterns that match no empty text.\<close>

function replace_group :: "regex \<Rightarrow> regex \<Rightarrow> string \<Rightarrow> string \<Rightarrow> string" where
  "replace_group g r label s =
     (case s of
        [] \<Rightarrow> []
      | c # cs \<Rightarrow>
          (case match_group g r s of
             None \<Rightarrow> c # replace_group g r label cs
           | Some (kept, t) \<Rightarrow>
               (if length t < length s then kept @ label @ replace_group g r label t
                else c # replace_group g r label cs)))"
  by pat_completeness auto
termination by (relation "measure (\<lambda>(_, _, _, s). length s)") auto

declare replace_group.simps [simp del]

section \<open>Building patterns\<close>

text \<open>A literal, its case ignored, one of some characters, and \<open>{n,}\<close>.\<close>

definition same_letter :: "char \<Rightarrow> char \<Rightarrow> bool" where
  "same_letter c d \<longleftrightarrow> latin_lower c = latin_lower d"

fun literal :: "string \<Rightarrow> regex" where
  "literal [] = Empty"
| "literal (c # cs) = Seq (Class (\<lambda>d. d = c)) (literal cs)"

fun any_case :: "string \<Rightarrow> regex" where
  "any_case [] = Empty"
| "any_case (c # cs) = Seq (Class (same_letter c)) (any_case cs)"

definition one_of :: "string \<Rightarrow> regex" where
  "one_of cs = Class (\<lambda>d. d \<in> set cs)"

definition spaces :: regex where
  "spaces = Greedy (Class is_js_space)"

definition optional' :: "regex \<Rightarrow> regex" where
  "optional' r = Alt r Empty"

fun at_least :: "nat \<Rightarrow> regex \<Rightarrow> regex" where
  "at_least 0 r = Greedy r"
| "at_least (Suc n) r = Seq r (at_least n r)"

fun up_to :: "nat \<Rightarrow> regex \<Rightarrow> regex" where
  "up_to 0 r = Empty"
| "up_to (Suc n) r = optional' (Seq r (up_to n r))"

fun alternatives :: "regex list \<Rightarrow> regex" where
  "alternatives [] = Class (\<lambda>_. False)"
| "alternatives [r] = r"
| "alternatives (r # rs) = Alt r (alternatives rs)"

fun in_sequence :: "regex list \<Rightarrow> regex" where
  "in_sequence [] = Empty"
| "in_sequence [r] = r"
| "in_sequence (r # rs) = Seq r (in_sequence rs)"

text \<open>\<open>.\<close> matches no line terminator.\<close>

definition any_char :: regex where
  "any_char = Class (\<lambda>c. c \<noteq> CHR 0x0A \<and> c \<noteq> CHR 0x0D)"

end
