(* ===== verification/Memory_Layers.thy ===== *)
theory Memory_Layers
  imports Complex_Main Json_Values JS_Texts Session_Search
begin

text \<open>
  The data and the layer stores of \<open>packages/memory-core/src\<close>: \<open>types.ts\<close>, \<open>scope.ts\<close>, \<open>ranking.ts\<close>,
  \<open>layer0.ts\<close>, \<open>layer1.ts\<close>. Scores are exact fractions where JavaScript rounds.
\<close>

section \<open>Data\<close>

datatype memory_layer_name = Layer0 | Layer1

fun layer_str :: "memory_layer_name \<Rightarrow> string" where
  "layer_str Layer0 = ''layer0''"
| "layer_str Layer1 = ''layer1''"

record memory_scope =
  mq_agentId :: "string option"
  mq_sessionId :: "string option"
  mq_threadId :: "string option"
  mq_namespace :: "string option"

datatype safety_finding_type = ApiKey | Token | PrivateKey | PromptInjection | InvisibleUnicode

fun finding_str :: "safety_finding_type \<Rightarrow> string" where
  "finding_str ApiKey = ''api-key''"
| "finding_str Token = ''token''"
| "finding_str PrivateKey = ''private-key''"
| "finding_str PromptInjection = ''prompt-injection''"
| "finding_str InvisibleUnicode = ''invisible-unicode''"

datatype finding_severity = LowFinding | MediumFinding | HighFinding

record safety_finding =
  fd_type :: safety_finding_type
  fd_severity :: finding_severity
  fd_reason :: string

record safety_scan =
  sn_safe :: bool
  sn_findings :: "safety_finding list"

datatype memory_retention = RetainNone | RetainWorking | RetainUser | RetainQuarantine

fun retention_str :: "memory_retention \<Rightarrow> string" where
  "retention_str RetainNone = ''none''"
| "retention_str RetainWorking = ''working''"
| "retention_str RetainUser = ''user''"
| "retention_str RetainQuarantine = ''quarantine''"

text \<open>The object that the admission of an entry leaves in its metadata. The categories are open: the
  manager adds its own.\<close>

record memory_admission =
  ma_category :: string
  ma_retention :: memory_retention
  ma_confidence :: rat
  ma_score :: rat
  ma_reason :: string
  ma_safety :: "safety_scan option"

text \<open>A value of the metadata: one from outside, a score, or an admission of this package.\<close>

datatype meta_value = FromOutside jsval | ScoreValue rat | Admission memory_admission

type_synonym memory_metadata = "(string \<times> meta_value) list"

definition meta_get :: "memory_metadata \<Rightarrow> string \<Rightarrow> meta_value option" where
  "meta_get m k = map_of m k"

text \<open>\<open>{ ...target, [key]: value }\<close> and \<open>{ ...target, ...source }\<close>.\<close>

fun meta_put :: "string \<Rightarrow> meta_value \<Rightarrow> memory_metadata \<Rightarrow> memory_metadata" where
  "meta_put k v [] = [(k, v)]"
| "meta_put k v ((k', v') # m) = (if k' = k then (k, v) # m else (k', v') # meta_put k v m)"

definition meta_merge :: "memory_metadata \<Rightarrow> memory_metadata \<Rightarrow> memory_metadata" where
  "meta_merge target source =
     map (\<lambda>(k, v). (k, nullish_else (map_of source k) v)) target
     @ filter (\<lambda>(k, v). k \<notin> fst ` set target) source"

record memory_upsert =
  mu_id :: "string option"
  mu_content :: string
  mu_scope :: memory_scope
  mu_tags :: "string list option"
  mu_metadata :: "memory_metadata option"
  mu_timestamp :: "int option"

record memory_entry =
  me_id :: string
  me_layer :: memory_layer_name
  me_content :: string
  me_scope :: memory_scope
  me_tags :: "string list"
  me_metadata :: memory_metadata
  me_createdAt :: int
  me_updatedAt :: int

record memory_hit =
  mh_entry :: memory_entry
  mh_score :: rat

record retrieve_options =
  ro_scope :: memory_scope
  ro_query :: "string option"
  ro_limit :: "int option"
  ro_layers :: "memory_layer_name list option"

section \<open>Scopes\<close>

definition scope_field_matches :: "string option \<Rightarrow> string option \<Rightarrow> bool" where
  "scope_field_matches candidate required \<longleftrightarrow> required = None \<or> candidate = required"

definition matchesScope :: "memory_scope \<Rightarrow> memory_scope \<Rightarrow> bool" where
  "matchesScope candidate required \<longleftrightarrow>
     scope_field_matches (mq_agentId candidate) (mq_agentId required) \<and>
     scope_field_matches (mq_sessionId candidate) (mq_sessionId required) \<and>
     scope_field_matches (mq_threadId candidate) (mq_threadId required) \<and>
     scope_field_matches (mq_namespace candidate) (mq_namespace required)"

definition scopeKey :: "memory_scope \<Rightarrow> string" where
  "scopeKey scope =
     ''agent:'' @ nullish_else (mq_agentId scope) ''*''
     @ ''|session:'' @ nullish_else (mq_sessionId scope) ''*''
     @ ''|thread:'' @ nullish_else (mq_threadId scope) ''*''
     @ ''|ns:'' @ nullish_else (mq_namespace scope) ''*''"

section \<open>Ranking\<close>

definition tokenize :: "string \<Rightarrow> string list" where
  "tokenize value =
     filter (\<lambda>part. 0 < length part)
       (map js_trim (split_runs (\<lambda>c. \<not> is_token_char c) False (toLowerCase value)))"

definition blank_query :: "string option \<Rightarrow> bool" where
  "blank_query query \<longleftrightarrow> (case query of None \<Rightarrow> True | Some q \<Rightarrow> js_trim q = [])"

definition lexicalScore :: "string \<Rightarrow> string option \<Rightarrow> rat" where
  "lexicalScore content query =
     (if blank_query query then 0
      else let queryTokens = tokenize (nullish_else query []);
               contentTokens = tokenize content
           in if queryTokens = [] then 0
              else of_nat (length (filter (\<lambda>t. t \<in> set contentTokens) queryTokens))
                   / of_nat (length queryTokens))"

definition recencyScore :: "int \<Rightarrow> int \<Rightarrow> rat" where
  "recencyScore updatedAt now = 1 / (1 + of_int (max 0 (now - updatedAt)) / 60000)"

definition combinedScore :: "string \<Rightarrow> string option \<Rightarrow> int \<Rightarrow> int \<Rightarrow> rat" where
  "combinedScore content query updatedAt now =
     (if blank_query query then recencyScore updatedAt now
      else lexicalScore content query * (7 / 10) + recencyScore updatedAt now * (3 / 10))"

section \<open>A layer\<close>

text \<open>The entries are a Map by id, in the order of insertion; the counter of a layer's ids belongs to
  the module, which has one store. Both modules have the same text but for the layer's name.\<close>

record layer_store =
  ly_entries :: "memory_entry list"
  ly_autoId :: nat

definition layer_get :: "string \<Rightarrow> layer_store \<Rightarrow> memory_entry option" where
  "layer_get i l = find (\<lambda>e. me_id e = i) (ly_entries l)"

definition layer_remove :: "string \<Rightarrow> layer_store \<Rightarrow> bool \<times> layer_store" where
  "layer_remove i l =
     (layer_get i l \<noteq> None, l\<lparr>ly_entries := filter (\<lambda>e. me_id e \<noteq> i) (ly_entries l)\<rparr>)"

fun memory_set :: "memory_entry \<Rightarrow> memory_entry list \<Rightarrow> memory_entry list" where
  "memory_set e [] = [e]"
| "memory_set e (x # xs) = (if me_id x = me_id e then e # xs else x # memory_set e xs)"

definition existing_entry :: "memory_upsert \<Rightarrow> layer_store \<Rightarrow> memory_entry option" where
  "existing_entry input l =
     (case mu_id input of None \<Rightarrow> None | Some i \<Rightarrow> (if i = [] then None else layer_get i l))"

definition auto_prefix :: "memory_layer_name \<Rightarrow> string" where
  "auto_prefix layer = (case layer of Layer0 \<Rightarrow> ''l0_'' | Layer1 \<Rightarrow> ''l1_'')"

definition toLayerEntry ::
  "memory_layer_name \<Rightarrow> memory_upsert \<Rightarrow> memory_entry option \<Rightarrow> int \<Rightarrow> nat \<Rightarrow> memory_entry" where
  "toLayerEntry layer input existing now autoId =
     (let timestamp = nullish_else (mu_timestamp input) now
      in \<lparr>me_id = nullish_else (nullish (mu_id input) (map_option me_id existing))
                   (auto_prefix layer @ show_nat (autoId + 1)),
          me_layer = layer, me_content = mu_content input, me_scope = mu_scope input,
          me_tags = nullish_else (nullish (mu_tags input) (map_option me_tags existing)) [],
          me_metadata = meta_merge (nullish_else (map_option me_metadata existing) [])
            (nullish_else (mu_metadata input) []),
          me_createdAt = nullish_else (map_option me_createdAt existing) timestamp,
          me_updatedAt = timestamp\<rparr>)"

definition layer_upsert ::
  "memory_layer_name \<Rightarrow> memory_upsert \<Rightarrow> int \<Rightarrow> layer_store \<Rightarrow> memory_entry \<times> layer_store" where
  "layer_upsert layer input now l =
     (let existing = existing_entry input l;
          entry = toLayerEntry layer input existing now (ly_autoId l)
      in (entry,
          \<lparr>ly_entries = memory_set entry (ly_entries l),
           ly_autoId = ly_autoId l + (if mu_id input = None \<and> existing = None then 1 else 0)\<rparr>))"

definition newest_first :: "memory_entry \<Rightarrow> memory_entry \<Rightarrow> int" where
  "newest_first l r = me_updatedAt r - me_updatedAt l"

definition listByScope :: "memory_scope \<Rightarrow> layer_store \<Rightarrow> memory_entry list" where
  "listByScope scope l =
     js_sort newest_first (filter (\<lambda>e. matchesScope (me_scope e) scope) (ly_entries l))"

text \<open>\<open>right.score - left.score || right.entry.updatedAt - left.entry.updatedAt\<close>\<close>

definition best_first :: "memory_hit \<Rightarrow> memory_hit \<Rightarrow> int" where
  "best_first l r =
     (if mh_score r < mh_score l then -1
      else if mh_score l < mh_score r then 1
      else newest_first (mh_entry l) (mh_entry r))"

definition hit_limit :: "int option \<Rightarrow> nat" where
  "hit_limit limit = nat (max 1 (nullish_else limit 10))"

definition scored :: "string option \<Rightarrow> int \<Rightarrow> memory_entry \<Rightarrow> memory_hit" where
  "scored query now e =
     \<lparr>mh_entry = e, mh_score = combinedScore (me_content e) query (me_updatedAt e) now\<rparr>"

definition layer_retrieve :: "retrieve_options \<Rightarrow> int \<Rightarrow> layer_store \<Rightarrow> memory_hit list" where
  "layer_retrieve options now l =
     take (hit_limit (ro_limit options))
       (js_sort best_first (map (scored (ro_query options) now) (listByScope (ro_scope options) l)))"

section \<open>Both layers\<close>

fun dedupe_hits :: "(memory_layer_name \<times> string) list \<Rightarrow> memory_hit list \<Rightarrow> memory_hit list" where
  "dedupe_hits seen [] = []"
| "dedupe_hits seen (h # hs) =
     (let key = (me_layer (mh_entry h), me_id (mh_entry h))
      in if key \<in> set seen then dedupe_hits seen hs else h # dedupe_hits (key # seen) hs)"

text \<open>The retention that an entry's metadata tell, when they hold an object under the key.\<close>

definition MEMORY_ADMISSION :: string where
  "MEMORY_ADMISSION = ''memoryAdmission''"

fun admission_retention :: "meta_value \<Rightarrow> jsval option" where
  "admission_retention (Admission a) = Some (JStr (retention_str (ma_retention a)))"
| "admission_retention (FromOutside (JObj kvs)) = Some (alist_get kvs ''retention'')"
| "admission_retention (FromOutside (JArr _)) = Some JUndefined"
| "admission_retention _ = None"

definition readMemoryAdmission :: "memory_metadata \<Rightarrow> jsval option" where
  "readMemoryAdmission metadata = Option.bind (meta_get metadata MEMORY_ADMISSION) admission_retention"

definition not_admitted :: "memory_metadata \<Rightarrow> bool" where
  "not_admitted metadata \<longleftrightarrow>
     readMemoryAdmission metadata \<in> {Some (JStr ''none''), Some (JStr ''quarantine'')}"

definition isRecallableHit :: "memory_hit \<Rightarrow> retrieve_options \<Rightarrow> bool" where
  "isRecallableHit hit options \<longleftrightarrow>
     (let requested = mq_namespace (ro_scope options); entry = mh_entry hit
      in requested = mq_namespace (me_scope entry) \<or> requested = Some ''memory:quarantine'' \<or>
         requested = Some ''memory:discarded'' \<or>
         \<not> not_admitted (me_metadata entry) \<and>
         \<not> list_ex (\<lambda>tag. tag = ''memory:quarantine'' \<or> tag = ''memory:noise'') (me_tags entry))"

end
