(* ===== verification/Memory_Hygiene.thy ===== *)
theory Memory_Hygiene
  imports JS_Regex Memory_Layers
begin

text \<open>
  \<open>packages/memory-core/src/hygiene.ts\<close>: what of a text is kept, for how long, and what is redacted. Of
  each pattern the alternatives over 8-bit characters are written out; the alternatives in Chinese,
  which no 8-bit text matches, are arguments, so that nothing here depends on what they recognize.
\<close>

section \<open>Decisions\<close>

datatype user_memory_category =
  Chitchat | Confirmation | ProductionTask | LearningSource | UserPreference | UserProfile
  | Feedback | Reference | Conversation

fun category_str :: "user_memory_category \<Rightarrow> string" where
  "category_str Chitchat = ''chitchat''"
| "category_str Confirmation = ''confirmation''"
| "category_str ProductionTask = ''production-task''"
| "category_str LearningSource = ''learning-source''"
| "category_str UserPreference = ''user-preference''"
| "category_str UserProfile = ''user-profile''"
| "category_str Feedback = ''feedback''"
| "category_str Reference = ''reference''"
| "category_str Conversation = ''conversation''"

datatype admission_status = StoreAdmission | DropAdmission | QuarantineAdmission

record hygiene_decision =
  hd_status :: admission_status
  hd_category :: user_memory_category
  hd_retention :: memory_retention
  hd_namespace :: string
  hd_tags :: "string list"
  hd_reason :: string
  hd_confidence :: rat
  hd_score :: rat
  hd_safety :: safety_scan
  hd_redactedContent :: string

record phrases =
  ph_lowValue :: "string \<Rightarrow> bool"
  ph_confirms :: "string \<Rightarrow> bool"
  ph_casual :: "string \<Rightarrow> bool"
  ph_preference :: "string \<Rightarrow> bool"
  ph_profile :: "string \<Rightarrow> bool"
  ph_learning :: "string \<Rightarrow> bool"
  ph_reference :: "string \<Rightarrow> bool"
  ph_feedback :: "string \<Rightarrow> bool"
  ph_production :: "string \<Rightarrow> bool"
  ph_injection :: "string \<Rightarrow> bool"
  ph_invisible :: "string \<Rightarrow> bool"
  ph_withoutInterjection :: "string \<Rightarrow> string"
  ph_visible :: "string \<Rightarrow> string"

definition normalizeUserMemoryText :: "string \<Rightarrow> string" where
  "normalizeUserMemoryText value = js_trim (collapse_spaces False value)"

definition stripLowValueInterjection :: "phrases \<Rightarrow> string \<Rightarrow> string" where
  "stripLowValueInterjection ph value = js_trim (ph_withoutInterjection ph value)"

definition memory_tag :: "user_memory_category \<Rightarrow> string" where
  "memory_tag category = ''memory:'' @ category_str category"

definition dropDecision ::
  "user_memory_category \<Rightarrow> string \<Rightarrow> safety_scan \<Rightarrow> string \<Rightarrow> hygiene_decision" where
  "dropDecision category reason safety redactedContent =
     \<lparr>hd_status = DropAdmission, hd_category = category, hd_retention = RetainNone,
      hd_namespace = ''memory:discarded'', hd_tags = [''memory:noise'', memory_tag category],
      hd_reason = reason, hd_confidence = 9 / 10, hd_score = 9 / 10, hd_safety = safety,
      hd_redactedContent = redactedContent\<rparr>"

definition storeDecision ::
  "user_memory_category \<Rightarrow> memory_retention \<Rightarrow> string \<Rightarrow> string list \<Rightarrow> safety_scan \<Rightarrow> string \<Rightarrow> rat \<Rightarrow>
   hygiene_decision" where
  "storeDecision category retention namespace tags safety redactedContent confidence =
     \<lparr>hd_status = StoreAdmission, hd_category = category, hd_retention = retention,
      hd_namespace = namespace, hd_tags = tags, hd_reason = ''classified:'' @ category_str category,
      hd_confidence = confidence, hd_score = confidence, hd_safety = safety,
      hd_redactedContent = redactedContent\<rparr>"

definition quarantineDecision ::
  "user_memory_category \<Rightarrow> safety_scan \<Rightarrow> string \<Rightarrow> hygiene_decision" where
  "quarantineDecision category safety redactedContent =
     \<lparr>hd_status = QuarantineAdmission, hd_category = category, hd_retention = RetainQuarantine,
      hd_namespace = ''memory:quarantine'',
      hd_tags = [''memory:quarantine'', ''memory:safety'', memory_tag category]
        @ map (\<lambda>finding. ''safety:'' @ finding_str (fd_type finding)) (sn_findings safety),
      hd_reason = ''safety:quarantine'', hd_confidence = 98 / 100, hd_score = 98 / 100,
      hd_safety = safety, hd_redactedContent = redactedContent\<rparr>"

section \<open>Patterns\<close>

text \<open>\<open>[a-z0-9_-]\<close>, \<open>[a-z0-9._-]\<close> without case, \<open>[A-Z ]\<close> and the quotes.\<close>

definition key_char :: "char \<Rightarrow> bool" where
  "key_char c \<longleftrightarrow>
     (let n = (of_char (latin_lower c) :: nat)
      in (97 \<le> n \<and> n \<le> 122) \<or> (48 \<le> n \<and> n \<le> 57) \<or> n = 95 \<or> n = 45)"

definition token_char :: "char \<Rightarrow> bool" where
  "token_char c \<longleftrightarrow> key_char c \<or> c = CHR ''.''"

definition capital_or_blank :: "char \<Rightarrow> bool" where
  "capital_or_blank c \<longleftrightarrow> (let n = (of_char c :: nat) in (65 \<le> n \<and> n \<le> 90) \<or> n = 32)"

definition joined :: "string \<Rightarrow> string \<Rightarrow> (char \<Rightarrow> bool) \<Rightarrow> regex" where
  "joined a b P = in_sequence [any_case a, optional' (Class P), any_case b]"

definition blank_or_dash :: "char \<Rightarrow> bool" where
  "blank_or_dash c \<longleftrightarrow> is_js_space c \<or> c = CHR ''_'' \<or> c = CHR ''-''"

definition dash :: "char \<Rightarrow> bool" where
  "dash c \<longleftrightarrow> c = CHR ''_'' \<or> c = CHR ''-''"

text \<open>\<open>\s*(?:=|:)?\s*["']?\<close>\<close>

definition assigned_to :: regex where
  "assigned_to =
     in_sequence [spaces, optional' (one_of ''=:''), spaces, optional' (one_of [CHR 0x22, CHR 0x27])]"

definition api_key_name :: regex where
  "api_key_name =
     Seq (alternatives [joined ''api'' ''key'' blank_or_dash, any_case ''apikey'',
                        joined ''secret'' ''key'' blank_or_dash]) assigned_to"

definition api_key_value :: regex where
  "api_key_value =
     Alt (Seq (any_case ''sk-'') (at_least 16 (Class key_char))) (at_least 32 (Class key_char))"

definition token_name :: regex where
  "token_name =
     Seq (alternatives [any_case ''token'', any_case ''bearer'', any_case ''authorization'',
                        joined ''access'' ''token'' dash, joined ''refresh'' ''token'' dash])
       assigned_to"

definition token_value :: regex where
  "token_value = at_least 24 (Class token_char)"

definition key_line :: "string \<Rightarrow> regex" where
  "key_line word =
     in_sequence [literal (''-----'' @ word @ '' ''), Greedy (Class capital_or_blank),
                  literal ''PRIVATE KEY-----'']"

definition key_block :: regex where
  "key_block = in_sequence [key_line ''BEGIN'', Lazy (Class (\<lambda>_. True)), key_line ''END'']"

definition words :: "string list \<Rightarrow> regex" where
  "words ws = alternatives (map any_case ws)"

definition injection :: regex where
  "injection =
     Alt (in_sequence [words [''reveal'', ''print'', ''show''], up_to 20 any_char,
                       words [''system prompt'', ''hidden prompt'', ''developer message'']])
         (in_sequence [any_case ''ignore'', up_to 20 any_char, words [''previous'', ''above''],
                       up_to 20 any_char, words [''instructions'', ''rules'']])"

section \<open>Safety\<close>

definition finding_if :: "bool \<Rightarrow> safety_finding \<Rightarrow> safety_finding option" where
  "finding_if found finding = (if found then Some finding else None)"

definition detectApiKey :: "string \<Rightarrow> safety_finding option" where
  "detectApiKey value =
     finding_if (matches (Seq api_key_name api_key_value) value)
       \<lparr>fd_type = ApiKey, fd_severity = HighFinding, fd_reason = ''credential-like-api-key''\<rparr>"

definition detectToken :: "string \<Rightarrow> safety_finding option" where
  "detectToken value =
     finding_if (matches (Seq token_name token_value) value)
       \<lparr>fd_type = Token, fd_severity = HighFinding, fd_reason = ''credential-like-token''\<rparr>"

definition detectPrivateKey :: "string \<Rightarrow> safety_finding option" where
  "detectPrivateKey value =
     finding_if (matches (key_line ''BEGIN'') value)
       \<lparr>fd_type = PrivateKey, fd_severity = HighFinding, fd_reason = ''private-key-block''\<rparr>"

definition detectPromptInjection :: "phrases \<Rightarrow> string \<Rightarrow> safety_finding option" where
  "detectPromptInjection ph value =
     finding_if (ph_injection ph value \<or> matches injection value)
       \<lparr>fd_type = PromptInjection, fd_severity = MediumFinding,
        fd_reason = ''prompt-injection-instruction''\<rparr>"

definition detectInvisibleUnicode :: "phrases \<Rightarrow> string \<Rightarrow> safety_finding option" where
  "detectInvisibleUnicode ph value =
     finding_if (ph_invisible ph value)
       \<lparr>fd_type = InvisibleUnicode, fd_severity = MediumFinding,
        fd_reason = ''invisible-unicode-control-character''\<rparr>"

definition addFinding :: "safety_finding list \<Rightarrow> safety_finding option \<Rightarrow> safety_finding list" where
  "addFinding findings finding =
     (case finding of
        None \<Rightarrow> findings
      | Some f \<Rightarrow>
          (if list_ex (\<lambda>existing. fd_type existing = fd_type f) findings then findings
           else findings @ [f]))"

definition scanUserMemorySafety :: "phrases \<Rightarrow> string \<Rightarrow> safety_scan" where
  "scanUserMemorySafety ph value =
     (let findings = foldl addFinding []
            [detectApiKey value, detectToken value, detectPrivateKey value,
             detectPromptInjection ph value, detectInvisibleUnicode ph value]
      in \<lparr>sn_safe = (findings = []), sn_findings = findings\<rparr>)"

definition redactUnsafeMemoryText :: "phrases \<Rightarrow> string \<Rightarrow> string" where
  "redactUnsafeMemoryText ph value =
     ph_visible ph
       (replace_group token_name token_value ''[redacted:token]''
         (replace_group api_key_name api_key_value ''[redacted:api-key]''
           (replace_group Empty key_block ''[redacted:private-key]''
             (normalizeUserMemoryText value))))"

section \<open>Classification\<close>

definition greeting :: regex where
  "greeting =
     in_sequence [words [''hi'', ''hello'', ''hey'', ''ok'', ''okay''],
                  Greedy (Class (\<lambda>c. c \<in> set ''!,.'' \<or> is_js_space c)), Ending]"

definition low_value :: "phrases \<Rightarrow> string \<Rightarrow> bool" where
  "low_value ph text' \<longleftrightarrow> ph_lowValue ph text' \<or> matches_start greeting text'"

definition local_path :: regex where
  "local_path = in_sequence [any_case ''/'', words [''Users'', ''Volumes'', ''tmp'', ''var''], any_case ''/'']"

definition isReferenceMemory :: "phrases \<Rightarrow> string \<Rightarrow> bool" where
  "isReferenceMemory ph text' \<longleftrightarrow>
     ph_reference ph text' \<or>
     matches (words [''source'', ''reference'', ''http://'', ''https://'', ''file://'']) text' \<or>
     matches_start local_path text' \<or>
     matches (Seq (Class (\<lambda>c. is_js_space c \<or> c = CHR '':'')) local_path) text'"

definition isFeedbackMemory :: "phrases \<Rightarrow> string \<Rightarrow> bool" where
  "isFeedbackMemory ph text' \<longleftrightarrow> ph_feedback ph text' \<or> matches (any_case ''bug'') text'"

definition classifyUnsafeMemoryCategory :: "phrases \<Rightarrow> string \<Rightarrow> user_memory_category" where
  "classifyUnsafeMemoryCategory ph text' =
     (if ph_preference ph text' then UserPreference
      else if ph_profile ph text' then UserProfile
      else if ph_learning ph text' then LearningSource
      else if isReferenceMemory ph text' then Reference
      else if isFeedbackMemory ph text' then Feedback
      else if ph_production ph text' then ProductionTask
      else Conversation)"

definition classifyUserMemoryInput :: "phrases \<Rightarrow> string \<Rightarrow> hygiene_decision" where
  "classifyUserMemoryInput ph value =
     (let text' = normalizeUserMemoryText value;
          semanticText = stripLowValueInterjection ph text';
          safety = scanUserMemorySafety ph value
      in if text' = [] then dropDecision Chitchat ''empty-input'' safety []
         else if \<not> sn_safe safety
         then quarantineDecision (classifyUnsafeMemoryCategory ph semanticText) safety
                (redactUnsafeMemoryText ph text')
         else if low_value ph text'
         then dropDecision (if ph_confirms ph text' then Confirmation else Chitchat)
                ''low-value-chatter'' safety text'
         else if ph_casual ph semanticText \<and> length semanticText < 80
         then dropDecision Chitchat ''casual-self-report'' safety text'
         else if ph_preference ph semanticText
         then storeDecision UserPreference RetainUser ''user-memory:preference''
                [''memory:user'', ''memory:preference'', ''memory:explicit''] safety text' (95 / 100)
         else if ph_profile ph semanticText
         then storeDecision UserProfile RetainUser ''user-memory:profile''
                [''memory:user'', ''memory:profile'', ''memory:explicit''] safety text' (93 / 100)
         else if ph_learning ph semanticText
         then storeDecision LearningSource RetainWorking ''conversation:learning''
                [''memory:working'', ''memory:learning''] safety text' (88 / 100)
         else if isReferenceMemory ph semanticText
         then storeDecision Reference RetainWorking ''conversation:reference''
                [''memory:working'', ''memory:reference''] safety text' (84 / 100)
         else if isFeedbackMemory ph semanticText
         then storeDecision Feedback RetainWorking ''conversation:feedback''
                [''memory:working'', ''memory:feedback''] safety text' (82 / 100)
         else if ph_production ph semanticText
         then storeDecision ProductionTask RetainWorking ''conversation:task''
                [''memory:working'', ''memory:production-task''] safety text' (86 / 100)
         else dropDecision Conversation ''low-signal-conversation'' safety text')"

section \<open>The entry of a decision\<close>

record admission_options =
  mo_id :: "string option"
  mo_tags :: "string list option"
  mo_metadata :: "memory_metadata option"
  mo_timestamp :: "int option"

definition admission_of :: "hygiene_decision \<Rightarrow> string \<Rightarrow> memory_admission" where
  "admission_of decision reason =
     \<lparr>ma_category = category_str (hd_category decision), ma_retention = hd_retention decision,
      ma_confidence = hd_confidence decision, ma_score = hd_score decision, ma_reason = reason,
      ma_safety = Some (hd_safety decision)\<rparr>"

definition toMemoryUpsertInput ::
  "hygiene_decision \<Rightarrow> string \<Rightarrow> memory_scope \<Rightarrow> admission_options \<Rightarrow> memory_upsert option" where
  "toMemoryUpsertInput decision content scope options =
     (let admittedContent =
            (if hd_retention decision = RetainQuarantine then hd_redactedContent decision
             else normalizeUserMemoryText content)
      in if hd_retention decision = RetainNone \<or> admittedContent = [] then None
         else Some
           \<lparr>mu_id = mo_id options, mu_content = admittedContent,
            mu_scope = scope\<lparr>mq_namespace := Some (hd_namespace decision)\<rparr>,
            mu_tags = Some (js_unique (hd_tags decision @ nullish_else (mo_tags options) [])),
            mu_metadata = Some (meta_put MEMORY_ADMISSION
              (Admission (admission_of decision (hd_reason decision)))
              (nullish_else (mo_metadata options) [])),
            mu_timestamp = mo_timestamp options\<rparr>)"

end
