(* ===== verification/Memory_Manager.thy ===== *)
theory Memory_Manager
  imports Memory_Hygiene
begin

text \<open>
  \<open>MemoryCoreManager\<close> (\<open>packages/memory-core/src/manager.ts\<close>) with the retrieval of
  \<open>scoped-retrieval.ts\<close>, \<open>recall.ts\<close> and \<open>working-memory.ts\<close>, and the writes that the engine makes of
  a turn (\<open>packages/engine/src/engine.ts\<close>). The clock is a function of the number of its readings.
\<close>

record memory_core =
  mm_layer0 :: layer_store
  mm_layer1 :: layer_store
  mm_clock :: "nat \<Rightarrow> int"
  mm_ticks :: nat

definition memory_now :: "memory_core \<Rightarrow> int" where
  "memory_now m = mm_clock m (mm_ticks m)"

definition memory_tick :: "memory_core \<Rightarrow> memory_core" where
  "memory_tick m = m\<lparr>mm_ticks := mm_ticks m + 1\<rparr>"

section \<open>Retrieval\<close>

text \<open>Each layer that is asked reads the clock.\<close>

definition retrieve_layers :: "retrieve_options \<Rightarrow> memory_core \<Rightarrow> memory_hit list \<times> memory_core" where
  "retrieve_layers options m =
     (let layers = nullish_else (ro_layers options) [Layer0, Layer1];
          (hits0, m0) = (if Layer0 \<in> set layers
                         then (layer_retrieve options (memory_now m) (mm_layer0 m), memory_tick m)
                         else ([], m));
          (hits1, m1) = (if Layer1 \<in> set layers
                         then (layer_retrieve options (memory_now m0) (mm_layer1 m0), memory_tick m0)
                         else ([], m0))
      in (hits0 @ hits1, m1))"

definition retrieveScopedMemory ::
  "retrieve_options \<Rightarrow> memory_core \<Rightarrow> memory_hit list \<times> memory_core" where
  "retrieveScopedMemory options m =
     (let (hits, m') = retrieve_layers options m
      in (take (hit_limit (ro_limit options))
            (js_sort best_first
              (filter (\<lambda>h. isRecallableHit h options) (dedupe_hits [] hits))), m'))"

text \<open>Without a least score, minus infinity: every hit passes.\<close>

definition filterRecallHits :: "rat option \<Rightarrow> memory_hit list \<Rightarrow> memory_hit list" where
  "filterRecallHits minScore hits =
     (case minScore of None \<Rightarrow> hits | Some least \<Rightarrow> filter (\<lambda>h. least \<le> mh_score h) hits)"

definition recallMemory ::
  "retrieve_options \<Rightarrow> rat option \<Rightarrow> memory_core \<Rightarrow> memory_hit list \<times> memory_core" where
  "recallMemory options minScore m =
     (case retrieveScopedMemory options m of (hits, m') \<Rightarrow> (filterRecallHits minScore hits, m'))"

record recall_item =
  ri_id :: string
  ri_layer :: memory_layer_name
  ri_content :: string
  ri_score :: rat
  ri_updatedAt :: int
  ri_metadata :: memory_metadata

text \<open>The source and the degradation of a block are left out: the stores of the manager throw nothing.\<close>

record recall_block =
  rb_blockId :: string
  rb_scope :: memory_scope
  rb_query :: "string option"
  rb_items :: "recall_item list"

definition toRecallBlockItem :: "memory_hit \<Rightarrow> recall_item" where
  "toRecallBlockItem hit =
     (let e = mh_entry hit
      in \<lparr>ri_id = me_id e, ri_layer = me_layer e, ri_content = me_content e,
          ri_score = mh_score hit, ri_updatedAt = me_updatedAt e,
          ri_metadata = meta_merge (me_metadata e)
            [(''source'', FromOutside (JStr ''working-memory'')),
             (''matchMode'', FromOutside (JStr ''lexical'')),
             (''lexicalScore'', ScoreValue (mh_score hit))]\<rparr>)"

definition trimmed_or_none :: "string option \<Rightarrow> string option" where
  "trimmed_or_none v =
     (case v of None \<Rightarrow> None | Some s \<Rightarrow> (if js_trim s = [] then None else Some (js_trim s)))"

definition toWorkingMemoryRecallBlock ::
  "memory_hit list \<Rightarrow> retrieve_options \<Rightarrow> string option \<Rightarrow> recall_block" where
  "toWorkingMemoryRecallBlock hits options blockId =
     (let query = trimmed_or_none (ro_query options)
      in \<lparr>rb_blockId = nullish_else (trimmed_or_none blockId) ''working-memory-recall'',
          rb_scope = ro_scope options, rb_query = query,
          rb_items = map (\<lambda>hit.
            let item = toRecallBlockItem hit
            in item\<lparr>ri_metadata := meta_merge (ri_metadata item)
                 (case query of None \<Rightarrow> [] | Some q \<Rightarrow> [(''query'', FromOutside (JStr q))])\<rparr>) hits\<rparr>)"

definition recallWorkingMemory ::
  "retrieve_options \<Rightarrow> rat option \<Rightarrow> string option \<Rightarrow> memory_core \<Rightarrow> recall_block \<times> memory_core" where
  "recallWorkingMemory options minScore blockId m =
     (case recallMemory options minScore m of
        (hits, m') \<Rightarrow> (toWorkingMemoryRecallBlock hits options blockId, m'))"

section \<open>Admission\<close>

definition metadata_of :: "memory_upsert \<Rightarrow> memory_metadata" where
  "metadata_of input = nullish_else (mu_metadata input) []"

definition hasMemoryAdmission :: "memory_upsert \<Rightarrow> bool" where
  "hasMemoryAdmission input \<longleftrightarrow> readMemoryAdmission (metadata_of input) \<noteq> None"

text \<open>A property of the metadata that is a string, in lower case.\<close>

definition lower_text :: "memory_upsert \<Rightarrow> string \<Rightarrow> string option" where
  "lower_text input key =
     (case meta_get (metadata_of input) key of
        Some (FromOutside (JStr s)) \<Rightarrow> Some (toLowerCase s)
      | _ \<Rightarrow> None)"

definition namespace_is :: "memory_upsert \<Rightarrow> (string \<Rightarrow> bool) \<Rightarrow> bool" where
  "namespace_is input P \<longleftrightarrow>
     (case mq_namespace (mu_scope input) of None \<Rightarrow> False | Some n \<Rightarrow> P (toLowerCase n))"

definition some_tag :: "memory_upsert \<Rightarrow> (string \<Rightarrow> bool) \<Rightarrow> bool" where
  "some_tag input P \<longleftrightarrow> list_ex (\<lambda>tag. P (toLowerCase tag)) (nullish_else (mu_tags input) [])"

definition isUserLayer1Input :: "memory_upsert \<Rightarrow> bool" where
  "isUserLayer1Input input \<longleftrightarrow>
     namespace_is input (\<lambda>n. starts_with ''user'' n \<or> str_includes n ''user-memory'' \<or>
       str_includes n ''user-input'' \<or> starts_with ''conversation'' n) \<or>
     some_tag input (\<lambda>t. t = ''memory:user'' \<or> t = ''user-input'' \<or> str_includes t ''user-memory'' \<or>
       str_includes t ''conversation'') \<or>
     lower_text input ''role'' = Some ''user'' \<or>
     lower_text input ''source'' \<in> {Some ''user'', Some ''user-input'', Some ''conversation''}"

definition isUserLayer0Input :: "memory_upsert \<Rightarrow> bool" where
  "isUserLayer0Input input \<longleftrightarrow>
     namespace_is input (\<lambda>n. starts_with ''user'' n \<or> str_includes n ''user-memory'' \<or>
       str_includes n ''user-input'') \<or>
     some_tag input (\<lambda>t. t = ''memory:user'' \<or> t = ''user-input'' \<or> str_includes t ''user-memory'') \<or>
     lower_text input ''role'' = Some ''user'' \<or>
     lower_text input ''source'' \<in> {Some ''user'', Some ''user-input''}"

definition isSystemLayer0Input :: "memory_upsert \<Rightarrow> bool" where
  "isSystemLayer0Input input \<longleftrightarrow>
     namespace_is input (\<lambda>n. str_includes n ''system'') \<or>
     some_tag input (\<lambda>t. str_includes t ''system'') \<or> lower_text input ''role'' = Some ''system''"

definition chatter :: "hygiene_decision \<Rightarrow> bool" where
  "chatter decision \<longleftrightarrow>
     hd_reason decision = ''low-value-chatter'' \<or> hd_reason decision = ''casual-self-report''"

definition shouldApplyUserLayer1Admission :: "memory_upsert \<Rightarrow> hygiene_decision \<Rightarrow> bool" where
  "shouldApplyUserLayer1Admission input decision \<longleftrightarrow>
     \<not> sn_safe (hd_safety decision) \<or> isUserLayer1Input input \<or>
     hd_status decision = StoreAdmission \<or> chatter decision"

definition with_admission ::
  "memory_upsert \<Rightarrow> string list \<Rightarrow> memory_admission \<Rightarrow> memory_upsert" where
  "with_admission input tags admission =
     input\<lparr>mu_tags := Some (js_unique (nullish_else (mu_tags input) [] @ tags)),
           mu_metadata := Some (meta_put MEMORY_ADMISSION (Admission admission) (metadata_of input))\<rparr>"

definition applySystemLayer1AdmissionFallback :: "memory_upsert \<Rightarrow> memory_upsert" where
  "applySystemLayer1AdmissionFallback input =
     with_admission input [''memory:direct-layer1'', ''memory:system'']
       \<lparr>ma_category = ''system'', ma_retention = RetainUser, ma_confidence = 72 / 100,
        ma_score = 72 / 100, ma_reason = ''direct-layer1:system'',
        ma_safety = Some \<lparr>sn_safe = True, sn_findings = []\<rparr>\<rparr>"

definition applyLayer1AdmissionFallback :: "phrases \<Rightarrow> memory_upsert \<Rightarrow> memory_upsert" where
  "applyLayer1AdmissionFallback ph input =
     (let decision = classifyUserMemoryInput ph (mu_content input);
          quarantined = (hd_retention decision = RetainQuarantine);
          discarded = (hd_retention decision = RetainNone)
      in if hasMemoryAdmission input then input
         else if \<not> shouldApplyUserLayer1Admission input decision
         then applySystemLayer1AdmissionFallback input
         else
           (with_admission input
              (hd_tags decision @ [''memory:direct-layer1'', memory_tag (hd_category decision)]
               @ (if hd_status decision = DropAdmission then [''memory:noise''] else [])
               @ (if quarantined then [''memory:quarantine'', ''memory:safety''] else []))
              (admission_of decision (''direct-layer1:'' @ hd_reason decision)))
           \<lparr>mu_content := if quarantined then hd_redactedContent decision else mu_content input,
            mu_scope := if quarantined \<or> discarded
              then (mu_scope input)\<lparr>mq_namespace := Some (hd_namespace decision)\<rparr>
              else mu_scope input\<rparr>)"

datatype layer0_source = WorkingSource | SystemSource | CasualSource

fun source_str :: "layer0_source \<Rightarrow> string" where
  "source_str WorkingSource = ''working''"
| "source_str SystemSource = ''system''"
| "source_str CasualSource = ''casual''"

definition classifyLayer0Source :: "phrases \<Rightarrow> memory_upsert \<Rightarrow> layer0_source" where
  "classifyLayer0Source ph input =
     (let decision = classifyUserMemoryInput ph (mu_content input)
      in if isSystemLayer0Input input then SystemSource
         else if hd_status decision = DropAdmission \<and> (isUserLayer0Input input \<or> chatter decision)
         then CasualSource
         else WorkingSource)"

definition applyLayer0AdmissionFallback :: "phrases \<Rightarrow> memory_upsert \<Rightarrow> memory_upsert" where
  "applyLayer0AdmissionFallback ph input =
     (let source = classifyLayer0Source ph input
      in if hasMemoryAdmission input then input
         else with_admission input [''memory:'' @ source_str source]
           \<lparr>ma_category = source_str source, ma_retention = RetainWorking,
            ma_confidence = (if source = CasualSource then 9 / 10 else 7 / 10),
            ma_score = (if source = CasualSource then 2 / 10 else 7 / 10),
            ma_reason = ''direct-layer0:'' @ source_str source, ma_safety = None\<rparr>)"

section \<open>Writing\<close>

text \<open>An entry reads the clock when it is given no timestamp.\<close>

definition tick_unless :: "memory_upsert \<Rightarrow> memory_core \<Rightarrow> memory_core" where
  "tick_unless input m = (if mu_timestamp input = None then memory_tick m else m)"

definition upsert_layer0 :: "memory_upsert \<Rightarrow> memory_core \<Rightarrow> memory_entry \<times> memory_core" where
  "upsert_layer0 input m =
     (case layer_upsert Layer0 input (memory_now m) (mm_layer0 m) of
        (e, l) \<Rightarrow> (e, tick_unless input (m\<lparr>mm_layer0 := l\<rparr>)))"

definition upsert_layer1 :: "memory_upsert \<Rightarrow> memory_core \<Rightarrow> memory_entry \<times> memory_core" where
  "upsert_layer1 input m =
     (case layer_upsert Layer1 input (memory_now m) (mm_layer1 m) of
        (e, l) \<Rightarrow> (e, tick_unless input (m\<lparr>mm_layer1 := l\<rparr>)))"

definition writeLayer0 :: "phrases \<Rightarrow> memory_upsert \<Rightarrow> memory_core \<Rightarrow> memory_entry \<times> memory_core" where
  "writeLayer0 ph input m = upsert_layer0 (applyLayer0AdmissionFallback ph input) m"

definition writeLayer1 :: "phrases \<Rightarrow> memory_upsert \<Rightarrow> memory_core \<Rightarrow> memory_entry \<times> memory_core" where
  "writeLayer1 ph input m =
     (let fallback = applyLayer1AdmissionFallback ph input
      in if not_admitted (metadata_of fallback) then upsert_layer0 fallback m
         else upsert_layer1 fallback m)"

section \<open>What the engine writes\<close>

definition session_scope :: "string \<Rightarrow> string option \<Rightarrow> memory_scope" where
  "session_scope sessionId namespace =
     \<lparr>mq_agentId = None, mq_sessionId = Some sessionId, mq_threadId = None, mq_namespace = namespace\<rparr>"

definition no_admission_options :: admission_options where
  "no_admission_options =
     \<lparr>mo_id = None, mo_tags = None, mo_metadata = None, mo_timestamp = None\<rparr>"

definition createAssistantOutputMemoryInput :: "phrases \<Rightarrow> string \<Rightarrow> string \<Rightarrow> memory_upsert option" where
  "createAssistantOutputMemoryInput ph sessionId output' =
     (let decision = classifyUserMemoryInput ph output';
          quarantined = (hd_retention decision = RetainQuarantine)
      in if hd_retention decision = RetainNone then None
         else Some
           \<lparr>mu_id = None,
            mu_content = (if quarantined then hd_redactedContent decision else output'),
            mu_scope = session_scope sessionId
              (Some (if quarantined then ''memory:quarantine'' else ''assistant-output'')),
            mu_tags = Some (if quarantined
              then [''memory:assistant-output'', ''memory:quarantine'', ''memory:safety'']
              else [''memory:working'', ''memory:assistant-output'', ''memory:system-output'']),
            mu_metadata = Some [(MEMORY_ADMISSION, Admission
              \<lparr>ma_category = category_str (if quarantined then hd_category decision else Conversation),
               ma_retention = (if quarantined then RetainQuarantine else RetainWorking),
               ma_confidence = (if quarantined then hd_confidence decision else 1),
               ma_score = (if quarantined then hd_score decision else 1),
               ma_reason = (if quarantined then ''system:assistant-output-quarantine''
                            else ''system:assistant-output''),
               ma_safety = Some (hd_safety decision)\<rparr>)],
            mu_timestamp = None\<rparr>)"

definition writeUserMemory :: "phrases \<Rightarrow> string \<Rightarrow> string \<Rightarrow> memory_core \<Rightarrow> memory_core" where
  "writeUserMemory ph sessionId userText m =
     (let decision = classifyUserMemoryInput ph userText
      in case toMemoryUpsertInput decision userText (session_scope sessionId None) no_admission_options of
           None \<Rightarrow> m
         | Some entry \<Rightarrow>
             snd (if hd_retention decision = RetainUser then writeLayer1 ph entry m
                  else writeLayer0 ph entry m))"

definition writeOutputMemory :: "phrases \<Rightarrow> string \<Rightarrow> string \<Rightarrow> memory_core \<Rightarrow> memory_core" where
  "writeOutputMemory ph sessionId output' m =
     (case createAssistantOutputMemoryInput ph sessionId output' of
        None \<Rightarrow> m
      | Some entry \<Rightarrow> snd (writeLayer0 ph entry m))"

end
