(* ===== verification/Memory_Laws.thy ===== *)
theory Memory_Laws
  imports Memory_Manager Machines
begin

text \<open>
  What holds of the memory: a layer is a map by id, the invariant of the layers under every write,
  what retrieval returns, and that unsafe texts are not recalled.
\<close>

section \<open>Comparators\<close>

interpretation newest_first: consistent_comparator newest_first
  by unfold_locales (auto simp: newest_first_def)

interpretation best_first: consistent_comparator best_first
  by unfold_locales (auto simp: best_first_def newest_first_def split: if_splits)

text \<open>A hit is no worse than another: its score is higher, or the same and it is no older.\<close>

definition no_worse :: "memory_hit \<Rightarrow> memory_hit \<Rightarrow> bool" where
  "no_worse a b \<longleftrightarrow>
     mh_score b < mh_score a \<or>
     (mh_score a = mh_score b \<and> me_updatedAt (mh_entry b) \<le> me_updatedAt (mh_entry a))"

lemma best_first_no_worse: "best_first a b \<le> 0 \<longleftrightarrow> no_worse a b"
  by (auto simp: best_first_def newest_first_def no_worse_def)

text \<open>The first elements of a sorted list are the best.\<close>

context consistent_comparator
begin

lemma filter_sorted:
  "sorted_wrt (\<lambda>u v. cmp u v \<le> 0) xs \<Longrightarrow>
   filter (\<lambda>y. cmp y x \<le> 0) xs = takeWhile (\<lambda>y. cmp y x \<le> 0) xs"
proof (induction xs)
  case Nil
  then show ?case by simp
next
  case (Cons y ys)
  show ?case
  proof (cases "cmp y x \<le> 0")
    case True
    with Cons show ?thesis by simp
  next
    case False
    with Cons.prems have "filter (\<lambda>z. cmp z x \<le> 0) ys = []"
      by (auto simp: filter_empty_conv dest: trans_le)
    with False show ?thesis by simp
  qed
qed

lemma take_best:
  assumes "k \<le> length (filter (\<lambda>y. cmp y x \<le> 0) xs)" and "h \<in> set (take k (js_sort cmp xs))"
  shows "cmp h x \<le> 0"
proof -
  let ?ys = "js_sort cmp xs" and ?P = "\<lambda>y. cmp y x \<le> 0"
  have "length (filter ?P ?ys) = length (filter ?P xs)"
    by (metis mset_filter mset_js_sort size_mset)
  then have "k \<le> length (takeWhile ?P ?ys)"
    using assms(1) filter_sorted [OF sort_ordered, of x xs] by simp
  then have "take k ?ys = take k (takeWhile ?P ?ys)"
    by (metis append.right_neutral diff_is_0_eq take0 take_append takeWhile_dropWhile_id)
  then show ?thesis using assms(2) by (metis in_set_takeD set_takeWhileD)
qed

lemma take_sort_full:
  assumes "x \<in> set xs" and "x \<notin> set (take k (js_sort cmp xs))"
  shows "k < length xs \<and> (\<forall>h \<in> set (take k (js_sort cmp xs)). cmp h x \<le> 0)"
proof -
  let ?ys = "js_sort cmp xs"
  have "x \<in> set ?ys" using assms(1) by simp
  then have x: "x \<in> set (drop k ?ys)"
    using assms(2) by (metis Un_iff append_take_drop_id set_append)
  then have "k < length ?ys" by (metis drop_all empty_iff empty_set leI)
  moreover have "sorted_wrt (\<lambda>u v. cmp u v \<le> 0) (take k ?ys @ drop k ?ys)"
    using sort_ordered [of xs] by simp
  ultimately show ?thesis using x by (auto simp: sorted_wrt_append simp del: append_take_drop_id)
qed

text \<open>The best of the best of some parts are the best of all.\<close>

lemma take_of_takes:
  assumes "x \<in> set xs" and "set (take k (js_sort cmp xs)) \<subseteq> set zs" and "distinct xs"
    and "x \<notin> set (take k (js_sort cmp zs))"
  shows "k \<le> length zs \<and> (\<forall>h \<in> set (take k (js_sort cmp zs)). cmp h x \<le> 0)"
proof (cases "x \<in> set (take k (js_sort cmp xs))")
  case True
  then have "x \<in> set zs" using assms(2) by blast
  then show ?thesis using take_sort_full [OF _ assms(4)] by simp
next
  case False
  let ?best = "take k (js_sort cmp xs)"
  from take_sort_full [OF assms(1) False] have full: "k < length xs"
    and below: "\<forall>h \<in> set ?best. cmp h x \<le> 0" by auto
  have "distinct ?best" using assms(3) distinct_map_js_sort [of id cmp xs] by simp
  then have "card (set ?best) = k" using full by (simp add: distinct_card)
  moreover have "set ?best \<subseteq> set (filter (\<lambda>y. cmp y x \<le> 0) zs)" using assms(2) below by auto
  ultimately have "k \<le> length (filter (\<lambda>y. cmp y x \<le> 0) zs)"
    by (metis List.finite_set card_length card_mono order_trans)
  moreover from this have "k \<le> length zs" using length_filter_le order_trans by blast
  ultimately show ?thesis using take_best by blast
qed

end

section \<open>A layer is a map\<close>

lemma layer_upsert_get:
  assumes "layer_upsert layer input now l = (e, l')"
  shows "layer_get i l' = (if i = me_id e then Some e else layer_get i l)"
proof -
  have "find (\<lambda>x. me_id x = i) (memory_set e xs) =
      (if i = me_id e then Some e else find (\<lambda>x. me_id x = i) xs)" for xs
    by (induction xs) auto
  then show ?thesis using assms by (auto simp: layer_upsert_def layer_get_def Let_def)
qed

lemma memory_set_set: "set (memory_set e xs) \<subseteq> insert e (set xs)"
  by (induction xs) auto

lemma memory_set_ids: "me_id ` set (memory_set e xs) = insert (me_id e) (me_id ` set xs)"
  by (induction xs) auto

lemma memory_set_distinct: "distinct (map me_id xs) \<Longrightarrow> distinct (map me_id (memory_set e xs))"
proof (induction xs)
  case (Cons x xs)
  then show ?case using memory_set_ids [of e xs] by auto
qed simp

definition layer_inv :: "memory_layer_name \<Rightarrow> layer_store \<Rightarrow> bool" where
  "layer_inv layer l \<longleftrightarrow>
     distinct (map me_id (ly_entries l)) \<and> list_all (\<lambda>e. me_layer e = layer) (ly_entries l)"

lemma layer_upsert_inv:
  assumes "layer_upsert layer input now l = (e, l')" and "layer_inv layer l"
  shows "layer_inv layer l'" and "set (ly_entries l') \<subseteq> insert e (set (ly_entries l))"
proof -
  have l': "ly_entries l' = memory_set e (ly_entries l)" "me_layer e = layer"
    using assms(1) by (auto simp: layer_upsert_def toLayerEntry_def Let_def)
  then show "set (ly_entries l') \<subseteq> insert e (set (ly_entries l))"
    using memory_set_set [of e "ly_entries l"] by simp
  then show "layer_inv layer l'"
    using assms(2) l' by (auto simp: layer_inv_def memory_set_distinct list_all_iff)
qed

section \<open>Admissions\<close>

lemma meta_get_put [simp]: "meta_get (meta_put k v m) k' = (if k' = k then Some v else meta_get m k')"
  unfolding meta_get_def by (induction k v m rule: meta_put.induct) auto

lemma meta_get_merge [simp]:
  "meta_get (meta_merge target source) k =
   (case meta_get source k of None \<Rightarrow> meta_get target k | Some v \<Rightarrow> Some v)"
proof -
  have "map_of (map (\<lambda>(k, v). (k, nullish_else (map_of source k) v)) target) k =
      map_option (nullish_else (map_of source k)) (map_of target k)"
    by (induction target) auto
  moreover have "map_of (filter (\<lambda>(k, v). k \<notin> K) source) k = (if k \<in> K then None else map_of source k)" for K
    by (induction source) auto
  moreover have "k \<in> fst ` set target \<longleftrightarrow> map_of target k \<noteq> None"
    by (simp add: map_of_eq_None_iff)
  ultimately show ?thesis
    by (cases "map_of target k"; cases "map_of source k")
      (simp_all add: meta_get_def meta_merge_def map_add_def)
qed

text \<open>An upsert stores the admission that its input carries.\<close>

lemma upsert_admission:
  assumes "layer_upsert layer input now l = (e, l')" and "meta_get (metadata_of input) MEMORY_ADMISSION = Some a"
  shows "meta_get (me_metadata e) MEMORY_ADMISSION = Some a" and "me_scope e = mu_scope input"
    and "me_content e = mu_content input"
  using assms by (auto simp: layer_upsert_def toLayerEntry_def Let_def metadata_of_def)

section \<open>The memory under its writes\<close>

definition admitted :: "memory_entry \<Rightarrow> bool" where
  "admitted e \<longleftrightarrow> readMemoryAdmission (me_metadata e) \<noteq> None \<and> \<not> not_admitted (me_metadata e)"

definition memory_inv :: "memory_core \<Rightarrow> bool" where
  "memory_inv m \<longleftrightarrow>
     layer_inv Layer0 (mm_layer0 m) \<and> layer_inv Layer1 (mm_layer1 m) \<and>
     list_all admitted (ly_entries (mm_layer1 m))"

lemma memory_ticks [simp]:
  "mm_layer0 (memory_tick m) = mm_layer0 m" "mm_layer1 (memory_tick m) = mm_layer1 m"
  "mm_layer0 (tick_unless input m) = mm_layer0 m" "mm_layer1 (tick_unless input m) = mm_layer1 m"
  "memory_inv (memory_tick m) = memory_inv m" "memory_inv (tick_unless input m) = memory_inv m"
  by (simp_all add: memory_tick_def tick_unless_def memory_inv_def)

lemma upsert_layer0_inv: "memory_inv m \<Longrightarrow> memory_inv (snd (upsert_layer0 input m))"
  using layer_upsert_inv(1) [of Layer0 input "memory_now m" "mm_layer0 m"]
  by (auto simp: upsert_layer0_def memory_inv_def split: prod.splits)

lemma with_admission_get [simp]:
  "meta_get (metadata_of (with_admission input tags a)) MEMORY_ADMISSION = Some (Admission a)"
  by (simp add: with_admission_def metadata_of_def)

lemma with_admission_has [simp]: "hasMemoryAdmission (with_admission input tags a)"
  by (simp add: hasMemoryAdmission_def readMemoryAdmission_def)

lemma has_admission_get:
  "hasMemoryAdmission input \<Longrightarrow> \<exists>a. meta_get (metadata_of input) MEMORY_ADMISSION = Some a"
  by (auto simp: hasMemoryAdmission_def readMemoryAdmission_def split: Option.bind_splits)

lemma same_admission:
  "meta_get m MEMORY_ADMISSION = meta_get m' MEMORY_ADMISSION \<Longrightarrow>
   readMemoryAdmission m = readMemoryAdmission m' \<and> not_admitted m = not_admitted m'"
  by (simp add: readMemoryAdmission_def not_admitted_def)

lemma metadata_of_update [simp]:
  "metadata_of (input\<lparr>mu_content := c, mu_scope := sc\<rparr>) = metadata_of input"
  "hasMemoryAdmission (input\<lparr>mu_content := c, mu_scope := sc\<rparr>) = hasMemoryAdmission input"
  by (simp_all add: metadata_of_def hasMemoryAdmission_def)

lemma fallback_has_admission: "hasMemoryAdmission (applyLayer1AdmissionFallback ph input)"
  by (simp add: applyLayer1AdmissionFallback_def applySystemLayer1AdmissionFallback_def Let_def)

lemma writeLayer1_inv:
  assumes "memory_inv m"
  shows "memory_inv (snd (writeLayer1 ph input m))"
proof (cases "not_admitted (metadata_of (applyLayer1AdmissionFallback ph input))")
  case True
  then show ?thesis using upsert_layer0_inv [OF assms] by (simp add: writeLayer1_def Let_def)
next
  case False
  let ?input = "applyLayer1AdmissionFallback ph input"
  obtain e l where up: "layer_upsert Layer1 ?input (memory_now m) (mm_layer1 m) = (e, l)" by fastforce
  obtain a where a: "meta_get (metadata_of ?input) MEMORY_ADMISSION = Some a"
    using has_admission_get [OF fallback_has_admission] by blast
  have "admitted e"
    using same_admission [of "me_metadata e" "metadata_of ?input"] upsert_admission(1) [OF up a] a False
      fallback_has_admission [of ph input]
    by (simp add: admitted_def hasMemoryAdmission_def)
  with False assms layer_upsert_inv [OF up] show ?thesis
    by (auto simp: writeLayer1_def Let_def upsert_layer1_def up memory_inv_def list_all_iff)
qed

text \<open>The commands of a memory: its two writes, those of the engine, and retrieval.\<close>

datatype memory_command =
    WriteLayer0 memory_upsert
  | WriteLayer1 memory_upsert
  | UserTurn string string
  | AssistantTurn string string
  | Retrieve retrieve_options

fun exec_memory :: "phrases \<Rightarrow> memory_command \<Rightarrow> memory_core \<Rightarrow> memory_core \<times> memory_hit list" where
  "exec_memory ph (WriteLayer0 input) m = (snd (writeLayer0 ph input m), [])"
| "exec_memory ph (WriteLayer1 input) m = (snd (writeLayer1 ph input m), [])"
| "exec_memory ph (UserTurn sessionId text') m = (writeUserMemory ph sessionId text' m, [])"
| "exec_memory ph (AssistantTurn sessionId text') m = (writeOutputMemory ph sessionId text' m, [])"
| "exec_memory ph (Retrieve options) m =
     (case retrieveScopedMemory options m of (hits, m') \<Rightarrow> (m', hits))"

lemma writeLayer0_inv: "memory_inv m \<Longrightarrow> memory_inv (snd (writeLayer0 ph input m))"
  by (simp add: writeLayer0_def upsert_layer0_inv)

lemma retrieve_layers_keeps:
  assumes "retrieve_layers options m = (hits, m')"
  shows "mm_layer0 m' = mm_layer0 m" and "mm_layer1 m' = mm_layer1 m" and "memory_inv m' = memory_inv m"
  using assms by (auto simp: retrieve_layers_def Let_def split: if_splits)

interpretation memory: command_machine "exec_memory ph" memory_inv for ph
proof
  fix m c
  assume inv: "memory_inv m"
  show "memory_inv (fst (exec_memory ph c m))"
  proof (cases c)
    case (Retrieve options)
    obtain hits m' where r: "retrieve_layers options m = (hits, m')" by fastforce
    then show ?thesis
      using inv retrieve_layers_keeps(3) [OF r] by (simp add: Retrieve retrieveScopedMemory_def)
  qed (use inv in \<open>simp_all add: writeLayer0_inv writeLayer1_inv writeUserMemory_def Let_def
      writeOutputMemory_def split: option.split\<close>)
qed

section \<open>What is retrieved\<close>

definition asked_layers :: "retrieve_options \<Rightarrow> memory_layer_name list" where
  "asked_layers options = nullish_else (ro_layers options) [Layer0, Layer1]"

definition layer_of :: "memory_core \<Rightarrow> memory_layer_name \<Rightarrow> layer_store" where
  "layer_of m layer = (case layer of Layer0 \<Rightarrow> mm_layer0 m | Layer1 \<Rightarrow> mm_layer1 m)"

text \<open>The reading of the clock at which a layer is scored.\<close>

definition reading :: "retrieve_options \<Rightarrow> memory_core \<Rightarrow> memory_layer_name \<Rightarrow> int" where
  "reading options m layer =
     memory_now (if layer = Layer1 \<and> Layer0 \<in> set (asked_layers options) then memory_tick m else m)"

definition scored_in :: "retrieve_options \<Rightarrow> memory_core \<Rightarrow> memory_entry \<Rightarrow> memory_hit" where
  "scored_in options m e = scored (ro_query options) (reading options m (me_layer e)) e"

text \<open>The entries that a retrieval is about.\<close>

definition in_reach :: "retrieve_options \<Rightarrow> memory_core \<Rightarrow> memory_entry \<Rightarrow> bool" where
  "in_reach options m e \<longleftrightarrow>
     me_layer e \<in> set (asked_layers options) \<and> e \<in> set (ly_entries (layer_of m (me_layer e))) \<and>
     matchesScope (me_scope e) (ro_scope options)"

definition layer_hits :: "retrieve_options \<Rightarrow> memory_core \<Rightarrow> memory_layer_name \<Rightarrow> memory_hit list" where
  "layer_hits options m layer =
     (if layer \<in> set (asked_layers options)
      then layer_retrieve options (reading options m layer) (layer_of m layer) else [])"

lemma retrieve_layers_eq:
  "fst (retrieve_layers options m) = layer_hits options m Layer0 @ layer_hits options m Layer1"
  by (simp add: retrieve_layers_def layer_hits_def asked_layers_def reading_def layer_of_def Let_def)

definition layer_pool :: "retrieve_options \<Rightarrow> memory_core \<Rightarrow> memory_layer_name \<Rightarrow> memory_hit list" where
  "layer_pool options m layer =
     map (scored (ro_query options) (reading options m layer))
       (listByScope (ro_scope options) (layer_of m layer))"

lemma layer_hits_pool:
  "layer \<in> set (asked_layers options) \<Longrightarrow>
   layer_hits options m layer =
     take (hit_limit (ro_limit options)) (js_sort best_first (layer_pool options m layer))"
  by (simp add: layer_hits_def layer_retrieve_def layer_pool_def)

lemma layer_inv_of: "memory_inv m \<Longrightarrow> layer_inv layer (layer_of m layer)"
  by (cases layer) (simp_all add: memory_inv_def layer_of_def)

lemma layer_pool_distinct:
  assumes "memory_inv m"
  shows "distinct (map (\<lambda>h. me_id (mh_entry h)) (layer_pool options m layer))"
proof -
  have "map (\<lambda>h. me_id (mh_entry h)) (layer_pool options m layer) =
      map me_id (listByScope (ro_scope options) (layer_of m layer))"
    by (simp add: layer_pool_def scored_def comp_def)
  moreover have "distinct (map me_id (ly_entries (layer_of m layer)))"
    using layer_inv_of [OF assms] by (simp add: layer_inv_def)
  ultimately show ?thesis
    by (simp add: listByScope_def distinct_map_filter)
qed

lemma layer_pool_reach:
  assumes "memory_inv m" and "layer \<in> set (asked_layers options)"
  shows "set (layer_pool options m layer) = scored_in options m ` {e. me_layer e = layer \<and> in_reach options m e}"
proof -
  have "\<forall>e \<in> set (ly_entries (layer_of m layer)). me_layer e = layer"
    using layer_inv_of [OF assms(1)] by (simp add: layer_inv_def list_all_iff)
  then show ?thesis
    using assms(2)
    by (auto simp: layer_pool_def listByScope_def in_reach_def scored_in_def image_iff)
qed

abbreviation hit_key :: "memory_hit \<Rightarrow> memory_layer_name \<times> string" where
  "hit_key h \<equiv> (me_layer (mh_entry h), me_id (mh_entry h))"

lemma dedupe_hits_distinct:
  "distinct (map hit_key hs) \<Longrightarrow> set seen \<inter> hit_key ` set hs = {} \<Longrightarrow> dedupe_hits seen hs = hs"
  by (induction hs arbitrary: seen) (auto simp: Let_def)

lemma layer_hits_sub: "set (layer_hits options m layer) \<subseteq> set (layer_pool options m layer)"
proof (cases "layer \<in> set (asked_layers options)")
  case True
  then show ?thesis using set_take_subset by (fastforce simp: layer_hits_pool)
qed (simp add: layer_hits_def)

lemma layer_hits_reach:
  assumes "memory_inv m" and "h \<in> set (layer_hits options m layer)"
  shows "in_reach options m (mh_entry h) \<and> h = scored_in options m (mh_entry h) \<and>
         me_layer (mh_entry h) = layer"
proof (cases "layer \<in> set (asked_layers options)")
  case True
  then have "h \<in> scored_in options m ` {e. me_layer e = layer \<and> in_reach options m e}"
    using layer_hits_sub assms(2) layer_pool_reach [OF assms(1) True] by blast
  then show ?thesis by (auto simp: scored_in_def scored_def)
next
  case False
  then show ?thesis using assms(2) by (simp add: layer_hits_def)
qed

lemma layer_hits_distinct:
  assumes "memory_inv m"
  shows "distinct (map (\<lambda>h. me_id (mh_entry h)) (layer_hits options m layer))"
proof (cases "layer \<in> set (asked_layers options)")
  case True
  have "distinct (map (\<lambda>h. me_id (mh_entry h)) (js_sort best_first (layer_pool options m layer)))"
    using layer_pool_distinct [OF assms] by simp
  then have "distinct (map (\<lambda>h. me_id (mh_entry h))
      (take (hit_limit (ro_limit options)) (js_sort best_first (layer_pool options m layer))))"
    unfolding take_map [symmetric] by (rule distinct_take)
  then show ?thesis by (simp add: layer_hits_pool [OF True])
qed (simp add: layer_hits_def)

lemma found_keys_distinct:
  assumes "memory_inv m"
  shows "distinct (map hit_key (fst (retrieve_layers options m)))"
proof -
  have "distinct (map hit_key (layer_hits options m layer))" for layer
    using layer_hits_distinct [OF assms, of options layer]
    by (auto simp: distinct_map inj_on_def)
  moreover have "hit_key ` set (layer_hits options m Layer0) \<inter> hit_key ` set (layer_hits options m Layer1) = {}"
    using layer_hits_reach [OF assms] by fastforce
  ultimately show ?thesis by (simp add: retrieve_layers_eq)
qed

lemma retrieve_eq:
  assumes "memory_inv m"
  shows "fst (retrieveScopedMemory options m) =
    take (hit_limit (ro_limit options))
      (js_sort best_first (filter (\<lambda>h. isRecallableHit h options) (fst (retrieve_layers options m))))"
  using dedupe_hits_distinct [OF found_keys_distinct [OF assms], of "[]" options]
  by (simp add: retrieveScopedMemory_def split_beta)

lemma retrieved_hits:
  assumes "memory_inv m" and "retrieveScopedMemory options m = (hits, m')"
  shows "length hits \<le> hit_limit (ro_limit options)"
    and "sorted_wrt (\<lambda>a b. best_first a b \<le> 0) hits" and "distinct (map hit_key hits)"
    and "list_all (\<lambda>h. in_reach options m (mh_entry h) \<and> h = scored_in options m (mh_entry h) \<and>
                       isRecallableHit h options) hits"
proof -
  let ?found = "filter (\<lambda>h. isRecallableHit h options) (fst (retrieve_layers options m))"
  have hits: "hits = take (hit_limit (ro_limit options)) (js_sort best_first ?found)"
    using retrieve_eq [OF assms(1), of options] assms(2) by simp
  show "length hits \<le> hit_limit (ro_limit options)" by (simp add: hits)
  show "sorted_wrt (\<lambda>a b. best_first a b \<le> 0) hits"
    using best_first.sort_ordered by (simp add: hits sorted_wrt_take)
  have "distinct (map hit_key (js_sort best_first ?found))"
    using found_keys_distinct [OF assms(1), of options] by (simp add: distinct_map_filter)
  then show "distinct (map hit_key hits)" unfolding hits take_map [symmetric] by (rule distinct_take)
  have "set hits \<subseteq> set ?found" unfolding hits using set_take_subset [of _ "js_sort best_first ?found"] by simp
  then show "list_all (\<lambda>h. in_reach options m (mh_entry h) \<and> h = scored_in options m (mh_entry h) \<and>
                       isRecallableHit h options) hits"
    using layer_hits_reach [OF assms(1)] by (fastforce simp: list_all_iff retrieve_layers_eq)
qed

lemma best_are_retrieved:
  assumes "memory_inv m" and "retrieveScopedMemory options m = (hits, m')"
    and all: "\<And>e. in_reach options m e \<Longrightarrow> isRecallableHit (scored_in options m e) options"
    and e: "in_reach options m e" and missed: "scored_in options m e \<notin> set hits"
  shows "length hits = hit_limit (ro_limit options)"
    and "list_all (\<lambda>h. best_first h (scored_in options m e) \<le> 0) hits"
proof -
  let ?k = "hit_limit (ro_limit options)" and ?found = "fst (retrieve_layers options m)"
  let ?layer = "me_layer e"
  have asked: "?layer \<in> set (asked_layers options)" using e by (simp add: in_reach_def)
  have "set ?found \<subseteq> {h. isRecallableHit h options}"
    using layer_hits_reach [OF assms(1)] all by (fastforce simp: retrieve_layers_eq)
  then have "filter (\<lambda>h. isRecallableHit h options) ?found = ?found"
    by (auto simp: filter_id_conv)
  then have hits: "hits = take ?k (js_sort best_first ?found)"
    using retrieve_eq [OF assms(1), of options] assms(2) by simp
  have x: "scored_in options m e \<in> set (layer_pool options m ?layer)"
    using layer_pool_reach [OF assms(1) asked] e by auto
  have "set (take ?k (js_sort best_first (layer_pool options m ?layer))) \<subseteq> set ?found"
    using layer_hits_pool [OF asked] by (cases ?layer) (auto simp: retrieve_layers_eq)
  moreover have "distinct (layer_pool options m ?layer)"
    using layer_pool_distinct [OF assms(1)] by (simp add: distinct_map)
  ultimately have full: "?k \<le> length ?found \<and>
      (\<forall>h \<in> set (take ?k (js_sort best_first ?found)). best_first h (scored_in options m e) \<le> 0)"
    using best_first.take_of_takes [OF x] missed hits by blast
  then show "length hits = ?k" "list_all (\<lambda>h. best_first h (scored_in options m e) \<le> 0) hits"
    by (simp_all add: hits list_all_iff)
qed

section \<open>Unsafe texts\<close>

lemma unsafe_decision:
  assumes "\<not> sn_safe (scanUserMemorySafety ph text')"
  shows "hd_retention (classifyUserMemoryInput ph text') \<in> {RetainNone, RetainQuarantine} \<and>
    hd_safety (classifyUserMemoryInput ph text') = scanUserMemorySafety ph text' \<and>
    hd_namespace (classifyUserMemoryInput ph text') \<in> {''memory:quarantine'', ''memory:discarded''}"
  using assms
  by (simp add: classifyUserMemoryInput_def Let_def dropDecision_def quarantineDecision_def)

text \<open>An entry that only a retrieval of its own namespace, or of what is set aside, returns.\<close>

definition set_aside :: "memory_upsert \<Rightarrow> bool" where
  "set_aside input \<longleftrightarrow>
     not_admitted (metadata_of input) \<and>
     mq_namespace (mu_scope input) \<in> {Some ''memory:quarantine'', Some ''memory:discarded''}"

lemma set_aside_not_recalled:
  assumes "set_aside input" and "layer_upsert layer input now l = (e, l')"
    and "mq_namespace (ro_scope options) \<notin> {Some ''memory:quarantine'', Some ''memory:discarded''}"
  shows "\<not> isRecallableHit \<lparr>mh_entry = e, mh_score = s\<rparr> options"
proof -
  have "readMemoryAdmission (metadata_of input) \<noteq> None"
    using assms(1) by (auto simp: set_aside_def not_admitted_def)
  then obtain a where "meta_get (metadata_of input) MEMORY_ADMISSION = Some a"
    by (auto simp: readMemoryAdmission_def split: Option.bind_splits)
  from upsert_admission [OF assms(2) this] same_admission [of "me_metadata e" "metadata_of input"] this
  have "not_admitted (me_metadata e)" "me_scope e = mu_scope input"
    using assms(1) by (simp_all add: set_aside_def)
  then show ?thesis using assms(1,3) by (auto simp: isRecallableHit_def set_aside_def Let_def)
qed

definition old_hit :: "memory_core \<Rightarrow> memory_hit \<Rightarrow> bool" where
  "old_hit m h \<longleftrightarrow>
     mh_entry h \<in> set (ly_entries (mm_layer0 m)) \<union> set (ly_entries (mm_layer1 m))"

lemma same_layers_old:
  assumes "memory_inv m" and "retrieveScopedMemory options m = (hits, m')"
  shows "list_all (old_hit m) hits"
proof -
  have "old_hit m h" if "in_reach options m (mh_entry h)" for h
    using that by (cases "me_layer (mh_entry h)") (auto simp: in_reach_def layer_of_def old_hit_def)
  then show ?thesis
    using retrieved_hits(4) [OF assms] by (auto simp: list_all_iff)
qed

lemma set_aside_write:
  assumes aside: "set_aside input" and inv: "memory_inv m"
    and ns: "mq_namespace (ro_scope options) \<notin> {Some ''memory:quarantine'', Some ''memory:discarded''}"
    and found: "retrieveScopedMemory options (snd (upsert_layer0 input m)) = (hits, m')"
  shows "list_all (old_hit m) hits"
proof -
  let ?m = "snd (upsert_layer0 input m)"
  obtain e l where up: "layer_upsert Layer0 input (memory_now m) (mm_layer0 m) = (e, l)" by fastforce
  have layers: "mm_layer0 ?m = l" "mm_layer1 ?m = mm_layer1 m"
    by (simp_all add: upsert_layer0_def up)
  have "memory_inv ?m" by (rule upsert_layer0_inv [OF inv])
  note hits = retrieved_hits(4) [OF this found] same_layers_old [OF this found]
  have "old_hit m h" if h: "h \<in> set hits" for h
  proof -
    have "mh_entry h = e \<or> old_hit m h"
      using hits(2) h layer_upsert_inv(2) [OF up] inv layers
      by (auto simp: list_all_iff old_hit_def memory_inv_def)
    moreover have "isRecallableHit h options" using hits(1) h by (simp add: list_all_iff)
    then have "mh_entry h \<noteq> e"
      using set_aside_not_recalled [OF aside up ns, of "mh_score h"] by (cases h) auto
    ultimately show ?thesis by blast
  qed
  then show ?thesis by (simp add: list_all_iff)
qed

lemma admission_set_aside:
  "not_admitted m \<longleftrightarrow> ma_retention a \<in> {RetainNone, RetainQuarantine}"
  if "meta_get m MEMORY_ADMISSION = Some (Admission a)" for m a
  using that by (cases "ma_retention a") (simp_all add: not_admitted_def readMemoryAdmission_def)

text \<open>What the ways to write an unsafe text write.\<close>

lemma unsafe_user_entry:
  assumes "\<not> sn_safe (scanUserMemorySafety ph text')"
    and "toMemoryUpsertInput (classifyUserMemoryInput ph text') text' scope options = Some entry"
  shows "set_aside entry \<and> hasMemoryAdmission entry"
  using assms(2) unsafe_decision [OF assms(1)]
    admission_set_aside [of "metadata_of entry" "admission_of (classifyUserMemoryInput ph text')
      (hd_reason (classifyUserMemoryInput ph text'))"]
  by (auto simp: toMemoryUpsertInput_def Let_def set_aside_def metadata_of_def hasMemoryAdmission_def
      readMemoryAdmission_def admission_of_def split: if_splits)

lemma unsafe_output_entry:
  assumes "\<not> sn_safe (scanUserMemorySafety ph text')"
    and "createAssistantOutputMemoryInput ph sessionId text' = Some entry"
  shows "set_aside entry \<and> hasMemoryAdmission entry"
  using assms(2) unsafe_decision [OF assms(1)]
  by (auto simp: createAssistantOutputMemoryInput_def Let_def set_aside_def metadata_of_def not_admitted_def
      hasMemoryAdmission_def readMemoryAdmission_def session_scope_def meta_get_def split: if_splits)

lemma unsafe_fallback:
  assumes "\<not> sn_safe (scanUserMemorySafety ph (mu_content input))" and "\<not> hasMemoryAdmission input"
  shows "set_aside (applyLayer1AdmissionFallback ph input)"
proof -
  let ?d = "classifyUserMemoryInput ph (mu_content input)"
  have "\<not> sn_safe (hd_safety ?d)" "hd_retention ?d \<in> {RetainNone, RetainQuarantine}"
    "hd_namespace ?d \<in> {''memory:quarantine'', ''memory:discarded''}"
    using unsafe_decision [OF assms(1)] assms(1) by auto
  then show ?thesis
    using assms(2)
    by (auto simp: applyLayer1AdmissionFallback_def Let_def set_aside_def shouldApplyUserLayer1Admission_def
        admission_set_aside admission_of_def)
qed

text \<open>The ways in which the text of a user, of an assistant or of a caller reaches the memory.\<close>

inductive text_written :: "phrases \<Rightarrow> string \<Rightarrow> memory_core \<Rightarrow> memory_core \<Rightarrow> bool" for ph text' m where
  by_user: "text_written ph text' m (writeUserMemory ph sessionId text' m)"
| by_assistant: "text_written ph text' m (writeOutputMemory ph sessionId text' m)"
| by_caller: "mu_content input = text' \<Longrightarrow> \<not> hasMemoryAdmission input \<Longrightarrow>
    text_written ph text' m (snd (writeLayer1 ph input m))"

lemma write_kept: "hasMemoryAdmission input \<Longrightarrow> writeLayer0 ph input m = upsert_layer0 input m"
  by (simp add: writeLayer0_def applyLayer0AdmissionFallback_def Let_def)

lemma unsafe_written:
  assumes "text_written ph text' m m1" and "\<not> sn_safe (scanUserMemorySafety ph text')"
  shows "m1 = m \<or> (\<exists>input. set_aside input \<and> m1 = snd (upsert_layer0 input m))"
  using assms(1)
proof cases
  case (by_user sessionId)
  then show ?thesis
    using unsafe_user_entry [OF assms(2)] unsafe_decision [OF assms(2)]
    by (auto simp: writeUserMemory_def Let_def write_kept split: option.splits)
next
  case (by_assistant sessionId)
  then show ?thesis
    using unsafe_output_entry [OF assms(2)] by (auto simp: writeOutputMemory_def write_kept split: option.splits)
next
  case (by_caller input)
  then have "set_aside (applyLayer1AdmissionFallback ph input)" using unsafe_fallback assms(2) by simp
  then show ?thesis using by_caller(1) by (auto simp: writeLayer1_def Let_def set_aside_def)
qed

end
