(* ===== verification/Engine_Memory.thy ===== *)
theory Engine_Memory
  imports Engine_Laws Engine_Runtime Memory_Laws
begin

text \<open>
  The engine over the memory that the runtime gives it (\<open>memory\<close> in
  \<open>apps/runtime-bootstrap/src/index.ts\<close>), and what a turn can do to what surrounds it: the model, the
  prompt, the memory and the tools of plugins, which only its dependencies change.
\<close>

section \<open>What surrounds a turn\<close>

definition keeps :: "('w \<Rightarrow> bool) \<Rightarrow> ('w, 'a) turn_step \<Rightarrow> bool" where
  "keeps P f \<longleftrightarrow> (\<forall>w. P (ew_outside w) \<longrightarrow> P (ew_outside (snd (f w))))"

lemma keepsI: "(\<And>w. P (ew_outside w) \<Longrightarrow> P (ew_outside (snd (f w)))) \<Longrightarrow> keeps P f"
  by (simp add: keeps_def)

lemma keepsD: "keeps P f \<Longrightarrow> P (ew_outside w) \<Longrightarrow> P (ew_outside (snd (f w)))"
  by (simp add: keeps_def)

named_theorems keeps_intros \<open>steps of a turn that keep a property of its surroundings\<close>

lemma keeps_chain [keeps_intros]:
  "keeps P f \<Longrightarrow> (\<And>x. keeps P (g x)) \<Longrightarrow> keeps P (\<lambda>w. chain (f w) (\<lambda>x w'. g x w'))"
  unfolding keeps_def chain_def by (auto split: prod.split sum.split dest: spec)

lemma keeps_next [keeps_intros]: "keeps P f \<Longrightarrow> keeps P g \<Longrightarrow> keeps P (next_step f g)"
  unfolding next_step_def by (rule keeps_chain)

lemma keeps_answer [keeps_intros]:
  "keeps P (Pair r)" "keeps P pass" "keeps P (\<lambda>w. (r' w, w))"
  "keeps P (\<lambda>w. (r, w\<lparr>ew_resumePending := b\<rparr>))"
  by (simp_all add: keeps_def pass_def)

lemma keeps_if [keeps_intros]: "keeps P f \<Longrightarrow> keeps P g \<Longrightarrow> keeps P (if b then f else g)"
  by simp

lemma keeps_case [keeps_intros]:
  "keeps P f \<Longrightarrow> (\<And>x. keeps P (g x)) \<Longrightarrow> keeps P (case y of None \<Rightarrow> f | Some x \<Rightarrow> g x)"
  by (simp split: option.split)

lemma keeps_store [keeps_intros]:
  "keeps P (on_store f)" "keeps P (\<lambda>w. on_store (h w) w)" "keeps P (on_recorder g)"
  "keeps P (persistLatestTurnObservation k m ob)"
  by (simp_all add: keeps_def on_store_def on_recorder_def persistLatestTurnObservation_def Let_def
      split: prod.split sum.split)

lemma keeps_each [keeps_intros]: "(\<And>x. keeps P (f x)) \<Longrightarrow> keeps P (each_step f xs)"
  by (induction xs) (auto intro: keeps_intros)

lemma keeps_outside: "(\<And>x. P x \<Longrightarrow> P (snd (f x))) \<Longrightarrow> keeps P (on_outside f)"
  by (auto simp: keeps_def on_outside_def split: prod.split sum.split) (metis snd_conv)+

lemma keeps_append [keeps_intros]: "keeps P (engineAppendJournal k ty p t)"
  unfolding engineAppendJournal_def by (intro keeps_chain keeps_store keeps_answer)

lemma keeps_evidence [keeps_intros]: "keeps P (engineRecordEvidence k kind p t)"
  unfolding engineRecordEvidence_def by (rule keeps_store)

lemma keeps_records [keeps_intros]:
  "keeps P (recordRuntimeDegradations k t ds)" "keeps P (recordTurnBranch k t b results)"
  "keeps P (recordStepRuntime k t i events st)"
  unfolding recordRuntimeDegradations_def recordTurnBranch_def recordStepRuntime_def
    recordStepEvent_def Let_def
  by (intro keeps_intros)+

lemma keeps_todo_write [keeps_intros]: "keeps P (record_todo_write k t result)"
  using keepsD [OF keeps_append]
  by (auto simp: keeps_def record_todo_write_def pass_def split: sum.split)

lemma keeps_built:
  fixes f :: "'w turn_frame"
  shows "keeps P (on_context_built f i e out task)"
  unfolding on_context_built_def
proof (rule keeps_next [OF keeps_records(3)], rule keepsI)
  fix w :: "'w turn_world"
  assume "P (ew_outside w)"
  then show "P (ew_outside (snd (next_step (on_recorder (beforeModelCall (frame_recorder f)
      (if ew_resumePending w then Some ''resuming interrupted turn'' else None)))
      (\<lambda>w'. (Inr (), w'\<lparr>ew_resumePending := False\<rparr>)) w)))"
    by (rule keepsD [rotated]) (intro keeps_intros)
qed

lemma keeps_step_completed:
  fixes f :: "'w turn_frame"
  shows "keeps P (on_step_completed f i r)"
proof (rule keepsI)
  fix w :: "'w turn_world"
  assume "P (ew_outside w)"
  then show "P (ew_outside (snd (on_step_completed f i r w)))"
    unfolding on_step_completed_def Let_def
    by (rule keepsD [rotated]) (intro keeps_intros)
qed

lemma keeps_failure: "keeps P (\<lambda>w. chain (recordModelRuntimeFailure deps k t p e w) g)"
  if "\<And>failure. keeps P (g failure)"
  using that unfolding recordModelRuntimeFailure_def Let_def by (intro keeps_intros)

lemma keeps_failed: "keeps P (turn_failed f e degradations)"
  unfolding turn_failed_def Let_def by (intro keeps_next keeps_if keeps_failure keeps_intros)

text \<open>What a turn needs of its surroundings to keep a property of them. The text is the user's.\<close>

locale steady_surroundings =
  fixes P :: "'w \<Rightarrow> bool" and deps :: "'w engine_deps" and user_text :: string
  assumes dispatch_keeps: "P (ew_outside w) \<Longrightarrow> P (ew_outside (snd (ed_dispatch deps call ctx w)))"
    and generate_keeps: "P x \<Longrightarrow> P (snd (ed_generate deps request x))"
    and prompt_keeps: "P x \<Longrightarrow> P (snd (ed_buildPrompt deps input x))"
    and user_keeps: "P x \<Longrightarrow> P (snd (ed_writeUserMemory deps k user_text x))"
    and output_keeps: "P x \<Longrightarrow> P (snd (ed_writeOutputMemory deps k out x))"
begin

lemma keeps_tool_call: "keeps P (run_tool_call deps ctx call)"
proof -
  have "keeps P (on_dispatcher (ed_dispatch deps c cx))" for c cx
    using dispatch_keeps
    by (auto simp: keeps_def on_dispatcher_def split: prod.split sum.split) (metis snd_conv)+
  then show ?thesis
    unfolding run_tool_call_def Let_def appendToolEvent_def by (intro keeps_intros)
qed

lemma keeps_tool_calls: "keeps P (run_tool_calls deps ctx calls)"
proof (induction calls)
  case Nil
  then show ?case by (simp add: keeps_def)
next
  case (Cons call calls)
  have "keeps P (\<lambda>w. chain (run_tool_call deps ctx call w) (\<lambda>result w1.
        chain (run_tool_calls deps ctx calls w1) (\<lambda>results w2. (Inr (result # results), w2))))"
    by (intro keeps_intros keeps_tool_call Cons)
  then show ?case by (simp add: keeps_def)
qed

lemma keeps_run_step:
  assumes "tf_deps f = deps"
  shows "keeps P (runStep (strategy_deps f) i m st)"
proof -
  let ?deps = "strategy_deps f"
  have model: "keeps P (call_model ?deps request degradations)" for request degradations
    using generate_keeps
    by (auto simp: keeps_def call_model_def strategy_deps_def assms split: prod.split sum.split)
      (metis snd_conv)+
  have prompt: "keeps P (sd_buildPrompt ?deps a b c d)" for a b c d
    unfolding strategy_deps_def step_deps.simps assms by (rule keeps_outside) (rule prompt_keeps)
  have built: "keeps P (sd_onContextBuilt ?deps a b c d)" for a b c d
    unfolding strategy_deps_def step_deps.simps by (rule keeps_built)
  have "keeps P (sd_executeToolCalls ?deps out)" for out
    unfolding strategy_deps_def step_deps.simps executeToolCalls_def assms by (rule keeps_tool_calls)
  then have after: "keeps P (after_model ?deps st e degradations out)" for st e degradations out
    unfolding after_model_def Let_def
    by (cases "rd_action (nullish_else (sd_decideReasoning ?deps) decideReasoningFromModelOutput out)
          \<noteq> CallTools") (simp_all add: keeps_answer keeps_chain)
  have step: "keeps P (\<lambda>w'. chain (sd_buildPrompt ?deps task (ls_toolResults st)
        (ls_runtimeDegradations st) tools w') (\<lambda>prompt s1.
      chain (sd_onContextBuilt ?deps i (context_built_event prompt) (ls_output st) task s1) (\<lambda>_ s2.
        chain (call_model ?deps (fst (model_request_of ?deps prompt st tools))
            (snd (model_request_of ?deps prompt st tools)) s2) (\<lambda>out.
          after_model ?deps st (context_built_event prompt)
            (snd (model_request_of ?deps prompt st tools)) out))))" for task tools
    by (intro keeps_chain prompt built model after)
  show ?thesis
  proof (rule keepsI)
    fix w :: "'w turn_world"
    assume "P (ew_outside w)"
    from keepsD [OF step this] show "P (ew_outside (snd (runStep ?deps i m st w)))"
      by (simp add: runStep_def Let_def case_prod_unfold)
  qed
qed

lemma keeps_loop:
  assumes "tf_deps f = deps"
  shows "keeps P (turn_loop f)"
proof (rule keepsI)
  fix w :: "'w turn_world"
  assume outside: "P (ew_outside w)"
  have "P (ew_outside (snd (step_loop (runStep (strategy_deps f)) (on_step_completed f) m i st n w)))"
    for m i st n
    by (rule step_loop_keeps [where P = "\<lambda>w. P (ew_outside w)"],
        erule keepsD [OF keeps_run_step [OF assms]], erule keepsD [OF keeps_step_completed],
        rule outside)
  then show "P (ew_outside (snd (turn_loop f w)))" by (simp add: turn_loop_def runLoop_def)
qed

lemma keeps_guarded:
  assumes "tf_deps f = deps"
  shows "keeps P (guarded_loop f)"
proof (rule keepsI)
  fix w :: "'w turn_world"
  assume "P (ew_outside w)"
  from keepsD [OF keeps_loop [OF assms] this] keepsD [OF keeps_failed, of P _ f]
  show "P (ew_outside (snd (guarded_loop f w)))"
    by (auto simp: guarded_loop_def split: prod.split sum.split engine_error.split)
qed

lemma keeps_body:
  assumes "tf_deps f = deps" and "tf_userText f = user_text"
  shows "keeps P (turn_body f)"
proof -
  have user: "keeps P (on_outside (ed_writeUserMemory deps k user_text))" for k
    by (rule keeps_outside) (rule user_keeps)
  have output': "keeps P (on_outside (ed_writeOutputMemory deps k out))" for k out
    by (rule keeps_outside) (rule output_keeps)
  have "keeps P (record_input f)"
    unfolding record_input_def Let_def assms
    by (intro keeps_if keeps_next keeps_case keeps_answer keeps_append user)
  moreover have "keeps P (close_turn f result)" for result
    unfolding close_turn_def Let_def assms
    by (intro keeps_next keeps_store keeps_records keeps_append keeps_answer output')
  ultimately show ?thesis
    unfolding turn_body_def
    by (intro keeps_next keeps_case keeps_chain keeps_guarded [OF assms(1)] keeps_answer keeps_store)
qed

lemma turn_keeps:
  assumes "in_userText input = user_text" and "P x" and "runTurn deps input s x = (r, s', x')"
  shows "P x'"
proof -
  have body: "P (ew_outside (snd (turn_body (turn_frame_of deps input session turnId v) w)))"
    if "ew_outside w = x" for session turnId v w
    using keepsD [OF keeps_body, of "turn_frame_of deps input session turnId v" w] assms(1,2) that
    by (simp add: turn_frame_of_def)
  have "P (snd (snd (start_turn (turn_frame_of deps input session turnId v) b s2 x)))"
    for session turnId v b s2
    using body [where w = "\<lparr>ew_store = s2, ew_board = b, ew_recorder = st, ew_resumePending = p,
        ew_outside = x\<rparr>" for st p] assms(2)
    by (auto simp: start_turn_def case_prod_unfold split: sum.split)
  then have "P (snd (snd (runTurn deps input s x)))"
    using assms(2) by (auto simp: runTurn_def case_prod_unfold split: prod.split sum.split)
  then show ?thesis by (simp add: assms(3))
qed

end

section \<open>The engine over the memory\<close>

text \<open>The state outside a turn is the memory and what the model, the prompt and the plugins' tools
  have of their own. The prompt may read the memory, and with it the clock; the plugins' tools and the
  model are not given it.\<close>

record 'x memory_parts =
  mp_phrases :: phrases
  mp_generate :: "model_request \<Rightarrow> 'x \<Rightarrow> (thrown + model_output) \<times> 'x"
  mp_buildPrompt ::
    "prompt_input \<Rightarrow> memory_core \<Rightarrow> 'x \<Rightarrow> (thrown + prompt_artifacts) \<times> nat \<times> 'x"
  mp_plugin :: "tool_request \<Rightarrow> 'x \<Rightarrow> (thrown + settlement) \<times> 'x"

definition memory_engine ::
  "'x memory_parts \<Rightarrow> (memory_core \<times> 'x) engine_deps \<Rightarrow> (memory_core \<times> 'x) engine_deps" where
  "memory_engine mp deps =
     deps\<lparr>ed_generate := (\<lambda>request (m, x).
            case mp_generate mp request x of (r, x') \<Rightarrow> (r, (m, x'))),
          ed_buildPrompt := (\<lambda>input (m, x).
            case mp_buildPrompt mp input m x of
              (r, readings, x') \<Rightarrow> (r, (m\<lparr>mm_ticks := mm_ticks m + readings\<rparr>, x'))),
          ed_writeUserMemory := (\<lambda>sessionId userText (m, x).
            (Inr (), (writeUserMemory (mp_phrases mp) sessionId userText m, x))),
          ed_writeOutputMemory := (\<lambda>sessionId out (m, x).
            (Inr (), (writeOutputMemory (mp_phrases mp) sessionId out m, x)))\<rparr>"

definition memory_runtime ::
  "'x memory_parts \<Rightarrow> tool_registry \<Rightarrow> process_env \<Rightarrow> (memory_core \<times> 'x) runtime_parts" where
  "memory_runtime mp registry env =
     \<lparr>rp_registry = registry, rp_env = env,
      rp_plugin = (\<lambda>rq (m, x). case mp_plugin mp rq x of (r, x') \<Rightarrow> (r, (m, x')))\<rparr>"

text \<open>A dispatch reaches the outside only through a plugin's tool.\<close>

lemma awaits_anything [simp]: "awaits_only (\<lambda>_. True) p"
  by (induction p) auto

lemma dispatch_outside:
  fixes w :: "'w turn_world"
  assumes "P (ew_outside w)" and "\<And>rq x. P x \<Longrightarrow> P (snd (rp_plugin parts rq x))"
  shows "P (ew_outside (snd (runtime_dispatch parts call ctx w)))"
  unfolding runtime_dispatch_def
proof (rule perform_keeps [OF awaits_anything, where P = "\<lambda>w. P (ew_outside w)"])
  fix u and w' :: "'w turn_world"
  assume "P (ew_outside w')"
  then show "P (ew_outside (snd (runtime_callback u w')))"
    by (cases u) (auto simp: runtime_sink_def Let_def split: prod.split sum.split)
next
  fix t and w' :: "'w turn_world"
  assume "P (ew_outside w')"
  then show "P (ew_outside (snd (runtime_tool (rp_plugin parts) t w')))"
    using assms(2) [of "ew_outside w'" t] by (auto simp: runtime_tool_def split: prod.split)
qed (rule assms(1))

text \<open>No entry with the text is recalled outside of what is set aside.\<close>

definition aside_entry :: "memory_entry \<Rightarrow> bool" where
  "aside_entry e \<longleftrightarrow>
     not_admitted (me_metadata e) \<and>
     mq_namespace (me_scope e) \<in> {Some ''memory:quarantine'', Some ''memory:discarded''}"

definition buried :: "string \<Rightarrow> memory_core \<Rightarrow> bool" where
  "buried text' m \<longleftrightarrow> memory_inv m \<and>
     list_all (\<lambda>e. me_content e = text' \<longrightarrow> aside_entry e)
       (ly_entries (mm_layer0 m) @ ly_entries (mm_layer1 m))"

lemma buried_ticks [simp]: "buried text' (m\<lparr>mm_ticks := n\<rparr>) = buried text' m"
  by (simp add: buried_def memory_inv_def)

lemma set_aside_entry:
  assumes "set_aside input" and "layer_upsert layer input now l = (e, l')"
  shows "aside_entry e"
proof -
  have "readMemoryAdmission (metadata_of input) \<noteq> None"
    using assms(1) by (auto simp: set_aside_def not_admitted_def)
  then obtain a where a: "meta_get (metadata_of input) MEMORY_ADMISSION = Some a"
    by (auto simp: readMemoryAdmission_def split: Option.bind_splits)
  from upsert_admission [OF assms(2) a] same_admission [of "me_metadata e" "metadata_of input"] a
  show ?thesis using assms(1) by (simp add: aside_entry_def set_aside_def)
qed

lemma upsert_layer0_buried:
  assumes "buried text' m" and "mu_content input = text' \<Longrightarrow> set_aside input"
    and "hasMemoryAdmission input"
  shows "buried text' (snd (upsert_layer0 input m))"
proof -
  obtain e l where up: "layer_upsert Layer0 input (memory_now m) (mm_layer0 m) = (e, l)" by fastforce
  obtain a where "meta_get (metadata_of input) MEMORY_ADMISSION = Some a"
    using has_admission_get [OF assms(3)] by blast
  from upsert_admission(3) [OF up this] have "me_content e = text' \<longrightarrow> aside_entry e"
    using set_aside_entry [OF _ up] assms(2) by auto
  moreover have "memory_inv (snd (upsert_layer0 input m))"
    using assms(1) by (simp add: upsert_layer0_inv buried_def)
  ultimately show ?thesis
    using assms(1) layer_upsert_inv(2) [OF up]
    by (auto simp: buried_def upsert_layer0_def up list_all_iff memory_inv_def)
qed

lemma unsafe_user_buried:
  assumes "buried text' m" and "\<not> sn_safe (scanUserMemorySafety ph text')"
  shows "buried text' (writeUserMemory ph sessionId text' m)"
  using unsafe_user_entry [OF assms(2)] unsafe_decision [OF assms(2)] upsert_layer0_buried [OF assms(1)]
    assms(1)
  by (auto simp: writeUserMemory_def Let_def write_kept split: option.split)

lemma output_buried:
  assumes "buried text' m" and unsafe: "\<not> sn_safe (scanUserMemorySafety ph text')"
  shows "buried text' (writeOutputMemory ph sessionId out m)"
proof (cases "createAssistantOutputMemoryInput ph sessionId out")
  case None
  then show ?thesis using assms(1) by (simp add: writeOutputMemory_def)
next
  case (Some entry)
  have has: "hasMemoryAdmission entry"
    using Some by (auto simp: createAssistantOutputMemoryInput_def Let_def metadata_of_def
        hasMemoryAdmission_def readMemoryAdmission_def meta_get_def split: if_splits)
  have "set_aside entry" if "mu_content entry = text'"
  proof (cases "hd_retention (classifyUserMemoryInput ph out) = RetainQuarantine")
    case True
    then show ?thesis
      using Some by (auto simp: createAssistantOutputMemoryInput_def Let_def set_aside_def metadata_of_def
          not_admitted_def readMemoryAdmission_def session_scope_def meta_get_def split: if_splits)
  next
    case False
    then have "out = text'"
      using Some that by (auto simp: createAssistantOutputMemoryInput_def Let_def split: if_splits)
    then show ?thesis using unsafe_output_entry [OF unsafe] Some by blast
  qed
  from upsert_layer0_buried [OF assms(1) this has] Some show ?thesis
    by (simp add: writeOutputMemory_def write_kept [OF has])
qed

interpretation memory_turn: steady_surroundings
  "\<lambda>(m, x). buried text' m \<and> \<not> sn_safe (scanUserMemorySafety (mp_phrases mp) text')"
  "runtime_engine (memory_runtime mp registry env) (memory_engine mp deps)" text'
  for text' mp registry env deps
proof
  fix w :: "(memory_core \<times> 'a) turn_world" and call ctx
  let ?P = "\<lambda>(m, x). buried text' m \<and> \<not> sn_safe (scanUserMemorySafety (mp_phrases mp) text')"
  assume "?P (ew_outside w)"
  then show "?P (ew_outside (snd (ed_dispatch (runtime_engine (memory_runtime mp registry env)
      (memory_engine mp deps)) call ctx w)))"
    unfolding runtime_engine_def
    by (simp del: split_paired_All) (rule dispatch_outside [where P = ?P],
      auto simp: memory_runtime_def split: prod.split)
qed (auto simp: runtime_engine_def memory_engine_def unsafe_user_buried output_buried split: prod.split)

text \<open>What a retrieval makes of that.\<close>

lemma buried_not_retrieved:
  assumes "buried text' m" and "retrieveScopedMemory options m = (hits, m')"
    and "mq_namespace (ro_scope options) \<notin> {Some ''memory:quarantine'', Some ''memory:discarded''}"
  shows "list_all (\<lambda>h. me_content (mh_entry h) \<noteq> text') hits"
proof -
  have inv: "memory_inv m" using assms(1) by (simp add: buried_def)
  have "me_content (mh_entry h) \<noteq> text'" if h: "h \<in> set hits" for h
  proof
    assume "me_content (mh_entry h) = text'"
    moreover have "old_hit m h" using same_layers_old [OF inv assms(2)] h by (simp add: list_all_iff)
    ultimately have "aside_entry (mh_entry h)"
      using assms(1) by (auto simp: buried_def old_hit_def list_all_iff)
    moreover have "isRecallableHit h options"
      using retrieved_hits(4) [OF inv assms(2)] h by (simp add: list_all_iff)
    ultimately show False using assms(3) by (auto simp: isRecallableHit_def aside_entry_def Let_def)
  qed
  then show ?thesis by (simp add: list_all_iff)
qed

end
